(* ===== verification/Prelude.thy ===== *)
theory Prelude
  imports Main "HOL-Library.Word"
begin

text \<open>
  Shared vocabulary of the development: the machine integers of the Rust sources as words, the
  \<open>Result\<close> type with the \<open>?\<close> operator, the checked and saturating arithmetic of the standard
  library, big-endian byte strings and UTF-8 validity. The collection \<open>unat_simps\<close> moves word
  goals to natural numbers, \<open>result_simps\<close> unfolds the error plumbing.
\<close>

section \<open>Fact collections\<close>

named_theorems unat_simps \<open>values of machine words as natural numbers\<close>

named_theorems result_simps \<open>unfolding of Result plumbing\<close>

section \<open>Machine integers\<close>

type_synonym u8 = "8 word"
type_synonym u16 = "16 word"
type_synonym u32 = "32 word"
type_synonym u64 = "64 word"
type_synonym u128 = "128 word"

text \<open>\<open>u64::MAX\<close>, \<open>u32::MAX\<close>, \<open>u128::MAX\<close>, and \<open>usize::MAX\<close> of the 64-bit targets. Lengths and
  offsets (\<open>usize\<close>) are natural numbers whose checked operations compare with \<open>USIZE_MAX\<close>.\<close>

abbreviation (input) U64_MAX :: nat where "U64_MAX \<equiv> 18446744073709551615"

abbreviation (input) U128_MAX :: nat where "U128_MAX \<equiv> 340282366920938463463374607431768211455"

abbreviation (input) U32_MAX :: nat where "U32_MAX \<equiv> 4294967295"

abbreviation (input) USIZE_MAX :: nat where "USIZE_MAX \<equiv> 18446744073709551615"

text \<open>\<open>u128::from(u64)\<close> and the lossless cast of \<open>algebra::types::widen_u64\<close>.\<close>

definition widen :: "u64 \<Rightarrow> u128" where
  "widen w = ucast w"

definition checked_add :: "'a::len word \<Rightarrow> 'a word \<Rightarrow> 'a word option" where
  "checked_add a b = (if unat a + unat b < 2 ^ LENGTH('a) then Some (a + b) else None)"

definition checked_sub :: "'a::len word \<Rightarrow> 'a word \<Rightarrow> 'a word option" where
  "checked_sub a b = (if b \<le> a then Some (a - b) else None)"

definition saturating_sub :: "'a::len word \<Rightarrow> 'a word \<Rightarrow> 'a word" where
  "saturating_sub a b = (if b \<le> a then a - b else 0)"

definition saturating_add :: "'a::len word \<Rightarrow> 'a word \<Rightarrow> 'a word" where
  "saturating_add a b = (if unat a + unat b < 2 ^ LENGTH('a) then a + b else - 1)"

definition checked_add_usize :: "nat \<Rightarrow> nat \<Rightarrow> nat option" where
  "checked_add_usize a b = (if a + b \<le> USIZE_MAX then Some (a + b) else None)"

definition checked_mul_usize :: "nat \<Rightarrow> nat \<Rightarrow> nat option" where
  "checked_mul_usize a b = (if a * b \<le> USIZE_MAX then Some (a * b) else None)"

section \<open>Results and the question-mark operator\<close>

type_synonym ('e, 'a) result = "'e + 'a"

abbreviation Ok :: "'a \<Rightarrow> ('e, 'a) result" where "Ok \<equiv> Inr"

abbreviation Err :: "'e \<Rightarrow> ('e, 'a) result" where "Err \<equiv> Inl"

definition andThen :: "('e, 'a) result \<Rightarrow> ('a \<Rightarrow> ('e, 'b) result) \<Rightarrow> ('e, 'b) result" where
  "andThen r f = (case r of Inl e \<Rightarrow> Inl e | Inr x \<Rightarrow> f x)"

definition ok_or :: "'a option \<Rightarrow> 'e \<Rightarrow> ('e, 'a) result" where
  "ok_or x e = (case x of None \<Rightarrow> Inl e | Some v \<Rightarrow> Inr v)"

definition is_ok :: "('e, 'a) result \<Rightarrow> bool" where
  "is_ok r = (case r of Inl _ \<Rightarrow> False | Inr _ \<Rightarrow> True)"

section \<open>Big-endian byte strings\<close>

fun be_bytes :: "nat \<Rightarrow> nat \<Rightarrow> u8 list" where
  "be_bytes 0 x = []"
| "be_bytes (Suc n) x = be_bytes n (x div 256) @ [of_nat (x mod 256)]"

definition be_value :: "u8 list \<Rightarrow> nat" where
  "be_value bs = foldl (\<lambda>acc b. acc * 256 + unat b) 0 bs"

section \<open>Strings\<close>

text \<open>A Rust \<open>String\<close> is its UTF-8 byte sequence; \<open>lit\<close> gives the bytes of an ASCII literal.\<close>

type_synonym rstring = "u8 list"

definition lit :: "string \<Rightarrow> rstring" where
  "lit s = map of_char s"

section \<open>Decimal printing\<close>

text \<open>\<open>Display\<close> of an unsigned integer.\<close>

fun decimal :: "nat \<Rightarrow> string" where
  "decimal n =
    (if n < 10 then [char_of (48 + n)] else decimal (n div 10) @ [char_of (48 + n mod 10)])"

declare decimal.simps [simp del]

section \<open>UTF-8 validity\<close>

definition between :: "u8 \<Rightarrow> u8 \<Rightarrow> u8 \<Rightarrow> bool" where
  "between lo b hi \<longleftrightarrow> lo \<le> b \<and> b \<le> hi"

text \<open>\<open>core::str::from_utf8\<close>: the well-formed byte sequences of Unicode Table 3-7.\<close>

fun utf8_valid :: "u8 list \<Rightarrow> bool" where
  "utf8_valid [] = True"
| "utf8_valid (a # bs) =
    (if a \<le> 0x7F then utf8_valid bs
     else case bs of [] \<Rightarrow> False
     | b # cs \<Rightarrow>
       (if between 0xC2 a 0xDF then between 0x80 b 0xBF \<and> utf8_valid cs
        else case cs of [] \<Rightarrow> False
        | c # ds \<Rightarrow>
          (if a = 0xE0 then between 0xA0 b 0xBF \<and> between 0x80 c 0xBF \<and> utf8_valid ds
           else if a = 0xED then between 0x80 b 0x9F \<and> between 0x80 c 0xBF \<and> utf8_valid ds
           else if between 0xE1 a 0xEF then between 0x80 b 0xBF \<and> between 0x80 c 0xBF \<and> utf8_valid ds
           else case ds of [] \<Rightarrow> False
           | d # es \<Rightarrow>
             (if a = 0xF0 then between 0x90 b 0xBF \<and> between 0x80 c 0xBF \<and> between 0x80 d 0xBF \<and> utf8_valid es
              else if between 0xF1 a 0xF3 then between 0x80 b 0xBF \<and> between 0x80 c 0xBF \<and> between 0x80 d 0xBF \<and> utf8_valid es
              else if a = 0xF4 then between 0x80 b 0x8F \<and> between 0x80 c 0xBF \<and> between 0x80 d 0xBF \<and> utf8_valid es
              else False))))"

section \<open>Lemmas on words\<close>

lemma unat_bound: "unat w < 2 ^ LENGTH('a)" for w :: "'a::len word"
  by (rule unsigned_less)

lemma unat_eqI: "unat a = unat b \<Longrightarrow> a = b"
  by (simp add: word_unat_eq_iff)

lemma of_nat_unat_eq: "unat w = n \<Longrightarrow> w = of_nat n"
  by auto

lemma unat_widen [simp, unat_simps]: "unat (widen w) = unat w"
proof -
  have "unat w < 2 ^ 128"
    using unat_bound [of w] by simp
  then show ?thesis
    by (simp add: widen_def unsigned_ucast_eq take_bit_nat_eq_self_iff)
qed

lemma widen_less [simp]: "widen a < widen b \<longleftrightarrow> a < b"
  by (simp add: word_less_nat_alt)

lemma widen_le [simp]: "widen a \<le> widen b \<longleftrightarrow> a \<le> b"
  by (simp add: word_le_nat_alt)

lemma unat_u64_le [simp]: "unat (w :: u64) \<le> U64_MAX"
  using unat_bound [of w] by simp

lemma unat_u64_less: "unat (w :: u64) < 2 ^ 64"
  using unat_bound [of w] by simp

lemma unat_u128_less: "unat (w :: u128) < 2 ^ 128"
  using unat_bound [of w] by simp

lemma unat_u32_le [simp]: "unat (w :: u32) \<le> U32_MAX"
  using unat_bound [of w] by simp

lemma unat_add_exact: "unat a + unat b < 2 ^ LENGTH('a) \<Longrightarrow> unat (a + b :: 'a::len word) = unat a + unat b"
  by (rule unat_add_lem [THEN iffD1])

lemma unat_mult_exact: "unat a * unat b < 2 ^ LENGTH('a) \<Longrightarrow> unat (a * b :: 'a::len word) = unat a * unat b"
  by (rule unat_mult_lem [THEN iffD1])

lemma unat_widen_mult [unat_simps]: "unat (widen a * widen b) = unat a * unat b"
proof -
  have "unat a * unat b < 2 ^ 64 * 2 ^ 64"
    by (rule mult_strict_mono) (use unat_u64_less [of a] unat_u64_less [of b] in auto)
  then show ?thesis
    by (subst unat_mult_exact) simp_all
qed

lemma unat_sub_exact: "b \<le> a \<Longrightarrow> unat (a - b :: 'a::len word) = unat a - unat b"
  by (rule unat_sub)

lemma checked_add_Some_iff:
  "checked_add a b = Some c \<longleftrightarrow> unat a + unat b < 2 ^ LENGTH('a) \<and> c = a + b"
  for a b c :: "'a::len word"
  by (auto simp: checked_add_def)

lemma checked_add_None_iff: "checked_add a b = None \<longleftrightarrow> 2 ^ LENGTH('a) \<le> unat a + unat b"
  for a b :: "'a::len word"
  by (auto simp: checked_add_def)

lemma checked_add_unat: "checked_add a b = Some c \<Longrightarrow> unat c = unat a + unat b"
  by (simp add: checked_add_Some_iff unat_add_exact)

lemma unat_saturating_sub [unat_simps]: "unat (saturating_sub a b) = unat a - unat b"
  by (auto simp: saturating_sub_def unat_sub word_le_nat_alt)

section \<open>Lemmas on results\<close>

lemma andThen_simps [simp, result_simps]:
  "andThen (Inl e) f = Inl e" "andThen (Inr x) f = f x"
  by (simp_all add: andThen_def)

lemma andThen_Ok_iff [result_simps]: "andThen r f = Inr y \<longleftrightarrow> (\<exists>x. r = Inr x \<and> f x = Inr y)"
  by (cases r) auto

lemma andThen_Err_iff: "andThen r f = Inl e \<longleftrightarrow> r = Inl e \<or> (\<exists>x. r = Inr x \<and> f x = Inl e)"
  by (cases r) auto

lemma andThen_assoc: "andThen (andThen r f) g = andThen r (\<lambda>x. andThen (f x) g)"
  by (cases r) simp_all

lemma ok_or_simps [simp, result_simps]: "ok_or None e = Inl e" "ok_or (Some v) e = Inr v"
  by (simp_all add: ok_or_def)

lemma ok_or_Ok_iff [result_simps]: "ok_or x e = Inr v \<longleftrightarrow> x = Some v"
  by (cases x) auto

lemma if_Err_Ok_iff [simp, result_simps]:
  "(if b then r else Inl e) = Inr z \<longleftrightarrow> b \<and> r = Inr z" "(if b then Inl e else r) = Inr z \<longleftrightarrow> \<not> b \<and> r = Inr z"
  by simp_all

lemma is_ok_simps [simp]: "is_ok (Inr x)" "\<not> is_ok (Inl e)"
  by (simp_all add: is_ok_def)

lemma is_ok_iff: "is_ok r \<longleftrightarrow> (\<exists>x. r = Inr x)"
  by (cases r) auto

section \<open>Lemmas on bytes\<close>

lemma length_be_bytes [simp]: "length (be_bytes n x) = n"
  by (induction n arbitrary: x) auto

lemma be_bytes_numeral:
  "be_bytes (numeral k) x = be_bytes (pred_numeral k) (x div 256) @ [of_nat (x mod 256)]"
  by (simp only: numeral_eq_Suc [of k] be_bytes.simps)

lemma be_value_Nil [simp]: "be_value [] = 0"
  by (simp add: be_value_def)

lemma be_value_snoc [simp]: "be_value (bs @ [b]) = be_value bs * 256 + unat b"
  by (simp add: be_value_def)

lemma be_value_be_bytes: "be_value (be_bytes n x) = x mod 256 ^ n"
proof (induction n arbitrary: x)
  case 0
  then show ?case by simp
next
  case (Suc n)
  have byte: "unat (of_nat (x mod 256) :: u8) = x mod 256"
    by (simp add: unat_of_nat)
  have "x mod 256 ^ Suc n = 256 * (x div 256 mod 256 ^ n) + x mod 256"
    by (simp add: mod_mult2_eq)
  then show ?case
    by (simp add: Suc byte)
qed

lemma be_value_bound: "be_value bs < 256 ^ length bs"
proof (induction bs rule: rev_induct)
  case Nil
  then show ?case by simp
next
  case (snoc b bs)
  have "unat b < 256" using unat_bound [of b] by simp
  with snoc show ?case by simp
qed

lemma be_bytes_be_value: "be_bytes (length bs) (be_value bs) = bs"
proof (induction bs rule: rev_induct)
  case Nil
  then show ?case by simp
next
  case (snoc b bs)
  have "unat b < 256" using unat_bound [of b] by simp
  with snoc show ?case by simp
qed

end
