(* ===== verification/Algebra.thy ===== *)
theory Algebra
  imports Prelude
begin

text \<open>
  The bounded-retention algebra of \<open>liminal-protocol/src/algebra\<close>: entry/byte resource vectors,
  the retained baseline \<open>B\<close>, the zero-debt and mandatory-class capacity checks against the
  mandatory bound \<open>Q\<close>, the recovery claim \<open>K\<close> and the configured cap, the transfer of a recovery
  charge from \<open>K\<close> into \<open>B\<close>, and the physical-floor rule. Machine widths are kept: claims are
  \<open>u64\<close>, sums are \<open>u128\<close> with the source's checked additions. The lemmas show that every formula
  is the exact integer one and how the checks relate to each other.
\<close>

section \<open>Data (types.rs)\<close>

record ResourceVector =
  rv_entries :: u64
  rv_bytes :: u64

record WideResourceVector =
  wv_entries :: u128
  wv_bytes :: u128

definition ResourceVector_new :: "u64 \<Rightarrow> u64 \<Rightarrow> ResourceVector" where
  "ResourceVector_new e b = \<lparr>rv_entries = e, rv_bytes = b\<rparr>"

definition WideResourceVector_new :: "u128 \<Rightarrow> u128 \<Rightarrow> WideResourceVector" where
  "WideResourceVector_new e b = \<lparr>wv_entries = e, wv_bytes = b\<rparr>"

definition widen_vector :: "ResourceVector \<Rightarrow> WideResourceVector" where
  "widen_vector v = WideResourceVector_new (widen (rv_entries v)) (widen (rv_bytes v))"

definition is_zero :: "WideResourceVector \<Rightarrow> bool" where
  "is_zero v \<longleftrightarrow> wv_entries v = 0 \<and> wv_bytes v = 0"

datatype (plugins only: code size) ResourceDimension = Entries | Bytes

datatype (plugins only: code size) BaselineError =
  MarkerCreditsExceedIdentitySlots (identity_slots: u64) (marker_credits: u64)

record MandatoryCapacity =
  debt :: WideResourceVector
  absolute_fit :: bool
  debt_within_mandatory_bound :: bool

definition is_legal :: "MandatoryCapacity \<Rightarrow> bool" where
  "is_legal c \<longleftrightarrow> absolute_fit c \<and> debt_within_mandatory_bound c"

record RecoveryTransfer =
  rt_baseline :: WideResourceVector
  rt_remaining_recovery_claim :: ResourceVector

datatype (plugins only: code size) RecoveryTransferError = RecoveryTransferError (rte_dimension: ResourceDimension)

record FloorComputation =
  member_cursor :: u64
  preferred_floor :: u128
  resulting_floor :: u128

section \<open>Capacity formulas (capacity.rs)\<close>

definition retained_baseline ::
  "ResourceVector \<Rightarrow> u64 \<Rightarrow> u64 \<Rightarrow> ResourceVector \<Rightarrow> (BaselineError, WideResourceVector) result" where
  "retained_baseline retained_charge slots credits marker_max =
    (if credits > slots then Err (MarkerCreditsExceedIdentitySlots slots credits)
     else
       let uncredited_slots = widen slots - widen credits;
           marker_entries = uncredited_slots * widen (rv_entries marker_max);
           marker_bytes = uncredited_slots * widen (rv_bytes marker_max)
       in Ok (WideResourceVector_new
            (widen (rv_entries retained_charge) + marker_entries)
            (widen (rv_bytes retained_charge) + marker_bytes)))"

definition component_fits :: "u128 \<Rightarrow> u64 \<Rightarrow> u64 \<Rightarrow> u64 \<Rightarrow> bool" where
  "component_fits baseline q k cap =
    (case checked_add baseline (widen q) of
       None \<Rightarrow> False
     | Some with_q \<Rightarrow>
       (case checked_add with_q (widen k) of
          None \<Rightarrow> False
        | Some required \<Rightarrow> required \<le> widen cap))"

definition zero_debt_capacity_failure ::
  "WideResourceVector \<Rightarrow> ResourceVector \<Rightarrow> ResourceVector \<Rightarrow> ResourceVector \<Rightarrow> ResourceDimension option" where
  "zero_debt_capacity_failure baseline mandatory_bound recovery_claim configured_cap =
    (if \<not> component_fits (wv_entries baseline) (rv_entries mandatory_bound)
           (rv_entries recovery_claim) (rv_entries configured_cap) then Some Entries
     else if \<not> component_fits (wv_bytes baseline) (rv_bytes mandatory_bound)
           (rv_bytes recovery_claim) (rv_bytes configured_cap) then Some Bytes
     else None)"

definition zero_debt_admission ::
  "WideResourceVector \<Rightarrow> ResourceVector \<Rightarrow> ResourceVector \<Rightarrow> ResourceVector \<Rightarrow> bool" where
  "zero_debt_admission baseline mandatory_bound recovery_claim configured_cap \<longleftrightarrow>
    zero_debt_capacity_failure baseline mandatory_bound recovery_claim configured_cap = None"

record MandatoryComponent =
  mc_debt :: u128
  mc_absolute_fit :: bool
  mc_debt_within_bound :: bool

definition mandatory_component :: "u128 \<Rightarrow> u64 \<Rightarrow> u64 \<Rightarrow> u64 \<Rightarrow> MandatoryComponent" where
  "mandatory_component baseline q0 k0 cap0 =
    (let q = widen q0; k = widen k0; cap = widen cap0;
         d = (case checked_add baseline q of
                Some with_q \<Rightarrow>
                  (case checked_add with_q k of
                     Some required \<Rightarrow> saturating_sub required cap
                   | None \<Rightarrow> - 1)
              | None \<Rightarrow> - 1);
         fit = (case checked_add baseline k of
                  Some required \<Rightarrow> required \<le> cap
                | None \<Rightarrow> False)
     in \<lparr>mc_debt = d, mc_absolute_fit = fit, mc_debt_within_bound = (d \<le> q)\<rparr>)"

definition mandatory_capacity ::
  "WideResourceVector \<Rightarrow> ResourceVector \<Rightarrow> ResourceVector \<Rightarrow> ResourceVector \<Rightarrow> MandatoryCapacity" where
  "mandatory_capacity resulting_baseline mandatory_bound remaining_recovery_claim configured_cap =
    (let entries = mandatory_component (wv_entries resulting_baseline) (rv_entries mandatory_bound)
                     (rv_entries remaining_recovery_claim) (rv_entries configured_cap);
         bytes = mandatory_component (wv_bytes resulting_baseline) (rv_bytes mandatory_bound)
                   (rv_bytes remaining_recovery_claim) (rv_bytes configured_cap)
     in \<lparr>debt = WideResourceVector_new (mc_debt entries) (mc_debt bytes),
         absolute_fit = (mc_absolute_fit entries \<and> mc_absolute_fit bytes),
         debt_within_mandatory_bound = (mc_debt_within_bound entries \<and> mc_debt_within_bound bytes)\<rparr>)"

definition recovery_transfer ::
  "WideResourceVector \<Rightarrow> ResourceVector \<Rightarrow> ResourceVector \<Rightarrow> (RecoveryTransferError, RecoveryTransfer) result" where
  "recovery_transfer baseline_after_removals remaining_recovery_claim charge =
    (if rv_entries charge > rv_entries remaining_recovery_claim then Err (RecoveryTransferError Entries)
     else if rv_bytes charge > rv_bytes remaining_recovery_claim then Err (RecoveryTransferError Bytes)
     else case checked_add (wv_entries baseline_after_removals) (widen (rv_entries charge)) of
       None \<Rightarrow> Err (RecoveryTransferError Entries)
     | Some entries \<Rightarrow>
       (case checked_add (wv_bytes baseline_after_removals) (widen (rv_bytes charge)) of
          None \<Rightarrow> Err (RecoveryTransferError Bytes)
        | Some bytes \<Rightarrow>
          Ok \<lparr>rt_baseline = WideResourceVector_new entries bytes,
              rt_remaining_recovery_claim = ResourceVector_new
                (rv_entries remaining_recovery_claim - rv_entries charge)
                (rv_bytes remaining_recovery_claim - rv_bytes charge)\<rparr>))"

definition no_edge_legal ::
  "WideResourceVector \<Rightarrow> WideResourceVector \<Rightarrow> ResourceVector \<Rightarrow> ResourceVector \<Rightarrow> ResourceVector \<Rightarrow> bool" where
  "no_edge_legal d baseline mandatory_bound full_recovery_claim configured_cap \<longleftrightarrow>
    is_zero d \<and> zero_debt_admission baseline mandatory_bound full_recovery_claim configured_cap"

section \<open>Floor formulas (floor.rs)\<close>

datatype (plugins only: code size) AdmissibleFloor = Install u128 | Subsumed

definition marker_clamped_floor :: "u128 \<Rightarrow> u64 option \<Rightarrow> u128" where
  "marker_clamped_floor computed_floor lowest_retained_marker_seq =
    (case lowest_retained_marker_seq of
       Some marker \<Rightarrow>
         (let marker = widen marker in if computed_floor < marker then computed_floor else marker)
     | None \<Rightarrow> computed_floor)"

definition admissible_installed_floor ::
  "u128 \<Rightarrow> u128 \<Rightarrow> u64 option \<Rightarrow> u64 \<Rightarrow> AdmissibleFloor" where
  "admissible_installed_floor measured_floor retained_floor lowest_retained_marker_seq high_watermark =
    (let retained_end = widen high_watermark + 1;
         upper = marker_clamped_floor retained_end lowest_retained_marker_seq;
         target = (if measured_floor < upper then measured_floor else upper)
     in if target < retained_floor then Subsumed else Install target)"

definition floor_transition ::
  "u128 \<Rightarrow> u64 option \<Rightarrow> u64 \<Rightarrow> u64 \<Rightarrow> u128 \<Rightarrow> FloorComputation" where
  "floor_transition current_floor minimum_member_cursor candidate_high_watermark observer_progress cap_floor =
    (let mc = (case minimum_member_cursor of Some cursor \<Rightarrow> cursor | None \<Rightarrow> candidate_high_watermark);
         preferred = (if mc < observer_progress then widen mc + 1 else widen observer_progress + 1);
         base_result = (if current_floor > preferred then current_floor else preferred);
         result = (if base_result > cap_floor then base_result else cap_floor)
     in \<lparr>member_cursor = mc, preferred_floor = preferred, resulting_floor = result\<rparr>)"

section \<open>Componentwise lemmas\<close>

lemma unat_widen_sub [unat_simps]: "b \<le> a \<Longrightarrow> unat (widen a - widen b) = unat a - unat b"
  by (subst unat_sub) simp_all

lemma unat_widen_Suc [unat_simps]: "unat (widen a + 1) = unat a + 1"
  using unat_u64_less [of a] by (subst unat_add_exact) simp_all

text \<open>A product of two \<open>u64\<close> values plus a third always fits \<open>u128\<close>.\<close>

lemma u64_mult_add_less:
  assumes "a \<le> U64_MAX" "b \<le> U64_MAX" "c \<le> U64_MAX"
  shows "c + a * b < 2 ^ 128"
proof -
  have "a * b \<le> U64_MAX * U64_MAX"
    using assms(1,2) by (rule mult_le_mono)
  then show ?thesis using assms(3) by simp
qed

lemma baseline_component:
  assumes "credits \<le> slots"
  shows "unat (widen charge + (widen slots - widen credits) * widen marker)
    = unat charge + (unat slots - unat credits) * unat marker"
proof -
  let ?n = "slots - credits"
  have n: "widen slots - widen credits = widen ?n"
    using assms by (intro unat_eqI) (simp add: unat_simps unat_sub)
  have "unat charge + unat ?n * unat marker < 2 ^ 128"
    by (rule u64_mult_add_less) simp_all
  then have "unat (widen charge + widen ?n * widen marker) = unat charge + unat ?n * unat marker"
    by (subst unat_add_exact) (simp_all add: unat_simps)
  then show ?thesis
    using assms by (simp add: n unat_sub)
qed

lemma component_fits_iff:
  "component_fits b q k cap \<longleftrightarrow> unat b + unat q + unat k \<le> unat cap"
proof -
  have cap: "unat cap < 2 ^ 64" by (rule unat_u64_less)
  show ?thesis
  proof (cases "unat b + unat q + unat k < 2 ^ 128")
    case True
    then have "unat (b + widen q) = unat b + unat q"
      by (subst unat_add_exact) simp_all
    with True show ?thesis
      by (simp add: component_fits_def checked_add_def unat_add_exact word_le_nat_alt)
  next
    case False
    with cap show ?thesis
      by (auto simp: component_fits_def checked_add_def unat_add_exact split: option.splits)
  qed
qed

lemma unat_max_u128: "unat (- 1 :: u128) = U128_MAX"
  by (simp add: unsigned_minus_1_eq_mask mask_eq_exp_minus_1)

lemma mandatory_component_debt:
  "unat (mc_debt (mandatory_component b q k cap)) =
    (if unat b + unat q + unat k < 2 ^ 128 then unat b + unat q + unat k - unat cap else U128_MAX)"
proof (cases "unat b + unat q < 2 ^ 128")
  case True
  then have "unat (b + widen q) = unat b + unat q"
    by (subst unat_add_exact) simp_all
  with True show ?thesis
    by (simp add: mandatory_component_def Let_def checked_add_def unat_add_exact unat_simps unat_max_u128)
next
  case False
  then show ?thesis
    by (simp add: mandatory_component_def Let_def checked_add_def unat_max_u128)
qed

lemma mandatory_component_fit:
  "mc_absolute_fit (mandatory_component b q k cap) \<longleftrightarrow> unat b + unat k \<le> unat cap"
proof -
  have "unat cap < 2 ^ 64" by (rule unat_u64_less)
  then show ?thesis
    by (simp add: mandatory_component_def Let_def checked_add_def unat_add_exact word_le_nat_alt)
qed

lemma mandatory_component_bound:
  "mc_debt_within_bound (mandatory_component b q k cap) \<longleftrightarrow> unat b + unat k \<le> unat cap"
proof -
  have q: "unat q < 2 ^ 64" and cap: "unat cap < 2 ^ 64" by (rule unat_u64_less)+
  have "mc_debt_within_bound (mandatory_component b q k cap)
      \<longleftrightarrow> unat (mc_debt (mandatory_component b q k cap)) \<le> unat q"
    by (simp add: mandatory_component_def Let_def word_le_nat_alt)
  with q cap show ?thesis by (auto simp: mandatory_component_debt)
qed

lemma mandatory_component_zero:
  "mc_debt (mandatory_component b q k cap) = 0 \<longleftrightarrow> component_fits b q k cap"
proof -
  have "unat cap < 2 ^ 64" by (rule unat_u64_less)
  moreover have "mc_debt (mandatory_component b q k cap) = 0
      \<longleftrightarrow> unat (mc_debt (mandatory_component b q k cap)) = 0"
    by (simp add: unat_eq_zero)
  ultimately show ?thesis
    by (auto simp: mandatory_component_debt component_fits_iff)
qed

text \<open>The component depends on the baseline and the claim only through their sum.\<close>

lemma mandatory_component_cong:
  assumes "unat b + unat k = unat b' + unat k'"
  shows "mandatory_component b q k cap = mandatory_component b' q k' cap"
proof (rule MandatoryComponent.equality)
  have "unat b + unat q + unat k = unat b' + unat q + unat k'"
    using assms by simp
  then show "mc_debt (mandatory_component b q k cap) = mc_debt (mandatory_component b' q k' cap)"
    by (intro unat_eqI) (simp only: mandatory_component_debt)
qed (simp_all add: mandatory_component_fit mandatory_component_bound assms)

lemmas mandatory_component_iff =
  mandatory_component_debt mandatory_component_fit mandatory_component_bound mandatory_component_zero

lemma mandatory_capacity_sel:
  "wv_entries (debt (mandatory_capacity b q k cap))
    = mc_debt (mandatory_component (wv_entries b) (rv_entries q) (rv_entries k) (rv_entries cap))"
  "wv_bytes (debt (mandatory_capacity b q k cap))
    = mc_debt (mandatory_component (wv_bytes b) (rv_bytes q) (rv_bytes k) (rv_bytes cap))"
  "absolute_fit (mandatory_capacity b q k cap) \<longleftrightarrow>
    unat (wv_entries b) + unat (rv_entries k) \<le> unat (rv_entries cap) \<and>
    unat (wv_bytes b) + unat (rv_bytes k) \<le> unat (rv_bytes cap)"
  "debt_within_mandatory_bound (mandatory_capacity b q k cap) \<longleftrightarrow>
    unat (wv_entries b) + unat (rv_entries k) \<le> unat (rv_entries cap) \<and>
    unat (wv_bytes b) + unat (rv_bytes k) \<le> unat (rv_bytes cap)"
  by (simp_all add: mandatory_capacity_def Let_def WideResourceVector_new_def mandatory_component_iff)

lemma zero_debt_admission_iff:
  "zero_debt_admission b q k cap \<longleftrightarrow>
    unat (wv_entries b) + unat (rv_entries q) + unat (rv_entries k) \<le> unat (rv_entries cap) \<and>
    unat (wv_bytes b) + unat (rv_bytes q) + unat (rv_bytes k) \<le> unat (rv_bytes cap)"
  by (simp add: zero_debt_admission_def zero_debt_capacity_failure_def component_fits_iff)

lemma recovery_transfer_Ok:
  assumes "recovery_transfer b k r = Ok t"
  shows "rv_entries r \<le> rv_entries k" "rv_bytes r \<le> rv_bytes k"
    "unat (wv_entries (rt_baseline t)) = unat (wv_entries b) + unat (rv_entries r)"
    "unat (wv_bytes (rt_baseline t)) = unat (wv_bytes b) + unat (rv_bytes r)"
    "unat (rv_entries (rt_remaining_recovery_claim t)) = unat (rv_entries k) - unat (rv_entries r)"
    "unat (rv_bytes (rt_remaining_recovery_claim t)) = unat (rv_bytes k) - unat (rv_bytes r)"
  using assms
  by (auto simp: recovery_transfer_def WideResourceVector_new_def ResourceVector_new_def
      checked_add_unat unat_sub not_less split: if_splits option.splits dest!: checked_add_unat)

section \<open>Properties\<close>

text \<open>\<open>retained_baseline\<close> computes \<open>B = S + (I - C) * marker_max\<close> over the integers in both
  components, with no wrap-around, and refuses exactly when \<open>C > I\<close>.\<close>

theorem retained_baseline_exact:
  "case retained_baseline s i c m of
     Inl e \<Rightarrow> unat i < unat c \<and> e = MarkerCreditsExceedIdentitySlots i c
   | Inr b \<Rightarrow> unat c \<le> unat i \<and>
       unat (wv_entries b) = unat (rv_entries s) + (unat i - unat c) * unat (rv_entries m) \<and>
       unat (wv_bytes b) = unat (rv_bytes s) + (unat i - unat c) * unat (rv_bytes m)"
  by (auto simp: retained_baseline_def Let_def WideResourceVector_new_def baseline_component
      word_less_nat_alt not_less word_le_nat_alt split: if_splits)

text \<open>in the mandatory class the absolute-fit check \<open>B' + K <= cap\<close> and the debt bound
  \<open>d' <= Q\<close> are the same condition, also when a \<open>u128\<close> sum overflows, so legality is exactly the
  absolute fit.\<close>

theorem mandatory_checks_coincide:
  "debt_within_mandatory_bound (mandatory_capacity b q k cap) = absolute_fit (mandatory_capacity b q k cap)
   \<and> (is_legal (mandatory_capacity b q k cap) \<longleftrightarrow>
       unat (wv_entries b) + unat (rv_entries k) \<le> unat (rv_entries cap) \<and>
       unat (wv_bytes b) + unat (rv_bytes k) \<le> unat (rv_bytes cap))"
  by (simp add: mandatory_capacity_sel is_legal_def)

text \<open>the debt computed by \<open>mandatory_capacity\<close> is zero exactly when the ordinary zero-debt
  admission invariant \<open>B + Q + K <= cap\<close> holds, so \<open>no_edge_legal\<close> on the computed debt is the
  zero-debt admission.\<close>

theorem no_edge_legal_iff_admission:
  "no_edge_legal (debt (mandatory_capacity b q k cap)) b q k cap = zero_debt_admission b q k cap
   \<and> is_zero (debt (mandatory_capacity b q k cap)) = zero_debt_admission b q k cap"
  by (simp add: no_edge_legal_def is_zero_def mandatory_capacity_sel mandatory_component_zero
      zero_debt_admission_iff component_fits_iff)

text \<open>C26: a successful recovery transfer counts the charge once: \<open>B + K\<close> is conserved in both
  components, so the mandatory capacity result (debt, absolute fit, bound) is unchanged.\<close>

theorem recovery_transfer_conserves_capacity:
  assumes "recovery_transfer b k r = Ok t"
  shows "unat (wv_entries (rt_baseline t)) + unat (rv_entries (rt_remaining_recovery_claim t))
        = unat (wv_entries b) + unat (rv_entries k)
    \<and> unat (wv_bytes (rt_baseline t)) + unat (rv_bytes (rt_remaining_recovery_claim t))
        = unat (wv_bytes b) + unat (rv_bytes k)
    \<and> mandatory_capacity (rt_baseline t) q (rt_remaining_recovery_claim t) cap
        = mandatory_capacity b q k cap"
proof -
  note ok = recovery_transfer_Ok [OF assms, unfolded word_le_nat_alt]
  have e: "unat (wv_entries (rt_baseline t)) + unat (rv_entries (rt_remaining_recovery_claim t))
      = unat (wv_entries b) + unat (rv_entries k)"
    using ok by simp
  have y: "unat (wv_bytes (rt_baseline t)) + unat (rv_bytes (rt_remaining_recovery_claim t))
      = unat (wv_bytes b) + unat (rv_bytes k)"
    using ok by simp
  have "mandatory_capacity (rt_baseline t) q (rt_remaining_recovery_claim t) cap
      = mandatory_capacity b q k cap"
    unfolding mandatory_capacity_def mandatory_component_cong [OF e] mandatory_component_cong [OF y] ..
  with e y show ?thesis by simp
qed

theorem recovery_transfer_conserves_capacity_witness:
  "let b = WideResourceVector_new 4 112; k = ResourceVector_new 2 56; r = ResourceVector_new 1 28;
       q = ResourceVector_new 2 56; cap = ResourceVector_new 9 252;
       t = \<lparr>rt_baseline = WideResourceVector_new 5 140, rt_remaining_recovery_claim = ResourceVector_new 1 28\<rparr>
   in recovery_transfer b k r = Ok t
    \<and> mandatory_capacity (rt_baseline t) q (rt_remaining_recovery_claim t) cap
        = mandatory_capacity b q k cap"
proof -
  let ?b = "WideResourceVector_new 4 112" and ?k = "ResourceVector_new 2 56"
  have "recovery_transfer ?b ?k (ResourceVector_new 1 28) = Ok \<lparr>rt_baseline = WideResourceVector_new 5 140,
      rt_remaining_recovery_claim = ResourceVector_new 1 28\<rparr>"
    by (simp add: recovery_transfer_def checked_add_def widen_def ResourceVector_new_def WideResourceVector_new_def)
  from this recovery_transfer_conserves_capacity [OF this] show ?thesis
    unfolding Let_def by blast
qed

text \<open>the entry-before-byte refusal of ordinary admission: \<open>Entries\<close> exactly when the entry sum
  \<open>B + Q + K\<close> exceeds the cap, \<open>Bytes\<close> exactly when only the byte sum does, and no failure exactly
  when both fit, all over the integers (an overflowing sum is a failure, never a wrapped success).\<close>

theorem zero_debt_capacity_failure_exact:
  "zero_debt_capacity_failure b q k cap =
    (if unat (rv_entries cap) < unat (wv_entries b) + unat (rv_entries q) + unat (rv_entries k) then Some Entries
     else if unat (rv_bytes cap) < unat (wv_bytes b) + unat (rv_bytes q) + unat (rv_bytes k) then Some Bytes
     else None)"
  by (simp add: zero_debt_capacity_failure_def component_fits_iff not_le)

text \<open>turning an uncredited slot into a retained marker record leaves the baseline unchanged:
  adding one marker charge to \<open>S\<close> and one credit to \<open>C\<close> gives the same \<open>B\<close>.\<close>

theorem marker_credit_keeps_baseline:
  assumes "unat c < unat i"
    and "unat (rv_entries s) + unat (rv_entries m) \<le> U64_MAX"
    and "unat (rv_bytes s) + unat (rv_bytes m) \<le> U64_MAX"
  shows "retained_baseline (ResourceVector_new (rv_entries s + rv_entries m) (rv_bytes s + rv_bytes m)) i (c + 1) m
    = retained_baseline s i c m"
proof -
  have c: "unat (c + 1) = unat c + 1"
    using assms(1) unat_u64_less [of i] by (subst unat_add_exact) simp_all
  have step: "unat (x + y) + (unat i - unat (c + 1)) * unat y = unat x + (unat i - unat c) * unat y"
    if "unat x + unat y \<le> U64_MAX" for x y :: u64
  proof -
    obtain n where n: "unat i - unat c = Suc n"
      using assms(1) by (cases "unat i - unat c") simp_all
    have "unat (x + y) = unat x + unat y"
      using that by (subst unat_add_exact) simp_all
    moreover have "unat i - unat (c + 1) = n"
      using n c by simp
    ultimately show ?thesis using n by simp
  qed
  have le: "c + 1 \<le> i" "c \<le> i"
    using assms(1) c by (simp_all add: word_le_nat_alt)
  have "widen (x + y) + (widen i - widen (c + 1)) * widen y = widen x + (widen i - widen c) * widen y"
    if "unat x + unat y \<le> U64_MAX" for x y
    by (intro unat_eqI) (simp add: baseline_component le step that)
  with assms(2,3) le show ?thesis
    by (simp add: retained_baseline_def ResourceVector_new_def Let_def not_less)
qed

theorem marker_credit_keeps_baseline_witness:
  "retained_baseline (ResourceVector_new 3 84) 1 1 (ResourceVector_new 1 28)
    = retained_baseline (ResourceVector_new 2 56) 1 0 (ResourceVector_new 1 28)"
  using marker_credit_keeps_baseline [of 0 1 "ResourceVector_new 2 56" "ResourceVector_new 1 28"]
  by (simp add: ResourceVector_new_def)

text \<open>the physical-floor rule is \<open>max F (max (min m observer + 1) cap_floor)\<close> over the integers,
  with the candidate high watermark for \<open>m\<close> when no member remains; in particular the floor never
  moves backwards.\<close>

theorem floor_transition_exact:
  "let r = floor_transition f m h obs cap;
       cursor = (case m of None \<Rightarrow> unat h | Some c \<Rightarrow> unat c)
   in unat (resulting_floor r) = max (unat f) (max (min cursor (unat obs) + 1) (unat cap))
    \<and> unat (member_cursor r) = cursor \<and> f \<le> resulting_floor r"
  by (auto simp: floor_transition_def Let_def unat_simps word_less_nat_alt word_le_nat_alt
      split: option.splits)

text \<open>a measured floor installs as its minimum with the current upper end (the lowest marker and
  one past the high watermark) exactly when that is not below the retained floor; otherwise it is
  subsumed. So an installed floor lies inside the admissible interval and is never raised above the
  measurement.\<close>

theorem admissible_installed_floor_exact:
  "let upper = (case marker of None \<Rightarrow> unat hw + 1 | Some k \<Rightarrow> min (unat hw + 1) (unat k));
       target = min (unat measured) upper
   in case admissible_installed_floor measured retained marker hw of
        Subsumed \<Rightarrow> target < unat retained
      | Install t \<Rightarrow> unat t = target \<and> unat retained \<le> unat t \<and> unat t \<le> upper \<and> t \<le> measured"
  by (auto simp: admissible_installed_floor_def marker_clamped_floor_def Let_def unat_simps
      word_less_nat_alt word_le_nat_alt not_less split: option.splits if_splits)

end
