(* ===== verification/Wire_Types.thy ===== *)
theory Wire_Types
  imports Algebra
begin

text \<open>
  The participant-protocol data of \<open>liminal-protocol/src/wire\<close> that the admission selectors, the
  ledgers and the request codec exchange: primitives, client requests, response envelopes, and the
  refusal payloads the admission selectors produce. Field names carry a short prefix of their struct.
\<close>

section \<open>Primitives (primitives.rs)\<close>

type_synonym ConversationId = u64
type_synonym ParticipantId = u64
type_synonym DeliverySeq = u64
type_synonym TransactionOrder = u64
type_synonym ObserverEpoch = u64

text \<open>\<open>Generation\<close> wraps \<open>NonZeroU64\<close>; \<open>Generation_new\<close> is its only constructor in the source.\<close>

datatype (plugins only: code size) Generation = Generation (generation_get: u64)

definition Generation_new :: "u64 \<Rightarrow> Generation option" where
  "Generation_new value = (if value = 0 then None else Some (Generation value))"

record ConnectionIncarnation =
  ci_server_incarnation :: u64
  ci_connection_ordinal :: u64

record BindingEpoch =
  be_connection_incarnation :: ConnectionIncarnation
  be_capability_generation :: Generation

text \<open>The fixed-width credentials (\<open>[u8; 16]\<close> tokens, \<open>[u8; 32]\<close> secret) are byte lists of that length.\<close>

type_synonym EnrollmentToken = "u8 list"
type_synonym AttachAttemptToken = "u8 list"
type_synonym DetachAttemptToken = "u8 list"
type_synonym LeaveAttemptToken = "u8 list"
type_synonym RecordAdmissionAttemptToken = "u8 list"
type_synonym AttachSecret = "u8 list"

section \<open>Client requests (request.rs)\<close>

record EnrollmentRequest =
  er_conversation_id :: ConversationId
  er_enrollment_token :: EnrollmentToken

record CredentialAttachRequest =
  car_conversation_id :: ConversationId
  car_participant_id :: ParticipantId
  car_capability_generation :: Generation
  car_attach_secret :: AttachSecret
  car_attach_attempt_token :: AttachAttemptToken
  car_accept_marker_delivery_seq :: "DeliverySeq option"

section \<open>Response envelopes (envelope.rs)\<close>

record EnrollmentEnvelope =
  ee_conversation_id :: ConversationId
  ee_enrollment_token :: EnrollmentToken

record AttachEnvelope =
  ae_conversation_id :: ConversationId
  ae_participant_id :: ParticipantId
  ae_capability_generation :: Generation
  ae_attach_attempt_token :: AttachAttemptToken
  ae_accept_marker_delivery_seq :: "DeliverySeq option"

record DetachEnvelope =
  de_conversation_id :: ConversationId
  de_participant_id :: ParticipantId
  de_capability_generation :: Generation
  de_detach_attempt_token :: DetachAttemptToken

record LeaveEnvelope =
  le_conversation_id :: ConversationId
  le_participant_id :: ParticipantId
  le_capability_generation :: Generation
  le_leave_attempt_token :: LeaveAttemptToken

record RecordAdmissionEnvelope =
  rae_conversation_id :: ConversationId
  rae_participant_id :: ParticipantId
  rae_capability_generation :: Generation
  rae_record_admission_attempt_token :: RecordAdmissionAttemptToken

section \<open>Refusal payloads (response.rs, sequence_budget.rs)\<close>

datatype (plugins only: code size) OrderAllocatingEnvelope =
    OrderEnrollment EnrollmentEnvelope
  | OrderCredentialAttach AttachEnvelope
  | OrderRecordAdmission RecordAdmissionEnvelope

record ConversationOrderExhausted =
  coe_request :: OrderAllocatingEnvelope
  coe_high :: u64
  coe_order_remaining :: u128
  coe_reserved_claims :: u128
  coe_resulting_order_remaining :: u128
  coe_resulting_reserved_claims :: u128

definition ConversationOrderExhausted_new ::
  "OrderAllocatingEnvelope \<Rightarrow> u64 \<Rightarrow> u128 \<Rightarrow> u128 \<Rightarrow> u128 \<Rightarrow> u128 \<Rightarrow> ConversationOrderExhausted" where
  "ConversationOrderExhausted_new request high order_remaining reserved_claims
      resulting_order_remaining resulting_reserved_claims =
    \<lparr>coe_request = request, coe_high = high, coe_order_remaining = order_remaining,
     coe_reserved_claims = reserved_claims, coe_resulting_order_remaining = resulting_order_remaining,
     coe_resulting_reserved_claims = resulting_reserved_claims\<rparr>"

definition coe_next_value :: "ConversationOrderExhausted \<Rightarrow> u64 option" where
  "coe_next_value e = checked_add (coe_high e) 1"

record SequenceBudget =
  sb_high_watermark :: u64
  sb_remaining :: u64
  sb_e :: u64
  sb_t :: u64
  sb_m :: u64
  sb_rs :: u64
  sb_rt :: u64
  sb_l_times_t :: u128
  sb_l_times_rt :: u128
  sb_l_other_times_e :: u128

datatype (plugins only: code size) SequenceAllocatingEnvelope =
    SequenceEnrollment EnrollmentEnvelope
  | SequenceCredentialAttach AttachEnvelope
  | SequenceRecordAdmission RecordAdmissionEnvelope

record ConversationSequenceExhausted =
  cse_request :: SequenceAllocatingEnvelope
  cse_sequence_budget :: SequenceBudget

datatype (plugins only: code size) ConnectionConversationBindingOccupied =
    OccupiedEnrollment ConversationId EnrollmentToken
  | OccupiedCredentialAttach ConversationId ParticipantId Generation AttachAttemptToken "DeliverySeq option"

datatype (plugins only: code size) IdentityCapacityScope = Server | Conversation

record IdentityCapacityExceeded =
  ice_request :: EnrollmentEnvelope
  ice_scope :: IdentityCapacityScope
  ice_limit :: u64
  ice_occupied :: u64

record ObserverBackpressureState =
  obs_backpressure_epoch :: ObserverEpoch
  obs_observer_progress :: DeliverySeq

definition ObserverBackpressureState_initial :: "DeliverySeq \<Rightarrow> ObserverBackpressureState" where
  "ObserverBackpressureState_initial progress =
    \<lparr>obs_backpressure_epoch = progress, obs_observer_progress = progress\<rparr>"

definition ObserverBackpressureState_replay ::
  "ObserverEpoch \<Rightarrow> DeliverySeq \<Rightarrow> ObserverBackpressureState option" where
  "ObserverBackpressureState_replay epoch progress =
    (if epoch = progress
     then Some \<lparr>obs_backpressure_epoch = epoch, obs_observer_progress = progress\<rparr>
     else None)"

datatype (plugins only: code size) ObserverBackpressure =
    BackpressureEnrollment EnrollmentEnvelope ObserverBackpressureState
  | BackpressureCredentialAttach AttachEnvelope ObserverBackpressureState
  | BackpressureDetach DetachEnvelope BindingEpoch ObserverBackpressureState
  | BackpressureLeave LeaveEnvelope ObserverBackpressureState bool
  | BackpressureRecordAdmission RecordAdmissionEnvelope ObserverBackpressureState

record RecordTooLarge =
  rtl_request :: RecordAdmissionEnvelope
  rtl_dimension :: ResourceDimension
  rtl_encoded_record_charge :: ResourceVector
  rtl_max_ordinary_record_charge :: ResourceVector

section \<open>Response authorities (authority/enrollment.rs, authority/credential_attach.rs)\<close>

text \<open>\<open>EnrollmentResponse\<close> and \<open>CredentialAttachResponse\<close> are sealed wrappers around the wire value
  their constructor functions choose; the constructors used by the capacity selectors are modelled.\<close>

datatype (plugins only: code size) EnrollmentResponse =
    EnrollmentBindingOccupied ConnectionConversationBindingOccupied
  | EnrollmentIdentityCapacityExceeded IdentityCapacityExceeded

datatype (plugins only: code size) CredentialAttachResponse =
    AttachBindingOccupied ConnectionConversationBindingOccupied

definition enrollment_binding_occupied :: "EnrollmentEnvelope \<Rightarrow> EnrollmentResponse" where
  "enrollment_binding_occupied request =
    EnrollmentBindingOccupied (OccupiedEnrollment (ee_conversation_id request) (ee_enrollment_token request))"

definition identity_capacity_exceeded :: "IdentityCapacityExceeded \<Rightarrow> EnrollmentResponse" where
  "identity_capacity_exceeded value = EnrollmentIdentityCapacityExceeded value"

definition attach_binding_occupied :: "AttachEnvelope \<Rightarrow> CredentialAttachResponse" where
  "attach_binding_occupied request =
    AttachBindingOccupied (OccupiedCredentialAttach (ae_conversation_id request) (ae_participant_id request)
      (ae_capability_generation request) (ae_attach_attempt_token request)
      (ae_accept_marker_delivery_seq request))"

section \<open>Lemmas\<close>

lemma replay_Some_iff:
  "ObserverBackpressureState_replay e p = Some s \<longleftrightarrow> e = p \<and> s = ObserverBackpressureState_initial p"
  by (auto simp: ObserverBackpressureState_replay_def ObserverBackpressureState_initial_def)

lemma coe_next_value_None: "coe_next_value e = None \<longleftrightarrow> unat (coe_high e) = U64_MAX"
  using unat_u64_less [of "coe_high e"] by (auto simp: coe_next_value_def checked_add_None_iff)

end
