(* ===== verification/Reserve_Ledger.thy ===== *)
theory Reserve_Ledger
  imports Main
begin

text \<open>
  The contract shared by the two reserve ledgers of \<open>liminal-protocol/src/lifecycle/admission\<close>. A
  ledger owns a finite suffix of unallocated counter values (its suffix size) and unmaterialized claims
  on that suffix (its demand); it is sound when every claim owns a value, i.e. demand does not exceed
  suffix. The locale states what an operation promises: it keeps the ledger sound and never gives
  allocated values back. Its lemmas lift both promises to every sequence of operations.
\<close>

locale reserve_ledger =
  fixes suffix :: "'l \<Rightarrow> nat"
    and demand :: "'l \<Rightarrow> nat"
    and operation :: "'l \<Rightarrow> 'l \<Rightarrow> bool"
  assumes operation_sound: "demand l \<le> suffix l \<Longrightarrow> operation l l' \<Longrightarrow> demand l' \<le> suffix l'"
    and operation_suffix: "operation l l' \<Longrightarrow> suffix l' \<le> suffix l"
begin

lemma run_sound:
  assumes "operation\<^sup>*\<^sup>* l l'" and "demand l \<le> suffix l"
  shows "demand l' \<le> suffix l'"
  using assms by (induction rule: rtranclp_induct) (auto intro: operation_sound)

lemma run_suffix:
  assumes "operation\<^sup>*\<^sup>* l l'"
  shows "suffix l' \<le> suffix l"
  using assms
proof (induction rule: rtranclp_induct)
  case base
  then show ?case by simp
next
  case (step y z)
  then show ?case using operation_suffix [of y z] by simp
qed

text \<open>The slack never exceeds the initial suffix, so a run cannot create capacity.\<close>

lemma run_slack_bound:
  assumes "operation\<^sup>*\<^sup>* l l'"
  shows "suffix l' - demand l' \<le> suffix l"
  using run_suffix [OF assms] by simp

end

end
