(* ===== verification/Sequence_Ledger.thy ===== *)
theory Sequence_Ledger
  imports Wire_Types Reserve_Ledger
begin

text \<open>
  The delivery-sequence ledger of \<open>lifecycle/admission/sequence.rs\<close>: the primitive claims \<open>L\<close>, \<open>T\<close>,
  \<open>M\<close> and the coupled recovery reserve \<open>RS/RT\<close>, the canonical ten-field budget derived from them,
  restoring a ledger, planning an operation, admitting the planned state, and the two fenced-recovery
  transfers. The lemmas show the reserve sum is the integer formula, that admission accepts exactly
  when the claims fit the remaining suffix, and that the reserved recovery can never fail.
\<close>

section \<open>Claims and budget\<close>

datatype (plugins only: code size) RecoverySequenceReserve = RecoveryNone | DetachedCredentialRecovery

fun recovery_claims :: "RecoverySequenceReserve \<Rightarrow> u64 \<times> u64" where
  "recovery_claims RecoveryNone = (0, 0)"
| "recovery_claims DetachedCredentialRecovery = (1, 1)"

record SequenceClaims =
  sc_live_members :: u64
  sc_binding_terminals :: u64
  sc_markers :: u64
  sc_recovery :: RecoverySequenceReserve

definition SequenceClaims_new :: "u64 \<Rightarrow> u64 \<Rightarrow> u64 \<Rightarrow> RecoverySequenceReserve \<Rightarrow> SequenceClaims" where
  "SequenceClaims_new l t m r =
    \<lparr>sc_live_members = l, sc_binding_terminals = t, sc_markers = m, sc_recovery = r\<rparr>"

definition claims_budget :: "SequenceClaims \<Rightarrow> u64 \<Rightarrow> SequenceBudget" where
  "claims_budget c high_watermark =
    (let live_members = widen (sc_live_members c);
         exits = sc_live_members c;
         exits_wide = widen exits;
         terminals = widen (sc_binding_terminals c);
         (rs, rt) = recovery_claims (sc_recovery c);
         replacement_terminals = widen rt;
         other_live_members = (if live_members = 0 then 0 else live_members - 1)
     in \<lparr>sb_high_watermark = high_watermark,
         sb_remaining = - 1 - high_watermark,
         sb_e = exits,
         sb_t = sc_binding_terminals c,
         sb_m = sc_markers c,
         sb_rs = rs,
         sb_rt = rt,
         sb_l_times_t = live_members * terminals,
         sb_l_times_rt = live_members * replacement_terminals,
         sb_l_other_times_e = other_live_members * exits_wide\<rparr>)"

definition checked_required_reserve :: "SequenceBudget \<Rightarrow> u128 option" where
  "checked_required_reserve b =
    Option.bind (checked_add (widen (sb_e b)) (widen (sb_t b))) (\<lambda>reserve.
    Option.bind (checked_add reserve (widen (sb_m b))) (\<lambda>reserve.
    Option.bind (checked_add reserve (widen (sb_rs b))) (\<lambda>reserve.
    Option.bind (checked_add reserve (widen (sb_rt b))) (\<lambda>reserve.
    Option.bind (checked_add reserve (sb_l_times_t b)) (\<lambda>reserve.
    Option.bind (checked_add reserve (sb_l_times_rt b)) (\<lambda>reserve.
    checked_add reserve (sb_l_other_times_e b)))))))"

section \<open>Ledger\<close>

datatype (plugins only: code size) SequenceLedgerInvariantError =
  SequenceClaimsExceedRemaining SequenceBudget "u128 option"

record SequenceLedger =
  sl_high_watermark :: u64
  sl_claims :: SequenceClaims
  sl_required_reserve :: u128

datatype (plugins only: code size) SequenceAdmissionError =
    SequenceExhausted ConversationSequenceExhausted
  | HighWatermarkOverflow u64 u64
  | LiveMemberClaimOverflow u64
  | BindingTerminalClaimOverflow u64
  | MarkerClaimOverflow u64 u64
  | RecoverySequenceReserveMissing
  | RecoverySequenceReserveAlreadyPresent
  | RecoverySequenceInvariantViolation

record ResultingSequenceState =
  rss_high_watermark :: u64
  rss_claims :: SequenceClaims

definition SequenceLedger_try_new ::
  "u64 \<Rightarrow> SequenceClaims \<Rightarrow> (SequenceLedgerInvariantError, SequenceLedger) result" where
  "SequenceLedger_try_new high_watermark claims =
    (let budget = claims_budget claims high_watermark in
     case checked_required_reserve budget of
       None \<Rightarrow> Err (SequenceClaimsExceedRemaining budget None)
     | Some required_reserve \<Rightarrow>
         if required_reserve > widen (sb_remaining budget)
         then Err (SequenceClaimsExceedRemaining budget (Some required_reserve))
         else Ok \<lparr>sl_high_watermark = high_watermark, sl_claims = claims,
                  sl_required_reserve = required_reserve\<rparr>)"

definition checked_high_watermark :: "SequenceLedger \<Rightarrow> u64 \<Rightarrow> (SequenceAdmissionError, u64) result" where
  "checked_high_watermark l required_values =
    ok_or (checked_add (sl_high_watermark l) required_values)
      (HighWatermarkOverflow (sl_high_watermark l) required_values)"

definition checked_markers :: "SequenceLedger \<Rightarrow> u64 \<Rightarrow> (SequenceAdmissionError, u64) result" where
  "checked_markers l new_markers =
    ok_or (checked_add (sc_markers (sl_claims l)) new_markers)
      (MarkerClaimOverflow (sc_markers (sl_claims l)) new_markers)"

definition checked_terminals :: "SequenceLedger \<Rightarrow> (SequenceAdmissionError, u64) result" where
  "checked_terminals l =
    ok_or (checked_add (sc_binding_terminals (sl_claims l)) 1)
      (BindingTerminalClaimOverflow (sc_binding_terminals (sl_claims l)))"

definition sequence_ensure_quartet :: "SequenceLedger \<Rightarrow> bool \<Rightarrow> (SequenceAdmissionError, unit) result" where
  "sequence_ensure_quartet l endow_recovery_quartet =
    (if endow_recovery_quartet \<and> sc_recovery (sl_claims l) = DetachedCredentialRecovery
     then Err RecoverySequenceReserveAlreadyPresent else Ok ())"

definition sequence_plan_enrollment ::
  "SequenceLedger \<Rightarrow> u64 \<Rightarrow> bool \<Rightarrow> (SequenceAdmissionError, ResultingSequenceState) result" where
  "sequence_plan_enrollment l new_markers endow_recovery_quartet =
    andThen (sequence_ensure_quartet l endow_recovery_quartet) (\<lambda>_.
    andThen (checked_high_watermark l 1) (\<lambda>high_watermark.
    andThen (ok_or (checked_add (sc_live_members (sl_claims l)) 1)
               (LiveMemberClaimOverflow (sc_live_members (sl_claims l)))) (\<lambda>live_members.
    andThen (checked_terminals l) (\<lambda>binding_terminals.
    andThen (checked_markers l new_markers) (\<lambda>markers.
    Ok \<lparr>rss_high_watermark = high_watermark,
        rss_claims = \<lparr>sc_live_members = live_members, sc_binding_terminals = binding_terminals,
          sc_markers = markers,
          sc_recovery = (if endow_recovery_quartet then DetachedCredentialRecovery
                         else sc_recovery (sl_claims l))\<rparr>\<rparr>)))))"

definition sequence_plan_ordinary_record ::
  "SequenceLedger \<Rightarrow> u64 \<Rightarrow> (SequenceAdmissionError, ResultingSequenceState) result" where
  "sequence_plan_ordinary_record l new_markers =
    andThen (checked_high_watermark l 1) (\<lambda>high_watermark.
    andThen (checked_markers l new_markers) (\<lambda>markers.
    Ok \<lparr>rss_high_watermark = high_watermark, rss_claims = (sl_claims l)\<lparr>sc_markers := markers\<rparr>\<rparr>))"

definition sequence_reserved_ledger ::
  "u64 \<Rightarrow> SequenceClaims \<Rightarrow> (SequenceAdmissionError, SequenceLedger) result" where
  "sequence_reserved_ledger high_watermark claims =
    (let budget = claims_budget claims high_watermark in
     andThen (ok_or (checked_required_reserve budget) RecoverySequenceInvariantViolation) (\<lambda>required_reserve.
     if required_reserve > widen (sb_remaining budget) then Err RecoverySequenceInvariantViolation
     else Ok \<lparr>sl_high_watermark = high_watermark, sl_claims = claims,
              sl_required_reserve = required_reserve\<rparr>))"

definition sequence_apply_fenced_recovery ::
  "SequenceLedger \<Rightarrow> (SequenceAdmissionError, SequenceLedger) result" where
  "sequence_apply_fenced_recovery l =
    (if sc_recovery (sl_claims l) \<noteq> DetachedCredentialRecovery then Err RecoverySequenceReserveMissing
     else
       andThen (checked_high_watermark l 1) (\<lambda>high_watermark.
       andThen (checked_terminals l) (\<lambda>binding_terminals.
       sequence_reserved_ledger high_watermark
         ((sl_claims l)\<lparr>sc_binding_terminals := binding_terminals, sc_recovery := RecoveryNone\<rparr>))))"

definition sequence_apply_fenced_recovery_finalizing_pending ::
  "SequenceLedger \<Rightarrow> (SequenceAdmissionError, SequenceLedger) result" where
  "sequence_apply_fenced_recovery_finalizing_pending l =
    (if sc_recovery (sl_claims l) \<noteq> DetachedCredentialRecovery then Err RecoverySequenceReserveMissing
     else if sc_binding_terminals (sl_claims l) = 0 then Err RecoverySequenceInvariantViolation
     else
       andThen (checked_high_watermark l 2) (\<lambda>high_watermark.
       sequence_reserved_ledger high_watermark ((sl_claims l)\<lparr>sc_recovery := RecoveryNone\<rparr>)))"

definition admit_sequence ::
  "SequenceAllocatingEnvelope \<Rightarrow> ResultingSequenceState \<Rightarrow> (SequenceAdmissionError, SequenceLedger) result" where
  "admit_sequence request resulting =
    (let budget = claims_budget (rss_claims resulting) (rss_high_watermark resulting) in
     case checked_required_reserve budget of
       None \<Rightarrow> Err (SequenceExhausted \<lparr>cse_request = request, cse_sequence_budget = budget\<rparr>)
     | Some required_reserve \<Rightarrow>
         if required_reserve > widen (sb_remaining budget)
         then Err (SequenceExhausted \<lparr>cse_request = request, cse_sequence_budget = budget\<rparr>)
         else Ok \<lparr>sl_high_watermark = rss_high_watermark resulting, sl_claims = rss_claims resulting,
                  sl_required_reserve = required_reserve\<rparr>)"

section \<open>Specification: the reserve over the natural numbers\<close>

fun recovery_count :: "RecoverySequenceReserve \<Rightarrow> nat" where
  "recovery_count RecoveryNone = 0"
| "recovery_count DetachedCredentialRecovery = 1"

definition sequence_demand :: "SequenceClaims \<Rightarrow> nat" where
  "sequence_demand c =
    (let l = unat (sc_live_members c); t = unat (sc_binding_terminals c);
         r = recovery_count (sc_recovery c)
     in l + t + unat (sc_markers c) + r + r + l * t + l * r + (l - 1) * l)"

definition sequence_suffix :: "u64 \<Rightarrow> nat" where
  "sequence_suffix high_watermark = U64_MAX - unat high_watermark"

definition sequence_ledger_valid :: "SequenceLedger \<Rightarrow> bool" where
  "sequence_ledger_valid l \<longleftrightarrow>
    unat (sl_required_reserve l) = sequence_demand (sl_claims l) \<and>
    sequence_demand (sl_claims l) \<le> sequence_suffix (sl_high_watermark l)"

text \<open>One ledger operation: an enrollment or an ordinary record that was planned and admitted, or
  one of the two reserved recovery transfers.\<close>

inductive sequence_operation :: "SequenceLedger \<Rightarrow> SequenceLedger \<Rightarrow> bool" where
  enrollment: "sequence_plan_enrollment l n q = Ok p \<Longrightarrow> admit_sequence env p = Ok l' \<Longrightarrow> sequence_operation l l'"
| ordinary: "sequence_plan_ordinary_record l n = Ok p \<Longrightarrow> admit_sequence env p = Ok l' \<Longrightarrow> sequence_operation l l'"
| recovery: "sequence_apply_fenced_recovery l = Ok l' \<Longrightarrow> sequence_operation l l'"
| recovery_pending: "sequence_apply_fenced_recovery_finalizing_pending l = Ok l' \<Longrightarrow> sequence_operation l l'"

section \<open>The checked sum is the integer sum\<close>

lemma checked_add_bind_some:
  "Option.bind (checked_add a b) f = Some r \<longleftrightarrow>
    unat a + unat b < 2 ^ LENGTH('a) \<and> f (a + b) = Some r"
  for a b :: "'a::len word"
  by (auto simp: checked_add_def bind_eq_Some_conv)

lemma unat_remaining [unat_simps]: "unat (- 1 - h :: u64) = U64_MAX - unat h"
proof -
  have "unat (- 1 - h) = unat (- 1 :: u64) - unat h"
    by (rule unat_sub) simp
  then show ?thesis
    by (simp add: unsigned_minus_1_eq_mask mask_eq_exp_minus_1)
qed

lemma unat_other_members:
  "unat ((if widen l = 0 then 0 else widen l - 1) * widen l) = (unat l - 1) * unat l"
proof (cases "l = 0")
  case True
  then show ?thesis by (simp add: widen_def)
next
  case False
  then have "1 \<le> l" by (simp add: word_le_nat_alt unat_eq_zero flip: neq0_conv) (simp add: Suc_leI unat_gt_0)
  then have sub: "widen l - 1 = widen (l - 1)"
    by (intro unat_eqI) (simp add: unat_sub word_le_nat_alt)
  have "widen l \<noteq> 0"
    using False by (simp add: word_unat_eq_iff)
  then show ?thesis
    using \<open>1 \<le> l\<close> by (simp add: sub unat_simps unat_sub)
qed

lemma recovery_claims_unat:
  "unat (fst (recovery_claims r)) = recovery_count r" "unat (snd (recovery_claims r)) = recovery_count r"
  by (cases r; simp)+

lemma reserve_terms:
  fixes c h
  defines "b \<equiv> claims_budget c h"
  shows "unat (sb_e b) = unat (sc_live_members c)" "unat (sb_t b) = unat (sc_binding_terminals c)"
    "unat (sb_m b) = unat (sc_markers c)"
    "unat (sb_rs b) = recovery_count (sc_recovery c)" "unat (sb_rt b) = recovery_count (sc_recovery c)"
    "unat (sb_l_times_t b) = unat (sc_live_members c) * unat (sc_binding_terminals c)"
    "unat (sb_l_times_rt b) = unat (sc_live_members c) * recovery_count (sc_recovery c)"
    "unat (sb_l_other_times_e b) = (unat (sc_live_members c) - 1) * unat (sc_live_members c)"
    "unat (sb_remaining b) = sequence_suffix h" "sb_high_watermark b = h"
  by (simp_all add: b_def claims_budget_def Let_def case_prod_beta unat_simps unat_other_members
      recovery_claims_unat sequence_suffix_def)

text \<open>A chain of checked additions succeeds exactly when the whole sum fits.\<close>

fun checked_sum :: "u128 \<Rightarrow> u128 list \<Rightarrow> u128 option" where
  "checked_sum acc [] = Some acc"
| "checked_sum acc (x # xs) = Option.bind (checked_add acc x) (\<lambda>acc. checked_sum acc xs)"

lemma checked_sum_exact:
  "case checked_sum acc xs of
     Some r \<Rightarrow> unat r = unat acc + sum_list (map unat xs)
   | None \<Rightarrow> 2 ^ 128 \<le> unat acc + sum_list (map unat xs)"
proof (induction xs arbitrary: acc)
  case Nil
  then show ?case by simp
next
  case (Cons x xs)
  show ?case
  proof (cases "checked_add acc x")
    case None
    then have "2 ^ 128 \<le> unat acc + unat x" by (simp add: checked_add_None_iff)
    with None show ?thesis by simp
  next
    case (Some a)
    with Cons [of a] show ?thesis
      by (simp add: checked_add_unat [OF Some] add.assoc split: option.splits)
  qed
qed

lemma checked_required_reserve_sum:
  "checked_required_reserve b = checked_sum (widen (sb_e b))
    [widen (sb_t b), widen (sb_m b), widen (sb_rs b), widen (sb_rt b),
     sb_l_times_t b, sb_l_times_rt b, sb_l_other_times_e b]"
  by (simp add: checked_required_reserve_def)

lemma checked_required_reserve_exact:
  "case checked_required_reserve (claims_budget c h) of
     Some r \<Rightarrow> unat r = sequence_demand c
   | None \<Rightarrow> 2 ^ 128 \<le> sequence_demand c"
proof -
  let ?b = "claims_budget c h"
  have "sequence_demand c = unat (widen (sb_e ?b)) + sum_list (map unat
      [widen (sb_t ?b), widen (sb_m ?b), widen (sb_rs ?b), widen (sb_rt ?b),
       sb_l_times_t ?b, sb_l_times_rt ?b, sb_l_other_times_e ?b])"
    by (simp add: reserve_terms sequence_demand_def Let_def)
  then show ?thesis
    unfolding checked_required_reserve_sum by (simp only: checked_sum_exact)
qed

lemma reserve_gate:
  fixes c h
  defines "b \<equiv> claims_budget c h"
  shows "(\<exists>r. checked_required_reserve b = Some r \<and> \<not> r > widen (sb_remaining b))
    \<longleftrightarrow> sequence_demand c \<le> sequence_suffix h"
proof -
  have small: "sequence_suffix h < 2 ^ 128"
    by (simp add: sequence_suffix_def)
  show ?thesis
    using checked_required_reserve_exact [of c h] small
    by (auto simp: b_def reserve_terms not_less word_le_nat_alt split: option.splits)
qed

lemma gate_cases:
  fixes c h
  defines "b \<equiv> claims_budget c h"
  obtains (fits) r where "checked_required_reserve b = Some r" "\<not> r > widen (sb_remaining b)"
      "unat r = sequence_demand c" "sequence_demand c \<le> sequence_suffix h"
    | (overflow) "checked_required_reserve b = None" "sequence_suffix h < sequence_demand c"
    | (excess) r where "checked_required_reserve b = Some r" "r > widen (sb_remaining b)"
      "unat r = sequence_demand c" "sequence_suffix h < sequence_demand c"
proof (cases "checked_required_reserve b")
  case None
  with reserve_gate [of c h] show ?thesis
    by (intro overflow) (auto simp: b_def not_le)
next
  case (Some r)
  with checked_required_reserve_exact [of c h] have r: "unat r = sequence_demand c"
    by (simp add: b_def)
  show ?thesis
  proof (cases "r > widen (sb_remaining b)")
    case True
    with Some r show ?thesis
      by (intro excess) (simp_all add: b_def reserve_terms word_less_nat_alt)
  next
    case False
    with Some r show ?thesis
      by (intro fits) (simp_all add: b_def reserve_terms not_less word_le_nat_alt)
  qed
qed

section \<open>Operations on valid ledgers\<close>

lemma admit_sequence_cases:
  "admit_sequence env p =
    (if sequence_demand (rss_claims p) \<le> sequence_suffix (rss_high_watermark p)
     then Ok \<lparr>sl_high_watermark = rss_high_watermark p, sl_claims = rss_claims p,
              sl_required_reserve = of_nat (sequence_demand (rss_claims p))\<rparr>
     else Err (SequenceExhausted \<lparr>cse_request = env,
              cse_sequence_budget = claims_budget (rss_claims p) (rss_high_watermark p)\<rparr>))"
  by (cases rule: gate_cases [of "rss_claims p" "rss_high_watermark p"])
    (auto simp: admit_sequence_def Let_def of_nat_unat_eq)

lemma SequenceLedger_try_new_Ok_iff:
  "(\<exists>l. SequenceLedger_try_new h c = Ok l) \<longleftrightarrow> sequence_demand c \<le> sequence_suffix h"
  by (cases rule: gate_cases [of c h]) (auto simp: SequenceLedger_try_new_def Let_def)

lemma SequenceLedger_try_new_valid:
  "SequenceLedger_try_new h c = Ok l \<Longrightarrow>
    sequence_ledger_valid l \<and> sl_high_watermark l = h \<and> sl_claims l = c"
  by (cases rule: gate_cases [of c h]) (auto simp: SequenceLedger_try_new_def Let_def sequence_ledger_valid_def)

lemma sequence_reserved_ledger_cases:
  "sequence_reserved_ledger h c =
    (if sequence_demand c \<le> sequence_suffix h
     then Ok \<lparr>sl_high_watermark = h, sl_claims = c, sl_required_reserve = of_nat (sequence_demand c)\<rparr>
     else Err RecoverySequenceInvariantViolation)"
  by (cases rule: gate_cases [of c h])
    (auto simp: sequence_reserved_ledger_def Let_def of_nat_unat_eq)

lemma unat_of_nat_suffix: "n \<le> sequence_suffix h \<Longrightarrow> unat (of_nat n :: u128) = n"
  by (simp add: unat_of_nat sequence_suffix_def)

lemma sequence_operation_valid: "sequence_operation l l' \<Longrightarrow> sequence_ledger_valid l'"
  by (erule sequence_operation.cases)
    (auto simp: admit_sequence_cases sequence_reserved_ledger_cases sequence_apply_fenced_recovery_def
      sequence_apply_fenced_recovery_finalizing_pending_def sequence_ledger_valid_def unat_of_nat_suffix
      result_simps split: if_splits)

lemma checked_high_watermark_Ok:
  "checked_high_watermark l n = Ok h \<Longrightarrow> unat h = unat (sl_high_watermark l) + unat n"
  by (auto simp: checked_high_watermark_def result_simps dest: checked_add_unat)

lemma sequence_operation_watermark:
  "sequence_operation l l' \<Longrightarrow> unat (sl_high_watermark l) < unat (sl_high_watermark l')"
  by (erule sequence_operation.cases)
    (auto simp: admit_sequence_cases sequence_reserved_ledger_cases sequence_apply_fenced_recovery_def
      sequence_apply_fenced_recovery_finalizing_pending_def sequence_plan_enrollment_def
      sequence_plan_ordinary_record_def result_simps dest!: checked_high_watermark_Ok split: if_splits)

interpretation seq: reserve_ledger
  "\<lambda>l. sequence_suffix (sl_high_watermark l)" "\<lambda>l. sequence_demand (sl_claims l)" sequence_operation
proof unfold_locales
  fix l l'
  assume "sequence_operation l l'"
  then show "sequence_demand (sl_claims l') \<le> sequence_suffix (sl_high_watermark l')"
    using sequence_operation_valid by (auto simp: sequence_ledger_valid_def)
next
  fix l l'
  assume "sequence_operation l l'"
  from sequence_operation_watermark [OF this]
  show "sequence_suffix (sl_high_watermark l') \<le> sequence_suffix (sl_high_watermark l)"
    by (simp add: sequence_suffix_def)
qed

text \<open>Moving \<open>RT\<close> into \<open>T\<close> and spending \<open>RS\<close> lowers the demand by exactly one; finalizing a pending
  terminal instead lowers it by \<open>L + 2\<close>.\<close>

lemma demand_after_recovery:
  assumes "sc_recovery c = DetachedCredentialRecovery" and "unat t = unat (sc_binding_terminals c) + 1"
  shows "sequence_demand c = sequence_demand (c\<lparr>sc_binding_terminals := t, sc_recovery := RecoveryNone\<rparr>) + 1"
  using assms by (simp add: sequence_demand_def Let_def)

lemma demand_after_recovery_pending:
  assumes "sc_recovery c = DetachedCredentialRecovery"
  shows "sequence_demand c = sequence_demand (c\<lparr>sc_recovery := RecoveryNone\<rparr>) + 2 + unat (sc_live_members c)"
  using assms by (simp add: sequence_demand_def Let_def)

lemma demand_ge_terminals: "unat (sc_binding_terminals c) + 2 * recovery_count (sc_recovery c) \<le> sequence_demand c"
  by (simp add: sequence_demand_def Let_def)

section \<open>Properties\<close>

text \<open>C27: the sequence gate is exact: a planned state is admitted if and only if its reserve
  \<open>E + T + M + RS + RT + L*T + L*RT + (L-1)*E\<close>, computed over the integers, fits the suffix after its
  high watermark; an admitted ledger is valid and keeps the planned state, a refusal carries the
  budget of the planned state.\<close>

theorem admit_sequence_exact:
  "case admit_sequence env p of
     Inr l \<Rightarrow> sequence_demand (rss_claims p) \<le> sequence_suffix (rss_high_watermark p)
       \<and> sequence_ledger_valid l \<and> sl_claims l = rss_claims p
       \<and> sl_high_watermark l = rss_high_watermark p
   | Inl e \<Rightarrow> sequence_suffix (rss_high_watermark p) < sequence_demand (rss_claims p)
       \<and> e = SequenceExhausted \<lparr>cse_request = env,
               cse_sequence_budget = claims_budget (rss_claims p) (rss_high_watermark p)\<rparr>"
  by (simp add: admit_sequence_cases sequence_ledger_valid_def unat_of_nat_suffix)

text \<open>restoring a ledger succeeds exactly when the claims fit the remaining suffix, and a restored
  ledger is valid and holds exactly the given watermark and claims.\<close>

theorem sequence_try_new_exact:
  "(is_ok (SequenceLedger_try_new h c) \<longleftrightarrow> sequence_demand c \<le> U64_MAX - unat h)
   \<and> (\<forall>l. SequenceLedger_try_new h c = Ok l \<longrightarrow>
        sequence_ledger_valid l \<and> sl_high_watermark l = h \<and> sl_claims l = c)"
  using SequenceLedger_try_new_Ok_iff [of h c] SequenceLedger_try_new_valid [of h c]
  by (auto simp: is_ok_iff sequence_suffix_def)

theorem sequence_try_new_exact_witness:
  "\<exists>l. SequenceLedger_try_new 10 (SequenceClaims_new 2 1 0 RecoveryNone) = Ok l
     \<and> sequence_ledger_valid l \<and> sl_high_watermark l = 10"
proof -
  have "sequence_demand (SequenceClaims_new 2 1 0 RecoveryNone) \<le> U64_MAX - unat (10 :: u64)"
    by (simp add: sequence_demand_def SequenceClaims_new_def Let_def)
  with sequence_try_new_exact [of 10 "SequenceClaims_new 2 1 0 RecoveryNone"] show ?thesis
    by (auto simp: is_ok_iff)
qed

text \<open>C28: the reserved fenced recovery cannot fail: on every valid ledger that owns the coupled
  \<open>RS/RT\<close> reserve it succeeds, allocates exactly one sequence value, moves \<open>RT\<close> into \<open>T\<close>, empties the
  reserve, and leaves the slack between suffix and demand unchanged. The overflow and
  invariant-violation errors of the code are unreachable there.\<close>

theorem sequence_fenced_recovery_succeeds:
  assumes valid: "sequence_ledger_valid l" and dcr: "sc_recovery (sl_claims l) = DetachedCredentialRecovery"
  shows "\<exists>l'. sequence_apply_fenced_recovery l = Ok l' \<and> sequence_ledger_valid l'
    \<and> unat (sl_high_watermark l') = unat (sl_high_watermark l) + 1
    \<and> unat (sc_binding_terminals (sl_claims l')) = unat (sc_binding_terminals (sl_claims l)) + 1
    \<and> sc_recovery (sl_claims l') = RecoveryNone
    \<and> sequence_suffix (sl_high_watermark l') - sequence_demand (sl_claims l')
        = sequence_suffix (sl_high_watermark l) - sequence_demand (sl_claims l)"
proof -
  let ?c = "sl_claims l" and ?h = "sl_high_watermark l"
  have fits: "sequence_demand ?c \<le> sequence_suffix ?h"
    using valid by (simp add: sequence_ledger_valid_def)
  have T: "unat (sc_binding_terminals ?c) + 2 \<le> sequence_demand ?c"
    using demand_ge_terminals [of ?c] dcr by simp
  have t: "unat (sc_binding_terminals ?c + 1) = unat (sc_binding_terminals ?c) + 1"
    and h: "unat (?h + 1) = unat ?h + 1"
    using T fits by (subst unat_add_exact; simp add: sequence_suffix_def)+
  have ok: "checked_high_watermark l 1 = Ok (?h + 1)" "checked_terminals l = Ok (sc_binding_terminals ?c + 1)"
    using T fits by (simp_all add: checked_high_watermark_def checked_terminals_def checked_add_def sequence_suffix_def)
  let ?c' = "?c\<lparr>sc_binding_terminals := sc_binding_terminals ?c + 1, sc_recovery := RecoveryNone\<rparr>"
  have d: "sequence_demand ?c = sequence_demand ?c' + 1"
    by (rule demand_after_recovery [OF dcr t])
  have suf: "sequence_suffix (?h + 1) = sequence_suffix ?h - 1"
    by (simp add: sequence_suffix_def h)
  have fits': "sequence_demand ?c' \<le> sequence_suffix (?h + 1)"
    using d fits suf by simp
  show ?thesis
    using d suf fits' t h unat_of_nat_suffix [OF fits']
    by (simp add: sequence_apply_fenced_recovery_def dcr ok sequence_reserved_ledger_cases
        sequence_ledger_valid_def)
qed

theorem sequence_fenced_recovery_succeeds_witness:
  "let l = \<lparr>sl_high_watermark = 5, sl_claims = SequenceClaims_new 1 0 0 DetachedCredentialRecovery,
            sl_required_reserve = 4\<rparr>
   in sequence_ledger_valid l \<and> sc_recovery (sl_claims l) = DetachedCredentialRecovery
    \<and> is_ok (sequence_apply_fenced_recovery l)"
proof -
  let ?l = "\<lparr>sl_high_watermark = 5, sl_claims = SequenceClaims_new 1 0 0 DetachedCredentialRecovery,
            sl_required_reserve = 4\<rparr>"
  have v: "sequence_ledger_valid ?l" "sc_recovery (sl_claims ?l) = DetachedCredentialRecovery"
    by (simp_all add: sequence_ledger_valid_def sequence_demand_def sequence_suffix_def SequenceClaims_new_def Let_def)
  from v sequence_fenced_recovery_succeeds [OF v] show ?thesis
    unfolding Let_def is_ok_iff by blast
qed

text \<open>fenced recovery that finalizes a pending terminal succeeds on a valid ledger exactly when the
  ledger owns the recovery reserve and a terminal claim; it allocates two values and keeps the ledger
  valid.\<close>

theorem sequence_fenced_recovery_pending_exact:
  assumes valid: "sequence_ledger_valid l"
  shows "is_ok (sequence_apply_fenced_recovery_finalizing_pending l) \<longleftrightarrow>
      sc_recovery (sl_claims l) = DetachedCredentialRecovery \<and> sc_binding_terminals (sl_claims l) \<noteq> 0"
    (is "?A \<longleftrightarrow> ?B")
proof
  assume ?A
  then show ?B
    by (auto simp: sequence_apply_fenced_recovery_finalizing_pending_def split: if_splits)
next
  assume B: ?B
  let ?c = "sl_claims l" and ?h = "sl_high_watermark l"
  have fits: "sequence_demand ?c \<le> sequence_suffix ?h"
    using valid by (simp add: sequence_ledger_valid_def)
  have d: "sequence_demand ?c = sequence_demand (?c\<lparr>sc_recovery := RecoveryNone\<rparr>) + 2 + unat (sc_live_members ?c)"
    using B by (intro demand_after_recovery_pending) simp
  have h: "unat (?h + 2) = unat ?h + 2"
    using d fits by (subst unat_add_exact) (simp_all add: sequence_suffix_def)
  have ok: "checked_high_watermark l 2 = Ok (?h + 2)"
    using d fits by (simp add: checked_high_watermark_def checked_add_def sequence_suffix_def)
  have "sequence_demand (?c\<lparr>sc_recovery := RecoveryNone\<rparr>) \<le> sequence_suffix (?h + 2)"
    using d fits by (simp add: sequence_suffix_def h)
  with B ok show ?A
    by (simp add: sequence_apply_fenced_recovery_finalizing_pending_def sequence_reserved_ledger_cases)
qed

theorem sequence_fenced_recovery_pending_exact_witness:
  "is_ok (sequence_apply_fenced_recovery_finalizing_pending
     \<lparr>sl_high_watermark = 5, sl_claims = SequenceClaims_new 1 1 0 DetachedCredentialRecovery,
      sl_required_reserve = 6\<rparr>)"
proof -
  let ?l = "\<lparr>sl_high_watermark = 5, sl_claims = SequenceClaims_new 1 1 0 DetachedCredentialRecovery,
            sl_required_reserve = 6\<rparr>"
  have "sequence_ledger_valid ?l"
    by (simp add: sequence_ledger_valid_def sequence_demand_def sequence_suffix_def SequenceClaims_new_def Let_def)
  from sequence_fenced_recovery_pending_exact [OF this] show ?thesis
    by (simp add: SequenceClaims_new_def)
qed

text \<open>C7: over any run of ledger operations from a restored ledger, the ledger stays valid (every
  unmaterialized claim still owns a sequence value) and the high watermark never moves back.\<close>

theorem sequence_run_invariant:
  assumes "SequenceLedger_try_new h c = Ok l" and "sequence_operation\<^sup>*\<^sup>* l l'"
  shows "sequence_ledger_valid l' \<and> sequence_demand (sl_claims l') \<le> U64_MAX - unat (sl_high_watermark l')
    \<and> U64_MAX - unat (sl_high_watermark l') \<le> U64_MAX - unat h"
proof -
  have l: "sequence_ledger_valid l" "sl_high_watermark l = h"
    using SequenceLedger_try_new_valid [OF assms(1)] by simp_all
  have "sequence_ledger_valid l'"
    using assms(2) l(1) by (induction rule: rtranclp_induct) (auto intro: sequence_operation_valid)
  moreover from seq.run_sound [OF assms(2)] l(1)
  have "sequence_demand (sl_claims l') \<le> sequence_suffix (sl_high_watermark l')"
    by (simp add: sequence_ledger_valid_def)
  moreover from seq.run_suffix [OF assms(2)] l(2)
  have "sequence_suffix (sl_high_watermark l') \<le> sequence_suffix h" by simp
  ultimately show ?thesis by (simp add: sequence_suffix_def)
qed

theorem sequence_run_invariant_witness:
  "\<exists>l l'. SequenceLedger_try_new 5 (SequenceClaims_new 1 0 0 DetachedCredentialRecovery) = Ok l
     \<and> sequence_operation\<^sup>*\<^sup>* l l' \<and> sl_high_watermark l' = 6 \<and> sequence_ledger_valid l'"
proof -
  let ?c = "SequenceClaims_new 1 0 0 DetachedCredentialRecovery"
  have "sequence_demand ?c \<le> sequence_suffix 5"
    by (simp add: sequence_demand_def sequence_suffix_def SequenceClaims_new_def Let_def)
  then obtain l where l: "SequenceLedger_try_new 5 ?c = Ok l"
    using SequenceLedger_try_new_Ok_iff by blast
  note lv = SequenceLedger_try_new_valid [OF l]
  let ?l' = "\<lparr>sl_high_watermark = 6, sl_claims = SequenceClaims_new 1 1 0 RecoveryNone, sl_required_reserve = 3\<rparr>"
  have "sequence_apply_fenced_recovery l = Ok ?l'"
    using lv by (simp add: sequence_apply_fenced_recovery_def checked_high_watermark_def checked_terminals_def
        checked_add_def sequence_reserved_ledger_cases sequence_demand_def sequence_suffix_def
        SequenceClaims_new_def Let_def)
  then have run: "sequence_operation\<^sup>*\<^sup>* l ?l'"
    by (intro r_into_rtranclp sequence_operation.recovery)
  have "sl_high_watermark ?l' = 6" by simp
  with l run sequence_run_invariant [OF l run] show ?thesis by blast
qed

text \<open>an enrollment that is planned and admitted advances the watermark by one, adds one live
  member, one terminal claim and the computed markers, and owns the recovery reserve afterwards exactly
  when it did before or the projection endowed it; endowing a second reserve is refused.\<close>

theorem sequence_enrollment_effect:
  assumes "sequence_plan_enrollment l n endow = Ok p" and "admit_sequence env p = Ok l'"
  shows "unat (sl_high_watermark l') = unat (sl_high_watermark l) + 1
    \<and> unat (sc_live_members (sl_claims l')) = unat (sc_live_members (sl_claims l)) + 1
    \<and> unat (sc_binding_terminals (sl_claims l')) = unat (sc_binding_terminals (sl_claims l)) + 1
    \<and> unat (sc_markers (sl_claims l')) = unat (sc_markers (sl_claims l)) + unat n
    \<and> (sc_recovery (sl_claims l') = DetachedCredentialRecovery \<longleftrightarrow>
        endow \<or> sc_recovery (sl_claims l) = DetachedCredentialRecovery)
    \<and> \<not> (endow \<and> sc_recovery (sl_claims l) = DetachedCredentialRecovery)"
  using assms
  by (auto simp: sequence_plan_enrollment_def sequence_ensure_quartet_def admit_sequence_cases
      checked_terminals_def checked_markers_def result_simps
      dest!: checked_high_watermark_Ok checked_add_unat split: if_splits)

theorem sequence_enrollment_effect_witness:
  "\<exists>p l'. sequence_plan_enrollment \<lparr>sl_high_watermark = 0, sl_claims = SequenceClaims_new 0 0 0 RecoveryNone,
        sl_required_reserve = 0\<rparr> 0 False = Ok p
     \<and> admit_sequence (SequenceEnrollment \<lparr>ee_conversation_id = 1, ee_enrollment_token = []\<rparr>) p = Ok l'
     \<and> unat (sl_high_watermark l') = 1"
proof -
  let ?l = "\<lparr>sl_high_watermark = 0, sl_claims = SequenceClaims_new 0 0 0 RecoveryNone, sl_required_reserve = 0\<rparr>"
  let ?p = "\<lparr>rss_high_watermark = 1, rss_claims = SequenceClaims_new 1 1 0 RecoveryNone\<rparr>"
  let ?env = "SequenceEnrollment \<lparr>ee_conversation_id = 1, ee_enrollment_token = []\<rparr>"
  let ?l' = "\<lparr>sl_high_watermark = 1, sl_claims = SequenceClaims_new 1 1 0 RecoveryNone, sl_required_reserve = 3\<rparr>"
  have p: "sequence_plan_enrollment ?l 0 False = Ok ?p"
    by (simp add: sequence_plan_enrollment_def sequence_ensure_quartet_def checked_high_watermark_def
        checked_terminals_def checked_markers_def checked_add_def SequenceClaims_new_def)
  have a: "admit_sequence ?env ?p = Ok ?l'"
    by (simp add: admit_sequence_cases sequence_demand_def sequence_suffix_def SequenceClaims_new_def Let_def)
  from p a sequence_enrollment_effect [OF p a] show ?thesis by force
qed

end
