(* ===== verification/Order_Ledger.thy ===== *)
theory Order_Ledger
  imports Wire_Types Reserve_Ledger
begin

text \<open>
  The transaction-order ledger of \<open>lifecycle/admission/order.rs\<close>: the claim classes \<open>A\<close>, \<open>X\<close>, \<open>RO\<close>,
  \<open>RA\<close>, the persisted high watermark (no major yet, or the highest allocated major), restoring a
  ledger, planning claims, allocating one major, and the fenced-recovery transfer. The lemmas show
  allocation accepts exactly when a free major remains after the resulting claims, hands out each
  major once, and that a reserved recovery cannot fail.
\<close>

section \<open>Claims and ledger\<close>

record OrderClaims =
  oc_active_binding_terminals :: u64
  oc_membership_exits :: u64
  oc_recovery_operation :: bool
  oc_recovery_replacement_terminal :: bool

datatype (plugins only: code size) OrderClaimsInvariantError = RecoveryPairMismatch bool bool

definition OrderClaims_new ::
  "u64 \<Rightarrow> u64 \<Rightarrow> bool \<Rightarrow> bool \<Rightarrow> (OrderClaimsInvariantError, OrderClaims) result" where
  "OrderClaims_new active_binding_terminals membership_exits recovery_operation recovery_replacement_terminal =
    (if recovery_operation \<noteq> recovery_replacement_terminal
     then Err (RecoveryPairMismatch recovery_operation recovery_replacement_terminal)
     else Ok \<lparr>oc_active_binding_terminals = active_binding_terminals,
              oc_membership_exits = membership_exits,
              oc_recovery_operation = recovery_operation,
              oc_recovery_replacement_terminal = recovery_replacement_terminal\<rparr>)"

text \<open>\<open>u128::from(bool)\<close>.\<close>

definition bool_u128 :: "bool \<Rightarrow> u128" where
  "bool_u128 b = (if b then 1 else 0)"

definition order_total :: "OrderClaims \<Rightarrow> u128" where
  "order_total c = widen (oc_active_binding_terminals c) + widen (oc_membership_exits c)
    + bool_u128 (oc_recovery_operation c) + bool_u128 (oc_recovery_replacement_terminal c)"

datatype (plugins only: code size) OrderHigh = OrderEmpty | Allocated TransactionOrder

datatype (plugins only: code size) OrderLedgerInvariantError = OrderClaimsExceedRemaining u128 u128

record OrderLedger =
  ol_high :: OrderHigh
  ol_claims :: OrderClaims

definition remaining_after :: "OrderHigh \<Rightarrow> u128" where
  "remaining_after high =
    (case high of OrderEmpty \<Rightarrow> widen (- 1) + 1 | Allocated h \<Rightarrow> widen (- 1 - h))"

definition OrderLedger_try_new :: "OrderHigh \<Rightarrow> OrderClaims \<Rightarrow> (OrderLedgerInvariantError, OrderLedger) result" where
  "OrderLedger_try_new high claims =
    (let remaining = remaining_after high; claim_count = order_total claims in
     if claim_count > remaining then Err (OrderClaimsExceedRemaining remaining claim_count)
     else Ok \<lparr>ol_high = high, ol_claims = claims\<rparr>)"

datatype (plugins only: code size) OrderAdmissionError =
    OrderExhausted ConversationOrderExhausted
  | InitialClaimsExceedRemaining u128 u128
  | ActiveBindingClaimOverflow
  | MembershipExitClaimOverflow
  | RecoveryOrderReserveAlreadyPresent
  | RecoveryOrderReserveMissing bool bool

definition order_ensure_quartet :: "OrderLedger \<Rightarrow> bool \<Rightarrow> (OrderAdmissionError, unit) result" where
  "order_ensure_quartet l endow_recovery_quartet =
    (if endow_recovery_quartet \<and>
        (oc_recovery_operation (ol_claims l) \<or> oc_recovery_replacement_terminal (ol_claims l))
     then Err RecoveryOrderReserveAlreadyPresent else Ok ())"

definition order_plan_enrollment :: "OrderLedger \<Rightarrow> bool \<Rightarrow> (OrderAdmissionError, OrderClaims) result" where
  "order_plan_enrollment l endow_recovery_quartet =
    andThen (order_ensure_quartet l endow_recovery_quartet) (\<lambda>_.
    andThen (ok_or (checked_add (oc_active_binding_terminals (ol_claims l)) 1) ActiveBindingClaimOverflow)
      (\<lambda>active_binding_terminals.
    andThen (ok_or (checked_add (oc_membership_exits (ol_claims l)) 1) MembershipExitClaimOverflow)
      (\<lambda>membership_exits.
    Ok \<lparr>oc_active_binding_terminals = active_binding_terminals,
        oc_membership_exits = membership_exits,
        oc_recovery_operation = (oc_recovery_operation (ol_claims l) \<or> endow_recovery_quartet),
        oc_recovery_replacement_terminal =
          (oc_recovery_replacement_terminal (ol_claims l) \<or> endow_recovery_quartet)\<rparr>)))"

definition order_plan_ordinary_record :: "OrderLedger \<Rightarrow> OrderClaims" where
  "order_plan_ordinary_record l = ol_claims l"

definition order_apply_fenced_recovery :: "OrderLedger \<Rightarrow> (OrderAdmissionError, OrderLedger) result" where
  "order_apply_fenced_recovery l =
    (if \<not> oc_recovery_operation (ol_claims l) \<or> \<not> oc_recovery_replacement_terminal (ol_claims l)
     then Err (RecoveryOrderReserveMissing (oc_recovery_operation (ol_claims l))
                 (oc_recovery_replacement_terminal (ol_claims l)))
     else
       andThen (ok_or (checked_add (oc_active_binding_terminals (ol_claims l)) 1) ActiveBindingClaimOverflow)
         (\<lambda>active_binding_terminals.
       Ok \<lparr>ol_high = ol_high l,
           ol_claims = \<lparr>oc_active_binding_terminals = active_binding_terminals,
             oc_membership_exits = oc_membership_exits (ol_claims l),
             oc_recovery_operation = False, oc_recovery_replacement_terminal = False\<rparr>\<rparr>))"

definition order_apply_fenced_recovery_finalizing_pending ::
  "OrderLedger \<Rightarrow> (OrderAdmissionError, OrderLedger) result" where
  "order_apply_fenced_recovery_finalizing_pending l = order_apply_fenced_recovery l"

record OrderAllocation =
  oa_major :: TransactionOrder
  oa_resulting :: OrderLedger

definition allocate_order ::
  "OrderAllocatingEnvelope \<Rightarrow> OrderLedger \<Rightarrow> OrderClaims \<Rightarrow> (OrderAdmissionError, OrderAllocation) result" where
  "allocate_order request current resulting_claims =
    (let resulting_claim_count = order_total resulting_claims in
     case ol_high current of
       OrderEmpty \<Rightarrow>
         (let major = 0; resulting_remaining = widen (- 1) in
          if resulting_claim_count > resulting_remaining
          then Err (InitialClaimsExceedRemaining resulting_remaining resulting_claim_count)
          else Ok \<lparr>oa_major = major,
                   oa_resulting = \<lparr>ol_high = Allocated major, ol_claims = resulting_claims\<rparr>\<rparr>)
     | Allocated high \<Rightarrow>
         (let order_remaining = remaining_after (ol_high current);
              reserved_claims = order_total (ol_claims current);
              next_major = checked_add high 1;
              resulting_order_remaining =
                (case next_major of None \<Rightarrow> 0 | Some _ \<Rightarrow> order_remaining - 1);
              exhausted = OrderExhausted (ConversationOrderExhausted_new request high order_remaining
                reserved_claims resulting_order_remaining resulting_claim_count)
          in case next_major of
               None \<Rightarrow> Err exhausted
             | Some major \<Rightarrow>
                 if resulting_claim_count > resulting_order_remaining then Err exhausted
                 else Ok \<lparr>oa_major = major,
                          oa_resulting = \<lparr>ol_high = Allocated major, ol_claims = resulting_claims\<rparr>\<rparr>))"

section \<open>Specification over the natural numbers\<close>

definition order_demand :: "OrderClaims \<Rightarrow> nat" where
  "order_demand c = unat (oc_active_binding_terminals c) + unat (oc_membership_exits c)
    + of_bool (oc_recovery_operation c) + of_bool (oc_recovery_replacement_terminal c)"

fun order_suffix :: "OrderHigh \<Rightarrow> nat" where
  "order_suffix OrderEmpty = U64_MAX + 1"
| "order_suffix (Allocated h) = U64_MAX - unat h"

definition order_ledger_valid :: "OrderLedger \<Rightarrow> bool" where
  "order_ledger_valid l \<longleftrightarrow> order_demand (ol_claims l) \<le> order_suffix (ol_high l)"

text \<open>The next major the ledger would hand out, counting from zero.\<close>

fun order_next :: "OrderHigh \<Rightarrow> nat" where
  "order_next OrderEmpty = 0"
| "order_next (Allocated h) = unat h + 1"

text \<open>One operation, labelled with the majors it hands out, and runs with the majors in order.\<close>

inductive order_operation :: "OrderLedger \<Rightarrow> TransactionOrder list \<Rightarrow> OrderLedger \<Rightarrow> bool" where
  enrollment: "order_plan_enrollment l q = Ok c \<Longrightarrow> allocate_order env l c = Ok a \<Longrightarrow>
    order_operation l [oa_major a] (oa_resulting a)"
| ordinary: "allocate_order env l (order_plan_ordinary_record l) = Ok a \<Longrightarrow>
    order_operation l [oa_major a] (oa_resulting a)"
| recovery: "order_apply_fenced_recovery l = Ok l' \<Longrightarrow> order_operation l [] l'"

inductive order_run :: "OrderLedger \<Rightarrow> TransactionOrder list \<Rightarrow> OrderLedger \<Rightarrow> bool" where
  start: "order_run l [] l"
| operation: "order_run l majors l' \<Longrightarrow> order_operation l' ms l'' \<Longrightarrow> order_run l (majors @ ms) l''"

section \<open>Lemmas\<close>

lemma unat_max_u64: "unat (- 1 :: u64) = U64_MAX"
  by (simp add: unsigned_minus_1_eq_mask mask_eq_exp_minus_1)

lemma unat_order_total [unat_simps]: "unat (order_total c) = order_demand c"
proof -
  have "unat (oc_active_binding_terminals c) < 2 ^ 64" "unat (oc_membership_exits c) < 2 ^ 64"
    by (rule unat_u64_less)+
  then have "unat (widen (oc_active_binding_terminals c) + widen (oc_membership_exits c))
      = unat (oc_active_binding_terminals c) + unat (oc_membership_exits c)"
    by (subst unat_add_exact) simp_all
  moreover have "unat (oc_active_binding_terminals c) + unat (oc_membership_exits c) < 2 ^ 65"
    using unat_u64_less [of "oc_active_binding_terminals c"] unat_u64_less [of "oc_membership_exits c"] by simp
  ultimately show ?thesis
    unfolding order_total_def order_demand_def bool_u128_def
    by (simp add: unat_add_exact)
qed

lemma unat_remaining_after [unat_simps]: "unat (remaining_after h) = order_suffix h"
proof (cases h)
  case OrderEmpty
  have "unat (widen (- 1) + 1) = U64_MAX + 1"
    by (subst unat_widen_Suc) (simp add: unat_max_u64)
  with OrderEmpty show ?thesis by (simp add: remaining_after_def)
next
  case (Allocated x)
  have "unat (- 1 - x) = U64_MAX - unat x"
    by (subst unat_sub) (simp_all add: unat_max_u64)
  with Allocated show ?thesis by (simp add: remaining_after_def)
qed

lemma OrderLedger_try_new_iff:
  "OrderLedger_try_new h c = Ok l \<longleftrightarrow> order_demand c \<le> order_suffix h \<and> l = \<lparr>ol_high = h, ol_claims = c\<rparr>"
  by (auto simp: OrderLedger_try_new_def Let_def word_less_nat_alt unat_simps)

lemma order_next_suffix: "order_next h \<le> U64_MAX \<Longrightarrow> order_suffix h = U64_MAX + 1 - order_next h"
  by (cases h) simp_all

text \<open>Allocation in closed form: it hands out the next major exactly when one exists and the
  resulting claims fit the suffix behind it.\<close>

lemma allocate_order_Ok_iff:
  "allocate_order env l c = Ok a \<longleftrightarrow>
    order_next (ol_high l) \<le> U64_MAX \<and> order_demand c + 1 \<le> order_suffix (ol_high l) \<and>
    a = \<lparr>oa_major = of_nat (order_next (ol_high l)),
         oa_resulting = \<lparr>ol_high = Allocated (of_nat (order_next (ol_high l))), ol_claims = c\<rparr>\<rparr>"
proof (cases "ol_high l")
  case OrderEmpty
  then show ?thesis
    by (auto simp: allocate_order_def Let_def word_less_nat_alt unat_simps unat_max_u64)
next
  case (Allocated h)
  show ?thesis
  proof (cases "unat h = U64_MAX")
    case True
    with Allocated show ?thesis
      by (simp add: allocate_order_def Let_def checked_add_def)
  next
    case False
    have lt: "unat h < U64_MAX"
      using False unat_u64_less [of h] by simp
    then have "1 \<le> remaining_after (Allocated h)"
      by (simp add: word_le_nat_alt unat_simps)
    then have r: "unat (remaining_after (Allocated h) - 1) = U64_MAX - unat h - 1"
      by (simp add: unat_sub unat_simps)
    have "of_nat (unat h + 1) = h + 1" by simp
    with Allocated lt r show ?thesis
      by (auto simp: allocate_order_def Let_def checked_add_def word_less_nat_alt unat_simps)
  qed
qed

lemma order_recovery_Ok_iff:
  "order_apply_fenced_recovery l = Ok l' \<longleftrightarrow>
    oc_recovery_operation (ol_claims l) \<and> oc_recovery_replacement_terminal (ol_claims l) \<and>
    unat (oc_active_binding_terminals (ol_claims l)) < U64_MAX \<and>
    l' = \<lparr>ol_high = ol_high l, ol_claims = (ol_claims l)
      \<lparr>oc_active_binding_terminals := oc_active_binding_terminals (ol_claims l) + 1,
       oc_recovery_operation := False, oc_recovery_replacement_terminal := False\<rparr>\<rparr>"
  by (auto simp: order_apply_fenced_recovery_def result_simps checked_add_def split: if_splits)

lemma order_recovery_demand:
  assumes "order_apply_fenced_recovery l = Ok l'"
  shows "order_demand (ol_claims l) = order_demand (ol_claims l') + 1" and "ol_high l' = ol_high l"
proof -
  let ?a = "oc_active_binding_terminals (ol_claims l)"
  have "unat (?a + 1) = unat ?a + 1"
    using assms by (subst unat_add_exact) (auto simp: order_recovery_Ok_iff)
  then show "order_demand (ol_claims l) = order_demand (ol_claims l') + 1" "ol_high l' = ol_high l"
    using assms by (auto simp: order_recovery_Ok_iff order_demand_def)
qed

lemma allocate_order_step:
  assumes "allocate_order env l c = Ok a"
  shows "order_next (ol_high (oa_resulting a)) = order_next (ol_high l) + 1"
    "unat (oa_major a) = order_next (ol_high l)" "ol_claims (oa_resulting a) = c"
    "order_suffix (ol_high (oa_resulting a)) = order_suffix (ol_high l) - 1"
    "order_ledger_valid (oa_resulting a)"
proof -
  have ok: "order_next (ol_high l) \<le> U64_MAX" "order_demand c + 1 \<le> order_suffix (ol_high l)"
    and a: "a = \<lparr>oa_major = of_nat (order_next (ol_high l)),
      oa_resulting = \<lparr>ol_high = Allocated (of_nat (order_next (ol_high l))), ol_claims = c\<rparr>\<rparr>"
    using assms by (simp_all add: allocate_order_Ok_iff)
  have u: "unat (of_nat (order_next (ol_high l)) :: u64) = order_next (ol_high l)"
    using ok(1) by (simp add: unat_of_nat)
  note suffix = order_next_suffix [OF ok(1)]
  show "order_next (ol_high (oa_resulting a)) = order_next (ol_high l) + 1"
    "unat (oa_major a) = order_next (ol_high l)" "ol_claims (oa_resulting a) = c"
    "order_suffix (ol_high (oa_resulting a)) = order_suffix (ol_high l) - 1"
    "order_ledger_valid (oa_resulting a)"
    using ok a u suffix by (simp_all add: order_ledger_valid_def)
qed

text \<open>The majors of an operation are the ones between the two next majors.\<close>

lemma order_operation_majors:
  "order_operation l ms l' \<Longrightarrow> order_next (ol_high l) \<le> order_next (ol_high l')
    \<and> map unat ms = [order_next (ol_high l)..<order_next (ol_high l')]"
  by (erule order_operation.cases) (auto simp: allocate_order_step order_recovery_demand)

lemma order_run_majors:
  "order_run l majors l' \<Longrightarrow> order_next (ol_high l) \<le> order_next (ol_high l')
    \<and> map unat majors = [order_next (ol_high l)..<order_next (ol_high l')]"
proof (induction rule: order_run.induct)
  case (operation l majors l' ms l'')
  with order_operation_majors [OF operation(2)] show ?case
    using upt_add_eq_append [of "order_next (ol_high l)" "order_next (ol_high l')"
        "order_next (ol_high l'') - order_next (ol_high l')"] by simp
qed simp

lemma order_run_operations: "order_run l majors l' \<Longrightarrow> (\<lambda>l l'. \<exists>ms. order_operation l ms l')\<^sup>*\<^sup>* l l'"
  by (induction rule: order_run.induct) (auto intro: rtranclp.rtrancl_into_rtrancl)

interpretation ord: reserve_ledger
  "\<lambda>l. order_suffix (ol_high l)" "\<lambda>l. order_demand (ol_claims l)" "\<lambda>l l'. \<exists>ms. order_operation l ms l'"
proof unfold_locales
  fix l l'
  assume v: "order_demand (ol_claims l) \<le> order_suffix (ol_high l)" and "\<exists>ms. order_operation l ms l'"
  from this(2) obtain ms where "order_operation l ms l'" by blast
  then show "order_demand (ol_claims l') \<le> order_suffix (ol_high l')"
  proof cases
    case recovery
    from order_recovery_demand [OF recovery(2)] v show ?thesis by simp
  qed (auto dest: allocate_order_step(5) simp: order_ledger_valid_def)
next
  fix l l'
  assume "\<exists>ms. order_operation l ms l'"
  then show "order_suffix (ol_high l') \<le> order_suffix (ol_high l)"
    by (auto elim!: order_operation.cases simp: allocate_order_step order_recovery_demand)
qed

section \<open>Properties\<close>

text \<open>C19: \<open>allocate_order\<close> succeeds exactly when an unallocated major exists and the resulting claims
  fit behind it; it then hands out the next major (0 first, then one more than the highest), keeps
  the resulting claims and returns a valid ledger. Otherwise it refuses. On a ledger that has allocated
  before, the refusal is \<open>Exhausted\<close> and names the request, the highest major, the majors left, and the claims held and asked for.
  On an empty ledger it is \<open>InitialClaimsExceedRemaining\<close>, which names no request but the majors left behind the first
  and the claims asked for.\<close>

theorem allocate_order_exact:
  "case allocate_order env l c of
     Inr a \<Rightarrow> order_demand c + 1 \<le> order_suffix (ol_high l)
       \<and> unat (oa_major a) = order_next (ol_high l) \<and> ol_high (oa_resulting a) = Allocated (oa_major a)
       \<and> ol_claims (oa_resulting a) = c \<and> order_ledger_valid (oa_resulting a)
   | Inl e \<Rightarrow> order_suffix (ol_high l) < order_demand c + 1
       \<and> (case ol_high l of
            OrderEmpty \<Rightarrow> \<exists>remaining claims. e = InitialClaimsExceedRemaining remaining claims
              \<and> unat remaining = U64_MAX \<and> unat claims = order_demand c
          | Allocated h \<Rightarrow> \<exists>x. e = OrderExhausted x \<and> coe_request x = env \<and> coe_high x = h
              \<and> unat (coe_order_remaining x) = order_suffix (ol_high l)
              \<and> unat (coe_reserved_claims x) = order_demand (ol_claims l)
              \<and> unat (coe_resulting_reserved_claims x) = order_demand c)"
proof (cases "allocate_order env l c")
  case (Inr a)
  then have "ol_high (oa_resulting a) = Allocated (oa_major a)" "order_demand c + 1 \<le> order_suffix (ol_high l)"
    by (simp_all add: allocate_order_Ok_iff)
  with Inr allocate_order_step [OF Inr] show ?thesis by simp
next
  case (Inl e)
  then have "\<not> (\<exists>a. allocate_order env l c = Ok a)" by simp
  then have "\<not> (order_next (ol_high l) \<le> U64_MAX \<and> order_demand c + 1 \<le> order_suffix (ol_high l))"
    by (simp add: allocate_order_Ok_iff)
  then have "order_suffix (ol_high l) < order_demand c + 1"
    by (cases "ol_high l") auto
  moreover have "unat (widen (- 1 :: u64)) = U64_MAX" by (simp add: unat_simps unat_max_u64)
  ultimately show ?thesis using Inl
    by (auto simp: allocate_order_def ConversationOrderExhausted_new_def Let_def unat_order_total unat_remaining_after
        split: option.splits if_splits OrderHigh.splits)
qed

text \<open>C29: on every valid order ledger that owns the coupled \<open>RO/RA\<close> pair, fenced recovery succeeds (the
  claim overflow is unreachable), allocates no major, and lowers the total claims by exactly one.\<close>

theorem order_fenced_recovery_succeeds:
  assumes "order_ledger_valid l" and "oc_recovery_operation (ol_claims l)"
    and "oc_recovery_replacement_terminal (ol_claims l)"
  shows "\<exists>l'. order_apply_fenced_recovery l = Ok l' \<and> order_ledger_valid l' \<and> ol_high l' = ol_high l
    \<and> order_demand (ol_claims l) = order_demand (ol_claims l') + 1
    \<and> \<not> oc_recovery_operation (ol_claims l')"
proof -
  have "order_suffix (ol_high l) \<le> U64_MAX + 1"
    by (cases "ol_high l") simp_all
  then have "unat (oc_active_binding_terminals (ol_claims l)) < U64_MAX"
    using assms by (simp add: order_ledger_valid_def order_demand_def)
  then obtain l' where l': "order_apply_fenced_recovery l = Ok l'" and n: "\<not> oc_recovery_operation (ol_claims l')"
    using assms(2,3) by (simp add: order_recovery_Ok_iff)
  from order_recovery_demand [OF l'] assms(1) l' n show ?thesis
    by (auto simp: order_ledger_valid_def)
qed

theorem order_fenced_recovery_succeeds_witness:
  "let l = \<lparr>ol_high = Allocated 7, ol_claims = \<lparr>oc_active_binding_terminals = 1, oc_membership_exits = 2,
          oc_recovery_operation = True, oc_recovery_replacement_terminal = True\<rparr>\<rparr>
   in order_ledger_valid l \<and> is_ok (order_apply_fenced_recovery l)"
proof -
  let ?l = "\<lparr>ol_high = Allocated 7, ol_claims = \<lparr>oc_active_binding_terminals = 1, oc_membership_exits = 2,
          oc_recovery_operation = True, oc_recovery_replacement_terminal = True\<rparr>\<rparr>"
  have v: "order_ledger_valid ?l" by (simp add: order_ledger_valid_def order_demand_def)
  from v order_fenced_recovery_succeeds [OF v] show ?thesis
    by (auto simp: Let_def is_ok_iff)
qed

text \<open>C21: over any run of order-ledger operations from a restored ledger, every unmaterialized claim
  still owns a major, and the majors handed out are the consecutive numbers from the next major of the first
  ledger up to the next major of the last, in order; so no major is handed out twice, none at or below the
  restored high watermark is handed out again, and none is skipped.\<close>

theorem order_run_invariant:
  assumes "OrderLedger_try_new h c = Ok l" and "order_run l majors l'"
  shows "order_ledger_valid l' \<and> order_next h \<le> order_next (ol_high l')
    \<and> map unat majors = [order_next h..<order_next (ol_high l')] \<and> distinct majors"
proof -
  have l: "order_demand (ol_claims l) \<le> order_suffix (ol_high l)" "ol_high l = h"
    using assms(1) by (auto simp: OrderLedger_try_new_iff)
  from ord.run_sound [OF order_run_operations [OF assms(2)] l(1)] have "order_ledger_valid l'"
    by (simp add: order_ledger_valid_def)
  moreover note majors = order_run_majors [OF assms(2), unfolded l(2)]
  moreover have "distinct (map unat majors)" unfolding majors [THEN conjunct2] by (rule distinct_upt)
  then have "distinct majors" unfolding distinct_map by (rule conjunct1)
  ultimately show ?thesis by simp
qed

theorem order_run_invariant_witness:
  "\<exists>l l'. OrderLedger_try_new (Allocated 4) \<lparr>oc_active_binding_terminals = 0, oc_membership_exits = 0,
          oc_recovery_operation = False, oc_recovery_replacement_terminal = False\<rparr> = Ok l
     \<and> order_run l [5, 6] l' \<and> ol_high l' = Allocated 6 \<and> order_ledger_valid l'"
proof -
  let ?c = "\<lparr>oc_active_binding_terminals = 0, oc_membership_exits = 0,
          oc_recovery_operation = False, oc_recovery_replacement_terminal = False\<rparr>"
  let ?l = "\<lambda>n. \<lparr>ol_high = Allocated n, ol_claims = ?c\<rparr>"
  let ?a = "\<lambda>n. \<lparr>oa_major = n, oa_resulting = ?l n\<rparr>"
  let ?env = "OrderEnrollment \<lparr>ee_conversation_id = 1, ee_enrollment_token = []\<rparr>"
  have l: "OrderLedger_try_new (Allocated 4) ?c = Ok (?l 4)"
    by (simp add: OrderLedger_try_new_iff order_demand_def)
  have 5: "order_operation (?l 4) [5] (?l 5)"
    using order_operation.ordinary [of ?env "?l 4" "?a 5"]
    by (simp add: allocate_order_Ok_iff order_plan_ordinary_record_def order_demand_def)
  have 6: "order_operation (?l 5) [6] (?l 6)"
    using order_operation.ordinary [of ?env "?l 5" "?a 6"]
    by (simp add: allocate_order_Ok_iff order_plan_ordinary_record_def order_demand_def)
  have run: "order_run (?l 4) [5, 6] (?l 6)"
    using order_run.operation [OF order_run.operation [OF order_run.start 5] 6] by simp
  with l order_run_invariant [OF l run] show ?thesis by (intro exI [of _ "?l 4"] exI [of _ "?l 6"]) simp
qed

end
