(* ===== verification/Capacity_Admission.thy ===== *)
theory Capacity_Admission
  imports Wire_Types
begin

text \<open>
  The stateless admission selectors of \<open>lifecycle/admission\<close>: bounded counters, retention windows,
  connection and binding slots and identity capacity (\<open>capacity.rs\<close>), the observer hard-retention
  check (\<open>observer.rs\<close>) and the record size preflight (\<open>record.rs\<close>). A locale states what every
  client uses of a bounded counter; the window and slot lemmas are proved from it.
\<close>

section \<open>Bounded counters (capacity.rs)\<close>

datatype (plugins only: code size) CapacityCounterInvariantError =
    ZeroLimit
  | OccupiedExceedsLimit u64 u64

record CapacityCounter =
  cc_limit :: u64
  cc_occupied :: u64

definition CapacityCounter_try_new :: "u64 \<Rightarrow> u64 \<Rightarrow> (CapacityCounterInvariantError, CapacityCounter) result" where
  "CapacityCounter_try_new limit occupied =
    (if limit = 0 then Err ZeroLimit
     else if occupied > limit then Err (OccupiedExceedsLimit occupied limit)
     else Ok \<lparr>cc_limit = limit, cc_occupied = occupied\<rparr>)"

definition is_full :: "CapacityCounter \<Rightarrow> bool" where
  "is_full c \<longleftrightarrow> cc_occupied c = cc_limit c"

definition incremented :: "CapacityCounter \<Rightarrow> CapacityCounter option" where
  "incremented c =
    (if is_full c then None
     else Some \<lparr>cc_limit = cc_limit c, cc_occupied = cc_occupied c + 1\<rparr>)"

datatype (plugins only: code size) FreshParticipantCapacityCounterInvariantError =
    FreshCapacity CapacityCounterInvariantError
  | FreshNonempty u64

datatype (plugins only: code size) FreshParticipantCapacityCounter = Fresh (fresh_counter: CapacityCounter)

definition FreshParticipantCapacityCounter_try_new ::
  "u64 \<Rightarrow> u64 \<Rightarrow> (FreshParticipantCapacityCounterInvariantError, FreshParticipantCapacityCounter) result" where
  "FreshParticipantCapacityCounter_try_new limit occupied =
    (case CapacityCounter_try_new limit occupied of
       Inl error \<Rightarrow> Err (FreshCapacity error)
     | Inr counter \<Rightarrow> if occupied \<noteq> 0 then Err (FreshNonempty occupied) else Ok (Fresh counter))"

definition reserved :: "FreshParticipantCapacityCounter \<Rightarrow> CapacityCounter" where
  "reserved c = \<lparr>cc_limit = cc_limit (fresh_counter c), cc_occupied = 1\<rparr>"

definition unfilled :: "FreshParticipantCapacityCounter \<Rightarrow> CapacityCounter" where
  "unfilled c = fresh_counter c"

section \<open>Retention windows and connection slots (capacity.rs)\<close>

datatype (plugins only: code size) ParticipantWindowAdmission = Landed | Displaced

record ParticipantWindowCommit =
  pwc_admission :: ParticipantWindowAdmission
  pwc_resulting :: CapacityCounter

definition select_participant_window :: "CapacityCounter \<Rightarrow> ParticipantWindowCommit" where
  "select_participant_window current =
    (case incremented current of
       Some resulting \<Rightarrow> \<lparr>pwc_admission = Landed, pwc_resulting = resulting\<rparr>
     | None \<Rightarrow> \<lparr>pwc_admission = Displaced, pwc_resulting = current\<rparr>)"

datatype (plugins only: code size) ConnectionConversationTracking = AlreadyTracked | Untracked

record ConnectionConversationCapacityCommit =
  cccc_resulting :: CapacityCounter
  cccc_newly_tracked :: bool

datatype (plugins only: code size) SemanticConnectionCapacityDecision =
    ConnectionCommit ConnectionConversationCapacityCommit
  | ConnectionRespond u64

definition select_semantic_connection_capacity ::
  "ConnectionConversationTracking \<Rightarrow> CapacityCounter \<Rightarrow> SemanticConnectionCapacityDecision" where
  "select_semantic_connection_capacity tracking current =
    (case tracking of
       AlreadyTracked \<Rightarrow> ConnectionCommit \<lparr>cccc_resulting = current, cccc_newly_tracked = False\<rparr>
     | Untracked \<Rightarrow>
         (case incremented current of
            None \<Rightarrow> ConnectionRespond (cc_limit current)
          | Some resulting \<Rightarrow> ConnectionCommit \<lparr>cccc_resulting = resulting, cccc_newly_tracked = True\<rparr>))"

datatype (plugins only: code size) BindingSlotOccupancy = SlotEmpty | SlotOccupied ParticipantId

datatype (plugins only: code size) 'r BindingSlotDecision = Available | SlotRespond 'r

definition enrollment_envelope :: "EnrollmentRequest \<Rightarrow> EnrollmentEnvelope" where
  "enrollment_envelope request =
    \<lparr>ee_conversation_id = er_conversation_id request, ee_enrollment_token = er_enrollment_token request\<rparr>"

definition attach_envelope :: "CredentialAttachRequest \<Rightarrow> AttachEnvelope" where
  "attach_envelope request =
    \<lparr>ae_conversation_id = car_conversation_id request, ae_participant_id = car_participant_id request,
     ae_capability_generation = car_capability_generation request,
     ae_attach_attempt_token = car_attach_attempt_token request,
     ae_accept_marker_delivery_seq = car_accept_marker_delivery_seq request\<rparr>"

fun select_enrollment_binding_slot ::
  "EnrollmentRequest \<Rightarrow> BindingSlotOccupancy \<Rightarrow> EnrollmentResponse BindingSlotDecision" where
  "select_enrollment_binding_slot request SlotEmpty = Available"
| "select_enrollment_binding_slot request (SlotOccupied _) =
    SlotRespond (enrollment_binding_occupied (enrollment_envelope request))"

fun select_credential_attach_binding_slot ::
  "CredentialAttachRequest \<Rightarrow> BindingSlotOccupancy \<Rightarrow> CredentialAttachResponse BindingSlotDecision" where
  "select_credential_attach_binding_slot request SlotEmpty = Available"
| "select_credential_attach_binding_slot request (SlotOccupied participant_id) =
    (if participant_id = car_participant_id request then Available
     else SlotRespond (attach_binding_occupied (attach_envelope request)))"

section \<open>Enrollment and credential-attach capacity (capacity.rs)\<close>

record EnrollmentCapacityCounters =
  ecc_identity_server :: CapacityCounter
  ecc_identity_conversation :: CapacityCounter
  ecc_live_receipt_participant :: FreshParticipantCapacityCounter
  ecc_provenance_participant :: FreshParticipantCapacityCounter

record ResultingEnrollmentCapacityCounters =
  recc_identity_server :: CapacityCounter
  recc_identity_conversation :: CapacityCounter
  recc_live_receipt_participant :: CapacityCounter
  recc_provenance_participant :: CapacityCounter

datatype (plugins only: code size) EnrollmentCapacityDecision =
    EnrollmentCommit ResultingEnrollmentCapacityCounters
  | EnrollmentRespond EnrollmentResponse

definition enrollment_identity_refusal ::
  "EnrollmentRequest \<Rightarrow> IdentityCapacityScope \<Rightarrow> CapacityCounter \<Rightarrow> EnrollmentCapacityDecision" where
  "enrollment_identity_refusal request scope counter =
    EnrollmentRespond (identity_capacity_exceeded
      \<lparr>ice_request = enrollment_envelope request, ice_scope = scope,
       ice_limit = cc_limit counter, ice_occupied = cc_occupied counter\<rparr>)"

definition select_enrollment_capacity ::
  "EnrollmentRequest \<Rightarrow> EnrollmentCapacityCounters \<Rightarrow> EnrollmentCapacityDecision" where
  "select_enrollment_capacity request current =
    (case incremented (ecc_identity_server current) of
       None \<Rightarrow> enrollment_identity_refusal request Server (ecc_identity_server current)
     | Some identity_server \<Rightarrow>
         (case incremented (ecc_identity_conversation current) of
            None \<Rightarrow> enrollment_identity_refusal request Conversation (ecc_identity_conversation current)
          | Some identity_conversation \<Rightarrow>
              EnrollmentCommit \<lparr>recc_identity_server = identity_server,
                recc_identity_conversation = identity_conversation,
                recc_live_receipt_participant = reserved (ecc_live_receipt_participant current),
                recc_provenance_participant = unfilled (ecc_provenance_participant current)\<rparr>))"

record CredentialAttachCapacityCounters =
  cacc_live_receipt_participant :: CapacityCounter
  cacc_provenance_participant :: CapacityCounter

record CredentialAttachCapacityCommit =
  cacm_live_receipt_participant :: ParticipantWindowCommit
  cacm_provenance_participant :: ParticipantWindowCommit

definition select_credential_attach_capacity ::
  "CredentialAttachCapacityCounters \<Rightarrow> CredentialAttachCapacityCommit" where
  "select_credential_attach_capacity current =
    \<lparr>cacm_live_receipt_participant = select_participant_window (cacc_live_receipt_participant current),
     cacm_provenance_participant = select_participant_window (cacc_provenance_participant current)\<rparr>"

section \<open>Observer hard retention (observer.rs)\<close>

datatype (plugins only: code size) ObserverCheckedOperation =
    CheckedEnrollment EnrollmentEnvelope
  | CheckedCredentialAttach AttachEnvelope
  | CheckedInitialDetach DetachEnvelope BindingEpoch
  | CheckedLeave LeaveEnvelope bool
  | CheckedRecordAdmission RecordAdmissionEnvelope

record ObserverFloorPermit =
  ofp_observer_progress :: DeliverySeq
  ofp_cap_floor :: u128

datatype (plugins only: code size) ObserverFloorDecision =
    ObserverEligible ObserverFloorPermit
  | ObserverRespond ObserverBackpressure

definition check_observer_floor ::
  "ObserverCheckedOperation \<Rightarrow> DeliverySeq \<Rightarrow> u128 \<Rightarrow> ObserverFloorDecision" where
  "check_observer_floor operation observer_progress cap_floor =
    (let observer_limit = widen observer_progress + 1 in
     if cap_floor \<le> observer_limit
     then ObserverEligible \<lparr>ofp_observer_progress = observer_progress, ofp_cap_floor = cap_floor\<rparr>
     else
       (let state = ObserverBackpressureState_initial observer_progress in
        ObserverRespond (case operation of
            CheckedEnrollment request \<Rightarrow> BackpressureEnrollment request state
          | CheckedCredentialAttach request \<Rightarrow> BackpressureCredentialAttach request state
          | CheckedInitialDetach request committed_binding_epoch \<Rightarrow>
              BackpressureDetach request committed_binding_epoch state
          | CheckedLeave request prior_terminal_cell_exists \<Rightarrow>
              BackpressureLeave request state prior_terminal_cell_exists
          | CheckedRecordAdmission request \<Rightarrow> BackpressureRecordAdmission request state)))"

section \<open>Record size preflight (record.rs)\<close>

datatype (plugins only: code size) RecordSizeDecision =
    RecordEligible ResourceVector
  | RecordRespond RecordTooLarge

definition check_record_size ::
  "RecordAdmissionEnvelope \<Rightarrow> ResourceVector \<Rightarrow> ResourceVector \<Rightarrow> RecordSizeDecision" where
  "check_record_size request encoded_record_charge max_ordinary_record_charge =
    (if rv_entries encoded_record_charge > rv_entries max_ordinary_record_charge then
       RecordRespond \<lparr>rtl_request = request, rtl_dimension = Entries,
         rtl_encoded_record_charge = encoded_record_charge,
         rtl_max_ordinary_record_charge = max_ordinary_record_charge\<rparr>
     else if rv_bytes encoded_record_charge > rv_bytes max_ordinary_record_charge then
       RecordRespond \<lparr>rtl_request = request, rtl_dimension = Bytes,
         rtl_encoded_record_charge = encoded_record_charge,
         rtl_max_ordinary_record_charge = max_ordinary_record_charge\<rparr>
     else RecordEligible encoded_record_charge)"

section \<open>The bounded-counter contract\<close>

text \<open>What a client uses of a bounded counter: an increment exists exactly below the bound, keeps
  the bound and adds one.\<close>

locale bounded_counter =
  fixes limit occ :: "'c \<Rightarrow> nat" and inc :: "'c \<Rightarrow> 'c option" and wf :: "'c \<Rightarrow> bool"
  assumes bound: "wf c \<Longrightarrow> occ c \<le> limit c"
    and inc_None: "wf c \<Longrightarrow> inc c = None \<longleftrightarrow> occ c = limit c"
    and inc_Some: "wf c \<Longrightarrow> inc c = Some c' \<Longrightarrow> wf c' \<and> limit c' = limit c \<and> occ c' = occ c + 1"
begin

definition admit :: "'c \<Rightarrow> 'c" where
  "admit c = (case inc c of Some c' \<Rightarrow> c' | None \<Rightarrow> c)"

lemma admit_spec:
  "wf c \<Longrightarrow> wf (admit c) \<and> limit (admit c) = limit c \<and> occ (admit c) = min (limit c) (occ c + 1)"
  using bound [of c] inc_None [of c] by (cases "inc c") (auto simp: admit_def dest: inc_Some bound)

lemma admit_pow:
  "wf c \<Longrightarrow> wf ((admit ^^ n) c) \<and> limit ((admit ^^ n) c) = limit c
    \<and> occ ((admit ^^ n) c) = min (limit c) (occ c + n)"
proof (induction n)
  case 0
  then show ?case using bound [of c] by simp
next
  case (Suc n)
  then show ?case using admit_spec [of "(admit ^^ n) c"] by auto
qed

end

definition counter_valid :: "CapacityCounter \<Rightarrow> bool" where
  "counter_valid c \<longleftrightarrow> cc_limit c \<noteq> 0 \<and> cc_occupied c \<le> cc_limit c"

lemma CapacityCounter_try_new_Ok_iff:
  "CapacityCounter_try_new l n = Ok c \<longleftrightarrow> counter_valid c \<and> c = \<lparr>cc_limit = l, cc_occupied = n\<rparr>"
  by (auto simp: CapacityCounter_try_new_def counter_valid_def)

lemma incremented_Some:
  assumes "counter_valid c" "incremented c = Some c'"
  shows "counter_valid c' \<and> cc_limit c' = cc_limit c \<and> unat (cc_occupied c') = unat (cc_occupied c) + 1"
proof -
  have lt: "unat (cc_occupied c) < unat (cc_limit c)"
    using assms by (auto simp: incremented_def is_full_def counter_valid_def word_le_nat_alt
        word_unat_eq_iff split: if_splits)
  then have "unat (cc_occupied c + 1) = unat (cc_occupied c) + 1"
    using unat_u64_less [of "cc_limit c"] by (subst unat_add_exact) simp_all
  with assms lt show ?thesis
    by (auto simp: incremented_def counter_valid_def word_le_nat_alt split: if_splits)
qed

interpretation counter: bounded_counter
  "\<lambda>c. unat (cc_limit c)" "\<lambda>c. unat (cc_occupied c)" incremented counter_valid
proof unfold_locales
  fix c
  assume v: "counter_valid c"
  from v show "unat (cc_occupied c) \<le> unat (cc_limit c)"
    by (simp add: counter_valid_def word_le_nat_alt)
  show "incremented c = None \<longleftrightarrow> unat (cc_occupied c) = unat (cc_limit c)"
    by (simp add: incremented_def is_full_def word_unat_eq_iff)
  fix c'
  assume "incremented c = Some c'"
  from incremented_Some [OF v this] show "counter_valid c' \<and> unat (cc_limit c') = unat (cc_limit c) \<and>
      unat (cc_occupied c') = unat (cc_occupied c) + 1"
    by simp
qed

lemma window_resulting_admit: "pwc_resulting (select_participant_window c) = counter.admit c"
  by (simp add: select_participant_window_def counter.admit_def split: option.splits)

lemma window_displaced_iff:
  "pwc_admission (select_participant_window c) = Displaced \<longleftrightarrow> is_full c"
  by (simp add: select_participant_window_def incremented_def)

text \<open>A participant's history of attaches: the window after \<open>n\<close> admissions and how many displaced.\<close>

primrec window_run :: "nat \<Rightarrow> CapacityCounter \<Rightarrow> nat \<times> CapacityCounter" where
  "window_run 0 c = (0, c)"
| "window_run (Suc n) c =
    (let (d, c') = window_run n c; commit = select_participant_window c'
     in (d + of_bool (pwc_admission commit = Displaced), pwc_resulting commit))"

lemma window_run_counter: "snd (window_run n c) = (counter.admit ^^ n) c"
  by (induction n) (simp_all add: Let_def case_prod_beta window_resulting_admit)

section \<open>Properties\<close>

text \<open>C23: a retention window never refuses and never exceeds its bound: after \<open>n\<close> admissions into a valid
  window the limit is unchanged, the occupancy is the smaller of the limit and the initial occupancy plus
  \<open>n\<close>, and exactly the entries that did not fit were displaced.\<close>

theorem participant_window_run:
  assumes "counter_valid c"
  shows "counter_valid (snd (window_run n c)) \<and> cc_limit (snd (window_run n c)) = cc_limit c
    \<and> unat (cc_occupied (snd (window_run n c))) = min (unat (cc_limit c)) (unat (cc_occupied c) + n)
    \<and> fst (window_run n c) + unat (cc_limit c) = max (unat (cc_limit c)) (unat (cc_occupied c) + n)"
proof -
  note pow = counter.admit_pow [OF assms, folded window_run_counter]
  have "fst (window_run n c) + unat (cc_limit c) = max (unat (cc_limit c)) (unat (cc_occupied c) + n)"
  proof (induction n)
    case 0
    then show ?case using counter.bound [OF assms] by simp
  next
    case (Suc n)
    have "is_full (snd (window_run n c)) \<longleftrightarrow> unat (cc_limit c) \<le> unat (cc_occupied c) + n"
      using pow [of n] by (auto simp: is_full_def word_unat_eq_iff)
    with Suc show ?case by (auto simp: Let_def case_prod_beta window_displaced_iff)
  qed
  with pow [of n] show ?thesis by (simp add: word_unat_eq_iff)
qed

theorem participant_window_run_witness:
  "counter_valid \<lparr>cc_limit = 2, cc_occupied = 1\<rparr>
    \<and> fst (window_run 3 \<lparr>cc_limit = 2, cc_occupied = 1\<rparr>) = 2"
proof -
  have v: "counter_valid \<lparr>cc_limit = 2, cc_occupied = 1\<rparr>"
    by (simp add: counter_valid_def)
  from v participant_window_run [OF v, of 3] show ?thesis by simp
qed

text \<open>enrollment capacity commits exactly when both identity counters have room; it then takes one
  row of each, fills the fresh live-receipt window with one entry and leaves the provenance window as it
  was. Otherwise it names the first full scope, server before conversation, with that counter's limit.\<close>

theorem enrollment_capacity_exact:
  assumes "counter_valid (ecc_identity_server k)" and "counter_valid (ecc_identity_conversation k)"
  shows "case select_enrollment_capacity request k of
     EnrollmentCommit r \<Rightarrow>
       unat (cc_occupied (recc_identity_server r)) = unat (cc_occupied (ecc_identity_server k)) + 1
       \<and> unat (cc_occupied (recc_identity_conversation r)) = unat (cc_occupied (ecc_identity_conversation k)) + 1
       \<and> counter_valid (recc_identity_server r) \<and> counter_valid (recc_identity_conversation r)
       \<and> cc_occupied (recc_live_receipt_participant r) = 1
       \<and> recc_provenance_participant r = fresh_counter (ecc_provenance_participant k)
   | EnrollmentRespond resp \<Rightarrow>
       (\<exists>scope counter. resp = EnrollmentIdentityCapacityExceeded
          \<lparr>ice_request = enrollment_envelope request, ice_scope = scope,
           ice_limit = cc_limit counter, ice_occupied = cc_limit counter\<rparr>
          \<and> (if is_full (ecc_identity_server k)
             then scope = Server \<and> counter = ecc_identity_server k
             else scope = Conversation \<and> counter = ecc_identity_conversation k
               \<and> is_full (ecc_identity_conversation k)))"
proof (cases "incremented (ecc_identity_server k)")
  case None
  then have "is_full (ecc_identity_server k)" by (simp add: incremented_def split: if_splits)
  with None show ?thesis
    by (simp add: select_enrollment_capacity_def enrollment_identity_refusal_def
        identity_capacity_exceeded_def is_full_def)
next
  case server: (Some s)
  then have ns: "\<not> is_full (ecc_identity_server k)" by (auto simp: incremented_def)
  show ?thesis
  proof (cases "incremented (ecc_identity_conversation k)")
    case None
    then have "is_full (ecc_identity_conversation k)" by (simp add: incremented_def split: if_splits)
    with None server ns show ?thesis
      by (simp add: select_enrollment_capacity_def enrollment_identity_refusal_def
          identity_capacity_exceeded_def is_full_def)
  next
    case (Some t)
    from incremented_Some [OF assms(1) server] incremented_Some [OF assms(2) Some] server Some
    show ?thesis by (simp add: select_enrollment_capacity_def reserved_def unfilled_def)
  qed
qed

theorem enrollment_capacity_exact_witness:
  "let k = \<lparr>ecc_identity_server = \<lparr>cc_limit = 2, cc_occupied = 1\<rparr>,
            ecc_identity_conversation = \<lparr>cc_limit = 1, cc_occupied = 1\<rparr>,
            ecc_live_receipt_participant = Fresh \<lparr>cc_limit = 1, cc_occupied = 0\<rparr>,
            ecc_provenance_participant = Fresh \<lparr>cc_limit = 1, cc_occupied = 0\<rparr>\<rparr>;
       request = \<lparr>er_conversation_id = 5, er_enrollment_token = replicate 16 0\<rparr>
   in counter_valid (ecc_identity_server k) \<and> counter_valid (ecc_identity_conversation k)
     \<and> select_enrollment_capacity request k = EnrollmentRespond (EnrollmentIdentityCapacityExceeded
         \<lparr>ice_request = enrollment_envelope request, ice_scope = Conversation, ice_limit = 1, ice_occupied = 1\<rparr>)"
proof -
  let ?k = "\<lparr>ecc_identity_server = \<lparr>cc_limit = 2, cc_occupied = 1\<rparr>,
            ecc_identity_conversation = \<lparr>cc_limit = 1, cc_occupied = 1\<rparr>,
            ecc_live_receipt_participant = Fresh \<lparr>cc_limit = 1, cc_occupied = 0\<rparr>,
            ecc_provenance_participant = Fresh \<lparr>cc_limit = 1, cc_occupied = 0\<rparr>\<rparr>"
  let ?request = "\<lparr>er_conversation_id = 5, er_enrollment_token = replicate 16 0\<rparr>"
  have v: "counter_valid (ecc_identity_server ?k)" "counter_valid (ecc_identity_conversation ?k)"
    by (simp_all add: counter_valid_def)
  have "\<not> is_full (ecc_identity_server ?k)" "is_full (ecc_identity_conversation ?k)"
    by (simp_all add: is_full_def)
  moreover have "\<not> (\<exists>r. select_enrollment_capacity ?request ?k = EnrollmentCommit r)"
    by (simp add: select_enrollment_capacity_def incremented_def is_full_def enrollment_identity_refusal_def)
  ultimately show ?thesis
    using v enrollment_capacity_exact [OF v, of ?request]
    by (cases "select_enrollment_capacity ?request ?k") (auto simp: Let_def)
qed

text \<open>the observer check lets a candidate floor through exactly when it is at most one past the
  observer progress, computed without wrap-around even at the largest progress; a refusal opens an epoch
  equal to the current progress, which a replay at that progress accepts.\<close>

theorem observer_floor_exact:
  "(case check_observer_floor operation p floor of
      ObserverEligible permit \<Rightarrow> unat floor \<le> unat p + 1 \<and> ofp_cap_floor permit = floor
        \<and> ofp_observer_progress permit = p
    | ObserverRespond r \<Rightarrow> unat p + 1 < unat floor
        \<and> (\<exists>s. ObserverBackpressureState_replay p p = Some s \<and>
            r = (case operation of
              CheckedEnrollment q \<Rightarrow> BackpressureEnrollment q s
            | CheckedCredentialAttach q \<Rightarrow> BackpressureCredentialAttach q s
            | CheckedInitialDetach q e \<Rightarrow> BackpressureDetach q e s
            | CheckedLeave q b \<Rightarrow> BackpressureLeave q s b
            | CheckedRecordAdmission q \<Rightarrow> BackpressureRecordAdmission q s)))"
proof -
  have "floor \<le> widen p + 1 \<longleftrightarrow> unat floor \<le> unat p + 1"
    by (simp add: word_le_nat_alt unat_widen_Suc)
  then show ?thesis
    by (auto simp: check_observer_floor_def Let_def replay_Some_iff)
qed

end
