(* ===== verification/Wire_Frames.thy ===== *)
theory Wire_Frames
  imports Prelude
begin

text \<open>
  The vocabulary of the liminal wire protocol (\<open>crates/liminal/src/protocol\<close>): connection states,
  frame types and their registry bytes (\<open>frame.rs\<close>), protocol errors (\<open>error.rs\<close>), versions, schema and
  message identifiers, causal contexts and envelopes, and the frame enum with its constructors, its
  accessors and its stream-placement validation.
\<close>

section \<open>Connection states and frame types\<close>

datatype (plugins only: code size) ConnectionState = Connecting | Authenticating | Active | Closing | Closed

datatype (plugins only: code size) FrameType =
    Connect | ConnectAck | ConnectError | Disconnect
  | Subscribe | SubscribeAck | SubscribeError | Unsubscribe
  | Publish | PublishAck | PublishError
  | ConversationOpen | ConversationMessage | ConversationClose | ConversationError
  | Accept | Defer | Reject | Ping | Pong | Push | PushReply
  | WorkerRegister | WorkerRegisterAck | Deliver
  | Unknown u8

definition is_control :: "FrameType \<Rightarrow> bool" where
  "is_control t \<longleftrightarrow> t = FrameType.Connect \<or> t = FrameType.ConnectAck \<or> t = FrameType.ConnectError
    \<or> t = FrameType.Disconnect \<or> t = FrameType.Ping \<or> t = FrameType.Pong
    \<or> t = FrameType.WorkerRegister \<or> t = FrameType.WorkerRegisterAck"

definition frame_type_from_u8 :: "u8 \<Rightarrow> FrameType" where
  "frame_type_from_u8 value =
    (if value = 0x01 then FrameType.Connect
     else if value = 0x02 then FrameType.ConnectAck
     else if value = 0x03 then FrameType.ConnectError
     else if value = 0x04 then FrameType.Disconnect
     else if value = 0x05 then FrameType.Subscribe
     else if value = 0x06 then FrameType.SubscribeAck
     else if value = 0x07 then FrameType.SubscribeError
     else if value = 0x08 then FrameType.Unsubscribe
     else if value = 0x09 then FrameType.Publish
     else if value = 0x0A then FrameType.PublishAck
     else if value = 0x0B then FrameType.PublishError
     else if value = 0x0C then FrameType.ConversationOpen
     else if value = 0x0D then FrameType.ConversationMessage
     else if value = 0x0E then FrameType.ConversationClose
     else if value = 0x0F then FrameType.ConversationError
     else if value = 0x10 then FrameType.Accept
     else if value = 0x11 then FrameType.Defer
     else if value = 0x12 then FrameType.Reject
     else if value = 0x13 then FrameType.Ping
     else if value = 0x14 then FrameType.Pong
     else if value = 0x15 then FrameType.Push
     else if value = 0x16 then FrameType.PushReply
     else if value = 0x17 then FrameType.WorkerRegister
     else if value = 0x18 then FrameType.WorkerRegisterAck
     else if value = 0x19 then FrameType.Deliver
     else FrameType.Unknown value)"

fun frame_type_to_u8 :: "FrameType \<Rightarrow> u8" where
  "frame_type_to_u8 FrameType.Connect = 0x01"
| "frame_type_to_u8 FrameType.ConnectAck = 0x02"
| "frame_type_to_u8 FrameType.ConnectError = 0x03"
| "frame_type_to_u8 FrameType.Disconnect = 0x04"
| "frame_type_to_u8 FrameType.Subscribe = 0x05"
| "frame_type_to_u8 FrameType.SubscribeAck = 0x06"
| "frame_type_to_u8 FrameType.SubscribeError = 0x07"
| "frame_type_to_u8 FrameType.Unsubscribe = 0x08"
| "frame_type_to_u8 FrameType.Publish = 0x09"
| "frame_type_to_u8 FrameType.PublishAck = 0x0A"
| "frame_type_to_u8 FrameType.PublishError = 0x0B"
| "frame_type_to_u8 FrameType.ConversationOpen = 0x0C"
| "frame_type_to_u8 FrameType.ConversationMessage = 0x0D"
| "frame_type_to_u8 FrameType.ConversationClose = 0x0E"
| "frame_type_to_u8 FrameType.ConversationError = 0x0F"
| "frame_type_to_u8 FrameType.Accept = 0x10"
| "frame_type_to_u8 FrameType.Defer = 0x11"
| "frame_type_to_u8 FrameType.Reject = 0x12"
| "frame_type_to_u8 FrameType.Ping = 0x13"
| "frame_type_to_u8 FrameType.Pong = 0x14"
| "frame_type_to_u8 FrameType.Push = 0x15"
| "frame_type_to_u8 FrameType.PushReply = 0x16"
| "frame_type_to_u8 FrameType.WorkerRegister = 0x17"
| "frame_type_to_u8 FrameType.WorkerRegisterAck = 0x18"
| "frame_type_to_u8 FrameType.Deliver = 0x19"
| "frame_type_to_u8 (FrameType.Unknown type_id) = type_id"

section \<open>Errors (error.rs)\<close>

datatype (plugins only: code size) ProtocolError =
    IncompleteHeader "rstring option"
  | TruncatedPayload "rstring option"
  | UnknownFrameType u8 "rstring option"
  | InvalidStream FrameType u32 "rstring option"
  | InvalidStateTransition ConnectionState FrameType "rstring option"
  | AuthenticationFailure "rstring option"
  | VersionMismatch "rstring option"
  | SchemaIncompatible "rstring option"
  | CodecError "rstring option"

fun reason_code :: "ProtocolError \<Rightarrow> u16" where
  "reason_code (IncompleteHeader _) = 0x0001"
| "reason_code (TruncatedPayload _) = 0x0002"
| "reason_code (UnknownFrameType _ _) = 0x0003"
| "reason_code (InvalidStream _ _ _) = 0x0004"
| "reason_code (InvalidStateTransition _ _ _) = 0x0005"
| "reason_code (AuthenticationFailure _) = 0x0006"
| "reason_code (VersionMismatch _) = 0x0007"
| "reason_code (SchemaIncompatible _) = 0x0008"
| "reason_code (CodecError _) = 0x0009"

fun error_message :: "ProtocolError \<Rightarrow> rstring option" where
  "error_message (IncompleteHeader message) = message"
| "error_message (TruncatedPayload message) = message"
| "error_message (UnknownFrameType _ message) = message"
| "error_message (InvalidStream _ _ message) = message"
| "error_message (InvalidStateTransition _ _ message) = message"
| "error_message (AuthenticationFailure message) = message"
| "error_message (VersionMismatch message) = message"
| "error_message (SchemaIncompatible message) = message"
| "error_message (CodecError message) = message"

definition invalid_stream :: "FrameType \<Rightarrow> u32 \<Rightarrow> ProtocolError" where
  "invalid_stream frame_type stream_id =
    InvalidStream frame_type stream_id (Some (lit ''stream id violates frame type invariants''))"

definition invalid_state_transition :: "ConnectionState \<Rightarrow> FrameType \<Rightarrow> ProtocolError" where
  "invalid_state_transition current_state frame_type =
    InvalidStateTransition current_state frame_type
      (Some (lit ''frame is invalid for the current connection state''))"

definition codec :: "string \<Rightarrow> ProtocolError" where
  "codec message = CodecError (Some (lit message))"

section \<open>Versions, identifiers, contexts and envelopes\<close>

record ProtocolVersion =
  pv_major :: u16
  pv_minor :: u16

text \<open>\<open>SchemaId\<close> holds \<open>[u8; 32]\<close>, \<open>MessageId\<close> a \<open>String\<close>.\<close>

datatype (plugins only: code size) SchemaId = SchemaId (schema_id_bytes: "u8 list")

abbreviation (input) SCHEMA_ID_WIRE_LEN :: nat where "SCHEMA_ID_WIRE_LEN \<equiv> 32"

datatype (plugins only: code size) MessageId = MessageId (message_id_str: rstring)

record CausalContext =
  cc_parent_id :: "MessageId option"
  cc_vector_clock_entry :: "u64 option"

definition CausalContext_independent :: CausalContext where
  "CausalContext_independent = \<lparr>cc_parent_id = None, cc_vector_clock_entry = None\<rparr>"

definition CausalContext_with_parent :: "MessageId \<Rightarrow> CausalContext" where
  "CausalContext_with_parent parent_id = \<lparr>cc_parent_id = Some parent_id, cc_vector_clock_entry = None\<rparr>"

record MessageEnvelope =
  me_schema_id :: SchemaId
  me_causal_context :: CausalContext
  me_payload :: "u8 list"

section \<open>Frames (frame.rs)\<close>

record WorkerActivityDescriptor =
  wad_name :: rstring
  wad_input_schema_json :: rstring
  wad_output_schema_json :: rstring

record WorkerRegistration =
  wr_namespaces :: "rstring list"
  wr_task_queue :: rstring
  wr_node :: "rstring option"
  wr_activity_types :: "rstring list"
  wr_identity :: rstring
  wr_activities :: "WorkerActivityDescriptor list"

datatype (plugins only: code size) WorkerRegisterOutcome = Accepted | Rejected rstring

text \<open>The arguments follow the field order of the source: flags, stream id (where the variant has one),
  then the variant's own fields.\<close>

datatype (plugins only: code size) Frame =
    Connect u8 ProtocolVersion ProtocolVersion "u8 list"
  | ConnectAck u8 ProtocolVersion u32
  | ConnectError u8 u16 "rstring option"
  | Disconnect u8
  | Subscribe u8 u32 rstring "SchemaId list" u32
  | SubscribeAck u8 u32 u64 SchemaId
  | SubscribeError u8 u32 u16 "rstring option"
  | Unsubscribe u8 u32 u64
  | Publish u8 u32 rstring MessageEnvelope "rstring option"
  | PublishAck u8 u32 u64
  | PublishError u8 u32 u16 "rstring option"
  | ConversationOpen u8 u32 u64 rstring
  | ConversationMessage u8 u32 u64 MessageEnvelope
  | ConversationClose u8 u32 u64 "u16 option" "rstring option"
  | ConversationError u8 u32 u64 u16 "rstring option"
  | Accept u8 u32 MessageId
  | Defer u8 u32 MessageId "rstring option"
  | Reject u8 u32 MessageId "rstring option"
  | Ping u8
  | Pong u8
  | Push u8 u32 u64 "u8 list"
  | PushReply u8 u32 u64 "u8 list"
  | WorkerRegister u8 WorkerRegistration
  | WorkerRegisterAck u8 WorkerRegisterOutcome
  | Deliver u8 u32 u64 MessageEnvelope
  | Unknown u8 u8 u32 "u8 list"

abbreviation (input) HEADER_LEN :: nat where "HEADER_LEN \<equiv> 10"

abbreviation (input) PUBLISH_IDEMPOTENCY_KEY_FLAG :: u8 where "PUBLISH_IDEMPOTENCY_KEY_FLAG \<equiv> 0x02"

abbreviation (input) WORKER_REGISTER_ACK_ACCEPTED :: u8 where "WORKER_REGISTER_ACK_ACCEPTED \<equiv> 0x00"

abbreviation (input) WORKER_REGISTER_ACK_REJECTED :: u8 where "WORKER_REGISTER_ACK_REJECTED \<equiv> 0x01"

fun frame_type :: "Frame \<Rightarrow> FrameType" where
  "frame_type (Connect _ _ _ _) = FrameType.Connect"
| "frame_type (ConnectAck _ _ _) = FrameType.ConnectAck"
| "frame_type (ConnectError _ _ _) = FrameType.ConnectError"
| "frame_type (Disconnect _) = FrameType.Disconnect"
| "frame_type (Subscribe _ _ _ _ _) = FrameType.Subscribe"
| "frame_type (SubscribeAck _ _ _ _) = FrameType.SubscribeAck"
| "frame_type (SubscribeError _ _ _ _) = FrameType.SubscribeError"
| "frame_type (Unsubscribe _ _ _) = FrameType.Unsubscribe"
| "frame_type (Publish _ _ _ _ _) = FrameType.Publish"
| "frame_type (PublishAck _ _ _) = FrameType.PublishAck"
| "frame_type (PublishError _ _ _ _) = FrameType.PublishError"
| "frame_type (ConversationOpen _ _ _ _) = FrameType.ConversationOpen"
| "frame_type (ConversationMessage _ _ _ _) = FrameType.ConversationMessage"
| "frame_type (ConversationClose _ _ _ _ _) = FrameType.ConversationClose"
| "frame_type (ConversationError _ _ _ _ _) = FrameType.ConversationError"
| "frame_type (Accept _ _ _) = FrameType.Accept"
| "frame_type (Defer _ _ _ _) = FrameType.Defer"
| "frame_type (Reject _ _ _ _) = FrameType.Reject"
| "frame_type (Ping _) = FrameType.Ping"
| "frame_type (Pong _) = FrameType.Pong"
| "frame_type (Push _ _ _ _) = FrameType.Push"
| "frame_type (PushReply _ _ _ _) = FrameType.PushReply"
| "frame_type (WorkerRegister _ _) = FrameType.WorkerRegister"
| "frame_type (WorkerRegisterAck _ _) = FrameType.WorkerRegisterAck"
| "frame_type (Deliver _ _ _ _) = FrameType.Deliver"
| "frame_type (Unknown type_id _ _ _) = FrameType.Unknown type_id"

fun frame_flags :: "Frame \<Rightarrow> u8" where
  "frame_flags (Connect flags _ _ _) = flags"
| "frame_flags (ConnectAck flags _ _) = flags"
| "frame_flags (ConnectError flags _ _) = flags"
| "frame_flags (Disconnect flags) = flags"
| "frame_flags (Subscribe flags _ _ _ _) = flags"
| "frame_flags (SubscribeAck flags _ _ _) = flags"
| "frame_flags (SubscribeError flags _ _ _) = flags"
| "frame_flags (Unsubscribe flags _ _) = flags"
| "frame_flags (Publish flags _ _ _ _) = flags"
| "frame_flags (PublishAck flags _ _) = flags"
| "frame_flags (PublishError flags _ _ _) = flags"
| "frame_flags (ConversationOpen flags _ _ _) = flags"
| "frame_flags (ConversationMessage flags _ _ _) = flags"
| "frame_flags (ConversationClose flags _ _ _ _) = flags"
| "frame_flags (ConversationError flags _ _ _ _) = flags"
| "frame_flags (Accept flags _ _) = flags"
| "frame_flags (Defer flags _ _ _) = flags"
| "frame_flags (Reject flags _ _ _) = flags"
| "frame_flags (Ping flags) = flags"
| "frame_flags (Pong flags) = flags"
| "frame_flags (Push flags _ _ _) = flags"
| "frame_flags (PushReply flags _ _ _) = flags"
| "frame_flags (WorkerRegister flags _) = flags"
| "frame_flags (WorkerRegisterAck flags _) = flags"
| "frame_flags (Deliver flags _ _ _) = flags"
| "frame_flags (Unknown _ flags _ _) = flags"

fun frame_stream_id :: "Frame \<Rightarrow> u32" where
  "frame_stream_id (Connect _ _ _ _) = 0"
| "frame_stream_id (ConnectAck _ _ _) = 0"
| "frame_stream_id (ConnectError _ _ _) = 0"
| "frame_stream_id (Disconnect _) = 0"
| "frame_stream_id (Ping _) = 0"
| "frame_stream_id (Pong _) = 0"
| "frame_stream_id (WorkerRegister _ _) = 0"
| "frame_stream_id (WorkerRegisterAck _ _) = 0"
| "frame_stream_id (Subscribe _ stream_id _ _ _) = stream_id"
| "frame_stream_id (SubscribeAck _ stream_id _ _) = stream_id"
| "frame_stream_id (SubscribeError _ stream_id _ _) = stream_id"
| "frame_stream_id (Unsubscribe _ stream_id _) = stream_id"
| "frame_stream_id (Publish _ stream_id _ _ _) = stream_id"
| "frame_stream_id (PublishAck _ stream_id _) = stream_id"
| "frame_stream_id (PublishError _ stream_id _ _) = stream_id"
| "frame_stream_id (ConversationOpen _ stream_id _ _) = stream_id"
| "frame_stream_id (ConversationMessage _ stream_id _ _) = stream_id"
| "frame_stream_id (ConversationClose _ stream_id _ _ _) = stream_id"
| "frame_stream_id (ConversationError _ stream_id _ _ _) = stream_id"
| "frame_stream_id (Accept _ stream_id _) = stream_id"
| "frame_stream_id (Defer _ stream_id _ _) = stream_id"
| "frame_stream_id (Reject _ stream_id _ _) = stream_id"
| "frame_stream_id (Push _ stream_id _ _) = stream_id"
| "frame_stream_id (PushReply _ stream_id _ _) = stream_id"
| "frame_stream_id (Deliver _ stream_id _ _) = stream_id"
| "frame_stream_id (Unknown _ _ stream_id _) = stream_id"

definition is_unknown :: "FrameType \<Rightarrow> bool" where
  "is_unknown t = (case t of FrameType.Unknown _ \<Rightarrow> True | _ \<Rightarrow> False)"

definition validate_stream :: "FrameType \<Rightarrow> u32 \<Rightarrow> (ProtocolError, unit) result" where
  "validate_stream t stream_id =
    (if is_unknown t then Ok ()
     else
       (let valid = (if is_control t then stream_id = 0 else stream_id \<ge> 1) in
        if valid then Ok () else Err (invalid_stream t stream_id)))"

definition validate :: "Frame \<Rightarrow> (ProtocolError, unit) result" where
  "validate frame =
    andThen (validate_stream (frame_type frame) (frame_stream_id frame)) (\<lambda>_.
      case frame of
        Subscribe _ _ _ _ max_in_flight \<Rightarrow>
          if max_in_flight = 0 then Err (codec ''max_in_flight must be greater than zero'') else Ok ()
      | _ \<Rightarrow> Ok ())"

subsection \<open>Frame constructors\<close>

definition new_ping :: "u32 \<Rightarrow> (ProtocolError, Frame) result" where
  "new_ping stream_id = andThen (validate_stream FrameType.Ping stream_id) (\<lambda>_. Ok (Ping 0))"

definition new_publish :: "u32 \<Rightarrow> rstring \<Rightarrow> MessageEnvelope \<Rightarrow> (ProtocolError, Frame) result" where
  "new_publish stream_id channel envelope =
    andThen (validate_stream FrameType.Publish stream_id) (\<lambda>_. Ok (Publish 0 stream_id channel envelope None))"

definition new_publish_with_idempotency_key ::
  "u32 \<Rightarrow> rstring \<Rightarrow> MessageEnvelope \<Rightarrow> rstring \<Rightarrow> (ProtocolError, Frame) result" where
  "new_publish_with_idempotency_key stream_id channel envelope idempotency_key =
    andThen (validate_stream FrameType.Publish stream_id) (\<lambda>_.
      Ok (Publish PUBLISH_IDEMPOTENCY_KEY_FLAG stream_id channel envelope (Some idempotency_key)))"

definition new_push :: "u32 \<Rightarrow> u64 \<Rightarrow> u8 list \<Rightarrow> (ProtocolError, Frame) result" where
  "new_push stream_id correlation_id payload =
    andThen (validate_stream FrameType.Push stream_id) (\<lambda>_. Ok (Push 0 stream_id correlation_id payload))"

definition new_deliver :: "u32 \<Rightarrow> u64 \<Rightarrow> MessageEnvelope \<Rightarrow> (ProtocolError, Frame) result" where
  "new_deliver stream_id delivery_seq envelope =
    andThen (validate_stream FrameType.Deliver stream_id) (\<lambda>_. Ok (Deliver 0 stream_id delivery_seq envelope))"

definition new_push_reply :: "u32 \<Rightarrow> u64 \<Rightarrow> u8 list \<Rightarrow> (ProtocolError, Frame) result" where
  "new_push_reply stream_id correlation_id payload =
    andThen (validate_stream FrameType.PushReply stream_id) (\<lambda>_.
      Ok (PushReply 0 stream_id correlation_id payload))"

section \<open>Lemmas\<close>

lemma is_unknown_simps [simp]:
  "is_unknown (FrameType.Unknown x)" "is_control t \<Longrightarrow> \<not> is_unknown t"
  by (auto simp: is_unknown_def is_control_def)

lemma is_unknown_iff: "is_unknown t \<longleftrightarrow> (\<exists>x. t = FrameType.Unknown x)"
  by (cases t) (simp_all add: is_unknown_def)

lemma validate_stream_Ok_iff:
  "validate_stream t s = Ok u \<longleftrightarrow> is_unknown t \<or> (is_control t \<longleftrightarrow> s = 0)"
  by (cases "s = 0") (auto simp: validate_stream_def Let_def word_le_nat_alt unat_eq_zero [symmetric] Suc_le_eq)

lemma frame_type_to_from [simp]: "frame_type_to_u8 (frame_type_from_u8 w) = w"
  by (simp add: frame_type_from_u8_def)

text \<open>The bytes the registry assigns to a named type.\<close>

definition registered :: "u8 \<Rightarrow> bool" where
  "registered w \<longleftrightarrow> \<not> is_unknown (frame_type_from_u8 w)"

lemma frame_type_from_to:
  "(\<And>x. t = FrameType.Unknown x \<Longrightarrow> \<not> registered x) \<Longrightarrow> frame_type_from_u8 (frame_type_to_u8 t) = t"
proof (cases "is_unknown t")
  case True
  then obtain x where x: "t = FrameType.Unknown x" by (auto simp: is_unknown_iff)
  assume "\<And>x. t = FrameType.Unknown x \<Longrightarrow> \<not> registered x"
  with x obtain y where y: "frame_type_from_u8 x = FrameType.Unknown y"
    by (auto simp: registered_def is_unknown_iff)
  then have "x = y" using frame_type_to_from [of x] by simp
  with x y show ?thesis by simp
next
  case False
  then show ?thesis by (cases t) (simp_all add: frame_type_from_u8_def)
qed

lemma registered_iff: "registered w \<longleftrightarrow> 1 \<le> unat w \<and> unat w \<le> 25"
proof
  assume "registered w"
  then show "1 \<le> unat w \<and> unat w \<le> 25"
    unfolding registered_def frame_type_from_u8_def
    by (auto simp: is_unknown_def split: if_splits)
next
  assume "1 \<le> unat w \<and> unat w \<le> 25"
  then show "registered w"
    unfolding registered_def frame_type_from_u8_def word_unat_eq_iff
    by (simp add: is_unknown_def split: if_splits) presburger
qed

end
