(* ===== verification/Payload_Codec.thy ===== *)
theory Payload_Codec
  imports Wire_Frames
begin

text \<open>
  The field codec of \<open>protocol/codec/payload.rs\<close>: length arithmetic, the bounded writer and the
  bounded reader, with their offsets checked as in the source. Two locales state what a field codec
  promises: a reader law (it accepts exactly the encodings of its values and advances past them) and
  a writer law (it places the encoding at the offset). Every field of the source interprets them, and
  the frame and envelope codecs are proved from the laws alone.
\<close>

section \<open>Lengths\<close>

abbreviation (input) U8_LEN :: nat where "U8_LEN \<equiv> 1"
abbreviation (input) U16_LEN :: nat where "U16_LEN \<equiv> 2"
abbreviation (input) U32_LEN :: nat where "U32_LEN \<equiv> 4"
abbreviation (input) U64_LEN :: nat where "U64_LEN \<equiv> 8"

text \<open>The summing loop shared by the three \<open>sum_lengths\<close> functions, with the message each reports.\<close>

primrec sum_loop :: "string \<Rightarrow> nat \<Rightarrow> nat list \<Rightarrow> (ProtocolError, nat) result" where
  "sum_loop message acc [] = Ok acc"
| "sum_loop message acc (part # parts) =
    andThen (ok_or (checked_add_usize acc part) (codec message)) (\<lambda>acc. sum_loop message acc parts)"

definition sum_lengths :: "nat list \<Rightarrow> (ProtocolError, nat) result" where
  "sum_lengths parts = sum_loop ''payload length overflowed usize'' 0 parts"

definition u32_try_from :: "nat \<Rightarrow> string \<Rightarrow> (ProtocolError, u32) result" where
  "u32_try_from len message = (if len \<le> U32_MAX then Ok (of_nat len) else Err (codec message))"

definition checked_u32_len :: "nat \<Rightarrow> (ProtocolError, unit) result" where
  "checked_u32_len len =
    andThen (u32_try_from len ''payload field length exceeded u32::MAX'') (\<lambda>_. Ok ())"

definition bytes_field_len :: "u8 list \<Rightarrow> (ProtocolError, nat) result" where
  "bytes_field_len bytes =
    andThen (checked_u32_len (length bytes)) (\<lambda>_. sum_lengths [U32_LEN, length bytes])"

definition string_field_len :: "rstring \<Rightarrow> (ProtocolError, nat) result" where
  "string_field_len value = bytes_field_len value"

fun option_string_len :: "rstring option \<Rightarrow> (ProtocolError, nat) result" where
  "option_string_len (Some inner) = andThen (string_field_len inner) (\<lambda>n. sum_lengths [U8_LEN, n])"
| "option_string_len None = Ok U8_LEN"

definition schema_ids_field_len :: "SchemaId list \<Rightarrow> (ProtocolError, nat) result" where
  "schema_ids_field_len schema_ids =
    andThen (checked_u32_len (length schema_ids)) (\<lambda>_.
    andThen (ok_or (checked_mul_usize (length schema_ids) SCHEMA_ID_WIRE_LEN)
        (codec ''schema id vector length overflowed usize'')) (\<lambda>ids_len.
    sum_lengths [U32_LEN, ids_len]))"

fun option_u16_len :: "u16 option \<Rightarrow> nat" where
  "option_u16_len (Some _) = U8_LEN + U16_LEN"
| "option_u16_len None = U8_LEN"

primrec string_vec_len_loop :: "nat \<Rightarrow> rstring list \<Rightarrow> (ProtocolError, nat) result" where
  "string_vec_len_loop acc [] = Ok acc"
| "string_vec_len_loop acc (value # values) =
    andThen (string_field_len value) (\<lambda>n.
    andThen (ok_or (checked_add_usize acc n) (codec ''string vector length overflowed usize'')) (\<lambda>acc.
    string_vec_len_loop acc values))"

definition string_vec_field_len :: "rstring list \<Rightarrow> (ProtocolError, nat) result" where
  "string_vec_field_len values =
    andThen (checked_u32_len (length values)) (\<lambda>_. string_vec_len_loop U32_LEN values)"

section \<open>Writer\<close>

text \<open>A writer owns the output slice and its offset; a write returns the updated writer.\<close>

record PayloadWriter =
  pw_buffer :: "u8 list"
  pw_offset :: nat

definition PayloadWriter_new :: "u8 list \<Rightarrow> PayloadWriter" where
  "PayloadWriter_new buffer = \<lparr>pw_buffer = buffer, pw_offset = 0\<rparr>"

definition write_slice :: "u8 list \<Rightarrow> PayloadWriter \<Rightarrow> (ProtocolError, PayloadWriter) result" where
  "write_slice bytes w =
    andThen (ok_or (checked_add_usize (pw_offset w) (length bytes)) (codec ''write offset overflowed usize''))
      (\<lambda>end_offset.
        if end_offset \<le> length (pw_buffer w)
        then Ok \<lparr>pw_buffer = take (pw_offset w) (pw_buffer w) @ bytes @ drop end_offset (pw_buffer w),
                 pw_offset = end_offset\<rparr>
        else Err (codec ''payload writer exceeded buffer''))"

definition write_u8 :: "u8 \<Rightarrow> PayloadWriter \<Rightarrow> (ProtocolError, PayloadWriter) result" where
  "write_u8 value = write_slice [value]"

definition write_u16 :: "u16 \<Rightarrow> PayloadWriter \<Rightarrow> (ProtocolError, PayloadWriter) result" where
  "write_u16 value = write_slice (be_bytes 2 (unat value))"

definition write_u32 :: "u32 \<Rightarrow> PayloadWriter \<Rightarrow> (ProtocolError, PayloadWriter) result" where
  "write_u32 value = write_slice (be_bytes 4 (unat value))"

definition write_u64 :: "u64 \<Rightarrow> PayloadWriter \<Rightarrow> (ProtocolError, PayloadWriter) result" where
  "write_u64 value = write_slice (be_bytes 8 (unat value))"

definition write_schema_id :: "SchemaId \<Rightarrow> PayloadWriter \<Rightarrow> (ProtocolError, PayloadWriter) result" where
  "write_schema_id schema_id = write_slice (schema_id_bytes schema_id)"

text \<open>\<open>for x in xs \<lbrace> write(x)? \<rbrace>\<close>.\<close>

primrec write_loop ::
  "('a \<Rightarrow> PayloadWriter \<Rightarrow> (ProtocolError, PayloadWriter) result) \<Rightarrow> 'a list \<Rightarrow> PayloadWriter
    \<Rightarrow> (ProtocolError, PayloadWriter) result" where
  "write_loop wr [] w = Ok w"
| "write_loop wr (x # xs) w = andThen (wr x w) (write_loop wr xs)"

definition write_schema_ids_field :: "SchemaId list \<Rightarrow> PayloadWriter \<Rightarrow> (ProtocolError, PayloadWriter) result" where
  "write_schema_ids_field schema_ids w =
    andThen (u32_try_from (length schema_ids) ''schema id count exceeded u32::MAX'') (\<lambda>len.
    andThen (write_u32 len w) (write_loop write_schema_id schema_ids))"

definition write_bytes_field :: "u8 list \<Rightarrow> PayloadWriter \<Rightarrow> (ProtocolError, PayloadWriter) result" where
  "write_bytes_field bytes w =
    andThen (u32_try_from (length bytes) ''payload field length exceeded u32::MAX'') (\<lambda>len.
    andThen (write_u32 len w) (write_slice bytes))"

definition write_string_field :: "rstring \<Rightarrow> PayloadWriter \<Rightarrow> (ProtocolError, PayloadWriter) result" where
  "write_string_field value = write_bytes_field value"

definition write_string_vec_field :: "rstring list \<Rightarrow> PayloadWriter \<Rightarrow> (ProtocolError, PayloadWriter) result" where
  "write_string_vec_field values w =
    andThen (u32_try_from (length values) ''string vector count exceeded u32::MAX'') (\<lambda>len.
    andThen (write_u32 len w) (write_loop write_string_field values))"

fun write_optional_string :: "rstring option \<Rightarrow> PayloadWriter \<Rightarrow> (ProtocolError, PayloadWriter) result" where
  "write_optional_string (Some inner) w = andThen (write_u8 1 w) (write_string_field inner)"
| "write_optional_string None w = write_u8 0 w"

fun write_optional_u16 :: "u16 option \<Rightarrow> PayloadWriter \<Rightarrow> (ProtocolError, PayloadWriter) result" where
  "write_optional_u16 (Some inner) w = andThen (write_u8 1 w) (write_u16 inner)"
| "write_optional_u16 None w = write_u8 0 w"

definition writer_finish :: "PayloadWriter \<Rightarrow> (ProtocolError, unit) result" where
  "writer_finish w =
    (if pw_offset w = length (pw_buffer w) then Ok ()
     else Err (codec ''payload writer did not fill buffer''))"

section \<open>Reader\<close>

record PayloadReader =
  pr_buffer :: "u8 list"
  pr_offset :: nat

type_synonym 'a reads = "PayloadReader \<Rightarrow> (ProtocolError, 'a \<times> PayloadReader) result"

definition PayloadReader_new :: "u8 list \<Rightarrow> PayloadReader" where
  "PayloadReader_new buffer = \<lparr>pr_buffer = buffer, pr_offset = 0\<rparr>"

definition read_slice :: "nat \<Rightarrow> u8 list reads" where
  "read_slice len r =
    andThen (ok_or (checked_add_usize (pr_offset r) len) (codec ''read offset overflowed usize''))
      (\<lambda>end_offset.
        if end_offset \<le> length (pr_buffer r)
        then Ok (take len (drop (pr_offset r) (pr_buffer r)), r\<lparr>pr_offset := end_offset\<rparr>)
        else Err (codec ''payload field exceeded payload length''))"

definition read_u8 :: "u8 reads" where
  "read_u8 r = andThen (read_slice U8_LEN r) (\<lambda>(bytes, r).
    case bytes of [] \<Rightarrow> Err (codec ''payload u8 field was truncated'') | value # _ \<Rightarrow> Ok (value, r))"

definition read_u16 :: "u16 reads" where
  "read_u16 r = andThen (read_slice U16_LEN r) (\<lambda>(bytes, r).
    if length bytes = 2 then Ok (of_nat (be_value bytes), r)
    else Err (codec ''payload u16 field was truncated''))"

definition read_u32 :: "u32 reads" where
  "read_u32 r = andThen (read_slice U32_LEN r) (\<lambda>(bytes, r).
    if length bytes = 4 then Ok (of_nat (be_value bytes), r)
    else Err (codec ''payload u32 field was truncated''))"

definition read_u64 :: "u64 reads" where
  "read_u64 r = andThen (read_slice U64_LEN r) (\<lambda>(bytes, r).
    if length bytes = 8 then Ok (of_nat (be_value bytes), r)
    else Err (codec ''payload u64 field was truncated''))"

definition read_schema_id :: "SchemaId reads" where
  "read_schema_id r = andThen (read_slice SCHEMA_ID_WIRE_LEN r) (\<lambda>(bytes, r). Ok (SchemaId bytes, r))"

text \<open>\<open>slice::chunks_exact\<close> for a nonzero chunk size.\<close>

fun chunks_exact :: "nat \<Rightarrow> 'a list \<Rightarrow> 'a list list" where
  "chunks_exact n xs = (if n = 0 \<or> length xs < n then [] else take n xs # chunks_exact n (drop n xs))"

declare chunks_exact.simps [simp del]

text \<open>A \<open>u32\<close> count always fits the 64-bit \<open>usize\<close>. \<open>reserve size count\<close> says whether the allocator
  grants \<open>Vec::try_reserve\<close> room for \<open>count\<close> elements of \<open>size\<close> bytes; it is a parameter of every
  definition that reserves.\<close>

type_synonym reserve = "nat \<Rightarrow> nat \<Rightarrow> bool"

abbreviation (input) SCHEMA_ID_SIZE :: nat where "SCHEMA_ID_SIZE \<equiv> 32"
abbreviation (input) STRING_SIZE :: nat where "STRING_SIZE \<equiv> 24"

definition read_schema_ids_field :: "reserve \<Rightarrow> SchemaId list reads" where
  "read_schema_ids_field reserve r =
    andThen (read_u32 r) (\<lambda>(count32, r). let count = unat count32 in
    andThen (ok_or (checked_mul_usize count SCHEMA_ID_WIRE_LEN)
        (codec ''schema id vector length overflowed usize'')) (\<lambda>byte_len.
    andThen (read_slice byte_len r) (\<lambda>(bytes, r).
    if reserve SCHEMA_ID_SIZE count
    then Ok (map SchemaId (chunks_exact SCHEMA_ID_WIRE_LEN bytes), r)
    else Err (codec ''schema id vector allocation failed''))))"

definition read_bytes_field :: "u8 list reads" where
  "read_bytes_field r = andThen (read_u32 r) (\<lambda>(len, r). read_slice (unat len) r)"

definition read_string_field :: "rstring reads" where
  "read_string_field r = andThen (read_bytes_field r) (\<lambda>(bytes, r).
    if utf8_valid bytes then Ok (bytes, r)
    else Err (codec ''payload string field was not valid utf-8''))"

text \<open>\<open>for _ in 0..count \<lbrace> values.push(read()?) \<rbrace>\<close>.\<close>

primrec read_loop :: "nat \<Rightarrow> 'a reads \<Rightarrow> 'a list reads" where
  "read_loop 0 rd r = Ok ([], r)"
| "read_loop (Suc n) rd r =
    andThen (rd r) (\<lambda>(x, r). andThen (read_loop n rd r) (\<lambda>(xs, r). Ok (x # xs, r)))"

definition read_string_vec_field :: "reserve \<Rightarrow> rstring list reads" where
  "read_string_vec_field reserve r =
    andThen (read_u32 r) (\<lambda>(count32, r). let count = unat count32 in
    if reserve STRING_SIZE count then read_loop count read_string_field r
    else Err (codec ''string vector allocation failed''))"

definition read_optional_string :: "rstring option reads" where
  "read_optional_string r = andThen (read_u8 r) (\<lambda>(tag, r).
    if tag = 0 then Ok (None, r)
    else if tag = 1 then andThen (read_string_field r) (\<lambda>(s, r). Ok (Some s, r))
    else Err (codec ''optional string tag was invalid''))"

definition read_optional_u16 :: "u16 option reads" where
  "read_optional_u16 r = andThen (read_u8 r) (\<lambda>(tag, r).
    if tag = 0 then Ok (None, r)
    else if tag = 1 then andThen (read_u16 r) (\<lambda>(v, r). Ok (Some v, r))
    else Err (codec ''optional u16 tag was invalid''))"

definition is_finished :: "PayloadReader \<Rightarrow> bool" where
  "is_finished r \<longleftrightarrow> pr_offset r = length (pr_buffer r)"

definition reader_finish :: "PayloadReader \<Rightarrow> (ProtocolError, unit) result" where
  "reader_finish r =
    (if pr_offset r = length (pr_buffer r) then Ok ()
     else Err (codec ''payload contained trailing bytes''))"

section \<open>Encodings of the fields\<close>

text \<open>What each field puts on the wire, as plain byte strings, and the values a field can carry.\<close>

definition enc_u16 :: "u16 \<Rightarrow> u8 list" where "enc_u16 x = be_bytes 2 (unat x)"

definition enc_u32 :: "u32 \<Rightarrow> u8 list" where "enc_u32 x = be_bytes 4 (unat x)"

definition enc_u64 :: "u64 \<Rightarrow> u8 list" where "enc_u64 x = be_bytes 8 (unat x)"

definition enc_bytes :: "u8 list \<Rightarrow> u8 list" where "enc_bytes bs = be_bytes 4 (length bs) @ bs"

fun enc_option :: "('a \<Rightarrow> u8 list) \<Rightarrow> 'a option \<Rightarrow> u8 list" where
  "enc_option enc None = [0]"
| "enc_option enc (Some x) = 1 # enc x"

definition enc_vec :: "('a \<Rightarrow> u8 list) \<Rightarrow> 'a list \<Rightarrow> u8 list" where
  "enc_vec enc xs = be_bytes 4 (length xs) @ concat (map enc xs)"

definition ok_bytes :: "u8 list \<Rightarrow> bool" where "ok_bytes bs \<longleftrightarrow> length bs \<le> U32_MAX"

definition ok_string :: "rstring \<Rightarrow> bool" where "ok_string s \<longleftrightarrow> length s \<le> U32_MAX \<and> utf8_valid s"

definition ok_schema_id :: "SchemaId \<Rightarrow> bool" where
  "ok_schema_id s \<longleftrightarrow> length (schema_id_bytes s) = SCHEMA_ID_WIRE_LEN"

definition ok_vec :: "('a \<Rightarrow> bool) \<Rightarrow> 'a list \<Rightarrow> bool" where
  "ok_vec ok xs \<longleftrightarrow> length xs \<le> U32_MAX \<and> list_all ok xs"

definition reader_at :: "u8 list \<Rightarrow> u8 list \<Rightarrow> PayloadReader" where
  "reader_at pre suf = \<lparr>pr_buffer = pre @ suf, pr_offset = length pre\<rparr>"

definition writer_at :: "u8 list \<Rightarrow> u8 list \<Rightarrow> PayloadWriter" where
  "writer_at pre suf = \<lparr>pw_buffer = pre @ suf, pw_offset = length pre\<rparr>"

text \<open>The whole buffer is addressable; the normal form keeps the part already read on the left.\<close>

definition fits :: "u8 list \<Rightarrow> u8 list \<Rightarrow> bool" where
  "fits pre suf \<longleftrightarrow> length pre + length suf \<le> USIZE_MAX"

lemma fits_append [simp]: "fits pre (a @ b) \<longleftrightarrow> fits (pre @ a) b"
  by (simp add: fits_def add.assoc)

lemma fits_Cons [simp]: "fits pre (x # b) \<longleftrightarrow> fits (pre @ [x]) b"
  by (simp add: fits_def)

lemma fits_Nil: "fits [] bs \<longleftrightarrow> length bs \<le> USIZE_MAX"
  by (simp add: fits_def)

section \<open>The field contracts\<close>

locale wire_reader =
  fixes enc :: "'a \<Rightarrow> u8 list" and rd :: "'a reads" and ok :: "'a \<Rightarrow> bool"
  assumes read_iff: "length pre + length suf \<le> USIZE_MAX \<Longrightarrow>
    rd (reader_at pre suf) = Ok (x, r) \<longleftrightarrow>
      ok x \<and> (\<exists>ys. suf = enc x @ ys \<and> r = reader_at (pre @ enc x) ys)"
begin

lemma read_then:
  "length pre + length suf \<le> USIZE_MAX \<Longrightarrow>
    andThen (rd (reader_at pre suf)) k = Ok z \<longleftrightarrow>
      (\<exists>x ys. ok x \<and> suf = enc x @ ys \<and> k (x, reader_at (pre @ enc x) ys) = Ok z)"
  by (auto simp: andThen_Ok_iff read_iff)

lemma read_enc:
  "ok x \<Longrightarrow> length pre + (length (enc x) + length ys) \<le> USIZE_MAX \<Longrightarrow>
    rd (reader_at pre (enc x @ ys)) = Ok (x, reader_at (pre @ enc x) ys)"
  by (simp add: read_iff)

lemma read_enc_end:
  "ok x \<Longrightarrow> length pre + length (enc x) \<le> USIZE_MAX \<Longrightarrow>
    rd (reader_at pre (enc x)) = Ok (x, reader_at (pre @ enc x) [])"
  using read_enc [of x pre "[]"] by simp

lemma read_at [intro, simp]:
  "ok x \<Longrightarrow> fits pre (enc x @ ys) \<Longrightarrow> rd (reader_at pre (enc x @ ys)) = Ok (x, reader_at (pre @ enc x) ys)"
  by (simp add: read_enc fits_def)

lemma read_at_end [intro, simp]:
  "ok x \<Longrightarrow> fits pre (enc x) \<Longrightarrow> rd (reader_at pre (enc x)) = Ok (x, reader_at (pre @ enc x) [])"
  by (simp add: read_enc_end fits_def)

lemma readE:
  assumes "andThen (rd (reader_at pre suf)) k = Ok z" "fits pre suf"
  obtains x ys where "ok x" "suf = enc x @ ys" "fits (pre @ enc x) ys"
    "k (x, reader_at (pre @ enc x) ys) = Ok z"
proof -
  have "\<exists>x ys. ok x \<and> suf = enc x @ ys \<and> k (x, reader_at (pre @ enc x) ys) = Ok z"
    using assms read_then [of pre suf k z] by (simp add: fits_def)
  with assms(2) that show thesis by auto
qed

lemma loop_iff:
  "length pre + length suf \<le> USIZE_MAX \<Longrightarrow>
    read_loop n rd (reader_at pre suf) = Ok (xs, r) \<longleftrightarrow>
      length xs = n \<and> list_all ok xs
      \<and> (\<exists>ys. suf = concat (map enc xs) @ ys \<and> r = reader_at (pre @ concat (map enc xs)) ys)"
proof (induction n arbitrary: pre suf xs)
  case 0
  then show ?case by auto
next
  case (Suc n)
  have step: "read_loop n rd (reader_at (pre @ enc x) ys) = Ok (xs', r) \<longleftrightarrow>
      length xs' = n \<and> list_all ok xs'
      \<and> (\<exists>zs. ys = concat (map enc xs') @ zs \<and> r = reader_at (pre @ enc x @ concat (map enc xs')) zs)"
    if "suf = enc x @ ys" for x ys xs'
    using Suc.prems that by (subst Suc.IH) auto
  have "read_loop (Suc n) rd (reader_at pre suf) = Ok (xs, r) \<longleftrightarrow>
      (\<exists>x ys. ok x \<and> suf = enc x @ ys
        \<and> andThen (read_loop n rd (reader_at (pre @ enc x) ys)) (\<lambda>(xs, r). Ok (x # xs, r)) = Ok (xs, r))"
    using Suc.prems by (simp add: read_then)
  also have "\<dots> \<longleftrightarrow> (\<exists>x ys xs'. ok x \<and> suf = enc x @ ys
      \<and> read_loop n rd (reader_at (pre @ enc x) ys) = Ok (xs', r) \<and> xs = x # xs')"
    by (auto simp: andThen_Ok_iff)
  also have "\<dots> \<longleftrightarrow> (\<exists>x ys xs'. ok x \<and> suf = enc x @ ys \<and> (length xs' = n \<and> list_all ok xs'
      \<and> (\<exists>zs. ys = concat (map enc xs') @ zs \<and> r = reader_at (pre @ enc x @ concat (map enc xs')) zs))
      \<and> xs = x # xs')"
    by (simp add: step cong: conj_cong)
  finally show ?case by (cases xs) auto
qed

end

locale wire_writer =
  fixes enc :: "'a \<Rightarrow> u8 list" and wr :: "'a \<Rightarrow> PayloadWriter \<Rightarrow> (ProtocolError, PayloadWriter) result"
    and ok :: "'a \<Rightarrow> bool"
  assumes write_at: "ok x \<Longrightarrow> length pre + (length (enc x) + length suf) \<le> USIZE_MAX \<Longrightarrow>
    length old = length (enc x) \<Longrightarrow>
    wr x (writer_at pre (old @ suf)) = Ok (writer_at (pre @ enc x) suf)"
begin

lemma write_fits:
  assumes "ok x" "length pre + length suf \<le> USIZE_MAX" "length (enc x) \<le> length suf"
  shows "wr x (writer_at pre suf) = Ok (writer_at (pre @ enc x) (drop (length (enc x)) suf))"
proof -
  have "length (take (length (enc x)) suf) = length (enc x)" using assms(3) by simp
  from write_at [OF assms(1) _ this, of pre "drop (length (enc x)) suf"] assms(2,3) show ?thesis
    by simp
qed

lemma loop_fits:
  assumes "list_all ok xs" "length pre + length suf \<le> USIZE_MAX" "length (concat (map enc xs)) \<le> length suf"
  shows "write_loop wr xs (writer_at pre suf) =
    Ok (writer_at (pre @ concat (map enc xs)) (drop (length (concat (map enc xs))) suf))"
  using assms
proof (induction xs arbitrary: pre suf)
  case Nil
  then show ?case by simp
next
  case (Cons x xs)
  then show ?case by (simp add: write_fits add.commute)
qed

end

section \<open>Reader and writer positions\<close>

lemma PayloadReader_new_at: "PayloadReader_new bs = reader_at [] bs"
  by (simp add: PayloadReader_new_def reader_at_def)

lemma PayloadWriter_new_at: "PayloadWriter_new bs = writer_at [] bs"
  by (simp add: PayloadWriter_new_def writer_at_def)

lemma reader_finish_at [simp]: "reader_finish (reader_at pre suf) = Ok u \<longleftrightarrow> suf = []"
  by (simp add: reader_finish_def reader_at_def)

lemma is_finished_at [simp]: "is_finished (reader_at pre suf) \<longleftrightarrow> suf = []"
  by (simp add: is_finished_def reader_at_def)

lemma writer_finish_at [simp]: "writer_finish (writer_at pre suf) = Ok u \<longleftrightarrow> suf = []"
  by (simp add: writer_finish_def writer_at_def)

lemma writer_at_buffer [simp]: "pw_buffer (writer_at pre suf) = pre @ suf"
  by (simp add: writer_at_def)

lemma read_slice_iff:
  "length pre + length suf \<le> USIZE_MAX \<Longrightarrow>
    read_slice n (reader_at pre suf) = Ok (bs, r) \<longleftrightarrow>
      length bs = n \<and> (\<exists>ys. suf = bs @ ys \<and> r = reader_at (pre @ bs) ys)"
  by (auto simp: read_slice_def reader_at_def andThen_def ok_or_def checked_add_usize_def
      split: if_splits) (metis append_take_drop_id)

lemma read_slice_then:
  "length pre + length suf \<le> USIZE_MAX \<Longrightarrow>
    andThen (read_slice n (reader_at pre suf)) k = Ok z \<longleftrightarrow>
      (\<exists>bs ys. length bs = n \<and> suf = bs @ ys \<and> k (bs, reader_at (pre @ bs) ys) = Ok z)"
  by (auto simp: andThen_Ok_iff read_slice_iff)

lemma write_slice_at:
  "length pre + (length bs + length suf) \<le> USIZE_MAX \<Longrightarrow> length old = length bs \<Longrightarrow>
    write_slice bs (writer_at pre (old @ suf)) = Ok (writer_at (pre @ bs) suf)"
  by (simp add: write_slice_def writer_at_def checked_add_usize_def)

section \<open>Big-endian words as fields\<close>

lemma be_bytes_word_iff:
  fixes x :: "'a::len word"
  assumes "256 ^ n = (2::nat) ^ LENGTH('a)"
  shows "length bs = n \<and> of_nat (be_value bs) = x \<longleftrightarrow> bs = be_bytes n (unat x)"
proof
  assume a: "length bs = n \<and> of_nat (be_value bs) = x"
  then have "be_value bs < 2 ^ LENGTH('a)" using be_value_bound [of bs] assms by simp
  then have "unat x = be_value bs" using a by (auto simp: unat_of_nat)
  then show "bs = be_bytes n (unat x)" using a be_bytes_be_value [of bs] by simp
next
  assume b: "bs = be_bytes n (unat x)"
  have "unat x < 256 ^ n" using unat_bound [of x] assms by simp
  with b show "length bs = n \<and> of_nat (be_value bs) = x"
    by (simp add: be_value_be_bytes)
qed

lemma read_word_iff:
  fixes x :: "'a::len word"
  assumes "256 ^ n = (2::nat) ^ LENGTH('a)" "length pre + length suf \<le> USIZE_MAX"
  shows "andThen (read_slice n (reader_at pre suf))
      (\<lambda>(bytes, r). if length bytes = n then Ok (of_nat (be_value bytes), r) else Err e) = Ok (x, r)
    \<longleftrightarrow> (\<exists>ys. suf = be_bytes n (unat x) @ ys \<and> r = reader_at (pre @ be_bytes n (unat x)) ys)"
proof -
  have "andThen (read_slice n (reader_at pre suf))
      (\<lambda>(bytes, r). if length bytes = n then Ok (of_nat (be_value bytes), r) else Err e) = Ok (x, r)
    \<longleftrightarrow> (\<exists>bs ys. suf = bs @ ys \<and> r = reader_at (pre @ bs) ys \<and> length bs = n \<and> of_nat (be_value bs) = x)"
    using assms(2) by (auto simp: read_slice_then)
  then show ?thesis by (simp add: be_bytes_word_iff [OF assms(1)])
qed

interpretation u8: wire_reader "\<lambda>x. [x]" read_u8 "\<lambda>_. True"
  by unfold_locales (auto simp: read_u8_def read_slice_then length_Suc_conv)

interpretation u16: wire_reader enc_u16 read_u16 "\<lambda>_. True"
  by unfold_locales (simp add: read_u16_def read_word_iff enc_u16_def)

interpretation u32: wire_reader enc_u32 read_u32 "\<lambda>_. True"
  by unfold_locales (simp add: read_u32_def read_word_iff enc_u32_def)

interpretation u64: wire_reader enc_u64 read_u64 "\<lambda>_. True"
  by unfold_locales (simp add: read_u64_def read_word_iff enc_u64_def)

interpretation schema_id: wire_reader schema_id_bytes read_schema_id ok_schema_id
proof unfold_locales
  fix pre suf :: "u8 list" and x r
  assume b: "length pre + length suf \<le> USIZE_MAX"
  show "read_schema_id (reader_at pre suf) = Ok (x, r) \<longleftrightarrow>
      ok_schema_id x \<and> (\<exists>ys. suf = schema_id_bytes x @ ys \<and> r = reader_at (pre @ schema_id_bytes x) ys)"
    by (cases x) (simp add: read_schema_id_def read_slice_then [OF b] ok_schema_id_def, blast)
qed

section \<open>Length-prefixed and optional fields\<close>

lemma unat_of_nat_u32: "n \<le> U32_MAX \<Longrightarrow> unat (of_nat n :: u32) = n"
  by (simp add: unat_of_nat)

text \<open>Reading a \<open>u32\<close> count and continuing with it as a length.\<close>

lemma read_count_then:
  assumes "length pre + length suf \<le> USIZE_MAX"
  shows "andThen (read_u32 (reader_at pre suf)) k = Ok z \<longleftrightarrow>
    (\<exists>n ys. n \<le> U32_MAX \<and> suf = be_bytes 4 n @ ys \<and> k (of_nat n, reader_at (pre @ be_bytes 4 n) ys) = Ok z)"
  (is "?l \<longleftrightarrow> ?r")
proof
  assume ?l
  then obtain x ys where "suf = enc_u32 x @ ys" "k (x, reader_at (pre @ enc_u32 x) ys) = Ok z"
    using assms by (auto simp: u32.read_then)
  then show ?r by (intro exI [of _ "unat x"] exI [of _ ys]) (simp add: enc_u32_def)
next
  assume ?r
  then obtain n ys where n: "n \<le> U32_MAX" "suf = be_bytes 4 n @ ys"
    "k (of_nat n, reader_at (pre @ be_bytes 4 n) ys) = Ok z"
    by blast
  have "read_u32 (reader_at pre suf) = Ok (of_nat n, reader_at (pre @ be_bytes 4 n) ys)"
    using n(1,2) by (subst u32.read_iff [OF assms]) (simp add: enc_u32_def unat_of_nat_u32)
  with n show ?l by simp
qed

interpretation bytes: wire_reader enc_bytes read_bytes_field ok_bytes
proof unfold_locales
  fix pre suf :: "u8 list" and x r
  assume b: "length pre + length suf \<le> USIZE_MAX"
  have "read_bytes_field (reader_at pre suf) = Ok (x, r) \<longleftrightarrow>
    (\<exists>n ys. n \<le> U32_MAX \<and> suf = be_bytes 4 n @ ys \<and> read_slice n (reader_at (pre @ be_bytes 4 n) ys) = Ok (x, r))"
    using b by (simp add: read_bytes_field_def read_count_then unat_of_nat_u32 cong: conj_cong)
  also have "\<dots> \<longleftrightarrow> ok_bytes x \<and> (\<exists>ys. suf = enc_bytes x @ ys \<and> r = reader_at (pre @ enc_bytes x) ys)"
    using b by (auto simp: read_slice_iff ok_bytes_def enc_bytes_def)
  finally show "read_bytes_field (reader_at pre suf) = Ok (x, r) \<longleftrightarrow>
      ok_bytes x \<and> (\<exists>ys. suf = enc_bytes x @ ys \<and> r = reader_at (pre @ enc_bytes x) ys)" .
qed

interpretation str: wire_reader enc_bytes read_string_field ok_string
  by unfold_locales (auto simp: read_string_field_def bytes.read_then ok_string_def ok_bytes_def)

text \<open>A presence byte followed by a field: the shape of every optional field, whatever reads the field.\<close>

lemma read_tagged_iff:
  assumes field: "\<And>ys. suf = 1 # ys \<Longrightarrow> rd (reader_at (pre @ [1]) ys) = Ok (x, r) \<longleftrightarrow>
      (\<exists>v zs. x = Some v \<and> ok v \<and> ys = enc v @ zs \<and> r = reader_at (pre @ 1 # enc v) zs)"
    and bound: "length pre + length suf \<le> USIZE_MAX"
  shows "andThen (read_u8 (reader_at pre suf)) (\<lambda>(tag, r).
      if tag = 0 then Ok (None, r) else if tag = 1 then rd r else Err e) = Ok (x, r)
    \<longleftrightarrow> pred_option ok x \<and> (\<exists>ys. suf = enc_option enc x @ ys \<and> r = reader_at (pre @ enc_option enc x) ys)"
proof -
  have "andThen (read_u8 (reader_at pre suf)) (\<lambda>(tag, r).
      if tag = 0 then Ok (None, r) else if tag = 1 then rd r else Err e) = Ok (x, r)
    \<longleftrightarrow> (\<exists>ys. suf = 0 # ys \<and> x = None \<and> r = reader_at (pre @ [0]) ys)
      \<or> (\<exists>ys. suf = 1 # ys \<and> rd (reader_at (pre @ [1]) ys) = Ok (x, r))"
    using bound by (auto simp: u8.read_iff andThen_Ok_iff split: if_splits) (rule exI [of _ 1], simp)
  with field show ?thesis by (cases x) auto
qed

lemma read_option_iff:
  assumes "wire_reader enc rd ok" "length pre + length suf \<le> USIZE_MAX"
  shows "andThen (read_u8 (reader_at pre suf)) (\<lambda>(tag, r).
      if tag = 0 then Ok (None, r)
      else if tag = 1 then andThen (rd r) (\<lambda>(v, r). Ok (Some v, r))
      else Err e) = Ok (x, r)
    \<longleftrightarrow> pred_option ok x \<and> (\<exists>ys. suf = enc_option enc x @ ys \<and> r = reader_at (pre @ enc_option enc x) ys)"
  using assms(2)
  by (intro read_tagged_iff) (subst wire_reader.read_then [OF assms(1)], auto)

interpretation opt_str: wire_reader "enc_option enc_bytes" read_optional_string "pred_option ok_string"
  by unfold_locales (simp add: read_optional_string_def read_option_iff [OF str.wire_reader_axioms])

interpretation opt_u16: wire_reader "enc_option enc_u16" read_optional_u16 "\<lambda>_. True"
  by unfold_locales (simp add: read_optional_u16_def read_option_iff [OF u16.wire_reader_axioms] option.pred_True)

lemma chunks_exact_concat:
  "0 < n \<Longrightarrow> (\<And>x. x \<in> set xs \<Longrightarrow> length x = n) \<Longrightarrow> chunks_exact n (concat xs) = xs"
  by (induction xs) (simp_all add: chunks_exact.simps)

lemma concat_chunks_exact:
  "0 < n \<Longrightarrow> length bs = k * n \<Longrightarrow>
    concat (chunks_exact n bs) = bs \<and> length (chunks_exact n bs) = k \<and> (\<forall>x\<in>set (chunks_exact n bs). length x = n)"
proof (induction k arbitrary: bs)
  case 0
  then show ?case by (simp add: chunks_exact.simps)
next
  case (Suc k)
  then have "length (drop n bs) = k * n" by simp
  from Suc.IH [OF Suc.prems(1) this] Suc.prems show ?case
    by (subst (1 2 3) chunks_exact.simps) auto
qed

lemma schema_ids_bytes_iff:
  "length bs = k * SCHEMA_ID_WIRE_LEN \<and> xs = map SchemaId (chunks_exact SCHEMA_ID_WIRE_LEN bs) \<longleftrightarrow>
    length xs = k \<and> list_all ok_schema_id xs \<and> bs = concat (map schema_id_bytes xs)"
proof
  assume a: "length bs = k * SCHEMA_ID_WIRE_LEN \<and> xs = map SchemaId (chunks_exact SCHEMA_ID_WIRE_LEN bs)"
  with concat_chunks_exact [of SCHEMA_ID_WIRE_LEN bs k]
  show "length xs = k \<and> list_all ok_schema_id xs \<and> bs = concat (map schema_id_bytes xs)"
    by (simp add: list_all_iff ok_schema_id_def o_def)
next
  assume b: "length xs = k \<and> list_all ok_schema_id xs \<and> bs = concat (map schema_id_bytes xs)"
  then have "chunks_exact SCHEMA_ID_WIRE_LEN bs = map schema_id_bytes xs"
    by (auto intro!: chunks_exact_concat simp: list_all_iff ok_schema_id_def)
  moreover have "list_all ok_schema_id xs \<Longrightarrow> length (concat (map schema_id_bytes xs)) = length xs * SCHEMA_ID_WIRE_LEN"
    by (induction xs) (simp_all add: ok_schema_id_def)
  ultimately show "length bs = k * SCHEMA_ID_WIRE_LEN \<and> xs = map SchemaId (chunks_exact SCHEMA_ID_WIRE_LEN bs)"
    using b by (simp add: o_def)
qed

interpretation schema_ids: wire_reader "enc_vec schema_id_bytes" "read_schema_ids_field reserve"
  "\<lambda>xs. ok_vec ok_schema_id xs \<and> reserve SCHEMA_ID_SIZE (length xs)" for reserve
proof unfold_locales
  fix pre suf :: "u8 list" and x r
  assume b: "length pre + length suf \<le> USIZE_MAX"
  have slice: "andThen (read_slice (n * SCHEMA_ID_WIRE_LEN) (reader_at (pre @ be_bytes 4 n) ys)) (\<lambda>(bytes, r).
      if reserve SCHEMA_ID_SIZE n then Ok (map SchemaId (chunks_exact SCHEMA_ID_WIRE_LEN bytes), r)
      else Err (codec ''schema id vector allocation failed'')) = Ok (x, r) \<longleftrightarrow>
    (\<exists>bs zs. ys = bs @ zs \<and> r = reader_at (pre @ be_bytes 4 n @ bs) zs \<and> reserve SCHEMA_ID_SIZE n
      \<and> (length bs = n * SCHEMA_ID_WIRE_LEN \<and> x = map SchemaId (chunks_exact SCHEMA_ID_WIRE_LEN bs)))"
    if "suf = be_bytes 4 n @ ys" for n ys
    using b that by (subst read_slice_then) auto
  have "read_schema_ids_field reserve (reader_at pre suf) = Ok (x, r) \<longleftrightarrow>
    (\<exists>n bs ys. n \<le> U32_MAX \<and> suf = be_bytes 4 n @ bs @ ys \<and> r = reader_at (pre @ be_bytes 4 n @ bs) ys
      \<and> reserve SCHEMA_ID_SIZE n
      \<and> (length bs = n * SCHEMA_ID_WIRE_LEN \<and> x = map SchemaId (chunks_exact SCHEMA_ID_WIRE_LEN bs)))"
    using b by (simp add: read_schema_ids_field_def read_count_then unat_of_nat_u32 checked_mul_usize_def
        Let_def slice cong: conj_cong) blast
  then show "read_schema_ids_field reserve (reader_at pre suf) = Ok (x, r) \<longleftrightarrow>
      (ok_vec ok_schema_id x \<and> reserve SCHEMA_ID_SIZE (length x))
      \<and> (\<exists>ys. suf = enc_vec schema_id_bytes x @ ys \<and> r = reader_at (pre @ enc_vec schema_id_bytes x) ys)"
    unfolding schema_ids_bytes_iff by (auto simp: ok_vec_def enc_vec_def)
qed

text \<open>A count-prefixed vector whose elements are read one by one.\<close>

lemma read_vec_iff:
  assumes "wire_reader enc rd ok" "length pre + length suf \<le> USIZE_MAX"
  shows "andThen (read_u32 (reader_at pre suf)) (\<lambda>(count32, r). let count = unat count32 in
      if reserve sz count then read_loop count rd r else Err e) = Ok (xs, r)
    \<longleftrightarrow> (ok_vec ok xs \<and> reserve sz (length xs))
      \<and> (\<exists>ys. suf = enc_vec enc xs @ ys \<and> r = reader_at (pre @ enc_vec enc xs) ys)"
proof -
  have "andThen (read_u32 (reader_at pre suf)) (\<lambda>(count32, r). let count = unat count32 in
      if reserve sz count then read_loop count rd r else Err e) = Ok (xs, r)
    \<longleftrightarrow> (\<exists>n ys. n \<le> U32_MAX \<and> suf = be_bytes 4 n @ ys \<and> reserve sz n
      \<and> read_loop n rd (reader_at (pre @ be_bytes 4 n) ys) = Ok (xs, r))"
    using assms(2) by (simp add: read_count_then unat_of_nat_u32 Let_def cong: conj_cong)
  also have "\<dots> \<longleftrightarrow> (ok_vec ok xs \<and> reserve sz (length xs))
      \<and> (\<exists>ys. suf = enc_vec enc xs @ ys \<and> r = reader_at (pre @ enc_vec enc xs) ys)"
    using assms(2) by (auto simp: wire_reader.loop_iff [OF assms(1)] ok_vec_def enc_vec_def)
  finally show ?thesis .
qed

interpretation str_vec: wire_reader "enc_vec enc_bytes" "read_string_vec_field reserve"
  "\<lambda>xs. ok_vec ok_string xs \<and> reserve STRING_SIZE (length xs)" for reserve
  by unfold_locales (unfold read_string_vec_field_def, rule read_vec_iff [OF str.wire_reader_axioms])

section \<open>The writers\<close>

lemma write_count_at:
  "n \<le> U32_MAX \<Longrightarrow> length pre + length suf \<le> USIZE_MAX \<Longrightarrow> 4 \<le> length suf \<Longrightarrow>
    write_u32 (of_nat n) (writer_at pre suf) = Ok (writer_at (pre @ be_bytes 4 n) (drop 4 suf))"
  using write_slice_at [of pre "be_bytes 4 n" "drop 4 suf" "take 4 suf"]
  by (simp add: write_u32_def unat_of_nat_u32)

lemma u32_try_from_Ok [simp]: "n \<le> U32_MAX \<Longrightarrow> u32_try_from n message = Ok (of_nat n)"
  by (simp add: u32_try_from_def)

interpretation w_slice: wire_writer "\<lambda>bs. bs" write_slice "\<lambda>_. True"
  by unfold_locales (simp add: write_slice_at)

interpretation w_u8: wire_writer "\<lambda>x. [x]" write_u8 "\<lambda>_. True"
  by unfold_locales (simp add: write_u8_def write_slice_at)

interpretation w_u16: wire_writer enc_u16 write_u16 "\<lambda>_. True"
  by unfold_locales (simp add: write_u16_def enc_u16_def write_slice_at)

interpretation w_u32: wire_writer enc_u32 write_u32 "\<lambda>_. True"
  by unfold_locales (simp add: write_u32_def enc_u32_def write_slice_at)

interpretation w_u64: wire_writer enc_u64 write_u64 "\<lambda>_. True"
  by unfold_locales (simp add: write_u64_def enc_u64_def write_slice_at)

interpretation w_schema_id: wire_writer schema_id_bytes write_schema_id "\<lambda>_. True"
  by unfold_locales (simp add: write_schema_id_def write_slice_at)

text \<open>A writer that fits at every position satisfies the contract.\<close>

lemma wire_writerI:
  assumes "\<And>x pre suf. ok x \<Longrightarrow> length pre + length suf \<le> USIZE_MAX \<Longrightarrow> length (enc x) \<le> length suf \<Longrightarrow>
    wr x (writer_at pre suf) = Ok (writer_at (pre @ enc x) (drop (length (enc x)) suf))"
  shows "wire_writer enc wr ok"
  by unfold_locales (simp add: assms)

interpretation w_bytes: wire_writer enc_bytes write_bytes_field ok_bytes
  by (rule wire_writerI)
    (simp add: write_bytes_field_def ok_bytes_def enc_bytes_def write_count_at w_slice.write_fits add.commute)

interpretation w_str: wire_writer enc_bytes write_string_field ok_bytes
  by unfold_locales (simp add: write_string_field_def w_bytes.write_at)

interpretation w_opt_str: wire_writer "enc_option enc_bytes" write_optional_string "pred_option ok_bytes"
proof (rule wire_writerI)
  fix x and pre suf :: "u8 list"
  assume "pred_option ok_bytes x" "length pre + length suf \<le> USIZE_MAX"
    "length (enc_option enc_bytes x) \<le> length suf"
  then show "write_optional_string x (writer_at pre suf) =
      Ok (writer_at (pre @ enc_option enc_bytes x) (drop (length (enc_option enc_bytes x)) suf))"
    by (cases x) (simp_all add: w_u8.write_fits w_str.write_fits)
qed

interpretation w_opt_u16: wire_writer "enc_option enc_u16" write_optional_u16 "\<lambda>_. True"
proof (rule wire_writerI)
  fix x and pre suf :: "u8 list"
  assume "length pre + length suf \<le> USIZE_MAX" "length (enc_option enc_u16 x) \<le> length suf"
  then show "write_optional_u16 x (writer_at pre suf) =
      Ok (writer_at (pre @ enc_option enc_u16 x) (drop (length (enc_option enc_u16 x)) suf))"
    by (cases x) (simp_all add: w_u8.write_fits w_u16.write_fits)
qed

lemma write_vec_fits:
  assumes "wire_writer enc wr ok" "ok_vec ok xs" "length pre + length suf \<le> USIZE_MAX"
    "length (enc_vec enc xs) \<le> length suf"
  shows "andThen (u32_try_from (length xs) message) (\<lambda>len.
      andThen (write_u32 len (writer_at pre suf)) (write_loop wr xs)) =
    Ok (writer_at (pre @ enc_vec enc xs) (drop (length (enc_vec enc xs)) suf))"
  using assms(2,3,4) wire_writer.loop_fits [OF assms(1), of xs "pre @ be_bytes 4 (length xs)" "drop 4 suf"]
  by (simp add: ok_vec_def enc_vec_def write_count_at add.commute)

interpretation w_str_vec: wire_writer "enc_vec enc_bytes" write_string_vec_field "ok_vec ok_bytes"
  by (rule wire_writerI) (simp only: write_string_vec_field_def write_vec_fits [OF w_str.wire_writer_axioms])

interpretation w_schema_ids: wire_writer "enc_vec schema_id_bytes" write_schema_ids_field "ok_vec (\<lambda>_. True)"
  by (rule wire_writerI) (simp only: write_schema_ids_field_def write_vec_fits [OF w_schema_id.wire_writer_axioms])

section \<open>Encoded lengths\<close>

lemma checked_u32_len_Ok [simp]: "checked_u32_len n = Ok u \<longleftrightarrow> n \<le> U32_MAX"
  by (simp add: checked_u32_len_def u32_try_from_def andThen_Ok_iff)

lemma sum_loop_Ok_iff: "acc \<le> USIZE_MAX \<Longrightarrow> sum_loop message acc parts = Ok n \<longleftrightarrow> n = acc + sum_list parts \<and> n \<le> USIZE_MAX"
proof (induction parts arbitrary: acc)
  case Nil
  then show ?case by auto
next
  case (Cons part parts)
  show ?case
  proof (cases "acc + part \<le> USIZE_MAX")
    case True
    then show ?thesis by (simp add: checked_add_usize_def Cons.IH add.assoc)
  next
    case False
    then show ?thesis by (simp add: checked_add_usize_def)
  qed
qed

lemma sum_lengths_Ok_iff: "sum_lengths parts = Ok n \<longleftrightarrow> n = sum_list parts \<and> n \<le> USIZE_MAX"
  by (simp add: sum_lengths_def sum_loop_Ok_iff)

lemma length_enc_words [simp]: "length (enc_u16 a) = 2" "length (enc_u32 b) = 4" "length (enc_u64 c) = 8"
  by (simp_all add: enc_u16_def enc_u32_def enc_u64_def)

lemma bytes_field_len_iff: "bytes_field_len bs = Ok n \<longleftrightarrow> ok_bytes bs \<and> n = length (enc_bytes bs)"
  by (auto simp: bytes_field_len_def andThen_Ok_iff sum_lengths_Ok_iff ok_bytes_def enc_bytes_def)

lemma string_field_len_iff: "string_field_len s = Ok n \<longleftrightarrow> ok_bytes s \<and> n = length (enc_bytes s)"
  by (simp add: string_field_len_def bytes_field_len_iff)

lemma length_enc_bytes_le: "ok_bytes bs \<Longrightarrow> length (enc_bytes bs) \<le> U32_MAX + 4"
  by (simp add: ok_bytes_def enc_bytes_def)

lemma option_string_len_iff:
  "option_string_len x = Ok n \<longleftrightarrow> pred_option ok_bytes x \<and> n = length (enc_option enc_bytes x)"
  using length_enc_bytes_le
  by (cases x) (force simp: andThen_Ok_iff string_field_len_iff sum_lengths_Ok_iff)+

lemma option_u16_len_eq: "option_u16_len x = length (enc_option enc_u16 x)"
  by (cases x) simp_all

lemma string_vec_len_loop_iff:
  "acc \<le> USIZE_MAX \<Longrightarrow> string_vec_len_loop acc xs = Ok n \<longleftrightarrow>
    list_all ok_bytes xs \<and> n = acc + length (concat (map enc_bytes xs)) \<and> n \<le> USIZE_MAX"
proof (induction xs arbitrary: acc)
  case Nil
  then show ?case by auto
next
  case (Cons x xs)
  have "string_vec_len_loop acc (x # xs) = Ok n \<longleftrightarrow> ok_bytes x \<and> acc + length (enc_bytes x) \<le> USIZE_MAX
      \<and> string_vec_len_loop (acc + length (enc_bytes x)) xs = Ok n"
    by (auto simp: andThen_Ok_iff string_field_len_iff ok_or_Ok_iff checked_add_usize_def)
  then show ?case
    by (cases "acc + length (enc_bytes x) \<le> USIZE_MAX") (auto simp: Cons.IH add.assoc)
qed

lemma string_vec_field_len_iff:
  "string_vec_field_len xs = Ok n \<longleftrightarrow> ok_vec ok_bytes xs \<and> n = length (enc_vec enc_bytes xs) \<and> n \<le> USIZE_MAX"
  by (auto simp: string_vec_field_len_def andThen_Ok_iff string_vec_len_loop_iff ok_vec_def enc_vec_def)

lemma length_schema_ids: "list_all ok_schema_id xs \<Longrightarrow> length (concat (map schema_id_bytes xs)) = length xs * 32"
  by (induction xs) (simp_all add: ok_schema_id_def)

lemma schema_ids_field_len_iff:
  "list_all ok_schema_id xs \<Longrightarrow> schema_ids_field_len xs = Ok n \<longleftrightarrow>
    length xs \<le> U32_MAX \<and> n = length (enc_vec schema_id_bytes xs)"
  by (auto simp: schema_ids_field_len_def andThen_Ok_iff sum_lengths_Ok_iff checked_mul_usize_def
      enc_vec_def length_schema_ids)

end
