(* ===== verification/Envelope_Codec.thy ===== *)
theory Envelope_Codec
  imports Payload_Codec
begin

text \<open>
  Causal contexts (\<open>protocol/causal.rs\<close>) and message envelopes (\<open>protocol/envelope.rs\<close>): encoded
  lengths, serialisation, parsing, and the causal-only extraction that skips the payload. The byte slice
  and the \<open>&mut usize\<close> offset the source passes around are the buffer and offset of a reader.
\<close>

section \<open>Helpers of causal.rs\<close>

abbreviation (input) ABSENT_TAG :: u8 where "ABSENT_TAG \<equiv> 0"
abbreviation (input) PRESENT_TAG :: u8 where "PRESENT_TAG \<equiv> 1"
abbreviation (input) ENVELOPE_SCHEMA_ID_LEN :: nat where "ENVELOPE_SCHEMA_ID_LEN \<equiv> 32"

definition causal_checked_u32_len :: "nat \<Rightarrow> string \<Rightarrow> (ProtocolError, nat) result" where
  "causal_checked_u32_len len field =
    andThen (u32_try_from len (field @ '' length exceeded u32::MAX'')) (\<lambda>_. Ok len)"

definition causal_sum_lengths :: "nat list \<Rightarrow> (ProtocolError, nat) result" where
  "causal_sum_lengths parts = sum_loop ''causal context length overflowed usize'' 0 parts"

definition causal_write_u32 :: "u8 list \<Rightarrow> nat \<Rightarrow> string \<Rightarrow> (ProtocolError, u8 list) result" where
  "causal_write_u32 buffer value field =
    andThen (u32_try_from value (field @ '' length exceeded u32::MAX'')) (\<lambda>value.
    Ok (buffer @ be_bytes 4 (unat value)))"

definition causal_read_slice :: "nat \<Rightarrow> string \<Rightarrow> u8 list reads" where
  "causal_read_slice len field r =
    andThen (ok_or (checked_add_usize (pr_offset r) len) (codec (field @ '' offset overflowed usize'')))
      (\<lambda>end_offset.
        if end_offset \<le> length (pr_buffer r)
        then Ok (take len (drop (pr_offset r) (pr_buffer r)), r\<lparr>pr_offset := end_offset\<rparr>)
        else Err (codec (field @ '' exceeded available bytes'')))"

definition causal_read_u8 :: "string \<Rightarrow> u8 reads" where
  "causal_read_u8 field r = andThen (causal_read_slice U8_LEN field r) (\<lambda>(bytes, r).
    case bytes of [value] \<Rightarrow> Ok (value, r) | _ \<Rightarrow> Err (codec (field @ '' was truncated'')))"

definition causal_read_u32_as_usize :: "string \<Rightarrow> nat reads" where
  "causal_read_u32_as_usize field r = andThen (causal_read_slice U32_LEN field r) (\<lambda>(bytes, r).
    if length bytes = 4 then Ok (be_value bytes, r) else Err (codec (field @ '' was truncated'')))"

definition causal_read_u64 :: "string \<Rightarrow> u64 reads" where
  "causal_read_u64 field r = andThen (causal_read_slice U64_LEN field r) (\<lambda>(bytes, r).
    if length bytes = 8 then Ok (of_nat (be_value bytes), r) else Err (codec (field @ '' was truncated'')))"

section \<open>Causal contexts\<close>

definition CausalContext_encoded_len :: "CausalContext \<Rightarrow> (ProtocolError, nat) result" where
  "CausalContext_encoded_len c =
    andThen (case cc_parent_id c of
        Some parent_id \<Rightarrow>
          andThen (causal_checked_u32_len (length (message_id_str parent_id)) ''message id'') (\<lambda>len.
          causal_sum_lengths [U8_LEN, U32_LEN, len])
      | None \<Rightarrow> Ok U8_LEN) (\<lambda>parent_len.
    let vector_len = (if cc_vector_clock_entry c \<noteq> None then U8_LEN + U64_LEN else U8_LEN) in
    causal_sum_lengths [parent_len, vector_len])"

definition CausalContext_serialize :: "CausalContext \<Rightarrow> (ProtocolError, u8 list) result" where
  "CausalContext_serialize c =
    andThen (CausalContext_encoded_len c) (\<lambda>len.
    andThen (case cc_parent_id c of
        Some parent_id \<Rightarrow>
          andThen (causal_write_u32 [PRESENT_TAG] (length (message_id_str parent_id)) ''message id'') (\<lambda>bytes.
          Ok (bytes @ message_id_str parent_id))
      | None \<Rightarrow> Ok [ABSENT_TAG]) (\<lambda>bytes.
    let bytes = (case cc_vector_clock_entry c of
        Some entry \<Rightarrow> bytes @ [PRESENT_TAG] @ be_bytes 8 (unat entry)
      | None \<Rightarrow> bytes @ [ABSENT_TAG]) in
    if length bytes = len then Ok bytes
    else Err (codec ''causal context encoder produced an unexpected length'')))"

definition causal_read_parent_id :: "MessageId option reads" where
  "causal_read_parent_id r = andThen (causal_read_u8 ''parent id presence tag'' r) (\<lambda>(tag, r).
      if tag = ABSENT_TAG then Ok (None, r)
      else if tag = PRESENT_TAG then
        andThen (causal_read_u32_as_usize ''message id length'' r) (\<lambda>(len, r).
        andThen (causal_read_slice len ''message id bytes'' r) (\<lambda>(id_bytes, r).
        if utf8_valid id_bytes then Ok (Some (MessageId id_bytes), r)
        else Err (codec ''message id was not valid utf-8'')))
      else Err (codec ''parent id presence tag was invalid''))"

definition causal_read_vector_clock :: "u64 option reads" where
  "causal_read_vector_clock r = andThen (causal_read_u8 ''vector clock presence tag'' r) (\<lambda>(tag, r).
      if tag = ABSENT_TAG then Ok (None, r)
      else if tag = PRESENT_TAG then
        andThen (causal_read_u64 ''vector clock entry'' r) (\<lambda>(entry, r). Ok (Some entry, r))
      else Err (codec ''vector clock presence tag was invalid''))"

definition CausalContext_from_wire_bytes :: "u8 list \<Rightarrow> (ProtocolError, CausalContext) result" where
  "CausalContext_from_wire_bytes bytes =
    andThen (causal_read_parent_id (PayloadReader_new bytes)) (\<lambda>(parent_id, r).
    andThen (causal_read_vector_clock r) (\<lambda>(vector_clock_entry, r).
    if pr_offset r = length bytes
    then Ok \<lparr>cc_parent_id = parent_id, cc_vector_clock_entry = vector_clock_entry\<rparr>
    else Err (codec ''causal context contained trailing bytes'')))"

definition extract_causal_context :: "u8 list \<Rightarrow> (ProtocolError, CausalContext) result" where
  "extract_causal_context envelope_bytes =
    andThen (causal_read_slice ENVELOPE_SCHEMA_ID_LEN ''schema id'' (PayloadReader_new envelope_bytes)) (\<lambda>(_, r).
    andThen (causal_read_u32_as_usize ''causal context length'' r) (\<lambda>(causal_len, r).
    andThen (causal_read_slice causal_len ''causal context bytes'' r) (\<lambda>(causal_bytes, r).
    CausalContext_from_wire_bytes causal_bytes)))"

section \<open>Envelopes (envelope.rs)\<close>

definition envelope_checked_u32_len :: "nat \<Rightarrow> string \<Rightarrow> (ProtocolError, unit) result" where
  "envelope_checked_u32_len len field =
    andThen (u32_try_from len (field @ '' length exceeded u32::MAX'')) (\<lambda>_. Ok ())"

definition envelope_sum_lengths :: "nat list \<Rightarrow> (ProtocolError, nat) result" where
  "envelope_sum_lengths parts = sum_loop ''message envelope length overflowed usize'' 0 parts"

definition envelope_write_u32 :: "u8 list \<Rightarrow> nat \<Rightarrow> string \<Rightarrow> (ProtocolError, u8 list) result" where
  "envelope_write_u32 buffer value field =
    andThen (u32_try_from value (field @ '' length exceeded u32::MAX'')) (\<lambda>value.
    Ok (buffer @ be_bytes 4 (unat value)))"

definition envelope_read_slice :: "nat \<Rightarrow> string \<Rightarrow> u8 list reads" where
  "envelope_read_slice len field r =
    andThen (ok_or (checked_add_usize (pr_offset r) len) (codec (field @ '' offset overflowed usize'')))
      (\<lambda>end_offset.
        if end_offset \<le> length (pr_buffer r)
        then Ok (take len (drop (pr_offset r) (pr_buffer r)), r\<lparr>pr_offset := end_offset\<rparr>)
        else Err (codec (field @ '' exceeded available bytes'')))"

definition envelope_read_schema_id :: "u8 list reads" where
  "envelope_read_schema_id r = envelope_read_slice SCHEMA_ID_WIRE_LEN ''schema id'' r"

definition envelope_read_u32_as_usize :: "string \<Rightarrow> nat reads" where
  "envelope_read_u32_as_usize field r = andThen (envelope_read_slice U32_LEN field r) (\<lambda>(bytes, r).
    if length bytes = 4 then Ok (be_value bytes, r) else Err (codec (field @ '' was truncated'')))"

definition MessageEnvelope_encoded_len :: "MessageEnvelope \<Rightarrow> (ProtocolError, nat) result" where
  "MessageEnvelope_encoded_len e =
    andThen (CausalContext_encoded_len (me_causal_context e)) (\<lambda>causal_len.
    andThen (envelope_checked_u32_len causal_len ''causal context'') (\<lambda>_.
    andThen (envelope_checked_u32_len (length (me_payload e)) ''payload'') (\<lambda>_.
    envelope_sum_lengths [SCHEMA_ID_WIRE_LEN, U32_LEN, causal_len, U32_LEN, length (me_payload e)])))"

definition MessageEnvelope_serialize :: "MessageEnvelope \<Rightarrow> (ProtocolError, u8 list) result" where
  "MessageEnvelope_serialize e =
    andThen (CausalContext_serialize (me_causal_context e)) (\<lambda>causal_bytes.
    andThen (envelope_checked_u32_len (length causal_bytes) ''causal context'') (\<lambda>_.
    andThen (envelope_checked_u32_len (length (me_payload e)) ''payload'') (\<lambda>_.
    andThen (envelope_sum_lengths
        [SCHEMA_ID_WIRE_LEN, U32_LEN, length causal_bytes, U32_LEN, length (me_payload e)]) (\<lambda>len.
    andThen (envelope_write_u32 (schema_id_bytes (me_schema_id e)) (length causal_bytes) ''causal context'') (\<lambda>bytes.
    andThen (envelope_write_u32 (bytes @ causal_bytes) (length (me_payload e)) ''payload'') (\<lambda>bytes.
    let bytes = bytes @ me_payload e in
    if length bytes = len then Ok bytes
    else Err (codec ''message envelope encoder produced an unexpected length'')))))))"

definition MessageEnvelope_from_wire_bytes :: "u8 list \<Rightarrow> (ProtocolError, MessageEnvelope) result" where
  "MessageEnvelope_from_wire_bytes bytes =
    andThen (envelope_read_schema_id (PayloadReader_new bytes)) (\<lambda>(schema_id, r).
    andThen (envelope_read_u32_as_usize ''causal context length'' r) (\<lambda>(causal_len, r).
    andThen (envelope_read_slice causal_len ''causal context bytes'' r) (\<lambda>(causal_bytes, r).
    andThen (CausalContext_from_wire_bytes causal_bytes) (\<lambda>causal_context.
    andThen (envelope_read_u32_as_usize ''payload length'' r) (\<lambda>(payload_len, r).
    andThen (envelope_read_slice payload_len ''payload bytes'' r) (\<lambda>(payload, r).
    if pr_offset r = length bytes
    then Ok \<lparr>me_schema_id = SchemaId schema_id, me_causal_context = causal_context, me_payload = payload\<rparr>
    else Err (codec ''message envelope contained trailing bytes'')))))))"

section \<open>Specification\<close>

definition enc_causal :: "CausalContext \<Rightarrow> u8 list" where
  "enc_causal c = enc_option (\<lambda>i. enc_bytes (message_id_str i)) (cc_parent_id c)
    @ enc_option enc_u64 (cc_vector_clock_entry c)"

definition causal_fits :: "CausalContext \<Rightarrow> bool" where
  "causal_fits c \<longleftrightarrow> pred_option (\<lambda>i. ok_bytes (message_id_str i)) (cc_parent_id c)"

definition ok_causal :: "CausalContext \<Rightarrow> bool" where
  "ok_causal c \<longleftrightarrow> pred_option (\<lambda>i. ok_string (message_id_str i)) (cc_parent_id c)"

definition enc_envelope :: "MessageEnvelope \<Rightarrow> u8 list" where
  "enc_envelope e = schema_id_bytes (me_schema_id e)
    @ enc_bytes (enc_causal (me_causal_context e)) @ enc_bytes (me_payload e)"

definition envelope_fits :: "MessageEnvelope \<Rightarrow> bool" where
  "envelope_fits e \<longleftrightarrow> causal_fits (me_causal_context e) \<and> ok_bytes (enc_causal (me_causal_context e))
    \<and> ok_bytes (me_payload e)"

text \<open>The invariants of the source types (\<open>[u8; 32]\<close>, UTF-8 \<open>String\<close>) that the model's lists carry.\<close>

definition causal_typed :: "CausalContext \<Rightarrow> bool" where
  "causal_typed c \<longleftrightarrow> pred_option (\<lambda>i. utf8_valid (message_id_str i)) (cc_parent_id c)"

definition envelope_typed :: "MessageEnvelope \<Rightarrow> bool" where
  "envelope_typed e \<longleftrightarrow> ok_schema_id (me_schema_id e) \<and> causal_typed (me_causal_context e)"

section \<open>Lemmas\<close>

lemma causal_read_slice_Ok_iff: "causal_read_slice n field r = Ok z \<longleftrightarrow> read_slice n r = Ok z"
  by (auto simp: causal_read_slice_def read_slice_def andThen_Ok_iff ok_or_Ok_iff)

lemma read_slice_length: "read_slice n r = Ok (bs, r') \<Longrightarrow> length bs = n"
  by (auto simp: read_slice_def andThen_Ok_iff ok_or_Ok_iff checked_add_usize_def split: if_splits)

lemma envelope_read_slice_eq: "envelope_read_slice n field r = causal_read_slice n field r"
  by (simp add: envelope_read_slice_def causal_read_slice_def)

lemma envelope_read_u32_eq: "envelope_read_u32_as_usize field r = causal_read_u32_as_usize field r"
  by (simp add: envelope_read_u32_as_usize_def causal_read_u32_as_usize_def envelope_read_slice_eq)

lemma causal_read_slice_then:
  "andThen (causal_read_slice n field r) k = Ok z \<longleftrightarrow> andThen (read_slice n r) k = Ok z"
  by (simp add: andThen_Ok_iff causal_read_slice_Ok_iff)

lemma causal_read_u8_Ok_iff: "causal_read_u8 field r = Ok z \<longleftrightarrow> read_u8 r = Ok z"
proof (cases "read_slice 1 r")
  case (Inl e)
  then have "\<not> (\<exists>z. causal_read_slice 1 field r = Ok z)" by (simp add: causal_read_slice_Ok_iff)
  with Inl show ?thesis by (auto simp: causal_read_u8_def read_u8_def andThen_Ok_iff)
next
  case (Inr p)
  then obtain v r' where "p = ([v], r')"
    using read_slice_length [of 1 r "fst p" "snd p"] by (cases p) (auto simp: length_Suc_conv)
  with Inr causal_read_slice_Ok_iff [of 1 field r p] show ?thesis
    by (simp add: causal_read_u8_def read_u8_def)
qed

lemma causal_read_u8_then: "andThen (causal_read_u8 field r) k = Ok z \<longleftrightarrow> andThen (read_u8 r) k = Ok z"
  by (simp add: andThen_Ok_iff causal_read_u8_Ok_iff)

lemma causal_read_u64_Ok_iff: "causal_read_u64 field r = Ok z \<longleftrightarrow> read_u64 r = Ok z"
  by (simp add: causal_read_u64_def read_u64_def andThen_Ok_iff causal_read_slice_Ok_iff split: prod.splits)

lemma be_value_count_iff: "length bs = 4 \<and> be_value bs = n \<longleftrightarrow> n \<le> U32_MAX \<and> bs = be_bytes 4 n"
  using be_value_bound [of bs] be_bytes_be_value [of bs] by (auto simp: be_value_be_bytes)

text \<open>A length prefix followed by that many bytes is a length-prefixed field.\<close>

lemma causal_read_prefixed:
  assumes "length pre + length suf \<le> USIZE_MAX"
  shows "andThen (causal_read_u32_as_usize f1 (reader_at pre suf)) (\<lambda>(len, r).
      andThen (causal_read_slice len f2 r) k) = Ok z \<longleftrightarrow>
    andThen (read_bytes_field (reader_at pre suf)) k = Ok z"
proof -
  have "andThen (causal_read_u32_as_usize f1 (reader_at pre suf)) (\<lambda>(len, r).
      andThen (causal_read_slice len f2 r) k) = Ok z \<longleftrightarrow>
    (\<exists>bs ys. suf = bs @ ys \<and> (\<exists>n. (length bs = 4 \<and> be_value bs = n)
      \<and> andThen (read_slice n (reader_at (pre @ bs) ys)) k = Ok z))"
    using assms by (auto simp: causal_read_u32_as_usize_def causal_read_slice_then read_slice_iff andThen_Ok_iff
        causal_read_slice_Ok_iff)
  also have "\<dots> \<longleftrightarrow> andThen (read_bytes_field (reader_at pre suf)) k = Ok z"
    unfolding be_value_count_iff
    by (simp add: read_bytes_field_def andThen_assoc read_count_then [OF assms] unat_of_nat_u32 cong: conj_cong) blast
  finally show ?thesis .
qed


lemma causal_fits_typed: "ok_causal c \<longleftrightarrow> causal_fits c \<and> causal_typed c"
  by (cases "cc_parent_id c") (simp_all add: ok_causal_def causal_fits_def causal_typed_def ok_string_def ok_bytes_def)

lemma causal_sum_lengths_Ok_iff: "causal_sum_lengths parts = Ok n \<longleftrightarrow> n = sum_list parts \<and> n \<le> USIZE_MAX"
  by (simp add: causal_sum_lengths_def sum_loop_Ok_iff)

lemma envelope_sum_lengths_Ok_iff: "envelope_sum_lengths parts = Ok n \<longleftrightarrow> n = sum_list parts \<and> n \<le> USIZE_MAX"
  by (simp add: envelope_sum_lengths_def sum_loop_Ok_iff)

lemma CausalContext_encoded_len_iff:
  "CausalContext_encoded_len c = Ok n \<longleftrightarrow> causal_fits c \<and> n = length (enc_causal c)"
  by (cases "cc_parent_id c"; cases "cc_vector_clock_entry c")
    (auto simp: CausalContext_encoded_len_def causal_sum_lengths_Ok_iff causal_checked_u32_len_def
      u32_try_from_def andThen_Ok_iff causal_fits_def ok_bytes_def enc_causal_def enc_bytes_def)

lemma CausalContext_serialize_iff:
  "CausalContext_serialize c = Ok bs \<longleftrightarrow> causal_fits c \<and> bs = enc_causal c"
proof (cases "causal_fits c")
  case True
  then have len: "CausalContext_encoded_len c = Ok (length (enc_causal c))"
    by (simp add: CausalContext_encoded_len_iff)
  from True show ?thesis unfolding CausalContext_serialize_def len
    by (cases "cc_parent_id c"; cases "cc_vector_clock_entry c")
      (auto simp: causal_write_u32_def unat_of_nat_u32 causal_fits_def ok_bytes_def
        enc_causal_def enc_bytes_def enc_u64_def)
next
  case False
  then have "\<not> (\<exists>n. CausalContext_encoded_len c = Ok n)" by (simp add: CausalContext_encoded_len_iff)
  with False show ?thesis by (auto simp: CausalContext_serialize_def andThen_Ok_iff)
qed

text \<open>The two optional fields of a causal context satisfy the reader contract.\<close>

lemma read_message_id_iff:
  assumes b: "length pre + length ys \<le> USIZE_MAX"
  shows "andThen (causal_read_u32_as_usize f1 (reader_at pre ys)) (\<lambda>(len, r).
        andThen (causal_read_slice len f2 r) (\<lambda>(id_bytes, r).
        if utf8_valid id_bytes then Ok (Some (MessageId id_bytes), r) else Err e)) = Ok (x, r)
    \<longleftrightarrow> (\<exists>v zs. x = Some v \<and> ok_string (message_id_str v) \<and> ys = enc_bytes (message_id_str v) @ zs
      \<and> r = reader_at (pre @ enc_bytes (message_id_str v)) zs)"
proof -
  have "andThen (causal_read_u32_as_usize f1 (reader_at pre ys)) (\<lambda>(len, r).
        andThen (causal_read_slice len f2 r) (\<lambda>(id_bytes, r).
        if utf8_valid id_bytes then Ok (Some (MessageId id_bytes), r) else Err e)) = Ok (x, r)
    \<longleftrightarrow> (\<exists>v zs. ok_string v \<and> ys = enc_bytes v @ zs \<and> x = Some (MessageId v)
      \<and> r = reader_at (pre @ enc_bytes v) zs)"
    by (subst causal_read_prefixed [OF b], subst bytes.read_then [OF b])
      (auto simp: ok_string_def ok_bytes_def)
  also have "\<dots> \<longleftrightarrow> (\<exists>v zs. x = Some v \<and> ok_string (message_id_str v) \<and> ys = enc_bytes (message_id_str v) @ zs
      \<and> r = reader_at (pre @ enc_bytes (message_id_str v)) zs)"
    by (cases x; cases "the x") auto
  finally show ?thesis .
qed

interpretation parent_id: wire_reader "enc_option (\<lambda>i. enc_bytes (message_id_str i))" causal_read_parent_id
  "pred_option (\<lambda>i. ok_string (message_id_str i))"
proof unfold_locales
  fix pre suf :: "u8 list" and x r
  assume b: "length pre + length suf \<le> USIZE_MAX"
  show "causal_read_parent_id (reader_at pre suf) = Ok (x, r) \<longleftrightarrow>
      pred_option (\<lambda>i. ok_string (message_id_str i)) x
      \<and> (\<exists>ys. suf = enc_option (\<lambda>i. enc_bytes (message_id_str i)) x @ ys
          \<and> r = reader_at (pre @ enc_option (\<lambda>i. enc_bytes (message_id_str i)) x) ys)"
    unfolding causal_read_parent_id_def causal_read_u8_then
    by (rule read_tagged_iff [OF _ b], subst read_message_id_iff) (use b in auto)
qed

interpretation vector_clock: wire_reader "enc_option enc_u64" causal_read_vector_clock "\<lambda>_. True"
proof unfold_locales
  fix pre suf :: "u8 list" and x r
  assume b: "length pre + length suf \<le> USIZE_MAX"
  have step: "andThen (causal_read_u64 f (reader_at (pre @ [1]) ys)) (\<lambda>(entry, r). Ok (Some entry, r)) = Ok (x, r)
      \<longleftrightarrow> (\<exists>v zs. x = Some v \<and> True \<and> ys = enc_u64 v @ zs \<and> r = reader_at (pre @ 1 # enc_u64 v) zs)"
    if "suf = 1 # ys" for f ys
    using b that by (auto simp: andThen_Ok_iff causal_read_u64_Ok_iff u64.read_iff)
  show "causal_read_vector_clock (reader_at pre suf) = Ok (x, r) \<longleftrightarrow>
      True \<and> (\<exists>ys. suf = enc_option enc_u64 x @ ys \<and> r = reader_at (pre @ enc_option enc_u64 x) ys)"
    unfolding causal_read_vector_clock_def causal_read_u8_then
    by (subst read_tagged_iff [OF step b]) (simp_all add: option.pred_True)
qed

lemma reader_at_offset [simp]: "pr_offset (reader_at pre suf) = length pre"
  by (simp add: reader_at_def)

text \<open>Parsing a causal context accepts exactly the encodings of contexts.\<close>

lemma CausalContext_from_wire_bytes_iff:
  assumes "length bs \<le> USIZE_MAX"
  shows "CausalContext_from_wire_bytes bs = Ok c \<longleftrightarrow> ok_causal c \<and> bs = enc_causal c"
proof
  assume "CausalContext_from_wire_bytes bs = Ok c"
  moreover have "fits [] bs" using assms by (simp add: fits_Nil)
  ultimately show "ok_causal c \<and> bs = enc_causal c"
    unfolding CausalContext_from_wire_bytes_def PayloadReader_new_at
    by (auto elim!: parent_id.readE vector_clock.readE simp: ok_causal_def enc_causal_def)
next
  assume "ok_causal c \<and> bs = enc_causal c"
  with assms show "CausalContext_from_wire_bytes bs = Ok c"
    unfolding CausalContext_from_wire_bytes_def PayloadReader_new_at
    by (simp add: ok_causal_def enc_causal_def fits_def)
qed

text \<open>A length-prefixed byte string read through the helpers of causal.rs and envelope.rs.\<close>

lemma prefixedE:
  assumes "andThen (causal_read_u32_as_usize f1 (reader_at pre suf)) (\<lambda>(len, r).
      andThen (causal_read_slice len f2 r) k) = Ok z" "fits pre suf"
  obtains bs ys where "ok_bytes bs" "suf = enc_bytes bs @ ys" "fits (pre @ enc_bytes bs) ys"
    "k (bs, reader_at (pre @ enc_bytes bs) ys) = Ok z"
  using assms(1) unfolding causal_read_prefixed [OF assms(2) [unfolded fits_def]]
  by (rule bytes.readE) (use assms(2) that in auto)

lemma prefixed_at:
  assumes "ok_bytes bs" "fits pre (enc_bytes bs @ ys)"
  shows "andThen (causal_read_u32_as_usize f1 (reader_at pre (enc_bytes bs @ ys))) (\<lambda>(len, r).
      andThen (causal_read_slice len f2 r) k) = Ok z \<longleftrightarrow>
    k (bs, reader_at (pre @ enc_bytes bs) ys) = Ok z"
  using assms by (subst causal_read_prefixed) (simp_all add: fits_def add.assoc)

lemma MessageEnvelope_encoded_len_iff:
  assumes "ok_schema_id (me_schema_id e)"
  shows "MessageEnvelope_encoded_len e = Ok n \<longleftrightarrow> envelope_fits e \<and> n = length (enc_envelope e)"
  using assms
  by (auto simp: MessageEnvelope_encoded_len_def andThen_Ok_iff CausalContext_encoded_len_iff
      envelope_checked_u32_len_def u32_try_from_def envelope_sum_lengths_Ok_iff envelope_fits_def ok_bytes_def
      enc_envelope_def enc_bytes_def ok_schema_id_def)

lemma MessageEnvelope_serialize_iff:
  assumes "ok_schema_id (me_schema_id e)"
  shows "MessageEnvelope_serialize e = Ok bs \<longleftrightarrow> envelope_fits e \<and> bs = enc_envelope e"
proof -
  have "MessageEnvelope_serialize e = Ok bs \<longleftrightarrow> causal_fits (me_causal_context e)
    \<and> (\<exists>cb. cb = enc_causal (me_causal_context e) \<and> length cb \<le> U32_MAX \<and> length (me_payload e) \<le> U32_MAX
      \<and> bs = schema_id_bytes (me_schema_id e) @ be_bytes 4 (length cb) @ cb
          @ be_bytes 4 (length (me_payload e)) @ me_payload e)"
    using assms
    by (auto simp: MessageEnvelope_serialize_def andThen_Ok_iff CausalContext_serialize_iff
      envelope_checked_u32_len_def u32_try_from_def envelope_sum_lengths_Ok_iff envelope_write_u32_def
      unat_of_nat_u32 ok_schema_id_def)
  then show ?thesis by (auto simp: envelope_fits_def ok_bytes_def enc_envelope_def enc_bytes_def)
qed

lemma extract_schema_skip:
  "ok_schema_id s \<Longrightarrow> fits (schema_id_bytes s) ys \<Longrightarrow>
    andThen (read_slice ENVELOPE_SCHEMA_ID_LEN (reader_at [] (schema_id_bytes s @ ys))) k =
      k (schema_id_bytes s, reader_at (schema_id_bytes s) ys)"
  by (simp add: read_slice_def reader_at_def checked_add_usize_def ok_schema_id_def fits_def)

interpretation envelope_schema: wire_reader "\<lambda>bs. bs" envelope_read_schema_id "\<lambda>bs. length bs = SCHEMA_ID_WIRE_LEN"
  by unfold_locales (simp add: envelope_read_schema_id_def envelope_read_slice_eq causal_read_slice_Ok_iff read_slice_iff)

text \<open>Parsing an envelope accepts exactly the encodings of envelopes that fit.\<close>

lemma MessageEnvelope_from_wire_bytes_iff:
  assumes "length bs \<le> USIZE_MAX"
  shows "MessageEnvelope_from_wire_bytes bs = Ok e \<longleftrightarrow> envelope_fits e \<and> envelope_typed e \<and> bs = enc_envelope e"
proof
  have cb: "length bs \<le> USIZE_MAX" if "ok_bytes bs" for bs
    using that by (simp add: ok_bytes_def)
  assume "MessageEnvelope_from_wire_bytes bs = Ok e"
  moreover have "fits [] bs" using assms by (simp add: fits_Nil)
  ultimately show "envelope_fits e \<and> envelope_typed e \<and> bs = enc_envelope e"
    unfolding MessageEnvelope_from_wire_bytes_def PayloadReader_new_at envelope_read_u32_eq envelope_read_slice_eq
    by (auto elim!: envelope_schema.readE prefixedE
        simp: andThen_Ok_iff [of "CausalContext_from_wire_bytes _"] CausalContext_from_wire_bytes_iff cb
          envelope_fits_def envelope_typed_def enc_envelope_def causal_fits_typed ok_schema_id_def)
next
  assume e: "envelope_fits e \<and> envelope_typed e \<and> bs = enc_envelope e"
  then have c: "CausalContext_from_wire_bytes (enc_causal (me_causal_context e)) = Ok (me_causal_context e)"
    by (simp add: CausalContext_from_wire_bytes_iff envelope_fits_def envelope_typed_def causal_fits_typed ok_bytes_def)
  have "SchemaId (schema_id_bytes (me_schema_id e)) = me_schema_id e" by simp
  with e c assms show "MessageEnvelope_from_wire_bytes bs = Ok e"
    unfolding MessageEnvelope_from_wire_bytes_def PayloadReader_new_at envelope_read_u32_eq envelope_read_slice_eq
    by (simp add: envelope_fits_def envelope_typed_def enc_envelope_def ok_schema_id_def fits_def prefixed_at
        prefixed_at [where ys = "[]", simplified])
qed

section \<open>Properties\<close>

text \<open>C20: for envelopes of the source types, \<open>serialize\<close> and \<open>deserialize\<close> are inverse in both directions:
  a byte string is the serialisation of an envelope exactly when parsing it yields that envelope. So the
  wire form is canonical and parsing rejects every other byte string.\<close>

theorem envelope_serialize_iff_deserialize:
  assumes "envelope_typed e" and "length bs \<le> USIZE_MAX"
  shows "MessageEnvelope_serialize e = Ok bs \<longleftrightarrow> MessageEnvelope_from_wire_bytes bs = Ok e"
  using assms MessageEnvelope_serialize_iff [of e bs] MessageEnvelope_from_wire_bytes_iff [of bs e]
  by (auto simp: envelope_typed_def)

theorem envelope_serialize_iff_deserialize_witness:
  "\<exists>e bs. envelope_typed e \<and> length bs \<le> USIZE_MAX \<and> MessageEnvelope_from_wire_bytes bs = Ok e \<and> length bs = 53"
proof -
  let ?e = "\<lparr>me_schema_id = SchemaId (replicate 32 7),
    me_causal_context = \<lparr>cc_parent_id = Some (MessageId (lit ''m'')), cc_vector_clock_entry = None\<rparr>,
    me_payload = [1, 2, 3, 4, 5, 6]\<rparr>"
  have t: "envelope_typed ?e"
    by (simp add: envelope_typed_def ok_schema_id_def causal_typed_def lit_def of_char_def)
  have l: "length (enc_envelope ?e) = 53"
    by (simp add: enc_envelope_def enc_bytes_def enc_causal_def lit_def)
  have "MessageEnvelope_serialize ?e = Ok (enc_envelope ?e)"
    by (subst MessageEnvelope_serialize_iff)
      (simp_all add: ok_schema_id_def envelope_fits_def causal_fits_def ok_bytes_def enc_causal_def enc_bytes_def lit_def)
  then have "MessageEnvelope_from_wire_bytes (enc_envelope ?e) = Ok ?e"
    by (subst envelope_serialize_iff_deserialize [OF t, symmetric]) (simp_all add: l)
  with t l show ?thesis by (intro exI [of _ ?e] exI [of _ "enc_envelope ?e"]) simp
qed

text \<open>C30: causal extraction agrees with full parsing: whatever envelope the bytes hold,
  \<open>extract_causal_context\<close> returns its causal context, and it does so without the payload section, from
  any bytes that follow the context.\<close>

theorem extract_causal_context_agrees:
  assumes "MessageEnvelope_from_wire_bytes bs = Ok e" and "length bs \<le> USIZE_MAX"
    and "length tail \<le> U32_MAX"
  shows "extract_causal_context bs = Ok (me_causal_context e)
    \<and> extract_causal_context (schema_id_bytes (me_schema_id e) @ enc_bytes (enc_causal (me_causal_context e)) @ tail)
      = Ok (me_causal_context e)"
proof -
  have e: "envelope_fits e" "envelope_typed e" "bs = enc_envelope e"
    using assms MessageEnvelope_from_wire_bytes_iff by auto
  then have c: "CausalContext_from_wire_bytes (enc_causal (me_causal_context e)) = Ok (me_causal_context e)"
    by (simp add: CausalContext_from_wire_bytes_iff envelope_fits_def envelope_typed_def causal_fits_typed ok_bytes_def)
  have x: "extract_causal_context (schema_id_bytes (me_schema_id e) @ enc_bytes (enc_causal (me_causal_context e)) @ t)
      = Ok (me_causal_context e)" if "length t \<le> U32_MAX + 4" for t
  proof -
    have "length (enc_bytes (enc_causal (me_causal_context e))) \<le> U32_MAX + 4"
      using e(1) length_enc_bytes_le by (simp add: envelope_fits_def)
    then have "fits (schema_id_bytes (me_schema_id e)) (enc_bytes (enc_causal (me_causal_context e)) @ t)"
      using that e(2) by (simp add: fits_def envelope_typed_def ok_schema_id_def)
    then show ?thesis
      using e(1,2) c
      by (simp add: extract_causal_context_def PayloadReader_new_at causal_read_slice_then prefixed_at envelope_fits_def
          extract_schema_skip envelope_typed_def)
  qed
  have "length (enc_bytes (me_payload e)) \<le> U32_MAX + 4"
    using e(1) length_enc_bytes_le by (simp add: envelope_fits_def)
  from x [OF this] x [of tail] assms(3) e(3) show ?thesis by (simp add: enc_envelope_def)
qed

theorem extract_causal_context_agrees_witness:
  "\<exists>bs e. MessageEnvelope_from_wire_bytes bs = Ok e \<and> length bs \<le> USIZE_MAX
    \<and> extract_causal_context bs = Ok CausalContext_independent"
proof -
  let ?e = "\<lparr>me_schema_id = SchemaId (replicate 32 7), me_causal_context = CausalContext_independent,
    me_payload = [9]\<rparr>"
  have l: "length (enc_envelope ?e) \<le> USIZE_MAX"
    by (simp add: enc_envelope_def enc_bytes_def enc_causal_def CausalContext_independent_def)
  have p: "MessageEnvelope_from_wire_bytes (enc_envelope ?e) = Ok ?e"
    by (subst MessageEnvelope_from_wire_bytes_iff [OF l])
      (simp add: envelope_fits_def envelope_typed_def causal_fits_def causal_typed_def ok_schema_id_def ok_bytes_def
        enc_causal_def CausalContext_independent_def)
  from extract_causal_context_agrees [OF p l, of "[]"] p l show ?thesis by auto
qed

end
