(* ===== verification/Backpressure.thy ===== *)
theory Backpressure
  imports Wire_Frames
begin

text \<open>
  Per-stream backpressure (\<open>protocol/backpressure.rs\<close>): the outstanding counter, the in-flight limit and
  the pressure state, updated by deliveries and acceptances. The lemmas give the state as a function of the
  counters, and follow the counter through any history of successful operations.
\<close>

section \<open>Model\<close>

record AcceptPayload =
  acp_referenced_message_id :: MessageId

record DeferPayload =
  dep_referenced_message_id :: MessageId
  dep_reason :: "rstring option"

record RejectPayload =
  rep_referenced_message_id :: MessageId
  rep_reason :: "rstring option"

datatype (plugins only: code size) PressureState = Normal | Deferred | Rejecting

record StreamPressure =
  sp_outstanding_count :: u32
  sp_max_in_flight :: u32
  sp_state :: PressureState

definition StreamPressure_new :: "u32 \<Rightarrow> (ProtocolError, StreamPressure) result" where
  "StreamPressure_new max_in_flight =
    (if max_in_flight = 0 then Err (codec ''max_in_flight must be greater than zero'')
     else Ok \<lparr>sp_outstanding_count = 0, sp_max_in_flight = max_in_flight, sp_state = Normal\<rparr>)"

definition state_for :: "u32 \<Rightarrow> u32 \<Rightarrow> u32 \<Rightarrow> (ProtocolError, PressureState) result" where
  "state_for outstanding_count max_in_flight buffer_capacity =
    andThen (ok_or (checked_add max_in_flight buffer_capacity) (codec ''pressure buffer threshold overflowed''))
      (\<lambda>reject_threshold.
        Ok (if outstanding_count < max_in_flight then Normal
            else if outstanding_count > reject_threshold then Rejecting
            else Deferred))"

definition record_delivery :: "u32 \<Rightarrow> StreamPressure \<Rightarrow> (ProtocolError, PressureState \<times> StreamPressure) result" where
  "record_delivery buffer_capacity p =
    andThen (ok_or (checked_add (sp_outstanding_count p) 1) (codec ''outstanding message count overflowed''))
      (\<lambda>next_outstanding.
    andThen (state_for next_outstanding (sp_max_in_flight p) buffer_capacity) (\<lambda>next_state.
    Ok (next_state, p\<lparr>sp_outstanding_count := next_outstanding, sp_state := next_state\<rparr>)))"

definition record_accept :: "u32 \<Rightarrow> StreamPressure \<Rightarrow> (ProtocolError, PressureState \<times> StreamPressure) result" where
  "record_accept buffer_capacity p =
    andThen (ok_or (checked_sub (sp_outstanding_count p) 1) (codec ''cannot accept with zero outstanding messages''))
      (\<lambda>next_outstanding.
    andThen (state_for next_outstanding (sp_max_in_flight p) buffer_capacity) (\<lambda>next_state.
    Ok (next_state, p\<lparr>sp_outstanding_count := next_outstanding, sp_state := next_state\<rparr>)))"

section \<open>Specification\<close>

definition pressure_of :: "nat \<Rightarrow> nat \<Rightarrow> nat \<Rightarrow> PressureState" where
  "pressure_of outstanding limit buffer =
    (if outstanding < limit then Normal else if outstanding \<le> limit + buffer then Deferred else Rejecting)"

text \<open>Histories of successful operations. The caller passes a buffer capacity with every operation, so an
  event carries the capacity it was recorded with.\<close>

datatype (plugins only: code size) pressure_event = DeliveryRecorded u32 | AcceptRecorded u32

fun event_capacity :: "pressure_event \<Rightarrow> u32" where
  "event_capacity (DeliveryRecorded buffer) = buffer"
| "event_capacity (AcceptRecorded buffer) = buffer"

fun is_delivery :: "pressure_event \<Rightarrow> bool" where
  "is_delivery (DeliveryRecorded _) = True"
| "is_delivery (AcceptRecorded _) = False"

abbreviation deliveries :: "pressure_event list \<Rightarrow> nat" where
  "deliveries es \<equiv> length (filter is_delivery es)"

abbreviation acceptances :: "pressure_event list \<Rightarrow> nat" where
  "acceptances es \<equiv> length (filter (\<lambda>e. \<not> is_delivery e) es)"

inductive pressure_run :: "StreamPressure \<Rightarrow> pressure_event list \<Rightarrow> StreamPressure \<Rightarrow> bool" where
  start: "pressure_run p [] p"
| deliver: "pressure_run p es q \<Longrightarrow> record_delivery buffer q = Ok (s, q') \<Longrightarrow>
    pressure_run p (es @ [DeliveryRecorded buffer]) q'"
| accept: "pressure_run p es q \<Longrightarrow> record_accept buffer q = Ok (s, q') \<Longrightarrow>
    pressure_run p (es @ [AcceptRecorded buffer]) q'"

section \<open>Lemmas\<close>

lemma StreamPressure_new_Ok_iff:
  "StreamPressure_new m = Ok p \<longleftrightarrow>
    m \<noteq> 0 \<and> p = \<lparr>sp_outstanding_count = 0, sp_max_in_flight = m, sp_state = Normal\<rparr>"
  by (auto simp: StreamPressure_new_def)

lemma state_for_Ok_iff:
  "state_for n m b = Ok s \<longleftrightarrow> unat m + unat b < 2 ^ 32 \<and> s = pressure_of (unat n) (unat m) (unat b)"
  by (auto simp: state_for_def andThen_Ok_iff ok_or_Ok_iff checked_add_Some_iff pressure_of_def
      word_less_nat_alt unat_add_exact)

lemma record_delivery_Ok_iff:
  "record_delivery b p = Ok (s, q) \<longleftrightarrow>
    unat (sp_outstanding_count p) < U32_MAX \<and> unat (sp_max_in_flight p) + unat b < 2 ^ 32
    \<and> s = pressure_of (unat (sp_outstanding_count p) + 1) (unat (sp_max_in_flight p)) (unat b)
    \<and> q = p\<lparr>sp_outstanding_count := sp_outstanding_count p + 1, sp_state := s\<rparr>"
  by (auto simp: record_delivery_def andThen_Ok_iff ok_or_Ok_iff checked_add_Some_iff state_for_Ok_iff unat_add_exact)

lemma record_accept_Ok_iff:
  "record_accept b p = Ok (s, q) \<longleftrightarrow>
    0 < unat (sp_outstanding_count p) \<and> unat (sp_max_in_flight p) + unat b < 2 ^ 32
    \<and> s = pressure_of (unat (sp_outstanding_count p) - 1) (unat (sp_max_in_flight p)) (unat b)
    \<and> q = p\<lparr>sp_outstanding_count := sp_outstanding_count p - 1, sp_state := s\<rparr>"
  by (auto simp: record_accept_def andThen_Ok_iff ok_or_Ok_iff checked_sub_def state_for_Ok_iff unat_sub
      word_le_nat_alt split: if_splits)

lemma pressure_run_counts:
  assumes "pressure_run p es q"
  shows "sp_max_in_flight q = sp_max_in_flight p
    \<and> unat (sp_outstanding_count q) + acceptances es = unat (sp_outstanding_count p) + deliveries es
    \<and> (if es = [] then q = p else unat (sp_max_in_flight q) + unat (event_capacity (last es)) \<le> U32_MAX
        \<and> sp_state q = pressure_of (unat (sp_outstanding_count q)) (unat (sp_max_in_flight q)) (unat (event_capacity (last es))))"
  using assms
proof induction
  case start
  then show ?case by simp
next
  case (deliver p es q buffer s q')
  then have n: "unat (sp_outstanding_count q + 1) = unat (sp_outstanding_count q) + 1"
    by (subst unat_add_exact) (auto simp: record_delivery_Ok_iff)
  with deliver show ?case by (auto simp: record_delivery_Ok_iff)
next
  case (accept p es q buffer s q')
  then have "unat (sp_outstanding_count q - 1) = unat (sp_outstanding_count q) - 1"
    by (subst unat_sub) (auto simp: record_accept_Ok_iff word_le_nat_alt)
  with accept show ?case by (auto simp: record_accept_Ok_iff)
qed

section \<open>Properties\<close>

text \<open>C24: along every history of successful deliveries and acceptances of a fresh stream, each with a buffer
  capacity of its own, the outstanding count is deliveries minus acceptances, the limit never changes, and the
  state is the one the counters and the capacity of the last operation demand: normal below the limit, deferred up
  to limit plus capacity, rejecting above; a stream without history is normal. A further delivery succeeds exactly
  when neither the counter nor the sum of limit and capacity overflows, and a further acceptance exactly when, in
  addition, a message is outstanding.\<close>

theorem stream_pressure_history:
  assumes "StreamPressure_new m = Ok p" and "pressure_run p es q"
  shows "sp_max_in_flight q = m \<and> acceptances es \<le> deliveries es
    \<and> unat (sp_outstanding_count q) = deliveries es - acceptances es
    \<and> sp_state q = (if es = [] then Normal
        else pressure_of (deliveries es - acceptances es) (unat m) (unat (event_capacity (last es))))
    \<and> (is_ok (record_delivery b q) \<longleftrightarrow> deliveries es - acceptances es < U32_MAX \<and> unat m + unat b \<le> U32_MAX)
    \<and> (is_ok (record_accept b q) \<longleftrightarrow> acceptances es < deliveries es \<and> unat m + unat b \<le> U32_MAX)"
proof -
  have p: "p = \<lparr>sp_outstanding_count = 0, sp_max_in_flight = m, sp_state = Normal\<rparr>"
    using assms(1) by (auto simp: StreamPressure_new_Ok_iff)
  note counts = pressure_run_counts [OF assms(2)]
  then have c: "sp_max_in_flight q = m" "unat (sp_outstanding_count q) + acceptances es = deliveries es"
    using p by auto
  have "is_ok (record_delivery b q) \<longleftrightarrow> unat (sp_outstanding_count q) < U32_MAX \<and> unat m + unat b \<le> U32_MAX"
    "is_ok (record_accept b q) \<longleftrightarrow> 0 < unat (sp_outstanding_count q) \<and> unat m + unat b \<le> U32_MAX"
    by (auto simp: is_ok_iff record_delivery_Ok_iff record_accept_Ok_iff c(1))
  moreover have "unat (sp_outstanding_count q) = deliveries es - acceptances es" "acceptances es \<le> deliveries es"
    using c(2) by simp_all
  ultimately show ?thesis using c(1) counts p by auto
qed

theorem stream_pressure_history_witness:
  "\<exists>p q. StreamPressure_new 1 = Ok p \<and> pressure_run p [DeliveryRecorded 1, DeliveryRecorded 1, DeliveryRecorded 0, AcceptRecorded 5] q
    \<and> sp_state q = Deferred"
proof -
  let ?s = "\<lambda>n st. \<lparr>sp_outstanding_count = n, sp_max_in_flight = 1, sp_state = st\<rparr>"
  have new: "StreamPressure_new 1 = Ok (?s 0 Normal)"
    by (simp add: StreamPressure_new_def)
  have "pressure_run (?s 0 Normal) ([] @ [DeliveryRecorded 1]) (?s 1 Deferred)"
    by (rule pressure_run.deliver [OF pressure_run.start, of _ _ Deferred]) (simp add: record_delivery_Ok_iff pressure_of_def)
  then have "pressure_run (?s 0 Normal) (([] @ [DeliveryRecorded 1]) @ [DeliveryRecorded 1]) (?s 2 Deferred)"
    by (rule pressure_run.deliver [of _ _ _ _ Deferred]) (simp add: record_delivery_Ok_iff pressure_of_def)
  then have "pressure_run (?s 0 Normal) ((([] @ [DeliveryRecorded 1]) @ [DeliveryRecorded 1]) @ [DeliveryRecorded 0]) (?s 3 Rejecting)"
    by (rule pressure_run.deliver [of _ _ _ _ Rejecting]) (simp add: record_delivery_Ok_iff pressure_of_def)
  then have "pressure_run (?s 0 Normal) (((([] @ [DeliveryRecorded 1]) @ [DeliveryRecorded 1]) @ [DeliveryRecorded 0]) @ [AcceptRecorded 5]) (?s 2 Deferred)"
    by (rule pressure_run.accept [of _ _ _ _ Deferred]) (simp add: record_accept_Ok_iff pressure_of_def)
  then have run: "pressure_run (?s 0 Normal) [DeliveryRecorded 1, DeliveryRecorded 1, DeliveryRecorded 0, AcceptRecorded 5] (?s 2 Deferred)" by simp
  from stream_pressure_history [OF new run] new run show ?thesis
    by (intro exI [of _ "?s 0 Normal"] exI [of _ "?s 2 Deferred"]) (simp add: pressure_of_def)
qed

end
