(* ===== verification/Frame_Codec.thy ===== *)
theory Frame_Codec
  imports Envelope_Codec Backpressure
begin

text \<open>
  The frame codec (\<open>protocol/codec.rs\<close>, \<open>protocol/codec/known.rs\<close>): the encoded length of every frame,
  writing header and payload into the caller's buffer, and decoding one frame from a byte stream.
\<close>

unbundle bit_operations_syntax

section \<open>Encoded lengths (codec.rs)\<close>

abbreviation (input) U8_FIELD_LEN :: nat where "U8_FIELD_LEN \<equiv> 1"
abbreviation (input) VERSION_WIRE_LEN :: nat where "VERSION_WIRE_LEN \<equiv> 4"

definition ProtocolVersion_serialize :: "ProtocolVersion \<Rightarrow> u8 list" where
  "ProtocolVersion_serialize v = be_bytes 2 (unat (pv_major v)) @ be_bytes 2 (unat (pv_minor v))"

definition envelope_bytes_field_len :: "nat \<Rightarrow> (ProtocolError, nat) result" where
  "envelope_bytes_field_len envelope_len =
    andThen (checked_u32_len envelope_len) (\<lambda>_. sum_lengths [U32_LEN, envelope_len])"

definition message_id_field_len :: "MessageId \<Rightarrow> (ProtocolError, nat) result" where
  "message_id_field_len message_id = string_field_len (message_id_str message_id)"

primrec activity_descriptors_len_loop :: "nat \<Rightarrow> WorkerActivityDescriptor list \<Rightarrow> (ProtocolError, nat) result" where
  "activity_descriptors_len_loop acc [] = Ok acc"
| "activity_descriptors_len_loop acc (activity # activities) =
    andThen (string_field_len (wad_name activity)) (\<lambda>n1.
    andThen (string_field_len (wad_input_schema_json activity)) (\<lambda>n2.
    andThen (string_field_len (wad_output_schema_json activity)) (\<lambda>n3.
    andThen (sum_lengths [acc, n1, n2, n3]) (\<lambda>acc. activity_descriptors_len_loop acc activities))))"

definition activity_descriptors_field_len :: "WorkerActivityDescriptor list \<Rightarrow> (ProtocolError, nat) result" where
  "activity_descriptors_field_len activities =
    andThen (checked_u32_len (length activities)) (\<lambda>_. activity_descriptors_len_loop U32_LEN activities)"

definition worker_register_payload_len :: "WorkerRegistration \<Rightarrow> (ProtocolError, nat) result" where
  "worker_register_payload_len registration =
    andThen (string_vec_field_len (wr_namespaces registration)) (\<lambda>n1.
    andThen (string_field_len (wr_task_queue registration)) (\<lambda>n2.
    andThen (option_string_len (wr_node registration)) (\<lambda>n3.
    andThen (string_vec_field_len (wr_activity_types registration)) (\<lambda>n4.
    andThen (string_field_len (wr_identity registration)) (\<lambda>n5.
    andThen (activity_descriptors_field_len (wr_activities registration)) (\<lambda>n6.
    sum_lengths [n1, n2, n3, n4, n5, n6]))))))"

fun worker_register_ack_payload_len :: "WorkerRegisterOutcome \<Rightarrow> (ProtocolError, nat) result" where
  "worker_register_ack_payload_len Accepted = Ok U8_FIELD_LEN"
| "worker_register_ack_payload_len (Rejected reason) =
    andThen (string_field_len reason) (\<lambda>n. sum_lengths [U8_FIELD_LEN, n])"

fun encoded_payload_len :: "Frame \<Rightarrow> (ProtocolError, nat) result" where
  "encoded_payload_len (Connect _ _ _ auth_token) =
    andThen (bytes_field_len auth_token) (\<lambda>n. sum_lengths [VERSION_WIRE_LEN, VERSION_WIRE_LEN, n])"
| "encoded_payload_len (ConnectAck _ _ _) = sum_lengths [VERSION_WIRE_LEN, U32_LEN]"
| "encoded_payload_len (ConnectError _ _ message) =
    andThen (option_string_len message) (\<lambda>n. sum_lengths [U16_LEN, n])"
| "encoded_payload_len (SubscribeError _ _ _ message) =
    andThen (option_string_len message) (\<lambda>n. sum_lengths [U16_LEN, n])"
| "encoded_payload_len (PublishError _ _ _ message) =
    andThen (option_string_len message) (\<lambda>n. sum_lengths [U16_LEN, n])"
| "encoded_payload_len (Disconnect _) = Ok 0"
| "encoded_payload_len (Ping _) = Ok 0"
| "encoded_payload_len (Pong _) = Ok 0"
| "encoded_payload_len (Subscribe _ _ channel accepted_schemas _) =
    andThen (string_field_len channel) (\<lambda>n1.
    andThen (schema_ids_field_len accepted_schemas) (\<lambda>n2. sum_lengths [n1, n2, U32_LEN]))"
| "encoded_payload_len (SubscribeAck _ _ _ _) = sum_lengths [U64_LEN, SCHEMA_ID_WIRE_LEN]"
| "encoded_payload_len (Unsubscribe _ _ _) = Ok U64_LEN"
| "encoded_payload_len (PublishAck _ _ _) = Ok U64_LEN"
| "encoded_payload_len (Publish _ _ channel envelope idempotency_key) =
    andThen (string_field_len channel) (\<lambda>n1.
    andThen (MessageEnvelope_encoded_len envelope) (\<lambda>envelope_len.
    andThen (envelope_bytes_field_len envelope_len) (\<lambda>n2.
    andThen (case idempotency_key of
        Some key \<Rightarrow> andThen (string_field_len key) (\<lambda>n3. Ok [n1, n2, n3])
      | None \<Rightarrow> Ok [n1, n2]) sum_lengths)))"
| "encoded_payload_len (ConversationOpen _ _ _ subject) =
    andThen (string_field_len subject) (\<lambda>n. sum_lengths [U64_LEN, n])"
| "encoded_payload_len (ConversationMessage _ _ _ envelope) =
    andThen (MessageEnvelope_encoded_len envelope) (\<lambda>envelope_len.
    andThen (envelope_bytes_field_len envelope_len) (\<lambda>n. sum_lengths [U64_LEN, n]))"
| "encoded_payload_len (Deliver _ _ _ envelope) =
    andThen (MessageEnvelope_encoded_len envelope) (\<lambda>envelope_len.
    andThen (envelope_bytes_field_len envelope_len) (\<lambda>n. sum_lengths [U64_LEN, n]))"
| "encoded_payload_len (ConversationClose _ _ _ code message) =
    andThen (option_string_len message) (\<lambda>n. sum_lengths [U64_LEN, option_u16_len code, n])"
| "encoded_payload_len (ConversationError _ _ _ _ message) =
    andThen (option_string_len message) (\<lambda>n. sum_lengths [U64_LEN, U16_LEN, n])"
| "encoded_payload_len (Accept _ _ referenced_message_id) = message_id_field_len referenced_message_id"
| "encoded_payload_len (Defer _ _ referenced_message_id reason) =
    andThen (message_id_field_len referenced_message_id) (\<lambda>n1.
    andThen (option_string_len reason) (\<lambda>n2. sum_lengths [n1, n2]))"
| "encoded_payload_len (Reject _ _ referenced_message_id reason) =
    andThen (message_id_field_len referenced_message_id) (\<lambda>n1.
    andThen (option_string_len reason) (\<lambda>n2. sum_lengths [n1, n2]))"
| "encoded_payload_len (Push _ _ _ payload) =
    andThen (bytes_field_len payload) (\<lambda>n. sum_lengths [U64_LEN, n])"
| "encoded_payload_len (PushReply _ _ _ payload) =
    andThen (bytes_field_len payload) (\<lambda>n. sum_lengths [U64_LEN, n])"
| "encoded_payload_len (WorkerRegister _ registration) = worker_register_payload_len registration"
| "encoded_payload_len (WorkerRegisterAck _ outcome) = worker_register_ack_payload_len outcome"
| "encoded_payload_len (Unknown _ _ _ payload) =
    andThen (checked_u32_len (length payload)) (\<lambda>_. Ok (length payload))"

definition encoded_len :: "Frame \<Rightarrow> (ProtocolError, nat) result" where
  "encoded_len frame =
    andThen (validate frame) (\<lambda>_.
    andThen (encoded_payload_len frame) (\<lambda>payload_len.
    ok_or (checked_add_usize HEADER_LEN payload_len) (codec ''encoded frame length overflowed usize'')))"

section \<open>Writing (codec.rs)\<close>

type_synonym writes = "PayloadWriter \<Rightarrow> (ProtocolError, PayloadWriter) result"

definition write_header :: "Frame \<Rightarrow> u32 \<Rightarrow> u8 list \<Rightarrow> (ProtocolError, u8 list) result" where
  "write_header frame payload_length buffer =
    andThen (write_u8 (frame_type_to_u8 (frame_type frame)) (PayloadWriter_new buffer)) (\<lambda>w.
    andThen (write_u8 (frame_flags frame) w) (\<lambda>w.
    andThen (write_u32 (frame_stream_id frame) w) (\<lambda>w.
    andThen (write_u32 payload_length w) (\<lambda>w.
    andThen (writer_finish w) (\<lambda>_. Ok (pw_buffer w))))))"

definition write_handshake_payload :: "Frame \<Rightarrow> writes" where
  "write_handshake_payload frame w =
    (case frame of
       Connect _ min_version max_version auth_token \<Rightarrow>
         andThen (write_slice (ProtocolVersion_serialize min_version) w) (\<lambda>w.
         andThen (write_slice (ProtocolVersion_serialize max_version) w) (\<lambda>w.
         write_bytes_field auth_token w))
     | ConnectAck _ selected_version capabilities \<Rightarrow>
         andThen (write_slice (ProtocolVersion_serialize selected_version) w) (write_u32 capabilities)
     | _ \<Rightarrow> Err (codec ''frame type was not a handshake frame''))"

definition write_pressure_payload :: "Frame \<Rightarrow> writes" where
  "write_pressure_payload frame w =
    (case frame of
       Accept _ _ referenced_message_id \<Rightarrow> write_string_field (message_id_str referenced_message_id) w
     | Defer _ _ referenced_message_id reason \<Rightarrow>
         andThen (write_string_field (message_id_str referenced_message_id) w) (write_optional_string reason)
     | Reject _ _ referenced_message_id reason \<Rightarrow>
         andThen (write_string_field (message_id_str referenced_message_id) w) (write_optional_string reason)
     | _ \<Rightarrow> Err (codec ''frame type was not a pressure frame''))"

definition write_publish_payload :: "Frame \<Rightarrow> writes" where
  "write_publish_payload frame w =
    (case frame of
       Publish _ _ channel envelope idempotency_key \<Rightarrow>
         andThen (write_string_field channel w) (\<lambda>w.
         andThen (MessageEnvelope_serialize envelope) (\<lambda>bytes.
         andThen (write_bytes_field bytes w) (\<lambda>w.
         case idempotency_key of
           Some key \<Rightarrow> andThen (write_string_field key w) (\<lambda>w. Ok w)
         | None \<Rightarrow> Ok w)))
     | _ \<Rightarrow> Err (codec ''frame type was not a publish frame''))"

definition write_u64_prefixed_envelope :: "u64 \<Rightarrow> MessageEnvelope \<Rightarrow> writes" where
  "write_u64_prefixed_envelope value envelope w =
    andThen (write_u64 value w) (\<lambda>w.
    andThen (MessageEnvelope_serialize envelope) (\<lambda>bytes. write_bytes_field bytes w))"

definition write_push_payload :: "Frame \<Rightarrow> writes" where
  "write_push_payload frame w =
    (case frame of
       Push _ _ correlation_id payload \<Rightarrow> andThen (write_u64 correlation_id w) (write_bytes_field payload)
     | PushReply _ _ correlation_id payload \<Rightarrow> andThen (write_u64 correlation_id w) (write_bytes_field payload)
     | _ \<Rightarrow> Err (codec ''frame type was not a push frame''))"

definition write_activity_descriptor :: "WorkerActivityDescriptor \<Rightarrow> writes" where
  "write_activity_descriptor activity w =
    andThen (write_string_field (wad_name activity) w) (\<lambda>w.
    andThen (write_string_field (wad_input_schema_json activity) w)
      (write_string_field (wad_output_schema_json activity)))"

definition write_worker_register_payload :: "WorkerRegistration \<Rightarrow> writes" where
  "write_worker_register_payload registration w =
    andThen (write_string_vec_field (wr_namespaces registration) w) (\<lambda>w.
    andThen (write_string_field (wr_task_queue registration) w) (\<lambda>w.
    andThen (write_optional_string (wr_node registration) w) (\<lambda>w.
    andThen (write_string_vec_field (wr_activity_types registration) w) (\<lambda>w.
    andThen (write_string_field (wr_identity registration) w) (\<lambda>w.
    andThen (u32_try_from (length (wr_activities registration)) ''activity descriptor count exceeded u32::MAX'') (\<lambda>count.
    andThen (write_u32 count w) (write_loop write_activity_descriptor (wr_activities registration))))))))"

fun write_worker_register_ack_payload :: "WorkerRegisterOutcome \<Rightarrow> writes" where
  "write_worker_register_ack_payload Accepted w = write_u8 WORKER_REGISTER_ACK_ACCEPTED w"
| "write_worker_register_ack_payload (Rejected reason) w =
    andThen (write_u8 WORKER_REGISTER_ACK_REJECTED w) (write_string_field reason)"

text \<open>The \<open>match\<close> of \<open>write_payload\<close>, then the function with its buffer.\<close>

definition write_payload_fields :: "Frame \<Rightarrow> writes" where
  "write_payload_fields frame w =
    (case frame of
       Connect _ _ _ _ \<Rightarrow> write_handshake_payload frame w
     | ConnectAck _ _ _ \<Rightarrow> write_handshake_payload frame w
     | ConnectError _ code message \<Rightarrow> andThen (write_u16 code w) (write_optional_string message)
     | SubscribeError _ _ code message \<Rightarrow> andThen (write_u16 code w) (write_optional_string message)
     | PublishError _ _ code message \<Rightarrow> andThen (write_u16 code w) (write_optional_string message)
     | Disconnect _ \<Rightarrow> Ok w
     | Ping _ \<Rightarrow> Ok w
     | Pong _ \<Rightarrow> Ok w
     | Subscribe _ _ channel accepted_schemas max_in_flight \<Rightarrow>
         andThen (write_string_field channel w) (\<lambda>w.
         andThen (write_schema_ids_field accepted_schemas w) (write_u32 max_in_flight))
     | SubscribeAck _ _ subscription_id selected_schema \<Rightarrow>
         andThen (write_u64 subscription_id w) (write_schema_id selected_schema)
     | Unsubscribe _ _ subscription_id \<Rightarrow> write_u64 subscription_id w
     | Publish _ _ _ _ _ \<Rightarrow> write_publish_payload frame w
     | PublishAck _ _ message_id \<Rightarrow> write_u64 message_id w
     | ConversationOpen _ _ conversation_id subject \<Rightarrow>
         andThen (write_u64 conversation_id w) (write_string_field subject)
     | ConversationMessage _ _ conversation_id envelope \<Rightarrow> write_u64_prefixed_envelope conversation_id envelope w
     | ConversationClose _ _ conversation_id code message \<Rightarrow>
         andThen (write_u64 conversation_id w) (\<lambda>w.
         andThen (write_optional_u16 code w) (write_optional_string message))
     | ConversationError _ _ conversation_id code message \<Rightarrow>
         andThen (write_u64 conversation_id w) (\<lambda>w.
         andThen (write_u16 code w) (write_optional_string message))
     | Accept _ _ _ \<Rightarrow> write_pressure_payload frame w
     | Defer _ _ _ _ \<Rightarrow> write_pressure_payload frame w
     | Reject _ _ _ _ \<Rightarrow> write_pressure_payload frame w
     | Push _ _ _ _ \<Rightarrow> write_push_payload frame w
     | PushReply _ _ _ _ \<Rightarrow> write_push_payload frame w
     | Deliver _ _ delivery_seq envelope \<Rightarrow> write_u64_prefixed_envelope delivery_seq envelope w
     | WorkerRegister _ registration \<Rightarrow> write_worker_register_payload registration w
     | WorkerRegisterAck _ outcome \<Rightarrow> write_worker_register_ack_payload outcome w
     | Unknown _ _ _ payload \<Rightarrow> write_slice payload w)"

definition write_payload :: "Frame \<Rightarrow> u8 list \<Rightarrow> (ProtocolError, u8 list) result" where
  "write_payload frame buffer =
    andThen (write_payload_fields frame (PayloadWriter_new buffer)) (\<lambda>w.
    andThen (writer_finish w) (\<lambda>_. Ok (pw_buffer w)))"

text \<open>\<open>encode\<close> returns the bytes written and the updated caller buffer.\<close>

definition encode :: "Frame \<Rightarrow> u8 list \<Rightarrow> (ProtocolError, nat \<times> u8 list) result" where
  "encode frame buffer =
    andThen (validate frame) (\<lambda>_.
    andThen (encoded_payload_len frame) (\<lambda>payload_len.
    andThen (u32_try_from payload_len ''payload length exceeded u32::MAX'') (\<lambda>payload_length.
    andThen (ok_or (checked_add_usize HEADER_LEN payload_len) (codec ''encoded frame length overflowed usize''))
      (\<lambda>total_len.
    if length buffer < total_len then Err (codec ''output buffer is too small'')
    else if length buffer < HEADER_LEN then Err (codec ''output buffer is too small for header'')
    else
      andThen (write_header frame payload_length (take HEADER_LEN buffer)) (\<lambda>header.
      if length buffer < total_len then Err (codec ''output buffer is too small for payload'')
      else
        andThen (write_payload frame (take payload_len (drop HEADER_LEN buffer))) (\<lambda>payload.
        Ok (total_len, header @ payload @ drop total_len buffer)))))))"

section \<open>Decoding known payloads (known.rs)\<close>

definition read_protocol_version :: "ProtocolVersion reads" where
  "read_protocol_version r =
    andThen (read_u16 r) (\<lambda>(major, r).
    andThen (read_u16 r) (\<lambda>(minor, r). Ok (\<lparr>pv_major = major, pv_minor = minor\<rparr>, r)))"

definition decode_control_payload :: "FrameType \<Rightarrow> u8 \<Rightarrow> Frame reads" where
  "decode_control_payload t flags r =
    (case t of
       FrameType.Connect \<Rightarrow>
         andThen (read_protocol_version r) (\<lambda>(min_version, r).
         andThen (read_protocol_version r) (\<lambda>(max_version, r).
         andThen (read_bytes_field r) (\<lambda>(auth_token, r).
         Ok (Connect flags min_version max_version auth_token, r))))
     | FrameType.ConnectAck \<Rightarrow>
         andThen (read_protocol_version r) (\<lambda>(selected_version, r).
         andThen (read_u32 r) (\<lambda>(capabilities, r).
         Ok (ConnectAck flags selected_version capabilities, r)))
     | FrameType.ConnectError \<Rightarrow>
         andThen (read_u16 r) (\<lambda>(code, r).
         andThen (read_optional_string r) (\<lambda>(message, r).
         Ok (ConnectError flags code message, r)))
     | FrameType.Disconnect \<Rightarrow> Ok (Disconnect flags, r)
     | FrameType.Ping \<Rightarrow> Ok (Ping flags, r)
     | FrameType.Pong \<Rightarrow> Ok (Pong flags, r)
     | _ \<Rightarrow> Err (codec ''frame type was not a control frame''))"

definition decode_subscription_payload :: "reserve \<Rightarrow> FrameType \<Rightarrow> u8 \<Rightarrow> u32 \<Rightarrow> Frame reads" where
  "decode_subscription_payload reserve t flags stream_id r =
    (case t of
       FrameType.Subscribe \<Rightarrow>
         andThen (read_string_field r) (\<lambda>(channel, r).
         andThen (read_schema_ids_field reserve r) (\<lambda>(accepted_schemas, r).
         andThen (read_u32 r) (\<lambda>(max_in_flight, r).
         andThen (StreamPressure_new max_in_flight) (\<lambda>_.
         Ok (Subscribe flags stream_id channel accepted_schemas max_in_flight, r)))))
     | FrameType.SubscribeAck \<Rightarrow>
         andThen (read_u64 r) (\<lambda>(subscription_id, r).
         andThen (read_schema_id r) (\<lambda>(selected_schema, r).
         Ok (SubscribeAck flags stream_id subscription_id selected_schema, r)))
     | FrameType.SubscribeError \<Rightarrow>
         andThen (read_u16 r) (\<lambda>(code, r).
         andThen (read_optional_string r) (\<lambda>(message, r).
         Ok (SubscribeError flags stream_id code message, r)))
     | FrameType.Unsubscribe \<Rightarrow>
         andThen (read_u64 r) (\<lambda>(subscription_id, r).
         Ok (Unsubscribe flags stream_id subscription_id, r))
     | _ \<Rightarrow> Err (codec ''frame type was not a subscription frame''))"

definition decode_publish_payload :: "FrameType \<Rightarrow> u8 \<Rightarrow> u32 \<Rightarrow> Frame reads" where
  "decode_publish_payload t flags stream_id r =
    (case t of
       FrameType.Publish \<Rightarrow>
         andThen (read_string_field r) (\<lambda>(channel, r).
         andThen (read_bytes_field r) (\<lambda>(bytes, r).
         andThen (MessageEnvelope_from_wire_bytes bytes) (\<lambda>envelope.
         if flags AND PUBLISH_IDEMPOTENCY_KEY_FLAG = 0
         then Ok (Publish flags stream_id channel envelope None, r)
         else andThen (read_string_field r) (\<lambda>(key, r).
           Ok (Publish flags stream_id channel envelope (Some key), r)))))
     | FrameType.PublishAck \<Rightarrow>
         andThen (read_u64 r) (\<lambda>(message_id, r). Ok (PublishAck flags stream_id message_id, r))
     | FrameType.PublishError \<Rightarrow>
         andThen (read_u16 r) (\<lambda>(code, r).
         andThen (read_optional_string r) (\<lambda>(message, r).
         Ok (PublishError flags stream_id code message, r)))
     | _ \<Rightarrow> Err (codec ''frame type was not a publish frame''))"

definition decode_conversation_payload :: "FrameType \<Rightarrow> u8 \<Rightarrow> u32 \<Rightarrow> Frame reads" where
  "decode_conversation_payload t flags stream_id r =
    andThen (read_u64 r) (\<lambda>(conversation_id, r).
     case t of
       FrameType.ConversationOpen \<Rightarrow>
         andThen (read_string_field r) (\<lambda>(subject, r).
         Ok (ConversationOpen flags stream_id conversation_id subject, r))
     | FrameType.ConversationMessage \<Rightarrow>
         andThen (read_bytes_field r) (\<lambda>(bytes, r).
         andThen (MessageEnvelope_from_wire_bytes bytes) (\<lambda>envelope.
         Ok (ConversationMessage flags stream_id conversation_id envelope, r)))
     | FrameType.ConversationClose \<Rightarrow>
         andThen (read_optional_u16 r) (\<lambda>(code, r).
         andThen (read_optional_string r) (\<lambda>(message, r).
         Ok (ConversationClose flags stream_id conversation_id code message, r)))
     | FrameType.ConversationError \<Rightarrow>
         andThen (read_u16 r) (\<lambda>(code, r).
         andThen (read_optional_string r) (\<lambda>(message, r).
         Ok (ConversationError flags stream_id conversation_id code message, r)))
     | _ \<Rightarrow> Err (codec ''frame type was not a conversation frame''))"

definition decode_push_payload :: "FrameType \<Rightarrow> u8 \<Rightarrow> u32 \<Rightarrow> Frame reads" where
  "decode_push_payload t flags stream_id r =
    andThen (read_u64 r) (\<lambda>(correlation_id, r).
    andThen (read_bytes_field r) (\<lambda>(payload, r).
    case t of
      FrameType.Push \<Rightarrow> Ok (Push flags stream_id correlation_id payload, r)
    | FrameType.PushReply \<Rightarrow> Ok (PushReply flags stream_id correlation_id payload, r)
    | _ \<Rightarrow> Err (codec ''frame type was not a push frame'')))"

definition decode_deliver_payload :: "u8 \<Rightarrow> u32 \<Rightarrow> Frame reads" where
  "decode_deliver_payload flags stream_id r =
    andThen (read_u64 r) (\<lambda>(delivery_seq, r).
    andThen (read_bytes_field r) (\<lambda>(bytes, r).
    andThen (MessageEnvelope_from_wire_bytes bytes) (\<lambda>envelope.
    Ok (Deliver flags stream_id delivery_seq envelope, r))))"

definition decode_pressure_payload :: "FrameType \<Rightarrow> u8 \<Rightarrow> u32 \<Rightarrow> Frame reads" where
  "decode_pressure_payload t flags stream_id r =
    (case t of
       FrameType.Accept \<Rightarrow>
         andThen (read_string_field r) (\<lambda>(i, r). Ok (Accept flags stream_id (MessageId i), r))
     | FrameType.Defer \<Rightarrow>
         andThen (read_string_field r) (\<lambda>(i, r).
         andThen (read_optional_string r) (\<lambda>(reason, r). Ok (Defer flags stream_id (MessageId i) reason, r)))
     | FrameType.Reject \<Rightarrow>
         andThen (read_string_field r) (\<lambda>(i, r).
         andThen (read_optional_string r) (\<lambda>(reason, r). Ok (Reject flags stream_id (MessageId i) reason, r)))
     | _ \<Rightarrow> Err (codec ''frame type was not a pressure frame''))"

abbreviation (input) DESCRIPTOR_SIZE :: nat where "DESCRIPTOR_SIZE \<equiv> 72"

definition read_activity_descriptor :: "WorkerActivityDescriptor reads" where
  "read_activity_descriptor r =
    andThen (read_string_field r) (\<lambda>(name, r).
    andThen (read_string_field r) (\<lambda>(input_schema_json, r).
    andThen (read_string_field r) (\<lambda>(output_schema_json, r).
    Ok (\<lparr>wad_name = name, wad_input_schema_json = input_schema_json,
         wad_output_schema_json = output_schema_json\<rparr>, r))))"

definition read_activities :: "reserve \<Rightarrow> WorkerActivityDescriptor list reads" where
  "read_activities reserve r =
    (if is_finished r then Ok ([], r)
     else
       andThen (read_u32 r) (\<lambda>(count32, r). let count = unat count32 in
       if reserve DESCRIPTOR_SIZE count then read_loop count read_activity_descriptor r
       else Err (codec ''activity descriptor allocation failed'')))"

definition decode_worker_register_payload :: "reserve \<Rightarrow> u8 \<Rightarrow> Frame reads" where
  "decode_worker_register_payload reserve flags r =
    andThen (read_string_vec_field reserve r) (\<lambda>(namespaces, r).
    andThen (read_string_field r) (\<lambda>(task_queue, r).
    andThen (read_optional_string r) (\<lambda>(node, r).
    andThen (read_string_vec_field reserve r) (\<lambda>(activity_types, r).
    andThen (read_string_field r) (\<lambda>(identity, r).
    andThen (read_activities reserve r) (\<lambda>(activities, r).
    Ok (WorkerRegister flags \<lparr>wr_namespaces = namespaces, wr_task_queue = task_queue, wr_node = node,
          wr_activity_types = activity_types, wr_identity = identity, wr_activities = activities\<rparr>, r)))))))"

definition decode_worker_register_ack_payload :: "u8 \<Rightarrow> Frame reads" where
  "decode_worker_register_ack_payload flags r =
    andThen (read_u8 r) (\<lambda>(status, r).
    if status = WORKER_REGISTER_ACK_ACCEPTED then Ok (WorkerRegisterAck flags Accepted, r)
    else if status = WORKER_REGISTER_ACK_REJECTED then
      andThen (read_string_field r) (\<lambda>(reason, r). Ok (WorkerRegisterAck flags (Rejected reason), r))
    else Err (codec ''worker register ack status byte was invalid''))"

definition decode_known_payload :: "reserve \<Rightarrow> FrameType \<Rightarrow> u8 \<Rightarrow> u32 \<Rightarrow> u8 list \<Rightarrow> (ProtocolError, Frame) result" where
  "decode_known_payload reserve t flags stream_id payload =
    (let reader = PayloadReader_new payload in
     andThen (case t of
        FrameType.Connect \<Rightarrow> decode_control_payload t flags reader
      | FrameType.ConnectAck \<Rightarrow> decode_control_payload t flags reader
      | FrameType.ConnectError \<Rightarrow> decode_control_payload t flags reader
      | FrameType.Disconnect \<Rightarrow> decode_control_payload t flags reader
      | FrameType.Ping \<Rightarrow> decode_control_payload t flags reader
      | FrameType.Pong \<Rightarrow> decode_control_payload t flags reader
      | FrameType.Subscribe \<Rightarrow> decode_subscription_payload reserve t flags stream_id reader
      | FrameType.SubscribeAck \<Rightarrow> decode_subscription_payload reserve t flags stream_id reader
      | FrameType.SubscribeError \<Rightarrow> decode_subscription_payload reserve t flags stream_id reader
      | FrameType.Unsubscribe \<Rightarrow> decode_subscription_payload reserve t flags stream_id reader
      | FrameType.Publish \<Rightarrow> decode_publish_payload t flags stream_id reader
      | FrameType.PublishAck \<Rightarrow> decode_publish_payload t flags stream_id reader
      | FrameType.PublishError \<Rightarrow> decode_publish_payload t flags stream_id reader
      | FrameType.ConversationOpen \<Rightarrow> decode_conversation_payload t flags stream_id reader
      | FrameType.ConversationMessage \<Rightarrow> decode_conversation_payload t flags stream_id reader
      | FrameType.ConversationClose \<Rightarrow> decode_conversation_payload t flags stream_id reader
      | FrameType.ConversationError \<Rightarrow> decode_conversation_payload t flags stream_id reader
      | FrameType.Accept \<Rightarrow> decode_pressure_payload t flags stream_id reader
      | FrameType.Defer \<Rightarrow> decode_pressure_payload t flags stream_id reader
      | FrameType.Reject \<Rightarrow> decode_pressure_payload t flags stream_id reader
      | FrameType.Push \<Rightarrow> decode_push_payload t flags stream_id reader
      | FrameType.PushReply \<Rightarrow> decode_push_payload t flags stream_id reader
      | FrameType.WorkerRegister \<Rightarrow> decode_worker_register_payload reserve flags reader
      | FrameType.WorkerRegisterAck \<Rightarrow> decode_worker_register_ack_payload flags reader
      | FrameType.Deliver \<Rightarrow> decode_deliver_payload flags stream_id reader
      | FrameType.Unknown type_id \<Rightarrow> Ok (Unknown type_id flags stream_id payload, reader))
      (\<lambda>(frame, reader). andThen (reader_finish reader) (\<lambda>_. Ok frame)))"

section \<open>Decoding frames (codec.rs)\<close>

definition decode_payload :: "reserve \<Rightarrow> FrameType \<Rightarrow> u8 \<Rightarrow> u32 \<Rightarrow> u8 list \<Rightarrow> (ProtocolError, Frame) result" where
  "decode_payload reserve t flags stream_id payload =
    (case t of
       FrameType.Unknown type_id \<Rightarrow> Ok (Unknown type_id flags stream_id payload)
     | _ \<Rightarrow>
         andThen (validate_stream t stream_id) (\<lambda>_.
         decode_known_payload reserve t flags stream_id payload))"

definition decode :: "reserve \<Rightarrow> u8 list \<Rightarrow> (ProtocolError, Frame \<times> nat) result" where
  "decode reserve buffer =
    (if length buffer < HEADER_LEN
     then Err (IncompleteHeader (Some (lit ''buffer shorter than fixed frame header'')))
     else
       andThen (read_u8 (PayloadReader_new (take HEADER_LEN buffer))) (\<lambda>(type_id, r).
       andThen (read_u8 r) (\<lambda>(flags, r).
       andThen (read_u32 r) (\<lambda>(stream_id, r).
       andThen (read_u32 r) (\<lambda>(payload_length, r).
       andThen (reader_finish r) (\<lambda>_.
       let payload_len = unat payload_length in
       andThen (ok_or (checked_add_usize HEADER_LEN payload_len) (codec ''decoded frame length overflowed usize''))
         (\<lambda>total_len.
       if length buffer < total_len
       then Err (TruncatedPayload (Some (lit ''buffer shorter than declared payload length'')))
       else
         andThen (decode_payload reserve (frame_type_from_u8 type_id) flags stream_id
             (take payload_len (drop HEADER_LEN buffer))) (\<lambda>frame.
         Ok (frame, total_len)))))))))"

end
