(* ===== verification/Frame_Roundtrip.thy ===== *)
theory Frame_Roundtrip
  imports Frame_Codec
begin

text \<open>
  What a frame is on the wire (\<open>frame_bytes\<close>), independent of readers and writers, and the correctness of
  the frame codec against it: the computed length is the real length, encoding writes exactly the wire
  form, decoding reads it back, and decoding accepts nothing else (up to the registration form that
  older workers send without a census).
\<close>

section \<open>The wire format\<close>

definition enc_version :: "ProtocolVersion \<Rightarrow> u8 list" where
  "enc_version v = enc_u16 (pv_major v) @ enc_u16 (pv_minor v)"

definition enc_descriptor :: "WorkerActivityDescriptor \<Rightarrow> u8 list" where
  "enc_descriptor d = enc_bytes (wad_name d) @ enc_bytes (wad_input_schema_json d) @ enc_bytes (wad_output_schema_json d)"

definition enc_registration_head :: "WorkerRegistration \<Rightarrow> u8 list" where
  "enc_registration_head w = enc_vec enc_bytes (wr_namespaces w) @ enc_bytes (wr_task_queue w)
    @ enc_option enc_bytes (wr_node w) @ enc_vec enc_bytes (wr_activity_types w) @ enc_bytes (wr_identity w)"

fun payload_bytes :: "Frame \<Rightarrow> u8 list" where
  "payload_bytes (Connect _ lo hi token) = enc_version lo @ enc_version hi @ enc_bytes token"
| "payload_bytes (ConnectAck _ v caps) = enc_version v @ enc_u32 caps"
| "payload_bytes (ConnectError _ code message) = enc_u16 code @ enc_option enc_bytes message"
| "payload_bytes (Disconnect _) = []"
| "payload_bytes (Subscribe _ _ channel schemas limit) =
    enc_bytes channel @ enc_vec schema_id_bytes schemas @ enc_u32 limit"
| "payload_bytes (SubscribeAck _ _ i schema) = enc_u64 i @ schema_id_bytes schema"
| "payload_bytes (SubscribeError _ _ code message) = enc_u16 code @ enc_option enc_bytes message"
| "payload_bytes (Unsubscribe _ _ i) = enc_u64 i"
| "payload_bytes (Publish _ _ channel envelope key) =
    enc_bytes channel @ enc_bytes (enc_envelope envelope) @ (case key of None \<Rightarrow> [] | Some k \<Rightarrow> enc_bytes k)"
| "payload_bytes (PublishAck _ _ i) = enc_u64 i"
| "payload_bytes (PublishError _ _ code message) = enc_u16 code @ enc_option enc_bytes message"
| "payload_bytes (ConversationOpen _ _ i subject) = enc_u64 i @ enc_bytes subject"
| "payload_bytes (ConversationMessage _ _ i envelope) = enc_u64 i @ enc_bytes (enc_envelope envelope)"
| "payload_bytes (ConversationClose _ _ i code message) =
    enc_u64 i @ enc_option enc_u16 code @ enc_option enc_bytes message"
| "payload_bytes (ConversationError _ _ i code message) = enc_u64 i @ enc_u16 code @ enc_option enc_bytes message"
| "payload_bytes (Accept _ _ i) = enc_bytes (message_id_str i)"
| "payload_bytes (Defer _ _ i reason) = enc_bytes (message_id_str i) @ enc_option enc_bytes reason"
| "payload_bytes (Reject _ _ i reason) = enc_bytes (message_id_str i) @ enc_option enc_bytes reason"
| "payload_bytes (Ping _) = []"
| "payload_bytes (Pong _) = []"
| "payload_bytes (Push _ _ i payload) = enc_u64 i @ enc_bytes payload"
| "payload_bytes (PushReply _ _ i payload) = enc_u64 i @ enc_bytes payload"
| "payload_bytes (WorkerRegister _ w) = enc_registration_head w @ enc_vec enc_descriptor (wr_activities w)"
| "payload_bytes (WorkerRegisterAck _ outcome) =
    (case outcome of Accepted \<Rightarrow> [0] | Rejected reason \<Rightarrow> 1 # enc_bytes reason)"
| "payload_bytes (Deliver _ _ i envelope) = enc_u64 i @ enc_bytes (enc_envelope envelope)"
| "payload_bytes (Unknown _ _ _ payload) = payload"

definition header_bytes :: "u8 \<Rightarrow> u8 \<Rightarrow> u32 \<Rightarrow> nat \<Rightarrow> u8 list" where
  "header_bytes type_id flags stream_id len = [type_id, flags] @ enc_u32 stream_id @ be_bytes 4 len"

definition frame_bytes :: "Frame \<Rightarrow> u8 list" where
  "frame_bytes f = header_bytes (frame_type_to_u8 (frame_type f)) (frame_flags f) (frame_stream_id f)
      (length (payload_bytes f)) @ payload_bytes f"

section \<open>Conditions on the fields of a frame\<close>

text \<open>\<open>frame_fields str raw env sch vec\<close> asks \<open>str\<close> of every string, \<open>raw\<close> of every byte string, \<open>env\<close> of
  the envelope, \<open>sch\<close> of every schema id and \<open>vec size count\<close> of every vector of \<open>count\<close> elements that
  occupy \<open>size\<close> bytes in memory.\<close>

fun frame_fields :: "(rstring \<Rightarrow> bool) \<Rightarrow> (u8 list \<Rightarrow> bool) \<Rightarrow> (MessageEnvelope \<Rightarrow> bool) \<Rightarrow> (SchemaId \<Rightarrow> bool)
    \<Rightarrow> (nat \<Rightarrow> nat \<Rightarrow> bool) \<Rightarrow> Frame \<Rightarrow> bool" where
  "frame_fields str raw env sch vec (Connect _ _ _ token) = raw token"
| "frame_fields str raw env sch vec (ConnectAck _ _ _) = True"
| "frame_fields str raw env sch vec (ConnectError _ _ message) = pred_option str message"
| "frame_fields str raw env sch vec (Disconnect _) = True"
| "frame_fields str raw env sch vec (Subscribe _ _ channel schemas _) =
    (str channel \<and> list_all sch schemas \<and> vec SCHEMA_ID_SIZE (length schemas))"
| "frame_fields str raw env sch vec (SubscribeAck _ _ _ schema) = sch schema"
| "frame_fields str raw env sch vec (SubscribeError _ _ _ message) = pred_option str message"
| "frame_fields str raw env sch vec (Unsubscribe _ _ _) = True"
| "frame_fields str raw env sch vec (Publish _ _ channel envelope key) =
    (str channel \<and> env envelope \<and> pred_option str key)"
| "frame_fields str raw env sch vec (PublishAck _ _ _) = True"
| "frame_fields str raw env sch vec (PublishError _ _ _ message) = pred_option str message"
| "frame_fields str raw env sch vec (ConversationOpen _ _ _ subject) = str subject"
| "frame_fields str raw env sch vec (ConversationMessage _ _ _ envelope) = env envelope"
| "frame_fields str raw env sch vec (ConversationClose _ _ _ _ message) = pred_option str message"
| "frame_fields str raw env sch vec (ConversationError _ _ _ _ message) = pred_option str message"
| "frame_fields str raw env sch vec (Accept _ _ i) = str (message_id_str i)"
| "frame_fields str raw env sch vec (Defer _ _ i reason) = (str (message_id_str i) \<and> pred_option str reason)"
| "frame_fields str raw env sch vec (Reject _ _ i reason) = (str (message_id_str i) \<and> pred_option str reason)"
| "frame_fields str raw env sch vec (Ping _) = True"
| "frame_fields str raw env sch vec (Pong _) = True"
| "frame_fields str raw env sch vec (Push _ _ _ payload) = raw payload"
| "frame_fields str raw env sch vec (PushReply _ _ _ payload) = raw payload"
| "frame_fields str raw env sch vec (WorkerRegister _ w) =
    (list_all str (wr_namespaces w) \<and> vec STRING_SIZE (length (wr_namespaces w))
     \<and> str (wr_task_queue w) \<and> pred_option str (wr_node w)
     \<and> list_all str (wr_activity_types w) \<and> vec STRING_SIZE (length (wr_activity_types w))
     \<and> str (wr_identity w)
     \<and> list_all (\<lambda>d. str (wad_name d) \<and> str (wad_input_schema_json d) \<and> str (wad_output_schema_json d))
         (wr_activities w)
     \<and> vec DESCRIPTOR_SIZE (length (wr_activities w)))"
| "frame_fields str raw env sch vec (WorkerRegisterAck _ outcome) =
    (case outcome of Accepted \<Rightarrow> True | Rejected reason \<Rightarrow> str reason)"
| "frame_fields str raw env sch vec (Deliver _ _ _ envelope) = env envelope"
| "frame_fields str raw env sch vec (Unknown _ _ _ payload) = raw payload"

text \<open>The lengths fit their \<open>u32\<close> prefixes; the values inhabit the source types; the allocator grants
  the vectors; the idempotency flag agrees with the key and an unknown type is not registered.\<close>

definition envelope_field_fits :: "MessageEnvelope \<Rightarrow> bool" where
  "envelope_field_fits e \<longleftrightarrow> envelope_fits e \<and> ok_bytes (enc_envelope e)"

definition payload_fits :: "Frame \<Rightarrow> bool" where
  "payload_fits = frame_fields ok_bytes ok_bytes envelope_field_fits (\<lambda>_. True) (\<lambda>_ n. n \<le> U32_MAX)"

definition frame_typed :: "Frame \<Rightarrow> bool" where
  "frame_typed = frame_fields utf8_valid (\<lambda>_. True) envelope_typed ok_schema_id (\<lambda>_ _. True)"

definition frame_granted :: "reserve \<Rightarrow> Frame \<Rightarrow> bool" where
  "frame_granted reserve = frame_fields (\<lambda>_. True) (\<lambda>_. True) (\<lambda>_. True) (\<lambda>_. True) reserve"

definition frame_consistent :: "Frame \<Rightarrow> bool" where
  "frame_consistent f = (case f of
      Publish flags _ _ _ key \<Rightarrow> (flags AND PUBLISH_IDEMPOTENCY_KEY_FLAG = 0) = (key = None)
    | Unknown type_id _ _ _ \<Rightarrow> \<not> registered type_id
    | _ \<Rightarrow> True)"

text \<open>Everything decoding requires of the fields at once.\<close>

definition decodable :: "reserve \<Rightarrow> Frame \<Rightarrow> bool" where
  "decodable reserve = frame_fields ok_string ok_bytes (\<lambda>e. envelope_field_fits e \<and> envelope_typed e) ok_schema_id
    (\<lambda>size n. n \<le> U32_MAX \<and> reserve size n)"

lemma pred_option_conj: "pred_option (\<lambda>x. P x \<and> Q x) m \<longleftrightarrow> pred_option P m \<and> pred_option Q m"
  by (cases m) auto

lemma list_all_conj: "list_all (\<lambda>x. P x \<and> Q x) xs \<longleftrightarrow> list_all P xs \<and> list_all Q xs"
  by (auto simp: list_all_iff)

lemma frame_fields_conj:
  "frame_fields (\<lambda>x. p x \<and> p' x) (\<lambda>x. r x \<and> r' x) (\<lambda>x. e x \<and> e' x) (\<lambda>x. s x \<and> s' x) (\<lambda>x y. v x y \<and> v' x y) f
    \<longleftrightarrow> frame_fields p r e s v f \<and> frame_fields p' r' e' s' v' f"
  by (cases f) (auto simp: pred_option_conj list_all_conj split: WorkerRegisterOutcome.splits)

lemma decodable_iff: "decodable reserve f \<longleftrightarrow> payload_fits f \<and> frame_typed f \<and> frame_granted reserve f"
proof -
  have s: "ok_string = (\<lambda>s. (ok_bytes s \<and> utf8_valid s) \<and> True)"
    by (auto simp: ok_string_def ok_bytes_def)
  have "decodable reserve f \<longleftrightarrow>
    frame_fields (\<lambda>s. (ok_bytes s \<and> utf8_valid s) \<and> True) (\<lambda>b. (ok_bytes b \<and> True) \<and> True)
      (\<lambda>e. (envelope_field_fits e \<and> envelope_typed e) \<and> True) (\<lambda>s. (True \<and> ok_schema_id s) \<and> True)
      (\<lambda>size n. (n \<le> U32_MAX \<and> True) \<and> reserve size n) f"
    by (simp add: decodable_def s)
  then show ?thesis
    unfolding frame_fields_conj by (simp add: payload_fits_def frame_typed_def frame_granted_def)
qed

section \<open>Encoded lengths\<close>

lemma envelope_bytes_field_len_iff: "envelope_bytes_field_len n = Ok m \<longleftrightarrow> n \<le> U32_MAX \<and> m = n + 4"
  by (auto simp: envelope_bytes_field_len_def andThen_Ok_iff sum_lengths_Ok_iff)

lemma envelope_field_len_then:
  "ok_schema_id (me_schema_id e) \<Longrightarrow>
    andThen (MessageEnvelope_encoded_len e) (\<lambda>n. andThen (envelope_bytes_field_len n) k) = Ok z \<longleftrightarrow>
      envelope_field_fits e \<and> k (length (enc_bytes (enc_envelope e))) = Ok z"
  by (auto simp: andThen_Ok_iff MessageEnvelope_encoded_len_iff envelope_bytes_field_len_iff envelope_field_fits_def
      ok_bytes_def enc_bytes_def add.commute)

lemma descriptors_len_loop_iff:
  "acc \<le> USIZE_MAX \<Longrightarrow> activity_descriptors_len_loop acc ds = Ok n \<longleftrightarrow>
    list_all (\<lambda>d. ok_bytes (wad_name d) \<and> ok_bytes (wad_input_schema_json d) \<and> ok_bytes (wad_output_schema_json d)) ds
    \<and> n = acc + length (concat (map enc_descriptor ds)) \<and> n \<le> USIZE_MAX"
proof (induction ds arbitrary: acc)
  case Nil
  then show ?case by auto
next
  case (Cons d ds)
  have "activity_descriptors_len_loop acc (d # ds) = Ok n \<longleftrightarrow>
    (ok_bytes (wad_name d) \<and> ok_bytes (wad_input_schema_json d) \<and> ok_bytes (wad_output_schema_json d))
    \<and> acc + length (enc_descriptor d) \<le> USIZE_MAX
    \<and> activity_descriptors_len_loop (acc + length (enc_descriptor d)) ds = Ok n"
    by (auto simp: andThen_Ok_iff string_field_len_iff sum_lengths_Ok_iff enc_descriptor_def add.assoc)
  then show ?case
    by (cases "acc + length (enc_descriptor d) \<le> USIZE_MAX") (auto simp: Cons.IH add.assoc)
qed

lemma descriptors_field_len_iff:
  "activity_descriptors_field_len ds = Ok n \<longleftrightarrow> length ds \<le> U32_MAX
    \<and> list_all (\<lambda>d. ok_bytes (wad_name d) \<and> ok_bytes (wad_input_schema_json d) \<and> ok_bytes (wad_output_schema_json d)) ds
    \<and> n = length (enc_vec enc_descriptor ds) \<and> n \<le> USIZE_MAX"
  by (auto simp: activity_descriptors_field_len_def andThen_Ok_iff descriptors_len_loop_iff enc_vec_def)

lemma registration_len_iff:
  "worker_register_payload_len w = Ok n \<longleftrightarrow>
    payload_fits (WorkerRegister flags w) \<and> n = length (payload_bytes (WorkerRegister flags w)) \<and> n \<le> USIZE_MAX"
  by (auto simp: worker_register_payload_len_def andThen_Ok_iff string_vec_field_len_iff string_field_len_iff
      option_string_len_iff descriptors_field_len_iff sum_lengths_Ok_iff payload_fits_def enc_registration_head_def
      ok_vec_def)

lemma length_enc_version [simp]: "length (enc_version v) = 4"
  by (simp add: enc_version_def)

lemmas field_len_iffs = bytes_field_len_iff string_field_len_iff option_string_len_iff sum_lengths_Ok_iff
  schema_ids_field_len_iff message_id_field_len_def option_u16_len_eq

lemma length_enc_option_le: "pred_option ok_bytes m \<Longrightarrow> length (enc_option enc_bytes m) \<le> U32_MAX + 5"
  by (cases m) (auto simp: enc_bytes_def ok_bytes_def)

lemma enc_bytes_addressable: "ok_bytes bs \<Longrightarrow> length (enc_bytes bs) \<le> USIZE_MAX"
  using length_enc_bytes_le [of bs] by simp

lemma encoded_payload_len_iff:
  assumes "frame_typed f"
  shows "encoded_payload_len f = Ok n \<longleftrightarrow>
    payload_fits f \<and> n = length (payload_bytes f) \<and> n \<le> USIZE_MAX"
proof (cases f)
  case (Publish flags sid channel e key)
  have s: "ok_schema_id (me_schema_id e)"
    using assms Publish by (simp add: frame_typed_def envelope_typed_def)
  show ?thesis unfolding Publish encoded_payload_len.simps
    by (cases key) (auto simp: andThen_Ok_iff [of "string_field_len _"] andThen_assoc envelope_field_len_then [OF s]
        field_len_iffs payload_fits_def)
next
  case (Subscribe flags sid channel schemas limit)
  have s: "list_all ok_schema_id schemas" using assms Subscribe by (simp add: frame_typed_def)
  then show ?thesis using Subscribe
    by (auto simp: andThen_Ok_iff field_len_iffs payload_fits_def list.pred_True)
next
  case (SubscribeAck flags sid i schema)
  then show ?thesis using assms
    by (auto simp: sum_lengths_Ok_iff payload_fits_def frame_typed_def ok_schema_id_def)
next
  case (ConversationMessage flags sid i e)
  have s: "ok_schema_id (me_schema_id e)"
    using assms ConversationMessage by (simp add: frame_typed_def envelope_typed_def)
  show ?thesis unfolding ConversationMessage encoded_payload_len.simps envelope_field_len_then [OF s]
    by (auto simp: sum_lengths_Ok_iff payload_fits_def)
next
  case (Deliver flags sid i e)
  have s: "ok_schema_id (me_schema_id e)"
    using assms Deliver by (simp add: frame_typed_def envelope_typed_def)
  show ?thesis unfolding Deliver encoded_payload_len.simps envelope_field_len_then [OF s]
    by (auto simp: sum_lengths_Ok_iff payload_fits_def)
next
  case (WorkerRegister flags w)
  then show ?thesis by (simp only: encoded_payload_len.simps registration_len_iff [of w n flags])
next
  case (WorkerRegisterAck flags outcome)
  then show ?thesis by (cases outcome) (auto simp: andThen_Ok_iff field_len_iffs payload_fits_def)
next
  case (Accept flags sid i)
  then show ?thesis using enc_bytes_addressable by (auto simp: field_len_iffs payload_fits_def)
next
  case (Unknown type_id flags sid payload)
  then show ?thesis by (auto simp: andThen_Ok_iff payload_fits_def ok_bytes_def)
qed (auto simp: andThen_Ok_iff field_len_iffs payload_fits_def)

section \<open>Writing\<close>

lemma ProtocolVersion_serialize_enc: "ProtocolVersion_serialize v = enc_version v"
  by (simp add: ProtocolVersion_serialize_def enc_version_def enc_u16_def)

interpretation w_descriptor: wire_writer enc_descriptor write_activity_descriptor
  "\<lambda>d. ok_bytes (wad_name d) \<and> ok_bytes (wad_input_schema_json d) \<and> ok_bytes (wad_output_schema_json d)"
  by (rule wire_writerI)
    (simp add: write_activity_descriptor_def enc_descriptor_def w_str.write_fits add.commute add.left_commute)

text \<open>The writer of a whole frame, field by field, from any position with enough room.\<close>

lemmas writer_facts = w_u8.write_fits w_u16.write_fits w_u32.write_fits w_u64.write_fits w_slice.write_fits
  w_bytes.write_fits w_str.write_fits w_opt_str.write_fits w_opt_u16.write_fits w_schema_id.write_fits
  w_schema_ids.write_fits w_str_vec.write_fits

lemma envelope_serialized:
  "envelope_typed e \<Longrightarrow> envelope_field_fits e \<Longrightarrow> MessageEnvelope_serialize e = Ok (enc_envelope e) \<and> ok_bytes (enc_envelope e)"
  by (simp add: MessageEnvelope_serialize_iff envelope_typed_def envelope_field_fits_def)

lemma write_registration_fits:
  assumes "payload_fits (WorkerRegister flags w)" "length pre + length suf \<le> USIZE_MAX"
    "length (payload_bytes (WorkerRegister flags w)) \<le> length suf"
  shows "write_worker_register_payload w (writer_at pre suf) =
    Ok (writer_at (pre @ payload_bytes (WorkerRegister flags w))
      (drop (length (payload_bytes (WorkerRegister flags w))) suf))"
proof -
  let ?h = "enc_registration_head w"
  have f: "ok_vec ok_bytes (wr_namespaces w)" "ok_bytes (wr_task_queue w)" "pred_option ok_bytes (wr_node w)"
    "ok_vec ok_bytes (wr_activity_types w)" "ok_bytes (wr_identity w)"
    and d: "ok_vec (\<lambda>d. ok_bytes (wad_name d) \<and> ok_bytes (wad_input_schema_json d)
      \<and> ok_bytes (wad_output_schema_json d)) (wr_activities w)"
    using assms(1) by (simp_all add: payload_fits_def ok_vec_def)
  have "length ?h \<le> length suf" using assms(3) by simp
  then have "write_worker_register_payload w (writer_at pre suf) =
      andThen (u32_try_from (length (wr_activities w)) ''activity descriptor count exceeded u32::MAX'') (\<lambda>count.
      andThen (write_u32 count (writer_at (pre @ ?h) (drop (length ?h) suf)))
        (write_loop write_activity_descriptor (wr_activities w)))"
    using f assms(2)
    by (simp add: write_worker_register_payload_def enc_registration_head_def writer_facts add.commute add.left_commute)
  also have "\<dots> = Ok (writer_at ((pre @ ?h) @ enc_vec enc_descriptor (wr_activities w))
      (drop (length (enc_vec enc_descriptor (wr_activities w))) (drop (length ?h) suf)))"
    using assms(2,3) by (intro write_vec_fits [OF w_descriptor.wire_writer_axioms d]) simp_all
  finally show ?thesis by (simp add: add.commute)
qed

lemma write_payload_fields_fits:
  assumes "payload_fits f" "frame_typed f" "length pre + length suf \<le> USIZE_MAX" "length (payload_bytes f) \<le> length suf"
  shows "write_payload_fields f (writer_at pre suf) =
    Ok (writer_at (pre @ payload_bytes f) (drop (length (payload_bytes f)) suf))"
proof (cases f)
  case (WorkerRegister flags w)
  then show ?thesis
    using write_registration_fits [of flags w pre suf] assms by (simp add: write_payload_fields_def)
next
  case (WorkerRegisterAck flags outcome)
  then show ?thesis using assms
    by (cases outcome) (simp_all add: write_payload_fields_def payload_fits_def writer_facts)
next
  case (Publish flags sid channel e key)
  then show ?thesis using assms envelope_serialized [of e]
    by (cases key) (simp_all add: write_payload_fields_def write_publish_payload_def payload_fits_def frame_typed_def
        writer_facts add.commute add.left_commute)
next
  case (Subscribe flags sid channel schemas limit)
  then show ?thesis using assms
    by (simp add: write_payload_fields_def payload_fits_def frame_typed_def writer_facts ok_vec_def list.pred_True
        add.commute add.left_commute)
qed (use assms envelope_serialized in \<open>simp_all add: write_payload_fields_def write_handshake_payload_def
    write_pressure_payload_def write_push_payload_def write_u64_prefixed_envelope_def ProtocolVersion_serialize_enc
    payload_fits_def frame_typed_def writer_facts add.commute add.left_commute\<close>)

lemma write_payload_exact:
  assumes "payload_fits f" "frame_typed f" "length buffer = length (payload_bytes f)" "length buffer \<le> USIZE_MAX"
  shows "write_payload f buffer = Ok (payload_bytes f)"
  using write_payload_fields_fits [of f "[]" buffer] assms
  by (simp add: write_payload_def PayloadWriter_new_at writer_finish_def writer_at_def)

section \<open>Encoding\<close>

definition frame_valid :: "Frame \<Rightarrow> bool" where
  "frame_valid f \<longleftrightarrow> (is_unknown (frame_type f) \<or> (is_control (frame_type f) \<longleftrightarrow> frame_stream_id f = 0))
    \<and> (case f of Subscribe _ _ _ _ limit \<Rightarrow> limit \<noteq> 0 | _ \<Rightarrow> True)"

lemma validate_Ok_iff: "validate f = Ok u \<longleftrightarrow> frame_valid f"
  by (cases f) (simp_all add: validate_def frame_valid_def andThen_Ok_iff validate_stream_Ok_iff)

lemma validate_Ok_unit: "validate f = Ok () \<longleftrightarrow> frame_valid f"
  by (rule validate_Ok_iff)

lemma length_header_bytes [simp]: "length (header_bytes t fl sid n) = HEADER_LEN"
  by (simp add: header_bytes_def)

lemma write_header_exact:
  assumes "length buffer = HEADER_LEN" "n \<le> U32_MAX"
  shows "write_header f (of_nat n) buffer =
    Ok (header_bytes (frame_type_to_u8 (frame_type f)) (frame_flags f) (frame_stream_id f) n)"
  using assms
  by (simp add: write_header_def PayloadWriter_new_at writer_facts header_bytes_def enc_u32_def unat_of_nat_u32)
    (simp add: writer_finish_def writer_at_def)

lemma encode_Ok_iff:
  assumes "frame_typed f" "length buffer \<le> USIZE_MAX"
  shows "encode f buffer = Ok (n, buffer') \<longleftrightarrow>
    frame_valid f \<and> payload_fits f \<and> length (payload_bytes f) \<le> U32_MAX
    \<and> n = length (frame_bytes f) \<and> n \<le> length buffer \<and> buffer' = frame_bytes f @ drop n buffer"
    (is "?l \<longleftrightarrow> ?r")
proof (cases "frame_valid f \<and> payload_fits f \<and> length (payload_bytes f) \<le> U32_MAX
    \<and> HEADER_LEN + length (payload_bytes f) \<le> length buffer")
  case True
  let ?p = "payload_bytes f"
  have e: "encoded_payload_len f = Ok (length ?p)"
    using True assms by (simp add: encoded_payload_len_iff)
  have h: "write_header f (of_nat (length ?p)) (take HEADER_LEN buffer) =
      Ok (header_bytes (frame_type_to_u8 (frame_type f)) (frame_flags f) (frame_stream_id f) (length ?p))"
    using True by (intro write_header_exact) simp_all
  have w: "write_payload f (take (length ?p) (drop HEADER_LEN buffer)) = Ok ?p"
    using True assms by (intro write_payload_exact) (auto simp: min_absorb2)
  from True e h w show ?thesis
    by (auto simp: encode_def validate_Ok_unit [THEN iffD2] checked_add_usize_def frame_bytes_def)
next
  case False
  then have "\<not> ?r" by (auto simp: frame_bytes_def)
  moreover have "\<not> ?l"
    using False assms(1)
    by (auto simp: encode_def andThen_Ok_iff validate_Ok_iff encoded_payload_len_iff u32_try_from_def ok_or_Ok_iff
        checked_add_usize_def split: if_splits)
  ultimately show ?thesis by simp
qed

section \<open>Decoding\<close>

interpretation version: wire_reader enc_version read_protocol_version "\<lambda>_. True"
proof unfold_locales
  fix pre suf :: "u8 list" and x r
  assume "length pre + length suf \<le> USIZE_MAX"
  then have f: "fits pre suf" by (simp add: fits_def)
  show "read_protocol_version (reader_at pre suf) = Ok (x, r) \<longleftrightarrow>
      True \<and> (\<exists>ys. suf = enc_version x @ ys \<and> r = reader_at (pre @ enc_version x) ys)"
  proof
    assume "read_protocol_version (reader_at pre suf) = Ok (x, r)"
    with f show "True \<and> (\<exists>ys. suf = enc_version x @ ys \<and> r = reader_at (pre @ enc_version x) ys)"
      unfolding read_protocol_version_def by (auto elim!: u16.readE simp: enc_version_def)
  next
    assume "True \<and> (\<exists>ys. suf = enc_version x @ ys \<and> r = reader_at (pre @ enc_version x) ys)"
    with f show "read_protocol_version (reader_at pre suf) = Ok (x, r)"
      by (auto simp: read_protocol_version_def enc_version_def)
  qed
qed

abbreviation (input) ok_descriptor :: "WorkerActivityDescriptor \<Rightarrow> bool" where
  "ok_descriptor d \<equiv> ok_string (wad_name d) \<and> ok_string (wad_input_schema_json d) \<and> ok_string (wad_output_schema_json d)"

interpretation descriptor: wire_reader enc_descriptor read_activity_descriptor "\<lambda>d. ok_descriptor d"
proof unfold_locales
  fix pre suf :: "u8 list" and x r
  assume "length pre + length suf \<le> USIZE_MAX"
  then have f: "fits pre suf" by (simp add: fits_def)
  show "read_activity_descriptor (reader_at pre suf) = Ok (x, r) \<longleftrightarrow>
      ok_descriptor x \<and> (\<exists>ys. suf = enc_descriptor x @ ys \<and> r = reader_at (pre @ enc_descriptor x) ys)"
  proof
    assume "read_activity_descriptor (reader_at pre suf) = Ok (x, r)"
    with f show "ok_descriptor x \<and> (\<exists>ys. suf = enc_descriptor x @ ys \<and> r = reader_at (pre @ enc_descriptor x) ys)"
      unfolding read_activity_descriptor_def by (auto elim!: str.readE simp: enc_descriptor_def)
  next
    assume "ok_descriptor x \<and> (\<exists>ys. suf = enc_descriptor x @ ys \<and> r = reader_at (pre @ enc_descriptor x) ys)"
    with f show "read_activity_descriptor (reader_at pre suf) = Ok (x, r)"
      by (auto simp: read_activity_descriptor_def enc_descriptor_def)
  qed
qed

lemma read_byte_at: "fits (pre @ [x]) ys \<Longrightarrow> read_u8 (reader_at pre (x # ys)) = Ok (x, reader_at (pre @ [x]) ys)"
  using u8.read_at [of pre x ys] by simp

lemma reader_finish_end [simp]: "reader_finish (reader_at pre []) = Ok ()"
  by simp

lemma enc_vec_nonempty [simp]: "enc_vec enc xs \<noteq> []"
  by (simp add: enc_vec_def flip: length_0_conv)

lemma read_activities_at:
  assumes "ok_vec (\<lambda>d. ok_descriptor d) ds" "reserve DESCRIPTOR_SIZE (length ds)" "fits pre (enc_vec enc_descriptor ds)"
  shows "read_activities reserve (reader_at pre (enc_vec enc_descriptor ds)) =
    Ok (ds, reader_at (pre @ enc_vec enc_descriptor ds) [])"
  unfolding read_activities_def is_finished_at
  using assms read_vec_iff [OF descriptor.wire_reader_axioms, where pre = pre and suf = "enc_vec enc_descriptor ds"
    and reserve = reserve and sz = DESCRIPTOR_SIZE and e = "codec ''activity descriptor allocation failed''"
    and xs = ds and r = "reader_at (pre @ enc_vec enc_descriptor ds) []"]
  by (simp add: fits_def)

lemma read_activitiesE:
  assumes "andThen (read_activities reserve (reader_at pre suf)) k = Ok z" "fits pre suf"
  obtains (absent) "suf = []" "k ([], reader_at pre []) = Ok z"
  | (census) ds ys where "ok_vec (\<lambda>d. ok_descriptor d) ds" "reserve DESCRIPTOR_SIZE (length ds)"
    "suf = enc_vec enc_descriptor ds @ ys" "fits (pre @ enc_vec enc_descriptor ds) ys"
    "k (ds, reader_at (pre @ enc_vec enc_descriptor ds) ys) = Ok z"
proof (cases "suf = []")
  case True
  with assms(1) absent show thesis by (simp add: read_activities_def)
next
  case False
  then obtain ds r where ds: "read_activities reserve (reader_at pre suf) = Ok (ds, r)" "k (ds, r) = Ok z"
    using assms(1) by (auto simp: andThen_Ok_iff)
  then have "(ok_vec (\<lambda>d. ok_descriptor d) ds \<and> reserve DESCRIPTOR_SIZE (length ds))
      \<and> (\<exists>ys. suf = enc_vec enc_descriptor ds @ ys \<and> r = reader_at (pre @ enc_vec enc_descriptor ds) ys)"
    using False assms(2) read_vec_iff [OF descriptor.wire_reader_axioms, where pre = pre and suf = suf and reserve = reserve
      and sz = DESCRIPTOR_SIZE and e = "codec ''activity descriptor allocation failed''" and xs = ds and r = r]
    by (simp add: fits_def read_activities_def)
  with ds(2) assms(2) census show thesis by auto
qed

lemma envelope_parsed:
  "envelope_field_fits e \<Longrightarrow> envelope_typed e \<Longrightarrow>
    MessageEnvelope_from_wire_bytes (enc_envelope e) = Ok e \<and> ok_bytes (enc_envelope e)"
  by (subst MessageEnvelope_from_wire_bytes_iff) (auto simp: envelope_field_fits_def ok_bytes_def)

lemma parse_envelope_then:
  assumes "ok_bytes bs"
  shows "andThen (MessageEnvelope_from_wire_bytes bs) k = Ok z \<longleftrightarrow>
    (\<exists>e. envelope_field_fits e \<and> envelope_typed e \<and> bs = enc_envelope e \<and> k e = Ok z)"
  using assms MessageEnvelope_from_wire_bytes_iff [of bs]
  by (auto simp: andThen_Ok_iff ok_bytes_def envelope_field_fits_def)

subsection \<open>Decoding the wire form of a frame\<close>

lemmas decoder_defs = decode_known_payload_def decode_control_payload_def decode_subscription_payload_def
  decode_publish_payload_def decode_conversation_payload_def decode_push_payload_def decode_deliver_payload_def
  decode_pressure_payload_def decode_worker_register_ack_payload_def

lemma decode_registration_at:
  assumes "decodable reserve (WorkerRegister flags w)" "fits [] (payload_bytes (WorkerRegister flags w))"
  shows "decode_worker_register_payload reserve flags (reader_at [] (payload_bytes (WorkerRegister flags w))) =
    Ok (WorkerRegister flags w, reader_at (payload_bytes (WorkerRegister flags w)) [])"
  using assms
  by (simp add: decode_worker_register_payload_def enc_registration_head_def decodable_def read_activities_at ok_vec_def)

lemma decode_known_complete:
  assumes d: "decodable reserve f" and c: "frame_consistent f" and v: "frame_valid f"
    and k: "\<not> is_unknown (frame_type f)" and l: "length (payload_bytes f) \<le> USIZE_MAX"
  shows "decode_known_payload reserve (frame_type f) (frame_flags f) (frame_stream_id f) (payload_bytes f) = Ok f"
proof -
  have fits: "fits [] (payload_bytes f)" using l by (simp add: fits_Nil)
  show ?thesis
  proof (cases f)
    case (WorkerRegister flags w)
    then show ?thesis
      using decode_registration_at [of reserve flags w] d fits
      by (simp add: decode_known_payload_def PayloadReader_new_at Let_def)
  next
    case (WorkerRegisterAck flags outcome)
    then show ?thesis using d fits
      by (cases outcome) (simp_all add: decoder_defs PayloadReader_new_at decodable_def read_byte_at)
  next
    case (Publish flags sid channel e key)
    then show ?thesis using d fits c envelope_parsed [of e]
      by (cases key) (simp_all add: decoder_defs PayloadReader_new_at decodable_def frame_consistent_def)
  next
    case (Subscribe flags sid channel schemas limit)
    then show ?thesis using d fits v
      by (simp add: decoder_defs PayloadReader_new_at decodable_def frame_valid_def StreamPressure_new_def ok_vec_def)
  next
    case (Unknown type_id flags sid payload)
    then show ?thesis using k by simp
  qed (use d fits envelope_parsed in \<open>simp_all add: decoder_defs PayloadReader_new_at decodable_def\<close>)
qed

subsection \<open>Decoding accepts nothing else\<close>

text \<open>Workers built before the census field send a registration that ends after the identity.\<close>

definition legacy_registration :: "Frame \<Rightarrow> u8 list \<Rightarrow> bool" where
  "legacy_registration f bs = (case f of
      WorkerRegister _ w \<Rightarrow> wr_activities w = [] \<and> bs = enc_registration_head w
    | _ \<Rightarrow> False)"

lemmas readEs = u8.readE u16.readE u32.readE u64.readE bytes.readE str.readE opt_str.readE opt_u16.readE
  schema_id.readE schema_ids.readE str_vec.readE version.readE read_activitiesE

text \<open>What soundness promises of a decoded known frame, given the header fields and the payload.\<close>

definition decoded_as :: "FrameType \<Rightarrow> u8 \<Rightarrow> u32 \<Rightarrow> u8 list \<Rightarrow> Frame \<Rightarrow> bool" where
  "decoded_as t flags sid bs f \<longleftrightarrow> frame_type f = t \<and> frame_flags f = flags
    \<and> (\<not> is_control t \<longrightarrow> frame_stream_id f = sid) \<and> (case f of Subscribe _ _ _ _ limit \<Rightarrow> limit \<noteq> 0 | _ \<Rightarrow> True)
    \<and> payload_fits f \<and> frame_typed f \<and> frame_consistent f
    \<and> (bs = payload_bytes f \<or> legacy_registration f bs)"

lemma ok_string_bytes: "ok_string s \<longleftrightarrow> ok_bytes s \<and> utf8_valid s"
  by (simp add: ok_string_def ok_bytes_def)

lemma pred_option_ok_string: "pred_option ok_string m \<longleftrightarrow> pred_option ok_bytes m \<and> pred_option utf8_valid m"
  by (cases m) (simp_all add: ok_string_bytes)

lemma ok_vec_ok_string: "ok_vec ok_string xs \<longleftrightarrow> length xs \<le> U32_MAX \<and> list_all ok_bytes xs \<and> list_all utf8_valid xs"
  by (auto simp: ok_vec_def list_all_iff ok_string_bytes)

lemmas split_oks = ok_string_bytes pred_option_ok_string ok_vec_ok_string list.pred_True option.pred_True

lemma decode_control_sound:
  assumes "decode_control_payload t flags (reader_at [] bs) = Ok (f, r)" "reader_finish r = Ok ()" "fits [] bs"
  shows "decoded_as t flags sid bs f"
  using assms
  by (cases t) (auto elim!: readEs simp: decode_control_payload_def decoded_as_def is_control_def payload_fits_def
      frame_typed_def frame_consistent_def split_oks)

lemma decode_subscription_sound:
  assumes "decode_subscription_payload reserve t flags sid (reader_at [] bs) = Ok (f, r)" "reader_finish r = Ok ()"
    "fits [] bs"
  shows "decoded_as t flags sid bs f"
  using assms
  by (cases t) (auto elim!: readEs simp: decode_subscription_payload_def decoded_as_def is_control_def payload_fits_def
      frame_typed_def frame_consistent_def split_oks ok_vec_def andThen_Ok_iff [of "StreamPressure_new _"]
      StreamPressure_new_Ok_iff)

lemma decode_publish_sound:
  assumes "decode_publish_payload t flags sid (reader_at [] bs) = Ok (f, r)" "reader_finish r = Ok ()" "fits [] bs"
  shows "decoded_as t flags sid bs f"
  using assms
  by (cases t) (auto elim!: readEs simp: decode_publish_payload_def decoded_as_def is_control_def payload_fits_def
      frame_typed_def frame_consistent_def split_oks parse_envelope_then split: if_splits)

lemma decode_conversation_sound:
  assumes "decode_conversation_payload t flags sid (reader_at [] bs) = Ok (f, r)" "reader_finish r = Ok ()" "fits [] bs"
  shows "decoded_as t flags sid bs f"
  using assms
  by (cases t) (auto elim!: readEs simp: decode_conversation_payload_def decoded_as_def is_control_def payload_fits_def
      frame_typed_def frame_consistent_def split_oks parse_envelope_then)

lemma decode_push_sound:
  assumes "decode_push_payload t flags sid (reader_at [] bs) = Ok (f, r)" "reader_finish r = Ok ()" "fits [] bs"
  shows "decoded_as t flags sid bs f"
  using assms
  by (cases t) (auto elim!: readEs simp: decode_push_payload_def decoded_as_def is_control_def payload_fits_def
      frame_typed_def frame_consistent_def)

lemma decode_deliver_sound:
  assumes "decode_deliver_payload flags sid (reader_at [] bs) = Ok (f, r)" "reader_finish r = Ok ()" "fits [] bs"
  shows "decoded_as FrameType.Deliver flags sid bs f"
  using assms
  by (auto elim!: readEs simp: decode_deliver_payload_def decoded_as_def is_control_def payload_fits_def
      frame_typed_def frame_consistent_def parse_envelope_then)

lemma decode_pressure_sound:
  assumes "decode_pressure_payload t flags sid (reader_at [] bs) = Ok (f, r)" "reader_finish r = Ok ()" "fits [] bs"
  shows "decoded_as t flags sid bs f"
  using assms
  by (cases t) (auto elim!: readEs simp: decode_pressure_payload_def decoded_as_def is_control_def payload_fits_def
      frame_typed_def frame_consistent_def split_oks)

lemma decode_registration_sound:
  assumes "decode_worker_register_payload reserve flags (reader_at [] bs) = Ok (f, r)" "reader_finish r = Ok ()"
    "fits [] bs"
  shows "decoded_as FrameType.WorkerRegister flags sid bs f"
  using assms
  by (auto elim!: readEs simp: decode_worker_register_payload_def decoded_as_def is_control_def payload_fits_def
      frame_typed_def frame_consistent_def split_oks ok_vec_def list_all_conj enc_registration_head_def
      legacy_registration_def list_all_iff)

lemma decode_ack_sound:
  assumes "decode_worker_register_ack_payload flags (reader_at [] bs) = Ok (f, r)" "reader_finish r = Ok ()"
    "fits [] bs"
  shows "decoded_as FrameType.WorkerRegisterAck flags sid bs f"
  using assms
  by (auto elim!: readEs simp: decode_worker_register_ack_payload_def decoded_as_def is_control_def payload_fits_def
      frame_typed_def frame_consistent_def split_oks split: if_splits)

lemmas decoders_sound = decode_control_sound decode_subscription_sound decode_publish_sound decode_conversation_sound
  decode_push_sound decode_deliver_sound decode_pressure_sound decode_registration_sound decode_ack_sound

lemma decode_known_sound:
  assumes "decode_known_payload reserve t flags sid bs = Ok f" "fits [] bs" "\<not> is_unknown t"
  shows "decoded_as t flags sid bs f"
  using assms
  by (cases t) (auto simp: decode_known_payload_def PayloadReader_new_at andThen_Ok_iff decoders_sound)

section \<open>Whole frames\<close>

lemma frame_valid_of_decoded:
  assumes "decoded_as t flags sid bs f" "validate_stream t sid = Ok ()" "\<not> is_unknown t"
  shows "frame_valid f \<and> frame_stream_id f = sid"
proof -
  have "is_control t \<Longrightarrow> frame_stream_id f = 0"
    using assms(1) by (cases f) (auto simp: decoded_as_def is_control_def)
  with assms show ?thesis
    by (auto simp: decoded_as_def frame_valid_def validate_stream_Ok_iff)
qed

lemma decode_payload_complete:
  assumes "decodable reserve f" "frame_consistent f" "frame_valid f" "length (payload_bytes f) \<le> USIZE_MAX"
  shows "decode_payload reserve (frame_type f) (frame_flags f) (frame_stream_id f) (payload_bytes f) = Ok f"
proof (cases "is_unknown (frame_type f)")
  case True
  then show ?thesis by (cases f) (simp_all add: decode_payload_def is_unknown_def)
next
  case False
  then have "validate_stream (frame_type f) (frame_stream_id f) = Ok ()"
    using assms(3) by (simp add: frame_valid_def validate_stream_Ok_iff)
  with decode_known_complete [OF assms(1,2,3) False assms(4)] False show ?thesis
    by (cases "frame_type f") (simp_all add: decode_payload_def)
qed

lemma decode_payload_sound:
  assumes "decode_payload reserve (frame_type_from_u8 w) flags sid bs = Ok f" "length bs \<le> U32_MAX"
  shows "frame_type_to_u8 (frame_type f) = w \<and> frame_flags f = flags \<and> frame_stream_id f = sid
    \<and> frame_valid f \<and> payload_fits f \<and> frame_typed f \<and> frame_consistent f
    \<and> (bs = payload_bytes f \<or> legacy_registration f bs)"
proof (cases "is_unknown (frame_type_from_u8 w)")
  case True
  then obtain x where x: "frame_type_from_u8 w = FrameType.Unknown x" by (auto simp: is_unknown_iff)
  then have "x = w" using frame_type_to_from [of w] by simp
  with x assms True show ?thesis
    by (auto simp: decode_payload_def frame_valid_def payload_fits_def frame_typed_def frame_consistent_def
        registered_def ok_bytes_def)
next
  case False
  have "fits [] bs" using assms(2) by (simp add: fits_Nil)
  moreover have v: "validate_stream (frame_type_from_u8 w) sid = Ok ()"
    and "decode_known_payload reserve (frame_type_from_u8 w) flags sid bs = Ok f"
    using assms(1) False
    by (cases "frame_type_from_u8 w"; auto simp: decode_payload_def andThen_Ok_iff)+
  ultimately have d: "decoded_as (frame_type_from_u8 w) flags sid bs f"
    using False by (blast intro: decode_known_sound)
  with frame_valid_of_decoded [OF d v False] frame_type_to_from [of w] show ?thesis
    by (auto simp: decoded_as_def)
qed

lemma header_split:
  assumes "HEADER_LEN \<le> length buffer"
  obtains type_id flags sid n where "n \<le> U32_MAX" "buffer = header_bytes type_id flags sid n @ drop HEADER_LEN buffer"
proof -
  let ?h = "take HEADER_LEN buffer"
  have "length ?h = Suc (Suc 8)" using assms by simp
  then obtain a b t where "?h = a # b # t" by (metis length_Suc_conv)
  then have ab: "?h = a # b # drop 2 ?h" by (simp add: numeral_2_eq_2)
  have "enc_u32 (of_nat (be_value (take 4 (drop 2 ?h)))) = take 4 (drop 2 ?h)"
    using be_bytes_word_iff [of 4 "take 4 (drop 2 ?h)" "of_nat (be_value (take 4 (drop 2 ?h))) :: u32"] assms
    by (simp add: enc_u32_def)
  moreover have l: "length (drop 6 ?h) = 4" using assms by simp
  then have n: "be_value (drop 6 ?h) \<le> U32_MAX" "be_bytes 4 (be_value (drop 6 ?h)) = drop 6 ?h"
    using be_value_count_iff [of "drop 6 ?h" "be_value (drop 6 ?h)"] by simp_all
  moreover have "?h = a # b # take 4 (drop 2 ?h) @ drop 6 ?h"
    using ab append_take_drop_id [of 4 "drop 2 ?h"] by simp
  ultimately have "?h = header_bytes a b (of_nat (be_value (take 4 (drop 2 ?h)))) (be_value (drop 6 ?h))"
    by (simp add: header_bytes_def)
  then show thesis using that n(1) by (metis append_take_drop_id)
qed

text \<open>Decoding through a header.\<close>

lemma decode_header:
  assumes "n \<le> U32_MAX"
  shows "decode reserve (header_bytes type_id flags sid n @ rest) =
    (if length rest < n then Err (TruncatedPayload (Some (lit ''buffer shorter than declared payload length'')))
     else andThen (decode_payload reserve (frame_type_from_u8 type_id) flags sid (take n rest)) (\<lambda>frame.
       Ok (frame, HEADER_LEN + n)))"
proof -
  have e: "be_bytes 4 n = enc_u32 (of_nat n)" using assms by (simp add: enc_u32_def unat_of_nat_u32)
  show ?thesis using assms
    by (simp add: decode_def PayloadReader_new_at header_bytes_def e read_byte_at fits_def Let_def unat_of_nat_u32
        checked_add_usize_def)
qed


lemma decode_frame_bytes:
  assumes "decodable reserve f" "frame_consistent f" "frame_valid f" "length (payload_bytes f) \<le> U32_MAX"
  shows "decode reserve (frame_bytes f @ rest) = Ok (f, length (frame_bytes f))"
proof -
  have "frame_type_from_u8 (frame_type_to_u8 (frame_type f)) = frame_type f"
    using assms(2) by (intro frame_type_from_to) (cases f; simp add: frame_consistent_def)
  then show ?thesis
    using decode_payload_complete [of reserve f] assms by (simp add: frame_bytes_def decode_header)
qed

lemma decode_Ok_sound:
  assumes "decode reserve buffer = Ok (f, n)"
  shows "frame_valid f \<and> payload_fits f \<and> frame_typed f \<and> frame_consistent f \<and> n \<le> length buffer
    \<and> (take n buffer = frame_bytes f \<or>
       (\<exists>bs. legacy_registration f bs \<and> length bs \<le> U32_MAX \<and> take n buffer =
          header_bytes (frame_type_to_u8 (frame_type f)) (frame_flags f) (frame_stream_id f) (length bs) @ bs))"
proof -
  have "HEADER_LEN \<le> length buffer" using assms by (auto simp: decode_def split: if_splits)
  then obtain type_id flags sid m where m: "m \<le> U32_MAX"
    and b: "buffer = header_bytes type_id flags sid m @ drop HEADER_LEN buffer"
    by (rule header_split)
  let ?rest = "drop HEADER_LEN buffer"
  have "decode reserve (header_bytes type_id flags sid m @ ?rest) = Ok (f, n)"
    using assms b by simp
  then have l: "m \<le> length ?rest" and n: "n = HEADER_LEN + m"
    and d: "decode_payload reserve (frame_type_from_u8 type_id) flags sid (take m ?rest) = Ok f"
    unfolding decode_header [OF m] by (auto simp: andThen_Ok_iff split: if_splits)
  have lm: "length (take m ?rest) = m" using l by simp
  have t: "take n buffer = header_bytes type_id flags sid m @ take m ?rest"
    using b n by (metis length_header_bytes take_append take_all le_add1 diff_add_inverse)
  from decode_payload_sound [OF d] lm m have s: "frame_type_to_u8 (frame_type f) = type_id \<and> frame_flags f = flags
    \<and> frame_stream_id f = sid \<and> frame_valid f \<and> payload_fits f \<and> frame_typed f \<and> frame_consistent f
    \<and> (take m ?rest = payload_bytes f \<or> legacy_registration f (take m ?rest))"
    by simp
  have "n \<le> length buffer" using n l \<open>HEADER_LEN \<le> length buffer\<close> by simp
  moreover have "take n buffer = frame_bytes f" if "take m ?rest = payload_bytes f"
    using that s t lm by (simp add: frame_bytes_def)
  ultimately show ?thesis using s t lm m by fastforce
qed

section \<open>Properties\<close>

text \<open>C18: \<open>encode\<close> writes a frame of the source types exactly when the frame is valid, its lengths fit and the
  buffer is long enough; it then writes the wire form at the front of the buffer, leaves the rest of the
  buffer as it was, and returns the number of bytes of the wire form. No later write can fail.\<close>

theorem encode_exact:
  assumes "frame_typed f" and "length buffer \<le> USIZE_MAX"
  shows "encode f buffer = Ok (n, buffer') \<longleftrightarrow>
    frame_valid f \<and> payload_fits f \<and> length (payload_bytes f) \<le> U32_MAX
    \<and> n = length (frame_bytes f) \<and> n \<le> length buffer \<and> buffer' = frame_bytes f @ drop n buffer"
  by (rule encode_Ok_iff [OF assms])

theorem encode_exact_witness:
  "encode (PublishAck 1 3 0x0102) (replicate 20 0) =
    Ok (18, [0x0A, 1, 0, 0, 0, 3, 0, 0, 0, 8, 0, 0, 0, 0, 0, 0, 1, 2] @ replicate 2 0)"
proof -
  let ?f = "PublishAck 1 3 0x0102"
  have b: "frame_bytes ?f = [0x0A, 1, 0, 0, 0, 3, 0, 0, 0, 8, 0, 0, 0, 0, 0, 0, 1, 2]"
    by (simp add: frame_bytes_def header_bytes_def enc_u64_def enc_u32_def be_bytes_numeral)
  have "frame_typed ?f" "frame_valid ?f" "payload_fits ?f"
    by (simp_all add: frame_typed_def frame_valid_def is_control_def payload_fits_def)
  with encode_exact [of ?f "replicate 20 0"] show ?thesis by (simp add: b)
qed

text \<open>C12: decoding inverts encoding exactly on the consistent frames. For whatever \<open>encode\<close> wrote for a frame of
  the source types, and whatever follows in the buffer, \<open>decode\<close> reads back the same frame and the same number of
  bytes if and only if the idempotency flag of a publish agrees with its key and an unknown frame has an unregistered
  type; the allocator is assumed to grant the vectors. An inconsistent frame is encoded but not read back.\<close>

theorem decode_encode:
  assumes "encode f buffer = Ok (n, buffer')" and "length buffer \<le> USIZE_MAX"
    and "frame_typed f" and "frame_granted reserve f"
  shows "decode reserve buffer' = Ok (f, n) \<longleftrightarrow> frame_consistent f"
  using assms encode_Ok_iff [OF assms(3,2), of n buffer'] decode_frame_bytes [of reserve f "drop n buffer"]
    decode_Ok_sound [of reserve buffer' f n]
  by (auto simp: decodable_iff)

theorem decode_encode_witness:
  "\<exists>n buffer'. encode (Push 0 7 9 [1, 2]) (replicate 40 0) = Ok (n, buffer')
    \<and> decode (\<lambda>_ _. True) buffer' = Ok (Push 0 7 9 [1, 2], n)"
proof -
  let ?f = "Push 0 7 9 [1, 2]" and ?b = "replicate 40 0 :: u8 list"
  have t: "frame_typed ?f" "frame_granted (\<lambda>_ _. True) ?f" and c: "frame_consistent ?f"
    by (simp_all add: frame_typed_def frame_consistent_def frame_granted_def)
  have l: "length ?b \<le> USIZE_MAX" by simp
  have "encode ?f ?b = Ok (length (frame_bytes ?f), frame_bytes ?f @ drop (length (frame_bytes ?f)) ?b)"
    by (subst encode_Ok_iff [OF t(1) l])
      (simp add: frame_valid_def is_control_def payload_fits_def ok_bytes_def frame_bytes_def enc_bytes_def)
  from this decode_encode [OF this l t] c show ?thesis by blast
qed

text \<open>C22: decoding is sound and canonical. A decoded frame is valid, inhabits the source types, has lengths that
  fit and consistent flags, and the bytes consumed are exactly its wire form, the only exception being a
  worker registration without census, whose bytes end after the identity. So re-encoding a decoded frame
  reproduces the bytes.\<close>

theorem decode_sound:
  assumes "decode reserve buffer = Ok (f, n)"
  shows "frame_valid f \<and> payload_fits f \<and> frame_typed f \<and> frame_consistent f \<and> n \<le> length buffer
    \<and> (take n buffer = frame_bytes f \<or>
       (\<exists>bs. legacy_registration f bs \<and> length bs \<le> U32_MAX \<and> take n buffer =
          header_bytes (frame_type_to_u8 (frame_type f)) (frame_flags f) (frame_stream_id f) (length bs) @ bs))"
  by (rule decode_Ok_sound [OF assms])

theorem decode_sound_witness:
  "\<exists>f n. decode (\<lambda>_ _. True) (frame_bytes (Ping 3)) = Ok (f, n) \<and> frame_valid f \<and> n \<le> 10"
proof -
  have "decode (\<lambda>_ _. True) (frame_bytes (Ping 3) @ []) = Ok (Ping 3, length (frame_bytes (Ping 3)))"
    by (rule decode_frame_bytes) (simp_all add: decodable_def frame_consistent_def frame_valid_def is_control_def)
  then have d: "decode (\<lambda>_ _. True) (frame_bytes (Ping 3)) = Ok (Ping 3, length (frame_bytes (Ping 3)))" by simp
  from d decode_sound [OF d] show ?thesis by (auto simp: frame_bytes_def)
qed

text \<open>streaming is safe. On every strict prefix of the wire form of a frame whose payload length fits
  its header field, \<open>decode\<close> asks for more bytes (incomplete header below ten bytes, truncated payload from
  there on) instead of failing otherwise or returning a frame.\<close>

theorem decode_prefix_waits:
  assumes "length (payload_bytes f) \<le> U32_MAX" and "frame_bytes f = part @ rest" and "rest \<noteq> []"
  shows "decode reserve part =
    (if length part < HEADER_LEN
     then Err (IncompleteHeader (Some (lit ''buffer shorter than fixed frame header'')))
     else Err (TruncatedPayload (Some (lit ''buffer shorter than declared payload length''))))"
proof (cases "length part < HEADER_LEN")
  case True
  then show ?thesis by (simp add: decode_def)
next
  case False
  let ?h = "header_bytes (frame_type_to_u8 (frame_type f)) (frame_flags f) (frame_stream_id f) (length (payload_bytes f))"
  have e: "part @ rest = ?h @ payload_bytes f" using assms(2) by (simp add: frame_bytes_def)
  have "take HEADER_LEN (part @ rest) = ?h" "drop HEADER_LEN (part @ rest) = payload_bytes f"
    unfolding e by simp_all
  then have p: "part = ?h @ drop HEADER_LEN part" and q: "payload_bytes f = drop HEADER_LEN part @ rest"
    using False append_take_drop_id [of HEADER_LEN part] by simp_all
  have "length (drop HEADER_LEN part) < length (payload_bytes f)" using q assms(3) by simp
  then have "decode reserve (?h @ drop HEADER_LEN part) =
      Err (TruncatedPayload (Some (lit ''buffer shorter than declared payload length'')))"
    unfolding decode_header [OF assms(1)] by simp
  with False show ?thesis unfolding p [symmetric] by simp
qed

theorem decode_prefix_waits_witness:
  "decode (\<lambda>_ _. True) (take 12 (frame_bytes (PublishAck 1 3 0x0102))) =
    Err (TruncatedPayload (Some (lit ''buffer shorter than declared payload length'')))"
proof -
  let ?f = "PublishAck 1 3 0x0102"
  have l: "length (frame_bytes ?f) = 18" by (simp add: frame_bytes_def)
  have s: "frame_bytes ?f = take 12 (frame_bytes ?f) @ drop 12 (frame_bytes ?f)" by simp
  have "length (payload_bytes ?f) \<le> U32_MAX" "drop 12 (frame_bytes ?f) \<noteq> []" using l by simp_all
  from decode_prefix_waits [OF this(1) s this(2)] l show ?thesis by simp
qed

end
