(* ===== verification/Connection.thy ===== *)
theory Connection
  imports Wire_Frames "HOL-Library.Product_Lexorder"
begin

text \<open>
  One connection of the wire protocol: the lifecycle state machine (\<open>protocol/lifecycle.rs\<close>), version
  and schema negotiation with the handshake frames (\<open>version.rs\<close>, \<open>schema.rs\<close>, \<open>handshake.rs\<close>), and the
  stream table and stream-id allocator (\<open>multiplex.rs\<close>). The lifecycle lemmas determine exactly which
  frame sequences each state admits; the allocator lemmas show ids are fresh and keep their parity.
\<close>

section \<open>Lifecycle (lifecycle.rs)\<close>

definition accepts_active :: "FrameType \<Rightarrow> bool" where
  "accepts_active t = (case t of
      FrameType.Disconnect \<Rightarrow> True | FrameType.Subscribe \<Rightarrow> True | FrameType.SubscribeAck \<Rightarrow> True
    | FrameType.SubscribeError \<Rightarrow> True | FrameType.Unsubscribe \<Rightarrow> True | FrameType.Publish \<Rightarrow> True
    | FrameType.PublishAck \<Rightarrow> True | FrameType.PublishError \<Rightarrow> True | FrameType.ConversationOpen \<Rightarrow> True
    | FrameType.ConversationMessage \<Rightarrow> True | FrameType.ConversationClose \<Rightarrow> True
    | FrameType.ConversationError \<Rightarrow> True | FrameType.Accept \<Rightarrow> True | FrameType.Defer \<Rightarrow> True
    | FrameType.Reject \<Rightarrow> True | FrameType.Ping \<Rightarrow> True | FrameType.Pong \<Rightarrow> True
    | _ \<Rightarrow> False)"

definition accepts :: "ConnectionState \<Rightarrow> FrameType \<Rightarrow> bool" where
  "accepts s t =
    (if s = Closed then False
     else if is_unknown t then True
     else case s of
        Connecting \<Rightarrow> t = FrameType.Connect
      | Authenticating \<Rightarrow> t = FrameType.ConnectAck \<or> t = FrameType.ConnectError
      | Active \<Rightarrow> accepts_active t
      | Closing \<Rightarrow> t = FrameType.Disconnect
      | Closed \<Rightarrow> False)"

definition next_state :: "ConnectionState \<Rightarrow> FrameType \<Rightarrow> ConnectionState" where
  "next_state s t =
    (if s = Connecting \<and> t = FrameType.Connect then Authenticating
     else if s = Authenticating \<and> t = FrameType.ConnectAck then Active
     else if s = Authenticating \<and> t = FrameType.ConnectError \<or> s = Closing \<and> t = FrameType.Disconnect then Closed
     else if s = Active \<and> t = FrameType.Disconnect then Closing
     else s)"

definition validate_frame_type :: "ConnectionState \<Rightarrow> FrameType \<Rightarrow> (ProtocolError, unit) result" where
  "validate_frame_type s t = (if accepts s t then Ok () else Err (invalid_state_transition s t))"

definition transition_frame_type :: "ConnectionState \<Rightarrow> FrameType \<Rightarrow> (ProtocolError, ConnectionState) result" where
  "transition_frame_type s t = andThen (validate_frame_type s t) (\<lambda>_. Ok (next_state s t))"

definition transition :: "ConnectionState \<Rightarrow> Frame \<Rightarrow> (ProtocolError, ConnectionState) result" where
  "transition s frame =
    andThen (validate_stream (frame_type frame) (frame_stream_id frame)) (\<lambda>_.
    transition_frame_type s (frame_type frame))"

record LifecycleAction =
  la_state :: ConnectionState
  la_response :: "Frame option"

definition handle_frame :: "ConnectionState \<Rightarrow> Frame \<Rightarrow> (ProtocolError, LifecycleAction) result" where
  "handle_frame s frame =
    andThen (transition s frame) (\<lambda>next.
    let response = (if s = Active \<and> frame_type frame = FrameType.Ping then Some (Pong 0) else None) in
    Ok \<lparr>la_state = next, la_response = response\<rparr>)"

section \<open>Version negotiation (version.rs)\<close>

text \<open>The derived order of \<open>ProtocolVersion\<close>: major first, then minor.\<close>

definition version_le :: "ProtocolVersion \<Rightarrow> ProtocolVersion \<Rightarrow> bool" where
  "version_le a b \<longleftrightarrow> (pv_major a, pv_minor a) \<le> (pv_major b, pv_minor b)"

text \<open>\<open>Iterator::max\<close>: the last of the maximal elements.\<close>

fun version_max :: "ProtocolVersion list \<Rightarrow> ProtocolVersion option" where
  "version_max [] = None"
| "version_max (v # vs) = Some (fold (\<lambda>x best. if version_le best x then x else best) vs v)"

definition negotiate_version ::
  "ProtocolVersion \<Rightarrow> ProtocolVersion \<Rightarrow> ProtocolVersion list \<Rightarrow> (ProtocolError, ProtocolVersion) result" where
  "negotiate_version min_version max_version supported_versions =
    ok_or (version_max (filter (\<lambda>v. version_le min_version v \<and> version_le v max_version) supported_versions))
      (VersionMismatch (Some (lit ''no mutually supported protocol version'')))"

definition ProtocolVersion_from_wire_bytes :: "u8 list \<Rightarrow> (ProtocolError, ProtocolVersion) result" where
  "ProtocolVersion_from_wire_bytes bytes = (case bytes of
      [major_high, major_low, minor_high, minor_low] \<Rightarrow>
        Ok \<lparr>pv_major = of_nat (be_value [major_high, major_low]), pv_minor = of_nat (be_value [minor_high, minor_low])\<rparr>
    | _ \<Rightarrow> Err (codec ''protocol version must be exactly 4 bytes''))"

section \<open>Handshake and schema negotiation (handshake.rs, schema.rs)\<close>

definition connect_frame ::
  "u32 \<Rightarrow> ProtocolVersion \<Rightarrow> ProtocolVersion \<Rightarrow> u8 list \<Rightarrow> (ProtocolError, Frame) result" where
  "connect_frame stream_id min_version max_version auth_token =
    andThen (validate_stream FrameType.Connect stream_id) (\<lambda>_. Ok (Connect 0 min_version max_version auth_token))"

definition connect_ack_frame :: "u32 \<Rightarrow> ProtocolVersion \<Rightarrow> u32 \<Rightarrow> (ProtocolError, Frame) result" where
  "connect_ack_frame stream_id selected_version capabilities =
    andThen (validate_stream FrameType.ConnectAck stream_id) (\<lambda>_. Ok (ConnectAck 0 selected_version capabilities))"

definition connect_error_frame :: "u32 \<Rightarrow> ProtocolError \<Rightarrow> (ProtocolError, Frame) result" where
  "connect_error_frame stream_id error =
    andThen (validate_stream FrameType.ConnectError stream_id) (\<lambda>_.
    Ok (ConnectError 0 (reason_code error) (error_message error)))"

definition negotiate_schema :: "SchemaId \<Rightarrow> SchemaId list \<Rightarrow> (ProtocolError, SchemaId) result" where
  "negotiate_schema channel_schema accepted_schemas =
    (if accepted_schemas = [] \<or> channel_schema \<in> set accepted_schemas then Ok channel_schema
     else Err (SchemaIncompatible (Some (lit ''subscriber does not accept channel schema''))))"

definition subscribe_error_frame :: "u32 \<Rightarrow> ProtocolError \<Rightarrow> (ProtocolError, Frame) result" where
  "subscribe_error_frame stream_id error =
    andThen (validate_stream FrameType.SubscribeError stream_id) (\<lambda>_.
    Ok (SubscribeError 0 stream_id (reason_code error) (error_message error)))"

section \<open>Streams (multiplex.rs)\<close>

datatype (plugins only: code size) StreamId = StreamId (stream_id_value: u32)

definition StreamId_is_control :: "StreamId \<Rightarrow> bool" where
  "StreamId_is_control s \<longleftrightarrow> stream_id_value s = 0"

definition StreamId_is_application :: "StreamId \<Rightarrow> bool" where
  "StreamId_is_application s \<longleftrightarrow> stream_id_value s \<ge> 1"

datatype (plugins only: code size) StreamState = StreamSubscribing | StreamActive | StreamClosing

text \<open>A table maps stream ids to states. The error texts print the id with its derived \<open>Debug\<close> form.\<close>

definition StreamId_debug :: "StreamId \<Rightarrow> string" where
  "StreamId_debug s = ''StreamId('' @ decimal (unat (stream_id_value s)) @ '')''"

type_synonym StreamTable = "StreamId \<rightharpoonup> StreamState"

definition StreamTable_insert ::
  "StreamTable \<Rightarrow> StreamId \<Rightarrow> StreamState \<Rightarrow> (ProtocolError, StreamTable) result" where
  "StreamTable_insert streams stream_id state = (case streams stream_id of
      None \<Rightarrow> Ok (streams(stream_id \<mapsto> state))
    | Some _ \<Rightarrow> Err (codec (''stream '' @ StreamId_debug stream_id @ '' already exists'')))"

definition StreamTable_transition ::
  "StreamTable \<Rightarrow> StreamId \<Rightarrow> StreamState \<Rightarrow> (ProtocolError, StreamTable) result" where
  "StreamTable_transition streams stream_id new_state = (case streams stream_id of
      None \<Rightarrow> Err (codec (''stream '' @ StreamId_debug stream_id @ '' is not active''))
    | Some _ \<Rightarrow> Ok (streams(stream_id \<mapsto> new_state)))"

definition StreamTable_remove :: "StreamTable \<Rightarrow> StreamId \<Rightarrow> StreamState option \<times> StreamTable" where
  "StreamTable_remove streams stream_id = (streams stream_id, streams(stream_id := None))"

definition StreamTable_get :: "StreamTable \<Rightarrow> StreamId \<Rightarrow> StreamState option" where
  "StreamTable_get streams stream_id = streams stream_id"

definition active_count :: "StreamTable \<Rightarrow> nat" where
  "active_count streams = card (dom streams)"

record StreamAllocator =
  sa_next_id :: "u32 option"

definition StreamAllocator_client :: StreamAllocator where
  "StreamAllocator_client = \<lparr>sa_next_id = Some 1\<rparr>"

definition StreamAllocator_server :: StreamAllocator where
  "StreamAllocator_server = \<lparr>sa_next_id = Some 2\<rparr>"

definition allocate_next :: "StreamAllocator \<Rightarrow> (ProtocolError, StreamId \<times> StreamAllocator) result" where
  "allocate_next a =
    andThen (ok_or (sa_next_id a) (codec ''stream id space exhausted'')) (\<lambda>stream_id.
    Ok (StreamId stream_id, \<lparr>sa_next_id = checked_add stream_id 2\<rparr>))"

section \<open>Specification\<close>

primrec run_frames :: "ConnectionState \<Rightarrow> Frame list \<Rightarrow> (ProtocolError, ConnectionState) result" where
  "run_frames s [] = Ok s"
| "run_frames s (f # fs) = andThen (transition s f) (\<lambda>s'. run_frames s' fs)"

definition known_types :: "Frame list \<Rightarrow> FrameType list" where
  "known_types fs = filter (\<lambda>t. \<not> is_unknown t) (map frame_type fs)"

text \<open>The frames that may flow between the handshake and the close, by their groups in \<open>frame.rs\<close>:
  subscriptions, publishes, conversations, backpressure and keepalive.\<close>

definition is_data :: "FrameType \<Rightarrow> bool" where
  "is_data t \<longleftrightarrow>
    t \<in> {FrameType.Subscribe, FrameType.SubscribeAck, FrameType.SubscribeError, FrameType.Unsubscribe}
    \<or> t \<in> {FrameType.Publish, FrameType.PublishAck, FrameType.PublishError}
    \<or> t \<in> {FrameType.ConversationOpen, FrameType.ConversationMessage, FrameType.ConversationClose, FrameType.ConversationError}
    \<or> t \<in> {FrameType.Accept, FrameType.Defer, FrameType.Reject}
    \<or> t \<in> {FrameType.Ping, FrameType.Pong}"

text \<open>Handshake, close and keepalive travel on stream 0, every other registered frame on a stream of its own.\<close>

definition well_placed :: "Frame \<Rightarrow> bool" where
  "well_placed f \<longleftrightarrow> is_unknown (frame_type f) \<or>
    (frame_stream_id f = 0 \<longleftrightarrow> frame_type f \<in> {FrameType.Connect, FrameType.ConnectAck, FrameType.ConnectError,
      FrameType.Disconnect, FrameType.Ping, FrameType.Pong})"

text \<open>The frame histories each state stands for.\<close>

definition history :: "ConnectionState \<Rightarrow> FrameType list \<Rightarrow> bool" where
  "history s ts = (case s of
      Connecting \<Rightarrow> ts = []
    | Authenticating \<Rightarrow> ts = [FrameType.Connect]
    | Active \<Rightarrow> (\<exists>d. list_all is_data d \<and> ts = FrameType.Connect # FrameType.ConnectAck # d)
    | Closing \<Rightarrow> (\<exists>d. list_all is_data d \<and> ts = FrameType.Connect # FrameType.ConnectAck # d @ [FrameType.Disconnect])
    | Closed \<Rightarrow> ts = [FrameType.Connect, FrameType.ConnectError]
        \<or> (\<exists>d. list_all is_data d
            \<and> ts = FrameType.Connect # FrameType.ConnectAck # d @ [FrameType.Disconnect, FrameType.Disconnect]))"

primrec allocations :: "nat \<Rightarrow> StreamAllocator \<Rightarrow> (ProtocolError, StreamId list \<times> StreamAllocator) result" where
  "allocations 0 a = Ok ([], a)"
| "allocations (Suc n) a =
    andThen (allocate_next a) (\<lambda>(i, a). andThen (allocations n a) (\<lambda>(ids, a). Ok (i # ids, a)))"

definition client_ids :: "nat \<Rightarrow> StreamId list" where
  "client_ids n = map (\<lambda>k. StreamId (of_nat (2 * k + 1))) [0..<n]"

definition server_ids :: "nat \<Rightarrow> StreamId list" where
  "server_ids n = map (\<lambda>k. StreamId (of_nat (2 * k + 2))) [0..<n]"

section \<open>Lifecycle lemmas\<close>

lemma transition_Ok_iff:
  "transition s f = Ok s' \<longleftrightarrow> (is_unknown (frame_type f) \<or> (is_control (frame_type f) \<longleftrightarrow> frame_stream_id f = 0))
    \<and> accepts s (frame_type f) \<and> s' = next_state s (frame_type f)"
  by (auto simp: transition_def transition_frame_type_def validate_frame_type_def andThen_Ok_iff validate_stream_Ok_iff)

lemma run_frames_snoc: "run_frames s (fs @ [f]) = andThen (run_frames s fs) (\<lambda>s'. transition s' f)"
proof (induction fs arbitrary: s)
  case Nil
  then show ?case by (cases "transition s f") simp_all
next
  case (Cons g fs)
  then show ?case by (cases "transition s g") simp_all
qed

lemma known_types_snoc:
  "known_types (fs @ [f]) = known_types fs @ (if is_unknown (frame_type f) then [] else [frame_type f])"
  by (simp add: known_types_def)

lemma unknown_keeps_state: "is_unknown t \<Longrightarrow> next_state s t = s"
  by (auto simp: next_state_def is_unknown_def)

lemma accepts_active_iff: "accepts_active t \<longleftrightarrow> is_data t \<or> t = FrameType.Disconnect"
  by (cases t) (simp_all add: accepts_active_def is_data_def)

lemma accepted_placed:
  "accepts s (frame_type f) \<Longrightarrow> validate_stream (frame_type f) (frame_stream_id f) = Ok () \<longleftrightarrow> well_placed f"
  by (cases s; cases "frame_type f")
    (auto simp: accepts_def accepts_active_def well_placed_def validate_stream_Ok_iff is_control_def)

lemma transition_placed:
  "transition s f = Ok s' \<longleftrightarrow> well_placed f \<and> accepts s (frame_type f) \<and> s' = next_state s (frame_type f)"
  using accepted_placed [of s f]
  by (auto simp: transition_def transition_frame_type_def validate_frame_type_def andThen_Ok_iff)

lemma history_step:
  assumes "history s ts" "accepts s t" "\<not> is_unknown t"
  shows "history (next_state s t) (ts @ [t])"
proof (cases s)
  case Active
  then obtain d where d: "list_all is_data d" "ts = FrameType.Connect # FrameType.ConnectAck # d"
    using assms(1) by (auto simp: history_def)
  show ?thesis
  proof (cases "t = FrameType.Disconnect")
    case True
    with Active d show ?thesis by (simp add: history_def next_state_def)
  next
    case False
    then have "list_all is_data (d @ [t])"
      using assms(2,3) Active d(1) False by (simp add: accepts_active_iff accepts_def)
    with Active d False show ?thesis by (simp add: history_def next_state_def)
  qed
qed (use assms in \<open>auto simp: history_def accepts_def next_state_def\<close>)

text \<open>Conversely, the last frame of a history leads into its state from a state that is still open.\<close>

lemma history_snoc:
  assumes "history s (ts @ [t])" "\<not> is_unknown t"
  shows "\<exists>s'. history s' ts \<and> accepts s' t \<and> next_state s' t = s \<and> s' \<noteq> Closed"
proof (cases s)
  case Authenticating
  then show ?thesis using assms by (intro exI [of _ Connecting]) (auto simp: history_def accepts_def next_state_def)
next
  case Active
  then obtain d where d: "list_all is_data d" "ts @ [t] = FrameType.Connect # FrameType.ConnectAck # d"
    using assms(1) by (auto simp: history_def)
  show ?thesis
  proof (cases d rule: rev_cases)
    case Nil
    then show ?thesis using Active d(2)
      by (intro exI [of _ Authenticating]) (auto simp: history_def accepts_def next_state_def append_eq_Cons_conv)
  next
    case (snoc d' u)
    then have "ts = FrameType.Connect # FrameType.ConnectAck # d'" "t = u" using d(2) by (simp_all flip: append_Cons)
    moreover have "t \<noteq> FrameType.Disconnect" using d(1) snoc \<open>t = u\<close> by (auto simp: is_data_def)
    ultimately show ?thesis using Active d(1) snoc assms(2)
      by (intro exI [of _ Active]) (auto simp: history_def accepts_def accepts_active_iff next_state_def)
  qed
next
  case Closing
  then obtain d where "list_all is_data d" "ts = FrameType.Connect # FrameType.ConnectAck # d" "t = FrameType.Disconnect"
    using assms(1) by (auto simp: history_def simp flip: append_Cons)
  then show ?thesis using Closing
    by (intro exI [of _ Active]) (auto simp: history_def accepts_def accepts_active_iff next_state_def)
next
  case Closed
  then consider "ts = [FrameType.Connect]" "t = FrameType.ConnectError"
    | d where "list_all is_data d" "ts = FrameType.Connect # FrameType.ConnectAck # d @ [FrameType.Disconnect]" "t = FrameType.Disconnect"
    using assms(1) by (auto simp: history_def append_eq_Cons_conv)
  then show ?thesis
  proof cases
    case 1
    then show ?thesis using Closed
      by (intro exI [of _ Authenticating]) (auto simp: history_def accepts_def next_state_def)
  next
    case 2
    then show ?thesis using Closed by (intro exI [of _ Closing]) (auto simp: history_def accepts_def next_state_def)
  qed
qed (use assms in \<open>simp add: history_def\<close>)

lemma history_unique: "history s ts \<Longrightarrow> history s' ts \<Longrightarrow> s = s'"
proof -
  have e: "FrameType.Connect # FrameType.ConnectAck # d @ [FrameType.Disconnect, FrameType.Disconnect] =
      FrameType.Connect # FrameType.ConnectAck # (d @ [FrameType.Disconnect]) @ [FrameType.Disconnect]" for d
    by simp
  have n: "\<not> is_data FrameType.Disconnect" by (simp add: is_data_def)
  assume "history s ts" "history s' ts"
  then show ?thesis
    by (cases s; cases s'; auto simp: history_def e n simp del: append_assoc)
qed

lemma run_frames_iff:
  "run_frames Connecting fs = Ok s \<longleftrightarrow>
    list_all well_placed fs \<and> history s (known_types fs) \<and> (s = Closed \<longrightarrow> \<not> is_unknown (frame_type (last fs)))"
proof (induction fs arbitrary: s rule: rev_induct)
  case Nil
  then show ?case by (auto simp: known_types_def history_def split: ConnectionState.splits)
next
  case (snoc f fs)
  have step: "run_frames Connecting (fs @ [f]) = Ok s \<longleftrightarrow>
      (\<exists>s'. run_frames Connecting fs = Ok s' \<and> well_placed f \<and> accepts s' (frame_type f) \<and> s = next_state s' (frame_type f))"
    by (auto simp: run_frames_snoc andThen_Ok_iff transition_placed)
  show ?case
  proof (cases "is_unknown (frame_type f)")
    case True
    then have "accepts s' (frame_type f) \<longleftrightarrow> s' \<noteq> Closed" for s' by (simp add: accepts_def)
    then show ?thesis unfolding step snoc.IH using True by (auto simp: known_types_snoc unknown_keeps_state)
  next
    case False
    have open_state: "s' \<noteq> Closed" if "accepts s' (frame_type f)" for s' using that by (auto simp: accepts_def)
    show ?thesis unfolding step snoc.IH
      using False open_state history_snoc [of s "known_types fs" "frame_type f"] history_step
      by (fastforce simp: known_types_snoc)
  qed
qed

lemma handle_frame_response:
  "handle_frame s f = Ok a \<longleftrightarrow> transition s f = Ok (la_state a)
    \<and> la_response a = (if s = Active \<and> frame_type f = FrameType.Ping then Some (Pong 0) else None)"
  by (cases a) (auto simp: handle_frame_def andThen_Ok_iff)

section \<open>Negotiation lemmas\<close>

lemma version_le_refl [simp]: "version_le a a"
  by (simp add: version_le_def)

lemma version_le_trans: "version_le a b \<Longrightarrow> version_le b c \<Longrightarrow> version_le a c"
  unfolding version_le_def by (rule order_trans)

lemma version_le_total: "version_le a b \<or> version_le b a"
  unfolding version_le_def by (rule linear)

lemma fold_version_max:
  "fold (\<lambda>x best. if version_le best x then x else best) vs v \<in> set (v # vs)
    \<and> (\<forall>x\<in>set (v # vs). version_le x (fold (\<lambda>x best. if version_le best x then x else best) vs v))"
proof (induction vs arbitrary: v)
  case Nil
  then show ?case by simp
next
  case (Cons x vs)
  from Cons.IH [of x] Cons.IH [of v] show ?case
    using version_le_total [of v x] version_le_trans by auto
qed

lemma version_max_Some:
  "version_max vs = Some m \<Longrightarrow> m \<in> set vs \<and> (\<forall>x\<in>set vs. version_le x m)"
  using fold_version_max by (cases vs) auto

lemma version_max_None: "version_max vs = None \<longleftrightarrow> vs = []"
  by (cases vs) simp_all

section \<open>Allocator lemmas\<close>

lemma allocate_next_Some:
  "allocate_next \<lparr>sa_next_id = Some i\<rparr> = Ok (StreamId i, \<lparr>sa_next_id = checked_add i 2\<rparr>)"
  by (simp add: allocate_next_def)

lemma allocations_None: "allocations n \<lparr>sa_next_id = None\<rparr> = Ok (ids, a) \<longleftrightarrow>
    n = 0 \<and> ids = [] \<and> a = \<lparr>sa_next_id = None\<rparr>"
  by (cases n) (auto simp: allocate_next_def)

lemma allocations_from:
  "(\<exists>a. allocations n \<lparr>sa_next_id = Some i\<rparr> = Ok (ids, a)) \<longleftrightarrow>
    (n = 0 \<or> unat i + 2 * (n - 1) \<le> U32_MAX) \<and> ids = map (\<lambda>k. StreamId (of_nat (unat i + 2 * k))) [0..<n]"
proof (induction n arbitrary: i ids)
  case 0
  then show ?case by auto
next
  case (Suc n)
  have step: "(\<exists>a. allocations (Suc n) \<lparr>sa_next_id = Some i\<rparr> = Ok (ids, a)) \<longleftrightarrow>
    (\<exists>tail. ids = StreamId i # tail \<and> (\<exists>a. allocations n \<lparr>sa_next_id = checked_add i 2\<rparr> = Ok (tail, a)))"
    by (auto simp: allocate_next_Some andThen_Ok_iff)
  show ?case
  proof (cases "unat i + 2 \<le> U32_MAX")
    case True
    then have "checked_add i 2 = Some (i + 2)" and u: "unat (i + 2) = unat i + 2"
      by (simp_all add: checked_add_def unat_add_exact)
    then have "(\<exists>a. allocations (Suc n) \<lparr>sa_next_id = Some i\<rparr> = Ok (ids, a)) \<longleftrightarrow>
      (n = 0 \<or> unat i + 2 + 2 * (n - 1) \<le> U32_MAX)
      \<and> ids = StreamId i # map (\<lambda>k. StreamId (of_nat (unat i + 2 + 2 * k))) [0..<n]"
      unfolding step by (auto simp: Suc.IH u)
    also have "map (\<lambda>k. StreamId (of_nat (unat i + 2 + 2 * k))) [0..<n]
        = map (\<lambda>k. StreamId (of_nat (unat i + 2 * Suc k))) [0..<n]"
      by simp
    finally show ?thesis
      using True by (cases n) (auto simp: map_upt_Suc simp del: upt_Suc)
  next
    case False
    then have "checked_add i 2 = None" by (simp add: checked_add_def)
    then have "(\<exists>a. allocations (Suc n) \<lparr>sa_next_id = Some i\<rparr> = Ok (ids, a)) \<longleftrightarrow> n = 0 \<and> ids = [StreamId i]"
      unfolding step by (auto simp: allocations_None)
    moreover have "unat i + 2 * (Suc n - 1) \<le> U32_MAX \<longleftrightarrow> n = 0"
      using False unat_u32_le [of i] by auto
    ultimately show ?thesis by auto
  qed
qed

lemma stream_ids_distinct:
  assumes "n \<le> 2 ^ 31" "m < 2 ^ 31"
  shows "distinct (client_ids n @ server_ids m) \<and> list_all StreamId_is_application (client_ids n @ server_ids m)"
proof -
  let ?v = "\<lambda>s. unat (stream_id_value s)"
  have c: "map ?v (client_ids n) = map (\<lambda>k. 2 * k + 1) [0..<n]"
    unfolding client_ids_def map_map o_def using assms
    by (intro map_cong [OF refl]) (simp del: of_nat_add of_nat_mult of_nat_Suc add: unat_of_nat)
  have s: "map ?v (server_ids m) = map (\<lambda>k. 2 * k + 2) [0..<m]"
    unfolding server_ids_def map_map o_def using assms
    by (intro map_cong [OF refl]) (simp del: of_nat_add of_nat_mult of_nat_Suc add: unat_of_nat)
  have "distinct (map (\<lambda>k. 2 * k + 1) [0..<n] @ map (\<lambda>k. 2 * k + 2 :: nat) [0..<m])"
    by (auto simp: distinct_map inj_on_def) presburger
  then have "distinct (map ?v (client_ids n @ server_ids m))" by (simp add: c s)
  moreover have "\<forall>x\<in>set (map ?v (client_ids n @ server_ids m)). 1 \<le> x"
    unfolding map_append c s by auto
  then have "list_all StreamId_is_application (client_ids n @ server_ids m)"
    by (auto simp: list_all_iff StreamId_is_application_def word_le_nat_alt)
  ultimately show ?thesis by (auto simp: distinct_map)
qed

section \<open>Properties\<close>

text \<open>C17: a connection admits exactly the protocol's frame sequences. Starting from \<open>Connecting\<close>, a sequence of
  frames is accepted with resulting state \<open>s\<close> if and only if every frame is on the stream its type belongs to, the
  registered frames form a history of \<open>s\<close>, and no unregistered frame follows the one that closes: a handshake of
  \<open>Connect\<close> and \<open>ConnectAck\<close> precedes the subscription, publish, conversation, backpressure and keepalive frames,
  closing takes two \<open>Disconnect\<close> frames, and a \<open>ConnectError\<close> closes at once.\<close>

theorem lifecycle_history:
  "run_frames Connecting fs = Ok s \<longleftrightarrow>
    list_all well_placed fs \<and> history s (known_types fs) \<and> (s = Closed \<longrightarrow> \<not> is_unknown (frame_type (last fs)))"
  by (rule run_frames_iff)

theorem lifecycle_history_witness:
  "let v = \<lparr>pv_major = 1, pv_minor = 0\<rparr>;
       fs = [Connect 0 v v [], Unknown 99 0 5 [], ConnectAck 0 v 0, Ping 0, Disconnect 0, Disconnect 0]
   in run_frames Connecting fs = Ok Closed \<and> \<not> is_ok (run_frames Connecting (fs @ [Unknown 99 0 5 []]))"
proof -
  let ?v = "\<lparr>pv_major = 1, pv_minor = 0\<rparr>"
  let ?fs = "[Connect 0 ?v ?v [], Unknown 99 0 5 [], ConnectAck 0 ?v 0, Ping 0, Disconnect 0, Disconnect 0]"
  have k: "known_types ?fs = FrameType.Connect # FrameType.ConnectAck # [FrameType.Ping] @ [FrameType.Disconnect, FrameType.Disconnect]"
    by (simp add: known_types_def is_unknown_def)
  have h: "history Closed (known_types ?fs)"
    unfolding k history_def ConnectionState.case by (intro disjI2 exI [of _ "[FrameType.Ping]"]) (simp add: is_data_def)
  have "run_frames Connecting ?fs = Ok Closed"
    using lifecycle_history [of ?fs Closed] h by (simp add: well_placed_def is_unknown_def)
  moreover have "\<not> is_ok (run_frames Connecting (?fs @ [Unknown 99 0 5 []]))"
  proof -
    have "run_frames Connecting (?fs @ [Unknown 99 0 5 []]) \<noteq> Ok s" for s
    proof
      assume run: "run_frames Connecting (?fs @ [Unknown 99 0 5 []]) = Ok s"
      have "known_types (?fs @ [Unknown 99 0 5 []]) = known_types ?fs" by (subst known_types_snoc) simp
      with lifecycle_history [THEN iffD1, OF run] have "history s (known_types ?fs)" by argo
      then have "s = Closed" using h history_unique by blast
      with lifecycle_history [THEN iffD1, OF run] show False by simp
    qed
    then show ?thesis by (auto simp: is_ok_iff)
  qed
  ultimately show ?thesis by (simp add: Let_def)
qed

text \<open>C31: A server push, a push reply, a delivery, a worker registration and its acknowledgement are
  accepted in no connection state, on whatever stream: \<open>transition\<close> never returns a state for them,
  and on a legal stream of an active connection the error names the state and the frame type.\<close>

theorem lifecycle_rejects_established_frames:
  assumes "frame_type f \<in> {FrameType.Push, FrameType.PushReply, FrameType.Deliver,
    FrameType.WorkerRegister, FrameType.WorkerRegisterAck}"
  shows "\<not> is_ok (transition s f) \<and> (validate_stream (frame_type f) (frame_stream_id f) = Ok () \<longrightarrow>
    transition s f = Err (invalid_state_transition s (frame_type f)))"
proof -
  have "\<not> accepts s (frame_type f)"
    using assms by (cases s) (auto simp: accepts_def accepts_active_def is_unknown_def)
  then have e: "transition_frame_type s (frame_type f) = Err (invalid_state_transition s (frame_type f))"
    by (simp add: transition_frame_type_def validate_frame_type_def)
  then show ?thesis
    by (cases "validate_stream (frame_type f) (frame_stream_id f)") (simp_all add: transition_def)
qed

theorem lifecycle_rejects_established_frames_witness:
  "\<not> is_ok (transition Active (Push 0 1 7 []))
    \<and> transition Active (Push 0 1 7 []) = Err (invalid_state_transition Active FrameType.Push)"
  using lifecycle_rejects_established_frames [of "Push 0 1 7 []" Active]
  by (simp add: validate_stream_def is_unknown_def is_control_def)

text \<open>version negotiation picks the greatest supported version inside the client's range, and fails with
  \<open>VersionMismatch\<close> exactly when no supported version lies in the range.\<close>

theorem negotiate_version_exact:
  "case negotiate_version lo hi supported of
     Inr v \<Rightarrow> v \<in> set supported \<and> version_le lo v \<and> version_le v hi
       \<and> (\<forall>w\<in>set supported. version_le lo w \<and> version_le w hi \<longrightarrow> version_le w v)
   | Inl e \<Rightarrow> (\<exists>m. e = VersionMismatch m) \<and> (\<forall>w\<in>set supported. \<not> (version_le lo w \<and> version_le w hi))"
proof (cases "version_max (filter (\<lambda>v. version_le lo v \<and> version_le v hi) supported)")
  case None
  then show ?thesis by (auto simp: negotiate_version_def version_max_None filter_empty_conv)
next
  case (Some v)
  from version_max_Some [OF this] Some show ?thesis by (auto simp: negotiate_version_def)
qed

theorem negotiate_version_exact_witness:
  "\<exists>v. negotiate_version \<lparr>pv_major = 1, pv_minor = 0\<rparr> \<lparr>pv_major = 1, pv_minor = 9\<rparr>
      [\<lparr>pv_major = 1, pv_minor = 2\<rparr>, \<lparr>pv_major = 2, pv_minor = 0\<rparr>, \<lparr>pv_major = 1, pv_minor = 1\<rparr>] = Ok v
    \<and> version_le \<lparr>pv_major = 1, pv_minor = 2\<rparr> v"
proof -
  let ?lo = "\<lparr>pv_major = 1, pv_minor = 0\<rparr>" and ?hi = "\<lparr>pv_major = 1, pv_minor = 9\<rparr>"
  let ?s = "[\<lparr>pv_major = 1, pv_minor = 2\<rparr>, \<lparr>pv_major = 2, pv_minor = 0\<rparr>, \<lparr>pv_major = 1, pv_minor = 1\<rparr>]"
  have r: "version_le ?lo \<lparr>pv_major = 1, pv_minor = 2\<rparr>" "version_le \<lparr>pv_major = 1, pv_minor = 2\<rparr> ?hi"
    by (simp_all add: version_le_def)
  then show ?thesis
    using negotiate_version_exact [where lo = ?lo and hi = ?hi and supported = ?s]
    by (cases "negotiate_version ?lo ?hi ?s") auto
qed

text \<open>C25: the two sides of a connection allocate disjoint stream ids. The client's n-th id is the n-th odd
  number and the server's the n-th positive even number, so ids are fresh, never the control stream 0,
  and neither side can take an id of the other; allocation fails exactly when the 32-bit space of that
  parity is used up.\<close>

theorem stream_allocation_exact:
  "((\<exists>a. allocations n StreamAllocator_client = Ok (ids, a)) \<longleftrightarrow> n \<le> 2 ^ 31 \<and> ids = client_ids n)
    \<and> ((\<exists>a. allocations m StreamAllocator_server = Ok (ids', a)) \<longleftrightarrow> m < 2 ^ 31 \<and> ids' = server_ids m)
    \<and> (n \<le> 2 ^ 31 \<and> m < 2 ^ 31 \<longrightarrow>
        distinct (client_ids n @ server_ids m) \<and> list_all StreamId_is_application (client_ids n @ server_ids m))"
proof -
  have "(n = 0 \<or> 1 + 2 * (n - 1) \<le> U32_MAX) \<longleftrightarrow> n \<le> 2 ^ 31" "(m = 0 \<or> 2 + 2 * (m - 1) \<le> U32_MAX) \<longleftrightarrow> m < 2 ^ 31"
    by auto
  then show ?thesis
    using allocations_from [of n 1 ids] allocations_from [of m 2 ids'] stream_ids_distinct [of n m]
    by (simp add: StreamAllocator_client_def StreamAllocator_server_def client_ids_def server_ids_def add.commute)
qed

theorem stream_allocation_exact_witness:
  "distinct (client_ids 3 @ server_ids 2) \<and> client_ids 3 = [StreamId 1, StreamId 3, StreamId 5]"
  using stream_allocation_exact [of 3 _ 2]
  by (simp add: client_ids_def upt_rec)

end
