(* ===== verification/Causal_Orderer.thy ===== *)
theory Causal_Orderer
  imports Prelude "HOL-Library.AList" "HOL-Library.Multiset"
begin

text \<open>
  The causal delivery order of the core bus (\<open>causal.rs\<close>, \<open>causal/orderer.rs\<close> and the \<open>Envelope\<close> of
  \<open>envelope.rs\<close>). A submitted envelope whose direct parent has not been emitted waits in a buffer keyed
  by that parent; emitting an envelope releases its waiting children, depth first; draining releases
  the children whose parent did not arrive in time.

  UUIDs are 128-bit words, instants and durations are natural numbers of clock ticks and the clock
  readings of the source are arguments. \<open>HashMap\<close> is an association list with one entry per key; the
  unspecified iteration order of \<open>retain\<close> is the argument \<open>order\<close> of \<open>drain_orphans\<close>.

  The lemmas show that emission terminates, that every history keeps the orderer well formed, that a
  message follows its parent unless it is reported as orphaned, that no message is lost or repeated,
  and which messages a late drain releases.
\<close>

section \<open>Messages\<close>

datatype (plugins only: code size) MessageId = MessageId (as_uuid: u128)

record CausalContext =
  ctx_parent :: "MessageId option"
  ctx_parent_chain :: "MessageId list"

definition root :: CausalContext where
  "root = \<lparr>ctx_parent = None, ctx_parent_chain = []\<rparr>"

definition from_parent_chain :: "MessageId list \<Rightarrow> CausalContext" where
  "from_parent_chain parent_chain =
    \<lparr>ctx_parent = (case parent_chain of [] \<Rightarrow> None | p # _ \<Rightarrow> Some p), ctx_parent_chain = parent_chain\<rparr>"

definition child_of :: "MessageId \<Rightarrow> CausalContext" where
  "child_of parent = from_parent_chain [parent]"

definition child_of_context :: "MessageId \<Rightarrow> CausalContext \<Rightarrow> CausalContext" where
  "child_of_context parent parent_context = from_parent_chain (parent # ctx_parent_chain parent_context)"

definition happened_before :: "CausalContext \<Rightarrow> MessageId \<Rightarrow> bool" where
  "happened_before context ancestor_id \<longleftrightarrow> ancestor_id \<in> set (ctx_parent_chain context)"

record Envelope =
  env_message_id :: MessageId
  env_payload :: "u8 list"
  env_causal_context :: "CausalContext option"
  env_schema_id :: u128
  env_publisher_id :: "u8 list"
  env_timestamp :: int

definition direct_parent :: "Envelope \<Rightarrow> MessageId option" where
  "direct_parent envelope = Option.bind (env_causal_context envelope) ctx_parent"

section \<open>The orderer\<close>

record OrderedEnvelope =
  oe_envelope :: Envelope
  oe_orphaned :: bool

definition oe_message_id :: "OrderedEnvelope \<Rightarrow> MessageId" where
  "oe_message_id x = env_message_id (oe_envelope x)"

record BufferedEnvelope =
  be_envelope :: Envelope
  be_buffered_at :: nat

definition is_expired :: "nat \<Rightarrow> nat \<Rightarrow> BufferedEnvelope \<Rightarrow> bool" where
  "is_expired now orphan_timeout b \<longleftrightarrow> now - be_buffered_at b \<ge> orphan_timeout"

record CausalOrderer =
  co_emitted :: "MessageId set"
  co_buffered_by_parent :: "(MessageId \<times> BufferedEnvelope list) list"
  co_orphan_timeout :: nat

definition CausalOrderer_new :: "nat \<Rightarrow> CausalOrderer" where
  "CausalOrderer_new orphan_timeout =
    \<lparr>co_emitted = {}, co_buffered_by_parent = [], co_orphan_timeout = orphan_timeout\<rparr>"

definition buffered_count :: "CausalOrderer \<Rightarrow> nat" where
  "buffered_count o' = sum_list (map (\<lambda>x. length (snd x)) (co_buffered_by_parent o'))"

text \<open>\<open>emit_ready\<close> and \<open>drain_children\<close> of the source, with the loop of \<open>drain_children\<close> as its own
  function. The state is the orderer with the output vector \<open>ready\<close>.\<close>

function (domintros) emit_ready :: "Envelope \<Rightarrow> bool \<Rightarrow> CausalOrderer \<times> OrderedEnvelope list
      \<Rightarrow> CausalOrderer \<times> OrderedEnvelope list"
  and drain_children :: "MessageId \<Rightarrow> CausalOrderer \<times> OrderedEnvelope list
      \<Rightarrow> CausalOrderer \<times> OrderedEnvelope list"
  and emit_children :: "BufferedEnvelope list \<Rightarrow> CausalOrderer \<times> OrderedEnvelope list
      \<Rightarrow> CausalOrderer \<times> OrderedEnvelope list" where
  "emit_ready envelope orphaned s =
    drain_children (env_message_id envelope)
      ((fst s)\<lparr>co_emitted := insert (env_message_id envelope) (co_emitted (fst s))\<rparr>,
       snd s @ [\<lparr>oe_envelope = envelope, oe_orphaned = orphaned\<rparr>])"
| "drain_children parent s =
    (case map_of (co_buffered_by_parent (fst s)) parent of
       None \<Rightarrow> s
     | Some children \<Rightarrow>
         emit_children children
           ((fst s)\<lparr>co_buffered_by_parent := AList.delete parent (co_buffered_by_parent (fst s))\<rparr>, snd s))"
| "emit_children [] s = s"
| "emit_children (child # children) s = emit_children children (emit_ready (be_envelope child) False s)"
  by pat_completeness auto

lemma sum_delete:
  "map_of al k = Some v \<Longrightarrow> sum_list (map (\<lambda>x. length (snd x)) (AList.delete k al)) + length v
    \<le> sum_list (map (\<lambda>x. length (snd x)) al)"
proof (induction al)
  case (Cons x al)
  have "sum_list (map (\<lambda>x. length (snd x)) (AList.delete k al)) \<le> sum_list (map (\<lambda>x. length (snd x)) al)"
    by (induction al) (auto simp: AList.delete_eq)
  with Cons show ?case by (cases x) (auto split: if_splits)
qed simp

lemma emit_count_le:
  "emit_ready_drain_children_emit_children_dom (Inl (e, b, s)) \<Longrightarrow>
    buffered_count (fst (emit_ready e b s)) \<le> buffered_count (fst s)"
  "emit_ready_drain_children_emit_children_dom (Inr (Inl (p, s))) \<Longrightarrow>
    buffered_count (fst (drain_children p s)) \<le> buffered_count (fst s)"
  "emit_ready_drain_children_emit_children_dom (Inr (Inr (cs, s))) \<Longrightarrow>
    buffered_count (fst (emit_children cs s)) \<le> buffered_count (fst s)"
proof (induction e b s and p s and cs s rule: emit_ready_drain_children_emit_children.pinduct)
  case (1 e b s)
  then show ?case by (simp add: emit_ready.psimps buffered_count_def)
next
  case (2 p s)
  show ?case
  proof (cases "map_of (co_buffered_by_parent (fst s)) p")
    case None
    with 2 show ?thesis by (simp add: drain_children.psimps)
  next
    case (Some children)
    with 2 sum_delete [OF Some] show ?thesis
      by (simp add: drain_children.psimps buffered_count_def)
  qed
next
  case (3 s)
  then show ?case by (simp add: emit_children.psimps)
next
  case (4 c cs s)
  then show ?case by (simp add: emit_children.psimps)
qed

termination emit_ready
proof (relation "inv_image (less_than <*lex*> less_than)
    (\<lambda>x. case x of Inl (e, b, s) \<Rightarrow> (buffered_count (fst s) + 1, 1)
      | Inr (Inl (p, s)) \<Rightarrow> (buffered_count (fst s) + 1, 0)
      | Inr (Inr (cs, s)) \<Rightarrow> (buffered_count (fst s) + length cs, 2 :: nat))", goal_cases)
  case 1
  then show ?case by (intro wf_inv_image wf_lex_prod wf_less_than)
next
  case (3 p s children)
  then show ?case using sum_delete [of "co_buffered_by_parent (fst s)" p children]
    by (auto simp: buffered_count_def)
next
  case (5 c cs s)
  then show ?case using emit_count_le(1) [of "be_envelope c" False s] by auto
qed (auto simp: buffered_count_def)

declare emit_ready.simps [simp del] drain_children.simps [simp del]

definition submit :: "nat \<Rightarrow> Envelope \<Rightarrow> CausalOrderer \<Rightarrow> CausalOrderer \<times> OrderedEnvelope list" where
  "submit now envelope o' =
    (case direct_parent envelope of
       Some parent \<Rightarrow>
         if parent \<notin> co_emitted o'
         then (let buffered = (case map_of (co_buffered_by_parent o') parent of None \<Rightarrow> [] | Some b \<Rightarrow> b) in
               (o'\<lparr>co_buffered_by_parent := AList.update parent
                   (buffered @ [\<lparr>be_envelope = envelope, be_buffered_at = now\<rparr>]) (co_buffered_by_parent o')\<rparr>, []))
         else emit_ready envelope False (o', [])
     | None \<Rightarrow> emit_ready envelope False (o', []))"

definition buffered_message_ids :: "CausalOrderer \<Rightarrow> MessageId set" where
  "buffered_message_ids o' =
    (\<lambda>b. env_message_id (be_envelope b)) ` (\<Union>(_, children) \<in> set (co_buffered_by_parent o'). set children)"

text \<open>The condition of the loop in \<open>drain_orphans\<close>, and the loop body of \<open>retain\<close> for one key.\<close>

definition releases :: "CausalOrderer \<Rightarrow> nat \<Rightarrow> MessageId \<Rightarrow> BufferedEnvelope \<Rightarrow> bool" where
  "releases o' now parent item \<longleftrightarrow>
    is_expired now (co_orphan_timeout o') item \<and> parent \<notin> buffered_message_ids o'"

definition drain_orphans :: "MessageId list \<Rightarrow> nat \<Rightarrow> CausalOrderer \<Rightarrow> CausalOrderer \<times> OrderedEnvelope list" where
  "drain_orphans order now o' =
    (let expired = concat (map (\<lambda>parent. case map_of (co_buffered_by_parent o') parent of
             None \<Rightarrow> [] | Some buffered \<Rightarrow> filter (releases o' now parent) buffered) order);
         retained = filter (\<lambda>(_, buffered). buffered \<noteq> [])
           (map (\<lambda>(parent, buffered). (parent, filter (\<lambda>item. \<not> releases o' now parent item) buffered))
             (co_buffered_by_parent o'))
     in fold (\<lambda>item. emit_ready (be_envelope item) True) expired (o'\<lparr>co_buffered_by_parent := retained\<rparr>, []))"

section \<open>Specification: histories of an orderer\<close>

text \<open>\<open>orderer_run t es log o\<close>: the envelopes \<open>es\<close> were submitted to a new orderer in this order, drains
  happened in between, all outputs together are \<open>log\<close>, and \<open>o\<close> is the state reached.\<close>

inductive orderer_run :: "nat \<Rightarrow> Envelope list \<Rightarrow> OrderedEnvelope list \<Rightarrow> CausalOrderer \<Rightarrow> bool" for t where
  start: "orderer_run t [] [] (CausalOrderer_new t)"
| submit: "orderer_run t es log o' \<Longrightarrow> orderer_run t (es @ [e]) (log @ snd (submit now e o')) (fst (submit now e o'))"
| drain: "orderer_run t es log o' \<Longrightarrow> distinct order \<Longrightarrow> set order = fst ` set (co_buffered_by_parent o') \<Longrightarrow>
    orderer_run t es (log @ snd (drain_orphans order now o')) (fst (drain_orphans order now o'))"

text \<open>Every emission that is not orphaned comes after an emission of its direct parent.\<close>

definition follows_parent :: "OrderedEnvelope \<Rightarrow> OrderedEnvelope list \<Rightarrow> bool" where
  "follows_parent x earlier \<longleftrightarrow> oe_orphaned x \<or>
    (case direct_parent (oe_envelope x) of None \<Rightarrow> True | Some p \<Rightarrow> p \<in> oe_message_id ` set earlier)"

definition causal_log :: "OrderedEnvelope list \<Rightarrow> bool" where
  "causal_log log \<longleftrightarrow> (\<forall>i < length log. follows_parent (log ! i) (take i log))"

definition buffered_envelopes :: "CausalOrderer \<Rightarrow> Envelope multiset" where
  "buffered_envelopes o' =
    mset (map be_envelope (concat (map snd (co_buffered_by_parent o'))))"

definition well_buffered :: "CausalOrderer \<Rightarrow> bool" where
  "well_buffered o' \<longleftrightarrow> distinct (map fst (co_buffered_by_parent o')) \<and>
    (\<forall>(parent, items) \<in> set (co_buffered_by_parent o').
      parent \<notin> co_emitted o' \<and> items \<noteq> [] \<and> (\<forall>i \<in> set items. direct_parent (be_envelope i) = Some parent))"

definition orderer_inv :: "OrderedEnvelope list \<Rightarrow> CausalOrderer \<Rightarrow> bool" where
  "orderer_inv log o' \<longleftrightarrow> well_buffered o' \<and> co_emitted o' = oe_message_id ` set log \<and> causal_log log"

text \<open>Concrete messages for the witnesses.\<close>

definition sample :: "u128 \<Rightarrow> u128 option \<Rightarrow> Envelope" where
  "sample i p = \<lparr>env_message_id = MessageId i, env_payload = [],
    env_causal_context = map_option (\<lambda>p. child_of (MessageId p)) p,
    env_schema_id = 0, env_publisher_id = [], env_timestamp = 0\<rparr>"

section \<open>Emission keeps the invariant\<close>

lemma causal_log_Nil [simp]: "causal_log []"
  by (simp add: causal_log_def)

lemma causal_log_snoc: "causal_log (log @ [x]) \<longleftrightarrow> causal_log log \<and> follows_parent x log"
  by (auto simp: causal_log_def nth_append less_Suc_eq)

lemma set_delete: "set (AList.delete k al) = {x \<in> set al. fst x \<noteq> k}"
  by (auto simp: AList.delete_eq)

lemma orderer_inv_emit:
  assumes "orderer_inv log o'" "follows_parent x log"
  defines "o1 \<equiv> o'\<lparr>co_emitted := insert (oe_message_id x) (co_emitted o')\<rparr>"
  shows "map_of (co_buffered_by_parent o') (oe_message_id x) = None \<Longrightarrow> orderer_inv (log @ [x]) o1"
    and "orderer_inv (log @ [x])
      (o1\<lparr>co_buffered_by_parent := AList.delete (oe_message_id x) (co_buffered_by_parent o')\<rparr>)"
  using assms
  by (auto simp: orderer_inv_def well_buffered_def causal_log_snoc map_of_eq_None_iff distinct_delete set_delete
      rev_image_eqI)

lemma buffered_envelopes_delete:
  assumes "distinct (map fst (co_buffered_by_parent o'))" "map_of (co_buffered_by_parent o') p = Some items"
  shows "buffered_envelopes (o'\<lparr>co_buffered_by_parent := AList.delete p (co_buffered_by_parent o')\<rparr>)
      + mset (map be_envelope items) = buffered_envelopes o'"
proof -
  have "distinct (map fst al) \<Longrightarrow> map_of al p = Some items \<Longrightarrow>
    mset (map be_envelope (concat (map snd (AList.delete p al)))) + mset (map be_envelope items)
      = mset (map be_envelope (concat (map snd al)))" for al
    by (induction al) (auto simp: delete_id)
  from this [OF assms] show ?thesis by (simp add: buffered_envelopes_def)
qed

text \<open>What one emission does to a state \<open>(o, ready)\<close> that extends the history \<open>log\<close>: it keeps the
  invariant, emits the given envelopes, and takes everything else it emits out of the buffer.\<close>

definition emits :: "Envelope list \<Rightarrow> OrderedEnvelope list \<Rightarrow> CausalOrderer \<times> OrderedEnvelope list
    \<Rightarrow> CausalOrderer \<times> OrderedEnvelope list \<Rightarrow> bool" where
  "emits es log s s' \<longleftrightarrow> orderer_inv (log @ snd s') (fst s')
    \<and> mset (map oe_envelope (snd s')) + buffered_envelopes (fst s')
        = mset es + mset (map oe_envelope (snd s)) + buffered_envelopes (fst s)
    \<and> set (snd s) \<subseteq> set (snd s') \<and> co_orphan_timeout (fst s') = co_orphan_timeout (fst s)
    \<and> set (co_buffered_by_parent (fst s')) \<subseteq> set (co_buffered_by_parent (fst s))"

lemma emits_trans: "emits es log s s' \<Longrightarrow> emits es' log s' s'' \<Longrightarrow> emits (es @ es') log s s''"
  by (auto simp: emits_def)

lemma emission:
  "orderer_inv (log @ snd s) (fst s) \<Longrightarrow> follows_parent \<lparr>oe_envelope = e, oe_orphaned = b\<rparr> (log @ snd s)
    \<Longrightarrow> emits [e] log s (emit_ready e b s)"
  "snd s = r @ [x] \<Longrightarrow> oe_message_id x = p \<Longrightarrow> orderer_inv (log @ r) o1 \<Longrightarrow> follows_parent x (log @ r)
    \<Longrightarrow> fst s = o1\<lparr>co_emitted := insert p (co_emitted o1)\<rparr> \<Longrightarrow> emits [oe_envelope x] log (o1, r) (drain_children p s)"
  "orderer_inv (log @ snd s) (fst s) \<Longrightarrow>
    \<forall>c \<in> set cs. direct_parent (be_envelope c) = Some q \<Longrightarrow> q \<in> oe_message_id ` set (log @ snd s)
    \<Longrightarrow> emits (map be_envelope cs) log s (emit_children cs s)"
proof (induction e b s and p s and cs s arbitrary: and r x o1 and q
    rule: emit_ready_drain_children_emit_children.induct)
  case (1 e b s)
  have "emits [oe_envelope \<lparr>oe_envelope = e, oe_orphaned = b\<rparr>] log (fst s, snd s) (emit_ready e b s)"
    unfolding emit_ready.simps by (rule "1.IH") (use "1.prems" in \<open>simp_all add: oe_message_id_def\<close>)
  then show ?case by simp
next
  case (2 p s)
  show ?case
  proof (cases "map_of (co_buffered_by_parent (fst s)) p")
    case None
    have "orderer_inv (log @ r @ [x]) (fst s)"
      using orderer_inv_emit(1) [OF "2.prems"(3,4)] None "2.prems" by simp
    with None "2.prems" show ?thesis
      by (auto simp: drain_children.simps emits_def buffered_envelopes_def)
  next
    case (Some children)
    let ?o = "(fst s)\<lparr>co_buffered_by_parent := AList.delete p (co_buffered_by_parent (fst s))\<rparr>"
    have inv: "orderer_inv (log @ r @ [x]) ?o"
      using orderer_inv_emit(2) [OF "2.prems"(3,4)] "2.prems" by simp
    have b: "co_buffered_by_parent o1 = co_buffered_by_parent (fst s)" using "2.prems" by simp
    have w: "well_buffered o1" using "2.prems"(3) by (simp add: orderer_inv_def)
    with Some b have c: "\<forall>c \<in> set children. direct_parent (be_envelope c) = Some p"
      by (auto simp: well_buffered_def dest!: map_of_SomeD)
    have "emits (map be_envelope children) log (?o, snd s) (emit_children children (?o, snd s))"
      by (rule "2.IH" [OF Some, where q = p]) (use inv c "2.prems" in auto)
    moreover have "buffered_envelopes o1 = buffered_envelopes ?o + mset (map be_envelope children)"
      using buffered_envelopes_delete [OF _ Some] w b by (simp add: well_buffered_def buffered_envelopes_def)
    ultimately show ?thesis using Some "2.prems"(1,5)
      by (simp add: drain_children.simps emits_def set_delete ac_simps) blast
  qed
next
  case (3 s)
  then show ?case by (simp add: emits_def)
next
  case (4 c cs s)
  let ?s = "emit_ready (be_envelope c) False s"
  have a: "emits [be_envelope c] log s ?s"
    by (rule "4.IH"(1)) (use "4.prems" in \<open>auto simp: follows_parent_def\<close>)
  then have "emits (map be_envelope cs) log ?s (emit_children cs ?s)"
    by (intro "4.IH"(2) [where q = q]) (use "4.prems" in \<open>auto simp: emits_def\<close>)
  from emits_trans [OF a this] show ?case by simp
qed

lemma fold_emission:
  "orderer_inv (log @ snd s) (fst s) \<Longrightarrow>
    emits (map be_envelope items) log s (fold (\<lambda>item. emit_ready (be_envelope item) True) items s)"
proof (induction items arbitrary: s)
  case Nil
  then show ?case by (simp add: emits_def)
next
  case (Cons i items)
  have a: "emits [be_envelope i] log s (emit_ready (be_envelope i) True s)"
    by (rule emission(1)) (use Cons.prems in \<open>simp_all add: follows_parent_def\<close>)
  then have "emits (map be_envelope items) log (emit_ready (be_envelope i) True s)
      (fold (\<lambda>item. emit_ready (be_envelope item) True) items (emit_ready (be_envelope i) True s))"
    by (intro Cons.IH) (simp add: emits_def)
  from emits_trans [OF a this] show ?case by simp
qed

section \<open>The operations keep the invariant\<close>

lemma set_AList_update:
  "distinct (map fst al) \<Longrightarrow> set (AList.update k v al) = insert (k, v) {x \<in> set al. fst x \<noteq> k}"
  by (induction al) (auto simp: rev_image_eqI)

lemma mset_update_push:
  "distinct (map fst al) \<Longrightarrow>
    mset (concat (map snd (AList.update k ((case map_of al k of None \<Rightarrow> [] | Some b \<Rightarrow> b) @ [x]) al)))
      = add_mset x (mset (concat (map snd al)))"
  by (induction al) auto

lemma submit_emits:
  fixes now :: nat and e :: Envelope
  assumes inv: "orderer_inv log o'"
  defines "s \<equiv> submit now e o'"
  shows "orderer_inv (log @ snd s) (fst s)
    \<and> mset (map oe_envelope (snd s)) + buffered_envelopes (fst s) = add_mset e (buffered_envelopes o')
    \<and> co_orphan_timeout (fst s) = co_orphan_timeout o'"
proof (cases "\<exists>p. direct_parent e = Some p \<and> p \<notin> co_emitted o'")
  case True
  then obtain p where p: "direct_parent e = Some p" "p \<notin> co_emitted o'" by blast
  let ?b = "case map_of (co_buffered_by_parent o') p of None \<Rightarrow> [] | Some b \<Rightarrow> b"
  let ?o = "o'\<lparr>co_buffered_by_parent := AList.update p (?b @ [\<lparr>be_envelope = e, be_buffered_at = now\<rparr>])
    (co_buffered_by_parent o')\<rparr>"
  have s: "s = (?o, [])" using p by (simp add: s_def submit_def)
  have w: "well_buffered o'" "distinct (map fst (co_buffered_by_parent o'))"
    using inv by (auto simp: orderer_inv_def well_buffered_def)
  have b: "\<forall>i \<in> set ?b. direct_parent (be_envelope i) = Some p"
    using w(1) by (auto simp: well_buffered_def split: option.splits dest!: map_of_SomeD)
  have "well_buffered ?o"
    using w p b by (auto simp: well_buffered_def set_AList_update distinct_update)
  moreover have "buffered_envelopes ?o = add_mset e (buffered_envelopes o')"
    using mset_update_push [OF w(2), of p] by (simp add: buffered_envelopes_def)
  ultimately show ?thesis using inv by (simp add: s orderer_inv_def)
next
  case False
  then have "s = emit_ready e False (o', [])"
    by (auto simp: s_def submit_def split: option.splits)
  moreover have "emits [e] log (o', []) (emit_ready e False (o', []))"
    by (rule emission(1)) (use inv False in \<open>auto simp: orderer_inv_def follows_parent_def split: option.splits\<close>)
  ultimately show ?thesis by (simp add: emits_def)
qed

lemma mset_concat_filters:
  "mset (concat (map (\<lambda>(p, b). filter (P p) b) al))
    + mset (concat (map snd (filter (\<lambda>(_, b). b \<noteq> []) (map (\<lambda>(p, b). (p, filter (\<lambda>i. \<not> P p i) b)) al))))
    = mset (concat (map snd al))"
proof (induction al)
  case (Cons x al)
  obtain p b where x: "x = (p, b)" by (cases x)
  have "mset b = mset (filter (P p) b) + mset (filter (\<lambda>i. \<not> P p i) b)" by simp
  with Cons show ?case by (auto simp: x ac_simps simp del: mset_filter)
qed simp

lemma mset_concat_order:
  assumes "distinct order" "distinct (map fst al)" "set order = fst ` set al"
  shows "mset (concat (map (\<lambda>p. case map_of al p of None \<Rightarrow> [] | Some b \<Rightarrow> filter (P p) b) order))
    = mset (concat (map (\<lambda>(p, b). filter (P p) b) al))"
proof -
  let ?f = "\<lambda>p. case map_of al p of None \<Rightarrow> [] | Some b \<Rightarrow> filter (P p) b"
  have "mset order = mset (map fst al)"
    using assms by (simp add: set_eq_iff_mset_eq_distinct flip: set_map)
  then have "mset (concat (map ?f order)) = mset (concat (map ?f (map fst al)))"
    by (simp add: mset_concat comp_assoc multiset.map_comp flip: sum_mset_sum_list)
  also have "map ?f (map fst al) = map (\<lambda>(p, b). filter (P p) b) al"
    using assms(2) by (auto intro!: map_cong)
  finally show ?thesis .
qed

lemma buffered_envelopes_update:
  "buffered_envelopes (o'\<lparr>co_buffered_by_parent := al\<rparr>) = image_mset be_envelope (mset (concat (map snd al)))"
  by (simp add: buffered_envelopes_def)

lemma distinct_keys_retained:
  "distinct (map fst al) \<Longrightarrow> distinct (map fst (filter Q (map (\<lambda>(p, b). (p, f p b)) al)))"
  by (induction al) (auto simp: rev_image_eqI)

lemma drain_emits:
  fixes now :: nat
  assumes inv: "orderer_inv log o'" and order: "distinct order" "set order = fst ` set (co_buffered_by_parent o')"
  defines "s \<equiv> drain_orphans order now o'"
  shows "orderer_inv (log @ snd s) (fst s)
    \<and> mset (map oe_envelope (snd s)) + buffered_envelopes (fst s) = buffered_envelopes o'
    \<and> co_orphan_timeout (fst s) = co_orphan_timeout o'
    \<and> (\<forall>(p, items) \<in> set (co_buffered_by_parent (fst s)). \<exists>b. (p, b) \<in> set (co_buffered_by_parent o')
        \<and> set items \<subseteq> {i \<in> set b. \<not> releases o' now p i} \<and> items \<noteq> [])"
proof -
  let ?al = "co_buffered_by_parent o'" and ?P = "releases o' now"
  let ?exp = "concat (map (\<lambda>p. case map_of ?al p of None \<Rightarrow> [] | Some b \<Rightarrow> filter (?P p) b) order)"
  let ?ret = "filter (\<lambda>(_, b). b \<noteq> []) (map (\<lambda>(p, b). (p, filter (\<lambda>i. \<not> ?P p i) b)) ?al)"
  let ?o = "o'\<lparr>co_buffered_by_parent := ?ret\<rparr>"
  have d: "distinct (map fst ?al)" using inv by (simp add: orderer_inv_def well_buffered_def)
  have "distinct (map fst ?ret)"
    using d by (rule distinct_keys_retained)
  then have inv': "orderer_inv log ?o"
    using inv by (fastforce simp: orderer_inv_def well_buffered_def)
  have s: "s = fold (\<lambda>item. emit_ready (be_envelope item) True) ?exp (?o, [])"
    by (simp add: s_def drain_orphans_def Let_def)
  have e: "emits (map be_envelope ?exp) log (?o, []) s"
    unfolding s by (rule fold_emission) (use inv' in simp)
  have "mset ?exp + mset (concat (map snd ?ret)) = mset (concat (map snd ?al))"
    using mset_concat_order [OF order(1) d order(2)] mset_concat_filters [of ?P ?al] by simp
  then have "image_mset be_envelope (mset ?exp + mset (concat (map snd ?ret)))
      = image_mset be_envelope (mset (concat (map snd ?al)))"
    by (rule arg_cong)
  then have m: "mset (map be_envelope ?exp) + buffered_envelopes ?o = buffered_envelopes o'"
    by (simp only: buffered_envelopes_update, simp only: buffered_envelopes_def image_mset_union mset_map)
  have "\<forall>(p, items) \<in> set ?ret. \<exists>b. (p, b) \<in> set ?al \<and> set items \<subseteq> {i \<in> set b. \<not> ?P p i} \<and> items \<noteq> []"
    by fastforce
  moreover have "set (co_buffered_by_parent (fst s)) \<subseteq> set ?ret" using e by (simp add: emits_def)
  ultimately have "\<forall>(p, items) \<in> set (co_buffered_by_parent (fst s)). \<exists>b. (p, b) \<in> set ?al
      \<and> set items \<subseteq> {i \<in> set b. \<not> ?P p i} \<and> items \<noteq> []"
    by blast
  with e m show ?thesis by (simp add: emits_def)
qed

lemma orderer_run_inv:
  "orderer_run t es log o' \<Longrightarrow> orderer_inv log o' \<and> co_orphan_timeout o' = t
    \<and> mset es = mset (map oe_envelope log) + buffered_envelopes o'"
proof (induction rule: orderer_run.induct)
  case start
  then show ?case
    by (simp add: orderer_inv_def well_buffered_def buffered_envelopes_def CausalOrderer_new_def)
next
  case (submit es log o' e now)
  then show ?case using submit_emits [of log o' now e] by (simp add: ac_simps)
next
  case (drain es log o' order now)
  then show ?case using drain_emits [of log o' order now] by (simp add: ac_simps)
qed

lemma buffered_message_ids_alt: "buffered_message_ids o' = env_message_id ` set_mset (buffered_envelopes o')"
  by (force simp: buffered_message_ids_def buffered_envelopes_def)

lemma buffered_has_parent:
  assumes "well_buffered o'" "e \<in># buffered_envelopes o'"
  shows "\<exists>p items. (p, items) \<in> set (co_buffered_by_parent o') \<and> direct_parent e = Some p"
  using assms by (fastforce simp: well_buffered_def buffered_envelopes_def)

text \<open>A drain after every timeout leaves only messages whose parents are themselves left.\<close>

lemma late_drain_remaining:
  assumes inv: "orderer_inv log o'" and order: "distinct order" "set order = fst ` set (co_buffered_by_parent o')"
    and late: "\<forall>(_, items) \<in> set (co_buffered_by_parent o'). \<forall>i \<in> set items. is_expired now (co_orphan_timeout o') i"
    and left: "(p, items) \<in> set (co_buffered_by_parent (fst (drain_orphans order now o')))"
  shows "p \<in> buffered_message_ids (fst (drain_orphans order now o'))"
proof -
  let ?s = "drain_orphans order now o'"
  note d = drain_emits [OF inv order, of now]
  from d left obtain b i where b: "(p, b) \<in> set (co_buffered_by_parent o')" "i \<in> set b" "\<not> releases o' now p i"
    by (fastforce simp: neq_Nil_conv)
  with late have "p \<in> buffered_message_ids o'" by (auto simp: releases_def)
  then obtain e where e: "e \<in># buffered_envelopes o'" "env_message_id e = p"
    by (auto simp: buffered_message_ids_alt)
  have "p \<notin> co_emitted (fst ?s)" using d left by (auto simp: orderer_inv_def well_buffered_def)
  with d e(2) have "e \<notin> set (map oe_envelope (snd ?s))" by (auto simp: orderer_inv_def oe_message_id_def)
  moreover have "e \<in># mset (map oe_envelope (snd ?s)) + buffered_envelopes (fst ?s)" using d e(1) by simp
  ultimately show ?thesis using e(2) by (auto simp: buffered_message_ids_alt)
qed

text \<open>Only the envelopes a drain releases itself are marked orphaned, never with their own id as parent.\<close>

lemma emission_orphans:
  "x \<in> set (snd (emit_ready e b s)) \<Longrightarrow> oe_orphaned x \<Longrightarrow> x \<in> set (snd s) \<or> b \<and> x = \<lparr>oe_envelope = e, oe_orphaned = b\<rparr>"
  "x \<in> set (snd (drain_children p s)) \<Longrightarrow> oe_orphaned x \<Longrightarrow> x \<in> set (snd s)"
  "x \<in> set (snd (emit_children cs s)) \<Longrightarrow> oe_orphaned x \<Longrightarrow> x \<in> set (snd s)"
  by (induction e b s and p s and cs s rule: emit_ready_drain_children_emit_children.induct)
    (auto simp: emit_ready.simps drain_children.simps split: option.splits)

lemma fold_orphans:
  "x \<in> set (snd (fold (\<lambda>item. emit_ready (be_envelope item) True) items s)) \<Longrightarrow> oe_orphaned x \<Longrightarrow>
    x \<in> set (snd s) \<or> oe_envelope x \<in> be_envelope ` set items"
proof (induction items arbitrary: s)
  case (Cons i items)
  from Cons.IH [of "emit_ready (be_envelope i) True s"] Cons.prems
  have "x \<in> set (snd (emit_ready (be_envelope i) True s)) \<or> oe_envelope x \<in> be_envelope ` set items" by simp
  then show ?case using emission_orphans(1) [of x "be_envelope i" True s] Cons.prems(2) by auto
qed simp

lemma drain_orphans_orphaned:
  assumes "orderer_inv log o'" "x \<in> set (snd (drain_orphans order now o'))" "oe_orphaned x"
  shows "direct_parent (oe_envelope x) \<noteq> Some (oe_message_id x)"
proof -
  have "oe_envelope x \<in> be_envelope ` set (concat (map (\<lambda>p. case map_of (co_buffered_by_parent o') p of
      None \<Rightarrow> [] | Some b \<Rightarrow> filter (releases o' now p) b) order))"
    using fold_orphans assms(2,3) by (fastforce simp: drain_orphans_def Let_def)
  then obtain p b i where i: "(p, b) \<in> set (co_buffered_by_parent o')" "i \<in> set b" "releases o' now p i"
      "oe_envelope x = be_envelope i"
    by (auto split: option.splits dest!: map_of_SomeD [OF sym])
  then have "direct_parent (oe_envelope x) = Some p"
    using assms(1) by (auto simp: orderer_inv_def well_buffered_def)
  moreover have "oe_message_id x \<in> buffered_message_ids o'"
    using i by (force simp: oe_message_id_def buffered_message_ids_def)
  ultimately show ?thesis using i(3) by (auto simp: releases_def)
qed

lemma orderer_run_orphans:
  "orderer_run t es log o' \<Longrightarrow> x \<in> set log \<Longrightarrow> oe_orphaned x \<Longrightarrow>
    direct_parent (oe_envelope x) \<noteq> Some (oe_message_id x)"
proof (induction arbitrary: x rule: orderer_run.induct)
  case (submit es log o' e now)
  then have "x \<in> set log"
    by (auto simp: submit_def Let_def dest: emission_orphans(1) split: option.splits if_splits)
  with submit show ?case by simp
next
  case (drain es log o' order now)
  then show ?case using drain_orphans_orphaned orderer_run_inv by (metis Un_iff set_append)
qed simp

section \<open>Concrete runs\<close>

lemma direct_parent_sample [simp]: "direct_parent (sample i p) = map_option MessageId p"
  by (cases p) (simp_all add: direct_parent_def sample_def child_of_def from_parent_chain_def)

lemma id_sample [simp]: "env_message_id (sample i p) = MessageId i"
  by (simp add: sample_def)

lemma run_reordered:
  "orderer_run 5 [sample 2 (Some 1), sample 1 None]
    [\<lparr>oe_envelope = sample 1 None, oe_orphaned = False\<rparr>, \<lparr>oe_envelope = sample 2 (Some 1), oe_orphaned = False\<rparr>]
    \<lparr>co_emitted = {MessageId 1, MessageId 2}, co_buffered_by_parent = [], co_orphan_timeout = 5\<rparr>"
  using orderer_run.submit [OF orderer_run.submit [OF orderer_run.start, of 5 "sample 2 (Some 1)" 0], of "sample 1 None" 1]
  by (simp add: submit_def CausalOrderer_new_def emit_ready.simps drain_children.simps insert_commute)

lemma run_waiting:
  "orderer_run 5 [sample 2 (Some p)] []
    \<lparr>co_emitted = {}, co_buffered_by_parent = [(MessageId p, [\<lparr>be_envelope = sample 2 (Some p), be_buffered_at = 0\<rparr>])],
     co_orphan_timeout = 5\<rparr>"
  using orderer_run.submit [OF orderer_run.start, of 5 "sample 2 (Some p)" 0]
  by (simp add: submit_def CausalOrderer_new_def)

section \<open>Properties\<close>

text \<open>C6: in every history of submissions and drains, each emitted envelope that is not marked orphaned comes
  after an emission of its direct parent; the submitted envelopes are exactly, with multiplicity, the
  emitted ones and the ones still buffered; and nothing stays buffered under a parent that was emitted.\<close>

theorem orderer_causal_delivery:
  assumes "orderer_run t es log o'"
  shows "causal_log log \<and> mset es = mset (map oe_envelope log) + buffered_envelopes o'
    \<and> (\<forall>e \<in># buffered_envelopes o'. \<exists>p. direct_parent e = Some p \<and> p \<notin> oe_message_id ` set log)"
proof -
  note r = orderer_run_inv [OF assms]
  then have "\<forall>e \<in># buffered_envelopes o'. \<exists>p. direct_parent e = Some p \<and> p \<notin> oe_message_id ` set log"
    using buffered_has_parent [of o'] by (fastforce simp: orderer_inv_def well_buffered_def)
  with r show ?thesis by (simp add: orderer_inv_def)
qed

theorem orderer_causal_delivery_witness:
  "causal_log [\<lparr>oe_envelope = sample 1 None, oe_orphaned = False\<rparr>, \<lparr>oe_envelope = sample 2 (Some 1), oe_orphaned = False\<rparr>]"
  using orderer_causal_delivery [OF run_reordered] by simp

text \<open>C32: when the parent references of the submitted envelopes are acyclic (some rank decreases from child to
  parent), one drain after the timeout of every buffered envelope empties the buffer: every submitted
  envelope has then been emitted exactly once.\<close>

theorem orderer_late_drain_empties:
  assumes run: "orderer_run t es log o'"
    and order: "distinct order" "set order = fst ` set (co_buffered_by_parent o')"
    and late: "\<forall>(_, items) \<in> set (co_buffered_by_parent o'). \<forall>i \<in> set items. is_expired now t i"
    and acyclic: "\<forall>e \<in> set es. \<forall>p. direct_parent e = Some p \<longrightarrow> rank p < (rank (env_message_id e) :: nat)"
  shows "co_buffered_by_parent (fst (drain_orphans order now o')) = []
    \<and> mset es = mset (map oe_envelope (log @ snd (drain_orphans order now o')))"
proof -
  let ?s = "drain_orphans order now o'"
  note r = orderer_run_inv [OF run] and d = orderer_run_inv [OF orderer_run.drain [OF run order, of now]]
  have late': "\<forall>(_, items) \<in> set (co_buffered_by_parent o'). \<forall>i \<in> set items. is_expired now (co_orphan_timeout o') i"
    using late r by simp
  have descend: "\<exists>q items'. (q, items') \<in> set (co_buffered_by_parent (fst ?s)) \<and> rank q < rank p"
    if "(p, items) \<in> set (co_buffered_by_parent (fst ?s))" for p items
  proof -
    have "p \<in> buffered_message_ids (fst ?s)"
      using late_drain_remaining [OF _ order late' that] r by blast
    then obtain e where e: "e \<in># buffered_envelopes (fst ?s)" "env_message_id e = p"
      by (auto simp: buffered_message_ids_alt)
    then obtain q items' where q: "(q, items') \<in> set (co_buffered_by_parent (fst ?s))" "direct_parent e = Some q"
      using buffered_has_parent d by (fastforce simp: orderer_inv_def)
    have "e \<in># mset es" using d e(1) by simp
    then have "e \<in> set es" by simp
    with acyclic q e(2) show ?thesis by auto
  qed
  have "(p, items) \<notin> set (co_buffered_by_parent (fst ?s))" for p items
    by (induction "rank p" arbitrary: p items rule: less_induct) (use descend in blast)
  then have "co_buffered_by_parent (fst ?s) = []" by (cases "co_buffered_by_parent (fst ?s)") auto
  with d show ?thesis by (simp add: buffered_envelopes_def)
qed

theorem orderer_late_drain_empties_witness:
  "mset [sample 2 (Some 1)] = mset (map oe_envelope (snd (drain_orphans [MessageId 1] 7
    \<lparr>co_emitted = {}, co_buffered_by_parent = [(MessageId 1, [\<lparr>be_envelope = sample 2 (Some 1), be_buffered_at = 0\<rparr>])],
     co_orphan_timeout = 5\<rparr>)))"
  using orderer_late_drain_empties [OF run_waiting, of "[MessageId 1]" 1 7 "\<lambda>m. unat (as_uuid m)"]
  by (simp add: is_expired_def)

text \<open>C33: a message that names itself as its parent is never emitted, however long the orderer waits: while it
  is buffered its parent counts as about to arrive.\<close>

theorem orderer_self_parent_starves:
  assumes "orderer_run t es log o'"
    and "\<forall>e \<in> set es. env_message_id e = m \<longrightarrow> direct_parent e = Some m"
  shows "m \<notin> oe_message_id ` set log"
proof
  assume "m \<in> oe_message_id ` set log"
  then have "\<exists>i. i < length log \<and> oe_message_id (log ! i) = m" by (auto simp: in_set_conv_nth)
  then obtain i where i: "i < length log" "oe_message_id (log ! i) = m"
    and least: "\<And>j. j < i \<Longrightarrow> oe_message_id (log ! j) \<noteq> m"
    using exists_least_iff [of "\<lambda>i. i < length log \<and> oe_message_id (log ! i) = m"] by fastforce
  note r = orderer_run_inv [OF assms(1)]
  have "oe_envelope (log ! i) \<in># mset es" using r i(1) by simp
  then have m: "direct_parent (oe_envelope (log ! i)) = Some m"
    using assms(2) i(2) by (simp add: oe_message_id_def)
  then have "\<not> oe_orphaned (log ! i)"
    using orderer_run_orphans [OF assms(1)] i by (metis nth_mem)
  moreover have "follows_parent (log ! i) (take i log)"
    using r i(1) by (simp add: orderer_inv_def causal_log_def)
  ultimately have "m \<in> oe_message_id ` set (take i log)" using m by (simp add: follows_parent_def)
  then obtain j where "j < i" "oe_message_id (log ! j) = m" by (auto simp: in_set_conv_nth)
  with least show False by blast
qed

theorem orderer_self_parent_starves_witness:
  "MessageId 2 \<notin> oe_message_id ` set (snd (drain_orphans [MessageId 2] 7
    \<lparr>co_emitted = {}, co_buffered_by_parent = [(MessageId 2, [\<lparr>be_envelope = sample 2 (Some 2), be_buffered_at = 0\<rparr>])],
     co_orphan_timeout = 5\<rparr>))"
  using orderer_self_parent_starves [OF orderer_run.drain [OF run_waiting, of "[MessageId 2]" 2 7], of "MessageId 2"]
  by simp

end
