(* ===== verification/Floats.thy ===== *)
theory Floats
  imports Prelude
begin

text \<open>
  The comparisons of \<open>f64\<close> that the sources use, on IEEE 754 bit patterns: \<open>is_nan\<close>, \<open>partial_cmp\<close> and the
  operators \<open><=\<close> and \<open><\<close> it gives, \<open>total_cmp\<close>, and \<open>clamp\<close> to the unit interval. No arithmetic is needed.
  \<open>Ordering\<close> is \<open>core::cmp::Ordering\<close>.
\<close>

section \<open>Orderings\<close>

datatype (plugins only: code size) Ordering = Less | Equal | Greater

definition cmp :: "'a::linorder \<Rightarrow> 'a \<Rightarrow> Ordering" where
  "cmp a b = (if a < b then Less else if a = b then Equal else Greater)"

definition is_eq :: "Ordering \<Rightarrow> bool" where "is_eq x \<longleftrightarrow> x = Equal"
definition is_gt :: "Ordering \<Rightarrow> bool" where "is_gt x \<longleftrightarrow> x = Greater"
definition is_lt :: "Ordering \<Rightarrow> bool" where "is_lt x \<longleftrightarrow> x = Less"
definition is_ge :: "Ordering \<Rightarrow> bool" where "is_ge x \<longleftrightarrow> x \<noteq> Less"
definition is_le :: "Ordering \<Rightarrow> bool" where "is_le x \<longleftrightarrow> x \<noteq> Greater"

section \<open>Bit patterns\<close>

type_synonym f64 = "64 word"

text \<open>Sign bit, and the magnitude the other 63 bits encode; magnitudes above the one of infinity are NaN.\<close>

definition f64_negative :: "f64 \<Rightarrow> bool" where
  "f64_negative x \<longleftrightarrow> 2 ^ 63 \<le> unat x"

definition f64_magnitude :: "f64 \<Rightarrow> nat" where
  "f64_magnitude x = unat x mod 2 ^ 63"

definition f64_is_nan :: "f64 \<Rightarrow> bool" where
  "f64_is_nan x \<longleftrightarrow> f64_magnitude x > 0x7FF0000000000000"

text \<open>On numbers the order of the values is the order of the signed magnitudes, both zeros being equal.
  \<open>total_cmp\<close> compares the patterns as sign-magnitude integers, negative zero below positive zero and the
  NaNs at the two ends.\<close>

definition f64_value_key :: "f64 \<Rightarrow> int" where
  "f64_value_key x = (if f64_negative x then - int (f64_magnitude x) else int (f64_magnitude x))"

definition f64_total_key :: "f64 \<Rightarrow> int" where
  "f64_total_key x = (if f64_negative x then - 1 - int (f64_magnitude x) else int (f64_magnitude x))"

definition partial_cmp :: "f64 \<Rightarrow> f64 \<Rightarrow> Ordering option" where
  "partial_cmp a b = (if f64_is_nan a \<or> f64_is_nan b then None else Some (cmp (f64_value_key a) (f64_value_key b)))"

definition f64_le :: "f64 \<Rightarrow> f64 \<Rightarrow> bool" where
  "f64_le a b \<longleftrightarrow> (case partial_cmp a b of None \<Rightarrow> False | Some x \<Rightarrow> is_le x)"

definition f64_lt :: "f64 \<Rightarrow> f64 \<Rightarrow> bool" where
  "f64_lt a b \<longleftrightarrow> (case partial_cmp a b of None \<Rightarrow> False | Some x \<Rightarrow> is_lt x)"

abbreviation F64_ZERO :: f64 where "F64_ZERO \<equiv> 0"
abbreviation F64_ONE :: f64 where "F64_ONE \<equiv> 0x3FF0000000000000"

section \<open>Lemmas\<close>

lemmas ordering_defs = is_eq_def is_gt_def is_lt_def is_ge_def is_le_def

lemma cmp_simps [simp]:
  "is_eq (cmp a b) \<longleftrightarrow> a = b" "is_gt (cmp a b) \<longleftrightarrow> b < a" "is_lt (cmp a b) \<longleftrightarrow> a < b"
  "is_ge (cmp a b) \<longleftrightarrow> b \<le> a" "is_le (cmp a b) \<longleftrightarrow> a \<le> b"
  by (auto simp: cmp_def ordering_defs)

lemma f64_le_iff: "f64_le a b \<longleftrightarrow> \<not> f64_is_nan a \<and> \<not> f64_is_nan b \<and> f64_value_key a \<le> f64_value_key b"
  by (simp add: f64_le_def partial_cmp_def)

lemma f64_lt_iff: "f64_lt a b \<longleftrightarrow> \<not> f64_is_nan a \<and> \<not> f64_is_nan b \<and> f64_value_key a < f64_value_key b"
  by (simp add: f64_lt_def partial_cmp_def)

text \<open>\<open>total_cmp\<close> refines the order of the values.\<close>

lemma total_key_value_key: "f64_total_key a \<le> f64_total_key b \<Longrightarrow> f64_value_key a \<le> f64_value_key b"
  by (auto simp: f64_total_key_def f64_value_key_def split: if_splits)

lemma nan_above:
  assumes "f64_total_key a \<le> f64_total_key b" "f64_is_nan a" "\<not> f64_negative a"
  shows "f64_is_nan b"
  using assms by (auto simp: f64_total_key_def f64_is_nan_def split: if_splits)

end
