(* ===== verification/Pressure.thy ===== *)
theory Pressure
  imports Floats
begin

text \<open>
  Consumer capacity and pressure policy of the core bus (\<open>pressure/capacity.rs\<close>, \<open>signal.rs\<close>, \<open>policy.rs\<close>): the
  declared limits, the tracker of in-flight and buffered messages with the signal it gives to the next
  publish, and the escalation policy that selects the active actions for a pressure score.

  The lemmas show that a tracker driven by its own signals stays within the declared limits and that
  the signal is exact, and that the early exit of the policy scan selects exactly the active actions.
\<close>

section \<open>Signals (signal.rs)\<close>

datatype (plugins only: code size) PressureSignal =
    is_Accept: Accept (ps_current_in_flight: nat) (ps_max_in_flight: nat)
  | Defer (ps_current_in_flight: nat) (ps_max_in_flight: nat) (ps_current_buffer_depth: nat) (ps_max_buffer_depth: nat)
  | is_Reject: Reject (ps_current_in_flight: nat) (ps_max_in_flight: nat) (ps_current_buffer_depth: nat) (ps_max_buffer_depth: nat)

section \<open>Capacity tracking (capacity.rs)\<close>

record ConsumerCapacity =
  max_in_flight :: nat
  max_buffer_depth :: nat

datatype (plugins only: code size) CapacityError = InvalidCapacity nat nat | InFlightUnderflow | BufferUnderflow

definition ConsumerCapacity_new :: "nat \<Rightarrow> nat \<Rightarrow> (CapacityError, ConsumerCapacity) result" where
  "ConsumerCapacity_new in_flight buffer_depth =
    (if in_flight = 0 \<or> buffer_depth = 0 then Err (InvalidCapacity in_flight buffer_depth)
     else Ok \<lparr>max_in_flight = in_flight, max_buffer_depth = buffer_depth\<rparr>)"

definition ConsumerCapacity_validate :: "ConsumerCapacity \<Rightarrow> (CapacityError, unit) result" where
  "ConsumerCapacity_validate c =
    (if max_in_flight c = 0 \<or> max_buffer_depth c = 0
     then Err (InvalidCapacity (max_in_flight c) (max_buffer_depth c)) else Ok ())"

record CapacityTracker =
  ct_capacity :: ConsumerCapacity
  ct_current_in_flight :: nat
  ct_current_buffer_depth :: nat

definition CapacityTracker_new :: "ConsumerCapacity \<Rightarrow> CapacityTracker" where
  "CapacityTracker_new capacity =
    \<lparr>ct_capacity = capacity, ct_current_in_flight = 0, ct_current_buffer_depth = 0\<rparr>"

definition tracker_record_delivery :: "CapacityTracker \<Rightarrow> CapacityTracker" where
  "tracker_record_delivery t =
    (if ct_current_in_flight t < USIZE_MAX then t\<lparr>ct_current_in_flight := ct_current_in_flight t + 1\<rparr> else t)"

definition tracker_record_completion :: "CapacityTracker \<Rightarrow> (CapacityError, CapacityTracker) result" where
  "tracker_record_completion t =
    (if ct_current_in_flight t = 0 then Err InFlightUnderflow
     else Ok (t\<lparr>ct_current_in_flight := ct_current_in_flight t - 1\<rparr>))"

definition tracker_record_buffered :: "CapacityTracker \<Rightarrow> CapacityTracker" where
  "tracker_record_buffered t =
    (if ct_current_buffer_depth t < USIZE_MAX then t\<lparr>ct_current_buffer_depth := ct_current_buffer_depth t + 1\<rparr> else t)"

definition tracker_record_buffer_drained :: "CapacityTracker \<Rightarrow> (CapacityError, CapacityTracker) result" where
  "tracker_record_buffer_drained t =
    (if ct_current_buffer_depth t = 0 then Err BufferUnderflow
     else Ok (t\<lparr>ct_current_buffer_depth := ct_current_buffer_depth t - 1\<rparr>))"

definition pressure_signal :: "CapacityTracker \<Rightarrow> PressureSignal" where
  "pressure_signal t =
    (if ct_current_in_flight t < max_in_flight (ct_capacity t)
     then Accept (ct_current_in_flight t) (max_in_flight (ct_capacity t))
     else if ct_current_buffer_depth t < max_buffer_depth (ct_capacity t)
     then Defer (ct_current_in_flight t) (max_in_flight (ct_capacity t))
       (ct_current_buffer_depth t) (max_buffer_depth (ct_capacity t))
     else Reject (ct_current_in_flight t) (max_in_flight (ct_capacity t))
       (ct_current_buffer_depth t) (max_buffer_depth (ct_capacity t)))"

section \<open>Pressure policy (policy.rs)\<close>

datatype (plugins only: code size) AlertSeverity = Info | Warning | ErrorSeverity | Critical

datatype (plugins only: code size) PolicyAction =
    SlowProducer (reduction_factor: f64)
  | ShedLoad (priority_threshold: u8)
  | ScaleConsumer
  | Alert (alert_severity: AlertSeverity)

record PressurePolicy =
  pp_threshold :: f64
  pp_action :: PolicyAction

record ChannelPolicyConfig =
  policies :: "PressurePolicy list"

text \<open>\<open>sort_by\<close> is a stable sort, as \<open>sort_key\<close> is.\<close>

definition ChannelPolicyConfig_new :: "PressurePolicy list \<Rightarrow> ChannelPolicyConfig" where
  "ChannelPolicyConfig_new ps = \<lparr>policies = sort_key (\<lambda>p. f64_total_key (pp_threshold p)) ps\<rparr>"

fun actions_loop :: "f64 \<Rightarrow> PressurePolicy list \<Rightarrow> PolicyAction list" where
  "actions_loop pressure [] = []"
| "actions_loop pressure (policy # ps) =
    (if f64_le (pp_threshold policy) pressure then pp_action policy # actions_loop pressure ps else [])"

definition actions_for_pressure :: "ChannelPolicyConfig \<Rightarrow> f64 \<Rightarrow> PolicyAction list" where
  "actions_for_pressure config pressure = actions_loop pressure (policies config)"

section \<open>Specification\<close>

text \<open>The histories of a tracker whose owner follows its signals: a message is delivered on \<open>Accept\<close>, buffered
  on \<open>Defer\<close> and shed on \<open>Reject\<close>; completions happen while messages are in flight, and a freed slot may take
  a buffered message. The counts are the deliveries, completions, buffered and drained messages.\<close>

inductive tracker_run :: "ConsumerCapacity \<Rightarrow> nat \<times> nat \<times> nat \<times> nat \<Rightarrow> CapacityTracker \<Rightarrow> bool" for c where
  start: "tracker_run c (0, 0, 0, 0) (CapacityTracker_new c)"
| accept: "tracker_run c (d, f, b, r) t \<Longrightarrow> pressure_signal t = Accept x y \<Longrightarrow>
    tracker_run c (d + 1, f, b, r) (tracker_record_delivery t)"
| hold: "tracker_run c (d, f, b, r) t \<Longrightarrow> pressure_signal t = Defer x y u v \<Longrightarrow>
    tracker_run c (d, f, b + 1, r) (tracker_record_buffered t)"
| complete: "tracker_run c (d, f, b, r) t \<Longrightarrow> tracker_record_completion t = Ok t' \<Longrightarrow>
    tracker_run c (d, f + 1, b, r) t'"
| drain: "tracker_run c (d, f, b, r) t \<Longrightarrow> tracker_record_buffer_drained t = Ok t' \<Longrightarrow>
    ct_current_in_flight t' < max_in_flight c \<Longrightarrow>
    tracker_run c (d + 1, f, b, r + 1) (tracker_record_delivery t')"

definition negative_nan :: "f64 \<Rightarrow> bool" where
  "negative_nan x \<longleftrightarrow> f64_negative x \<and> f64_is_nan x"

section \<open>Lemmas\<close>

lemma pressure_signal_Accept_iff:
  "pressure_signal t = Accept x y \<longleftrightarrow> x = ct_current_in_flight t \<and> y = max_in_flight (ct_capacity t) \<and> x < y"
  by (auto simp: pressure_signal_def)

lemma pressure_signal_Defer_iff:
  "pressure_signal t = Defer x y u v \<longleftrightarrow> x = ct_current_in_flight t \<and> y = max_in_flight (ct_capacity t)
    \<and> u = ct_current_buffer_depth t \<and> v = max_buffer_depth (ct_capacity t) \<and> y \<le> x \<and> u < v"
  by (auto simp: pressure_signal_def)

lemma actions_loop_filter:
  assumes "sorted (map (\<lambda>p. f64_total_key (pp_threshold p)) ps)" "\<forall>p \<in> set ps. \<not> negative_nan (pp_threshold p)"
  shows "actions_loop pressure ps = map pp_action (filter (\<lambda>p. f64_le (pp_threshold p) pressure) ps)"
  using assms
proof (induction ps)
  case (Cons p ps)
  have "\<not> f64_le (pp_threshold q) pressure" if "\<not> f64_le (pp_threshold p) pressure" "q \<in> set ps" for q
  proof -
    have k: "f64_total_key (pp_threshold p) \<le> f64_total_key (pp_threshold q)"
      using Cons.prems(1) that(2) by simp
    show ?thesis
    proof (cases "f64_is_nan (pp_threshold p)")
      case True
      with Cons.prems(2) nan_above [OF k] show ?thesis by (auto simp: negative_nan_def f64_le_iff)
    next
      case False
      with that(1) total_key_value_key [OF k] show ?thesis by (auto simp: f64_le_iff)
    qed
  qed
  with Cons show ?case by (auto simp: filter_empty_conv)
qed simp

section \<open>Properties\<close>

text \<open>C34: a tracker with declared limits, driven by its own signals, never leaves them: in-flight and buffered
  counts are exactly the deliveries minus completions and the buffered minus drained messages, both stay
  within the declared limits (so neither counter saturates), and the next message is rejected exactly
  when both limits are reached and accepted exactly when a slot is free.\<close>

theorem tracker_run_within_capacity:
  assumes "tracker_run c (d, f, b, r) t" and "max_in_flight c \<le> USIZE_MAX" and "max_buffer_depth c \<le> USIZE_MAX"
  shows "ct_capacity t = c \<and> d = ct_current_in_flight t + f \<and> b = ct_current_buffer_depth t + r
    \<and> ct_current_in_flight t \<le> max_in_flight c \<and> ct_current_buffer_depth t \<le> max_buffer_depth c
    \<and> (is_Accept (pressure_signal t) \<longleftrightarrow> ct_current_in_flight t < max_in_flight c)
    \<and> (is_Reject (pressure_signal t) \<longleftrightarrow>
        ct_current_in_flight t = max_in_flight c \<and> ct_current_buffer_depth t = max_buffer_depth c)"
proof -
  have "ct_capacity t = c \<and> d = ct_current_in_flight t + f \<and> b = ct_current_buffer_depth t + r
    \<and> ct_current_in_flight t \<le> max_in_flight c \<and> ct_current_buffer_depth t \<le> max_buffer_depth c"
    using assms(1)
  proof (induction "(d, f, b, r)" t arbitrary: d f b r rule: tracker_run.induct)
    case start
    then show ?case by (simp add: CapacityTracker_new_def)
  next
    case (accept d f b r t x y)
    then show ?case using assms(2) by (auto simp: pressure_signal_Accept_iff tracker_record_delivery_def)
  next
    case (hold d f b r t x y u v)
    then show ?case using assms(3) by (auto simp: pressure_signal_Defer_iff tracker_record_buffered_def)
  next
    case (complete d f b r t t')
    then show ?case by (auto simp: tracker_record_completion_def)
  next
    case (drain d f b r t t')
    then show ?case using assms(2) by (auto simp: tracker_record_buffer_drained_def tracker_record_delivery_def)
  qed
  then show ?thesis by (auto simp: pressure_signal_def)
qed

theorem tracker_run_within_capacity_witness:
  "\<exists>t. tracker_run \<lparr>max_in_flight = 1, max_buffer_depth = 1\<rparr> (1, 0, 1, 0) t \<and> is_Reject (pressure_signal t)"
proof -
  let ?c = "\<lparr>max_in_flight = 1, max_buffer_depth = 1\<rparr>"
  let ?t = "\<lparr>ct_capacity = ?c, ct_current_in_flight = 1, ct_current_buffer_depth = 1\<rparr>"
  have "tracker_run ?c (0 + 1, 0, 0 + 1, 0) (tracker_record_buffered (tracker_record_delivery (CapacityTracker_new ?c)))"
    by (intro tracker_run.hold [OF tracker_run.accept [OF tracker_run.start]])
      (simp_all add: pressure_signal_def CapacityTracker_new_def tracker_record_delivery_def)
  then have "tracker_run ?c (1, 0, 1, 0) ?t"
    by (simp add: CapacityTracker_new_def tracker_record_delivery_def tracker_record_buffered_def)
  with tracker_run_within_capacity [OF this] show ?thesis by auto
qed

text \<open>when no threshold is a negative NaN, the scan that stops at the first inactive policy selects exactly
  the actions of all policies whose threshold is at most the pressure, in escalation order and, among
  equal thresholds, in configuration order.\<close>

theorem actions_for_pressure_exact:
  assumes "\<forall>p \<in> set ps. \<not> negative_nan (pp_threshold p)"
  shows "actions_for_pressure (ChannelPolicyConfig_new ps) pressure
    = map pp_action (filter (\<lambda>p. f64_le (pp_threshold p) pressure) (sort_key (\<lambda>p. f64_total_key (pp_threshold p)) ps))"
  unfolding actions_for_pressure_def ChannelPolicyConfig_new_def
  using actions_loop_filter [of "sort_key (\<lambda>p. f64_total_key (pp_threshold p)) ps"] assms by simp

theorem actions_for_pressure_exact_witness:
  "actions_for_pressure (ChannelPolicyConfig_new [\<lparr>pp_threshold = F64_ONE, pp_action = ScaleConsumer\<rparr>,
      \<lparr>pp_threshold = F64_ZERO, pp_action = Alert Critical\<rparr>]) F64_ZERO = [Alert Critical]"
  using actions_for_pressure_exact [of "[\<lparr>pp_threshold = F64_ONE, pp_action = ScaleConsumer\<rparr>,
      \<lparr>pp_threshold = F64_ZERO, pp_action = Alert Critical\<rparr>]" F64_ZERO]
  by (simp add: negative_nan_def f64_le_iff f64_is_nan_def f64_magnitude_def f64_negative_def f64_value_key_def
      f64_total_key_def)

end
