(* ===== verification/BTree_Map.thy ===== *)
theory BTree_Map
  imports Prelude
begin

text \<open>
  \<open>BTreeMap\<close> of the standard library: an association list in strictly ascending key order, which is the
  order its iterators use. The locale \<open>key_value\<close> is the contract of a keyed store; its lemmas on histories of
  writes are used by every component that keeps such a store.
\<close>

section \<open>Operations\<close>

fun bt_insert :: "'k::linorder \<Rightarrow> 'v \<Rightarrow> ('k \<times> 'v) list \<Rightarrow> ('k \<times> 'v) list" where
  "bt_insert k v [] = [(k, v)]"
| "bt_insert k v ((k', v') # m) =
    (if k < k' then (k, v) # (k', v') # m else if k = k' then (k, v) # m else (k', v') # bt_insert k v m)"

definition bt_remove :: "'k \<Rightarrow> ('k \<times> 'v) list \<Rightarrow> ('k \<times> 'v) list" where
  "bt_remove k m = filter (\<lambda>(k', _). k' \<noteq> k) m"

definition bt_sorted :: "('k::linorder \<times> 'v) list \<Rightarrow> bool" where
  "bt_sorted m \<longleftrightarrow> sorted_wrt (<) (map fst m)"

section \<open>The contract of a keyed store\<close>

datatype (plugins only: code size) ('k, 'v) change = Put 'k 'v | Drop 'k

locale key_value =
  fixes empty :: 'm and lookup :: "'m \<Rightarrow> 'k \<Rightarrow> 'v option"
    and insert :: "'k \<Rightarrow> 'v \<Rightarrow> 'm \<Rightarrow> 'm" and remove :: "'k \<Rightarrow> 'm \<Rightarrow> 'm" and invar :: "'m \<Rightarrow> bool"
  assumes lookup_empty: "lookup empty k = None"
    and lookup_insert: "invar m \<Longrightarrow> lookup (insert k v m) k' = (if k' = k then Some v else lookup m k')"
    and lookup_remove: "invar m \<Longrightarrow> lookup (remove k m) k' = (if k' = k then None else lookup m k')"
    and invar_empty: "invar empty"
    and invar_insert: "invar m \<Longrightarrow> invar (insert k v m)"
    and invar_remove: "invar m \<Longrightarrow> invar (remove k m)"
begin

primrec apply_change :: "('k, 'v) change \<Rightarrow> 'm \<Rightarrow> 'm" where
  "apply_change (Put k v) m = insert k v m"
| "apply_change (Drop k) m = remove k m"

primrec last_change :: "'k \<Rightarrow> 'v option \<Rightarrow> ('k, 'v) change list \<Rightarrow> 'v option" where
  "last_change k x [] = x"
| "last_change k x (w # ws) =
    last_change k (case w of Put k' v \<Rightarrow> if k' = k then Some v else x | Drop k' \<Rightarrow> if k' = k then None else x) ws"

lemma invar_changes: "invar m \<Longrightarrow> invar (fold apply_change ws m)"
proof (induction ws arbitrary: m)
  case (Cons w ws)
  then show ?case by (cases w) (simp_all add: invar_insert invar_remove)
qed simp

lemma lookup_changes: "invar m \<Longrightarrow> lookup (fold apply_change ws m) k = last_change k (lookup m k) ws"
proof (induction ws arbitrary: m)
  case (Cons w ws)
  then show ?case
    by (cases w) (simp_all add: invar_insert invar_remove lookup_insert lookup_remove)
qed simp

lemma changes_extensional:
  assumes "\<And>k. last_change k None ws = last_change k None ws'"
  shows "lookup (fold apply_change ws empty) = lookup (fold apply_change ws' empty)"
  using assms by (intro ext) (simp add: lookup_changes invar_empty lookup_empty)

end

section \<open>The sorted list keeps the contract\<close>

lemma set_bt_insert_fst: "fst ` set (bt_insert k v m) = Set.insert k (fst ` set m)"
  by (induction k v m rule: bt_insert.induct) auto

lemma bt_sorted_insert: "bt_sorted m \<Longrightarrow> bt_sorted (bt_insert k v m)"
proof (induction k v m rule: bt_insert.induct)
  case (2 k v k' v' m)
  then show ?case using set_bt_insert_fst [of k v m] by (auto simp: bt_sorted_def)
qed (simp add: bt_sorted_def)

lemma bt_sorted_remove: "bt_sorted m \<Longrightarrow> bt_sorted (bt_remove k m)"
  by (induction m) (auto simp: bt_sorted_def bt_remove_def)

lemma map_of_bt_remove: "map_of (bt_remove k m) k' = (if k' = k then None else map_of m k')"
  by (induction m) (auto simp: bt_remove_def)

lemma map_of_bt_insert: "bt_sorted m \<Longrightarrow> map_of (bt_insert k v m) k' = (if k' = k then Some v else map_of m k')"
  by (induction k v m rule: bt_insert.induct) (auto simp: bt_sorted_def)

lemma bt_sorted_distinct: "bt_sorted m \<Longrightarrow> distinct (map fst m)"
  by (simp add: bt_sorted_def strict_sorted_iff)

lemma bt_sorted_Nil [simp]: "bt_sorted []"
  by (simp add: bt_sorted_def)

interpretation btree: key_value "[]" map_of bt_insert bt_remove bt_sorted
  by unfold_locales
    (simp_all add: map_of_bt_insert map_of_bt_remove bt_sorted_insert bt_sorted_remove)

end
