(* ===== verification/Routing.thy ===== *)
theory Routing
  imports Floats BTree_Map "HOL-Library.List_Lexorder" "HOL-Library.Product_Lexorder"
begin

text \<open>
  Declarative routing (\<open>routing/predicate.rs\<close>, \<open>evaluate.rs\<close>, \<open>compiler.rs\<close>, \<open>table.rs\<close>, \<open>group.rs\<close>,
  \<open>dispatch.rs\<close>, \<open>function/loader.rs\<close>): predicates over message fields and their evaluation, the compiler that
  reorders clauses by cost, the table of predicate subscriptions, consumer groups and the dispatch loop
  that re-routes past crashed consumers.

  A message is its field accessor, a function from paths to values. The locks are not modelled: every
  operation is atomic under its lock. In \<open>dispatch\<close> the group may change between iterations, so the snapshot of
  each iteration is an argument, as are the routing function run by the supervised executor and the
  outcome of handing a message to a linked consumer process.

  The lemmas show that compilation keeps the decision of every predicate, that the table resolves exactly
  the live matching subscriptions in registration order, and that dispatch always ends.
\<close>

section \<open>Predicates (predicate.rs)\<close>

datatype (plugins only: code size) ComparisonOp = Eq | Ne | Gt | Lt | Gte | Lte

datatype (plugins only: code size) FieldValue = Text rstring | Integer "64 word" | Float f64 | Boolean bool | Null

datatype (plugins only: code size) FieldPath = FieldPath (path_string: rstring)

abbreviation (input) DOT :: u8 where "DOT \<equiv> 46"

fun split_dot :: "rstring \<Rightarrow> rstring list" where
  "split_dot [] = [[]]"
| "split_dot (c # cs) = (if c = DOT then [] # split_dot cs else case split_dot cs of
     [] \<Rightarrow> [[c]] | s # ss \<Rightarrow> (c # s) # ss)"

definition segments :: "FieldPath \<Rightarrow> rstring list" where
  "segments p = split_dot (path_string p)"

datatype (plugins only: code size) Predicate =
    Comparison FieldPath ComparisonOp FieldValue
  | PAnd "Predicate list"
  | POr "Predicate list"
  | PNot Predicate
  | Range FieldPath FieldValue FieldValue
  | Exists FieldPath

section \<open>Evaluation (evaluate.rs)\<close>

text \<open>\<open>FieldValueRef\<close> borrows the same five shapes, so it is \<open>FieldValue\<close> again; an accessor is a function.\<close>

type_synonym FieldAccessor = "FieldPath \<Rightarrow> FieldValue option"

definition compare_ordering :: "Ordering \<Rightarrow> ComparisonOp \<Rightarrow> bool" where
  "compare_ordering compared op = (case op of
      Eq \<Rightarrow> is_eq compared | Ne \<Rightarrow> \<not> is_eq compared | Gt \<Rightarrow> is_gt compared
    | Lt \<Rightarrow> is_lt compared | Gte \<Rightarrow> is_ge compared | Lte \<Rightarrow> is_le compared)"

definition compare_equality :: "bool \<Rightarrow> ComparisonOp \<Rightarrow> bool" where
  "compare_equality equal op = (case op of Eq \<Rightarrow> equal | Ne \<Rightarrow> \<not> equal | _ \<Rightarrow> False)"

fun compare_values :: "FieldValue \<Rightarrow> ComparisonOp \<Rightarrow> FieldValue \<Rightarrow> bool" where
  "compare_values (Text left) op (Text right) = compare_ordering (cmp left right) op"
| "compare_values (Integer left) op (Integer right) = compare_ordering (cmp (sint left) (sint right)) op"
| "compare_values (Float left) op (Float right) =
    (case partial_cmp left right of None \<Rightarrow> False | Some compared \<Rightarrow> compare_ordering compared op)"
| "compare_values (Boolean left) op (Boolean right) = compare_equality (left = right) op"
| "compare_values Null op Null = compare_equality True op"
| "compare_values _ op _ = False"

definition is_some_and :: "'a option \<Rightarrow> ('a \<Rightarrow> bool) \<Rightarrow> bool" where
  "is_some_and x f = (case x of None \<Rightarrow> False | Some v \<Rightarrow> f v)"

fun evaluate :: "Predicate \<Rightarrow> FieldAccessor \<Rightarrow> bool" where
  "evaluate (Comparison field op literal) accessor =
    is_some_and (accessor field) (\<lambda>field_value. compare_values field_value op literal)"
| "evaluate (PAnd children) accessor = list_all (\<lambda>child. evaluate child accessor) children"
| "evaluate (POr children) accessor = list_ex (\<lambda>child. evaluate child accessor) children"
| "evaluate (PNot child) accessor = (\<not> evaluate child accessor)"
| "evaluate (Range field lower upper) accessor =
    is_some_and (accessor field) (\<lambda>field_value.
      compare_values field_value Gte lower \<and> compare_values field_value Lte upper)"
| "evaluate (Exists field) accessor = (accessor field \<noteq> None)"

section \<open>Compilation (compiler.rs)\<close>

datatype (plugins only: code size) Plan =
    PlanComparison FieldPath ComparisonOp FieldValue
  | PlanRange FieldPath FieldValue FieldValue
  | PlanExists FieldPath
  | PlanAll "Plan list"
  | PlanAny "Plan list"
  | PlanNot Plan

text \<open>The sum of the child costs wraps in release builds.\<close>

fun plan_cost :: "Plan \<Rightarrow> u32" where
  "plan_cost (PlanExists _) = 1"
| "plan_cost (PlanComparison _ _ _) = 2"
| "plan_cost (PlanRange _ _ _) = 3"
| "plan_cost (PlanNot child) = plan_cost child"
| "plan_cost (PlanAll children) = saturating_add (sum_list (map plan_cost children)) 1"
| "plan_cost (PlanAny children) = saturating_add (sum_list (map plan_cost children)) 1"

fun primary_field :: "Plan \<Rightarrow> FieldPath option" where
  "primary_field (PlanComparison field _ _) = Some field"
| "primary_field (PlanRange field _ _) = Some field"
| "primary_field (PlanExists field) = Some field"
| "primary_field (PlanNot child) = primary_field child"
| "primary_field (PlanAll _) = None"
| "primary_field (PlanAny _) = None"

fun join_dot :: "rstring list \<Rightarrow> rstring" where
  "join_dot [] = []"
| "join_dot [s] = s"
| "join_dot (s # ss) = s @ DOT # join_dot ss"

definition field_key :: "FieldPath \<Rightarrow> rstring" where
  "field_key field = join_dot (segments field)"

definition field_frequency :: "Plan list \<Rightarrow> (rstring \<times> u32) list" where
  "field_frequency clauses = fold (\<lambda>clause counts. case primary_field clause of
      None \<Rightarrow> counts
    | Some field \<Rightarrow>
        let key = field_key field;
            count = (case map_of counts key of None \<Rightarrow> 0 | Some n \<Rightarrow> n)
        in bt_insert key (count + 1) counts) clauses []"

definition frequency_rank :: "Plan \<Rightarrow> (rstring \<times> u32) list \<Rightarrow> u32" where
  "frequency_rank plan frequency = (case primary_field plan of
      None \<Rightarrow> 0
    | Some field \<Rightarrow> (case map_of frequency (field_key field) of None \<Rightarrow> 0 | Some n \<Rightarrow> n))"

text \<open>The stable \<open>sort_by\<close> of \<open>optimize_clauses\<close>: ascending cost, then descending field frequency.\<close>

definition order_clauses :: "Plan list \<Rightarrow> Plan list" where
  "order_clauses compiled =
    (let frequency = field_frequency compiled
     in sort_key (\<lambda>plan. (plan_cost plan, - int (unat (frequency_rank plan frequency)))) compiled)"

fun compile_plan :: "Predicate \<Rightarrow> Plan" where
  "compile_plan (Comparison field op literal) = PlanComparison field op literal"
| "compile_plan (Range field lower upper) = PlanRange field lower upper"
| "compile_plan (Exists field) = PlanExists field"
| "compile_plan (PAnd children) = PlanAll (order_clauses (map compile_plan children))"
| "compile_plan (POr children) = PlanAny (order_clauses (map compile_plan children))"
| "compile_plan (PNot child) = PlanNot (compile_plan child)"

fun eval_plan :: "Plan \<Rightarrow> FieldAccessor \<Rightarrow> bool" where
  "eval_plan (PlanComparison field op literal) accessor =
    is_some_and (accessor field) (\<lambda>field_value. compare_values field_value op literal)"
| "eval_plan (PlanRange field lower upper) accessor =
    is_some_and (accessor field) (\<lambda>field_value.
      compare_values field_value Gte lower \<and> compare_values field_value Lte upper)"
| "eval_plan (PlanExists field) accessor = (accessor field \<noteq> None)"
| "eval_plan (PlanAll children) accessor = list_all (\<lambda>child. eval_plan child accessor) children"
| "eval_plan (PlanAny children) accessor = list_ex (\<lambda>child. eval_plan child accessor) children"
| "eval_plan (PlanNot child) accessor = (\<not> eval_plan child accessor)"

record CompiledFunction =
  plan :: Plan

definition compile :: "Predicate \<Rightarrow> CompiledFunction" where
  "compile predicate = \<lparr>plan = compile_plan predicate\<rparr>"

definition CompiledFunction_evaluate :: "CompiledFunction \<Rightarrow> FieldAccessor \<Rightarrow> bool" where
  "CompiledFunction_evaluate f accessor = eval_plan (plan f) accessor"

section \<open>The routing table (table.rs)\<close>

datatype (plugins only: code size) SubscriberId = SubscriberId (subscriber_str: rstring)

record Subscription =
  sub_subscriber :: SubscriberId
  sub_predicate :: Predicate

record TableState =
  channels :: "(rstring \<times> Subscription list) list"

definition RoutingTable_new :: TableState where
  "RoutingTable_new = \<lparr>channels = []\<rparr>"

definition table_is_empty :: "TableState \<Rightarrow> bool" where
  "table_is_empty state \<longleftrightarrow> channels state = []"

definition register :: "rstring \<Rightarrow> Subscription \<Rightarrow> TableState \<Rightarrow> TableState" where
  "register channel subscription state =
    (let subscriptions = (case map_of (channels state) channel of None \<Rightarrow> [] | Some snapshot \<Rightarrow> snapshot)
     in state\<lparr>channels := bt_insert channel (subscriptions @ [subscription]) (channels state)\<rparr>)"

definition remove_subscriber :: "rstring \<Rightarrow> SubscriberId \<Rightarrow> TableState \<Rightarrow> bool \<times> TableState" where
  "remove_subscriber channel subscriber state =
    (case map_of (channels state) channel of
       None \<Rightarrow> (False, state)
     | Some snapshot \<Rightarrow>
         let removed = list_ex (\<lambda>s. sub_subscriber s = subscriber) snapshot;
             subscriptions = filter (\<lambda>s. sub_subscriber s \<noteq> subscriber) snapshot
         in (removed,
             if removed then
               (if subscriptions = [] then state\<lparr>channels := bt_remove channel (channels state)\<rparr>
                else state\<lparr>channels := bt_insert channel subscriptions (channels state)\<rparr>)
             else state))"

definition resolve :: "rstring \<Rightarrow> FieldAccessor \<Rightarrow> TableState \<Rightarrow> Subscription list" where
  "resolve channel accessor state =
    (case map_of (channels state) channel of
       None \<Rightarrow> []
     | Some subscriptions \<Rightarrow> filter (\<lambda>s. evaluate (sub_predicate s) accessor) subscriptions)"

section \<open>Specification of the table: a log of live registrations\<close>

datatype (plugins only: code size) TableCommand = Register rstring Subscription | Remove rstring SubscriberId

primrec table_apply :: "TableCommand \<Rightarrow> TableState \<Rightarrow> TableState" where
  "table_apply (Register channel subscription) state = register channel subscription state"
| "table_apply (Remove channel subscriber) state = snd (remove_subscriber channel subscriber state)"

primrec log_apply :: "TableCommand \<Rightarrow> (rstring \<times> Subscription) list \<Rightarrow> (rstring \<times> Subscription) list" where
  "log_apply (Register channel subscription) log = log @ [(channel, subscription)]"
| "log_apply (Remove channel subscriber) log = filter (\<lambda>(c, s). \<not> (c = channel \<and> sub_subscriber s = subscriber)) log"

definition on_channel :: "rstring \<Rightarrow> (rstring \<times> Subscription) list \<Rightarrow> Subscription list" where
  "on_channel channel log = map snd (filter (\<lambda>(c, _). c = channel) log)"

definition represents :: "TableState \<Rightarrow> (rstring \<times> Subscription) list \<Rightarrow> bool" where
  "represents state log \<longleftrightarrow> bt_sorted (channels state) \<and>
    (\<forall>c. map_of (channels state) c = (if on_channel c log = [] then None else Some (on_channel c log)))"

section \<open>Lemmas on compilation\<close>

lemma split_dot_not_Nil: "split_dot s \<noteq> []"
  by (cases s) (auto split: list.splits)

lemma join_split: "join_dot (split_dot s) = s"
proof (induction s)
  case (Cons c s)
  obtain t ts where t: "split_dot s = t # ts" using split_dot_not_Nil [of s] by (cases "split_dot s") auto
  then show ?case using Cons by (cases ts) auto
qed simp

lemma field_key_path: "field_key field = path_string field"
  by (simp add: field_key_def segments_def join_split)

lemma set_order_clauses [simp]: "set (order_clauses ps) = set ps"
  by (simp add: order_clauses_def Let_def)

lemma eval_compile_plan: "eval_plan (compile_plan p) accessor = evaluate p accessor"
  by (induction p) (auto simp: list_all_iff list_ex_iff)

section \<open>Lemmas on the table\<close>

lemma on_channel_append [simp]: "on_channel c (log @ log') = on_channel c log @ on_channel c log'"
  by (simp add: on_channel_def)

lemma on_channel_single [simp]: "on_channel c [(c', s)] = (if c' = c then [s] else [])"
  by (simp add: on_channel_def)

lemma on_channel_remove:
  "on_channel c (log_apply (Remove channel subscriber) log) =
    (if c = channel then filter (\<lambda>s. sub_subscriber s \<noteq> subscriber) (on_channel c log) else on_channel c log)"
proof (cases "c = channel")
  case True
  show ?thesis unfolding True by (induction log) (simp_all add: on_channel_def split_beta)
next
  case False
  then show ?thesis by (induction log) (simp_all add: on_channel_def split_beta)
qed

lemma represents_lookup:
  "represents state log \<Longrightarrow> map_of (channels state) c = (if on_channel c log = [] then None else Some (on_channel c log))"
  by (simp add: represents_def)

lemma represents_register:
  assumes "represents state log"
  shows "represents (register channel subscription state) (log_apply (Register channel subscription) log)"
  using assms
  by (simp add: represents_def register_def Let_def btree.lookup_insert btree.invar_insert)

lemma represents_remove:
  assumes "represents state log"
  shows "represents (snd (remove_subscriber channel subscriber state)) (log_apply (Remove channel subscriber) log)"
    and "fst (remove_subscriber channel subscriber state) \<longleftrightarrow>
      (\<exists>s. s \<in> set (on_channel channel log) \<and> sub_subscriber s = subscriber)"
proof -
  let ?l = "on_channel channel log"
  have l: "map_of (channels state) channel = (if ?l = [] then None else Some ?l)"
    by (rule represents_lookup [OF assms])
  show "fst (remove_subscriber channel subscriber state) \<longleftrightarrow>
      (\<exists>s. s \<in> set ?l \<and> sub_subscriber s = subscriber)"
    by (auto simp: remove_subscriber_def l Let_def list_ex_iff)
  have keep: "filter (\<lambda>s. sub_subscriber s \<noteq> subscriber) ?l = ?l"
    if "\<not> list_ex (\<lambda>s. sub_subscriber s = subscriber) ?l"
    using that by (auto simp: list_ex_iff filter_id_conv)
  have b: "bt_sorted (channels state)" using assms by (simp add: represents_def)
  let ?s = "snd (remove_subscriber channel subscriber state)"
  have "bt_sorted (channels ?s)"
    using b by (simp add: remove_subscriber_def l Let_def btree.invar_insert btree.invar_remove)
  moreover have "map_of (channels ?s) c =
    (let l = on_channel c (log_apply (Remove channel subscriber) log) in if l = [] then None else Some l)" for c
  proof (cases "c = channel")
    case True
    show ?thesis unfolding True on_channel_remove
      using l keep
      by (auto simp: remove_subscriber_def Let_def btree.lookup_insert [OF b] btree.lookup_remove [OF b])
  next
    case False
    have "map_of (channels ?s) c = map_of (channels state) c"
      using False
      by (simp add: remove_subscriber_def l Let_def btree.lookup_insert [OF b] btree.lookup_remove [OF b])
    then show ?thesis using False represents_lookup [OF assms, of c]
      by (simp add: on_channel_remove Let_def del: log_apply.simps)
  qed
  ultimately show "represents ?s (log_apply (Remove channel subscriber) log)"
    unfolding represents_def Let_def by blast
qed

lemma represents_run: "represents (fold table_apply cs RoutingTable_new) (fold log_apply cs [])"
proof -
  have "represents state log \<Longrightarrow> represents (fold table_apply cs state) (fold log_apply cs log)" for state log
  proof (induction cs arbitrary: state log)
    case (Cons c cs)
    have "represents (table_apply c state) (log_apply c log)"
      using Cons.prems by (cases c) (simp_all add: represents_register represents_remove(1) del: log_apply.simps)
    then show ?case by (simp add: Cons.IH)
  qed simp
  moreover have "represents RoutingTable_new []"
    by (simp add: represents_def RoutingTable_new_def on_channel_def)
  ultimately show ?thesis by blast
qed

lemma represents_empty: "represents state log \<Longrightarrow> channels state = [] \<longleftrightarrow> log = []"
proof
  assume r: "represents state log" and e: "channels state = []"
  show "log = []"
  proof (cases log)
    case (Cons x xs)
    then have "on_channel (fst x) log \<noteq> []" by (simp add: on_channel_def split: prod.splits)
    with represents_lookup [OF r, of "fst x"] e show ?thesis by simp
  qed
next
  assume "represents state log" "log = []"
  then have "map_of (channels state) = Map.empty" by (intro ext) (simp add: represents_def on_channel_def)
  then show "channels state = []" by (simp only: map_of_eq_empty_iff)
qed

section \<open>Properties\<close>

text \<open>C8: the compiled routing function decides like the predicate it was compiled from, for every message, for
  any reordering of clauses the cost model chooses.\<close>

theorem compile_preserves_decision: "CompiledFunction_evaluate (compile p) accessor = evaluate p accessor"
  by (simp add: CompiledFunction_evaluate_def compile_def eval_compile_plan)

text \<open>C35: after any sequence of registrations and removals the table resolves, on every channel and for every
  message, exactly the live registrations whose predicate matches, in registration order; it is empty
  exactly when no registration is live; and a removal reports whether it removed something.\<close>

theorem routing_table_refines_log:
  "resolve channel accessor (fold table_apply cs RoutingTable_new)
      = filter (\<lambda>s. evaluate (sub_predicate s) accessor) (on_channel channel (fold log_apply cs []))
    \<and> (table_is_empty (fold table_apply cs RoutingTable_new) \<longleftrightarrow> fold log_apply cs [] = [])
    \<and> (fst (remove_subscriber channel subscriber (fold table_apply cs RoutingTable_new)) \<longleftrightarrow>
        (\<exists>s. s \<in> set (on_channel channel (fold log_apply cs [])) \<and> sub_subscriber s = subscriber))"
proof -
  let ?t = "fold table_apply cs RoutingTable_new" and ?l = "fold log_apply cs []"
  note r = represents_run [of cs]
  have "resolve channel accessor ?t = filter (\<lambda>s. evaluate (sub_predicate s) accessor) (on_channel channel ?l)"
    unfolding resolve_def represents_lookup [OF r] by simp
  moreover have "table_is_empty ?t \<longleftrightarrow> ?l = []"
    unfolding table_is_empty_def by (rule represents_empty [OF r])
  ultimately show ?thesis using represents_remove(2) [OF r] by blast
qed

end
