(* ===== verification/Dispatch.thy ===== *)
theory Dispatch
  imports Routing
begin

text \<open>
  Consumer groups and conversation-mediated dispatch (\<open>routing/group.rs\<close>, \<open>routing/dispatch.rs\<close>,
  \<open>routing/function/execute.rs\<close>, \<open>routing/function/loader.rs\<close>): the ordered set of registered consumers, the content-addressed
  loader of routing functions, and the loop that selects a consumer by the routing function, hands it the
  message and re-routes past every consumer whose link fired.

  The process runtime is outside the model. What it does in iteration \<open>n\<close> is an argument of the loop: the group
  snapshot \<open>snapshot n\<close>, the supervised run \<open>execute n\<close> of the routing function, and \<open>forward n\<close>, which links and
  forwards and gives what the exit notifier then yields.

  The lemmas show that the group keeps one registration per consumer in ascending order, and that the loop
  ends whenever the consumers that ever join are finitely many.
\<close>

section \<open>Consumers (execute.rs, group.rs)\<close>

type_synonym ConsumerId = rstring

record ConsumerStateView =
  csv_consumer :: ConsumerId
  csv_current_in_flight :: u32
  csv_max_in_flight :: u32
  csv_buffer_depth :: u32
  csv_affinity_tags :: "rstring list"

definition available_capacity :: "ConsumerStateView \<Rightarrow> u32" where
  "available_capacity v = saturating_sub (csv_max_in_flight v) (csv_current_in_flight v)"

definition has_capacity :: "ConsumerStateView \<Rightarrow> bool" where
  "has_capacity v \<longleftrightarrow> available_capacity v > 0"

definition has_affinity :: "rstring \<Rightarrow> ConsumerStateView \<Rightarrow> bool" where
  "has_affinity tag v \<longleftrightarrow> tag \<in> set (csv_affinity_tags v)"

record ConsumerRegistration =
  cr_consumer :: ConsumerId
  cr_participant :: u64
  cr_state :: ConsumerStateView

definition ConsumerRegistration_new :: "u64 \<Rightarrow> ConsumerStateView \<Rightarrow> ConsumerRegistration" where
  "ConsumerRegistration_new participant state =
    \<lparr>cr_consumer = csv_consumer state, cr_participant = participant, cr_state = state\<rparr>"

record GroupState =
  consumers :: "(ConsumerId \<times> ConsumerRegistration) list"

definition group_new :: GroupState where
  "group_new = \<lparr>consumers = []\<rparr>"

definition group_snapshot :: "GroupState \<Rightarrow> ConsumerRegistration list" where
  "group_snapshot g = map snd (consumers g)"

definition consumer_ids :: "GroupState \<Rightarrow> ConsumerId list" where
  "consumer_ids g = map fst (consumers g)"

definition add_consumer :: "ConsumerRegistration \<Rightarrow> GroupState \<Rightarrow> bool \<times> GroupState" where
  "add_consumer registration g =
    (map_of (consumers g) (cr_consumer registration) = None,
     g\<lparr>consumers := bt_insert (cr_consumer registration) registration (consumers g)\<rparr>)"

definition remove_consumer :: "ConsumerId \<Rightarrow> GroupState \<Rightarrow> bool \<times> GroupState" where
  "remove_consumer consumer g =
    (map_of (consumers g) consumer \<noteq> None, g\<lparr>consumers := bt_remove consumer (consumers g)\<rparr>)"

section \<open>Routing functions (loader.rs)\<close>

unbundle bit_operations_syntax

datatype (plugins only: code size) ContentHash = ContentHash u64

definition ContentHash_of :: "u8 list \<Rightarrow> ContentHash" where
  "ContentHash_of bytecode =
    ContentHash (fold (\<lambda>byte hash. (hash XOR ucast byte) * 0x00000100000001b3) bytecode 0xcbf29ce484222325)"

text \<open>The entry point of a module is a value of type \<open>'l\<close>; the loader never runs it.\<close>

record 'l RoutingModule =
  rm_content_hash :: ContentHash
  rm_logic :: 'l

definition RoutingModule_new :: "u8 list \<Rightarrow> 'l \<Rightarrow> 'l RoutingModule" where
  "RoutingModule_new bytecode logic = \<lparr>rm_content_hash = ContentHash_of bytecode, rm_logic = logic\<rparr>"

type_synonym 'l ModuleLoader = "ContentHash \<Rightarrow> 'l RoutingModule option"

definition load :: "'l RoutingModule \<Rightarrow> 'l ModuleLoader \<Rightarrow> 'l RoutingModule \<times> 'l ModuleLoader" where
  "load m loader = (case loader (rm_content_hash m) of
      Some loaded \<Rightarrow> (loaded, loader)
    | None \<Rightarrow> (m, loader(rm_content_hash m \<mapsto> m)))"

section \<open>Dispatch (dispatch.rs)\<close>

datatype (plugins only: code size) FunctionError = Crashed ContentHash | TimedOut ContentHash | SpawnFailed rstring

datatype (plugins only: code size) DispatchError =
    NoConsumerAvailable | UnknownConsumerSelected rstring | Evaluation FunctionError | ConversationFailed rstring

record RerouteTiming =
  crash_observed :: nat
  reroute_initiated :: nat

definition detection_to_reroute :: "RerouteTiming \<Rightarrow> nat" where
  "detection_to_reroute t = reroute_initiated t - crash_observed t"

datatype (plugins only: code size) AttemptResult = Delivered | AttemptCrashed RerouteTiming

text \<open>What \<open>recv_timeout\<close> on the exit notifier gives: the exit instant with the clock read next, a timeout, or a
  dropped sender.\<close>

datatype (plugins only: code size) ExitNotice = ExitAt nat nat | Timeout | Disconnected

definition observe_attempt :: "ExitNotice \<Rightarrow> (DispatchError, AttemptResult) result" where
  "observe_attempt notice = (case notice of
      ExitAt observed now \<Rightarrow> Ok (AttemptCrashed \<lparr>crash_observed = observed, reroute_initiated = now\<rparr>)
    | Timeout \<Rightarrow> Ok Delivered
    | Disconnected \<Rightarrow> Err (ConversationFailed
        (lit ''dispatch exit notifier disconnected before the hand-off window elapsed'')))"

record DispatchOutcome =
  delivered_to :: ConsumerId
  rerouted_from :: "ConsumerId list"
  reroute_timings :: "RerouteTiming list"

type_synonym executor = "ConsumerStateView list \<Rightarrow> (FunctionError, ConsumerId option) result"
type_synonym forwarder = "ConsumerRegistration \<Rightarrow> (DispatchError, ExitNotice) result"

definition select_consumer ::
  "ConsumerRegistration list \<Rightarrow> executor \<Rightarrow> ConsumerId list \<Rightarrow> (DispatchError, ConsumerRegistration) result" where
  "select_consumer snapshot execute excluded =
    (let available = filter (\<lambda>r. cr_consumer r \<notin> set excluded) snapshot in
     if available = [] then Err NoConsumerAvailable
     else case execute (map cr_state available) of
         Inl e \<Rightarrow> Err (Evaluation e)
       | Inr None \<Rightarrow> Err NoConsumerAvailable
       | Inr (Some selected_id) \<Rightarrow>
           ok_or (find (\<lambda>r. cr_consumer r = selected_id) available) (UnknownConsumerSelected selected_id))"

definition run_attempt :: "forwarder \<Rightarrow> ConsumerRegistration \<Rightarrow> (DispatchError, AttemptResult) result" where
  "run_attempt forward selected = andThen (forward selected) observe_attempt"

partial_function (option) dispatch_loop ::
  "(nat \<Rightarrow> ConsumerRegistration list) \<Rightarrow> (nat \<Rightarrow> executor) \<Rightarrow> (nat \<Rightarrow> forwarder) \<Rightarrow> nat \<Rightarrow> ConsumerId list
    \<Rightarrow> RerouteTiming list \<Rightarrow> (DispatchError, DispatchOutcome) result option" where
  "dispatch_loop snapshot execute forward n excluded timings =
    (case select_consumer (snapshot n) (execute n) excluded of
       Inl e \<Rightarrow> Some (Err e)
     | Inr selected \<Rightarrow>
         (case run_attempt (forward n) selected of
            Inl e \<Rightarrow> Some (Err e)
          | Inr Delivered \<Rightarrow> Some (Ok \<lparr>delivered_to = cr_consumer selected, rerouted_from = excluded,
              reroute_timings = timings\<rparr>)
          | Inr (AttemptCrashed timing) \<Rightarrow>
              dispatch_loop snapshot execute forward (n + 1) (excluded @ [cr_consumer selected]) (timings @ [timing])))"

definition dispatch ::
  "(nat \<Rightarrow> ConsumerRegistration list) \<Rightarrow> (nat \<Rightarrow> executor) \<Rightarrow> (nat \<Rightarrow> forwarder)
    \<Rightarrow> (DispatchError, DispatchOutcome) result option" where
  "dispatch snapshot execute forward = dispatch_loop snapshot execute forward 0 [] []"

section \<open>Specification\<close>

definition group_valid :: "GroupState \<Rightarrow> bool" where
  "group_valid g \<longleftrightarrow> bt_sorted (consumers g) \<and> (\<forall>(c, r) \<in> set (consumers g). cr_consumer r = c)"

datatype (plugins only: code size) GroupCommand = AddConsumer ConsumerRegistration | RemoveConsumer ConsumerId

primrec group_apply :: "GroupCommand \<Rightarrow> GroupState \<Rightarrow> GroupState" where
  "group_apply (AddConsumer r) g = snd (add_consumer r g)"
| "group_apply (RemoveConsumer c) g = snd (remove_consumer c g)"

text \<open>The last registration of a consumer that no later removal withdrew.\<close>

primrec registered_as :: "ConsumerId \<Rightarrow> ConsumerRegistration option \<Rightarrow> GroupCommand list \<Rightarrow> ConsumerRegistration option" where
  "registered_as c x [] = x"
| "registered_as c x (g # gs) = registered_as c (case g of
      AddConsumer r \<Rightarrow> if cr_consumer r = c then Some r else x
    | RemoveConsumer c' \<Rightarrow> if c' = c then None else x) gs"

definition as_change :: "GroupCommand \<Rightarrow> (ConsumerId, ConsumerRegistration) change" where
  "as_change g = (case g of AddConsumer r \<Rightarrow> Put (cr_consumer r) r | RemoveConsumer c \<Rightarrow> Drop c)"

section \<open>Lemmas on groups\<close>

lemma consumers_run: "consumers (fold group_apply gs g) = fold btree.apply_change (map as_change gs) (consumers g)"
proof (induction gs arbitrary: g)
  case (Cons c gs)
  then show ?case by (cases c) (simp_all add: as_change_def add_consumer_def remove_consumer_def)
qed simp

lemma registered_as_last_change: "registered_as c x gs = btree.last_change c x (map as_change gs)"
proof (induction gs arbitrary: x)
  case (Cons g gs)
  then show ?case by (cases g) (simp_all add: as_change_def)
qed simp

lemma bt_sorted_lookup: "bt_sorted m \<Longrightarrow> (k, v) \<in> set m \<longleftrightarrow> map_of m k = Some v"
  by (simp add: bt_sorted_distinct)

lemma registered_as_consumer: "registered_as c x gs = Some r \<Longrightarrow> x = Some r \<or> cr_consumer r = c"
proof (induction gs arbitrary: x)
  case (Cons g gs)
  from Cons.IH [OF Cons.prems [unfolded registered_as.simps]] show ?case
    by (cases g) (auto split: if_splits)
qed simp

lemma group_run:
  "bt_sorted (consumers (fold group_apply gs group_new))"
  "map_of (consumers (fold group_apply gs group_new)) c = registered_as c None gs"
proof -
  have m: "consumers (fold group_apply gs group_new) = fold btree.apply_change (map as_change gs) []"
    by (simp add: consumers_run group_new_def)
  show "bt_sorted (consumers (fold group_apply gs group_new))"
    unfolding m by (rule btree.invar_changes) simp
  show "map_of (consumers (fold group_apply gs group_new)) c = registered_as c None gs"
    unfolding m registered_as_last_change by (subst btree.lookup_changes) simp_all
qed

lemma group_run_mem: "(c, x) \<in> set (consumers (fold group_apply gs group_new)) \<longleftrightarrow> registered_as c None gs = Some x"
  unfolding bt_sorted_lookup [OF group_run(1)] group_run(2) ..

lemma group_run_key: "(c, x) \<in> set (consumers (fold group_apply gs group_new)) \<Longrightarrow> cr_consumer x = c"
  unfolding group_run_mem using registered_as_consumer [of c None gs x] by blast

lemma map_snd_keys: "(\<And>c x. (c, x) \<in> set m \<Longrightarrow> f x = c) \<Longrightarrow> map f (map snd m) = map fst m"
  by auto

lemma mem_snd_keys: "(\<And>c x. (c, x) \<in> set m \<Longrightarrow> f x = c) \<Longrightarrow> r \<in> set (map snd m) \<longleftrightarrow> (f r, r) \<in> set m"
  by force

section \<open>Lemmas on dispatch\<close>

lemma select_consumer_Ok:
  "select_consumer snap ex excluded = Ok r \<Longrightarrow> r \<in> set snap \<and> cr_consumer r \<notin> set excluded"
  by (auto simp: select_consumer_def Let_def ok_or_Ok_iff find_Some_iff split: if_splits sum.splits option.splits
      dest!: nth_mem)

lemma dispatch_loop_ends:
  assumes "finite C" "\<And>n. cr_consumer ` set (snapshot n) \<subseteq> C" "distinct excluded" "set excluded \<subseteq> C"
    "length timings = length excluded"
  shows "\<exists>r. dispatch_loop snapshot execute forward n excluded timings = Some r \<and>
    (\<forall>out. r = Ok out \<longrightarrow> delivered_to out \<in> C \<and> distinct (delivered_to out # rerouted_from out)
      \<and> set (rerouted_from out) \<subseteq> C \<and> length (reroute_timings out) = length (rerouted_from out))"
  using assms(3-)
proof (induction "card (C - set excluded)" arbitrary: n excluded timings rule: less_induct)
  case less
  show ?case
  proof (cases "select_consumer (snapshot n) (execute n) excluded")
    case (Inl e)
    then show ?thesis by (simp add: dispatch_loop.simps)
  next
    case sel: (Inr r)
    note r = select_consumer_Ok [OF sel]
    have c: "cr_consumer r \<in> C" using r assms(2) by blast
    show ?thesis
    proof (cases "run_attempt (forward n) r")
      case (Inl e)
      then show ?thesis using sel by (simp add: dispatch_loop.simps)
    next
      case att: (Inr a)
      show ?thesis
      proof (cases a)
        case Delivered
        then show ?thesis using sel att r c less.prems by (simp add: dispatch_loop.simps)
      next
        case (AttemptCrashed t)
        have "C - set (excluded @ [cr_consumer r]) \<subset> C - set excluded" using c r by auto
        then have "card (C - set (excluded @ [cr_consumer r])) < card (C - set excluded)"
          using assms(1) by (intro psubset_card_mono) simp_all
        from less.hyps [OF this, of "timings @ [t]" "n + 1"]
        show ?thesis using sel att AttemptCrashed r c less.prems
          by (subst dispatch_loop.simps) simp
      qed
    qed
  qed
qed

section \<open>Properties\<close>

text \<open>after any history of additions and removals a group snapshot lists its consumers in strictly ascending
  order, one registration each, and a consumer is listed exactly with its last registration that was not
  removed since.\<close>

theorem group_snapshot_exact:
  "sorted_wrt (<) (map cr_consumer (group_snapshot (fold group_apply gs group_new)))
    \<and> consumer_ids (fold group_apply gs group_new) = map cr_consumer (group_snapshot (fold group_apply gs group_new))
    \<and> (r \<in> set (group_snapshot (fold group_apply gs group_new)) \<longleftrightarrow> registered_as (cr_consumer r) None gs = Some r)"
proof -
  let ?m = "consumers (fold group_apply gs group_new)"
  have keys: "map cr_consumer (map snd ?m) = map fst ?m" by (rule map_snd_keys [OF group_run_key])
  have "r \<in> set (map snd ?m) \<longleftrightarrow> (cr_consumer r, r) \<in> set ?m"
    by (rule mem_snd_keys) (rule group_run_key)
  then have "r \<in> set (map snd ?m) \<longleftrightarrow> registered_as (cr_consumer r) None gs = Some r"
    unfolding group_run_mem .
  moreover have "sorted_wrt (<) (map cr_consumer (map snd ?m))"
    unfolding keys using group_run(1) unfolding bt_sorted_def .
  ultimately show ?thesis unfolding group_snapshot_def consumer_ids_def keys by simp
qed

text \<open>C36: if all snapshots taken during a dispatch draw from a finite set of consumers, the dispatch loop returns.
  A delivered message goes to a consumer of that set that did not crash before; the consumers re-routed
  past are distinct, and there is one timing for each of them.\<close>

theorem dispatch_terminates:
  assumes "finite C" and "\<And>n. cr_consumer ` set (snapshot n) \<subseteq> C"
  shows "\<exists>r. dispatch snapshot execute forward = Some r \<and>
    (\<forall>out. r = Ok out \<longrightarrow> delivered_to out \<in> C \<and> distinct (delivered_to out # rerouted_from out)
      \<and> set (rerouted_from out) \<subseteq> C \<and> length (reroute_timings out) = length (rerouted_from out))"
  unfolding dispatch_def using dispatch_loop_ends [OF assms, of "[]" "[]"] by simp

theorem dispatch_terminates_witness:
  "\<exists>r. dispatch (\<lambda>_. [ConsumerRegistration_new 7 \<lparr>csv_consumer = lit ''a'', csv_current_in_flight = 0,
        csv_max_in_flight = 1, csv_buffer_depth = 0, csv_affinity_tags = []\<rparr>])
      (\<lambda>_ views. Ok (Some (csv_consumer (hd views)))) (\<lambda>_ _. Ok (ExitAt 1 2)) = Some r"
  using dispatch_terminates [of "{lit ''a''}" "\<lambda>_. [ConsumerRegistration_new 7 \<lparr>csv_consumer = lit ''a'', csv_current_in_flight = 0,
        csv_max_in_flight = 1, csv_buffer_depth = 0, csv_affinity_tags = []\<rparr>]"]
  by (fastforce simp: ConsumerRegistration_new_def)

end
