(* ===== verification/Wire_Tags.thy ===== *)
theory Wire_Tags
  imports Wire_Types
begin

text \<open>
  The \<open>u16\<close> tag registries of \<open>liminal-protocol/src/wire/tags.rs\<close>. The macro \<open>u16_registry\<close> gives every
  registry an enum, \<open>wire_value\<close> (the assigned number) and \<open>TryFrom<u16>\<close> (a match over the assigned
  numbers); \<open>registry_try_from\<close> is that match over the variants in source order, and the locale
  \<open>registry\<close> states what a codec relies on: the two directions are inverse to each other.
\<close>

section \<open>The registry macro\<close>

definition registry_try_from :: "('a \<Rightarrow> u16) \<Rightarrow> 'a list \<Rightarrow> u16 \<Rightarrow> 'a option" where
  "registry_try_from wire_value variants value = find (\<lambda>v. wire_value v = value) variants"

section \<open>Registries\<close>

datatype (plugins only: code size) ClientDiscriminant =
    EnrollmentRequest
  | CredentialAttachRequest
  | DetachRequest
  | ParticipantAck
  | LeaveRequest
  | MarkerAck
  | RecordAdmission
  | ObserverRecoveryHandshake

primrec ClientDiscriminant_wire_value :: "ClientDiscriminant \<Rightarrow> u16" where
  "ClientDiscriminant_wire_value ClientDiscriminant.EnrollmentRequest = 0x0001"
| "ClientDiscriminant_wire_value ClientDiscriminant.CredentialAttachRequest = 0x0002"
| "ClientDiscriminant_wire_value ClientDiscriminant.DetachRequest = 0x0003"
| "ClientDiscriminant_wire_value ClientDiscriminant.ParticipantAck = 0x0004"
| "ClientDiscriminant_wire_value ClientDiscriminant.LeaveRequest = 0x0005"
| "ClientDiscriminant_wire_value ClientDiscriminant.MarkerAck = 0x0006"
| "ClientDiscriminant_wire_value ClientDiscriminant.RecordAdmission = 0x0007"
| "ClientDiscriminant_wire_value ClientDiscriminant.ObserverRecoveryHandshake = 0x0008"

definition ClientDiscriminant_try_from :: "u16 \<Rightarrow> ClientDiscriminant option" where
  "ClientDiscriminant_try_from =
    registry_try_from ClientDiscriminant_wire_value
      [ClientDiscriminant.EnrollmentRequest, ClientDiscriminant.CredentialAttachRequest, ClientDiscriminant.DetachRequest, ClientDiscriminant.ParticipantAck, ClientDiscriminant.LeaveRequest, ClientDiscriminant.MarkerAck, ClientDiscriminant.RecordAdmission, ClientDiscriminant.ObserverRecoveryHandshake]"

datatype (plugins only: code size) ServerDiscriminant =
    ParticipantTransportRejected
  | AttemptTokenBodyConflict
  | ConnectionConversationCapacityExceeded
  | ConnectionConversationBindingOccupied
  | ConversationOrderExhausted
  | ParticipantUnknown
  | NoBinding
  | StaleAuthority
  | Retired
  | MarkerClosureCapacityExceeded
  | EnrollBound
  | EnrollmentKnown
  | ReceiptExpired
  | ReceiptCapacityExceeded
  | IdentityCapacityExceeded
  | ObserverBackpressure
  | ConversationSequenceExhausted
  | AttachBound
  | StaleOrUnknownReceipt
  | MarkerNotDelivered
  | MarkerMismatch
  | Bound
  | UnboundReceipt
  | DetachCommitted
  | DetachInProgress
  | AckCommitted
  | AckNoOp
  | AckGap
  | AckRegression
  | LeaveCommitted
  | MarkerAckCommitted
  | RecordCommitted
  | RecordTooLarge
  | ObserverRecoveryAccepted
  | InvalidObserverEpoch
  | InvalidObserverEpochList
  | ObserverRecoveryConnectionCapacityExceeded
  | MarkerSettlementBackpressure
  | EnrollmentSettlementBackpressure

primrec ServerDiscriminant_wire_value :: "ServerDiscriminant \<Rightarrow> u16" where
  "ServerDiscriminant_wire_value ServerDiscriminant.ParticipantTransportRejected = 0x0100"
| "ServerDiscriminant_wire_value ServerDiscriminant.AttemptTokenBodyConflict = 0x0101"
| "ServerDiscriminant_wire_value ServerDiscriminant.ConnectionConversationCapacityExceeded = 0x0102"
| "ServerDiscriminant_wire_value ServerDiscriminant.ConnectionConversationBindingOccupied = 0x0103"
| "ServerDiscriminant_wire_value ServerDiscriminant.ConversationOrderExhausted = 0x0104"
| "ServerDiscriminant_wire_value ServerDiscriminant.ParticipantUnknown = 0x0105"
| "ServerDiscriminant_wire_value ServerDiscriminant.NoBinding = 0x0106"
| "ServerDiscriminant_wire_value ServerDiscriminant.StaleAuthority = 0x0107"
| "ServerDiscriminant_wire_value ServerDiscriminant.Retired = 0x0108"
| "ServerDiscriminant_wire_value ServerDiscriminant.MarkerClosureCapacityExceeded = 0x0109"
| "ServerDiscriminant_wire_value ServerDiscriminant.EnrollBound = 0x010A"
| "ServerDiscriminant_wire_value ServerDiscriminant.EnrollmentKnown = 0x010B"
| "ServerDiscriminant_wire_value ServerDiscriminant.ReceiptExpired = 0x010C"
| "ServerDiscriminant_wire_value ServerDiscriminant.ReceiptCapacityExceeded = 0x010D"
| "ServerDiscriminant_wire_value ServerDiscriminant.IdentityCapacityExceeded = 0x010E"
| "ServerDiscriminant_wire_value ServerDiscriminant.ObserverBackpressure = 0x010F"
| "ServerDiscriminant_wire_value ServerDiscriminant.ConversationSequenceExhausted = 0x0110"
| "ServerDiscriminant_wire_value ServerDiscriminant.AttachBound = 0x0111"
| "ServerDiscriminant_wire_value ServerDiscriminant.StaleOrUnknownReceipt = 0x0112"
| "ServerDiscriminant_wire_value ServerDiscriminant.MarkerNotDelivered = 0x0113"
| "ServerDiscriminant_wire_value ServerDiscriminant.MarkerMismatch = 0x0114"
| "ServerDiscriminant_wire_value ServerDiscriminant.Bound = 0x0115"
| "ServerDiscriminant_wire_value ServerDiscriminant.UnboundReceipt = 0x0116"
| "ServerDiscriminant_wire_value ServerDiscriminant.DetachCommitted = 0x0117"
| "ServerDiscriminant_wire_value ServerDiscriminant.DetachInProgress = 0x0118"
| "ServerDiscriminant_wire_value ServerDiscriminant.AckCommitted = 0x0119"
| "ServerDiscriminant_wire_value ServerDiscriminant.AckNoOp = 0x011A"
| "ServerDiscriminant_wire_value ServerDiscriminant.AckGap = 0x011B"
| "ServerDiscriminant_wire_value ServerDiscriminant.AckRegression = 0x011C"
| "ServerDiscriminant_wire_value ServerDiscriminant.LeaveCommitted = 0x011D"
| "ServerDiscriminant_wire_value ServerDiscriminant.MarkerAckCommitted = 0x011E"
| "ServerDiscriminant_wire_value ServerDiscriminant.RecordCommitted = 0x011F"
| "ServerDiscriminant_wire_value ServerDiscriminant.RecordTooLarge = 0x0120"
| "ServerDiscriminant_wire_value ServerDiscriminant.ObserverRecoveryAccepted = 0x0121"
| "ServerDiscriminant_wire_value ServerDiscriminant.InvalidObserverEpoch = 0x0122"
| "ServerDiscriminant_wire_value ServerDiscriminant.InvalidObserverEpochList = 0x0123"
| "ServerDiscriminant_wire_value ServerDiscriminant.ObserverRecoveryConnectionCapacityExceeded = 0x0124"
| "ServerDiscriminant_wire_value ServerDiscriminant.MarkerSettlementBackpressure = 0x0125"
| "ServerDiscriminant_wire_value ServerDiscriminant.EnrollmentSettlementBackpressure = 0x0126"

definition ServerDiscriminant_try_from :: "u16 \<Rightarrow> ServerDiscriminant option" where
  "ServerDiscriminant_try_from =
    registry_try_from ServerDiscriminant_wire_value
      [ServerDiscriminant.ParticipantTransportRejected, ServerDiscriminant.AttemptTokenBodyConflict, ServerDiscriminant.ConnectionConversationCapacityExceeded, ServerDiscriminant.ConnectionConversationBindingOccupied, ServerDiscriminant.ConversationOrderExhausted, ServerDiscriminant.ParticipantUnknown, ServerDiscriminant.NoBinding, ServerDiscriminant.StaleAuthority, ServerDiscriminant.Retired, ServerDiscriminant.MarkerClosureCapacityExceeded, ServerDiscriminant.EnrollBound, ServerDiscriminant.EnrollmentKnown, ServerDiscriminant.ReceiptExpired, ServerDiscriminant.ReceiptCapacityExceeded, ServerDiscriminant.IdentityCapacityExceeded, ServerDiscriminant.ObserverBackpressure, ServerDiscriminant.ConversationSequenceExhausted, ServerDiscriminant.AttachBound, ServerDiscriminant.StaleOrUnknownReceipt, ServerDiscriminant.MarkerNotDelivered, ServerDiscriminant.MarkerMismatch, ServerDiscriminant.Bound, ServerDiscriminant.UnboundReceipt, ServerDiscriminant.DetachCommitted, ServerDiscriminant.DetachInProgress, ServerDiscriminant.AckCommitted, ServerDiscriminant.AckNoOp, ServerDiscriminant.AckGap, ServerDiscriminant.AckRegression, ServerDiscriminant.LeaveCommitted, ServerDiscriminant.MarkerAckCommitted, ServerDiscriminant.RecordCommitted, ServerDiscriminant.RecordTooLarge, ServerDiscriminant.ObserverRecoveryAccepted, ServerDiscriminant.InvalidObserverEpoch, ServerDiscriminant.InvalidObserverEpochList, ServerDiscriminant.ObserverRecoveryConnectionCapacityExceeded, ServerDiscriminant.MarkerSettlementBackpressure, ServerDiscriminant.EnrollmentSettlementBackpressure]"

datatype (plugins only: code size) PushDiscriminant = ObserverProgressed | ParticipantDelivery | MarkerSettled

primrec PushDiscriminant_wire_value :: "PushDiscriminant \<Rightarrow> u16" where
  "PushDiscriminant_wire_value PushDiscriminant.ObserverProgressed = 0x0200"
| "PushDiscriminant_wire_value PushDiscriminant.ParticipantDelivery = 0x0201"
| "PushDiscriminant_wire_value PushDiscriminant.MarkerSettled = 0x0202"

definition PushDiscriminant_try_from :: "u16 \<Rightarrow> PushDiscriminant option" where
  "PushDiscriminant_try_from =
    registry_try_from PushDiscriminant_wire_value
      [PushDiscriminant.ObserverProgressed, PushDiscriminant.ParticipantDelivery, PushDiscriminant.MarkerSettled]"

datatype (plugins only: code size) RecordKind =
    OrdinaryRecord
  | Attached
  | Detached
  | Died
  | Left
  | HistoryCompacted

primrec RecordKind_wire_value :: "RecordKind \<Rightarrow> u16" where
  "RecordKind_wire_value RecordKind.OrdinaryRecord = 0"
| "RecordKind_wire_value RecordKind.Attached = 0x0001"
| "RecordKind_wire_value RecordKind.Detached = 0x0002"
| "RecordKind_wire_value RecordKind.Died = 0x0003"
| "RecordKind_wire_value RecordKind.Left = 0x0004"
| "RecordKind_wire_value RecordKind.HistoryCompacted = 0x0005"

definition RecordKind_try_from :: "u16 \<Rightarrow> RecordKind option" where
  "RecordKind_try_from =
    registry_try_from RecordKind_wire_value
      [RecordKind.OrdinaryRecord, RecordKind.Attached, RecordKind.Detached, RecordKind.Died, RecordKind.Left, RecordKind.HistoryCompacted]"

datatype (plugins only: code size) CloseCauseTag =
    CleanDeregister
  | ConnectionLost
  | ProcessKilled
  | ProtocolError
  | Superseded
  | ServerShutdown
  | UncleanServerRestart

primrec CloseCauseTag_wire_value :: "CloseCauseTag \<Rightarrow> u16" where
  "CloseCauseTag_wire_value CloseCauseTag.CleanDeregister = 1"
| "CloseCauseTag_wire_value CloseCauseTag.ConnectionLost = 2"
| "CloseCauseTag_wire_value CloseCauseTag.ProcessKilled = 3"
| "CloseCauseTag_wire_value CloseCauseTag.ProtocolError = 4"
| "CloseCauseTag_wire_value CloseCauseTag.Superseded = 5"
| "CloseCauseTag_wire_value CloseCauseTag.ServerShutdown = 6"
| "CloseCauseTag_wire_value CloseCauseTag.UncleanServerRestart = 7"

definition CloseCauseTag_try_from :: "u16 \<Rightarrow> CloseCauseTag option" where
  "CloseCauseTag_try_from =
    registry_try_from CloseCauseTag_wire_value
      [CloseCauseTag.CleanDeregister, CloseCauseTag.ConnectionLost, CloseCauseTag.ProcessKilled, CloseCauseTag.ProtocolError, CloseCauseTag.Superseded, CloseCauseTag.ServerShutdown, CloseCauseTag.UncleanServerRestart]"

datatype (plugins only: code size) TransportReasonTag =
    FrameTooLarge
  | DecodeFailed
  | UnsupportedVersion
  | AuthenticationFailed
  | ParticipantCapabilityRequired

primrec TransportReasonTag_wire_value :: "TransportReasonTag \<Rightarrow> u16" where
  "TransportReasonTag_wire_value TransportReasonTag.FrameTooLarge = 1"
| "TransportReasonTag_wire_value TransportReasonTag.DecodeFailed = 2"
| "TransportReasonTag_wire_value TransportReasonTag.UnsupportedVersion = 3"
| "TransportReasonTag_wire_value TransportReasonTag.AuthenticationFailed = 4"
| "TransportReasonTag_wire_value TransportReasonTag.ParticipantCapabilityRequired = 5"

definition TransportReasonTag_try_from :: "u16 \<Rightarrow> TransportReasonTag option" where
  "TransportReasonTag_try_from =
    registry_try_from TransportReasonTag_wire_value
      [TransportReasonTag.FrameTooLarge, TransportReasonTag.DecodeFailed, TransportReasonTag.UnsupportedVersion, TransportReasonTag.AuthenticationFailed, TransportReasonTag.ParticipantCapabilityRequired]"

datatype (plugins only: code size) DecodeClass =
    Framing
  | UnknownDiscriminant
  | CanonicalEncoding
  | MissingRequiredField
  | InvalidField

primrec DecodeClass_wire_value :: "DecodeClass \<Rightarrow> u16" where
  "DecodeClass_wire_value DecodeClass.Framing = 1"
| "DecodeClass_wire_value DecodeClass.UnknownDiscriminant = 2"
| "DecodeClass_wire_value DecodeClass.CanonicalEncoding = 3"
| "DecodeClass_wire_value DecodeClass.MissingRequiredField = 4"
| "DecodeClass_wire_value DecodeClass.InvalidField = 5"

definition DecodeClass_try_from :: "u16 \<Rightarrow> DecodeClass option" where
  "DecodeClass_try_from =
    registry_try_from DecodeClass_wire_value
      [DecodeClass.Framing, DecodeClass.UnknownDiscriminant, DecodeClass.CanonicalEncoding, DecodeClass.MissingRequiredField, DecodeClass.InvalidField]"

datatype (plugins only: code size) AttemptOperation = CredentialAttachRequest | LeaveRequest | RecordAdmission

primrec AttemptOperation_wire_value :: "AttemptOperation \<Rightarrow> u16" where
  "AttemptOperation_wire_value AttemptOperation.CredentialAttachRequest = 1"
| "AttemptOperation_wire_value AttemptOperation.LeaveRequest = 2"
| "AttemptOperation_wire_value AttemptOperation.RecordAdmission = 3"

definition AttemptOperation_try_from :: "u16 \<Rightarrow> AttemptOperation option" where
  "AttemptOperation_try_from =
    registry_try_from AttemptOperation_wire_value
      [AttemptOperation.CredentialAttachRequest, AttemptOperation.LeaveRequest, AttemptOperation.RecordAdmission]"

datatype (plugins only: code size) AttemptConflict = GenerationConflict | MarkerDeliverySequence

primrec AttemptConflict_wire_value :: "AttemptConflict \<Rightarrow> u16" where
  "AttemptConflict_wire_value AttemptConflict.GenerationConflict = 1"
| "AttemptConflict_wire_value AttemptConflict.MarkerDeliverySequence = 2"

definition AttemptConflict_try_from :: "u16 \<Rightarrow> AttemptConflict option" where
  "AttemptConflict_try_from =
    registry_try_from AttemptConflict_wire_value
      [AttemptConflict.GenerationConflict, AttemptConflict.MarkerDeliverySequence]"

datatype (plugins only: code size) DetachAuthorityStateTag = Live | TerminalizedDetachCell

primrec DetachAuthorityStateTag_wire_value :: "DetachAuthorityStateTag \<Rightarrow> u16" where
  "DetachAuthorityStateTag_wire_value DetachAuthorityStateTag.Live = 1"
| "DetachAuthorityStateTag_wire_value DetachAuthorityStateTag.TerminalizedDetachCell = 2"

definition DetachAuthorityStateTag_try_from :: "u16 \<Rightarrow> DetachAuthorityStateTag option" where
  "DetachAuthorityStateTag_try_from =
    registry_try_from DetachAuthorityStateTag_wire_value
      [DetachAuthorityStateTag.Live, DetachAuthorityStateTag.TerminalizedDetachCell]"

datatype (plugins only: code size) LeaveAuthorityStateTag = Live | CommittedLeaveTombstone

primrec LeaveAuthorityStateTag_wire_value :: "LeaveAuthorityStateTag \<Rightarrow> u16" where
  "LeaveAuthorityStateTag_wire_value LeaveAuthorityStateTag.Live = 1"
| "LeaveAuthorityStateTag_wire_value LeaveAuthorityStateTag.CommittedLeaveTombstone = 2"

definition LeaveAuthorityStateTag_try_from :: "u16 \<Rightarrow> LeaveAuthorityStateTag option" where
  "LeaveAuthorityStateTag_try_from =
    registry_try_from LeaveAuthorityStateTag_wire_value
      [LeaveAuthorityStateTag.Live, LeaveAuthorityStateTag.CommittedLeaveTombstone]"

datatype (plugins only: code size) BindingStateTag = Bound | Detached

primrec BindingStateTag_wire_value :: "BindingStateTag \<Rightarrow> u16" where
  "BindingStateTag_wire_value BindingStateTag.Bound = 1"
| "BindingStateTag_wire_value BindingStateTag.Detached = 2"

definition BindingStateTag_try_from :: "u16 \<Rightarrow> BindingStateTag option" where
  "BindingStateTag_try_from =
    registry_try_from BindingStateTag_wire_value
      [BindingStateTag.Bound, BindingStateTag.Detached]"

datatype (plugins only: code size) ReceiptExpiryReason = Deadline | Superseded

primrec ReceiptExpiryReason_wire_value :: "ReceiptExpiryReason \<Rightarrow> u16" where
  "ReceiptExpiryReason_wire_value ReceiptExpiryReason.Deadline = 1"
| "ReceiptExpiryReason_wire_value ReceiptExpiryReason.Superseded = 2"

definition ReceiptExpiryReason_try_from :: "u16 \<Rightarrow> ReceiptExpiryReason option" where
  "ReceiptExpiryReason_try_from =
    registry_try_from ReceiptExpiryReason_wire_value
      [ReceiptExpiryReason.Deadline, ReceiptExpiryReason.Superseded]"

datatype (plugins only: code size) ReceiptCapacityScope =
    LiveReceiptServer
  | LiveReceiptParticipant
  | ProvenanceServer
  | ProvenanceConversation
  | ProvenanceParticipant

primrec ReceiptCapacityScope_wire_value :: "ReceiptCapacityScope \<Rightarrow> u16" where
  "ReceiptCapacityScope_wire_value ReceiptCapacityScope.LiveReceiptServer = 1"
| "ReceiptCapacityScope_wire_value ReceiptCapacityScope.LiveReceiptParticipant = 2"
| "ReceiptCapacityScope_wire_value ReceiptCapacityScope.ProvenanceServer = 3"
| "ReceiptCapacityScope_wire_value ReceiptCapacityScope.ProvenanceConversation = 4"
| "ReceiptCapacityScope_wire_value ReceiptCapacityScope.ProvenanceParticipant = 5"

definition ReceiptCapacityScope_try_from :: "u16 \<Rightarrow> ReceiptCapacityScope option" where
  "ReceiptCapacityScope_try_from =
    registry_try_from ReceiptCapacityScope_wire_value
      [ReceiptCapacityScope.LiveReceiptServer, ReceiptCapacityScope.LiveReceiptParticipant, ReceiptCapacityScope.ProvenanceServer, ReceiptCapacityScope.ProvenanceConversation, ReceiptCapacityScope.ProvenanceParticipant]"

primrec IdentityCapacityScope_wire_value :: "IdentityCapacityScope \<Rightarrow> u16" where
  "IdentityCapacityScope_wire_value IdentityCapacityScope.Server = 1"
| "IdentityCapacityScope_wire_value IdentityCapacityScope.Conversation = 2"

definition IdentityCapacityScope_try_from :: "u16 \<Rightarrow> IdentityCapacityScope option" where
  "IdentityCapacityScope_try_from =
    registry_try_from IdentityCapacityScope_wire_value
      [IdentityCapacityScope.Server, IdentityCapacityScope.Conversation]"

datatype (plugins only: code size) ClosureScope =
    Capacity
  | RecoveryFence
  | DeliveredMarkerAwaitingAck
  | EpisodeChurnLimit

primrec ClosureScope_wire_value :: "ClosureScope \<Rightarrow> u16" where
  "ClosureScope_wire_value ClosureScope.Capacity = 1"
| "ClosureScope_wire_value ClosureScope.RecoveryFence = 2"
| "ClosureScope_wire_value ClosureScope.DeliveredMarkerAwaitingAck = 3"
| "ClosureScope_wire_value ClosureScope.EpisodeChurnLimit = 4"

definition ClosureScope_try_from :: "u16 \<Rightarrow> ClosureScope option" where
  "ClosureScope_try_from =
    registry_try_from ClosureScope_wire_value
      [ClosureScope.Capacity, ClosureScope.RecoveryFence, ClosureScope.DeliveredMarkerAwaitingAck, ClosureScope.EpisodeChurnLimit]"

datatype (plugins only: code size) ResourceDimensionTag = EntriesTag | BytesTag

primrec ResourceDimensionTag_wire_value :: "ResourceDimensionTag \<Rightarrow> u16" where
  "ResourceDimensionTag_wire_value ResourceDimensionTag.EntriesTag = 1"
| "ResourceDimensionTag_wire_value ResourceDimensionTag.BytesTag = 2"

definition ResourceDimensionTag_try_from :: "u16 \<Rightarrow> ResourceDimensionTag option" where
  "ResourceDimensionTag_try_from =
    registry_try_from ResourceDimensionTag_wire_value
      [ResourceDimensionTag.EntriesTag, ResourceDimensionTag.BytesTag]"

datatype (plugins only: code size) RepaymentEdgeTag =
    NoEdge
  | ObserverProjection
  | PhysicalCompaction
  | MarkerDelivery
  | ParticipantCursorProgress
  | DetachedCredentialRecovery
  | DetachedMarkerRelease
  | DetachedCursorRelease

primrec RepaymentEdgeTag_wire_value :: "RepaymentEdgeTag \<Rightarrow> u16" where
  "RepaymentEdgeTag_wire_value RepaymentEdgeTag.NoEdge = 1"
| "RepaymentEdgeTag_wire_value RepaymentEdgeTag.ObserverProjection = 2"
| "RepaymentEdgeTag_wire_value RepaymentEdgeTag.PhysicalCompaction = 3"
| "RepaymentEdgeTag_wire_value RepaymentEdgeTag.MarkerDelivery = 4"
| "RepaymentEdgeTag_wire_value RepaymentEdgeTag.ParticipantCursorProgress = 5"
| "RepaymentEdgeTag_wire_value RepaymentEdgeTag.DetachedCredentialRecovery = 6"
| "RepaymentEdgeTag_wire_value RepaymentEdgeTag.DetachedMarkerRelease = 7"
| "RepaymentEdgeTag_wire_value RepaymentEdgeTag.DetachedCursorRelease = 8"

definition RepaymentEdgeTag_try_from :: "u16 \<Rightarrow> RepaymentEdgeTag option" where
  "RepaymentEdgeTag_try_from =
    registry_try_from RepaymentEdgeTag_wire_value
      [RepaymentEdgeTag.NoEdge, RepaymentEdgeTag.ObserverProjection, RepaymentEdgeTag.PhysicalCompaction, RepaymentEdgeTag.MarkerDelivery, RepaymentEdgeTag.ParticipantCursorProgress, RepaymentEdgeTag.DetachedCredentialRecovery, RepaymentEdgeTag.DetachedMarkerRelease, RepaymentEdgeTag.DetachedCursorRelease]"

datatype (plugins only: code size) MarkerNotDeliveredReason = NotDeliveredToProofEpoch

primrec MarkerNotDeliveredReason_wire_value :: "MarkerNotDeliveredReason \<Rightarrow> u16" where
  "MarkerNotDeliveredReason_wire_value MarkerNotDeliveredReason.NotDeliveredToProofEpoch = 1"

definition MarkerNotDeliveredReason_try_from :: "u16 \<Rightarrow> MarkerNotDeliveredReason option" where
  "MarkerNotDeliveredReason_try_from =
    registry_try_from MarkerNotDeliveredReason_wire_value
      [MarkerNotDeliveredReason.NotDeliveredToProofEpoch]"

datatype (plugins only: code size) MarkerMismatchReason = BelowCursor | NoMarkerExpected | ExpectedDifferentMarker

primrec MarkerMismatchReason_wire_value :: "MarkerMismatchReason \<Rightarrow> u16" where
  "MarkerMismatchReason_wire_value MarkerMismatchReason.BelowCursor = 1"
| "MarkerMismatchReason_wire_value MarkerMismatchReason.NoMarkerExpected = 2"
| "MarkerMismatchReason_wire_value MarkerMismatchReason.ExpectedDifferentMarker = 3"

definition MarkerMismatchReason_try_from :: "u16 \<Rightarrow> MarkerMismatchReason option" where
  "MarkerMismatchReason_try_from =
    registry_try_from MarkerMismatchReason_wire_value
      [MarkerMismatchReason.BelowCursor, MarkerMismatchReason.NoMarkerExpected, MarkerMismatchReason.ExpectedDifferentMarker]"

datatype (plugins only: code size) AckGapReason = NotContiguouslyAvailable

primrec AckGapReason_wire_value :: "AckGapReason \<Rightarrow> u16" where
  "AckGapReason_wire_value AckGapReason.NotContiguouslyAvailable = 1"

definition AckGapReason_try_from :: "u16 \<Rightarrow> AckGapReason option" where
  "AckGapReason_try_from =
    registry_try_from AckGapReason_wire_value
      [AckGapReason.NotContiguouslyAvailable]"

datatype (plugins only: code size) AckRegressionReason = BelowCursor

primrec AckRegressionReason_wire_value :: "AckRegressionReason \<Rightarrow> u16" where
  "AckRegressionReason_wire_value AckRegressionReason.BelowCursor = 1"

definition AckRegressionReason_try_from :: "u16 \<Rightarrow> AckRegressionReason option" where
  "AckRegressionReason_try_from =
    registry_try_from AckRegressionReason_wire_value
      [AckRegressionReason.BelowCursor]"

datatype (plugins only: code size) InvalidObserverEpochReason = ConversationUnknown | EpochAhead

primrec InvalidObserverEpochReason_wire_value :: "InvalidObserverEpochReason \<Rightarrow> u16" where
  "InvalidObserverEpochReason_wire_value InvalidObserverEpochReason.ConversationUnknown = 1"
| "InvalidObserverEpochReason_wire_value InvalidObserverEpochReason.EpochAhead = 2"

definition InvalidObserverEpochReason_try_from :: "u16 \<Rightarrow> InvalidObserverEpochReason option" where
  "InvalidObserverEpochReason_try_from =
    registry_try_from InvalidObserverEpochReason_wire_value
      [InvalidObserverEpochReason.ConversationUnknown, InvalidObserverEpochReason.EpochAhead]"

datatype (plugins only: code size) InvalidObserverEpochListReason = TooManyEntries | DuplicateConversation

primrec InvalidObserverEpochListReason_wire_value :: "InvalidObserverEpochListReason \<Rightarrow> u16" where
  "InvalidObserverEpochListReason_wire_value InvalidObserverEpochListReason.TooManyEntries = 1"
| "InvalidObserverEpochListReason_wire_value InvalidObserverEpochListReason.DuplicateConversation = 2"

definition InvalidObserverEpochListReason_try_from :: "u16 \<Rightarrow> InvalidObserverEpochListReason option" where
  "InvalidObserverEpochListReason_try_from =
    registry_try_from InvalidObserverEpochListReason_wire_value
      [InvalidObserverEpochListReason.TooManyEntries, InvalidObserverEpochListReason.DuplicateConversation]"

datatype (plugins only: code size) Counter = TransactionOrder

primrec Counter_wire_value :: "Counter \<Rightarrow> u16" where
  "Counter_wire_value Counter.TransactionOrder = 1"

definition Counter_try_from :: "u16 \<Rightarrow> Counter option" where
  "Counter_try_from =
    registry_try_from Counter_wire_value
      [Counter.TransactionOrder]"

section \<open>Every registry is a bijection onto its assigned numbers\<close>

locale registry =
  fixes wire_value :: "'a \<Rightarrow> u16" and try_from :: "u16 \<Rightarrow> 'a option"
  assumes try_from_wire_value: "try_from (wire_value t) = Some t"
    and wire_value_try_from: "try_from v = Some t \<Longrightarrow> wire_value t = v"
begin

lemma try_from_Some_iff: "try_from v = Some t \<longleftrightarrow> v = wire_value t"
  by (metis try_from_wire_value wire_value_try_from)

lemma wire_value_eq_iff: "wire_value s = wire_value t \<longleftrightarrow> s = t"
  by (metis option.inject try_from_wire_value)

end

lemma registryI:
  assumes "distinct (map wire_value ts)" and "\<And>t. t \<in> set ts"
  shows "registry wire_value (registry_try_from wire_value ts)"
proof
  have inj: "s = t" if "wire_value s = wire_value t" for s t
    using assms that by (auto simp: distinct_map dest: inj_onD)
  show "registry_try_from wire_value ts (wire_value t) = Some t" for t
  proof (cases "find (\<lambda>v. wire_value v = wire_value t) ts")
    case None
    then show ?thesis using assms(2) [of t] by (auto simp: find_None_iff)
  next
    case (Some s)
    then have "wire_value s = wire_value t" by (auto simp: find_Some_iff)
    with Some inj show ?thesis by (simp add: registry_try_from_def)
  qed
qed (auto simp: registry_try_from_def find_Some_iff)

interpretation ClientDiscriminant_reg: registry ClientDiscriminant_wire_value ClientDiscriminant_try_from
  unfolding ClientDiscriminant_try_from_def
  by (rule registryI, simp, case_tac t, simp_all)

interpretation ServerDiscriminant_reg: registry ServerDiscriminant_wire_value ServerDiscriminant_try_from
  unfolding ServerDiscriminant_try_from_def
  by (rule registryI, simp, case_tac t, simp_all)

interpretation PushDiscriminant_reg: registry PushDiscriminant_wire_value PushDiscriminant_try_from
  unfolding PushDiscriminant_try_from_def
  by (rule registryI, simp, case_tac t, simp_all)

interpretation RecordKind_reg: registry RecordKind_wire_value RecordKind_try_from
  unfolding RecordKind_try_from_def
  by (rule registryI, simp, case_tac t, simp_all)

interpretation CloseCauseTag_reg: registry CloseCauseTag_wire_value CloseCauseTag_try_from
  unfolding CloseCauseTag_try_from_def
  by (rule registryI, simp, case_tac t, simp_all)

interpretation TransportReasonTag_reg: registry TransportReasonTag_wire_value TransportReasonTag_try_from
  unfolding TransportReasonTag_try_from_def
  by (rule registryI, simp, case_tac t, simp_all)

interpretation DecodeClass_reg: registry DecodeClass_wire_value DecodeClass_try_from
  unfolding DecodeClass_try_from_def
  by (rule registryI, simp, case_tac t, simp_all)

interpretation AttemptOperation_reg: registry AttemptOperation_wire_value AttemptOperation_try_from
  unfolding AttemptOperation_try_from_def
  by (rule registryI, simp, case_tac t, simp_all)

interpretation AttemptConflict_reg: registry AttemptConflict_wire_value AttemptConflict_try_from
  unfolding AttemptConflict_try_from_def
  by (rule registryI, simp, case_tac t, simp_all)

interpretation DetachAuthorityStateTag_reg: registry DetachAuthorityStateTag_wire_value DetachAuthorityStateTag_try_from
  unfolding DetachAuthorityStateTag_try_from_def
  by (rule registryI, simp, case_tac t, simp_all)

interpretation LeaveAuthorityStateTag_reg: registry LeaveAuthorityStateTag_wire_value LeaveAuthorityStateTag_try_from
  unfolding LeaveAuthorityStateTag_try_from_def
  by (rule registryI, simp, case_tac t, simp_all)

interpretation BindingStateTag_reg: registry BindingStateTag_wire_value BindingStateTag_try_from
  unfolding BindingStateTag_try_from_def
  by (rule registryI, simp, case_tac t, simp_all)

interpretation ReceiptExpiryReason_reg: registry ReceiptExpiryReason_wire_value ReceiptExpiryReason_try_from
  unfolding ReceiptExpiryReason_try_from_def
  by (rule registryI, simp, case_tac t, simp_all)

interpretation ReceiptCapacityScope_reg: registry ReceiptCapacityScope_wire_value ReceiptCapacityScope_try_from
  unfolding ReceiptCapacityScope_try_from_def
  by (rule registryI, simp, case_tac t, simp_all)

interpretation IdentityCapacityScope_reg: registry IdentityCapacityScope_wire_value IdentityCapacityScope_try_from
  unfolding IdentityCapacityScope_try_from_def
  by (rule registryI, simp, case_tac t, simp_all)

interpretation ClosureScope_reg: registry ClosureScope_wire_value ClosureScope_try_from
  unfolding ClosureScope_try_from_def
  by (rule registryI, simp, case_tac t, simp_all)

interpretation ResourceDimensionTag_reg: registry ResourceDimensionTag_wire_value ResourceDimensionTag_try_from
  unfolding ResourceDimensionTag_try_from_def
  by (rule registryI, simp, case_tac t, simp_all)

interpretation RepaymentEdgeTag_reg: registry RepaymentEdgeTag_wire_value RepaymentEdgeTag_try_from
  unfolding RepaymentEdgeTag_try_from_def
  by (rule registryI, simp, case_tac t, simp_all)

interpretation MarkerNotDeliveredReason_reg: registry MarkerNotDeliveredReason_wire_value MarkerNotDeliveredReason_try_from
  unfolding MarkerNotDeliveredReason_try_from_def
  by (rule registryI, simp, case_tac t, simp_all)

interpretation MarkerMismatchReason_reg: registry MarkerMismatchReason_wire_value MarkerMismatchReason_try_from
  unfolding MarkerMismatchReason_try_from_def
  by (rule registryI, simp, case_tac t, simp_all)

interpretation AckGapReason_reg: registry AckGapReason_wire_value AckGapReason_try_from
  unfolding AckGapReason_try_from_def
  by (rule registryI, simp, case_tac t, simp_all)

interpretation AckRegressionReason_reg: registry AckRegressionReason_wire_value AckRegressionReason_try_from
  unfolding AckRegressionReason_try_from_def
  by (rule registryI, simp, case_tac t, simp_all)

interpretation InvalidObserverEpochReason_reg: registry InvalidObserverEpochReason_wire_value InvalidObserverEpochReason_try_from
  unfolding InvalidObserverEpochReason_try_from_def
  by (rule registryI, simp, case_tac t, simp_all)

interpretation InvalidObserverEpochListReason_reg: registry InvalidObserverEpochListReason_wire_value InvalidObserverEpochListReason_try_from
  unfolding InvalidObserverEpochListReason_try_from_def
  by (rule registryI, simp, case_tac t, simp_all)

interpretation Counter_reg: registry Counter_wire_value Counter_try_from
  unfolding Counter_try_from_def
  by (rule registryI, simp, case_tac t, simp_all)

end
