(* ===== verification/Wire_Values.thy ===== *)
theory Wire_Values
  imports Wire_Tags
begin

text \<open>
  The remaining participant-protocol data of \<open>liminal-protocol/src/wire\<close>: client requests
  (\<open>request.rs\<close>), response envelopes (\<open>envelope.rs\<close>), closure snapshots (\<open>closure.rs\<close>), the complete
  family of server values (\<open>response.rs\<close>) with their sealed constructors, and server pushes
  (\<open>push.rs\<close>). A struct is a record, an enum a datatype with the source's variants; variants are
  written with their type's name because many enums share variant names.
\<close>

type_synonym SettlementEpoch = u64

record ProtocolVersion =
  pv_major :: u16
  pv_minor :: u16

definition V1 :: ProtocolVersion where
  "V1 = \<lparr>pv_major = 1, pv_minor = 0\<rparr>"

definition Generation_ONE :: Generation where
  "Generation_ONE = Generation 1"

section \<open>Client requests (request.rs)\<close>

record DetachRequest =
  dr_conversation_id :: ConversationId
  dr_participant_id :: ParticipantId
  dr_capability_generation :: Generation
  dr_detach_attempt_token :: DetachAttemptToken

record ParticipantAck =
  pa_conversation_id :: ConversationId
  pa_participant_id :: ParticipantId
  pa_capability_generation :: Generation
  pa_through_seq :: DeliverySeq

record LeaveRequest =
  lr_conversation_id :: ConversationId
  lr_participant_id :: ParticipantId
  lr_capability_generation :: Generation
  lr_attach_secret :: AttachSecret
  lr_leave_attempt_token :: LeaveAttemptToken

record MarkerAck =
  ma_conversation_id :: ConversationId
  ma_participant_id :: ParticipantId
  ma_capability_generation :: Generation
  ma_marker_delivery_seq :: DeliverySeq

record RecordAdmission =
  ra_conversation_id :: ConversationId
  ra_participant_id :: ParticipantId
  ra_capability_generation :: Generation
  ra_record_admission_attempt_token :: RecordAdmissionAttemptToken
  ra_payload :: "u8 list"

record ObserverRefusal =
  or_conversation_id :: ConversationId
  or_refused_epoch :: ObserverEpoch

record ObserverRecoveryHandshake =
  orh_observer_refusals :: "ObserverRefusal list"

datatype (plugins only: code size) ClientRequest =
    Enrollment EnrollmentRequest
  | CredentialAttach CredentialAttachRequest
  | Detach DetachRequest
  | ParticipantAck ParticipantAck
  | Leave LeaveRequest
  | MarkerAck MarkerAck
  | RecordAdmission RecordAdmission
  | ObserverRecovery ObserverRecoveryHandshake

fun ClientRequest_discriminant :: "ClientRequest \<Rightarrow> ClientDiscriminant" where
  "ClientRequest_discriminant (ClientRequest.Enrollment _) = ClientDiscriminant.EnrollmentRequest"
| "ClientRequest_discriminant (ClientRequest.CredentialAttach _) = ClientDiscriminant.CredentialAttachRequest"
| "ClientRequest_discriminant (ClientRequest.Detach _) = ClientDiscriminant.DetachRequest"
| "ClientRequest_discriminant (ClientRequest.ParticipantAck _) = ClientDiscriminant.ParticipantAck"
| "ClientRequest_discriminant (ClientRequest.Leave _) = ClientDiscriminant.LeaveRequest"
| "ClientRequest_discriminant (ClientRequest.MarkerAck _) = ClientDiscriminant.MarkerAck"
| "ClientRequest_discriminant (ClientRequest.RecordAdmission _) = ClientDiscriminant.RecordAdmission"
| "ClientRequest_discriminant (ClientRequest.ObserverRecovery _) = ClientDiscriminant.ObserverRecoveryHandshake"

section \<open>Response envelopes (envelope.rs)\<close>

record ParticipantAckEnvelope =
  pae_conversation_id :: ConversationId
  pae_participant_id :: ParticipantId
  pae_capability_generation :: Generation
  pae_through_seq :: DeliverySeq

record MarkerAckEnvelope =
  mae_conversation_id :: ConversationId
  mae_participant_id :: ParticipantId
  mae_capability_generation :: Generation
  mae_marker_delivery_seq :: DeliverySeq

datatype (plugins only: code size) ResponseEnvelope =
    Enrollment EnrollmentEnvelope
  | CredentialAttach AttachEnvelope
  | Detach DetachEnvelope
  | ParticipantAck ParticipantAckEnvelope
  | Leave LeaveEnvelope
  | MarkerAck MarkerAckEnvelope
  | RecordAdmission RecordAdmissionEnvelope

fun ResponseEnvelope_originating_request :: "ResponseEnvelope \<Rightarrow> ClientDiscriminant" where
  "ResponseEnvelope_originating_request (ResponseEnvelope.Enrollment _) = ClientDiscriminant.EnrollmentRequest"
| "ResponseEnvelope_originating_request (ResponseEnvelope.CredentialAttach _) =
    ClientDiscriminant.CredentialAttachRequest"
| "ResponseEnvelope_originating_request (ResponseEnvelope.Detach _) = ClientDiscriminant.DetachRequest"
| "ResponseEnvelope_originating_request (ResponseEnvelope.ParticipantAck _) = ClientDiscriminant.ParticipantAck"
| "ResponseEnvelope_originating_request (ResponseEnvelope.Leave _) = ClientDiscriminant.LeaveRequest"
| "ResponseEnvelope_originating_request (ResponseEnvelope.MarkerAck _) = ClientDiscriminant.MarkerAck"
| "ResponseEnvelope_originating_request (ResponseEnvelope.RecordAdmission _) = ClientDiscriminant.RecordAdmission"

section \<open>Closure refusals (closure.rs)\<close>

record ParticipantCursorProgressEdge =
  pcp_participant_id :: ParticipantId
  pcp_binding_epoch :: BindingEpoch
  pcp_through_seq :: DeliverySeq
  pcp_marker_delivery_seq :: "DeliverySeq option"

datatype (plugins only: code size) RepaymentEdge =
    NoEdge
  | ObserverProjection DeliverySeq
  | PhysicalCompaction DeliverySeq DeliverySeq
  | MarkerDelivery ParticipantId BindingEpoch DeliverySeq
  | ParticipantCursorProgress ParticipantCursorProgressEdge
  | DetachedCredentialRecovery ParticipantId DeliverySeq BindingEpoch
  | DetachedMarkerRelease ParticipantId DeliverySeq BindingEpoch
  | DetachedCursorRelease ParticipantId BindingEpoch

fun RepaymentEdge_tag :: "RepaymentEdge \<Rightarrow> RepaymentEdgeTag" where
  "RepaymentEdge_tag RepaymentEdge.NoEdge = RepaymentEdgeTag.NoEdge"
| "RepaymentEdge_tag (RepaymentEdge.ObserverProjection _) = RepaymentEdgeTag.ObserverProjection"
| "RepaymentEdge_tag (RepaymentEdge.PhysicalCompaction _ _) = RepaymentEdgeTag.PhysicalCompaction"
| "RepaymentEdge_tag (RepaymentEdge.MarkerDelivery _ _ _) = RepaymentEdgeTag.MarkerDelivery"
| "RepaymentEdge_tag (RepaymentEdge.ParticipantCursorProgress _) = RepaymentEdgeTag.ParticipantCursorProgress"
| "RepaymentEdge_tag (RepaymentEdge.DetachedCredentialRecovery _ _ _) = RepaymentEdgeTag.DetachedCredentialRecovery"
| "RepaymentEdge_tag (RepaymentEdge.DetachedMarkerRelease _ _ _) = RepaymentEdgeTag.DetachedMarkerRelease"
| "RepaymentEdge_tag (RepaymentEdge.DetachedCursorRelease _ _) = RepaymentEdgeTag.DetachedCursorRelease"

datatype (plugins only: code size) ClosureCheckedEnvelope =
    Enrollment EnrollmentEnvelope
  | CredentialAttach AttachEnvelope
  | Leave LeaveEnvelope
  | RecordAdmission RecordAdmissionEnvelope

record ClosureSnapshot =
  cs_marker_capacity_credits :: u64
  cs_marker_anchors :: u64
  cs_entry_debt :: u64
  cs_byte_debt :: u64
  cs_repayment_edge :: RepaymentEdge
  cs_edge_sequence_claims :: u64
  cs_edge_order_position_claims :: u64
  cs_edge_k_remaining :: ResourceVector
  cs_k_headroom :: WideResourceVector
  cs_episode_churn_used :: u64
  cs_delta_cycles :: u64
  cs_episode_churn_limit :: u64

record ClosureCapacityReason =
  ccr_dimension :: ResourceDimension
  ccr_required :: u128
  ccr_limit :: u128

datatype (plugins only: code size) ClosureRefusalReason =
    Capacity ClosureCapacityReason
  | RecoveryFence
  | DeliveredMarkerAwaitingAck
  | EpisodeChurnLimit

record MarkerClosureCapacityExceeded =
  mcc_request :: ClosureCheckedEnvelope
  mcc_snapshot :: ClosureSnapshot
  mcc_reason :: ClosureRefusalReason

section \<open>Server values (response.rs)\<close>

datatype (plugins only: code size) TransportRejectionReason =
    FrameTooLarge u64 u64
  | DecodeFailed DecodeClass
  | UnsupportedVersion ProtocolVersion ProtocolVersion
  | AuthenticationFailed
  | ParticipantCapabilityRequired

record ParticipantTransportRejected =
  ptr_reason :: TransportRejectionReason

datatype (plugins only: code size) AttemptTokenBodyConflict =
    CredentialAttach AttachAttemptToken ConversationId ParticipantId Generation "DeliverySeq option" AttemptConflict
  | Leave LeaveAttemptToken ConversationId ParticipantId Generation
  | RecordAdmission RecordAdmissionAttemptToken ConversationId ParticipantId Generation

datatype (plugins only: code size) ConnectionConversationCapacityExceeded =
    SemanticRequest ResponseEnvelope u64
  | ObserverRecovery ConversationId u64

datatype (plugins only: code size) ParticipantReferenceEnvelope =
    CredentialAttach AttachEnvelope
  | Detach DetachEnvelope
  | ParticipantAck ParticipantAckEnvelope
  | Leave LeaveEnvelope
  | MarkerAck MarkerAckEnvelope
  | RecordAdmission RecordAdmissionEnvelope

datatype (plugins only: code size) BindingRequiredEnvelope =
    Detach DetachEnvelope
  | ParticipantAck ParticipantAckEnvelope
  | Leave LeaveEnvelope
  | MarkerAck MarkerAckEnvelope
  | RecordAdmission RecordAdmissionEnvelope

record ParticipantUnknown =
  pu_request :: ParticipantReferenceEnvelope

record NoBinding =
  nb_request :: BindingRequiredEnvelope

datatype (plugins only: code size) BindingStateView = Bound BindingEpoch | Detached

fun BindingStateView_tag :: "BindingStateView \<Rightarrow> BindingStateTag" where
  "BindingStateView_tag (BindingStateView.Bound _) = BindingStateTag.Bound"
| "BindingStateView_tag BindingStateView.Detached = BindingStateTag.Detached"

record TerminalizedDetachCell =
  tdc_conversation_id :: ConversationId
  tdc_participant_id :: ParticipantId
  tdc_capability_generation :: Generation
  tdc_detach_attempt_token :: DetachAttemptToken
  tdc_current_generation :: Generation
  tdc_committed_binding_epoch :: BindingEpoch
  tdc_binding_state :: BindingStateView

datatype (plugins only: code size) DetachStaleAuthority =
    Live ConversationId ParticipantId Generation DetachAttemptToken Generation
  | TerminalizedDetachCell TerminalizedDetachCell

fun DetachStaleAuthority_authority_state_tag :: "DetachStaleAuthority \<Rightarrow> DetachAuthorityStateTag" where
  "DetachStaleAuthority_authority_state_tag (DetachStaleAuthority.Live _ _ _ _ _) = DetachAuthorityStateTag.Live"
| "DetachStaleAuthority_authority_state_tag (DetachStaleAuthority.TerminalizedDetachCell _) =
    DetachAuthorityStateTag.TerminalizedDetachCell"

datatype (plugins only: code size) LeaveStaleAuthority =
    Live ConversationId ParticipantId Generation LeaveAttemptToken Generation
  | CommittedLeaveTombstone ConversationId ParticipantId Generation LeaveAttemptToken Generation

fun LeaveStaleAuthority_authority_state_tag :: "LeaveStaleAuthority \<Rightarrow> LeaveAuthorityStateTag" where
  "LeaveStaleAuthority_authority_state_tag (LeaveStaleAuthority.Live _ _ _ _ _) = LeaveAuthorityStateTag.Live"
| "LeaveStaleAuthority_authority_state_tag (LeaveStaleAuthority.CommittedLeaveTombstone _ _ _ _ _) =
    LeaveAuthorityStateTag.CommittedLeaveTombstone"

datatype (plugins only: code size) CommonStaleAuthorityEnvelope =
    CredentialAttach AttachEnvelope
  | ParticipantAck ParticipantAckEnvelope
  | MarkerAck MarkerAckEnvelope
  | RecordAdmission RecordAdmissionEnvelope

datatype (plugins only: code size) StaleAuthority =
    Live CommonStaleAuthorityEnvelope Generation
  | Detach DetachStaleAuthority
  | Leave LeaveStaleAuthority

datatype (plugins only: code size) Retired =
    Enrollment EnrollmentEnvelope ParticipantId Generation
  | Participant ParticipantReferenceEnvelope Generation

text \<open>\<open>EnrollBound\<close> and \<open>AttachBound\<close> are sealed: the only values are those \<open>new\<close>, \<open>ordinary\<close> and
  \<open>fenced\<close> return.\<close>

record EnrollBound =
  eb_conversation_id :: ConversationId
  eb_token :: EnrollmentToken
  eb_participant_id :: ParticipantId
  eb_attach_secret :: AttachSecret
  eb_origin_binding_epoch :: BindingEpoch
  eb_receipt_expires_at :: u128
  eb_provenance_expires_at :: u128

definition EnrollBound_new :: "ConversationId \<Rightarrow> EnrollmentToken \<Rightarrow> ParticipantId \<Rightarrow> AttachSecret \<Rightarrow> BindingEpoch
    \<Rightarrow> u128 \<Rightarrow> u128 \<Rightarrow> EnrollBound option" where
  "EnrollBound_new conversation_id token participant_id attach_secret origin_binding_epoch
      receipt_expires_at provenance_expires_at =
    (if generation_get (be_capability_generation origin_binding_epoch) = 1
     then Some \<lparr>eb_conversation_id = conversation_id, eb_token = token, eb_participant_id = participant_id,
       eb_attach_secret = attach_secret, eb_origin_binding_epoch = origin_binding_epoch,
       eb_receipt_expires_at = receipt_expires_at, eb_provenance_expires_at = provenance_expires_at\<rparr>
     else None)"

record EnrollmentKnown =
  ek_conversation_id :: ConversationId
  ek_token :: EnrollmentToken
  ek_participant_id :: ParticipantId
  ek_current_generation :: Generation

datatype (plugins only: code size) ReceiptExpired =
    Enrollment ConversationId EnrollmentToken ParticipantId Generation Generation ReceiptExpiryReason
  | CredentialAttach ConversationId AttachAttemptToken ParticipantId Generation "DeliverySeq option"
      Generation Generation ReceiptExpiryReason

datatype (plugins only: code size) EnrollmentReceiptCapacityScope = LiveReceiptServer | ProvenanceServer | ProvenanceConversation

fun wire_scope :: "EnrollmentReceiptCapacityScope \<Rightarrow> ReceiptCapacityScope" where
  "wire_scope EnrollmentReceiptCapacityScope.LiveReceiptServer = ReceiptCapacityScope.LiveReceiptServer"
| "wire_scope EnrollmentReceiptCapacityScope.ProvenanceServer = ReceiptCapacityScope.ProvenanceServer"
| "wire_scope EnrollmentReceiptCapacityScope.ProvenanceConversation = ReceiptCapacityScope.ProvenanceConversation"

datatype (plugins only: code size) ReceiptCapacityExceeded =
    Enrollment EnrollmentEnvelope EnrollmentReceiptCapacityScope u64 u64
  | CredentialAttach AttachEnvelope ReceiptCapacityScope u64 u64

datatype (plugins only: code size) MarkerSettlementBackpressure =
    CredentialAttach ConversationId SettlementEpoch
  | Detach ConversationId SettlementEpoch

record EnrollmentSettlementBackpressure =
  esb_conversation_id :: ConversationId

record AttachBound =
  ab_conversation_id :: ConversationId
  ab_token :: AttachAttemptToken
  ab_participant_id :: ParticipantId
  ab_request_generation :: Generation
  ab_attach_secret :: AttachSecret
  ab_origin_binding_epoch :: BindingEpoch
  ab_persisted_cursor :: DeliverySeq
  ab_accepted_marker_delivery_seq :: "DeliverySeq option"
  ab_receipt_expires_at :: u128
  ab_provenance_expires_at :: u128

definition is_successor_generation :: "Generation \<Rightarrow> Generation \<Rightarrow> bool" where
  "is_successor_generation previous successor =
    (case checked_add (generation_get previous) 1 of
       Some expected \<Rightarrow> generation_get successor = expected
     | None \<Rightarrow> False)"

definition AttachBound_ordinary :: "ConversationId \<Rightarrow> AttachAttemptToken \<Rightarrow> ParticipantId \<Rightarrow> Generation
    \<Rightarrow> AttachSecret \<Rightarrow> BindingEpoch \<Rightarrow> DeliverySeq \<Rightarrow> u128 \<Rightarrow> u128 \<Rightarrow> AttachBound option" where
  "AttachBound_ordinary conversation_id token participant_id request_generation attach_secret
      origin_binding_epoch persisted_cursor receipt_expires_at provenance_expires_at =
    (if \<not> is_successor_generation request_generation (be_capability_generation origin_binding_epoch) then None
     else Some \<lparr>ab_conversation_id = conversation_id, ab_token = token, ab_participant_id = participant_id,
       ab_request_generation = request_generation, ab_attach_secret = attach_secret,
       ab_origin_binding_epoch = origin_binding_epoch, ab_persisted_cursor = persisted_cursor,
       ab_accepted_marker_delivery_seq = None, ab_receipt_expires_at = receipt_expires_at,
       ab_provenance_expires_at = provenance_expires_at\<rparr>)"

definition AttachBound_fenced :: "ConversationId \<Rightarrow> AttachAttemptToken \<Rightarrow> ParticipantId \<Rightarrow> Generation
    \<Rightarrow> AttachSecret \<Rightarrow> BindingEpoch \<Rightarrow> DeliverySeq \<Rightarrow> u128 \<Rightarrow> u128 \<Rightarrow> AttachBound option" where
  "AttachBound_fenced conversation_id token participant_id request_generation attach_secret
      origin_binding_epoch accepted_marker_delivery_seq receipt_expires_at provenance_expires_at =
    (if \<not> is_successor_generation request_generation (be_capability_generation origin_binding_epoch) then None
     else Some \<lparr>ab_conversation_id = conversation_id, ab_token = token, ab_participant_id = participant_id,
       ab_request_generation = request_generation, ab_attach_secret = attach_secret,
       ab_origin_binding_epoch = origin_binding_epoch, ab_persisted_cursor = accepted_marker_delivery_seq,
       ab_accepted_marker_delivery_seq = Some accepted_marker_delivery_seq,
       ab_receipt_expires_at = receipt_expires_at, ab_provenance_expires_at = provenance_expires_at\<rparr>)"

record StaleOrUnknownReceipt =
  sur_conversation_id :: ConversationId
  sur_token :: AttachAttemptToken
  sur_participant_id :: ParticipantId
  sur_presented_generation :: Generation
  sur_presented_marker_delivery_seq :: "DeliverySeq option"
  sur_current_generation :: Generation

record AttachMarkerProof =
  amp_conversation_id :: ConversationId
  amp_token :: AttachAttemptToken
  amp_participant_id :: ParticipantId
  amp_capability_generation :: Generation
  amp_requested_marker_delivery_seq :: DeliverySeq

record MarkerAckProof =
  map_conversation_id :: ConversationId
  map_participant_id :: ParticipantId
  map_capability_generation :: Generation
  map_requested_marker_delivery_seq :: DeliverySeq

datatype (plugins only: code size) MarkerProofRequest =
    CredentialAttach AttachMarkerProof
  | MarkerAck MarkerAckProof

record MarkerNotDelivered =
  mnd_request :: MarkerProofRequest
  mnd_reason :: MarkerNotDeliveredReason
  mnd_expected_marker_delivery_seq :: DeliverySeq

datatype (plugins only: code size) MarkerMismatchBody =
    BelowCursor DeliverySeq
  | NoMarkerExpected
  | ExpectedDifferentMarker DeliverySeq

fun MarkerMismatchBody_reason :: "MarkerMismatchBody \<Rightarrow> MarkerMismatchReason" where
  "MarkerMismatchBody_reason (MarkerMismatchBody.BelowCursor _) = MarkerMismatchReason.BelowCursor"
| "MarkerMismatchBody_reason MarkerMismatchBody.NoMarkerExpected = MarkerMismatchReason.NoMarkerExpected"
| "MarkerMismatchBody_reason (MarkerMismatchBody.ExpectedDifferentMarker _) =
    MarkerMismatchReason.ExpectedDifferentMarker"

record MarkerMismatch =
  mm_request :: MarkerProofRequest
  mm_mismatch :: MarkerMismatchBody

datatype (plugins only: code size) ReceiptReplay =
    Enrollment EnrollBound
  | CredentialAttach AttachBound

record DetachCommitted =
  dc_conversation_id :: ConversationId
  dc_participant_id :: ParticipantId
  dc_detach_attempt_token :: DetachAttemptToken
  dc_committed_binding_epoch :: BindingEpoch
  dc_detached_delivery_seq :: DeliverySeq

record DetachInProgress =
  dip_conversation_id :: ConversationId
  dip_participant_id :: ParticipantId
  dip_presented_token :: DetachAttemptToken
  dip_presented_generation :: Generation
  dip_committed_binding_epoch :: BindingEpoch

record AckCommitted =
  ac_request :: ParticipantAckEnvelope

datatype (plugins only: code size) AckNoOp =
    ParticipantAck ParticipantAckEnvelope
  | MarkerAck MarkerAckEnvelope

fun AckNoOp_current_cursor :: "AckNoOp \<Rightarrow> DeliverySeq" where
  "AckNoOp_current_cursor (AckNoOp.ParticipantAck request) = pae_through_seq request"
| "AckNoOp_current_cursor (AckNoOp.MarkerAck request) = mae_marker_delivery_seq request"

record AckGap =
  ag_request :: ParticipantAckEnvelope
  ag_current_cursor :: DeliverySeq

definition AckGap_new :: "ParticipantAckEnvelope \<Rightarrow> DeliverySeq \<Rightarrow> AckGap option" where
  "AckGap_new request current_cursor =
    (if pae_through_seq request > current_cursor
     then Some \<lparr>ag_request = request, ag_current_cursor = current_cursor\<rparr>
     else None)"

record AckRegression =
  ar_request :: ParticipantAckEnvelope
  ar_current_cursor :: DeliverySeq

definition AckRegression_new :: "ParticipantAckEnvelope \<Rightarrow> DeliverySeq \<Rightarrow> AckRegression option" where
  "AckRegression_new request current_cursor =
    (if pae_through_seq request < current_cursor
     then Some \<lparr>ar_request = request, ar_current_cursor = current_cursor\<rparr>
     else None)"

record LeaveCommitted =
  lc_conversation_id :: ConversationId
  lc_leave_attempt_token :: LeaveAttemptToken
  lc_participant_id :: ParticipantId
  lc_retired_generation :: Generation
  lc_ended_binding_epoch :: "BindingEpoch option"
  lc_prior_terminal_delivery_seq :: "DeliverySeq option"
  lc_left_delivery_seq :: DeliverySeq

definition LeaveCommitted_new :: "ConversationId \<Rightarrow> LeaveAttemptToken \<Rightarrow> ParticipantId \<Rightarrow> Generation
    \<Rightarrow> BindingEpoch option \<Rightarrow> DeliverySeq option \<Rightarrow> DeliverySeq \<Rightarrow> LeaveCommitted option" where
  "LeaveCommitted_new conversation_id leave_attempt_token participant_id retired_generation
      ended_binding_epoch prior_terminal_delivery_seq left_delivery_seq =
    (if (case ended_binding_epoch of
           Some epoch \<Rightarrow> generation_get (be_capability_generation epoch) \<noteq> generation_get retired_generation
         | None \<Rightarrow> False) then None
     else if (case prior_terminal_delivery_seq of
           Some prior \<Rightarrow> prior \<ge> left_delivery_seq
         | None \<Rightarrow> False) then None
     else Some \<lparr>lc_conversation_id = conversation_id, lc_leave_attempt_token = leave_attempt_token,
       lc_participant_id = participant_id, lc_retired_generation = retired_generation,
       lc_ended_binding_epoch = ended_binding_epoch,
       lc_prior_terminal_delivery_seq = prior_terminal_delivery_seq, lc_left_delivery_seq = left_delivery_seq\<rparr>)"

record MarkerAckCommitted =
  mac_request :: MarkerAckEnvelope

record RecordCommitted =
  rc_request :: RecordAdmissionEnvelope
  rc_delivery_seq :: DeliverySeq

record ObserverProgressStatus =
  ops_conversation_id :: ConversationId
  ops_refused_epoch :: ObserverEpoch
  ops_current_observer_progress :: DeliverySeq
  ops_armed :: bool
  ops_progressed :: bool

record ObserverRecoveryAccepted =
  ora_statuses :: "ObserverProgressStatus list"

datatype (plugins only: code size) InvalidObserverEpoch =
    ConversationUnknown ConversationId ObserverEpoch
  | EpochAhead ConversationId ObserverEpoch DeliverySeq

fun InvalidObserverEpoch_reason :: "InvalidObserverEpoch \<Rightarrow> InvalidObserverEpochReason" where
  "InvalidObserverEpoch_reason (InvalidObserverEpoch.ConversationUnknown _ _) =
    InvalidObserverEpochReason.ConversationUnknown"
| "InvalidObserverEpoch_reason (InvalidObserverEpoch.EpochAhead _ _ _) = InvalidObserverEpochReason.EpochAhead"

datatype (plugins only: code size) InvalidObserverEpochList =
    TooManyEntries u64 u64
  | DuplicateConversation ConversationId u64 u64

fun InvalidObserverEpochList_reason :: "InvalidObserverEpochList \<Rightarrow> InvalidObserverEpochListReason" where
  "InvalidObserverEpochList_reason (InvalidObserverEpochList.TooManyEntries _ _) =
    InvalidObserverEpochListReason.TooManyEntries"
| "InvalidObserverEpochList_reason (InvalidObserverEpochList.DuplicateConversation _ _ _) =
    InvalidObserverEpochListReason.DuplicateConversation"

datatype (plugins only: code size) ServerValue =
    ParticipantTransportRejected ParticipantTransportRejected
  | AttemptTokenBodyConflict AttemptTokenBodyConflict
  | ConnectionConversationCapacityExceeded ConnectionConversationCapacityExceeded
  | ConnectionConversationBindingOccupied ConnectionConversationBindingOccupied
  | ConversationOrderExhausted ConversationOrderExhausted
  | ParticipantUnknown ParticipantUnknown
  | NoBinding NoBinding
  | StaleAuthority StaleAuthority
  | Retired Retired
  | MarkerClosureCapacityExceeded MarkerClosureCapacityExceeded
  | EnrollBound EnrollBound
  | EnrollmentKnown EnrollmentKnown
  | ReceiptExpired ReceiptExpired
  | ReceiptCapacityExceeded ReceiptCapacityExceeded
  | IdentityCapacityExceeded IdentityCapacityExceeded
  | ObserverBackpressure ObserverBackpressure
  | ConversationSequenceExhausted ConversationSequenceExhausted
  | AttachBound AttachBound
  | StaleOrUnknownReceipt StaleOrUnknownReceipt
  | MarkerNotDelivered MarkerNotDelivered
  | MarkerMismatch MarkerMismatch
  | Bound ReceiptReplay
  | UnboundReceipt ReceiptReplay
  | DetachCommitted DetachCommitted
  | DetachInProgress DetachInProgress
  | AckCommitted AckCommitted
  | AckNoOp AckNoOp
  | AckGap AckGap
  | AckRegression AckRegression
  | LeaveCommitted LeaveCommitted
  | MarkerAckCommitted MarkerAckCommitted
  | RecordCommitted RecordCommitted
  | RecordTooLarge RecordTooLarge
  | ObserverRecoveryAccepted ObserverRecoveryAccepted
  | InvalidObserverEpoch InvalidObserverEpoch
  | InvalidObserverEpochList InvalidObserverEpochList
  | MarkerSettlementBackpressure MarkerSettlementBackpressure
  | EnrollmentSettlementBackpressure EnrollmentSettlementBackpressure

fun ServerValue_discriminant :: "ServerValue \<Rightarrow> ServerDiscriminant" where
  "ServerValue_discriminant (ServerValue.ParticipantTransportRejected _) =
    ServerDiscriminant.ParticipantTransportRejected"
| "ServerValue_discriminant (ServerValue.AttemptTokenBodyConflict _) =
    ServerDiscriminant.AttemptTokenBodyConflict"
| "ServerValue_discriminant (ServerValue.ConnectionConversationCapacityExceeded value) =
    (case value of
       ConnectionConversationCapacityExceeded.SemanticRequest _ _ \<Rightarrow> ServerDiscriminant.ConnectionConversationCapacityExceeded
     | ConnectionConversationCapacityExceeded.ObserverRecovery _ _ \<Rightarrow>
         ServerDiscriminant.ObserverRecoveryConnectionCapacityExceeded)"
| "ServerValue_discriminant (ServerValue.ConnectionConversationBindingOccupied _) =
    ServerDiscriminant.ConnectionConversationBindingOccupied"
| "ServerValue_discriminant (ServerValue.ConversationOrderExhausted _) =
    ServerDiscriminant.ConversationOrderExhausted"
| "ServerValue_discriminant (ServerValue.ParticipantUnknown _) = ServerDiscriminant.ParticipantUnknown"
| "ServerValue_discriminant (ServerValue.NoBinding _) = ServerDiscriminant.NoBinding"
| "ServerValue_discriminant (ServerValue.StaleAuthority _) = ServerDiscriminant.StaleAuthority"
| "ServerValue_discriminant (ServerValue.Retired _) = ServerDiscriminant.Retired"
| "ServerValue_discriminant (ServerValue.MarkerClosureCapacityExceeded _) =
    ServerDiscriminant.MarkerClosureCapacityExceeded"
| "ServerValue_discriminant (ServerValue.EnrollBound _) = ServerDiscriminant.EnrollBound"
| "ServerValue_discriminant (ServerValue.EnrollmentKnown _) = ServerDiscriminant.EnrollmentKnown"
| "ServerValue_discriminant (ServerValue.ReceiptExpired _) = ServerDiscriminant.ReceiptExpired"
| "ServerValue_discriminant (ServerValue.ReceiptCapacityExceeded _) =
    ServerDiscriminant.ReceiptCapacityExceeded"
| "ServerValue_discriminant (ServerValue.IdentityCapacityExceeded _) =
    ServerDiscriminant.IdentityCapacityExceeded"
| "ServerValue_discriminant (ServerValue.ObserverBackpressure _) = ServerDiscriminant.ObserverBackpressure"
| "ServerValue_discriminant (ServerValue.ConversationSequenceExhausted _) =
    ServerDiscriminant.ConversationSequenceExhausted"
| "ServerValue_discriminant (ServerValue.AttachBound _) = ServerDiscriminant.AttachBound"
| "ServerValue_discriminant (ServerValue.StaleOrUnknownReceipt _) = ServerDiscriminant.StaleOrUnknownReceipt"
| "ServerValue_discriminant (ServerValue.MarkerNotDelivered _) = ServerDiscriminant.MarkerNotDelivered"
| "ServerValue_discriminant (ServerValue.MarkerMismatch _) = ServerDiscriminant.MarkerMismatch"
| "ServerValue_discriminant (ServerValue.Bound _) = ServerDiscriminant.Bound"
| "ServerValue_discriminant (ServerValue.UnboundReceipt _) = ServerDiscriminant.UnboundReceipt"
| "ServerValue_discriminant (ServerValue.DetachCommitted _) = ServerDiscriminant.DetachCommitted"
| "ServerValue_discriminant (ServerValue.DetachInProgress _) = ServerDiscriminant.DetachInProgress"
| "ServerValue_discriminant (ServerValue.AckCommitted _) = ServerDiscriminant.AckCommitted"
| "ServerValue_discriminant (ServerValue.AckNoOp _) = ServerDiscriminant.AckNoOp"
| "ServerValue_discriminant (ServerValue.AckGap _) = ServerDiscriminant.AckGap"
| "ServerValue_discriminant (ServerValue.AckRegression _) = ServerDiscriminant.AckRegression"
| "ServerValue_discriminant (ServerValue.LeaveCommitted _) = ServerDiscriminant.LeaveCommitted"
| "ServerValue_discriminant (ServerValue.MarkerAckCommitted _) = ServerDiscriminant.MarkerAckCommitted"
| "ServerValue_discriminant (ServerValue.RecordCommitted _) = ServerDiscriminant.RecordCommitted"
| "ServerValue_discriminant (ServerValue.RecordTooLarge _) = ServerDiscriminant.RecordTooLarge"
| "ServerValue_discriminant (ServerValue.ObserverRecoveryAccepted _) =
    ServerDiscriminant.ObserverRecoveryAccepted"
| "ServerValue_discriminant (ServerValue.InvalidObserverEpoch _) = ServerDiscriminant.InvalidObserverEpoch"
| "ServerValue_discriminant (ServerValue.InvalidObserverEpochList _) =
    ServerDiscriminant.InvalidObserverEpochList"
| "ServerValue_discriminant (ServerValue.MarkerSettlementBackpressure _) =
    ServerDiscriminant.MarkerSettlementBackpressure"
| "ServerValue_discriminant (ServerValue.EnrollmentSettlementBackpressure _) =
    ServerDiscriminant.EnrollmentSettlementBackpressure"

fun participant_reference_origin :: "ParticipantReferenceEnvelope \<Rightarrow> ClientDiscriminant" where
  "participant_reference_origin (ParticipantReferenceEnvelope.CredentialAttach _) =
    ClientDiscriminant.CredentialAttachRequest"
| "participant_reference_origin (ParticipantReferenceEnvelope.Detach _) = ClientDiscriminant.DetachRequest"
| "participant_reference_origin (ParticipantReferenceEnvelope.ParticipantAck _) = ClientDiscriminant.ParticipantAck"
| "participant_reference_origin (ParticipantReferenceEnvelope.Leave _) = ClientDiscriminant.LeaveRequest"
| "participant_reference_origin (ParticipantReferenceEnvelope.MarkerAck _) = ClientDiscriminant.MarkerAck"
| "participant_reference_origin (ParticipantReferenceEnvelope.RecordAdmission _) = ClientDiscriminant.RecordAdmission"

fun binding_required_origin :: "BindingRequiredEnvelope \<Rightarrow> ClientDiscriminant" where
  "binding_required_origin (BindingRequiredEnvelope.Detach _) = ClientDiscriminant.DetachRequest"
| "binding_required_origin (BindingRequiredEnvelope.ParticipantAck _) = ClientDiscriminant.ParticipantAck"
| "binding_required_origin (BindingRequiredEnvelope.Leave _) = ClientDiscriminant.LeaveRequest"
| "binding_required_origin (BindingRequiredEnvelope.MarkerAck _) = ClientDiscriminant.MarkerAck"
| "binding_required_origin (BindingRequiredEnvelope.RecordAdmission _) = ClientDiscriminant.RecordAdmission"

fun stale_authority_origin :: "StaleAuthority \<Rightarrow> ClientDiscriminant" where
  "stale_authority_origin (StaleAuthority.Live request _) =
    (case request of
       CommonStaleAuthorityEnvelope.CredentialAttach _ \<Rightarrow> ClientDiscriminant.CredentialAttachRequest
     | CommonStaleAuthorityEnvelope.ParticipantAck _ \<Rightarrow> ClientDiscriminant.ParticipantAck
     | CommonStaleAuthorityEnvelope.MarkerAck _ \<Rightarrow> ClientDiscriminant.MarkerAck
     | CommonStaleAuthorityEnvelope.RecordAdmission _ \<Rightarrow> ClientDiscriminant.RecordAdmission)"
| "stale_authority_origin (StaleAuthority.Detach _) = ClientDiscriminant.DetachRequest"
| "stale_authority_origin (StaleAuthority.Leave _) = ClientDiscriminant.LeaveRequest"

fun marker_proof_origin :: "MarkerProofRequest \<Rightarrow> ClientDiscriminant" where
  "marker_proof_origin (MarkerProofRequest.CredentialAttach _) = ClientDiscriminant.CredentialAttachRequest"
| "marker_proof_origin (MarkerProofRequest.MarkerAck _) = ClientDiscriminant.MarkerAck"

fun originating_request :: "ServerValue \<Rightarrow> ClientDiscriminant option" where
  "originating_request (ServerValue.ParticipantTransportRejected _) = None"
| "originating_request (ServerValue.ObserverRecoveryAccepted _) = None"
| "originating_request (ServerValue.InvalidObserverEpoch _) = None"
| "originating_request (ServerValue.InvalidObserverEpochList _) = None"
| "originating_request (ServerValue.AttemptTokenBodyConflict value) =
    Some (case value of
       AttemptTokenBodyConflict.CredentialAttach _ _ _ _ _ _ \<Rightarrow> ClientDiscriminant.CredentialAttachRequest
     | AttemptTokenBodyConflict.Leave _ _ _ _ \<Rightarrow> ClientDiscriminant.LeaveRequest
     | AttemptTokenBodyConflict.RecordAdmission _ _ _ _ \<Rightarrow> ClientDiscriminant.RecordAdmission)"
| "originating_request (ServerValue.ConnectionConversationCapacityExceeded value) =
    (case value of
       ConnectionConversationCapacityExceeded.SemanticRequest request _ \<Rightarrow>
         Some (ResponseEnvelope_originating_request request)
     | ConnectionConversationCapacityExceeded.ObserverRecovery _ _ \<Rightarrow> None)"
| "originating_request (ServerValue.ConnectionConversationBindingOccupied value) =
    Some (case value of
       OccupiedEnrollment _ _ \<Rightarrow> ClientDiscriminant.EnrollmentRequest
     | OccupiedCredentialAttach _ _ _ _ _ \<Rightarrow> ClientDiscriminant.CredentialAttachRequest)"
| "originating_request (ServerValue.ConversationOrderExhausted value) =
    Some (case coe_request value of
       OrderEnrollment _ \<Rightarrow> ClientDiscriminant.EnrollmentRequest
     | OrderCredentialAttach _ \<Rightarrow> ClientDiscriminant.CredentialAttachRequest
     | OrderRecordAdmission _ \<Rightarrow> ClientDiscriminant.RecordAdmission)"
| "originating_request (ServerValue.ParticipantUnknown value) = Some (participant_reference_origin (pu_request value))"
| "originating_request (ServerValue.NoBinding value) = Some (binding_required_origin (nb_request value))"
| "originating_request (ServerValue.StaleAuthority value) = Some (stale_authority_origin value)"
| "originating_request (ServerValue.Retired value) =
    Some (case value of
       Retired.Enrollment _ _ _ \<Rightarrow> ClientDiscriminant.EnrollmentRequest
     | Retired.Participant request _ \<Rightarrow> participant_reference_origin request)"
| "originating_request (ServerValue.MarkerClosureCapacityExceeded value) =
    Some (case mcc_request value of
       ClosureCheckedEnvelope.Enrollment _ \<Rightarrow> ClientDiscriminant.EnrollmentRequest
     | ClosureCheckedEnvelope.CredentialAttach _ \<Rightarrow> ClientDiscriminant.CredentialAttachRequest
     | ClosureCheckedEnvelope.Leave _ \<Rightarrow> ClientDiscriminant.LeaveRequest
     | ClosureCheckedEnvelope.RecordAdmission _ \<Rightarrow> ClientDiscriminant.RecordAdmission)"
| "originating_request (ServerValue.EnrollBound _) = Some ClientDiscriminant.EnrollmentRequest"
| "originating_request (ServerValue.EnrollmentKnown _) = Some ClientDiscriminant.EnrollmentRequest"
| "originating_request (ServerValue.IdentityCapacityExceeded _) = Some ClientDiscriminant.EnrollmentRequest"
| "originating_request (ServerValue.EnrollmentSettlementBackpressure _) = Some ClientDiscriminant.EnrollmentRequest"
| "originating_request (ServerValue.ReceiptExpired value) =
    Some (case value of
       ReceiptExpired.Enrollment _ _ _ _ _ _ \<Rightarrow> ClientDiscriminant.EnrollmentRequest
     | ReceiptExpired.CredentialAttach _ _ _ _ _ _ _ _ \<Rightarrow> ClientDiscriminant.CredentialAttachRequest)"
| "originating_request (ServerValue.ReceiptCapacityExceeded value) =
    Some (case value of
       ReceiptCapacityExceeded.Enrollment _ _ _ _ \<Rightarrow> ClientDiscriminant.EnrollmentRequest
     | ReceiptCapacityExceeded.CredentialAttach _ _ _ _ \<Rightarrow> ClientDiscriminant.CredentialAttachRequest)"
| "originating_request (ServerValue.ObserverBackpressure value) =
    Some (case value of
       BackpressureEnrollment _ _ \<Rightarrow> ClientDiscriminant.EnrollmentRequest
     | BackpressureCredentialAttach _ _ \<Rightarrow> ClientDiscriminant.CredentialAttachRequest
     | BackpressureDetach _ _ _ \<Rightarrow> ClientDiscriminant.DetachRequest
     | BackpressureLeave _ _ _ \<Rightarrow> ClientDiscriminant.LeaveRequest
     | BackpressureRecordAdmission _ _ \<Rightarrow> ClientDiscriminant.RecordAdmission)"
| "originating_request (ServerValue.ConversationSequenceExhausted value) =
    Some (case cse_request value of
       SequenceEnrollment _ \<Rightarrow> ClientDiscriminant.EnrollmentRequest
     | SequenceCredentialAttach _ \<Rightarrow> ClientDiscriminant.CredentialAttachRequest
     | SequenceRecordAdmission _ \<Rightarrow> ClientDiscriminant.RecordAdmission)"
| "originating_request (ServerValue.AttachBound _) = Some ClientDiscriminant.CredentialAttachRequest"
| "originating_request (ServerValue.StaleOrUnknownReceipt _) = Some ClientDiscriminant.CredentialAttachRequest"
| "originating_request (ServerValue.MarkerNotDelivered value) = Some (marker_proof_origin (mnd_request value))"
| "originating_request (ServerValue.MarkerMismatch value) = Some (marker_proof_origin (mm_request value))"
| "originating_request (ServerValue.Bound value) =
    Some (case value of
       ReceiptReplay.Enrollment _ \<Rightarrow> ClientDiscriminant.EnrollmentRequest
     | ReceiptReplay.CredentialAttach _ \<Rightarrow> ClientDiscriminant.CredentialAttachRequest)"
| "originating_request (ServerValue.UnboundReceipt value) =
    Some (case value of
       ReceiptReplay.Enrollment _ \<Rightarrow> ClientDiscriminant.EnrollmentRequest
     | ReceiptReplay.CredentialAttach _ \<Rightarrow> ClientDiscriminant.CredentialAttachRequest)"
| "originating_request (ServerValue.DetachCommitted _) = Some ClientDiscriminant.DetachRequest"
| "originating_request (ServerValue.DetachInProgress _) = Some ClientDiscriminant.DetachRequest"
| "originating_request (ServerValue.AckCommitted _) = Some ClientDiscriminant.ParticipantAck"
| "originating_request (ServerValue.AckGap _) = Some ClientDiscriminant.ParticipantAck"
| "originating_request (ServerValue.AckRegression _) = Some ClientDiscriminant.ParticipantAck"
| "originating_request (ServerValue.AckNoOp value) =
    Some (case value of
       AckNoOp.ParticipantAck _ \<Rightarrow> ClientDiscriminant.ParticipantAck
     | AckNoOp.MarkerAck _ \<Rightarrow> ClientDiscriminant.MarkerAck)"
| "originating_request (ServerValue.LeaveCommitted _) = Some ClientDiscriminant.LeaveRequest"
| "originating_request (ServerValue.MarkerAckCommitted _) = Some ClientDiscriminant.MarkerAck"
| "originating_request (ServerValue.RecordCommitted _) = Some ClientDiscriminant.RecordAdmission"
| "originating_request (ServerValue.RecordTooLarge _) = Some ClientDiscriminant.RecordAdmission"
| "originating_request (ServerValue.MarkerSettlementBackpressure value) =
    Some (case value of
       MarkerSettlementBackpressure.CredentialAttach _ _ \<Rightarrow> ClientDiscriminant.CredentialAttachRequest
     | MarkerSettlementBackpressure.Detach _ _ \<Rightarrow> ClientDiscriminant.DetachRequest)"

definition PARTICIPANT_CAPABILITY :: rstring where
  "PARTICIPANT_CAPABILITY = lit ''participant-v1''"

section \<open>Server pushes (push.rs, tags.rs)\<close>

datatype (plugins only: code size) CloseCause =
    CleanDeregister
  | ConnectionLost
  | ProcessKilled
  | ProtocolError
  | Superseded
  | ServerShutdown
  | UncleanServerRestart u64

fun CloseCause_tag :: "CloseCause \<Rightarrow> CloseCauseTag" where
  "CloseCause_tag CloseCause.CleanDeregister = CloseCauseTag.CleanDeregister"
| "CloseCause_tag CloseCause.ConnectionLost = CloseCauseTag.ConnectionLost"
| "CloseCause_tag CloseCause.ProcessKilled = CloseCauseTag.ProcessKilled"
| "CloseCause_tag CloseCause.ProtocolError = CloseCauseTag.ProtocolError"
| "CloseCause_tag CloseCause.Superseded = CloseCauseTag.Superseded"
| "CloseCause_tag CloseCause.ServerShutdown = CloseCauseTag.ServerShutdown"
| "CloseCause_tag (CloseCause.UncleanServerRestart _) = CloseCauseTag.UncleanServerRestart"

datatype (plugins only: code size) DetachedCause = CleanDeregister | Superseded | ServerShutdown

fun DetachedCause_close_cause :: "DetachedCause \<Rightarrow> CloseCause" where
  "DetachedCause_close_cause DetachedCause.CleanDeregister = CloseCause.CleanDeregister"
| "DetachedCause_close_cause DetachedCause.Superseded = CloseCause.Superseded"
| "DetachedCause_close_cause DetachedCause.ServerShutdown = CloseCause.ServerShutdown"

datatype (plugins only: code size) DiedCause = ConnectionLost | ProcessKilled | ProtocolError | UncleanServerRestart u64

fun DiedCause_close_cause :: "DiedCause \<Rightarrow> CloseCause" where
  "DiedCause_close_cause DiedCause.ConnectionLost = CloseCause.ConnectionLost"
| "DiedCause_close_cause DiedCause.ProcessKilled = CloseCause.ProcessKilled"
| "DiedCause_close_cause DiedCause.ProtocolError = CloseCause.ProtocolError"
| "DiedCause_close_cause (DiedCause.UncleanServerRestart prior) = CloseCause.UncleanServerRestart prior"

datatype (plugins only: code size) ParticipantRecord =
    OrdinaryRecord ParticipantId "u8 list"
  | Attached ParticipantId BindingEpoch
  | Detached ParticipantId BindingEpoch DetachedCause
  | Died ParticipantId BindingEpoch DiedCause
  | Left ParticipantId "BindingEpoch option"
  | HistoryCompacted ParticipantId DeliverySeq DeliverySeq DeliverySeq

fun record_kind :: "ParticipantRecord \<Rightarrow> RecordKind" where
  "record_kind (ParticipantRecord.OrdinaryRecord _ _) = RecordKind.OrdinaryRecord"
| "record_kind (ParticipantRecord.Attached _ _) = RecordKind.Attached"
| "record_kind (ParticipantRecord.Detached _ _ _) = RecordKind.Detached"
| "record_kind (ParticipantRecord.Died _ _ _) = RecordKind.Died"
| "record_kind (ParticipantRecord.Left _ _) = RecordKind.Left"
| "record_kind (ParticipantRecord.HistoryCompacted _ _ _ _) = RecordKind.HistoryCompacted"

record ParticipantDelivery =
  pd_conversation_id :: ConversationId
  pd_delivery_seq :: DeliverySeq
  pd_record :: ParticipantRecord

datatype (plugins only: code size) ServerPush =
    ObserverProgressed ConversationId ObserverEpoch DeliverySeq
  | ParticipantDelivery ParticipantDelivery
  | MarkerSettled ConversationId SettlementEpoch

fun ServerPush_discriminant :: "ServerPush \<Rightarrow> PushDiscriminant" where
  "ServerPush_discriminant (ServerPush.ObserverProgressed _ _ _) = PushDiscriminant.ObserverProgressed"
| "ServerPush_discriminant (ServerPush.ParticipantDelivery _) = PushDiscriminant.ParticipantDelivery"
| "ServerPush_discriminant (ServerPush.MarkerSettled _ _) = PushDiscriminant.MarkerSettled"

end
