(* ===== verification/Wire_Decoder.thy ===== *)
theory Wire_Decoder
  imports Wire_Values
begin

text \<open>
  The byte-level half of the participant codec: \<open>CodecError\<close> (\<open>codec.rs\<close>), the \<open>Encoder\<close> and the
  \<open>Decoder\<close> of \<open>server_codec.rs\<close> with their primitive operations, and a calculus of parsers.

  The \<open>Decoder\<close> carries a sticky \<open>invalid_field\<close> flag: a semantic error (a zero generation, a wrong
  echo of a field) is recorded and decoding goes on, so that a truncated frame is reported as
  truncated; \<open>finish\<close> rejects the value at the end. \<open>parses t R\<close> says that the taker \<open>t\<close> recognises
  exactly the encodings described by \<open>R\<close>: whatever it reads without raising the flag is related by
  \<open>R\<close>, it reads every related byte string whatever follows, and it never lowers the flag. The rules
  \<open>parse_intros\<close> build such a statement along the structure of a taker.
\<close>

section \<open>Errors (codec.rs)\<close>

datatype (plugins only: code size) CodecError =
    NotParticipantFrame u8
  | Decode DecodeClass
  | UnsupportedVersionError ProtocolVersion ProtocolVersion
  | OutputTooSmall nat nat
  | LengthOverflow
  | InvalidValue
  | InvalidFrameLimit u64

abbreviation decode_error :: "DecodeClass \<Rightarrow> CodecError" where
  "decode_error class \<equiv> Decode class"

section \<open>Encoder (server_codec.rs)\<close>

text \<open>The encoder's state is the byte vector written so far; only \<open>put_string\<close> can fail.\<close>

type_synonym Encoder = "u8 list"

definition put_u8 :: "u8 \<Rightarrow> Encoder \<Rightarrow> Encoder" where
  "put_u8 value encoder = encoder @ [value]"

definition put_u16 :: "u16 \<Rightarrow> Encoder \<Rightarrow> Encoder" where
  "put_u16 value encoder = encoder @ be_bytes 2 (unat value)"

definition put_u32 :: "u32 \<Rightarrow> Encoder \<Rightarrow> Encoder" where
  "put_u32 value encoder = encoder @ be_bytes 4 (unat value)"

definition put_u64 :: "u64 \<Rightarrow> Encoder \<Rightarrow> Encoder" where
  "put_u64 value encoder = encoder @ be_bytes 8 (unat value)"

definition put_u128 :: "u128 \<Rightarrow> Encoder \<Rightarrow> Encoder" where
  "put_u128 value encoder = encoder @ be_bytes 16 (unat value)"

definition put_fixed :: "u8 list \<Rightarrow> Encoder \<Rightarrow> Encoder" where
  "put_fixed value encoder = encoder @ value"

definition put_bool :: "bool \<Rightarrow> Encoder \<Rightarrow> Encoder" where
  "put_bool value encoder = put_u8 (if value then 1 else 0) encoder"

definition put_generation :: "Generation \<Rightarrow> Encoder \<Rightarrow> Encoder" where
  "put_generation value encoder = put_u64 (generation_get value) encoder"

definition put_binding_epoch :: "BindingEpoch \<Rightarrow> Encoder \<Rightarrow> Encoder" where
  "put_binding_epoch value encoder =
    (let encoder = put_u64 (ci_server_incarnation (be_connection_incarnation value)) encoder;
         encoder = put_u64 (ci_connection_ordinal (be_connection_incarnation value)) encoder
     in put_generation (be_capability_generation value) encoder)"

text \<open>The three \<open>put_option_*\<close> methods share this body.\<close>

definition put_option :: "('a \<Rightarrow> Encoder \<Rightarrow> Encoder) \<Rightarrow> 'a option \<Rightarrow> Encoder \<Rightarrow> Encoder" where
  "put_option put value encoder =
    (case value of
       Some value \<Rightarrow> put value (put_u8 1 encoder)
     | None \<Rightarrow> put_u8 0 encoder)"

definition put_option_u64 :: "u64 option \<Rightarrow> Encoder \<Rightarrow> Encoder" where
  "put_option_u64 = put_option put_u64"

definition put_option_generation :: "Generation option \<Rightarrow> Encoder \<Rightarrow> Encoder" where
  "put_option_generation = put_option put_generation"

definition put_option_binding_epoch :: "BindingEpoch option \<Rightarrow> Encoder \<Rightarrow> Encoder" where
  "put_option_binding_epoch = put_option put_binding_epoch"

definition put_protocol_version :: "ProtocolVersion \<Rightarrow> Encoder \<Rightarrow> Encoder" where
  "put_protocol_version value encoder =
    (let encoder = put_u16 (pv_major value) encoder in put_u16 (pv_minor value) encoder)"

definition put_resource_vector :: "ResourceVector \<Rightarrow> Encoder \<Rightarrow> Encoder" where
  "put_resource_vector value encoder =
    (let encoder = put_u64 (rv_entries value) encoder in put_u64 (rv_bytes value) encoder)"

definition put_wide_resource_vector :: "WideResourceVector \<Rightarrow> Encoder \<Rightarrow> Encoder" where
  "put_wide_resource_vector value encoder =
    (let encoder = put_u128 (wv_entries value) encoder in put_u128 (wv_bytes value) encoder)"

definition u32_from_len :: "nat \<Rightarrow> (CodecError, u32) result" where
  "u32_from_len n = (if n \<le> U32_MAX then Ok (of_nat n) else Err LengthOverflow)"

definition u64_from_len :: "nat \<Rightarrow> (CodecError, u64) result" where
  "u64_from_len n = (if n \<le> U64_MAX then Ok (of_nat n) else Err LengthOverflow)"

definition put_string :: "rstring \<Rightarrow> Encoder \<Rightarrow> (CodecError, Encoder) result" where
  "put_string value encoder =
    andThen (u32_from_len (length value)) (\<lambda>len.
    Ok (put_fixed value (put_u32 len encoder)))"

section \<open>Decoder (server_codec.rs)\<close>

record Decoder =
  d_input :: "u8 list"
  d_position :: nat
  d_invalid_field :: bool

type_synonym 'a taker = "Decoder \<Rightarrow> (CodecError, 'a \<times> Decoder) result"

definition Decoder_new :: "u8 list \<Rightarrow> Decoder" where
  "Decoder_new input = \<lparr>d_input = input, d_position = 0, d_invalid_field = False\<rparr>"

definition d_remaining :: "Decoder \<Rightarrow> nat" where
  "d_remaining d = length (d_input d) - d_position d"

text \<open>Sequencing with the question-mark operator, a plain value, a raised error, and
  \<open>if condition { decoder.invalidate(); }\<close>.\<close>

definition thenTake :: "'a taker \<Rightarrow> ('a \<Rightarrow> 'b taker) \<Rightarrow> 'b taker" where
  "thenTake t f d = andThen (t d) (\<lambda>(x, d). f x d)"

definition give :: "'a \<Rightarrow> 'a taker" where
  "give x d = Ok (x, d)"

definition raise :: "CodecError \<Rightarrow> 'a taker" where
  "raise e d = Err e"

definition invalidate_if :: "bool \<Rightarrow> unit taker" where
  "invalidate_if condition d = Ok ((), if condition then d\<lparr>d_invalid_field := True\<rparr> else d)"

definition give_some :: "'a option \<Rightarrow> CodecError \<Rightarrow> 'a taker" where
  "give_some x e d = andThen (ok_or x e) (\<lambda>x. Ok (x, d))"

definition take_map :: "('a \<Rightarrow> 'b) \<Rightarrow> 'a taker \<Rightarrow> 'b taker" where
  "take_map f t = thenTake t (\<lambda>x. give (f x))"

definition take_slice :: "nat \<Rightarrow> u8 list taker" where
  "take_slice n d =
    andThen (ok_or (checked_add_usize (d_position d) n) (decode_error DecodeClass.MissingRequiredField)) (\<lambda>end_position.
    if end_position \<le> length (d_input d)
    then Ok (take n (drop (d_position d) (d_input d)), d\<lparr>d_position := end_position\<rparr>)
    else Err (decode_error DecodeClass.MissingRequiredField))"

definition take_fixed :: "nat \<Rightarrow> u8 list taker" where
  "take_fixed n = take_slice n"

definition take_u8 :: "u8 taker" where
  "take_u8 = take_map (\<lambda>bs. of_nat (be_value bs)) (take_slice 1)"

definition take_u16 :: "u16 taker" where
  "take_u16 = take_map (\<lambda>bs. of_nat (be_value bs)) (take_slice 2)"

definition take_u32 :: "u32 taker" where
  "take_u32 = take_map (\<lambda>bs. of_nat (be_value bs)) (take_slice 4)"

definition take_u64 :: "u64 taker" where
  "take_u64 = take_map (\<lambda>bs. of_nat (be_value bs)) (take_slice 8)"

definition take_u128 :: "u128 taker" where
  "take_u128 = take_map (\<lambda>bs. of_nat (be_value bs)) (take_slice 16)"

definition take_bool :: "bool taker" where
  "take_bool = thenTake take_u8 (\<lambda>b.
    if b = 0 then give False
    else if b = 1 then give True
    else raise (decode_error DecodeClass.InvalidField))"

definition take_generation :: "Generation taker" where
  "take_generation = thenTake take_u64 (\<lambda>raw.
    case Generation_new raw of
      Some value \<Rightarrow> give value
    | None \<Rightarrow> thenTake (invalidate_if True) (\<lambda>_. give_some (Generation_new 1) InvalidValue))"

text \<open>The three \<open>take_option_*\<close> methods share this body.\<close>

definition take_option :: "'a taker \<Rightarrow> 'a option taker" where
  "take_option t = thenTake take_u8 (\<lambda>b.
    if b = 0 then give None
    else if b = 1 then take_map Some t
    else raise (decode_error DecodeClass.InvalidField))"

definition take_option_u64 :: "u64 option taker" where
  "take_option_u64 = take_option take_u64"

definition take_option_generation :: "Generation option taker" where
  "take_option_generation = take_option take_generation"

definition take_binding_epoch :: "BindingEpoch taker" where
  "take_binding_epoch =
    thenTake take_u64 (\<lambda>server_incarnation.
    thenTake take_u64 (\<lambda>connection_ordinal.
    thenTake take_generation (\<lambda>capability_generation.
    give \<lparr>be_connection_incarnation = \<lparr>ci_server_incarnation = server_incarnation,
            ci_connection_ordinal = connection_ordinal\<rparr>,
          be_capability_generation = capability_generation\<rparr>)))"

definition take_option_binding_epoch :: "BindingEpoch option taker" where
  "take_option_binding_epoch = take_option take_binding_epoch"

definition take_protocol_version :: "ProtocolVersion taker" where
  "take_protocol_version =
    thenTake take_u16 (\<lambda>major. thenTake take_u16 (\<lambda>minor. give \<lparr>pv_major = major, pv_minor = minor\<rparr>))"

definition take_resource_vector :: "ResourceVector taker" where
  "take_resource_vector =
    thenTake take_u64 (\<lambda>entries. thenTake take_u64 (\<lambda>bytes. give \<lparr>rv_entries = entries, rv_bytes = bytes\<rparr>))"

definition take_wide_resource_vector :: "WideResourceVector taker" where
  "take_wide_resource_vector =
    thenTake take_u128 (\<lambda>entries. thenTake take_u128 (\<lambda>bytes. give \<lparr>wv_entries = entries, wv_bytes = bytes\<rparr>))"

text \<open>\<open>usize::try_from(u32)\<close> always succeeds on the 64-bit targets.\<close>

definition take_string :: "rstring taker" where
  "take_string =
    thenTake take_u32 (\<lambda>len.
    thenTake (take_slice (unat len)) (\<lambda>bytes.
    if utf8_valid bytes then give bytes
    else thenTake (invalidate_if True) (\<lambda>_. give [])))"

definition take_tag :: "(u16 \<Rightarrow> 'a option) \<Rightarrow> 'a taker" where
  "take_tag try_from = thenTake take_u16 (\<lambda>raw. give_some (try_from raw) (decode_error DecodeClass.InvalidField))"

definition Decoder_finish :: "Decoder \<Rightarrow> (CodecError, unit) result" where
  "Decoder_finish d =
    (if d_remaining d \<noteq> 0 then Err (decode_error DecodeClass.CanonicalEncoding)
     else if d_invalid_field d then Err (decode_error DecodeClass.InvalidField)
     else Ok ())"

text \<open>A loop that takes \<open>n\<close> items and pushes them onto a vector.\<close>

fun take_times :: "nat \<Rightarrow> 'a taker \<Rightarrow> 'a list taker" where
  "take_times 0 t = give []"
| "take_times (Suc n) t = thenTake t (\<lambda>x. take_map (Cons x) (take_times n t))"

section \<open>Parsers that recognise exactly the encodings of a relation\<close>

definition dec_at :: "u8 list \<Rightarrow> u8 list \<Rightarrow> bool \<Rightarrow> Decoder" where
  "dec_at pre suf flag = \<lparr>d_input = pre @ suf, d_position = length pre, d_invalid_field = flag\<rparr>"

definition parse_sound :: "'a taker \<Rightarrow> ('a \<Rightarrow> u8 list \<Rightarrow> bool) \<Rightarrow> bool" where
  "parse_sound t R \<longleftrightarrow>
    (\<forall>pre suf flag x d. t (dec_at pre suf flag) = Ok (x, d) \<longrightarrow>
      (\<exists>bs rest flag'. suf = bs @ rest \<and> d = dec_at (pre @ bs) rest flag' \<and> (flag \<longrightarrow> flag') \<and> (flag' \<or> R x bs)))"

definition parse_complete :: "'a taker \<Rightarrow> ('a \<Rightarrow> u8 list \<Rightarrow> bool) \<Rightarrow> bool" where
  "parse_complete t R \<longleftrightarrow>
    (\<forall>pre bs rest x. R x bs \<longrightarrow> length (pre @ bs @ rest) \<le> USIZE_MAX \<longrightarrow>
      t (dec_at pre (bs @ rest) False) = Ok (x, dec_at (pre @ bs) rest False))"

definition parses :: "'a taker \<Rightarrow> ('a \<Rightarrow> u8 list \<Rightarrow> bool) \<Rightarrow> bool" where
  "parses t R \<longleftrightarrow> parse_sound t R \<and> parse_complete t R"

named_theorems parse_intros \<open>parsers of the wire primitives and their composition\<close>

lemma parsesI:
  assumes "\<And>pre suf flag x d. t (dec_at pre suf flag) = Ok (x, d) \<Longrightarrow>
      \<exists>bs rest flag'. suf = bs @ rest \<and> d = dec_at (pre @ bs) rest flag' \<and> (flag \<longrightarrow> flag') \<and> (flag' \<or> R x bs)"
    and "\<And>pre bs rest x. R x bs \<Longrightarrow> length (pre @ bs @ rest) \<le> USIZE_MAX \<Longrightarrow>
      t (dec_at pre (bs @ rest) False) = Ok (x, dec_at (pre @ bs) rest False)"
  shows "parses t R"
  using assms unfolding parses_def parse_sound_def parse_complete_def by blast

lemma parses_soundE:
  assumes "parses t R" and "t (dec_at pre suf flag) = Ok (x, d)"
  obtains bs rest flag' where "suf = bs @ rest" "d = dec_at (pre @ bs) rest flag'" "flag \<longrightarrow> flag'" "flag' \<or> R x bs"
  using assms unfolding parses_def parse_sound_def by blast

lemma parses_complete:
  assumes "parses t R" and "R x bs" and "length (pre @ bs @ rest) \<le> USIZE_MAX"
  shows "t (dec_at pre (bs @ rest) False) = Ok (x, dec_at (pre @ bs) rest False)"
  using assms unfolding parses_def parse_complete_def by blast

lemma parses_cong:
  assumes "parses t R" and "\<And>x bs. R x bs \<longleftrightarrow> S x bs"
  shows "parses t S"
proof -
  have "R = S" using assms(2) by blast
  with assms(1) show ?thesis by simp
qed

lemma parses_empty:
  assumes "\<And>d x d'. t d = Ok (x, d') \<Longrightarrow> d' = d \<and> P x" and "\<And>d x. P x \<Longrightarrow> t d = Ok (x, d)"
  shows "parses t (\<lambda>x bs. P x \<and> bs = [])"
proof (rule parsesI, goal_cases)
  case (1 pre suf flag x d)
  from assms(1) [OF 1] show ?case
    by (intro exI [of _ "[]"] exI [of _ suf] exI [of _ flag]) simp
qed (simp add: assms(2))

lemma parses_give [parse_intros]: "parses (give y) (\<lambda>x bs. x = y \<and> bs = [])"
  by (rule parses_empty) (auto simp: give_def)

lemma parses_raise [parse_intros]: "parses (raise e) (\<lambda>x bs. False)"
  by (rule parsesI) (auto simp: raise_def)

lemma parses_give_some [parse_intros]: "parses (give_some v e) (\<lambda>x bs. v = Some x \<and> bs = [])"
  by (rule parses_empty) (auto simp: give_some_def result_simps)

lemma parses_invalidate_if [parse_intros]: "parses (invalidate_if c) (\<lambda>x bs. \<not> c \<and> bs = [])"
proof (rule parsesI, goal_cases)
  case (1 pre suf flag x d)
  then have "d = dec_at (pre @ []) suf (flag \<or> c)" by (auto simp: invalidate_if_def dec_at_def)
  then show ?case by (intro exI [of _ "[]"] exI [of _ suf] exI [of _ "flag \<or> c"]) auto
qed (auto simp: invalidate_if_def)

lemma parses_thenTake [parse_intros]:
  assumes t: "parses t R" and f: "\<And>x. parses (f x) (S x)"
  shows "parses (thenTake t f) (\<lambda>y bs. \<exists>x bs1 bs2. bs = bs1 @ bs2 \<and> R x bs1 \<and> S x y bs2)"
proof (rule parsesI, goal_cases)
  case (1 pre suf flag y d)
  then obtain x d1 where x: "t (dec_at pre suf flag) = Ok (x, d1)" and y: "f x d1 = Ok (y, d)"
    by (auto simp: thenTake_def result_simps)
  from parses_soundE [OF t x] obtain bs1 rest1 flag1 where 1: "suf = bs1 @ rest1"
    "d1 = dec_at (pre @ bs1) rest1 flag1" "flag \<longrightarrow> flag1" "flag1 \<or> R x bs1" .
  from parses_soundE [OF f y [unfolded 1(2)]] obtain bs2 rest2 flag2 where 2: "rest1 = bs2 @ rest2"
    "d = dec_at ((pre @ bs1) @ bs2) rest2 flag2" "flag1 \<longrightarrow> flag2" "flag2 \<or> S x y bs2" .
  show ?case
    by (rule exI [of _ "bs1 @ bs2"], rule exI [of _ rest2], rule exI [of _ flag2]) (use 1 2 in auto)
next
  case (2 pre bs rest y)
  then obtain x bs1 bs2 where x: "bs = bs1 @ bs2" "R x bs1" "S x y bs2" by auto
  have "t (dec_at pre (bs1 @ (bs2 @ rest)) False) = Ok (x, dec_at (pre @ bs1) (bs2 @ rest) False)"
    by (rule parses_complete [OF t x(2)]) (use 2 x in auto)
  moreover have "f x (dec_at (pre @ bs1) (bs2 @ rest) False) = Ok (y, dec_at ((pre @ bs1) @ bs2) rest False)"
    by (rule parses_complete [OF f x(3)]) (use 2 x in auto)
  ultimately show ?case by (simp add: thenTake_def x(1))
qed

lemma thenTake_assoc: "thenTake (thenTake t f) g = thenTake t (\<lambda>x. thenTake (f x) g)"
  by (simp add: thenTake_def fun_eq_iff andThen_def split: sum.split)

lemma parses_take_map [parse_intros]:
  assumes "parses t R"
  shows "parses (take_map f t) (\<lambda>y bs. \<exists>x. R x bs \<and> y = f x)"
  unfolding take_map_def
  by (rule parses_cong, rule parses_thenTake, rule assms, rule parses_give) auto

lemma parses_if [parse_intros]:
  assumes "c \<Longrightarrow> parses t R" and "\<not> c \<Longrightarrow> parses u S"
  shows "parses (if c then t else u) (\<lambda>x bs. if c then R x bs else S x bs)"
  using assms by (cases c) simp_all

lemma if_reject [simp]:
  "(if c then P else False) \<longleftrightarrow> c \<and> P" "(if c then False else P) \<longleftrightarrow> \<not> c \<and> P"
  by simp_all

lemma parses_case_option [parse_intros]:
  assumes "o' = None \<Longrightarrow> parses t R" and "\<And>v. o' = Some v \<Longrightarrow> parses (u v) (S v)"
  shows "parses (case o' of None \<Rightarrow> t | Some v \<Rightarrow> u v)
    (\<lambda>x bs. case o' of None \<Rightarrow> R x bs | Some v \<Rightarrow> S v x bs)"
  using assms by (cases o') simp_all

subsection \<open>Primitive takers\<close>

lemma parses_take_slice [parse_intros]: "parses (take_slice n) (\<lambda>x bs. bs = x \<and> length x = n)"
proof (rule parsesI, goal_cases)
  case (1 pre suf flag x d)
  then have n: "n \<le> length suf" and x: "x = take n suf"
    and d: "d = (dec_at pre suf flag)\<lparr>d_position := length pre + n\<rparr>"
    by (auto simp: take_slice_def dec_at_def result_simps checked_add_usize_def split: if_splits)
  from d n have "d = dec_at (pre @ take n suf) (drop n suf) flag" by (simp add: dec_at_def)
  with n x show ?case by (intro exI [of _ "take n suf"] exI [of _ "drop n suf"] exI [of _ flag]) simp
next
  case (2 pre bs rest x)
  then show ?case by (simp add: take_slice_def dec_at_def checked_add_usize_def)
qed

lemma parses_take_fixed [parse_intros]: "parses (take_fixed n) (\<lambda>x bs. bs = x \<and> length x = n)"
  unfolding take_fixed_def by (rule parses_take_slice)

lemma be_value_word_iff:
  "(\<exists>bs'. bs = bs' \<and> length bs' = n \<and> x = (of_nat (be_value bs') :: 'a::len word)) \<longleftrightarrow> bs = be_bytes n (unat x)"
  if "LENGTH('a) = 8 * n"
proof -
  have pow: "256 ^ n = (2 :: nat) ^ LENGTH('a)"
    by (simp add: that power_mult)
  have "be_bytes n (unat (of_nat (be_value bs) :: 'a word)) = bs" if "length bs = n"
    using be_value_bound [of bs] be_bytes_be_value [of bs] that pow by (simp add: unat_of_nat)
  moreover have "of_nat (be_value (be_bytes n (unat x))) = x"
    using unat_bound [of x] pow by (simp add: be_value_be_bytes)
  ultimately show ?thesis by auto
qed

lemma parses_word:
  assumes "LENGTH('a::len) = 8 * n"
  shows "parses (take_map (\<lambda>bs. of_nat (be_value bs) :: 'a word) (take_slice n)) (\<lambda>x bs. bs = be_bytes n (unat x))"
  by (rule parses_cong, rule parses_take_map, rule parses_take_slice)
    (simp add: be_value_word_iff [OF assms, symmetric])

lemma be_bytes_u8: "be_bytes 1 (unat b) = [b]" for b :: u8
  using unat_bound [of b] by simp

lemma parses_words:
  "parses take_u8 (\<lambda>x bs. bs = [x])"
  "parses take_u16 (\<lambda>x bs. bs = be_bytes 2 (unat x))"
  "parses take_u32 (\<lambda>x bs. bs = be_bytes 4 (unat x))"
  "parses take_u64 (\<lambda>x bs. bs = be_bytes 8 (unat x))"
  "parses take_u128 (\<lambda>x bs. bs = be_bytes 16 (unat x))"
  unfolding take_u8_def take_u16_def take_u32_def take_u64_def take_u128_def be_bytes_u8 [symmetric]
  by (rule parses_word; simp)+

lemma parses_flag:
  assumes t: "parses t R" and u: "parses u S"
  shows "parses (thenTake take_u8 (\<lambda>b. if b = 0 then t else if b = 1 then u else raise e))
    (\<lambda>x bs. \<exists>rest. bs = 0 # rest \<and> R x rest \<or> bs = 1 # rest \<and> S x rest)"
proof (rule parses_cong, (rule parse_intros parses_words(1) t u)+, goal_cases)
  case (1 x bs)
  have "(\<exists>b bs1 bs2. bs = bs1 @ bs2 \<and> bs1 = [b] \<and> Q b bs2) \<longleftrightarrow> (\<exists>b rest. bs = b # rest \<and> Q b rest)"
    for Q :: "u8 \<Rightarrow> u8 list \<Rightarrow> bool" by auto
  then show ?case by (cases bs) auto
qed

end
