(* ===== verification/Server_Codec.thy ===== *)
theory Server_Codec
  imports Wire_Decoder
begin

text \<open>
  The body codec of server values, \<open>liminal-protocol/src/wire/server_codec.rs\<close>: the \<open>put_*\<close> and
  \<open>take_*\<close> functions of every envelope and response body, \<open>encode_server_suffix\<close> and
  \<open>decode_server_suffix\<close> over the whole registry, the routing table \<open>origin_is_valid\<close>, and the two
  entry points \<open>encode_server_value_body\<close> and \<open>decode_server_value_body\<close>. Encoders thread the byte
  vector, takers thread the decoder; the order of the fields is the order of the source.
\<close>

definition TOKEN_LEN :: nat where "TOKEN_LEN = 16"

definition SECRET_LEN :: nat where "SECRET_LEN = 32"

definition RECOVERY_STATUS_LEN :: nat where "RECOVERY_STATUS_LEN = 26"

definition require_v1 :: "ProtocolVersion \<Rightarrow> (CodecError, unit) result" where
  "require_v1 version = (if version = V1 then Ok () else Err (UnsupportedVersionError version V1))"

section \<open>Encoding\<close>

definition put_enrollment :: "EnrollmentEnvelope \<Rightarrow> Encoder \<Rightarrow> Encoder" where
  "put_enrollment value encoder =
    (let encoder = put_u64 (ee_conversation_id value) encoder
     in put_fixed (ee_enrollment_token value) encoder)"

definition put_attach :: "AttachEnvelope \<Rightarrow> Encoder \<Rightarrow> Encoder" where
  "put_attach value encoder =
    (let encoder = put_u64 (ae_conversation_id value) encoder;
         encoder = put_u64 (ae_participant_id value) encoder;
         encoder = put_generation (ae_capability_generation value) encoder;
         encoder = put_fixed (ae_attach_attempt_token value) encoder
     in put_option_u64 (ae_accept_marker_delivery_seq value) encoder)"

definition put_detach :: "DetachEnvelope \<Rightarrow> Encoder \<Rightarrow> Encoder" where
  "put_detach value encoder =
    (let encoder = put_u64 (de_conversation_id value) encoder;
         encoder = put_u64 (de_participant_id value) encoder;
         encoder = put_generation (de_capability_generation value) encoder
     in put_fixed (de_detach_attempt_token value) encoder)"

definition put_participant_ack :: "ParticipantAckEnvelope \<Rightarrow> Encoder \<Rightarrow> Encoder" where
  "put_participant_ack value encoder =
    (let encoder = put_u64 (pae_conversation_id value) encoder;
         encoder = put_u64 (pae_participant_id value) encoder;
         encoder = put_generation (pae_capability_generation value) encoder
     in put_u64 (pae_through_seq value) encoder)"

definition put_leave :: "LeaveEnvelope \<Rightarrow> Encoder \<Rightarrow> Encoder" where
  "put_leave value encoder =
    (let encoder = put_u64 (le_conversation_id value) encoder;
         encoder = put_u64 (le_participant_id value) encoder;
         encoder = put_generation (le_capability_generation value) encoder
     in put_fixed (le_leave_attempt_token value) encoder)"

definition put_marker_ack :: "MarkerAckEnvelope \<Rightarrow> Encoder \<Rightarrow> Encoder" where
  "put_marker_ack value encoder =
    (let encoder = put_u64 (mae_conversation_id value) encoder;
         encoder = put_u64 (mae_participant_id value) encoder;
         encoder = put_generation (mae_capability_generation value) encoder
     in put_u64 (mae_marker_delivery_seq value) encoder)"

definition put_record_admission :: "RecordAdmissionEnvelope \<Rightarrow> Encoder \<Rightarrow> Encoder" where
  "put_record_admission value encoder =
    (let encoder = put_u64 (rae_conversation_id value) encoder;
         encoder = put_u64 (rae_participant_id value) encoder;
         encoder = put_generation (rae_capability_generation value) encoder
     in put_fixed (rae_record_admission_attempt_token value) encoder)"

fun put_response_envelope :: "ResponseEnvelope \<Rightarrow> Encoder \<Rightarrow> Encoder" where
  "put_response_envelope (ResponseEnvelope.Enrollment value) encoder = put_enrollment value encoder"
| "put_response_envelope (ResponseEnvelope.CredentialAttach value) encoder = put_attach value encoder"
| "put_response_envelope (ResponseEnvelope.Detach value) encoder = put_detach value encoder"
| "put_response_envelope (ResponseEnvelope.ParticipantAck value) encoder = put_participant_ack value encoder"
| "put_response_envelope (ResponseEnvelope.Leave value) encoder = put_leave value encoder"
| "put_response_envelope (ResponseEnvelope.MarkerAck value) encoder = put_marker_ack value encoder"
| "put_response_envelope (ResponseEnvelope.RecordAdmission value) encoder = put_record_admission value encoder"

fun put_participant_reference :: "ParticipantReferenceEnvelope \<Rightarrow> Encoder \<Rightarrow> Encoder" where
  "put_participant_reference (ParticipantReferenceEnvelope.CredentialAttach value) encoder = put_attach value encoder"
| "put_participant_reference (ParticipantReferenceEnvelope.Detach value) encoder = put_detach value encoder"
| "put_participant_reference (ParticipantReferenceEnvelope.ParticipantAck value) encoder =
    put_participant_ack value encoder"
| "put_participant_reference (ParticipantReferenceEnvelope.Leave value) encoder = put_leave value encoder"
| "put_participant_reference (ParticipantReferenceEnvelope.MarkerAck value) encoder = put_marker_ack value encoder"
| "put_participant_reference (ParticipantReferenceEnvelope.RecordAdmission value) encoder =
    put_record_admission value encoder"

fun put_binding_required :: "BindingRequiredEnvelope \<Rightarrow> Encoder \<Rightarrow> Encoder" where
  "put_binding_required (BindingRequiredEnvelope.Detach value) encoder = put_detach value encoder"
| "put_binding_required (BindingRequiredEnvelope.ParticipantAck value) encoder = put_participant_ack value encoder"
| "put_binding_required (BindingRequiredEnvelope.Leave value) encoder = put_leave value encoder"
| "put_binding_required (BindingRequiredEnvelope.MarkerAck value) encoder = put_marker_ack value encoder"
| "put_binding_required (BindingRequiredEnvelope.RecordAdmission value) encoder = put_record_admission value encoder"

fun put_order_allocating :: "OrderAllocatingEnvelope \<Rightarrow> Encoder \<Rightarrow> Encoder" where
  "put_order_allocating (OrderEnrollment value) encoder = put_enrollment value encoder"
| "put_order_allocating (OrderCredentialAttach value) encoder = put_attach value encoder"
| "put_order_allocating (OrderRecordAdmission value) encoder = put_record_admission value encoder"

fun put_closure_checked :: "ClosureCheckedEnvelope \<Rightarrow> Encoder \<Rightarrow> Encoder" where
  "put_closure_checked (ClosureCheckedEnvelope.Enrollment value) encoder = put_enrollment value encoder"
| "put_closure_checked (ClosureCheckedEnvelope.CredentialAttach value) encoder = put_attach value encoder"
| "put_closure_checked (ClosureCheckedEnvelope.Leave value) encoder = put_leave value encoder"
| "put_closure_checked (ClosureCheckedEnvelope.RecordAdmission value) encoder = put_record_admission value encoder"

fun put_sequence_allocating :: "SequenceAllocatingEnvelope \<Rightarrow> Encoder \<Rightarrow> Encoder" where
  "put_sequence_allocating (SequenceEnrollment value) encoder = put_enrollment value encoder"
| "put_sequence_allocating (SequenceCredentialAttach value) encoder = put_attach value encoder"
| "put_sequence_allocating (SequenceRecordAdmission value) encoder = put_record_admission value encoder"

fun put_marker_proof :: "MarkerProofRequest \<Rightarrow> Encoder \<Rightarrow> Encoder" where
  "put_marker_proof (MarkerProofRequest.CredentialAttach value) encoder =
    (let encoder = put_u64 (amp_conversation_id value) encoder;
         encoder = put_fixed (amp_token value) encoder;
         encoder = put_u64 (amp_participant_id value) encoder;
         encoder = put_generation (amp_capability_generation value) encoder
     in put_u64 (amp_requested_marker_delivery_seq value) encoder)"
| "put_marker_proof (MarkerProofRequest.MarkerAck value) encoder =
    (let encoder = put_u64 (map_conversation_id value) encoder;
         encoder = put_u64 (map_participant_id value) encoder;
         encoder = put_generation (map_capability_generation value) encoder
     in put_u64 (map_requested_marker_delivery_seq value) encoder)"

definition put_repayment_edge :: "RepaymentEdge \<Rightarrow> Encoder \<Rightarrow> Encoder" where
  "put_repayment_edge value encoder =
    (let encoder = put_u16 (RepaymentEdgeTag_wire_value (RepaymentEdge_tag value)) encoder in
     case value of
       RepaymentEdge.NoEdge \<Rightarrow> encoder
     | RepaymentEdge.ObserverProjection through_seq \<Rightarrow> put_u64 through_seq encoder
     | RepaymentEdge.PhysicalCompaction from_floor through_seq \<Rightarrow>
         (let encoder = put_u64 from_floor encoder in put_u64 through_seq encoder)
     | RepaymentEdge.MarkerDelivery participant_id binding_epoch marker_delivery_seq \<Rightarrow>
         (let encoder = put_u64 participant_id encoder;
              encoder = put_binding_epoch binding_epoch encoder
          in put_u64 marker_delivery_seq encoder)
     | RepaymentEdge.ParticipantCursorProgress value \<Rightarrow>
         (let encoder = put_u64 (pcp_participant_id value) encoder;
              encoder = put_binding_epoch (pcp_binding_epoch value) encoder;
              encoder = put_u64 (pcp_through_seq value) encoder
          in put_option_u64 (pcp_marker_delivery_seq value) encoder)
     | RepaymentEdge.DetachedCredentialRecovery participant_id marker_delivery_seq prior_binding_epoch \<Rightarrow>
         (let encoder = put_u64 participant_id encoder;
              encoder = put_u64 marker_delivery_seq encoder
          in put_binding_epoch prior_binding_epoch encoder)
     | RepaymentEdge.DetachedMarkerRelease participant_id marker_delivery_seq last_dead_binding_epoch \<Rightarrow>
         (let encoder = put_u64 participant_id encoder;
              encoder = put_u64 marker_delivery_seq encoder
          in put_binding_epoch last_dead_binding_epoch encoder)
     | RepaymentEdge.DetachedCursorRelease participant_id last_dead_binding_epoch \<Rightarrow>
         (let encoder = put_u64 participant_id encoder
          in put_binding_epoch last_dead_binding_epoch encoder))"

definition put_closure_snapshot :: "ClosureSnapshot \<Rightarrow> Encoder \<Rightarrow> Encoder" where
  "put_closure_snapshot value encoder =
    (let encoder = put_u64 (cs_marker_capacity_credits value) encoder;
         encoder = put_u64 (cs_marker_anchors value) encoder;
         encoder = put_u64 (cs_entry_debt value) encoder;
         encoder = put_u64 (cs_byte_debt value) encoder;
         encoder = put_repayment_edge (cs_repayment_edge value) encoder;
         encoder = put_u64 (cs_edge_sequence_claims value) encoder;
         encoder = put_u64 (cs_edge_order_position_claims value) encoder;
         encoder = put_resource_vector (cs_edge_k_remaining value) encoder;
         encoder = put_wide_resource_vector (cs_k_headroom value) encoder;
         encoder = put_u64 (cs_episode_churn_used value) encoder;
         encoder = put_u64 (cs_delta_cycles value) encoder
     in put_u64 (cs_episode_churn_limit value) encoder)"

definition put_sequence_budget :: "SequenceBudget \<Rightarrow> Encoder \<Rightarrow> Encoder" where
  "put_sequence_budget value encoder =
    (let encoder = put_u64 (sb_high_watermark value) encoder;
         encoder = put_u64 (sb_remaining value) encoder;
         encoder = put_u64 (sb_e value) encoder;
         encoder = put_u64 (sb_t value) encoder;
         encoder = put_u64 (sb_m value) encoder;
         encoder = put_u64 (sb_rs value) encoder;
         encoder = put_u64 (sb_rt value) encoder;
         encoder = put_u128 (sb_l_times_t value) encoder;
         encoder = put_u128 (sb_l_times_rt value) encoder
     in put_u128 (sb_l_other_times_e value) encoder)"

fun put_stale_authority :: "StaleAuthority \<Rightarrow> Encoder \<Rightarrow> Encoder" where
  "put_stale_authority (StaleAuthority.Live request current_generation) encoder =
    (let encoder = (case request of
         CommonStaleAuthorityEnvelope.CredentialAttach value \<Rightarrow> put_attach value encoder
       | CommonStaleAuthorityEnvelope.ParticipantAck value \<Rightarrow> put_participant_ack value encoder
       | CommonStaleAuthorityEnvelope.MarkerAck value \<Rightarrow> put_marker_ack value encoder
       | CommonStaleAuthorityEnvelope.RecordAdmission value \<Rightarrow> put_record_admission value encoder)
     in put_generation current_generation encoder)"
| "put_stale_authority (StaleAuthority.Detach value) encoder =
    (let encoder = put_u16 (DetachAuthorityStateTag_wire_value
           (DetachStaleAuthority_authority_state_tag value)) encoder in
     case value of
       DetachStaleAuthority.Live conversation_id participant_id capability_generation detach_attempt_token
           current_generation \<Rightarrow>
         (let encoder = put_u64 conversation_id encoder;
              encoder = put_u64 participant_id encoder;
              encoder = put_generation capability_generation encoder;
              encoder = put_fixed detach_attempt_token encoder
          in put_generation current_generation encoder)
     | DetachStaleAuthority.TerminalizedDetachCell value \<Rightarrow>
         (let encoder = put_u64 (tdc_conversation_id value) encoder;
              encoder = put_u64 (tdc_participant_id value) encoder;
              encoder = put_generation (tdc_capability_generation value) encoder;
              encoder = put_fixed (tdc_detach_attempt_token value) encoder;
              encoder = put_generation (tdc_current_generation value) encoder;
              encoder = put_binding_epoch (tdc_committed_binding_epoch value) encoder;
              encoder = put_u16 (BindingStateTag_wire_value (BindingStateView_tag (tdc_binding_state value))) encoder
          in case tdc_binding_state value of
               BindingStateView.Bound current_binding_epoch \<Rightarrow> put_binding_epoch current_binding_epoch encoder
             | BindingStateView.Detached \<Rightarrow> encoder))"
| "put_stale_authority (StaleAuthority.Leave value) encoder =
    (let encoder = put_u16 (LeaveAuthorityStateTag_wire_value
           (LeaveStaleAuthority_authority_state_tag value)) encoder in
     case value of
       LeaveStaleAuthority.Live conversation_id participant_id presented_generation leave_attempt_token
           current_generation \<Rightarrow>
         (let encoder = put_u64 conversation_id encoder;
              encoder = put_u64 participant_id encoder;
              encoder = put_generation presented_generation encoder;
              encoder = put_fixed leave_attempt_token encoder
          in put_generation current_generation encoder)
     | LeaveStaleAuthority.CommittedLeaveTombstone conversation_id participant_id presented_generation
           leave_attempt_token retired_generation \<Rightarrow>
         (let encoder = put_u64 conversation_id encoder;
              encoder = put_u64 participant_id encoder;
              encoder = put_generation presented_generation encoder;
              encoder = put_fixed leave_attempt_token encoder
          in put_generation retired_generation encoder))"

fun put_receipt_expired :: "ReceiptExpired \<Rightarrow> Encoder \<Rightarrow> Encoder" where
  "put_receipt_expired (ReceiptExpired.Enrollment conversation_id token participant_id result_generation
      current_generation reason) encoder =
    (let encoder = put_u64 conversation_id encoder;
         encoder = put_fixed token encoder;
         encoder = put_u64 participant_id encoder;
         encoder = put_option_generation None encoder;
         encoder = put_generation result_generation encoder;
         encoder = put_generation current_generation encoder
     in put_u16 (ReceiptExpiryReason_wire_value reason) encoder)"
| "put_receipt_expired (ReceiptExpired.CredentialAttach conversation_id token participant_id presented_generation
      presented_marker_delivery_seq result_generation current_generation reason) encoder =
    (let encoder = put_u64 conversation_id encoder;
         encoder = put_fixed token encoder;
         encoder = put_u64 participant_id encoder;
         encoder = put_option_generation (Some presented_generation) encoder;
         encoder = put_option_u64 presented_marker_delivery_seq encoder;
         encoder = put_generation result_generation encoder;
         encoder = put_generation current_generation encoder
     in put_u16 (ReceiptExpiryReason_wire_value reason) encoder)"

text \<open>\<open>ReceiptCapacityExceeded::REQUESTED\<close>, \<open>IdentityCapacityExceeded::REQUESTED\<close> and
  \<open>ConversationOrderExhausted::REQUIRED_MAJORS\<close>.\<close>

abbreviation REQUESTED :: u64 where "REQUESTED \<equiv> 1"

abbreviation REQUIRED_MAJORS :: u64 where "REQUIRED_MAJORS \<equiv> 1"

fun put_receipt_capacity :: "ReceiptCapacityExceeded \<Rightarrow> Encoder \<Rightarrow> Encoder" where
  "put_receipt_capacity (ReceiptCapacityExceeded.Enrollment request scope limit occupied) encoder =
    (let encoder = put_enrollment request encoder;
         encoder = put_u16 (ReceiptCapacityScope_wire_value (wire_scope scope)) encoder;
         encoder = put_u64 limit encoder;
         encoder = put_u64 occupied encoder
     in put_u64 REQUESTED encoder)"
| "put_receipt_capacity (ReceiptCapacityExceeded.CredentialAttach request scope limit occupied) encoder =
    (let encoder = put_attach request encoder;
         encoder = put_u16 (ReceiptCapacityScope_wire_value scope) encoder;
         encoder = put_u64 limit encoder;
         encoder = put_u64 occupied encoder
     in put_u64 REQUESTED encoder)"

definition put_backpressure_state :: "ObserverBackpressureState \<Rightarrow> Encoder \<Rightarrow> Encoder" where
  "put_backpressure_state value encoder =
    (let encoder = put_u64 (obs_backpressure_epoch value) encoder
     in put_u64 (obs_observer_progress value) encoder)"

fun put_observer_backpressure :: "ObserverBackpressure \<Rightarrow> Encoder \<Rightarrow> Encoder" where
  "put_observer_backpressure (BackpressureEnrollment request state) encoder =
    (let encoder = put_enrollment request encoder in put_backpressure_state state encoder)"
| "put_observer_backpressure (BackpressureCredentialAttach request state) encoder =
    (let encoder = put_attach request encoder in put_backpressure_state state encoder)"
| "put_observer_backpressure (BackpressureDetach request committed_binding_epoch state) encoder =
    (let encoder = put_detach request encoder;
         encoder = put_binding_epoch committed_binding_epoch encoder
     in put_backpressure_state state encoder)"
| "put_observer_backpressure (BackpressureLeave request state prior_terminal_cell_exists) encoder =
    (let encoder = put_leave request encoder;
         encoder = put_backpressure_state state encoder
     in put_bool prior_terminal_cell_exists encoder)"
| "put_observer_backpressure (BackpressureRecordAdmission request state) encoder =
    (let encoder = put_record_admission request encoder in put_backpressure_state state encoder)"

text \<open>\<open>EnrollBound\<close> and \<open>AttachBound\<close> are written by the two arms of \<open>encode_server_suffix\<close> and, with the
  same fields, by \<open>put_receipt_replay\<close>; the accessors fix the request generation, cursor and marker of an
  enrolment.\<close>

definition put_enroll_bound :: "EnrollBound \<Rightarrow> Encoder \<Rightarrow> Encoder" where
  "put_enroll_bound value encoder =
    (let encoder = put_u64 (eb_conversation_id value) encoder;
         encoder = put_fixed (eb_token value) encoder;
         encoder = put_u64 (eb_participant_id value) encoder;
         encoder = put_option_generation None encoder;
         encoder = put_generation (be_capability_generation (eb_origin_binding_epoch value)) encoder;
         encoder = put_fixed (eb_attach_secret value) encoder;
         encoder = put_binding_epoch (eb_origin_binding_epoch value) encoder;
         encoder = put_u64 0 encoder;
         encoder = put_option_u64 None encoder;
         encoder = put_u128 (eb_receipt_expires_at value) encoder
     in put_u128 (eb_provenance_expires_at value) encoder)"

definition put_attach_bound :: "AttachBound \<Rightarrow> Encoder \<Rightarrow> Encoder" where
  "put_attach_bound value encoder =
    (let encoder = put_u64 (ab_conversation_id value) encoder;
         encoder = put_fixed (ab_token value) encoder;
         encoder = put_u64 (ab_participant_id value) encoder;
         encoder = put_option_generation (Some (ab_request_generation value)) encoder;
         encoder = put_generation (be_capability_generation (ab_origin_binding_epoch value)) encoder;
         encoder = put_fixed (ab_attach_secret value) encoder;
         encoder = put_binding_epoch (ab_origin_binding_epoch value) encoder;
         encoder = put_u64 (ab_persisted_cursor value) encoder;
         encoder = put_option_u64 (ab_accepted_marker_delivery_seq value) encoder;
         encoder = put_u128 (ab_receipt_expires_at value) encoder
     in put_u128 (ab_provenance_expires_at value) encoder)"

fun put_receipt_replay :: "ReceiptReplay \<Rightarrow> Encoder \<Rightarrow> Encoder" where
  "put_receipt_replay (ReceiptReplay.Enrollment value) encoder = put_enroll_bound value encoder"
| "put_receipt_replay (ReceiptReplay.CredentialAttach value) encoder = put_attach_bound value encoder"

definition put_recovery_status :: "ObserverProgressStatus \<Rightarrow> Encoder \<Rightarrow> Encoder" where
  "put_recovery_status status encoder =
    (let encoder = put_u64 (ops_conversation_id status) encoder;
         encoder = put_u64 (ops_refused_epoch status) encoder;
         encoder = put_u64 (ops_current_observer_progress status) encoder;
         encoder = put_bool (ops_armed status) encoder
     in put_bool (ops_progressed status) encoder)"

fun ResourceDimensionTag_from :: "ResourceDimension \<Rightarrow> ResourceDimensionTag" where
  "ResourceDimensionTag_from Entries = ResourceDimensionTag.EntriesTag"
| "ResourceDimensionTag_from Bytes = ResourceDimensionTag.BytesTag"

fun ResourceDimension_from :: "ResourceDimensionTag \<Rightarrow> ResourceDimension" where
  "ResourceDimension_from ResourceDimensionTag.EntriesTag = Entries"
| "ResourceDimension_from ResourceDimensionTag.BytesTag = Bytes"

fun put_transport_reason :: "TransportRejectionReason \<Rightarrow> Encoder \<Rightarrow> (CodecError, Encoder) result" where
  "put_transport_reason (TransportRejectionReason.FrameTooLarge complete_frame_bytes max_frame_bytes) encoder =
    Ok (let encoder = put_u16 (TransportReasonTag_wire_value TransportReasonTag.FrameTooLarge) encoder;
            encoder = put_u64 complete_frame_bytes encoder
        in put_u64 max_frame_bytes encoder)"
| "put_transport_reason (TransportRejectionReason.DecodeFailed decode_class) encoder =
    Ok (let encoder = put_u16 (TransportReasonTag_wire_value TransportReasonTag.DecodeFailed) encoder
        in put_u16 (DecodeClass_wire_value decode_class) encoder)"
| "put_transport_reason (TransportRejectionReason.UnsupportedVersion presented_version supported_version) encoder =
    Ok (let encoder = put_u16 (TransportReasonTag_wire_value TransportReasonTag.UnsupportedVersion) encoder;
            encoder = put_protocol_version presented_version encoder
        in put_protocol_version supported_version encoder)"
| "put_transport_reason TransportRejectionReason.AuthenticationFailed encoder =
    Ok (put_u16 (TransportReasonTag_wire_value TransportReasonTag.AuthenticationFailed) encoder)"
| "put_transport_reason TransportRejectionReason.ParticipantCapabilityRequired encoder =
    put_string PARTICIPANT_CAPABILITY
      (put_u16 (TransportReasonTag_wire_value TransportReasonTag.ParticipantCapabilityRequired) encoder)"

fun put_attempt_conflict :: "AttemptTokenBodyConflict \<Rightarrow> Encoder \<Rightarrow> Encoder" where
  "put_attempt_conflict (AttemptTokenBodyConflict.CredentialAttach token conversation_id presented_participant_id
      presented_generation presented_marker_delivery_seq conflict) encoder =
    (let encoder = put_fixed token encoder;
         encoder = put_u16 (AttemptOperation_wire_value AttemptOperation.CredentialAttachRequest) encoder;
         encoder = put_u64 conversation_id encoder;
         encoder = put_u64 presented_participant_id encoder;
         encoder = put_generation presented_generation encoder;
         encoder = put_option_u64 presented_marker_delivery_seq encoder
     in put_u16 (AttemptConflict_wire_value conflict) encoder)"
| "put_attempt_conflict (AttemptTokenBodyConflict.Leave token conversation_id presented_participant_id
      presented_generation) encoder =
    (let encoder = put_fixed token encoder;
         encoder = put_u16 (AttemptOperation_wire_value AttemptOperation.LeaveRequest) encoder;
         encoder = put_u64 conversation_id encoder;
         encoder = put_u64 presented_participant_id encoder;
         encoder = put_generation presented_generation encoder
     in put_u16 (AttemptConflict_wire_value AttemptConflict.GenerationConflict) encoder)"
| "put_attempt_conflict (AttemptTokenBodyConflict.RecordAdmission token conversation_id presented_participant_id
      presented_generation) encoder =
    (let encoder = put_fixed token encoder;
         encoder = put_u16 (AttemptOperation_wire_value AttemptOperation.RecordAdmission) encoder;
         encoder = put_u64 conversation_id encoder;
         encoder = put_u64 presented_participant_id encoder
     in put_generation presented_generation encoder)"

fun put_binding_occupied :: "ConnectionConversationBindingOccupied \<Rightarrow> Encoder \<Rightarrow> Encoder" where
  "put_binding_occupied (OccupiedEnrollment conversation_id enrollment_token) encoder =
    (let encoder = put_u64 conversation_id encoder;
         encoder = put_fixed enrollment_token encoder
     in put_option_u64 None encoder)"
| "put_binding_occupied (OccupiedCredentialAttach conversation_id participant_id capability_generation
      attach_attempt_token accept_marker_delivery_seq) encoder =
    (let encoder = put_u64 conversation_id encoder;
         encoder = put_u64 participant_id encoder;
         encoder = put_generation capability_generation encoder;
         encoder = put_fixed attach_attempt_token encoder;
         encoder = put_option_u64 accept_marker_delivery_seq encoder
     in put_option_u64 (Some participant_id) encoder)"

definition put_order_exhausted :: "ConversationOrderExhausted \<Rightarrow> Encoder \<Rightarrow> Encoder" where
  "put_order_exhausted value encoder =
    (let encoder = put_order_allocating (coe_request value) encoder;
         encoder = put_u16 (Counter_wire_value Counter.TransactionOrder) encoder;
         encoder = put_u64 (coe_high value) encoder;
         encoder = put_option_u64 (coe_next_value value) encoder;
         encoder = put_u128 (coe_order_remaining value) encoder;
         encoder = put_u128 (coe_reserved_claims value) encoder;
         encoder = put_u64 REQUIRED_MAJORS encoder;
         encoder = put_u128 (coe_resulting_order_remaining value) encoder
     in put_u128 (coe_resulting_reserved_claims value) encoder)"

fun put_retired :: "Retired \<Rightarrow> Encoder \<Rightarrow> Encoder" where
  "put_retired (Retired.Enrollment request participant_id retired_generation) encoder =
    (let encoder = put_enrollment request encoder;
         encoder = put_u64 participant_id encoder
     in put_generation retired_generation encoder)"
| "put_retired (Retired.Participant request retired_generation) encoder =
    (let encoder = put_participant_reference request encoder
     in put_generation retired_generation encoder)"

definition put_closure_capacity_exceeded :: "MarkerClosureCapacityExceeded \<Rightarrow> Encoder \<Rightarrow> Encoder" where
  "put_closure_capacity_exceeded value encoder =
    (let encoder = put_closure_checked (mcc_request value) encoder;
         scope = (case mcc_reason value of
             ClosureRefusalReason.Capacity _ \<Rightarrow> ClosureScope.Capacity
           | ClosureRefusalReason.RecoveryFence \<Rightarrow> ClosureScope.RecoveryFence
           | ClosureRefusalReason.DeliveredMarkerAwaitingAck \<Rightarrow> ClosureScope.DeliveredMarkerAwaitingAck
           | ClosureRefusalReason.EpisodeChurnLimit \<Rightarrow> ClosureScope.EpisodeChurnLimit);
         encoder = put_u16 (ClosureScope_wire_value scope) encoder;
         encoder = put_closure_snapshot (mcc_snapshot value) encoder
     in case mcc_reason value of
          ClosureRefusalReason.Capacity reason \<Rightarrow>
            (let encoder = put_u16 (ResourceDimensionTag_wire_value
                   (ResourceDimensionTag_from (ccr_dimension reason))) encoder;
                 encoder = put_u128 (ccr_required reason) encoder
             in put_u128 (ccr_limit reason) encoder)
        | _ \<Rightarrow> encoder)"

definition put_marker_mismatch :: "MarkerMismatch \<Rightarrow> Encoder \<Rightarrow> Encoder" where
  "put_marker_mismatch value encoder =
    (let encoder = put_marker_proof (mm_request value) encoder;
         encoder = put_u16 (MarkerMismatchReason_wire_value (MarkerMismatchBody_reason (mm_mismatch value))) encoder
     in case mm_mismatch value of
          MarkerMismatchBody.BelowCursor current_cursor \<Rightarrow> put_u64 current_cursor encoder
        | MarkerMismatchBody.NoMarkerExpected \<Rightarrow> encoder
        | MarkerMismatchBody.ExpectedDifferentMarker expected_marker_delivery_seq \<Rightarrow>
            put_u64 expected_marker_delivery_seq encoder)"

definition put_leave_committed :: "LeaveCommitted \<Rightarrow> Encoder \<Rightarrow> Encoder" where
  "put_leave_committed value encoder =
    (let encoder = put_u64 (lc_conversation_id value) encoder;
         encoder = put_fixed (lc_leave_attempt_token value) encoder;
         encoder = put_u64 (lc_participant_id value) encoder;
         encoder = put_generation (lc_retired_generation value) encoder;
         encoder = put_generation (lc_retired_generation value) encoder;
         encoder = put_option_binding_epoch (lc_ended_binding_epoch value) encoder;
         encoder = put_option_u64 (lc_prior_terminal_delivery_seq value) encoder
     in put_u64 (lc_left_delivery_seq value) encoder)"

fun put_invalid_epoch :: "InvalidObserverEpoch \<Rightarrow> Encoder \<Rightarrow> Encoder" where
  "put_invalid_epoch (InvalidObserverEpoch.ConversationUnknown conversation_id presented_epoch) encoder =
    (let encoder = put_u64 0 encoder;
         encoder = put_u16 (InvalidObserverEpochReason_wire_value
           InvalidObserverEpochReason.ConversationUnknown) encoder;
         encoder = put_u64 conversation_id encoder;
         encoder = put_u64 presented_epoch encoder
     in put_option_u64 None encoder)"
| "put_invalid_epoch (InvalidObserverEpoch.EpochAhead conversation_id presented_epoch
      current_observer_progress) encoder =
    (let encoder = put_u64 0 encoder;
         encoder = put_u16 (InvalidObserverEpochReason_wire_value InvalidObserverEpochReason.EpochAhead) encoder;
         encoder = put_u64 conversation_id encoder;
         encoder = put_u64 presented_epoch encoder
     in put_option_u64 (Some current_observer_progress) encoder)"

fun put_invalid_epoch_list :: "InvalidObserverEpochList \<Rightarrow> Encoder \<Rightarrow> Encoder" where
  "put_invalid_epoch_list (InvalidObserverEpochList.TooManyEntries presented_entries max_entries) encoder =
    (let encoder = put_u64 0 encoder;
         encoder = put_u16 (InvalidObserverEpochListReason_wire_value
           InvalidObserverEpochListReason.TooManyEntries) encoder;
         encoder = put_u64 presented_entries encoder
     in put_u64 max_entries encoder)"
| "put_invalid_epoch_list (InvalidObserverEpochList.DuplicateConversation conversation_id first_index
      duplicate_index) encoder =
    (let encoder = put_u64 0 encoder;
         encoder = put_u16 (InvalidObserverEpochListReason_wire_value
           InvalidObserverEpochListReason.DuplicateConversation) encoder;
         encoder = put_u64 conversation_id encoder;
         encoder = put_u64 first_index encoder
     in put_u64 duplicate_index encoder)"

text \<open>\<open>encode_server_suffix\<close>: the arms with a body of their own are the \<open>put_*\<close> functions above.\<close>

fun encode_server_suffix :: "ServerValue \<Rightarrow> Encoder \<Rightarrow> (CodecError, Encoder) result" where
  "encode_server_suffix (ServerValue.ParticipantTransportRejected value) encoder =
    put_transport_reason (ptr_reason value) encoder"
| "encode_server_suffix (ServerValue.AttemptTokenBodyConflict value) encoder = Ok (put_attempt_conflict value encoder)"
| "encode_server_suffix (ServerValue.ConnectionConversationCapacityExceeded value) encoder =
    Ok (case value of
       ConnectionConversationCapacityExceeded.SemanticRequest request limit \<Rightarrow>
         (let encoder = put_response_envelope request encoder in put_u64 limit encoder)
     | ConnectionConversationCapacityExceeded.ObserverRecovery conversation_id limit \<Rightarrow>
         (let encoder = put_u64 0 encoder;
              encoder = put_u64 conversation_id encoder
          in put_u64 limit encoder))"
| "encode_server_suffix (ServerValue.ConnectionConversationBindingOccupied value) encoder =
    Ok (put_binding_occupied value encoder)"
| "encode_server_suffix (ServerValue.ConversationOrderExhausted value) encoder = Ok (put_order_exhausted value encoder)"
| "encode_server_suffix (ServerValue.ParticipantUnknown value) encoder =
    Ok (put_participant_reference (pu_request value) encoder)"
| "encode_server_suffix (ServerValue.NoBinding value) encoder = Ok (put_binding_required (nb_request value) encoder)"
| "encode_server_suffix (ServerValue.StaleAuthority value) encoder = Ok (put_stale_authority value encoder)"
| "encode_server_suffix (ServerValue.Retired value) encoder = Ok (put_retired value encoder)"
| "encode_server_suffix (ServerValue.MarkerClosureCapacityExceeded value) encoder =
    Ok (put_closure_capacity_exceeded value encoder)"
| "encode_server_suffix (ServerValue.EnrollBound value) encoder = Ok (put_enroll_bound value encoder)"
| "encode_server_suffix (ServerValue.EnrollmentKnown value) encoder =
    Ok (let encoder = put_u64 (ek_conversation_id value) encoder;
            encoder = put_fixed (ek_token value) encoder;
            encoder = put_u64 (ek_participant_id value) encoder
        in put_generation (ek_current_generation value) encoder)"
| "encode_server_suffix (ServerValue.ReceiptExpired value) encoder = Ok (put_receipt_expired value encoder)"
| "encode_server_suffix (ServerValue.ReceiptCapacityExceeded value) encoder = Ok (put_receipt_capacity value encoder)"
| "encode_server_suffix (ServerValue.IdentityCapacityExceeded value) encoder =
    Ok (let encoder = put_enrollment (ice_request value) encoder;
            encoder = put_u16 (IdentityCapacityScope_wire_value (ice_scope value)) encoder;
            encoder = put_u64 (ice_limit value) encoder;
            encoder = put_u64 (ice_occupied value) encoder
        in put_u64 REQUESTED encoder)"
| "encode_server_suffix (ServerValue.ObserverBackpressure value) encoder = Ok (put_observer_backpressure value encoder)"
| "encode_server_suffix (ServerValue.ConversationSequenceExhausted value) encoder =
    Ok (let encoder = put_sequence_allocating (cse_request value) encoder
        in put_sequence_budget (cse_sequence_budget value) encoder)"
| "encode_server_suffix (ServerValue.AttachBound value) encoder = Ok (put_attach_bound value encoder)"
| "encode_server_suffix (ServerValue.StaleOrUnknownReceipt value) encoder =
    Ok (let encoder = put_u64 (sur_conversation_id value) encoder;
            encoder = put_fixed (sur_token value) encoder;
            encoder = put_u64 (sur_participant_id value) encoder;
            encoder = put_generation (sur_presented_generation value) encoder;
            encoder = put_option_u64 (sur_presented_marker_delivery_seq value) encoder
        in put_generation (sur_current_generation value) encoder)"
| "encode_server_suffix (ServerValue.MarkerNotDelivered value) encoder =
    Ok (let encoder = put_marker_proof (mnd_request value) encoder;
            encoder = put_u16 (MarkerNotDeliveredReason_wire_value (mnd_reason value)) encoder
        in put_u64 (mnd_expected_marker_delivery_seq value) encoder)"
| "encode_server_suffix (ServerValue.MarkerMismatch value) encoder = Ok (put_marker_mismatch value encoder)"
| "encode_server_suffix (ServerValue.Bound value) encoder = Ok (put_receipt_replay value encoder)"
| "encode_server_suffix (ServerValue.UnboundReceipt value) encoder = Ok (put_receipt_replay value encoder)"
| "encode_server_suffix (ServerValue.DetachCommitted value) encoder =
    Ok (let encoder = put_u64 (dc_conversation_id value) encoder;
            encoder = put_u64 (dc_participant_id value) encoder;
            encoder = put_generation (be_capability_generation (dc_committed_binding_epoch value)) encoder;
            encoder = put_fixed (dc_detach_attempt_token value) encoder;
            encoder = put_binding_epoch (dc_committed_binding_epoch value) encoder
        in put_u64 (dc_detached_delivery_seq value) encoder)"
| "encode_server_suffix (ServerValue.DetachInProgress value) encoder =
    Ok (let encoder = put_u64 (dip_conversation_id value) encoder;
            encoder = put_u64 (dip_participant_id value) encoder;
            encoder = put_fixed (dip_presented_token value) encoder;
            encoder = put_generation (dip_presented_generation value) encoder
        in put_binding_epoch (dip_committed_binding_epoch value) encoder)"
| "encode_server_suffix (ServerValue.AckCommitted value) encoder =
    Ok (let encoder = put_participant_ack (ac_request value) encoder
        in put_u64 (pae_through_seq (ac_request value)) encoder)"
| "encode_server_suffix (ServerValue.AckNoOp value) encoder =
    Ok (case value of
       AckNoOp.ParticipantAck request \<Rightarrow>
         (let encoder = put_participant_ack request encoder in put_u64 (AckNoOp_current_cursor value) encoder)
     | AckNoOp.MarkerAck request \<Rightarrow>
         (let encoder = put_marker_ack request encoder in put_u64 (AckNoOp_current_cursor value) encoder))"
| "encode_server_suffix (ServerValue.AckGap value) encoder =
    Ok (let encoder = put_participant_ack (ag_request value) encoder;
            encoder = put_u64 (ag_current_cursor value) encoder
        in put_u16 (AckGapReason_wire_value AckGapReason.NotContiguouslyAvailable) encoder)"
| "encode_server_suffix (ServerValue.AckRegression value) encoder =
    Ok (let encoder = put_participant_ack (ar_request value) encoder;
            encoder = put_u64 (ar_current_cursor value) encoder
        in put_u16 (AckRegressionReason_wire_value AckRegressionReason.BelowCursor) encoder)"
| "encode_server_suffix (ServerValue.LeaveCommitted value) encoder = Ok (put_leave_committed value encoder)"
| "encode_server_suffix (ServerValue.MarkerAckCommitted value) encoder =
    Ok (let encoder = put_marker_ack (mac_request value) encoder
        in put_u64 (mae_marker_delivery_seq (mac_request value)) encoder)"
| "encode_server_suffix (ServerValue.RecordCommitted value) encoder =
    Ok (let encoder = put_record_admission (rc_request value) encoder;
            encoder = put_u64 (rae_participant_id (rc_request value)) encoder
        in put_u64 (rc_delivery_seq value) encoder)"
| "encode_server_suffix (ServerValue.RecordTooLarge value) encoder =
    Ok (let encoder = put_record_admission (rtl_request value) encoder;
            encoder = put_u16 (ResourceDimensionTag_wire_value (ResourceDimensionTag_from (rtl_dimension value))) encoder;
            encoder = put_resource_vector (rtl_encoded_record_charge value) encoder
        in put_resource_vector (rtl_max_ordinary_record_charge value) encoder)"
| "encode_server_suffix (ServerValue.ObserverRecoveryAccepted value) encoder =
    andThen (u64_from_len (length (ora_statuses value))) (\<lambda>count.
    Ok (fold put_recovery_status (ora_statuses value) (put_u64 count encoder)))"
| "encode_server_suffix (ServerValue.InvalidObserverEpoch value) encoder = Ok (put_invalid_epoch value encoder)"
| "encode_server_suffix (ServerValue.InvalidObserverEpochList value) encoder =
    Ok (put_invalid_epoch_list value encoder)"
| "encode_server_suffix (ServerValue.MarkerSettlementBackpressure value) encoder =
    Ok (case value of
       MarkerSettlementBackpressure.CredentialAttach conversation_id refused_epoch \<Rightarrow>
         (let encoder = put_u64 conversation_id encoder in put_u64 refused_epoch encoder)
     | MarkerSettlementBackpressure.Detach conversation_id refused_epoch \<Rightarrow>
         (let encoder = put_u64 conversation_id encoder in put_u64 refused_epoch encoder))"
| "encode_server_suffix (ServerValue.EnrollmentSettlementBackpressure value) encoder =
    Ok (put_u64 (esb_conversation_id value) encoder)"

section \<open>Routing\<close>

definition carries_origin :: "ServerDiscriminant \<Rightarrow> bool" where
  "carries_origin discriminant \<longleftrightarrow>
    discriminant \<notin> {ServerDiscriminant.ParticipantTransportRejected, ServerDiscriminant.ObserverRecoveryAccepted,
      ServerDiscriminant.InvalidObserverEpoch, ServerDiscriminant.InvalidObserverEpochList,
      ServerDiscriminant.ObserverRecoveryConnectionCapacityExceeded}"

fun origin_is_valid :: "ServerDiscriminant \<Rightarrow> ClientDiscriminant \<Rightarrow> bool" where
  "origin_is_valid ServerDiscriminant.AttemptTokenBodyConflict origin \<longleftrightarrow>
    origin \<in> {ClientDiscriminant.CredentialAttachRequest, ClientDiscriminant.LeaveRequest,
      ClientDiscriminant.RecordAdmission}"
| "origin_is_valid ServerDiscriminant.ConnectionConversationCapacityExceeded origin \<longleftrightarrow>
    origin \<notin> {ClientDiscriminant.ObserverRecoveryHandshake}"
| "origin_is_valid ServerDiscriminant.ConnectionConversationBindingOccupied origin \<longleftrightarrow>
    origin \<in> {ClientDiscriminant.EnrollmentRequest, ClientDiscriminant.CredentialAttachRequest}"
| "origin_is_valid ServerDiscriminant.ConversationOrderExhausted origin \<longleftrightarrow>
    origin \<in> {ClientDiscriminant.EnrollmentRequest, ClientDiscriminant.CredentialAttachRequest,
      ClientDiscriminant.RecordAdmission}"
| "origin_is_valid ServerDiscriminant.ParticipantUnknown origin \<longleftrightarrow>
    origin \<notin> {ClientDiscriminant.EnrollmentRequest, ClientDiscriminant.ObserverRecoveryHandshake}"
| "origin_is_valid ServerDiscriminant.NoBinding origin \<longleftrightarrow>
    origin \<notin> {ClientDiscriminant.EnrollmentRequest, ClientDiscriminant.CredentialAttachRequest,
      ClientDiscriminant.ObserverRecoveryHandshake}"
| "origin_is_valid ServerDiscriminant.StaleAuthority origin \<longleftrightarrow>
    origin \<notin> {ClientDiscriminant.EnrollmentRequest, ClientDiscriminant.ObserverRecoveryHandshake}"
| "origin_is_valid ServerDiscriminant.Retired origin \<longleftrightarrow> origin \<notin> {ClientDiscriminant.ObserverRecoveryHandshake}"
| "origin_is_valid ServerDiscriminant.MarkerClosureCapacityExceeded origin \<longleftrightarrow>
    origin \<in> {ClientDiscriminant.EnrollmentRequest, ClientDiscriminant.CredentialAttachRequest,
      ClientDiscriminant.LeaveRequest, ClientDiscriminant.RecordAdmission}"
| "origin_is_valid ServerDiscriminant.EnrollBound origin \<longleftrightarrow> origin \<in> {ClientDiscriminant.EnrollmentRequest}"
| "origin_is_valid ServerDiscriminant.EnrollmentKnown origin \<longleftrightarrow> origin \<in> {ClientDiscriminant.EnrollmentRequest}"
| "origin_is_valid ServerDiscriminant.IdentityCapacityExceeded origin \<longleftrightarrow>
    origin \<in> {ClientDiscriminant.EnrollmentRequest}"
| "origin_is_valid ServerDiscriminant.ReceiptExpired origin \<longleftrightarrow>
    origin \<in> {ClientDiscriminant.EnrollmentRequest, ClientDiscriminant.CredentialAttachRequest}"
| "origin_is_valid ServerDiscriminant.ReceiptCapacityExceeded origin \<longleftrightarrow>
    origin \<in> {ClientDiscriminant.EnrollmentRequest, ClientDiscriminant.CredentialAttachRequest}"
| "origin_is_valid ServerDiscriminant.Bound origin \<longleftrightarrow>
    origin \<in> {ClientDiscriminant.EnrollmentRequest, ClientDiscriminant.CredentialAttachRequest}"
| "origin_is_valid ServerDiscriminant.UnboundReceipt origin \<longleftrightarrow>
    origin \<in> {ClientDiscriminant.EnrollmentRequest, ClientDiscriminant.CredentialAttachRequest}"
| "origin_is_valid ServerDiscriminant.ObserverBackpressure origin \<longleftrightarrow>
    origin \<in> {ClientDiscriminant.EnrollmentRequest, ClientDiscriminant.CredentialAttachRequest,
      ClientDiscriminant.DetachRequest, ClientDiscriminant.LeaveRequest, ClientDiscriminant.RecordAdmission}"
| "origin_is_valid ServerDiscriminant.ConversationSequenceExhausted origin \<longleftrightarrow>
    origin \<in> {ClientDiscriminant.EnrollmentRequest, ClientDiscriminant.CredentialAttachRequest,
      ClientDiscriminant.RecordAdmission}"
| "origin_is_valid ServerDiscriminant.AttachBound origin \<longleftrightarrow> origin \<in> {ClientDiscriminant.CredentialAttachRequest}"
| "origin_is_valid ServerDiscriminant.StaleOrUnknownReceipt origin \<longleftrightarrow>
    origin \<in> {ClientDiscriminant.CredentialAttachRequest}"
| "origin_is_valid ServerDiscriminant.MarkerNotDelivered origin \<longleftrightarrow>
    origin \<in> {ClientDiscriminant.CredentialAttachRequest, ClientDiscriminant.MarkerAck}"
| "origin_is_valid ServerDiscriminant.MarkerMismatch origin \<longleftrightarrow>
    origin \<in> {ClientDiscriminant.CredentialAttachRequest, ClientDiscriminant.MarkerAck}"
| "origin_is_valid ServerDiscriminant.DetachCommitted origin \<longleftrightarrow> origin \<in> {ClientDiscriminant.DetachRequest}"
| "origin_is_valid ServerDiscriminant.DetachInProgress origin \<longleftrightarrow> origin \<in> {ClientDiscriminant.DetachRequest}"
| "origin_is_valid ServerDiscriminant.AckCommitted origin \<longleftrightarrow> origin \<in> {ClientDiscriminant.ParticipantAck}"
| "origin_is_valid ServerDiscriminant.AckGap origin \<longleftrightarrow> origin \<in> {ClientDiscriminant.ParticipantAck}"
| "origin_is_valid ServerDiscriminant.AckRegression origin \<longleftrightarrow> origin \<in> {ClientDiscriminant.ParticipantAck}"
| "origin_is_valid ServerDiscriminant.AckNoOp origin \<longleftrightarrow>
    origin \<in> {ClientDiscriminant.ParticipantAck, ClientDiscriminant.MarkerAck}"
| "origin_is_valid ServerDiscriminant.LeaveCommitted origin \<longleftrightarrow> origin \<in> {ClientDiscriminant.LeaveRequest}"
| "origin_is_valid ServerDiscriminant.MarkerAckCommitted origin \<longleftrightarrow> origin \<in> {ClientDiscriminant.MarkerAck}"
| "origin_is_valid ServerDiscriminant.RecordCommitted origin \<longleftrightarrow> origin \<in> {ClientDiscriminant.RecordAdmission}"
| "origin_is_valid ServerDiscriminant.RecordTooLarge origin \<longleftrightarrow> origin \<in> {ClientDiscriminant.RecordAdmission}"
| "origin_is_valid ServerDiscriminant.MarkerSettlementBackpressure origin \<longleftrightarrow>
    origin \<in> {ClientDiscriminant.CredentialAttachRequest, ClientDiscriminant.DetachRequest}"
| "origin_is_valid ServerDiscriminant.EnrollmentSettlementBackpressure origin \<longleftrightarrow>
    origin \<in> {ClientDiscriminant.EnrollmentRequest}"
| "origin_is_valid ServerDiscriminant.ParticipantTransportRejected origin \<longleftrightarrow> False"
| "origin_is_valid ServerDiscriminant.ObserverRecoveryAccepted origin \<longleftrightarrow> False"
| "origin_is_valid ServerDiscriminant.InvalidObserverEpoch origin \<longleftrightarrow> False"
| "origin_is_valid ServerDiscriminant.InvalidObserverEpochList origin \<longleftrightarrow> False"
| "origin_is_valid ServerDiscriminant.ObserverRecoveryConnectionCapacityExceeded origin \<longleftrightarrow> False"

section \<open>Decoding\<close>

abbreviation invalid_field :: "'a taker" where
  "invalid_field \<equiv> raise (decode_error DecodeClass.InvalidField)"

definition take_enrollment :: "EnrollmentEnvelope taker" where
  "take_enrollment =
    thenTake take_u64 (\<lambda>conversation_id.
    thenTake (take_fixed TOKEN_LEN) (\<lambda>enrollment_token.
    give \<lparr>ee_conversation_id = conversation_id, ee_enrollment_token = enrollment_token\<rparr>))"

definition take_attach :: "AttachEnvelope taker" where
  "take_attach =
    thenTake take_u64 (\<lambda>conversation_id.
    thenTake take_u64 (\<lambda>participant_id.
    thenTake take_generation (\<lambda>capability_generation.
    thenTake (take_fixed TOKEN_LEN) (\<lambda>attach_attempt_token.
    thenTake take_option_u64 (\<lambda>accept_marker_delivery_seq.
    give \<lparr>ae_conversation_id = conversation_id, ae_participant_id = participant_id,
      ae_capability_generation = capability_generation, ae_attach_attempt_token = attach_attempt_token,
      ae_accept_marker_delivery_seq = accept_marker_delivery_seq\<rparr>)))))"

definition take_detach :: "DetachEnvelope taker" where
  "take_detach =
    thenTake take_u64 (\<lambda>conversation_id.
    thenTake take_u64 (\<lambda>participant_id.
    thenTake take_generation (\<lambda>capability_generation.
    thenTake (take_fixed TOKEN_LEN) (\<lambda>detach_attempt_token.
    give \<lparr>de_conversation_id = conversation_id, de_participant_id = participant_id,
      de_capability_generation = capability_generation, de_detach_attempt_token = detach_attempt_token\<rparr>))))"

definition take_participant_ack :: "ParticipantAckEnvelope taker" where
  "take_participant_ack =
    thenTake take_u64 (\<lambda>conversation_id.
    thenTake take_u64 (\<lambda>participant_id.
    thenTake take_generation (\<lambda>capability_generation.
    thenTake take_u64 (\<lambda>through_seq.
    give \<lparr>pae_conversation_id = conversation_id, pae_participant_id = participant_id,
      pae_capability_generation = capability_generation, pae_through_seq = through_seq\<rparr>))))"

definition take_leave :: "LeaveEnvelope taker" where
  "take_leave =
    thenTake take_u64 (\<lambda>conversation_id.
    thenTake take_u64 (\<lambda>participant_id.
    thenTake take_generation (\<lambda>capability_generation.
    thenTake (take_fixed TOKEN_LEN) (\<lambda>leave_attempt_token.
    give \<lparr>le_conversation_id = conversation_id, le_participant_id = participant_id,
      le_capability_generation = capability_generation, le_leave_attempt_token = leave_attempt_token\<rparr>))))"

definition take_marker_ack :: "MarkerAckEnvelope taker" where
  "take_marker_ack =
    thenTake take_u64 (\<lambda>conversation_id.
    thenTake take_u64 (\<lambda>participant_id.
    thenTake take_generation (\<lambda>capability_generation.
    thenTake take_u64 (\<lambda>marker_delivery_seq.
    give \<lparr>mae_conversation_id = conversation_id, mae_participant_id = participant_id,
      mae_capability_generation = capability_generation, mae_marker_delivery_seq = marker_delivery_seq\<rparr>))))"

definition take_record_admission :: "RecordAdmissionEnvelope taker" where
  "take_record_admission =
    thenTake take_u64 (\<lambda>conversation_id.
    thenTake take_u64 (\<lambda>participant_id.
    thenTake take_generation (\<lambda>capability_generation.
    thenTake (take_fixed TOKEN_LEN) (\<lambda>record_admission_attempt_token.
    give \<lparr>rae_conversation_id = conversation_id, rae_participant_id = participant_id,
      rae_capability_generation = capability_generation,
      rae_record_admission_attempt_token = record_admission_attempt_token\<rparr>))))"

fun take_response_envelope :: "ClientDiscriminant \<Rightarrow> ResponseEnvelope taker" where
  "take_response_envelope ClientDiscriminant.EnrollmentRequest = take_map ResponseEnvelope.Enrollment take_enrollment"
| "take_response_envelope ClientDiscriminant.CredentialAttachRequest =
    take_map ResponseEnvelope.CredentialAttach take_attach"
| "take_response_envelope ClientDiscriminant.DetachRequest = take_map ResponseEnvelope.Detach take_detach"
| "take_response_envelope ClientDiscriminant.ParticipantAck =
    take_map ResponseEnvelope.ParticipantAck take_participant_ack"
| "take_response_envelope ClientDiscriminant.LeaveRequest = take_map ResponseEnvelope.Leave take_leave"
| "take_response_envelope ClientDiscriminant.MarkerAck = take_map ResponseEnvelope.MarkerAck take_marker_ack"
| "take_response_envelope ClientDiscriminant.RecordAdmission =
    take_map ResponseEnvelope.RecordAdmission take_record_admission"
| "take_response_envelope ClientDiscriminant.ObserverRecoveryHandshake = invalid_field"

fun take_participant_reference :: "ClientDiscriminant \<Rightarrow> ParticipantReferenceEnvelope taker" where
  "take_participant_reference ClientDiscriminant.CredentialAttachRequest =
    take_map ParticipantReferenceEnvelope.CredentialAttach take_attach"
| "take_participant_reference ClientDiscriminant.DetachRequest =
    take_map ParticipantReferenceEnvelope.Detach take_detach"
| "take_participant_reference ClientDiscriminant.ParticipantAck =
    take_map ParticipantReferenceEnvelope.ParticipantAck take_participant_ack"
| "take_participant_reference ClientDiscriminant.LeaveRequest =
    take_map ParticipantReferenceEnvelope.Leave take_leave"
| "take_participant_reference ClientDiscriminant.MarkerAck =
    take_map ParticipantReferenceEnvelope.MarkerAck take_marker_ack"
| "take_participant_reference ClientDiscriminant.RecordAdmission =
    take_map ParticipantReferenceEnvelope.RecordAdmission take_record_admission"
| "take_participant_reference ClientDiscriminant.EnrollmentRequest = invalid_field"
| "take_participant_reference ClientDiscriminant.ObserverRecoveryHandshake = invalid_field"

fun take_binding_required :: "ClientDiscriminant \<Rightarrow> BindingRequiredEnvelope taker" where
  "take_binding_required ClientDiscriminant.DetachRequest = take_map BindingRequiredEnvelope.Detach take_detach"
| "take_binding_required ClientDiscriminant.ParticipantAck =
    take_map BindingRequiredEnvelope.ParticipantAck take_participant_ack"
| "take_binding_required ClientDiscriminant.LeaveRequest = take_map BindingRequiredEnvelope.Leave take_leave"
| "take_binding_required ClientDiscriminant.MarkerAck = take_map BindingRequiredEnvelope.MarkerAck take_marker_ack"
| "take_binding_required ClientDiscriminant.RecordAdmission =
    take_map BindingRequiredEnvelope.RecordAdmission take_record_admission"
| "take_binding_required ClientDiscriminant.EnrollmentRequest = invalid_field"
| "take_binding_required ClientDiscriminant.CredentialAttachRequest = invalid_field"
| "take_binding_required ClientDiscriminant.ObserverRecoveryHandshake = invalid_field"

definition take_order_allocating :: "ClientDiscriminant \<Rightarrow> OrderAllocatingEnvelope taker" where
  "take_order_allocating origin =
    (case origin of
       ClientDiscriminant.EnrollmentRequest \<Rightarrow> take_map OrderEnrollment take_enrollment
     | ClientDiscriminant.CredentialAttachRequest \<Rightarrow> take_map OrderCredentialAttach take_attach
     | ClientDiscriminant.RecordAdmission \<Rightarrow> take_map OrderRecordAdmission take_record_admission
     | _ \<Rightarrow> invalid_field)"

definition take_closure_checked :: "ClientDiscriminant \<Rightarrow> ClosureCheckedEnvelope taker" where
  "take_closure_checked origin =
    (case origin of
       ClientDiscriminant.EnrollmentRequest \<Rightarrow> take_map ClosureCheckedEnvelope.Enrollment take_enrollment
     | ClientDiscriminant.CredentialAttachRequest \<Rightarrow> take_map ClosureCheckedEnvelope.CredentialAttach take_attach
     | ClientDiscriminant.LeaveRequest \<Rightarrow> take_map ClosureCheckedEnvelope.Leave take_leave
     | ClientDiscriminant.RecordAdmission \<Rightarrow> take_map ClosureCheckedEnvelope.RecordAdmission take_record_admission
     | _ \<Rightarrow> invalid_field)"

definition take_sequence_allocating :: "ClientDiscriminant \<Rightarrow> SequenceAllocatingEnvelope taker" where
  "take_sequence_allocating origin =
    (case origin of
       ClientDiscriminant.EnrollmentRequest \<Rightarrow> take_map SequenceEnrollment take_enrollment
     | ClientDiscriminant.CredentialAttachRequest \<Rightarrow> take_map SequenceCredentialAttach take_attach
     | ClientDiscriminant.RecordAdmission \<Rightarrow> take_map SequenceRecordAdmission take_record_admission
     | _ \<Rightarrow> invalid_field)"

definition take_attach_marker_proof :: "AttachMarkerProof taker" where
  "take_attach_marker_proof =
    thenTake take_u64 (\<lambda>conversation_id.
    thenTake (take_fixed TOKEN_LEN) (\<lambda>token.
    thenTake take_u64 (\<lambda>participant_id.
    thenTake take_generation (\<lambda>capability_generation.
    thenTake take_u64 (\<lambda>requested_marker_delivery_seq.
    give \<lparr>amp_conversation_id = conversation_id, amp_token = token, amp_participant_id = participant_id,
      amp_capability_generation = capability_generation,
      amp_requested_marker_delivery_seq = requested_marker_delivery_seq\<rparr>)))))"

definition take_marker_ack_proof :: "MarkerAckProof taker" where
  "take_marker_ack_proof =
    thenTake take_u64 (\<lambda>conversation_id.
    thenTake take_u64 (\<lambda>participant_id.
    thenTake take_generation (\<lambda>capability_generation.
    thenTake take_u64 (\<lambda>requested_marker_delivery_seq.
    give \<lparr>map_conversation_id = conversation_id, map_participant_id = participant_id,
      map_capability_generation = capability_generation,
      map_requested_marker_delivery_seq = requested_marker_delivery_seq\<rparr>))))"

definition take_marker_proof :: "ClientDiscriminant \<Rightarrow> MarkerProofRequest taker" where
  "take_marker_proof origin =
    (case origin of
       ClientDiscriminant.CredentialAttachRequest \<Rightarrow>
         take_map MarkerProofRequest.CredentialAttach take_attach_marker_proof
     | ClientDiscriminant.MarkerAck \<Rightarrow> take_map MarkerProofRequest.MarkerAck take_marker_ack_proof
     | _ \<Rightarrow> invalid_field)"

definition take_repayment_edge_body :: "RepaymentEdgeTag \<Rightarrow> RepaymentEdge taker" where
  "take_repayment_edge_body tag =
    (case tag of
       RepaymentEdgeTag.NoEdge \<Rightarrow> give RepaymentEdge.NoEdge
     | RepaymentEdgeTag.ObserverProjection \<Rightarrow>
         thenTake take_u64 (\<lambda>through_seq. give (RepaymentEdge.ObserverProjection through_seq))
     | RepaymentEdgeTag.PhysicalCompaction \<Rightarrow>
         thenTake take_u64 (\<lambda>from_floor.
         thenTake take_u64 (\<lambda>through_seq.
         give (RepaymentEdge.PhysicalCompaction from_floor through_seq)))
     | RepaymentEdgeTag.MarkerDelivery \<Rightarrow>
         thenTake take_u64 (\<lambda>participant_id.
         thenTake take_binding_epoch (\<lambda>binding_epoch.
         thenTake take_u64 (\<lambda>marker_delivery_seq.
         give (RepaymentEdge.MarkerDelivery participant_id binding_epoch marker_delivery_seq))))
     | RepaymentEdgeTag.ParticipantCursorProgress \<Rightarrow>
         thenTake take_u64 (\<lambda>participant_id.
         thenTake take_binding_epoch (\<lambda>binding_epoch.
         thenTake take_u64 (\<lambda>through_seq.
         thenTake take_option_u64 (\<lambda>marker_delivery_seq.
         give (RepaymentEdge.ParticipantCursorProgress \<lparr>pcp_participant_id = participant_id,
           pcp_binding_epoch = binding_epoch, pcp_through_seq = through_seq,
           pcp_marker_delivery_seq = marker_delivery_seq\<rparr>)))))
     | RepaymentEdgeTag.DetachedCredentialRecovery \<Rightarrow>
         thenTake take_u64 (\<lambda>participant_id.
         thenTake take_u64 (\<lambda>marker_delivery_seq.
         thenTake take_binding_epoch (\<lambda>prior_binding_epoch.
         give (RepaymentEdge.DetachedCredentialRecovery participant_id marker_delivery_seq prior_binding_epoch))))
     | RepaymentEdgeTag.DetachedMarkerRelease \<Rightarrow>
         thenTake take_u64 (\<lambda>participant_id.
         thenTake take_u64 (\<lambda>marker_delivery_seq.
         thenTake take_binding_epoch (\<lambda>last_dead_binding_epoch.
         give (RepaymentEdge.DetachedMarkerRelease participant_id marker_delivery_seq last_dead_binding_epoch))))
     | RepaymentEdgeTag.DetachedCursorRelease \<Rightarrow>
         thenTake take_u64 (\<lambda>participant_id.
         thenTake take_binding_epoch (\<lambda>last_dead_binding_epoch.
         give (RepaymentEdge.DetachedCursorRelease participant_id last_dead_binding_epoch))))"

definition take_repayment_edge :: "RepaymentEdge taker" where
  "take_repayment_edge = thenTake (take_tag RepaymentEdgeTag_try_from) take_repayment_edge_body"

definition take_closure_snapshot :: "ClosureSnapshot taker" where
  "take_closure_snapshot =
    thenTake take_u64 (\<lambda>marker_capacity_credits.
    thenTake take_u64 (\<lambda>marker_anchors.
    thenTake take_u64 (\<lambda>entry_debt.
    thenTake take_u64 (\<lambda>byte_debt.
    thenTake take_repayment_edge (\<lambda>repayment_edge.
    thenTake take_u64 (\<lambda>edge_sequence_claims.
    thenTake take_u64 (\<lambda>edge_order_position_claims.
    thenTake take_resource_vector (\<lambda>edge_k_remaining.
    thenTake take_wide_resource_vector (\<lambda>k_headroom.
    thenTake take_u64 (\<lambda>episode_churn_used.
    thenTake take_u64 (\<lambda>delta_cycles.
    thenTake take_u64 (\<lambda>episode_churn_limit.
    give \<lparr>cs_marker_capacity_credits = marker_capacity_credits, cs_marker_anchors = marker_anchors,
      cs_entry_debt = entry_debt, cs_byte_debt = byte_debt, cs_repayment_edge = repayment_edge,
      cs_edge_sequence_claims = edge_sequence_claims,
      cs_edge_order_position_claims = edge_order_position_claims, cs_edge_k_remaining = edge_k_remaining,
      cs_k_headroom = k_headroom, cs_episode_churn_used = episode_churn_used, cs_delta_cycles = delta_cycles,
      cs_episode_churn_limit = episode_churn_limit\<rparr>))))))))))))"

definition take_sequence_budget :: "SequenceBudget taker" where
  "take_sequence_budget =
    thenTake take_u64 (\<lambda>high_watermark.
    thenTake take_u64 (\<lambda>remaining.
    thenTake take_u64 (\<lambda>e.
    thenTake take_u64 (\<lambda>t.
    thenTake take_u64 (\<lambda>m.
    thenTake take_u64 (\<lambda>rs.
    thenTake take_u64 (\<lambda>rt.
    thenTake take_u128 (\<lambda>l_times_t.
    thenTake take_u128 (\<lambda>l_times_rt.
    thenTake take_u128 (\<lambda>l_other_times_e.
    give \<lparr>sb_high_watermark = high_watermark, sb_remaining = remaining, sb_e = e, sb_t = t, sb_m = m,
      sb_rs = rs, sb_rt = rt, sb_l_times_t = l_times_t, sb_l_times_rt = l_times_rt,
      sb_l_other_times_e = l_other_times_e\<rparr>))))))))))"

definition required_origin :: "ClientDiscriminant option \<Rightarrow> ClientDiscriminant taker" where
  "required_origin origin = give_some origin (decode_error DecodeClass.InvalidField)"

definition generation_one :: "Generation taker" where
  "generation_one = give_some (Generation_new 1) InvalidValue"

definition required_generation_option :: "Generation taker" where
  "required_generation_option = thenTake take_option_generation (\<lambda>value.
    case value of
      None \<Rightarrow> thenTake (invalidate_if True) (\<lambda>_. generation_one)
    | Some value \<Rightarrow> give value)"

definition require_one :: "u64 \<Rightarrow> unit taker" where
  "require_one expected = thenTake take_u64 (\<lambda>value. invalidate_if (value \<noteq> expected))"

definition take_transport_reason :: "TransportRejectionReason taker" where
  "take_transport_reason = thenTake (take_tag TransportReasonTag_try_from) (\<lambda>tag.
    case tag of
      TransportReasonTag.FrameTooLarge \<Rightarrow>
        thenTake take_u64 (\<lambda>complete_frame_bytes.
        thenTake take_u64 (\<lambda>max_frame_bytes.
        give (TransportRejectionReason.FrameTooLarge complete_frame_bytes max_frame_bytes)))
    | TransportReasonTag.DecodeFailed \<Rightarrow>
        thenTake (take_tag DecodeClass_try_from) (\<lambda>decode_class.
        give (TransportRejectionReason.DecodeFailed decode_class))
    | TransportReasonTag.UnsupportedVersion \<Rightarrow>
        thenTake take_protocol_version (\<lambda>presented_version.
        thenTake take_protocol_version (\<lambda>supported_version.
        give (TransportRejectionReason.UnsupportedVersion presented_version supported_version)))
    | TransportReasonTag.AuthenticationFailed \<Rightarrow> give TransportRejectionReason.AuthenticationFailed
    | TransportReasonTag.ParticipantCapabilityRequired \<Rightarrow>
        thenTake take_string (\<lambda>capability.
        thenTake (invalidate_if (capability \<noteq> PARTICIPANT_CAPABILITY)) (\<lambda>_.
        give TransportRejectionReason.ParticipantCapabilityRequired)))"

definition take_attempt_conflict :: "ClientDiscriminant \<Rightarrow> AttemptTokenBodyConflict taker" where
  "take_attempt_conflict origin =
    thenTake (take_fixed TOKEN_LEN) (\<lambda>token.
    thenTake (take_tag AttemptOperation_try_from) (\<lambda>operation.
    case origin of
      ClientDiscriminant.CredentialAttachRequest \<Rightarrow>
        if operation \<noteq> AttemptOperation.CredentialAttachRequest then invalid_field
        else
          thenTake take_u64 (\<lambda>conversation_id.
          thenTake take_u64 (\<lambda>presented_participant_id.
          thenTake take_generation (\<lambda>presented_generation.
          thenTake take_option_u64 (\<lambda>presented_marker_delivery_seq.
          thenTake (take_tag AttemptConflict_try_from) (\<lambda>conflict.
          give (AttemptTokenBodyConflict.CredentialAttach token conversation_id presented_participant_id
            presented_generation presented_marker_delivery_seq conflict))))))
    | ClientDiscriminant.LeaveRequest \<Rightarrow>
        if operation \<noteq> AttemptOperation.LeaveRequest then invalid_field
        else
          thenTake take_u64 (\<lambda>conversation_id.
          thenTake take_u64 (\<lambda>presented_participant_id.
          thenTake take_generation (\<lambda>presented_generation.
          thenTake (take_tag AttemptConflict_try_from) (\<lambda>conflict.
          thenTake (invalidate_if (conflict \<noteq> AttemptConflict.GenerationConflict)) (\<lambda>_.
          give (AttemptTokenBodyConflict.Leave token conversation_id presented_participant_id
            presented_generation))))))
    | ClientDiscriminant.RecordAdmission \<Rightarrow>
        if operation \<noteq> AttemptOperation.RecordAdmission then invalid_field
        else
          thenTake take_u64 (\<lambda>conversation_id.
          thenTake take_u64 (\<lambda>presented_participant_id.
          thenTake take_generation (\<lambda>presented_generation.
          give (AttemptTokenBodyConflict.RecordAdmission token conversation_id presented_participant_id
            presented_generation))))
    | _ \<Rightarrow> invalid_field))"

definition take_binding_occupied :: "ClientDiscriminant \<Rightarrow> ConnectionConversationBindingOccupied taker" where
  "take_binding_occupied origin =
    (case origin of
       ClientDiscriminant.EnrollmentRequest \<Rightarrow>
         thenTake take_u64 (\<lambda>conversation_id.
         thenTake (take_fixed TOKEN_LEN) (\<lambda>enrollment_token.
         thenTake take_option_u64 (\<lambda>participant.
         thenTake (invalidate_if (participant \<noteq> None)) (\<lambda>_.
         give (OccupiedEnrollment conversation_id enrollment_token)))))
     | ClientDiscriminant.CredentialAttachRequest \<Rightarrow>
         thenTake take_u64 (\<lambda>conversation_id.
         thenTake take_u64 (\<lambda>participant_id.
         thenTake take_generation (\<lambda>capability_generation.
         thenTake (take_fixed TOKEN_LEN) (\<lambda>attach_attempt_token.
         thenTake take_option_u64 (\<lambda>accept_marker_delivery_seq.
         thenTake take_option_u64 (\<lambda>participant.
         thenTake (invalidate_if (participant \<noteq> Some participant_id)) (\<lambda>_.
         give (OccupiedCredentialAttach conversation_id participant_id capability_generation
           attach_attempt_token accept_marker_delivery_seq))))))))
     | _ \<Rightarrow> invalid_field)"

definition take_order_exhausted :: "ClientDiscriminant \<Rightarrow> ConversationOrderExhausted taker" where
  "take_order_exhausted origin =
    thenTake (take_order_allocating origin) (\<lambda>request.
    thenTake (take_tag Counter_try_from) (\<lambda>_.
    thenTake take_u64 (\<lambda>high.
    thenTake take_option_u64 (\<lambda>next_value.
    thenTake take_u128 (\<lambda>order_remaining.
    thenTake take_u128 (\<lambda>reserved_claims.
    thenTake take_u64 (\<lambda>required_majors.
    thenTake (invalidate_if (required_majors \<noteq> REQUIRED_MAJORS)) (\<lambda>_.
    thenTake take_u128 (\<lambda>resulting_order_remaining.
    thenTake take_u128 (\<lambda>resulting_reserved_claims.
    let value = ConversationOrderExhausted_new request high order_remaining reserved_claims
      resulting_order_remaining resulting_reserved_claims in
    thenTake (invalidate_if (next_value \<noteq> coe_next_value value)) (\<lambda>_.
    give value)))))))))))"

definition take_retired :: "ClientDiscriminant \<Rightarrow> Retired taker" where
  "take_retired origin =
    (if origin = ClientDiscriminant.EnrollmentRequest
     then
       thenTake take_enrollment (\<lambda>request.
       thenTake take_u64 (\<lambda>participant_id.
       thenTake take_generation (\<lambda>retired_generation.
       give (Retired.Enrollment request participant_id retired_generation))))
     else
       thenTake (take_participant_reference origin) (\<lambda>request.
       thenTake take_generation (\<lambda>retired_generation.
       give (Retired.Participant request retired_generation))))"

definition take_closure_reason :: "ClosureScope \<Rightarrow> ClosureRefusalReason taker" where
  "take_closure_reason scope =
    (case scope of
       ClosureScope.Capacity \<Rightarrow>
         thenTake (take_tag ResourceDimensionTag_try_from) (\<lambda>tag.
         let dimension = ResourceDimension_from tag in
         thenTake take_u128 (\<lambda>required.
         thenTake take_u128 (\<lambda>limit.
         give (ClosureRefusalReason.Capacity
           \<lparr>ccr_dimension = dimension, ccr_required = required, ccr_limit = limit\<rparr>))))
     | ClosureScope.RecoveryFence \<Rightarrow> give ClosureRefusalReason.RecoveryFence
     | ClosureScope.DeliveredMarkerAwaitingAck \<Rightarrow> give ClosureRefusalReason.DeliveredMarkerAwaitingAck
     | ClosureScope.EpisodeChurnLimit \<Rightarrow> give ClosureRefusalReason.EpisodeChurnLimit)"

definition take_closure_capacity_exceeded :: "ClientDiscriminant \<Rightarrow> MarkerClosureCapacityExceeded taker" where
  "take_closure_capacity_exceeded origin =
    thenTake (take_closure_checked origin) (\<lambda>request.
    thenTake (take_tag ClosureScope_try_from) (\<lambda>scope.
    thenTake take_closure_snapshot (\<lambda>snapshot.
    thenTake (take_closure_reason scope) (\<lambda>reason.
    give \<lparr>mcc_request = request, mcc_snapshot = snapshot, mcc_reason = reason\<rparr>))))"

fun take_stale_authority :: "ClientDiscriminant \<Rightarrow> StaleAuthority taker" where
  "take_stale_authority ClientDiscriminant.CredentialAttachRequest =
    thenTake take_attach (\<lambda>request.
    thenTake take_generation (\<lambda>current_generation.
    give (StaleAuthority.Live (CommonStaleAuthorityEnvelope.CredentialAttach request) current_generation)))"
| "take_stale_authority ClientDiscriminant.ParticipantAck =
    thenTake take_participant_ack (\<lambda>request.
    thenTake take_generation (\<lambda>current_generation.
    give (StaleAuthority.Live (CommonStaleAuthorityEnvelope.ParticipantAck request) current_generation)))"
| "take_stale_authority ClientDiscriminant.MarkerAck =
    thenTake take_marker_ack (\<lambda>request.
    thenTake take_generation (\<lambda>current_generation.
    give (StaleAuthority.Live (CommonStaleAuthorityEnvelope.MarkerAck request) current_generation)))"
| "take_stale_authority ClientDiscriminant.RecordAdmission =
    thenTake take_record_admission (\<lambda>request.
    thenTake take_generation (\<lambda>current_generation.
    give (StaleAuthority.Live (CommonStaleAuthorityEnvelope.RecordAdmission request) current_generation)))"
| "take_stale_authority ClientDiscriminant.DetachRequest =
    thenTake (take_tag DetachAuthorityStateTag_try_from) (\<lambda>authority.
    thenTake take_u64 (\<lambda>conversation_id.
    thenTake take_u64 (\<lambda>participant_id.
    thenTake take_generation (\<lambda>capability_generation.
    thenTake (take_fixed TOKEN_LEN) (\<lambda>detach_attempt_token.
    thenTake take_generation (\<lambda>current_generation.
    case authority of
      DetachAuthorityStateTag.Live \<Rightarrow>
        give (StaleAuthority.Detach (DetachStaleAuthority.Live conversation_id participant_id
          capability_generation detach_attempt_token current_generation))
    | DetachAuthorityStateTag.TerminalizedDetachCell \<Rightarrow>
        thenTake take_binding_epoch (\<lambda>committed_binding_epoch.
        thenTake (take_tag BindingStateTag_try_from) (\<lambda>state_tag.
        thenTake (case state_tag of
            BindingStateTag.Bound \<Rightarrow> take_map BindingStateView.Bound take_binding_epoch
          | BindingStateTag.Detached \<Rightarrow> give BindingStateView.Detached) (\<lambda>binding_state.
        give (StaleAuthority.Detach (DetachStaleAuthority.TerminalizedDetachCell
          \<lparr>tdc_conversation_id = conversation_id, tdc_participant_id = participant_id,
           tdc_capability_generation = capability_generation, tdc_detach_attempt_token = detach_attempt_token,
           tdc_current_generation = current_generation, tdc_committed_binding_epoch = committed_binding_epoch,
           tdc_binding_state = binding_state\<rparr>)))))))))))"
| "take_stale_authority ClientDiscriminant.LeaveRequest =
    thenTake (take_tag LeaveAuthorityStateTag_try_from) (\<lambda>authority.
    thenTake take_u64 (\<lambda>conversation_id.
    thenTake take_u64 (\<lambda>participant_id.
    thenTake take_generation (\<lambda>presented_generation.
    thenTake (take_fixed TOKEN_LEN) (\<lambda>leave_attempt_token.
    case authority of
      LeaveAuthorityStateTag.Live \<Rightarrow>
        thenTake take_generation (\<lambda>current_generation.
        give (StaleAuthority.Leave (LeaveStaleAuthority.Live conversation_id participant_id
          presented_generation leave_attempt_token current_generation)))
    | LeaveAuthorityStateTag.CommittedLeaveTombstone \<Rightarrow>
        thenTake take_generation (\<lambda>retired_generation.
        give (StaleAuthority.Leave (LeaveStaleAuthority.CommittedLeaveTombstone conversation_id participant_id
          presented_generation leave_attempt_token retired_generation))))))))"
| "take_stale_authority ClientDiscriminant.EnrollmentRequest = invalid_field"
| "take_stale_authority ClientDiscriminant.ObserverRecoveryHandshake = invalid_field"

definition take_enroll_bound :: "EnrollBound taker" where
  "take_enroll_bound =
    thenTake take_u64 (\<lambda>conversation_id.
    thenTake (take_fixed TOKEN_LEN) (\<lambda>token.
    thenTake take_u64 (\<lambda>participant_id.
    thenTake take_option_generation (\<lambda>request_generation.
    thenTake (invalidate_if (request_generation \<noteq> None)) (\<lambda>_.
    thenTake take_generation (\<lambda>capability_generation.
    thenTake (invalidate_if (generation_get capability_generation \<noteq> 1)) (\<lambda>_.
    thenTake (take_fixed SECRET_LEN) (\<lambda>attach_secret.
    thenTake take_binding_epoch (\<lambda>origin_binding_epoch.
    thenTake (invalidate_if (generation_get (be_capability_generation origin_binding_epoch) \<noteq> 1)) (\<lambda>_.
    thenTake take_u64 (\<lambda>persisted_cursor.
    thenTake (invalidate_if (persisted_cursor \<noteq> 0)) (\<lambda>_.
    thenTake take_option_u64 (\<lambda>accepted_marker.
    thenTake (invalidate_if (accepted_marker \<noteq> None)) (\<lambda>_.
    thenTake take_u128 (\<lambda>receipt_expires_at.
    thenTake take_u128 (\<lambda>provenance_expires_at.
    thenTake (if generation_get (be_capability_generation origin_binding_epoch) = 1
        then give origin_binding_epoch
        else thenTake generation_one (\<lambda>one.
          give \<lparr>be_connection_incarnation = be_connection_incarnation origin_binding_epoch,
            be_capability_generation = one\<rparr>)) (\<lambda>valid_epoch.
    give_some (EnrollBound_new conversation_id token participant_id attach_secret valid_epoch
      receipt_expires_at provenance_expires_at) InvalidValue)))))))))))))))))"

definition take_receipt_expired :: "ClientDiscriminant \<Rightarrow> ReceiptExpired taker" where
  "take_receipt_expired origin =
    thenTake take_u64 (\<lambda>conversation_id.
    thenTake (take_fixed TOKEN_LEN) (\<lambda>token.
    thenTake take_u64 (\<lambda>participant_id.
    case origin of
      ClientDiscriminant.EnrollmentRequest \<Rightarrow>
        thenTake take_option_generation (\<lambda>request_generation.
        thenTake (invalidate_if (request_generation \<noteq> None)) (\<lambda>_.
        thenTake take_generation (\<lambda>result_generation.
        thenTake take_generation (\<lambda>current_generation.
        thenTake (take_tag ReceiptExpiryReason_try_from) (\<lambda>reason.
        give (ReceiptExpired.Enrollment conversation_id token participant_id result_generation
          current_generation reason))))))
    | ClientDiscriminant.CredentialAttachRequest \<Rightarrow>
        thenTake required_generation_option (\<lambda>presented_generation.
        thenTake take_option_u64 (\<lambda>presented_marker_delivery_seq.
        thenTake take_generation (\<lambda>result_generation.
        thenTake take_generation (\<lambda>current_generation.
        thenTake (take_tag ReceiptExpiryReason_try_from) (\<lambda>reason.
        give (ReceiptExpired.CredentialAttach conversation_id token participant_id presented_generation
          presented_marker_delivery_seq result_generation current_generation reason))))))
    | _ \<Rightarrow> invalid_field)))"

definition take_enrollment_receipt_scope :: "EnrollmentReceiptCapacityScope taker" where
  "take_enrollment_receipt_scope = thenTake (take_tag ReceiptCapacityScope_try_from) (\<lambda>scope.
    case scope of
      ReceiptCapacityScope.LiveReceiptServer \<Rightarrow> give EnrollmentReceiptCapacityScope.LiveReceiptServer
    | ReceiptCapacityScope.ProvenanceServer \<Rightarrow> give EnrollmentReceiptCapacityScope.ProvenanceServer
    | ReceiptCapacityScope.ProvenanceConversation \<Rightarrow> give EnrollmentReceiptCapacityScope.ProvenanceConversation
    | ReceiptCapacityScope.LiveReceiptParticipant \<Rightarrow> invalid_field
    | ReceiptCapacityScope.ProvenanceParticipant \<Rightarrow> invalid_field)"

definition take_receipt_capacity :: "ClientDiscriminant \<Rightarrow> ReceiptCapacityExceeded taker" where
  "take_receipt_capacity origin =
    (case origin of
       ClientDiscriminant.EnrollmentRequest \<Rightarrow>
         thenTake take_enrollment (\<lambda>request.
         thenTake take_enrollment_receipt_scope (\<lambda>scope.
         thenTake take_u64 (\<lambda>limit.
         thenTake take_u64 (\<lambda>occupied.
         thenTake (require_one REQUESTED) (\<lambda>_.
         give (ReceiptCapacityExceeded.Enrollment request scope limit occupied))))))
     | ClientDiscriminant.CredentialAttachRequest \<Rightarrow>
         thenTake take_attach (\<lambda>request.
         thenTake (take_tag ReceiptCapacityScope_try_from) (\<lambda>scope.
         thenTake take_u64 (\<lambda>limit.
         thenTake take_u64 (\<lambda>occupied.
         thenTake (require_one REQUESTED) (\<lambda>_.
         give (ReceiptCapacityExceeded.CredentialAttach request scope limit occupied))))))
     | _ \<Rightarrow> invalid_field)"

definition take_identity_capacity :: "IdentityCapacityExceeded taker" where
  "take_identity_capacity =
    thenTake take_enrollment (\<lambda>request.
    thenTake (take_tag IdentityCapacityScope_try_from) (\<lambda>scope.
    thenTake take_u64 (\<lambda>limit.
    thenTake take_u64 (\<lambda>occupied.
    thenTake take_u64 (\<lambda>requested.
    thenTake (invalidate_if (requested \<noteq> REQUESTED)) (\<lambda>_.
    give \<lparr>ice_request = request, ice_scope = scope, ice_limit = limit, ice_occupied = occupied\<rparr>))))))"

definition take_backpressure_state :: "ObserverBackpressureState taker" where
  "take_backpressure_state =
    thenTake take_u64 (\<lambda>backpressure_epoch.
    thenTake take_u64 (\<lambda>observer_progress.
    give_some (ObserverBackpressureState_replay backpressure_epoch observer_progress)
      (decode_error DecodeClass.InvalidField)))"

definition take_observer_backpressure :: "ClientDiscriminant \<Rightarrow> ObserverBackpressure taker" where
  "take_observer_backpressure origin =
    (case origin of
       ClientDiscriminant.EnrollmentRequest \<Rightarrow>
         thenTake take_enrollment (\<lambda>request.
         thenTake take_backpressure_state (\<lambda>state.
         give (BackpressureEnrollment request state)))
     | ClientDiscriminant.CredentialAttachRequest \<Rightarrow>
         thenTake take_attach (\<lambda>request.
         thenTake take_backpressure_state (\<lambda>state.
         give (BackpressureCredentialAttach request state)))
     | ClientDiscriminant.DetachRequest \<Rightarrow>
         thenTake take_detach (\<lambda>request.
         thenTake take_binding_epoch (\<lambda>committed_binding_epoch.
         thenTake take_backpressure_state (\<lambda>state.
         give (BackpressureDetach request committed_binding_epoch state))))
     | ClientDiscriminant.LeaveRequest \<Rightarrow>
         thenTake take_leave (\<lambda>request.
         thenTake take_backpressure_state (\<lambda>state.
         thenTake take_bool (\<lambda>prior_terminal_cell_exists.
         give (BackpressureLeave request state prior_terminal_cell_exists))))
     | ClientDiscriminant.RecordAdmission \<Rightarrow>
         thenTake take_record_admission (\<lambda>request.
         thenTake take_backpressure_state (\<lambda>state.
         give (BackpressureRecordAdmission request state)))
     | _ \<Rightarrow> invalid_field)"

text \<open>The choice between \<open>AttachBound::fenced\<close> and \<open>AttachBound::ordinary\<close>, with the final comparison of
  the capability generation; \<open>take_attach_bound\<close> and \<open>take_receipt_replay\<close> share it.\<close>

definition attach_bound_from_fields :: "ConversationId \<Rightarrow> AttachAttemptToken \<Rightarrow> ParticipantId \<Rightarrow> Generation
    \<Rightarrow> Generation \<Rightarrow> AttachSecret \<Rightarrow> BindingEpoch \<Rightarrow> DeliverySeq \<Rightarrow> DeliverySeq option \<Rightarrow> u128 \<Rightarrow> u128
    \<Rightarrow> AttachBound taker" where
  "attach_bound_from_fields conversation_id token participant_id request_generation capability_generation
      attach_secret origin_binding_epoch persisted_cursor accepted_marker_delivery_seq receipt_expires_at
      provenance_expires_at =
    thenTake (give_some (case accepted_marker_delivery_seq of
        Some marker \<Rightarrow>
          if persisted_cursor = marker
          then AttachBound_fenced conversation_id token participant_id request_generation attach_secret
            origin_binding_epoch marker receipt_expires_at provenance_expires_at
          else None
      | None \<Rightarrow> AttachBound_ordinary conversation_id token participant_id request_generation attach_secret
          origin_binding_epoch persisted_cursor receipt_expires_at provenance_expires_at)
      (decode_error DecodeClass.InvalidField)) (\<lambda>value.
    if be_capability_generation (ab_origin_binding_epoch value) = capability_generation then give value
    else invalid_field)"

definition take_attach_bound_rest :: "ConversationId \<Rightarrow> AttachAttemptToken \<Rightarrow> ParticipantId \<Rightarrow> AttachBound taker" where
  "take_attach_bound_rest conversation_id token participant_id =
    thenTake required_generation_option (\<lambda>request_generation.
    thenTake take_generation (\<lambda>capability_generation.
    thenTake (take_fixed SECRET_LEN) (\<lambda>attach_secret.
    thenTake take_binding_epoch (\<lambda>origin_binding_epoch.
    thenTake take_u64 (\<lambda>persisted_cursor.
    thenTake take_option_u64 (\<lambda>accepted_marker_delivery_seq.
    thenTake take_u128 (\<lambda>receipt_expires_at.
    thenTake take_u128 (\<lambda>provenance_expires_at.
    attach_bound_from_fields conversation_id token participant_id request_generation capability_generation
      attach_secret origin_binding_epoch persisted_cursor accepted_marker_delivery_seq receipt_expires_at
      provenance_expires_at))))))))"

definition take_attach_bound :: "AttachBound taker" where
  "take_attach_bound =
    thenTake take_u64 (\<lambda>conversation_id.
    thenTake (take_fixed TOKEN_LEN) (\<lambda>token.
    thenTake take_u64 (\<lambda>participant_id.
    take_attach_bound_rest conversation_id token participant_id)))"

definition take_receipt_replay :: "ClientDiscriminant \<Rightarrow> ReceiptReplay taker" where
  "take_receipt_replay origin =
    thenTake take_u64 (\<lambda>conversation_id.
    thenTake (take_fixed TOKEN_LEN) (\<lambda>token.
    thenTake take_u64 (\<lambda>participant_id.
    case origin of
      ClientDiscriminant.EnrollmentRequest \<Rightarrow>
        thenTake take_option_generation (\<lambda>request_generation.
        thenTake take_generation (\<lambda>capability_generation.
        thenTake (take_fixed SECRET_LEN) (\<lambda>attach_secret.
        thenTake take_binding_epoch (\<lambda>origin_binding_epoch.
        thenTake take_u64 (\<lambda>persisted_cursor.
        thenTake take_option_u64 (\<lambda>accepted_marker_delivery_seq.
        thenTake take_u128 (\<lambda>receipt_expires_at.
        thenTake take_u128 (\<lambda>provenance_expires_at.
        thenTake (give_some (EnrollBound_new conversation_id token participant_id attach_secret
          origin_binding_epoch receipt_expires_at provenance_expires_at)
          (decode_error DecodeClass.InvalidField)) (\<lambda>value.
        if request_generation = None \<and> capability_generation = Generation_ONE \<and> persisted_cursor = 0
          \<and> accepted_marker_delivery_seq = None
        then give (ReceiptReplay.Enrollment value)
        else invalid_field)))))))))
    | ClientDiscriminant.CredentialAttachRequest \<Rightarrow>
        take_map ReceiptReplay.CredentialAttach (take_attach_bound_rest conversation_id token participant_id)
    | _ \<Rightarrow> invalid_field)))"

definition take_ack_no_op :: "ClientDiscriminant \<Rightarrow> AckNoOp taker" where
  "take_ack_no_op origin =
    (case origin of
       ClientDiscriminant.ParticipantAck \<Rightarrow>
         thenTake take_participant_ack (\<lambda>request.
         thenTake take_u64 (\<lambda>cursor.
         thenTake (invalidate_if (cursor \<noteq> pae_through_seq request)) (\<lambda>_.
         give (AckNoOp.ParticipantAck request))))
     | ClientDiscriminant.MarkerAck \<Rightarrow>
         thenTake take_marker_ack (\<lambda>request.
         thenTake take_u64 (\<lambda>cursor.
         thenTake (invalidate_if (cursor \<noteq> mae_marker_delivery_seq request)) (\<lambda>_.
         give (AckNoOp.MarkerAck request))))
     | _ \<Rightarrow> invalid_field)"

definition take_recovery_status :: "ObserverProgressStatus taker" where
  "take_recovery_status =
    thenTake take_u64 (\<lambda>conversation_id.
    thenTake take_u64 (\<lambda>refused_epoch.
    thenTake take_u64 (\<lambda>current_observer_progress.
    thenTake take_bool (\<lambda>armed.
    thenTake take_bool (\<lambda>progressed.
    give \<lparr>ops_conversation_id = conversation_id, ops_refused_epoch = refused_epoch,
      ops_current_observer_progress = current_observer_progress, ops_armed = armed,
      ops_progressed = progressed\<rparr>)))))"

text \<open>The length test of \<open>take_recovery_accepted\<close> compares in \<open>u128\<close>, where the product cannot
  overflow.\<close>

definition take_recovery_accepted :: "ObserverRecoveryAccepted taker" where
  "take_recovery_accepted =
    thenTake take_u64 (\<lambda>count.
    thenTake (\<lambda>d. if unat count * RECOVERY_STATUS_LEN > d_remaining d
        then Err (decode_error DecodeClass.MissingRequiredField) else Ok ((), d)) (\<lambda>_.
    thenTake (take_times (unat count) take_recovery_status) (\<lambda>statuses.
    give \<lparr>ora_statuses = statuses\<rparr>)))"

definition require_zero_recovery_count :: "unit taker" where
  "require_zero_recovery_count = thenTake take_u64 (\<lambda>count.
    if count = 0 then give () else invalid_field)"

definition take_invalid_observer_epoch :: "InvalidObserverEpoch taker" where
  "take_invalid_observer_epoch =
    thenTake (take_tag InvalidObserverEpochReason_try_from) (\<lambda>reason.
    thenTake take_u64 (\<lambda>conversation_id.
    thenTake take_u64 (\<lambda>presented_epoch.
    thenTake take_option_u64 (\<lambda>current.
    case reason of
      InvalidObserverEpochReason.ConversationUnknown \<Rightarrow>
        thenTake (invalidate_if (current \<noteq> None)) (\<lambda>_.
        give (InvalidObserverEpoch.ConversationUnknown conversation_id presented_epoch))
    | InvalidObserverEpochReason.EpochAhead \<Rightarrow>
        thenTake (case current of
            Some value \<Rightarrow> give value
          | None \<Rightarrow> thenTake (invalidate_if True) (\<lambda>_. give 0)) (\<lambda>current_observer_progress.
        give (InvalidObserverEpoch.EpochAhead conversation_id presented_epoch current_observer_progress))))))"

definition take_invalid_observer_epoch_list :: "InvalidObserverEpochList taker" where
  "take_invalid_observer_epoch_list =
    thenTake (take_tag InvalidObserverEpochListReason_try_from) (\<lambda>reason.
    case reason of
      InvalidObserverEpochListReason.TooManyEntries \<Rightarrow>
        thenTake take_u64 (\<lambda>presented_entries.
        thenTake take_u64 (\<lambda>max_entries.
        give (InvalidObserverEpochList.TooManyEntries presented_entries max_entries)))
    | InvalidObserverEpochListReason.DuplicateConversation \<Rightarrow>
        thenTake take_u64 (\<lambda>conversation_id.
        thenTake take_u64 (\<lambda>first_index.
        thenTake take_u64 (\<lambda>duplicate_index.
        give (InvalidObserverEpochList.DuplicateConversation conversation_id first_index duplicate_index)))))"

definition take_marker_mismatch :: "ClientDiscriminant \<Rightarrow> MarkerMismatch taker" where
  "take_marker_mismatch origin =
    thenTake (take_marker_proof origin) (\<lambda>request.
    thenTake (take_tag MarkerMismatchReason_try_from) (\<lambda>reason.
    thenTake (case reason of
        MarkerMismatchReason.BelowCursor \<Rightarrow> take_map MarkerMismatchBody.BelowCursor take_u64
      | MarkerMismatchReason.NoMarkerExpected \<Rightarrow> give MarkerMismatchBody.NoMarkerExpected
      | MarkerMismatchReason.ExpectedDifferentMarker \<Rightarrow>
          take_map MarkerMismatchBody.ExpectedDifferentMarker take_u64) (\<lambda>mismatch.
    give \<lparr>mm_request = request, mm_mismatch = mismatch\<rparr>)))"

definition take_detach_committed :: "DetachCommitted taker" where
  "take_detach_committed =
    thenTake take_u64 (\<lambda>conversation_id.
    thenTake take_u64 (\<lambda>participant_id.
    thenTake take_generation (\<lambda>capability_generation.
    thenTake (take_fixed TOKEN_LEN) (\<lambda>detach_attempt_token.
    thenTake take_binding_epoch (\<lambda>committed_binding_epoch.
    thenTake take_u64 (\<lambda>detached_delivery_seq.
    thenTake (invalidate_if (capability_generation \<noteq> be_capability_generation committed_binding_epoch)) (\<lambda>_.
    give \<lparr>dc_conversation_id = conversation_id, dc_participant_id = participant_id,
      dc_detach_attempt_token = detach_attempt_token, dc_committed_binding_epoch = committed_binding_epoch,
      dc_detached_delivery_seq = detached_delivery_seq\<rparr>)))))))"

definition take_leave_committed :: "LeaveCommitted taker" where
  "take_leave_committed =
    thenTake take_u64 (\<lambda>conversation_id.
    thenTake (take_fixed TOKEN_LEN) (\<lambda>leave_attempt_token.
    thenTake take_u64 (\<lambda>participant_id.
    thenTake take_generation (\<lambda>presented_generation.
    thenTake take_generation (\<lambda>retired_generation.
    thenTake take_option_binding_epoch (\<lambda>ended_binding_epoch.
    thenTake take_option_u64 (\<lambda>prior_terminal_delivery_seq.
    thenTake take_u64 (\<lambda>left_delivery_seq.
    if presented_generation \<noteq> retired_generation then invalid_field
    else give_some (LeaveCommitted_new conversation_id leave_attempt_token participant_id retired_generation
      ended_binding_epoch prior_terminal_delivery_seq left_delivery_seq)
      (decode_error DecodeClass.InvalidField)))))))))"

text \<open>\<open>decode_server_suffix\<close>; the arms longer than a few fields are the \<open>take_*\<close> functions above.\<close>

fun decode_server_suffix :: "ServerDiscriminant \<Rightarrow> ClientDiscriminant option \<Rightarrow> ServerValue taker" where
  "decode_server_suffix ServerDiscriminant.ParticipantTransportRejected origin =
    thenTake take_transport_reason (\<lambda>reason.
    give (ServerValue.ParticipantTransportRejected \<lparr>ptr_reason = reason\<rparr>))"
| "decode_server_suffix ServerDiscriminant.AttemptTokenBodyConflict origin =
    thenTake (required_origin origin) (\<lambda>origin.
    take_map ServerValue.AttemptTokenBodyConflict (take_attempt_conflict origin))"
| "decode_server_suffix ServerDiscriminant.ConnectionConversationCapacityExceeded origin =
    thenTake (required_origin origin) (\<lambda>origin.
    thenTake (take_response_envelope origin) (\<lambda>request.
    thenTake take_u64 (\<lambda>limit.
    give (ServerValue.ConnectionConversationCapacityExceeded
      (ConnectionConversationCapacityExceeded.SemanticRequest request limit)))))"
| "decode_server_suffix ServerDiscriminant.ConnectionConversationBindingOccupied origin =
    thenTake (required_origin origin) (\<lambda>origin.
    take_map ServerValue.ConnectionConversationBindingOccupied (take_binding_occupied origin))"
| "decode_server_suffix ServerDiscriminant.ConversationOrderExhausted origin =
    thenTake (required_origin origin) (\<lambda>origin.
    take_map ServerValue.ConversationOrderExhausted (take_order_exhausted origin))"
| "decode_server_suffix ServerDiscriminant.ParticipantUnknown origin =
    thenTake (required_origin origin) (\<lambda>origin.
    thenTake (take_participant_reference origin) (\<lambda>request.
    give (ServerValue.ParticipantUnknown \<lparr>pu_request = request\<rparr>)))"
| "decode_server_suffix ServerDiscriminant.NoBinding origin =
    thenTake (required_origin origin) (\<lambda>origin.
    thenTake (take_binding_required origin) (\<lambda>request.
    give (ServerValue.NoBinding \<lparr>nb_request = request\<rparr>)))"
| "decode_server_suffix ServerDiscriminant.StaleAuthority origin =
    thenTake (required_origin origin) (\<lambda>origin.
    take_map ServerValue.StaleAuthority (take_stale_authority origin))"
| "decode_server_suffix ServerDiscriminant.Retired origin =
    thenTake (required_origin origin) (\<lambda>origin.
    take_map ServerValue.Retired (take_retired origin))"
| "decode_server_suffix ServerDiscriminant.MarkerClosureCapacityExceeded origin =
    thenTake (required_origin origin) (\<lambda>origin.
    take_map ServerValue.MarkerClosureCapacityExceeded (take_closure_capacity_exceeded origin))"
| "decode_server_suffix ServerDiscriminant.EnrollBound origin = take_map ServerValue.EnrollBound take_enroll_bound"
| "decode_server_suffix ServerDiscriminant.EnrollmentKnown origin =
    thenTake take_u64 (\<lambda>conversation_id.
    thenTake (take_fixed TOKEN_LEN) (\<lambda>token.
    thenTake take_u64 (\<lambda>participant_id.
    thenTake take_generation (\<lambda>current_generation.
    give (ServerValue.EnrollmentKnown \<lparr>ek_conversation_id = conversation_id, ek_token = token,
      ek_participant_id = participant_id, ek_current_generation = current_generation\<rparr>)))))"
| "decode_server_suffix ServerDiscriminant.ReceiptExpired origin =
    thenTake (required_origin origin) (\<lambda>origin.
    take_map ServerValue.ReceiptExpired (take_receipt_expired origin))"
| "decode_server_suffix ServerDiscriminant.ReceiptCapacityExceeded origin =
    thenTake (required_origin origin) (\<lambda>origin.
    take_map ServerValue.ReceiptCapacityExceeded (take_receipt_capacity origin))"
| "decode_server_suffix ServerDiscriminant.IdentityCapacityExceeded origin =
    take_map ServerValue.IdentityCapacityExceeded take_identity_capacity"
| "decode_server_suffix ServerDiscriminant.ObserverBackpressure origin =
    thenTake (required_origin origin) (\<lambda>origin.
    take_map ServerValue.ObserverBackpressure (take_observer_backpressure origin))"
| "decode_server_suffix ServerDiscriminant.ConversationSequenceExhausted origin =
    thenTake (required_origin origin) (\<lambda>origin.
    thenTake (take_sequence_allocating origin) (\<lambda>request.
    thenTake take_sequence_budget (\<lambda>sequence_budget.
    give (ServerValue.ConversationSequenceExhausted
      \<lparr>cse_request = request, cse_sequence_budget = sequence_budget\<rparr>))))"
| "decode_server_suffix ServerDiscriminant.AttachBound origin = take_map ServerValue.AttachBound take_attach_bound"
| "decode_server_suffix ServerDiscriminant.StaleOrUnknownReceipt origin =
    thenTake take_u64 (\<lambda>conversation_id.
    thenTake (take_fixed TOKEN_LEN) (\<lambda>token.
    thenTake take_u64 (\<lambda>participant_id.
    thenTake take_generation (\<lambda>presented_generation.
    thenTake take_option_u64 (\<lambda>presented_marker_delivery_seq.
    thenTake take_generation (\<lambda>current_generation.
    give (ServerValue.StaleOrUnknownReceipt \<lparr>sur_conversation_id = conversation_id, sur_token = token,
      sur_participant_id = participant_id, sur_presented_generation = presented_generation,
      sur_presented_marker_delivery_seq = presented_marker_delivery_seq,
      sur_current_generation = current_generation\<rparr>)))))))"
| "decode_server_suffix ServerDiscriminant.MarkerNotDelivered origin =
    thenTake (required_origin origin) (\<lambda>origin.
    thenTake (take_marker_proof origin) (\<lambda>request.
    thenTake (take_tag MarkerNotDeliveredReason_try_from) (\<lambda>reason.
    thenTake take_u64 (\<lambda>expected_marker_delivery_seq.
    give (ServerValue.MarkerNotDelivered \<lparr>mnd_request = request, mnd_reason = reason,
      mnd_expected_marker_delivery_seq = expected_marker_delivery_seq\<rparr>)))))"
| "decode_server_suffix ServerDiscriminant.MarkerMismatch origin =
    thenTake (required_origin origin) (\<lambda>origin.
    take_map ServerValue.MarkerMismatch (take_marker_mismatch origin))"
| "decode_server_suffix ServerDiscriminant.Bound origin =
    thenTake (required_origin origin) (\<lambda>origin. take_map ServerValue.Bound (take_receipt_replay origin))"
| "decode_server_suffix ServerDiscriminant.UnboundReceipt origin =
    thenTake (required_origin origin) (\<lambda>origin. take_map ServerValue.UnboundReceipt (take_receipt_replay origin))"
| "decode_server_suffix ServerDiscriminant.DetachCommitted origin =
    take_map ServerValue.DetachCommitted take_detach_committed"
| "decode_server_suffix ServerDiscriminant.DetachInProgress origin =
    thenTake take_u64 (\<lambda>conversation_id.
    thenTake take_u64 (\<lambda>participant_id.
    thenTake (take_fixed TOKEN_LEN) (\<lambda>presented_token.
    thenTake take_generation (\<lambda>presented_generation.
    thenTake take_binding_epoch (\<lambda>committed_binding_epoch.
    give (ServerValue.DetachInProgress \<lparr>dip_conversation_id = conversation_id,
      dip_participant_id = participant_id, dip_presented_token = presented_token,
      dip_presented_generation = presented_generation,
      dip_committed_binding_epoch = committed_binding_epoch\<rparr>))))))"
| "decode_server_suffix ServerDiscriminant.AckCommitted origin =
    thenTake take_participant_ack (\<lambda>request.
    thenTake take_u64 (\<lambda>cursor.
    thenTake (invalidate_if (cursor \<noteq> pae_through_seq request)) (\<lambda>_.
    give (ServerValue.AckCommitted \<lparr>ac_request = request\<rparr>))))"
| "decode_server_suffix ServerDiscriminant.AckNoOp origin =
    thenTake (required_origin origin) (\<lambda>origin. take_map ServerValue.AckNoOp (take_ack_no_op origin))"
| "decode_server_suffix ServerDiscriminant.AckGap origin =
    thenTake take_participant_ack (\<lambda>request.
    thenTake take_u64 (\<lambda>current_cursor.
    thenTake (take_tag AckGapReason_try_from) (\<lambda>_.
    give_some (map_option ServerValue.AckGap (AckGap_new request current_cursor))
      (decode_error DecodeClass.InvalidField))))"
| "decode_server_suffix ServerDiscriminant.AckRegression origin =
    thenTake take_participant_ack (\<lambda>request.
    thenTake take_u64 (\<lambda>current_cursor.
    thenTake (take_tag AckRegressionReason_try_from) (\<lambda>_.
    give_some (map_option ServerValue.AckRegression (AckRegression_new request current_cursor))
      (decode_error DecodeClass.InvalidField))))"
| "decode_server_suffix ServerDiscriminant.LeaveCommitted origin =
    take_map ServerValue.LeaveCommitted take_leave_committed"
| "decode_server_suffix ServerDiscriminant.MarkerAckCommitted origin =
    thenTake take_marker_ack (\<lambda>request.
    thenTake take_u64 (\<lambda>cursor.
    thenTake (invalidate_if (cursor \<noteq> mae_marker_delivery_seq request)) (\<lambda>_.
    give (ServerValue.MarkerAckCommitted \<lparr>mac_request = request\<rparr>))))"
| "decode_server_suffix ServerDiscriminant.RecordCommitted origin =
    thenTake take_record_admission (\<lambda>request.
    thenTake take_u64 (\<lambda>sender.
    thenTake (invalidate_if (sender \<noteq> rae_participant_id request)) (\<lambda>_.
    thenTake take_u64 (\<lambda>delivery_seq.
    give (ServerValue.RecordCommitted \<lparr>rc_request = request, rc_delivery_seq = delivery_seq\<rparr>)))))"
| "decode_server_suffix ServerDiscriminant.RecordTooLarge origin =
    thenTake take_record_admission (\<lambda>request.
    thenTake (take_tag ResourceDimensionTag_try_from) (\<lambda>dimension.
    thenTake take_resource_vector (\<lambda>encoded_record_charge.
    thenTake take_resource_vector (\<lambda>max_ordinary_record_charge.
    give (ServerValue.RecordTooLarge \<lparr>rtl_request = request, rtl_dimension = ResourceDimension_from dimension,
      rtl_encoded_record_charge = encoded_record_charge,
      rtl_max_ordinary_record_charge = max_ordinary_record_charge\<rparr>)))))"
| "decode_server_suffix ServerDiscriminant.ObserverRecoveryAccepted origin =
    take_map ServerValue.ObserverRecoveryAccepted take_recovery_accepted"
| "decode_server_suffix ServerDiscriminant.InvalidObserverEpoch origin =
    thenTake require_zero_recovery_count (\<lambda>_.
    take_map ServerValue.InvalidObserverEpoch take_invalid_observer_epoch)"
| "decode_server_suffix ServerDiscriminant.InvalidObserverEpochList origin =
    thenTake require_zero_recovery_count (\<lambda>_.
    take_map ServerValue.InvalidObserverEpochList take_invalid_observer_epoch_list)"
| "decode_server_suffix ServerDiscriminant.ObserverRecoveryConnectionCapacityExceeded origin =
    thenTake require_zero_recovery_count (\<lambda>_.
    thenTake take_u64 (\<lambda>conversation_id.
    thenTake take_u64 (\<lambda>limit.
    give (ServerValue.ConnectionConversationCapacityExceeded
      (ConnectionConversationCapacityExceeded.ObserverRecovery conversation_id limit)))))"
| "decode_server_suffix ServerDiscriminant.MarkerSettlementBackpressure origin =
    thenTake (required_origin origin) (\<lambda>origin.
    thenTake take_u64 (\<lambda>conversation_id.
    thenTake take_u64 (\<lambda>refused_epoch.
    case origin of
      ClientDiscriminant.CredentialAttachRequest \<Rightarrow>
        give (ServerValue.MarkerSettlementBackpressure
          (MarkerSettlementBackpressure.CredentialAttach conversation_id refused_epoch))
    | ClientDiscriminant.DetachRequest \<Rightarrow>
        give (ServerValue.MarkerSettlementBackpressure
          (MarkerSettlementBackpressure.Detach conversation_id refused_epoch))
    | _ \<Rightarrow> invalid_field)))"
| "decode_server_suffix ServerDiscriminant.EnrollmentSettlementBackpressure origin =
    thenTake (required_origin origin) (\<lambda>_.
    thenTake take_u64 (\<lambda>conversation_id.
    give (ServerValue.EnrollmentSettlementBackpressure \<lparr>esb_conversation_id = conversation_id\<rparr>)))"

section \<open>Entry points\<close>

definition encode_server_value_body ::
  "ServerValue \<Rightarrow> ProtocolVersion \<Rightarrow> (CodecError, ServerDiscriminant \<times> u8 list) result" where
  "encode_server_value_body value version =
    andThen (require_v1 version) (\<lambda>_.
    let discriminant = ServerValue_discriminant value in
    andThen (if carries_origin discriminant
      then andThen (ok_or (originating_request value) InvalidValue) (\<lambda>originating_request.
        Ok (put_u16 (ClientDiscriminant_wire_value originating_request) []))
      else Ok []) (\<lambda>encoder.
    andThen (encode_server_suffix value encoder) (\<lambda>encoder.
    Ok (discriminant, encoder))))"

definition take_origin :: "ServerDiscriminant \<Rightarrow> ClientDiscriminant option taker" where
  "take_origin discriminant =
    (if carries_origin discriminant
     then thenTake (take_tag ClientDiscriminant_try_from) (\<lambda>request.
       if \<not> origin_is_valid discriminant request then invalid_field else give (Some request))
     else give None)"

definition decode_server_value_body ::
  "ServerDiscriminant \<Rightarrow> ProtocolVersion \<Rightarrow> u8 list \<Rightarrow> (CodecError, ServerValue \<times> ProtocolVersion) result" where
  "decode_server_value_body discriminant version body =
    andThen (require_v1 version) (\<lambda>_.
    andThen (take_origin discriminant (Decoder_new body)) (\<lambda>(originating_request, decoder).
    andThen (decode_server_suffix discriminant originating_request decoder) (\<lambda>(value, decoder).
    andThen (Decoder_finish decoder) (\<lambda>_.
    Ok (value, version)))))"

end
