(* ===== verification/Server_Fields.thy ===== *)
theory Server_Fields
  imports Server_Codec
begin

text \<open>
  Correctness of the server-value codec. A wire field is a taker, a putter and a validity predicate
  such that the taker recognises exactly the bytes the putter appends for a valid value (locale
  \<open>wire_field\<close>); a routed field is a family of takers indexed by the originating request (locale
  \<open>routed_field\<close>). Every field type and envelope of the codec is an interpretation, the response
  bodies are composed from them, and \<open>decode_server_value_body\<close> is the exact inverse of
  \<open>encode_server_value_body\<close> on the values the Rust types admit (\<open>server_value_ok\<close>).
\<close>

section \<open>Wire fields\<close>

named_theorems put_simps \<open>putters append the bytes of their value\<close>

definition bytes_of :: "(Encoder \<Rightarrow> Encoder) \<Rightarrow> u8 list" where
  "bytes_of put = put []"

locale wire_field =
  fixes takes :: "'a taker" and puts :: "'a \<Rightarrow> Encoder \<Rightarrow> Encoder" and ok :: "'a \<Rightarrow> bool"
  assumes put_appends [put_simps]: "puts x e = e @ bytes_of (puts x)"
    and take_parses [parse_intros]: "parses takes (\<lambda>x bs. bs = bytes_of (puts x) \<and> ok x)"
begin

lemma put_option_eq:
  "put_option puts None e = e @ [0]" "put_option puts (Some x) e = e @ 1 # bytes_of (puts x)"
  using put_appends [of x "e @ [1]"] by (simp_all add: put_option_def put_u8_def)

lemma bytes_of_put_option:
  "bytes_of (put_option puts None) = [0]" "bytes_of (put_option puts (Some x)) = 1 # bytes_of (puts x)"
  using put_option_eq [where e = "[]"] by (simp_all add: bytes_of_def)

lemma option_field: "wire_field (take_option takes) (put_option puts) (pred_option ok)"
proof
  show "put_option puts x e = e @ bytes_of (put_option puts x)" for x e
    by (cases x) (simp_all only: put_option_eq bytes_of_put_option)
next
  show "parses (take_option takes) (\<lambda>x bs. bs = bytes_of (put_option puts x) \<and> pred_option ok x)"
    unfolding take_option_def
    by (rule parses_cong, rule parses_flag, (rule parse_intros take_parses)+, case_tac x)
      (auto simp: bytes_of_put_option)
qed

end

lemma wire_fieldI:
  assumes "\<And>x e. puts x e = e @ B x" and "parses takes R" and "\<And>x bs. R x bs \<longleftrightarrow> bs = B x \<and> ok x"
  shows "wire_field takes puts ok"
proof
  have "bytes_of (puts x) = B x" for x by (simp add: bytes_of_def assms(1))
  then show "puts x e = e @ bytes_of (puts x)" and "parses takes (\<lambda>x bs. bs = bytes_of (puts x) \<and> ok x)" for x e
    using parses_cong [OF assms(2) assms(3)] by (simp_all add: assms(1))
qed

interpretation u8_field: wire_field take_u8 put_u8 "\<lambda>_. True"
  by (rule wire_fieldI [OF _ parses_words(1)]) (simp_all add: put_u8_def)

interpretation u16_field: wire_field take_u16 put_u16 "\<lambda>_. True"
  by (rule wire_fieldI [OF _ parses_words(2)]) (simp_all add: put_u16_def)

interpretation u32_field: wire_field take_u32 put_u32 "\<lambda>_. True"
  by (rule wire_fieldI [OF _ parses_words(3)]) (simp_all add: put_u32_def)

interpretation u64_field: wire_field take_u64 put_u64 "\<lambda>_. True"
  by (rule wire_fieldI [OF _ parses_words(4)]) (simp_all add: put_u64_def)

interpretation u128_field: wire_field take_u128 put_u128 "\<lambda>_. True"
  by (rule wire_fieldI [OF _ parses_words(5)]) (simp_all add: put_u128_def)

interpretation bool_field: wire_field take_bool put_bool "\<lambda>_. True"
  unfolding take_bool_def
  by (rule wire_fieldI, simp add: put_bool_def put_u8_def, rule parses_flag, (rule parse_intros)+) auto

definition generation_ok :: "Generation \<Rightarrow> bool" where
  "generation_ok g \<longleftrightarrow> generation_get g \<noteq> 0"

interpretation generation_field: wire_field take_generation put_generation generation_ok
  unfolding take_generation_def
  by (rule wire_fieldI, simp add: put_generation_def put_simps, (rule parse_intros)+, case_tac x)
    (auto simp: Generation_new_def generation_ok_def)

definition epoch_ok :: "BindingEpoch \<Rightarrow> bool" where
  "epoch_ok e \<longleftrightarrow> generation_ok (be_capability_generation e)"

lemma incarnation_eq_iff:
  "i = \<lparr>ci_server_incarnation = a, ci_connection_ordinal = b\<rparr> \<longleftrightarrow>
    a = ci_server_incarnation i \<and> b = ci_connection_ordinal i"
  by (cases i) auto

interpretation epoch_field: wire_field take_binding_epoch put_binding_epoch epoch_ok
  unfolding take_binding_epoch_def
  by (rule wire_fieldI, simp add: put_binding_epoch_def Let_def put_simps, (rule parse_intros)+, case_tac x)
    (simp add: epoch_ok_def incarnation_eq_iff)

interpretation option_u64_field: wire_field take_option_u64 put_option_u64 "\<lambda>_. True"
  unfolding take_option_u64_def put_option_u64_def
  using u64_field.option_field by (simp add: option.pred_True)

interpretation option_generation_field:
  wire_field take_option_generation put_option_generation "pred_option generation_ok"
  unfolding take_option_generation_def put_option_generation_def
  by (rule generation_field.option_field)

interpretation option_epoch_field:
  wire_field take_option_binding_epoch put_option_binding_epoch "pred_option epoch_ok"
  unfolding take_option_binding_epoch_def put_option_binding_epoch_def
  by (rule epoch_field.option_field)

interpretation version_field: wire_field take_protocol_version put_protocol_version "\<lambda>_. True"
  unfolding take_protocol_version_def
  by (rule wire_fieldI, simp add: put_protocol_version_def Let_def put_simps, (rule parse_intros)+, case_tac x) auto

interpretation vector_field: wire_field take_resource_vector put_resource_vector "\<lambda>_. True"
  unfolding take_resource_vector_def
  by (rule wire_fieldI, simp add: put_resource_vector_def Let_def put_simps, (rule parse_intros)+, case_tac x) auto

interpretation wide_vector_field: wire_field take_wide_resource_vector put_wide_resource_vector "\<lambda>_. True"
  unfolding take_wide_resource_vector_def
  by (rule wire_fieldI, simp add: put_wide_resource_vector_def Let_def put_simps, (rule parse_intros)+, case_tac x) auto

interpretation token_field: wire_field "take_fixed TOKEN_LEN" put_fixed "\<lambda>x. length x = TOKEN_LEN"
  by (rule wire_fieldI [OF _ parses_take_fixed]) (simp_all add: put_fixed_def)

interpretation secret_field: wire_field "take_fixed SECRET_LEN" put_fixed "\<lambda>x. length x = SECRET_LEN"
  by (rule wire_fieldI [OF _ parses_take_fixed]) (simp_all add: put_fixed_def)

declare parses_take_fixed [parse_intros del] parses_take_slice [parse_intros del]

context registry
begin

lemma take_tag_parses [parse_intros]:
  "parses (take_tag try_from) (\<lambda>x bs. bs = bytes_of (put_u16 (wire_value x)))"
  unfolding take_tag_def
  by (rule parses_cong, (rule parse_intros)+) (simp add: try_from_Some_iff)

end

subsection \<open>Envelopes\<close>

definition enrollment_ok :: "EnrollmentEnvelope \<Rightarrow> bool" where
  "enrollment_ok v \<longleftrightarrow> length (ee_enrollment_token v) = TOKEN_LEN"

definition attach_ok :: "AttachEnvelope \<Rightarrow> bool" where
  "attach_ok v \<longleftrightarrow> generation_ok (ae_capability_generation v) \<and> length (ae_attach_attempt_token v) = TOKEN_LEN"

definition detach_ok :: "DetachEnvelope \<Rightarrow> bool" where
  "detach_ok v \<longleftrightarrow> generation_ok (de_capability_generation v) \<and> length (de_detach_attempt_token v) = TOKEN_LEN"

definition participant_ack_ok :: "ParticipantAckEnvelope \<Rightarrow> bool" where
  "participant_ack_ok v \<longleftrightarrow> generation_ok (pae_capability_generation v)"

definition leave_ok :: "LeaveEnvelope \<Rightarrow> bool" where
  "leave_ok v \<longleftrightarrow> generation_ok (le_capability_generation v) \<and> length (le_leave_attempt_token v) = TOKEN_LEN"

definition marker_ack_ok :: "MarkerAckEnvelope \<Rightarrow> bool" where
  "marker_ack_ok v \<longleftrightarrow> generation_ok (mae_capability_generation v)"

definition record_admission_ok :: "RecordAdmissionEnvelope \<Rightarrow> bool" where
  "record_admission_ok v \<longleftrightarrow> generation_ok (rae_capability_generation v)
    \<and> length (rae_record_admission_attempt_token v) = TOKEN_LEN"

interpretation enrollment_field: wire_field take_enrollment put_enrollment enrollment_ok
  unfolding take_enrollment_def
  by (rule wire_fieldI, simp add: put_enrollment_def Let_def put_simps, (rule parse_intros)+, case_tac x)
    (simp add: enrollment_ok_def)

interpretation attach_field: wire_field take_attach put_attach attach_ok
  unfolding take_attach_def
  by (rule wire_fieldI, simp add: put_attach_def Let_def put_simps, (rule parse_intros)+, case_tac x)
    (simp add: attach_ok_def)

interpretation detach_field: wire_field take_detach put_detach detach_ok
  unfolding take_detach_def
  by (rule wire_fieldI, simp add: put_detach_def Let_def put_simps, (rule parse_intros)+, case_tac x)
    (simp add: detach_ok_def)

interpretation participant_ack_field: wire_field take_participant_ack put_participant_ack participant_ack_ok
  unfolding take_participant_ack_def
  by (rule wire_fieldI, simp add: put_participant_ack_def Let_def put_simps, (rule parse_intros)+, case_tac x)
    (simp add: participant_ack_ok_def)

interpretation leave_field: wire_field take_leave put_leave leave_ok
  unfolding take_leave_def
  by (rule wire_fieldI, simp add: put_leave_def Let_def put_simps, (rule parse_intros)+, case_tac x)
    (simp add: leave_ok_def)

interpretation marker_ack_field: wire_field take_marker_ack put_marker_ack marker_ack_ok
  unfolding take_marker_ack_def
  by (rule wire_fieldI, simp add: put_marker_ack_def Let_def put_simps, (rule parse_intros)+, case_tac x)
    (simp add: marker_ack_ok_def)

interpretation record_admission_field: wire_field take_record_admission put_record_admission record_admission_ok
  unfolding take_record_admission_def
  by (rule wire_fieldI, simp add: put_record_admission_def Let_def put_simps, (rule parse_intros)+, case_tac x)
    (simp add: record_admission_ok_def)

subsection \<open>Routed envelopes\<close>

locale routed_field =
  fixes takes :: "ClientDiscriminant \<Rightarrow> 'a taker" and puts :: "'a \<Rightarrow> Encoder \<Rightarrow> Encoder"
    and ok :: "'a \<Rightarrow> bool" and origin_of :: "'a \<Rightarrow> ClientDiscriminant"
  assumes routed_appends [put_simps]: "puts x e = e @ bytes_of (puts x)"
    and routed_parses [parse_intros]:
      "parses (takes origin) (\<lambda>x bs. bs = bytes_of (puts x) \<and> ok x \<and> origin_of x = origin)"

fun response_envelope_ok :: "ResponseEnvelope \<Rightarrow> bool" where
  "response_envelope_ok (ResponseEnvelope.Enrollment v) = enrollment_ok v"
| "response_envelope_ok (ResponseEnvelope.CredentialAttach v) = attach_ok v"
| "response_envelope_ok (ResponseEnvelope.Detach v) = detach_ok v"
| "response_envelope_ok (ResponseEnvelope.ParticipantAck v) = participant_ack_ok v"
| "response_envelope_ok (ResponseEnvelope.Leave v) = leave_ok v"
| "response_envelope_ok (ResponseEnvelope.MarkerAck v) = marker_ack_ok v"
| "response_envelope_ok (ResponseEnvelope.RecordAdmission v) = record_admission_ok v"

interpretation response_envelope_field: routed_field take_response_envelope put_response_envelope
    response_envelope_ok ResponseEnvelope_originating_request
proof
  show "put_response_envelope x e = e @ bytes_of (put_response_envelope x)" for x e
    by (cases x) (simp_all add: put_simps bytes_of_def [of "put_response_envelope v" for v])
  show "parses (take_response_envelope origin) (\<lambda>x bs. bs = bytes_of (put_response_envelope x) \<and>
    response_envelope_ok x \<and> ResponseEnvelope_originating_request x = origin)" for origin
    by (cases origin; simp only: take_response_envelope.simps, rule parses_cong, (rule parse_intros)+, case_tac x,
      auto simp: put_simps bytes_of_def [of "put_response_envelope v" for v])
qed

fun participant_reference_ok :: "ParticipantReferenceEnvelope \<Rightarrow> bool" where
  "participant_reference_ok (ParticipantReferenceEnvelope.CredentialAttach v) = attach_ok v"
| "participant_reference_ok (ParticipantReferenceEnvelope.Detach v) = detach_ok v"
| "participant_reference_ok (ParticipantReferenceEnvelope.ParticipantAck v) = participant_ack_ok v"
| "participant_reference_ok (ParticipantReferenceEnvelope.Leave v) = leave_ok v"
| "participant_reference_ok (ParticipantReferenceEnvelope.MarkerAck v) = marker_ack_ok v"
| "participant_reference_ok (ParticipantReferenceEnvelope.RecordAdmission v) = record_admission_ok v"

interpretation participant_reference_field: routed_field take_participant_reference put_participant_reference
    participant_reference_ok participant_reference_origin
proof
  show "put_participant_reference x e = e @ bytes_of (put_participant_reference x)" for x e
    by (cases x) (simp_all add: put_simps bytes_of_def [of "put_participant_reference v" for v])
  show "parses (take_participant_reference origin) (\<lambda>x bs. bs = bytes_of (put_participant_reference x) \<and>
    participant_reference_ok x \<and> participant_reference_origin x = origin)" for origin
    by (cases origin; simp only: take_participant_reference.simps, rule parses_cong, (rule parse_intros)+, case_tac x,
      auto simp: put_simps bytes_of_def [of "put_participant_reference v" for v])
qed

fun binding_required_ok :: "BindingRequiredEnvelope \<Rightarrow> bool" where
  "binding_required_ok (BindingRequiredEnvelope.Detach v) = detach_ok v"
| "binding_required_ok (BindingRequiredEnvelope.ParticipantAck v) = participant_ack_ok v"
| "binding_required_ok (BindingRequiredEnvelope.Leave v) = leave_ok v"
| "binding_required_ok (BindingRequiredEnvelope.MarkerAck v) = marker_ack_ok v"
| "binding_required_ok (BindingRequiredEnvelope.RecordAdmission v) = record_admission_ok v"

interpretation binding_required_field: routed_field take_binding_required put_binding_required
    binding_required_ok binding_required_origin
proof
  show "put_binding_required x e = e @ bytes_of (put_binding_required x)" for x e
    by (cases x) (simp_all add: put_simps bytes_of_def [of "put_binding_required v" for v])
  show "parses (take_binding_required origin) (\<lambda>x bs. bs = bytes_of (put_binding_required x) \<and>
    binding_required_ok x \<and> binding_required_origin x = origin)" for origin
    by (cases origin; simp only: take_binding_required.simps, rule parses_cong, (rule parse_intros)+, case_tac x,
      auto simp: put_simps bytes_of_def [of "put_binding_required v" for v])
qed

fun order_allocating_origin :: "OrderAllocatingEnvelope \<Rightarrow> ClientDiscriminant" where
  "order_allocating_origin (OrderEnrollment _) = ClientDiscriminant.EnrollmentRequest"
| "order_allocating_origin (OrderCredentialAttach _) = ClientDiscriminant.CredentialAttachRequest"
| "order_allocating_origin (OrderRecordAdmission _) = ClientDiscriminant.RecordAdmission"

fun order_allocating_ok :: "OrderAllocatingEnvelope \<Rightarrow> bool" where
  "order_allocating_ok (OrderEnrollment v) = enrollment_ok v"
| "order_allocating_ok (OrderCredentialAttach v) = attach_ok v"
| "order_allocating_ok (OrderRecordAdmission v) = record_admission_ok v"

interpretation order_allocating_field: routed_field take_order_allocating put_order_allocating
    order_allocating_ok order_allocating_origin
proof
  show "put_order_allocating x e = e @ bytes_of (put_order_allocating x)" for x e
    by (cases x) (simp_all add: put_simps bytes_of_def [of "put_order_allocating v" for v])
  show "parses (take_order_allocating origin) (\<lambda>x bs. bs = bytes_of (put_order_allocating x) \<and>
    order_allocating_ok x \<and> order_allocating_origin x = origin)" for origin
    by (cases origin; simp only: take_order_allocating_def ClientDiscriminant.case, rule parses_cong, (rule parse_intros)+, case_tac x,
      auto simp: put_simps bytes_of_def [of "put_order_allocating v" for v])
qed

fun closure_checked_origin :: "ClosureCheckedEnvelope \<Rightarrow> ClientDiscriminant" where
  "closure_checked_origin (ClosureCheckedEnvelope.Enrollment _) = ClientDiscriminant.EnrollmentRequest"
| "closure_checked_origin (ClosureCheckedEnvelope.CredentialAttach _) = ClientDiscriminant.CredentialAttachRequest"
| "closure_checked_origin (ClosureCheckedEnvelope.Leave _) = ClientDiscriminant.LeaveRequest"
| "closure_checked_origin (ClosureCheckedEnvelope.RecordAdmission _) = ClientDiscriminant.RecordAdmission"

fun closure_checked_ok :: "ClosureCheckedEnvelope \<Rightarrow> bool" where
  "closure_checked_ok (ClosureCheckedEnvelope.Enrollment v) = enrollment_ok v"
| "closure_checked_ok (ClosureCheckedEnvelope.CredentialAttach v) = attach_ok v"
| "closure_checked_ok (ClosureCheckedEnvelope.Leave v) = leave_ok v"
| "closure_checked_ok (ClosureCheckedEnvelope.RecordAdmission v) = record_admission_ok v"

interpretation closure_checked_field: routed_field take_closure_checked put_closure_checked
    closure_checked_ok closure_checked_origin
proof
  show "put_closure_checked x e = e @ bytes_of (put_closure_checked x)" for x e
    by (cases x) (simp_all add: put_simps bytes_of_def [of "put_closure_checked v" for v])
  show "parses (take_closure_checked origin) (\<lambda>x bs. bs = bytes_of (put_closure_checked x) \<and>
    closure_checked_ok x \<and> closure_checked_origin x = origin)" for origin
    by (cases origin; simp only: take_closure_checked_def ClientDiscriminant.case, rule parses_cong, (rule parse_intros)+, case_tac x,
      auto simp: put_simps bytes_of_def [of "put_closure_checked v" for v])
qed

fun sequence_allocating_origin :: "SequenceAllocatingEnvelope \<Rightarrow> ClientDiscriminant" where
  "sequence_allocating_origin (SequenceEnrollment _) = ClientDiscriminant.EnrollmentRequest"
| "sequence_allocating_origin (SequenceCredentialAttach _) = ClientDiscriminant.CredentialAttachRequest"
| "sequence_allocating_origin (SequenceRecordAdmission _) = ClientDiscriminant.RecordAdmission"

fun sequence_allocating_ok :: "SequenceAllocatingEnvelope \<Rightarrow> bool" where
  "sequence_allocating_ok (SequenceEnrollment v) = enrollment_ok v"
| "sequence_allocating_ok (SequenceCredentialAttach v) = attach_ok v"
| "sequence_allocating_ok (SequenceRecordAdmission v) = record_admission_ok v"

interpretation sequence_allocating_field: routed_field take_sequence_allocating put_sequence_allocating
    sequence_allocating_ok sequence_allocating_origin
proof
  show "put_sequence_allocating x e = e @ bytes_of (put_sequence_allocating x)" for x e
    by (cases x) (simp_all add: put_simps bytes_of_def [of "put_sequence_allocating v" for v])
  show "parses (take_sequence_allocating origin) (\<lambda>x bs. bs = bytes_of (put_sequence_allocating x) \<and>
    sequence_allocating_ok x \<and> sequence_allocating_origin x = origin)" for origin
    by (cases origin; simp only: take_sequence_allocating_def ClientDiscriminant.case, rule parses_cong, (rule parse_intros)+, case_tac x,
      auto simp: put_simps bytes_of_def [of "put_sequence_allocating v" for v])
qed

definition attach_proof_ok :: "AttachMarkerProof \<Rightarrow> bool" where
  "attach_proof_ok v \<longleftrightarrow> length (amp_token v) = TOKEN_LEN \<and> generation_ok (amp_capability_generation v)"

definition ack_proof_ok :: "MarkerAckProof \<Rightarrow> bool" where
  "ack_proof_ok v \<longleftrightarrow> generation_ok (map_capability_generation v)"

interpretation attach_proof_field:
  wire_field take_attach_marker_proof "\<lambda>v. put_marker_proof (MarkerProofRequest.CredentialAttach v)" attach_proof_ok
  unfolding take_attach_marker_proof_def
  by (rule wire_fieldI, simp add: Let_def put_simps, (rule parse_intros)+, case_tac x)
    (simp add: attach_proof_ok_def)

interpretation ack_proof_field:
  wire_field take_marker_ack_proof "\<lambda>v. put_marker_proof (MarkerProofRequest.MarkerAck v)" ack_proof_ok
  unfolding take_marker_ack_proof_def
  by (rule wire_fieldI, simp add: Let_def put_simps, (rule parse_intros)+, case_tac x)
    (simp add: ack_proof_ok_def)

fun marker_proof_ok :: "MarkerProofRequest \<Rightarrow> bool" where
  "marker_proof_ok (MarkerProofRequest.CredentialAttach v) = attach_proof_ok v"
| "marker_proof_ok (MarkerProofRequest.MarkerAck v) = ack_proof_ok v"

interpretation marker_proof_field:
  routed_field take_marker_proof put_marker_proof marker_proof_ok marker_proof_origin
proof
  show "put_marker_proof x e = e @ bytes_of (put_marker_proof x)" for x e
    by (cases x) (simp_all only: attach_proof_field.put_appends ack_proof_field.put_appends)
  show "parses (take_marker_proof origin) (\<lambda>x bs. bs = bytes_of (put_marker_proof x) \<and>
    marker_proof_ok x \<and> marker_proof_origin x = origin)" for origin
    by (cases origin; simp only: take_marker_proof_def ClientDiscriminant.case,
      rule parses_cong, (rule parse_intros)+, case_tac x, auto simp del: put_marker_proof.simps)
qed

fun edge_ok :: "RepaymentEdge \<Rightarrow> bool" where
  "edge_ok (RepaymentEdge.MarkerDelivery _ e _) = epoch_ok e"
| "edge_ok (RepaymentEdge.ParticipantCursorProgress v) = epoch_ok (pcp_binding_epoch v)"
| "edge_ok (RepaymentEdge.DetachedCredentialRecovery _ _ e) = epoch_ok e"
| "edge_ok (RepaymentEdge.DetachedMarkerRelease _ _ e) = epoch_ok e"
| "edge_ok (RepaymentEdge.DetachedCursorRelease _ e) = epoch_ok e"
| "edge_ok _ = True"

definition edge_body :: "RepaymentEdge \<Rightarrow> u8 list" where
  "edge_body v = drop 2 (bytes_of (put_repayment_edge v))"

lemma length_u16_bytes: "length (bytes_of (put_u16 w)) = 2"
  by (simp add: bytes_of_def put_u16_def)

lemma put_repayment_edge_eq:
  "put_repayment_edge v e = e @ bytes_of (put_u16 (RepaymentEdgeTag_wire_value (RepaymentEdge_tag v))) @ edge_body v"
  by (cases v) (simp_all add: edge_body_def put_repayment_edge_def bytes_of_def [of "put_repayment_edge v" for v]
    put_simps Let_def length_u16_bytes del: RepaymentEdgeTag_wire_value.simps)

lemma cursor_edge_eq_iff:
  "v = \<lparr>pcp_participant_id = a, pcp_binding_epoch = b, pcp_through_seq = c, pcp_marker_delivery_seq = d\<rparr> \<longleftrightarrow>
    a = pcp_participant_id v \<and> b = pcp_binding_epoch v \<and> c = pcp_through_seq v \<and> d = pcp_marker_delivery_seq v"
  by (cases v) auto

lemma parses_repayment_edge_body:
  "parses (take_repayment_edge_body tag) (\<lambda>x bs. bs = edge_body x \<and> edge_ok x \<and> RepaymentEdge_tag x = tag)"
  by (cases tag; simp only: take_repayment_edge_body_def RepaymentEdgeTag.case, rule parses_cong, (rule parse_intros)+,
    case_tac x, simp_all add: edge_body_def put_repayment_edge_def bytes_of_def [of "put_repayment_edge v" for v]
      put_simps Let_def length_u16_bytes cursor_edge_eq_iff del: RepaymentEdgeTag_wire_value.simps)

interpretation repayment_edge_field: wire_field take_repayment_edge put_repayment_edge edge_ok
  unfolding take_repayment_edge_def
  by (rule wire_fieldI [OF put_repayment_edge_eq], (rule parse_intros parses_repayment_edge_body)+) auto

definition snapshot_ok :: "ClosureSnapshot \<Rightarrow> bool" where
  "snapshot_ok v \<longleftrightarrow> edge_ok (cs_repayment_edge v)"

interpretation snapshot_field: wire_field take_closure_snapshot put_closure_snapshot snapshot_ok
  unfolding take_closure_snapshot_def
  by (rule wire_fieldI, simp add: put_closure_snapshot_def Let_def put_simps, (rule parse_intros)+, case_tac x)
    (simp add: snapshot_ok_def)

interpretation budget_field: wire_field take_sequence_budget put_sequence_budget "\<lambda>_. True"
  unfolding take_sequence_budget_def
  by (rule wire_fieldI, simp add: put_sequence_budget_def Let_def put_simps, (rule parse_intros)+, case_tac x) simp

subsection \<open>Response bodies\<close>

interpretation backpressure_state_field:
  wire_field take_backpressure_state put_backpressure_state
    "\<lambda>v. obs_backpressure_epoch v = obs_observer_progress v"
  unfolding take_backpressure_state_def
  by (rule wire_fieldI, simp add: put_backpressure_state_def Let_def put_simps, (rule parse_intros)+, case_tac x)
    (auto simp: replay_Some_iff ObserverBackpressureState_initial_def)

fun backpressure_ok :: "ObserverBackpressure \<Rightarrow> bool" where
  "backpressure_ok (BackpressureEnrollment r s) \<longleftrightarrow>
    enrollment_ok r \<and> obs_backpressure_epoch s = obs_observer_progress s"
| "backpressure_ok (BackpressureCredentialAttach r s) \<longleftrightarrow>
    attach_ok r \<and> obs_backpressure_epoch s = obs_observer_progress s"
| "backpressure_ok (BackpressureDetach r e s) \<longleftrightarrow>
    detach_ok r \<and> epoch_ok e \<and> obs_backpressure_epoch s = obs_observer_progress s"
| "backpressure_ok (BackpressureLeave r s _) \<longleftrightarrow>
    leave_ok r \<and> obs_backpressure_epoch s = obs_observer_progress s"
| "backpressure_ok (BackpressureRecordAdmission r s) \<longleftrightarrow>
    record_admission_ok r \<and> obs_backpressure_epoch s = obs_observer_progress s"

fun backpressure_origin :: "ObserverBackpressure \<Rightarrow> ClientDiscriminant" where
  "backpressure_origin (BackpressureEnrollment _ _) = ClientDiscriminant.EnrollmentRequest"
| "backpressure_origin (BackpressureCredentialAttach _ _) = ClientDiscriminant.CredentialAttachRequest"
| "backpressure_origin (BackpressureDetach _ _ _) = ClientDiscriminant.DetachRequest"
| "backpressure_origin (BackpressureLeave _ _ _) = ClientDiscriminant.LeaveRequest"
| "backpressure_origin (BackpressureRecordAdmission _ _) = ClientDiscriminant.RecordAdmission"

interpretation backpressure_field:
  routed_field take_observer_backpressure put_observer_backpressure backpressure_ok backpressure_origin
proof
  show "put_observer_backpressure x e = e @ bytes_of (put_observer_backpressure x)" for x e
    by (cases x) (simp_all add: put_simps bytes_of_def [of "put_observer_backpressure v" for v])
  show "parses (take_observer_backpressure origin) (\<lambda>x bs. bs = bytes_of (put_observer_backpressure x) \<and>
    backpressure_ok x \<and> backpressure_origin x = origin)" for origin
    by (cases origin; simp only: take_observer_backpressure_def ClientDiscriminant.case,
      rule parses_cong, (rule parse_intros)+, case_tac x,
      simp_all add: put_simps bytes_of_def [of "put_observer_backpressure v" for v])
qed

fun attempt_conflict_ok :: "AttemptTokenBodyConflict \<Rightarrow> bool" where
  "attempt_conflict_ok (AttemptTokenBodyConflict.CredentialAttach tok _ _ g _ _) \<longleftrightarrow>
    length tok = TOKEN_LEN \<and> generation_ok g"
| "attempt_conflict_ok (AttemptTokenBodyConflict.Leave tok _ _ g) \<longleftrightarrow> length tok = TOKEN_LEN \<and> generation_ok g"
| "attempt_conflict_ok (AttemptTokenBodyConflict.RecordAdmission tok _ _ g) \<longleftrightarrow>
    length tok = TOKEN_LEN \<and> generation_ok g"

fun attempt_conflict_origin :: "AttemptTokenBodyConflict \<Rightarrow> ClientDiscriminant" where
  "attempt_conflict_origin (AttemptTokenBodyConflict.CredentialAttach _ _ _ _ _ _) =
    ClientDiscriminant.CredentialAttachRequest"
| "attempt_conflict_origin (AttemptTokenBodyConflict.Leave _ _ _ _) = ClientDiscriminant.LeaveRequest"
| "attempt_conflict_origin (AttemptTokenBodyConflict.RecordAdmission _ _ _ _) = ClientDiscriminant.RecordAdmission"

interpretation attempt_conflict_field:
  routed_field take_attempt_conflict put_attempt_conflict attempt_conflict_ok attempt_conflict_origin
proof
  show "put_attempt_conflict x e = e @ bytes_of (put_attempt_conflict x)" for x e
    by (cases x) (simp_all add: put_simps Let_def bytes_of_def [of "put_attempt_conflict v" for v])
  show "parses (take_attempt_conflict origin) (\<lambda>x bs. bs = bytes_of (put_attempt_conflict x) \<and>
    attempt_conflict_ok x \<and> attempt_conflict_origin x = origin)" for origin
    by (cases origin; simp only: take_attempt_conflict_def ClientDiscriminant.case,
      rule parses_cong, (rule parse_intros)+, case_tac x,
      simp_all add: put_simps Let_def bytes_of_def [of "put_attempt_conflict v" for v] cong: conj_cong)
qed

fun binding_occupied_ok :: "ConnectionConversationBindingOccupied \<Rightarrow> bool" where
  "binding_occupied_ok (OccupiedEnrollment _ tok) \<longleftrightarrow> length tok = TOKEN_LEN"
| "binding_occupied_ok (OccupiedCredentialAttach _ _ g tok _) \<longleftrightarrow> generation_ok g \<and> length tok = TOKEN_LEN"

fun binding_occupied_origin :: "ConnectionConversationBindingOccupied \<Rightarrow> ClientDiscriminant" where
  "binding_occupied_origin (OccupiedEnrollment _ _) = ClientDiscriminant.EnrollmentRequest"
| "binding_occupied_origin (OccupiedCredentialAttach _ _ _ _ _) = ClientDiscriminant.CredentialAttachRequest"

interpretation binding_occupied_field:
  routed_field take_binding_occupied put_binding_occupied binding_occupied_ok binding_occupied_origin
proof
  show "put_binding_occupied x e = e @ bytes_of (put_binding_occupied x)" for x e
    by (cases x) (simp_all add: put_simps Let_def bytes_of_def [of "put_binding_occupied v" for v])
  show "parses (take_binding_occupied origin) (\<lambda>x bs. bs = bytes_of (put_binding_occupied x) \<and> binding_occupied_ok x \<and> binding_occupied_origin x = origin)" for origin
    by (cases origin; simp only: take_binding_occupied_def ClientDiscriminant.case,
      rule parses_cong, (rule parse_intros)+, case_tac x,
      simp_all add: put_simps Let_def bytes_of_def [of "put_binding_occupied v" for v] cong: conj_cong)
qed

fun receipt_expired_ok :: "ReceiptExpired \<Rightarrow> bool" where
  "receipt_expired_ok (ReceiptExpired.Enrollment _ tok _ g h _) \<longleftrightarrow>
    length tok = TOKEN_LEN \<and> generation_ok g \<and> generation_ok h"
| "receipt_expired_ok (ReceiptExpired.CredentialAttach _ tok _ f _ g h _) \<longleftrightarrow>
    length tok = TOKEN_LEN \<and> generation_ok f \<and> generation_ok g \<and> generation_ok h"

fun receipt_expired_origin :: "ReceiptExpired \<Rightarrow> ClientDiscriminant" where
  "receipt_expired_origin (ReceiptExpired.Enrollment _ _ _ _ _ _) = ClientDiscriminant.EnrollmentRequest"
| "receipt_expired_origin (ReceiptExpired.CredentialAttach _ _ _ _ _ _ _ _) =
    ClientDiscriminant.CredentialAttachRequest"

lemma parses_required_generation_option [parse_intros]:
  "parses required_generation_option
    (\<lambda>g bs. bs = bytes_of (put_option_generation (Some g)) \<and> generation_ok g)"
  unfolding required_generation_option_def generation_one_def
  by (rule parses_cong, (rule parse_intros)+) (auto split: option.splits)

interpretation receipt_expired_field:
  routed_field take_receipt_expired put_receipt_expired receipt_expired_ok receipt_expired_origin
proof
  show "put_receipt_expired x e = e @ bytes_of (put_receipt_expired x)" for x e
    by (cases x) (simp_all add: put_simps Let_def bytes_of_def [of "put_receipt_expired v" for v])
  show "parses (take_receipt_expired origin) (\<lambda>x bs. bs = bytes_of (put_receipt_expired x) \<and> receipt_expired_ok x \<and> receipt_expired_origin x = origin)" for origin
    by (cases origin; simp only: take_receipt_expired_def ClientDiscriminant.case,
      rule parses_cong, (rule parse_intros)+, case_tac x,
      simp_all add: put_simps Let_def bytes_of_def [of "put_receipt_expired v" for v] cong: conj_cong)
qed

fun receipt_capacity_ok :: "ReceiptCapacityExceeded \<Rightarrow> bool" where
  "receipt_capacity_ok (ReceiptCapacityExceeded.Enrollment r _ _ _) \<longleftrightarrow> enrollment_ok r"
| "receipt_capacity_ok (ReceiptCapacityExceeded.CredentialAttach r _ _ _) \<longleftrightarrow> attach_ok r"

fun receipt_capacity_origin :: "ReceiptCapacityExceeded \<Rightarrow> ClientDiscriminant" where
  "receipt_capacity_origin (ReceiptCapacityExceeded.Enrollment _ _ _ _) = ClientDiscriminant.EnrollmentRequest"
| "receipt_capacity_origin (ReceiptCapacityExceeded.CredentialAttach _ _ _ _) =
    ClientDiscriminant.CredentialAttachRequest"

lemma parses_require_one [parse_intros]: "parses (require_one v) (\<lambda>_ bs. bs = bytes_of (put_u64 v))"
  unfolding require_one_def by (rule parses_cong, (rule parse_intros)+) auto

lemma parses_enrollment_receipt_scope [parse_intros]:
  "parses take_enrollment_receipt_scope
    (\<lambda>x bs. bs = bytes_of (put_u16 (ReceiptCapacityScope_wire_value (wire_scope x))))"
proof -
  have "parses (case scope of
      ReceiptCapacityScope.LiveReceiptServer \<Rightarrow> give EnrollmentReceiptCapacityScope.LiveReceiptServer
    | ReceiptCapacityScope.ProvenanceServer \<Rightarrow> give EnrollmentReceiptCapacityScope.ProvenanceServer
    | ReceiptCapacityScope.ProvenanceConversation \<Rightarrow> give EnrollmentReceiptCapacityScope.ProvenanceConversation
    | ReceiptCapacityScope.LiveReceiptParticipant \<Rightarrow> invalid_field
    | ReceiptCapacityScope.ProvenanceParticipant \<Rightarrow> invalid_field)
    (\<lambda>x bs. bs = [] \<and> wire_scope x = scope)" for scope
    by (cases scope; simp only: ReceiptCapacityScope.case, rule parses_cong, rule parse_intros, case_tac x, simp_all)
  then show ?thesis
    unfolding take_enrollment_receipt_scope_def
    by (rule parses_cong [OF parses_thenTake [OF ReceiptCapacityScope_reg.take_tag_parses]]) auto
qed

interpretation receipt_capacity_field:
  routed_field take_receipt_capacity put_receipt_capacity receipt_capacity_ok receipt_capacity_origin
proof
  show "put_receipt_capacity x e = e @ bytes_of (put_receipt_capacity x)" for x e
    by (cases x) (simp_all add: put_simps Let_def bytes_of_def [of "put_receipt_capacity v" for v])
  show "parses (take_receipt_capacity origin) (\<lambda>x bs. bs = bytes_of (put_receipt_capacity x) \<and> receipt_capacity_ok x \<and> receipt_capacity_origin x = origin)" for origin
    by (cases origin; simp only: take_receipt_capacity_def ClientDiscriminant.case,
      rule parses_cong, (rule parse_intros)+, case_tac x,
      simp_all add: put_simps Let_def bytes_of_def [of "put_receipt_capacity v" for v] cong: conj_cong)
qed

fun ack_no_op_ok :: "AckNoOp \<Rightarrow> bool" where
  "ack_no_op_ok (AckNoOp.ParticipantAck r) = participant_ack_ok r"
| "ack_no_op_ok (AckNoOp.MarkerAck r) = marker_ack_ok r"

fun ack_no_op_origin :: "AckNoOp \<Rightarrow> ClientDiscriminant" where
  "ack_no_op_origin (AckNoOp.ParticipantAck _) = ClientDiscriminant.ParticipantAck"
| "ack_no_op_origin (AckNoOp.MarkerAck _) = ClientDiscriminant.MarkerAck"

text \<open>The body that \<open>encode_server_suffix\<close> writes for an acknowledgement without effect.\<close>

fun put_ack_no_op :: "AckNoOp \<Rightarrow> Encoder \<Rightarrow> Encoder" where
  "put_ack_no_op (AckNoOp.ParticipantAck r) e = put_u64 (pae_through_seq r) (put_participant_ack r e)"
| "put_ack_no_op (AckNoOp.MarkerAck r) e = put_u64 (mae_marker_delivery_seq r) (put_marker_ack r e)"

interpretation ack_no_op_field:
  routed_field take_ack_no_op put_ack_no_op ack_no_op_ok ack_no_op_origin
proof
  show "put_ack_no_op x e = e @ bytes_of (put_ack_no_op x)" for x e
    by (cases x) (simp_all add: put_simps Let_def bytes_of_def [of "put_ack_no_op v" for v])
  show "parses (take_ack_no_op origin) (\<lambda>x bs. bs = bytes_of (put_ack_no_op x) \<and> ack_no_op_ok x \<and> ack_no_op_origin x = origin)" for origin
    by (cases origin; simp only: take_ack_no_op_def ClientDiscriminant.case,
      rule parses_cong, (rule parse_intros)+, case_tac x,
      simp_all add: put_simps Let_def bytes_of_def [of "put_ack_no_op v" for v] cong: conj_cong)
qed

fun retired_ok :: "Retired \<Rightarrow> bool" where
  "retired_ok (Retired.Enrollment r _ g) \<longleftrightarrow> enrollment_ok r \<and> generation_ok g"
| "retired_ok (Retired.Participant r g) \<longleftrightarrow> participant_reference_ok r \<and> generation_ok g"

fun retired_origin :: "Retired \<Rightarrow> ClientDiscriminant" where
  "retired_origin (Retired.Enrollment _ _ _) = ClientDiscriminant.EnrollmentRequest"
| "retired_origin (Retired.Participant r _) = participant_reference_origin r"

lemma participant_reference_origin_not_enrollment:
  "participant_reference_origin r \<noteq> ClientDiscriminant.EnrollmentRequest"
  by (cases r) simp_all

interpretation retired_field: routed_field take_retired put_retired retired_ok retired_origin
proof
  show "put_retired x e = e @ bytes_of (put_retired x)" for x e
    by (cases x) (simp_all add: put_simps Let_def bytes_of_def [of "put_retired v" for v])
  show "parses (take_retired origin) (\<lambda>x bs. bs = bytes_of (put_retired x) \<and> retired_ok x \<and>
    retired_origin x = origin)" for origin
    unfolding take_retired_def
    by (rule parses_cong, (rule parse_intros)+, case_tac x)
      (auto simp: put_simps Let_def bytes_of_def [of "put_retired v" for v]
        participant_reference_origin_not_enrollment)
qed

definition order_exhausted_ok :: "ConversationOrderExhausted \<Rightarrow> bool" where
  "order_exhausted_ok v \<longleftrightarrow> order_allocating_ok (coe_request v)"

interpretation order_exhausted_field: routed_field take_order_exhausted put_order_exhausted order_exhausted_ok
    "\<lambda>v. order_allocating_origin (coe_request v)"
proof
  show "put_order_exhausted x e = e @ bytes_of (put_order_exhausted x)" for x e
    by (simp add: put_order_exhausted_def put_simps Let_def bytes_of_def [of "put_order_exhausted v" for v])
  have counter: "Counter_wire_value c = 1" for c by (cases c) simp
  show "parses (take_order_exhausted origin) (\<lambda>x bs. bs = bytes_of (put_order_exhausted x) \<and>
    order_exhausted_ok x \<and> order_allocating_origin (coe_request x) = origin)" for origin
    unfolding take_order_exhausted_def Let_def
    by (rule parses_cong, (rule parse_intros)+, case_tac x)
      (auto simp: counter put_order_exhausted_def put_simps Let_def bytes_of_def [of "put_order_exhausted v" for v]
        ConversationOrderExhausted_new_def coe_next_value_def order_exhausted_ok_def)
qed

lemma resource_dimension_from_iff: "d = ResourceDimension_from t \<longleftrightarrow> t = ResourceDimensionTag_from d"
  by (cases d; cases t) simp_all

definition reason_scope :: "ClosureRefusalReason \<Rightarrow> ClosureScope" where
  "reason_scope r = (case r of
      ClosureRefusalReason.Capacity _ \<Rightarrow> ClosureScope.Capacity
    | ClosureRefusalReason.RecoveryFence \<Rightarrow> ClosureScope.RecoveryFence
    | ClosureRefusalReason.DeliveredMarkerAwaitingAck \<Rightarrow> ClosureScope.DeliveredMarkerAwaitingAck
    | ClosureRefusalReason.EpisodeChurnLimit \<Rightarrow> ClosureScope.EpisodeChurnLimit)"

definition reason_body :: "ClosureRefusalReason \<Rightarrow> u8 list" where
  "reason_body r = (case r of
      ClosureRefusalReason.Capacity v \<Rightarrow>
        bytes_of (put_u16 (ResourceDimensionTag_wire_value (ResourceDimensionTag_from (ccr_dimension v))))
          @ bytes_of (put_u128 (ccr_required v)) @ bytes_of (put_u128 (ccr_limit v))
    | _ \<Rightarrow> [])"

lemma capacity_reason_eq_iff:
  "v = \<lparr>ccr_dimension = a, ccr_required = b, ccr_limit = c\<rparr> \<longleftrightarrow>
    a = ccr_dimension v \<and> b = ccr_required v \<and> c = ccr_limit v"
  by (cases v) auto

lemma parses_closure_reason [parse_intros]:
  "parses (take_closure_reason scope) (\<lambda>x bs. bs = reason_body x \<and> reason_scope x = scope)"
  by (cases scope; simp only: take_closure_reason_def ClosureScope.case Let_def, rule parses_cong,
    (rule parse_intros)+, case_tac x,
    simp_all add: reason_body_def reason_scope_def capacity_reason_eq_iff eq_commute [of "ResourceDimension_from t" for t]
      resource_dimension_from_iff)

definition closure_exceeded_ok :: "MarkerClosureCapacityExceeded \<Rightarrow> bool" where
  "closure_exceeded_ok v \<longleftrightarrow> closure_checked_ok (mcc_request v) \<and> snapshot_ok (mcc_snapshot v)"

lemma put_closure_capacity_exceeded_eq:
  "put_closure_capacity_exceeded v e = e @ bytes_of (put_closure_checked (mcc_request v))
    @ bytes_of (put_u16 (ClosureScope_wire_value (reason_scope (mcc_reason v))))
    @ bytes_of (put_closure_snapshot (mcc_snapshot v)) @ reason_body (mcc_reason v)"
  by (cases "mcc_reason v")
    (simp_all add: put_closure_capacity_exceeded_def Let_def put_simps reason_scope_def reason_body_def)

interpretation closure_exceeded_field: routed_field take_closure_capacity_exceeded put_closure_capacity_exceeded
    closure_exceeded_ok "\<lambda>v. closure_checked_origin (mcc_request v)"
proof
  have bytes: "bytes_of (put_closure_capacity_exceeded v) = bytes_of (put_closure_checked (mcc_request v))
    @ bytes_of (put_u16 (ClosureScope_wire_value (reason_scope (mcc_reason v))))
    @ bytes_of (put_closure_snapshot (mcc_snapshot v)) @ reason_body (mcc_reason v)" for v
    using put_closure_capacity_exceeded_eq [of v "[]"] by (simp only: bytes_of_def [of "put_closure_capacity_exceeded v"] append_Nil)
  then show "put_closure_capacity_exceeded x e = e @ bytes_of (put_closure_capacity_exceeded x)" for x e
    by (simp only: put_closure_capacity_exceeded_eq)
  show "parses (take_closure_capacity_exceeded origin) (\<lambda>x bs. bs = bytes_of (put_closure_capacity_exceeded x) \<and>
    closure_exceeded_ok x \<and> closure_checked_origin (mcc_request x) = origin)" for origin
    unfolding take_closure_capacity_exceeded_def bytes
    by (rule parses_cong, (rule parse_intros)+, case_tac x) (auto simp: closure_exceeded_ok_def)
qed

fun stale_authority_ok :: "StaleAuthority \<Rightarrow> bool" where
  "stale_authority_ok (StaleAuthority.Live r g) \<longleftrightarrow>
    (case r of
       CommonStaleAuthorityEnvelope.CredentialAttach v \<Rightarrow> attach_ok v
     | CommonStaleAuthorityEnvelope.ParticipantAck v \<Rightarrow> participant_ack_ok v
     | CommonStaleAuthorityEnvelope.MarkerAck v \<Rightarrow> marker_ack_ok v
     | CommonStaleAuthorityEnvelope.RecordAdmission v \<Rightarrow> record_admission_ok v) \<and> generation_ok g"
| "stale_authority_ok (StaleAuthority.Detach v) \<longleftrightarrow>
    (case v of
       DetachStaleAuthority.Live _ _ g tok h \<Rightarrow> generation_ok g \<and> length tok = TOKEN_LEN \<and> generation_ok h
     | DetachStaleAuthority.TerminalizedDetachCell v \<Rightarrow>
         generation_ok (tdc_capability_generation v) \<and> length (tdc_detach_attempt_token v) = TOKEN_LEN
         \<and> generation_ok (tdc_current_generation v) \<and> epoch_ok (tdc_committed_binding_epoch v)
         \<and> (case tdc_binding_state v of BindingStateView.Bound e \<Rightarrow> epoch_ok e | _ \<Rightarrow> True))"
| "stale_authority_ok (StaleAuthority.Leave v) \<longleftrightarrow>
    (case v of
       LeaveStaleAuthority.Live _ _ g tok h \<Rightarrow> generation_ok g \<and> length tok = TOKEN_LEN \<and> generation_ok h
     | LeaveStaleAuthority.CommittedLeaveTombstone _ _ g tok h \<Rightarrow>
         generation_ok g \<and> length tok = TOKEN_LEN \<and> generation_ok h)"

definition state_body :: "BindingStateView \<Rightarrow> u8 list" where
  "state_body v = (case v of BindingStateView.Bound e \<Rightarrow> bytes_of (put_binding_epoch e) | BindingStateView.Detached \<Rightarrow> [])"

definition state_ok :: "BindingStateView \<Rightarrow> bool" where
  "state_ok v = (case v of BindingStateView.Bound e \<Rightarrow> epoch_ok e | BindingStateView.Detached \<Rightarrow> True)"

lemma parses_binding_state [parse_intros]:
  "parses (case tag of
      BindingStateTag.Bound \<Rightarrow> take_map BindingStateView.Bound take_binding_epoch
    | BindingStateTag.Detached \<Rightarrow> give BindingStateView.Detached)
    (\<lambda>x bs. bs = state_body x \<and> state_ok x \<and> BindingStateView_tag x = tag)"
  by (cases tag; simp only: BindingStateTag.case, rule parses_cong, (rule parse_intros)+, case_tac x)
    (auto simp: state_body_def state_ok_def)

lemma parses_case_DetachAuthorityStateTag [parse_intros]:
  assumes "v = DetachAuthorityStateTag.Live \<Longrightarrow> parses t0 R0" and "v = DetachAuthorityStateTag.TerminalizedDetachCell \<Longrightarrow> parses t1 R1"
  shows "parses (case v of DetachAuthorityStateTag.Live \<Rightarrow> t0 | DetachAuthorityStateTag.TerminalizedDetachCell \<Rightarrow> t1)
    (\<lambda>x bs. case v of DetachAuthorityStateTag.Live \<Rightarrow> R0 x bs | DetachAuthorityStateTag.TerminalizedDetachCell \<Rightarrow> R1 x bs)"
  using assms by (cases v) simp_all

lemma ex_DetachAuthorityStateTag: "(\<exists>v. P v) \<longleftrightarrow> P DetachAuthorityStateTag.Live \<or> P DetachAuthorityStateTag.TerminalizedDetachCell"
  by (metis DetachAuthorityStateTag.exhaust)

lemma parses_case_LeaveAuthorityStateTag [parse_intros]:
  assumes "v = LeaveAuthorityStateTag.Live \<Longrightarrow> parses t0 R0" and "v = LeaveAuthorityStateTag.CommittedLeaveTombstone \<Longrightarrow> parses t1 R1"
  shows "parses (case v of LeaveAuthorityStateTag.Live \<Rightarrow> t0 | LeaveAuthorityStateTag.CommittedLeaveTombstone \<Rightarrow> t1)
    (\<lambda>x bs. case v of LeaveAuthorityStateTag.Live \<Rightarrow> R0 x bs | LeaveAuthorityStateTag.CommittedLeaveTombstone \<Rightarrow> R1 x bs)"
  using assms by (cases v) simp_all

lemma ex_LeaveAuthorityStateTag: "(\<exists>v. P v) \<longleftrightarrow> P LeaveAuthorityStateTag.Live \<or> P LeaveAuthorityStateTag.CommittedLeaveTombstone"
  by (metis LeaveAuthorityStateTag.exhaust)

lemma parses_case_InvalidObserverEpochReason [parse_intros]:
  assumes "v = InvalidObserverEpochReason.ConversationUnknown \<Longrightarrow> parses t0 R0" and "v = InvalidObserverEpochReason.EpochAhead \<Longrightarrow> parses t1 R1"
  shows "parses (case v of InvalidObserverEpochReason.ConversationUnknown \<Rightarrow> t0 | InvalidObserverEpochReason.EpochAhead \<Rightarrow> t1)
    (\<lambda>x bs. case v of InvalidObserverEpochReason.ConversationUnknown \<Rightarrow> R0 x bs | InvalidObserverEpochReason.EpochAhead \<Rightarrow> R1 x bs)"
  using assms by (cases v) simp_all

lemma ex_InvalidObserverEpochReason: "(\<exists>v. P v) \<longleftrightarrow> P InvalidObserverEpochReason.ConversationUnknown \<or> P InvalidObserverEpochReason.EpochAhead"
  by (metis InvalidObserverEpochReason.exhaust)

lemma parses_case_InvalidObserverEpochListReason [parse_intros]:
  assumes "v = InvalidObserverEpochListReason.TooManyEntries \<Longrightarrow> parses t0 R0" and "v = InvalidObserverEpochListReason.DuplicateConversation \<Longrightarrow> parses t1 R1"
  shows "parses (case v of InvalidObserverEpochListReason.TooManyEntries \<Rightarrow> t0 | InvalidObserverEpochListReason.DuplicateConversation \<Rightarrow> t1)
    (\<lambda>x bs. case v of InvalidObserverEpochListReason.TooManyEntries \<Rightarrow> R0 x bs | InvalidObserverEpochListReason.DuplicateConversation \<Rightarrow> R1 x bs)"
  using assms by (cases v) simp_all

lemma ex_InvalidObserverEpochListReason: "(\<exists>v. P v) \<longleftrightarrow> P InvalidObserverEpochListReason.TooManyEntries \<or> P InvalidObserverEpochListReason.DuplicateConversation"
  by (metis InvalidObserverEpochListReason.exhaust)

lemma parses_case_MarkerMismatchReason [parse_intros]:
  assumes "v = MarkerMismatchReason.BelowCursor \<Longrightarrow> parses t0 R0" and "v = MarkerMismatchReason.NoMarkerExpected \<Longrightarrow> parses t1 R1" and "v = MarkerMismatchReason.ExpectedDifferentMarker \<Longrightarrow> parses t2 R2"
  shows "parses (case v of MarkerMismatchReason.BelowCursor \<Rightarrow> t0 | MarkerMismatchReason.NoMarkerExpected \<Rightarrow> t1 | MarkerMismatchReason.ExpectedDifferentMarker \<Rightarrow> t2)
    (\<lambda>x bs. case v of MarkerMismatchReason.BelowCursor \<Rightarrow> R0 x bs | MarkerMismatchReason.NoMarkerExpected \<Rightarrow> R1 x bs | MarkerMismatchReason.ExpectedDifferentMarker \<Rightarrow> R2 x bs)"
  using assms by (cases v) simp_all

lemma ex_MarkerMismatchReason: "(\<exists>v. P v) \<longleftrightarrow> P MarkerMismatchReason.BelowCursor \<or> P MarkerMismatchReason.NoMarkerExpected \<or> P MarkerMismatchReason.ExpectedDifferentMarker"
  by (metis MarkerMismatchReason.exhaust)

lemma parses_case_TransportReasonTag [parse_intros]:
  assumes "v = TransportReasonTag.FrameTooLarge \<Longrightarrow> parses t0 R0" and "v = TransportReasonTag.DecodeFailed \<Longrightarrow> parses t1 R1" and "v = TransportReasonTag.UnsupportedVersion \<Longrightarrow> parses t2 R2" and "v = TransportReasonTag.AuthenticationFailed \<Longrightarrow> parses t3 R3" and "v = TransportReasonTag.ParticipantCapabilityRequired \<Longrightarrow> parses t4 R4"
  shows "parses (case v of TransportReasonTag.FrameTooLarge \<Rightarrow> t0 | TransportReasonTag.DecodeFailed \<Rightarrow> t1 | TransportReasonTag.UnsupportedVersion \<Rightarrow> t2 | TransportReasonTag.AuthenticationFailed \<Rightarrow> t3 | TransportReasonTag.ParticipantCapabilityRequired \<Rightarrow> t4)
    (\<lambda>x bs. case v of TransportReasonTag.FrameTooLarge \<Rightarrow> R0 x bs | TransportReasonTag.DecodeFailed \<Rightarrow> R1 x bs | TransportReasonTag.UnsupportedVersion \<Rightarrow> R2 x bs | TransportReasonTag.AuthenticationFailed \<Rightarrow> R3 x bs | TransportReasonTag.ParticipantCapabilityRequired \<Rightarrow> R4 x bs)"
  using assms by (cases v) simp_all

lemma ex_TransportReasonTag: "(\<exists>v. P v) \<longleftrightarrow> P TransportReasonTag.FrameTooLarge \<or> P TransportReasonTag.DecodeFailed \<or> P TransportReasonTag.UnsupportedVersion \<or> P TransportReasonTag.AuthenticationFailed \<or> P TransportReasonTag.ParticipantCapabilityRequired"
  by (metis TransportReasonTag.exhaust)

lemma detach_cell_eq_iff:
  "v = \<lparr>tdc_conversation_id = a, tdc_participant_id = b, tdc_capability_generation = c,
      tdc_detach_attempt_token = d, tdc_current_generation = e, tdc_committed_binding_epoch = f,
      tdc_binding_state = g\<rparr> \<longleftrightarrow>
    a = tdc_conversation_id v \<and> b = tdc_participant_id v \<and> c = tdc_capability_generation v \<and>
    d = tdc_detach_attempt_token v \<and> e = tdc_current_generation v \<and> f = tdc_committed_binding_epoch v \<and>
    g = tdc_binding_state v"
  by (cases v) auto

lemma put_terminalized_cell:
  "(case w of
      BindingStateView.Bound e \<Rightarrow> put_binding_epoch e encoder
    | BindingStateView.Detached \<Rightarrow> encoder) = encoder @ state_body w"
  by (cases w) (simp_all add: state_body_def put_simps)

lemma case_state_ok: "(case w of BindingStateView.Bound e \<Rightarrow> epoch_ok e | _ \<Rightarrow> True) = state_ok w"
  by (cases w) (simp_all add: state_ok_def)

interpretation stale_authority_field:
  routed_field take_stale_authority put_stale_authority stale_authority_ok stale_authority_origin
proof
  show "put_stale_authority x e = e @ bytes_of (put_stale_authority x)" for x e
    by (cases x) (simp_all add: put_simps Let_def bytes_of_def [of "put_stale_authority v" for v]
      put_terminalized_cell split: CommonStaleAuthorityEnvelope.split DetachStaleAuthority.split
      LeaveStaleAuthority.split)
  show "parses (take_stale_authority origin) (\<lambda>x bs. bs = bytes_of (put_stale_authority x) \<and>
    stale_authority_ok x \<and> stale_authority_origin x = origin)" for origin
    by (cases origin; simp only: take_stale_authority.simps,
      rule parses_cong, (rule parse_intros)+, case_tac x,
      auto simp: put_simps Let_def bytes_of_def [of "put_stale_authority v" for v] put_terminalized_cell
        case_state_ok ex_DetachAuthorityStateTag ex_LeaveAuthorityStateTag detach_cell_eq_iff
      split: CommonStaleAuthorityEnvelope.split DetachStaleAuthority.split LeaveStaleAuthority.split
        CommonStaleAuthorityEnvelope.split_asm DetachStaleAuthority.split_asm LeaveStaleAuthority.split_asm)
qed

definition mismatch_ok :: "MarkerMismatch \<Rightarrow> bool" where
  "mismatch_ok v \<longleftrightarrow> marker_proof_ok (mm_request v)"

interpretation mismatch_field: routed_field take_marker_mismatch put_marker_mismatch mismatch_ok
    "\<lambda>v. marker_proof_origin (mm_request v)"
proof
  show "put_marker_mismatch x e = e @ bytes_of (put_marker_mismatch x)" for x e
    by (simp add: put_marker_mismatch_def put_simps Let_def bytes_of_def [of "put_marker_mismatch v" for v]
      split: MarkerMismatchBody.split)
  show "parses (take_marker_mismatch origin) (\<lambda>x bs. bs = bytes_of (put_marker_mismatch x) \<and>
    mismatch_ok x \<and> marker_proof_origin (mm_request x) = origin)" for origin
    unfolding take_marker_mismatch_def
    by (rule parses_cong, (rule parse_intros)+, case_tac x)
      (auto simp: put_marker_mismatch_def put_simps Let_def bytes_of_def [of "put_marker_mismatch v" for v]
        mismatch_ok_def ex_MarkerMismatchReason split: MarkerMismatchBody.split MarkerMismatchBody.split_asm)
qed

definition enroll_bound_ok :: "EnrollBound \<Rightarrow> bool" where
  "enroll_bound_ok v \<longleftrightarrow> length (eb_token v) = TOKEN_LEN \<and> length (eb_attach_secret v) = SECRET_LEN
    \<and> generation_get (be_capability_generation (eb_origin_binding_epoch v)) = 1"

lemma generation_get_1_iff: "generation_get g = 1 \<longleftrightarrow> g = Generation 1"
  by (cases g) simp

lemma EnrollBound_new_Some_iff:
  "EnrollBound_new a b c d e f g = Some v \<longleftrightarrow>
    generation_get (be_capability_generation e) = 1 \<and> v = \<lparr>eb_conversation_id = a, eb_token = b,
      eb_participant_id = c, eb_attach_secret = d, eb_origin_binding_epoch = e, eb_receipt_expires_at = f,
      eb_provenance_expires_at = g\<rparr>"
  by (auto simp: EnrollBound_new_def)

lemma parses_generation_one [parse_intros]: "parses generation_one (\<lambda>g bs. g = Generation 1 \<and> bs = [])"
  unfolding generation_one_def
  by (rule parses_cong, rule parse_intros) (auto simp: Generation_new_def)

interpretation enroll_bound_field: wire_field take_enroll_bound put_enroll_bound enroll_bound_ok
  unfolding take_enroll_bound_def
  by (rule wire_fieldI, simp add: put_enroll_bound_def Let_def put_simps, (rule parse_intros)+, case_tac x)
    (auto simp: enroll_bound_ok_def EnrollBound_new_Some_iff generation_get_1_iff generation_ok_def epoch_ok_def
      cong: conj_cong if_cong)

definition attach_bound_ok :: "AttachBound \<Rightarrow> bool" where
  "attach_bound_ok v \<longleftrightarrow> length (ab_token v) = TOKEN_LEN \<and> generation_ok (ab_request_generation v)
    \<and> length (ab_attach_secret v) = SECRET_LEN
    \<and> is_successor_generation (ab_request_generation v) (be_capability_generation (ab_origin_binding_epoch v))
    \<and> (case ab_accepted_marker_delivery_seq v of None \<Rightarrow> True | Some m \<Rightarrow> ab_persisted_cursor v = m)"

lemma successor_generation_ok: "is_successor_generation g h \<Longrightarrow> generation_ok h"
proof -
  assume "is_successor_generation g h"
  then have "checked_add (generation_get g) 1 = Some (generation_get h)"
    by (auto simp: is_successor_generation_def split: option.splits)
  then have "unat (generation_get h) = unat (generation_get g) + 1"
    using checked_add_unat by fastforce
  then show ?thesis by (auto simp: generation_ok_def)
qed

lemma attach_bound_choice:
  "(case m of
      Some marker \<Rightarrow>
        if cursor = marker then AttachBound_fenced a b c g s e marker r p else None
    | None \<Rightarrow> AttachBound_ordinary a b c g s e cursor r p) = Some v \<longleftrightarrow>
    is_successor_generation g (be_capability_generation e) \<and>
    (case m of None \<Rightarrow> True | Some marker \<Rightarrow> cursor = marker) \<and>
    v = \<lparr>ab_conversation_id = a, ab_token = b, ab_participant_id = c, ab_request_generation = g,
      ab_attach_secret = s, ab_origin_binding_epoch = e, ab_persisted_cursor = cursor,
      ab_accepted_marker_delivery_seq = m, ab_receipt_expires_at = r, ab_provenance_expires_at = p\<rparr>"
  by (cases m) (auto simp: AttachBound_ordinary_def AttachBound_fenced_def)

lemma parses_attach_bound_from_fields [parse_intros]:
  "parses (attach_bound_from_fields a b c g h s e cursor m r p)
    (\<lambda>v bs. bs = [] \<and> is_successor_generation g (be_capability_generation e) \<and> h = be_capability_generation e \<and>
      (case m of None \<Rightarrow> True | Some marker \<Rightarrow> cursor = marker) \<and>
      v = \<lparr>ab_conversation_id = a, ab_token = b, ab_participant_id = c, ab_request_generation = g,
        ab_attach_secret = s, ab_origin_binding_epoch = e, ab_persisted_cursor = cursor,
        ab_accepted_marker_delivery_seq = m, ab_receipt_expires_at = r, ab_provenance_expires_at = p\<rparr>)"
  unfolding attach_bound_from_fields_def
  by (rule parses_cong, (rule parse_intros)+) (auto simp: attach_bound_choice)

interpretation attach_bound_field: wire_field take_attach_bound put_attach_bound attach_bound_ok
  unfolding take_attach_bound_def take_attach_bound_rest_def
  by (rule wire_fieldI, simp add: put_attach_bound_def Let_def put_simps, (rule parse_intros)+, case_tac x)
    (auto simp: attach_bound_ok_def epoch_ok_def intro: successor_generation_ok cong: conj_cong split: option.splits)

fun receipt_replay_ok :: "ReceiptReplay \<Rightarrow> bool" where
  "receipt_replay_ok (ReceiptReplay.Enrollment v) = enroll_bound_ok v"
| "receipt_replay_ok (ReceiptReplay.CredentialAttach v) = attach_bound_ok v"

fun receipt_replay_origin :: "ReceiptReplay \<Rightarrow> ClientDiscriminant" where
  "receipt_replay_origin (ReceiptReplay.Enrollment _) = ClientDiscriminant.EnrollmentRequest"
| "receipt_replay_origin (ReceiptReplay.CredentialAttach _) = ClientDiscriminant.CredentialAttachRequest"

lemma take_receipt_replay_attach:
  "take_receipt_replay ClientDiscriminant.CredentialAttachRequest = take_map ReceiptReplay.CredentialAttach take_attach_bound"
  by (simp add: take_receipt_replay_def take_attach_bound_def take_map_def thenTake_assoc)

lemma parses_enrollment_replay:
  "parses (take_receipt_replay ClientDiscriminant.EnrollmentRequest)
    (\<lambda>x bs. \<exists>v. x = ReceiptReplay.Enrollment v \<and> bs = bytes_of (put_enroll_bound v) \<and> enroll_bound_ok v)"
  unfolding take_receipt_replay_def ClientDiscriminant.case
proof (rule parses_cong, (rule parse_intros)+, goal_cases)
  case (1 x bs)
  show ?case
  proof (cases x)
    case (Enrollment v)
    show ?thesis
      by (cases v, simp add: Enrollment put_enroll_bound_def put_simps Let_def
        bytes_of_def [of "put_enroll_bound v" for v] EnrollBound_new_Some_iff generation_get_1_iff
        Generation_ONE_def enroll_bound_ok_def generation_ok_def epoch_ok_def cong: conj_cong) auto
  qed (auto cong: conj_cong)
qed

interpretation receipt_replay_field:
  routed_field take_receipt_replay put_receipt_replay receipt_replay_ok receipt_replay_origin
proof
  have bytes: "bytes_of (put_receipt_replay (ReceiptReplay.Enrollment v)) = bytes_of (put_enroll_bound v)"
    "bytes_of (put_receipt_replay (ReceiptReplay.CredentialAttach w)) = bytes_of (put_attach_bound w)" for v w
    by (simp_all add: bytes_of_def)
  then show "put_receipt_replay x e = e @ bytes_of (put_receipt_replay x)" for x e
    by (cases x) (simp_all add: put_simps)
  show "parses (take_receipt_replay origin) (\<lambda>x bs. bs = bytes_of (put_receipt_replay x) \<and>
    receipt_replay_ok x \<and> receipt_replay_origin x = origin)" for origin
  proof (cases "origin = ClientDiscriminant.EnrollmentRequest \<or> origin = ClientDiscriminant.CredentialAttachRequest")
    case True
    then show ?thesis
    proof
      assume "origin = ClientDiscriminant.EnrollmentRequest"
      then show ?thesis
        by (simp only:, intro parses_cong [OF parses_enrollment_replay], case_tac x) (auto simp: bytes)
    next
      assume "origin = ClientDiscriminant.CredentialAttachRequest"
      then show ?thesis
        by (simp only: take_receipt_replay_attach, intro parses_cong [OF parses_take_map
          [OF attach_bound_field.take_parses]], case_tac x) (auto simp: bytes)
    qed
  next
    case False
    then have "receipt_replay_origin x \<noteq> origin" for x by (cases x) auto
    moreover have "parses (thenTake take_u64 (\<lambda>_. thenTake (take_fixed TOKEN_LEN) (\<lambda>_.
        thenTake take_u64 (\<lambda>_. invalid_field)))) (\<lambda>x bs. False)"
      by (rule parses_cong, (rule parse_intros)+) auto
    then have "parses (take_receipt_replay origin) (\<lambda>x bs. False)"
      using False by (cases origin) (simp_all add: take_receipt_replay_def)
    ultimately show ?thesis by simp
  qed
qed

definition identity_capacity_ok :: "IdentityCapacityExceeded \<Rightarrow> bool" where
  "identity_capacity_ok v \<longleftrightarrow> enrollment_ok (ice_request v)"

definition detach_committed_ok :: "DetachCommitted \<Rightarrow> bool" where
  "detach_committed_ok v \<longleftrightarrow> length (dc_detach_attempt_token v) = TOKEN_LEN \<and> epoch_ok (dc_committed_binding_epoch v)"

definition leave_committed_ok :: "LeaveCommitted \<Rightarrow> bool" where
  "leave_committed_ok v \<longleftrightarrow> length (lc_leave_attempt_token v) = TOKEN_LEN \<and> generation_ok (lc_retired_generation v)
    \<and> (case lc_ended_binding_epoch v of None \<Rightarrow> True | Some e \<Rightarrow> be_capability_generation e = lc_retired_generation v)
    \<and> (case lc_prior_terminal_delivery_seq v of None \<Rightarrow> True | Some p \<Rightarrow> p < lc_left_delivery_seq v)"

lemma LeaveCommitted_new_Some_iff:
  "LeaveCommitted_new a b c g e p l = Some v \<longleftrightarrow>
    (case e of None \<Rightarrow> True | Some e \<Rightarrow> be_capability_generation e = g) \<and>
    (case p of None \<Rightarrow> True | Some p \<Rightarrow> p < l) \<and>
    v = \<lparr>lc_conversation_id = a, lc_leave_attempt_token = b, lc_participant_id = c, lc_retired_generation = g,
      lc_ended_binding_epoch = e, lc_prior_terminal_delivery_seq = p, lc_left_delivery_seq = l\<rparr>"
proof -
  have "generation_get x = generation_get y \<longleftrightarrow> x = y" for x y by (cases x; cases y) simp
  then show ?thesis by (auto simp: LeaveCommitted_new_def not_le split: option.splits)
qed

interpretation leave_committed_field: wire_field take_leave_committed put_leave_committed leave_committed_ok
  unfolding take_leave_committed_def
  by (rule wire_fieldI, simp add: put_leave_committed_def Let_def put_simps, (rule parse_intros)+, case_tac x)
    (auto simp: leave_committed_ok_def LeaveCommitted_new_Some_iff epoch_ok_def cong: conj_cong split: option.splits)

interpretation detach_committed_field: wire_field take_detach_committed
    "\<lambda>v e. projr (encode_server_suffix (ServerValue.DetachCommitted v) e)" detach_committed_ok
  unfolding take_detach_committed_def
  by (rule wire_fieldI, simp add: Let_def put_simps, (rule parse_intros)+, case_tac x)
    (auto simp: detach_committed_ok_def epoch_ok_def cong: conj_cong)

interpretation identity_capacity_field: wire_field take_identity_capacity
    "\<lambda>v e. projr (encode_server_suffix (ServerValue.IdentityCapacityExceeded v) e)" identity_capacity_ok
  unfolding take_identity_capacity_def
  by (rule wire_fieldI, simp add: Let_def put_simps, (rule parse_intros)+, case_tac x)
    (auto simp: identity_capacity_ok_def cong: conj_cong)

interpretation recovery_status_field: wire_field take_recovery_status put_recovery_status "\<lambda>_. True"
  unfolding take_recovery_status_def
  by (rule wire_fieldI, simp add: put_recovery_status_def Let_def put_simps, (rule parse_intros)+, case_tac x) simp

lemma length_recovery_status: "length (bytes_of (put_recovery_status v)) = RECOVERY_STATUS_LEN"
  by (simp add: bytes_of_def put_recovery_status_def Let_def put_u64_def put_bool_def put_u8_def
    RECOVERY_STATUS_LEN_def)

lemma parses_take_times:
  assumes "parses t (\<lambda>x bs. bs = B x \<and> ok x)"
  shows "parses (take_times n t) (\<lambda>xs bs. length xs = n \<and> bs = concat (map B xs) \<and> list_all ok xs)"
proof (induction n)
  case 0
  show ?case by (simp, rule parses_cong, rule parse_intros) auto
next
  case (Suc n)
  show ?case
    by (simp, rule parses_cong, (rule parse_intros assms Suc.IH)+, case_tac x) auto
qed

lemma parses_guard:
  assumes t: "parses t R" and len: "\<And>x bs. R x bs \<Longrightarrow> n \<le> length bs"
  shows "parses (thenTake (\<lambda>d. if n > d_remaining d then Err e else Ok ((), d)) (\<lambda>_. t)) R"
proof (rule parsesI, goal_cases)
  case (1 pre suf flag x d)
  then have "t (dec_at pre suf flag) = Ok (x, d)" by (auto simp: thenTake_def split: if_splits)
  from parses_soundE [OF t this] show ?case by blast
next
  case (2 pre bs rest x)
  have "\<not> n > d_remaining (dec_at pre (bs @ rest) False)"
    using len [OF 2(1)] by (simp add: dec_at_def d_remaining_def)
  with parses_complete [OF t 2] show ?case by (simp add: thenTake_def)
qed

lemma length_eq_unat_u64_iff: "length xs = unat c \<longleftrightarrow> length xs \<le> U64_MAX \<and> c = of_nat (length xs)" for c :: u64
  using unat_u64_le [of c] by (auto simp: unat_of_nat)

lemma length_eq_unat_u32_iff: "length xs = unat c \<longleftrightarrow> length xs \<le> U32_MAX \<and> c = of_nat (length xs)" for c :: u32
  using unat_u32_le [of c] by (auto simp: unat_of_nat)

lemma parses_recovery_accepted [parse_intros]:
  "parses take_recovery_accepted
    (\<lambda>x bs. length (ora_statuses x) \<le> U64_MAX \<and> bs = bytes_of (put_u64 (of_nat (length (ora_statuses x))))
      @ concat (map (\<lambda>s. bytes_of (put_recovery_status s)) (ora_statuses x)))"
proof -
  let ?B = "\<lambda>s. bytes_of (put_recovery_status s)"
  have len: "length (concat (map ?B xs)) = length xs * RECOVERY_STATUS_LEN" for xs
    by (induction xs) (simp_all add: length_recovery_status)
  have items: "parses (take_times (unat count) take_recovery_status)
      (\<lambda>xs bs. length xs = unat count \<and> bs = concat (map ?B xs))" for count :: u64
    using parses_take_times [OF recovery_status_field.take_parses] by (simp add: list_all_iff)
  have body: "parses (thenTake (take_times (unat count) take_recovery_status) (\<lambda>statuses. give \<lparr>ora_statuses = statuses\<rparr>))
      (\<lambda>x bs. length (ora_statuses x) = unat count \<and> bs = concat (map ?B (ora_statuses x)))" for count :: u64
    by (rule parses_cong, (rule parse_intros items)+, case_tac x) auto
  show ?thesis
    unfolding take_recovery_accepted_def
    by (rule parses_cong, rule parse_intros, rule parse_intros, rule parses_guard, rule body)
      (auto simp: len length_eq_unat_u64_iff unat_of_nat)
qed

lemma parses_zero_count [parse_intros]: "parses require_zero_recovery_count (\<lambda>_ bs. bs = bytes_of (put_u64 0))"
  unfolding require_zero_recovery_count_def by (rule parses_cong, (rule parse_intros)+) auto

definition invalid_epoch_body :: "InvalidObserverEpoch \<Rightarrow> u8 list" where
  "invalid_epoch_body v = drop 8 (bytes_of (put_invalid_epoch v))"

lemma length_u64_bytes: "length (bytes_of (put_u64 w)) = 8"
  by (simp add: bytes_of_def put_u64_def)

lemma put_invalid_epoch_eq: "put_invalid_epoch v e = e @ bytes_of (put_u64 0) @ invalid_epoch_body v"
  by (cases v) (simp_all add: invalid_epoch_body_def bytes_of_def [of "put_invalid_epoch v" for v] put_simps Let_def
    length_u64_bytes)

lemma parses_unwrap_or_invalid:
  "parses (case v of Some x \<Rightarrow> give x | None \<Rightarrow> thenTake (invalidate_if True) (\<lambda>_. give y))
    (\<lambda>x bs. v = Some x \<and> bs = [])"
  by (rule parses_cong, (rule parse_intros)+) (auto split: option.splits)

lemma parses_invalid_epoch [parse_intros]:
  "parses take_invalid_observer_epoch (\<lambda>x bs. bs = invalid_epoch_body x)"
  unfolding take_invalid_observer_epoch_def
  by (rule parses_cong, (rule parses_unwrap_or_invalid parse_intros)+, case_tac x)
    (auto simp: ex_InvalidObserverEpochReason invalid_epoch_body_def bytes_of_def [of "put_invalid_epoch v" for v]
      put_simps Let_def length_u64_bytes split: option.splits)

definition invalid_epoch_list_body :: "InvalidObserverEpochList \<Rightarrow> u8 list" where
  "invalid_epoch_list_body v = drop 8 (bytes_of (put_invalid_epoch_list v))"

lemma put_invalid_epoch_list_eq:
  "put_invalid_epoch_list v e = e @ bytes_of (put_u64 0) @ invalid_epoch_list_body v"
  by (cases v) (simp_all add: invalid_epoch_list_body_def bytes_of_def [of "put_invalid_epoch_list v" for v]
    put_simps Let_def length_u64_bytes)

lemma parses_invalid_epoch_list [parse_intros]:
  "parses take_invalid_observer_epoch_list (\<lambda>x bs. bs = invalid_epoch_list_body x)"
  unfolding take_invalid_observer_epoch_list_def
  by (rule parses_cong, (rule parse_intros)+, case_tac x)
    (auto simp: ex_InvalidObserverEpochListReason invalid_epoch_list_body_def
      bytes_of_def [of "put_invalid_epoch_list v" for v] put_simps Let_def length_u64_bytes)

definition transport_body :: "TransportRejectionReason \<Rightarrow> u8 list" where
  "transport_body r = projr (put_transport_reason r [])"

lemma length_capability: "length PARTICIPANT_CAPABILITY = 14"
  by (simp add: PARTICIPANT_CAPABILITY_def lit_def)

lemma utf8_capability: "utf8_valid PARTICIPANT_CAPABILITY"
  unfolding PARTICIPANT_CAPABILITY_def by code_simp

lemma put_transport_reason_eq: "put_transport_reason r e = Ok (e @ transport_body r)"
  by (cases r) (simp_all add: transport_body_def Let_def put_simps put_string_def u32_from_len_def length_capability)

lemma parses_take_string:
  "parses take_string (\<lambda>s bs. bs = bytes_of (put_u32 (of_nat (length s))) @ bytes_of (put_fixed s)
    \<and> length s \<le> U32_MAX \<and> utf8_valid s)"
proof -
  have len: "length s = unat w \<longleftrightarrow> length s \<le> U32_MAX \<and> w = of_nat (length s)" for s :: "u8 list" and w :: u32
    using unat_u32_le [of w] by (auto simp: unat_of_nat)
  show ?thesis
    unfolding take_string_def
    by (rule parses_cong, (rule parse_intros parses_take_slice)+)
      (auto simp: len bytes_of_def [of "put_fixed v" for v] put_fixed_def)
qed

lemma parses_transport_reason [parse_intros]: "parses take_transport_reason (\<lambda>r bs. bs = transport_body r)"
  unfolding take_transport_reason_def
  by (rule parses_cong, (rule parse_intros parses_take_string)+, case_tac x)
    (auto simp: ex_TransportReasonTag transport_body_def Let_def put_simps put_string_def u32_from_len_def
      length_capability utf8_capability)

section \<open>Server values\<close>

text \<open>What the Rust types guarantee of a server value: token and secret widths, nonzero generations, the
  invariants of the sealed constructors, and a recovery list whose length is a \<open>usize\<close>.\<close>

fun server_value_ok :: "ServerValue \<Rightarrow> bool" where
  "server_value_ok (ServerValue.ParticipantTransportRejected _) \<longleftrightarrow> True"
| "server_value_ok (ServerValue.AttemptTokenBodyConflict v) \<longleftrightarrow> attempt_conflict_ok v"
| "server_value_ok (ServerValue.ConnectionConversationCapacityExceeded v) \<longleftrightarrow>
    (case v of
       ConnectionConversationCapacityExceeded.SemanticRequest r _ \<Rightarrow> response_envelope_ok r
     | ConnectionConversationCapacityExceeded.ObserverRecovery _ _ \<Rightarrow> True)"
| "server_value_ok (ServerValue.ConnectionConversationBindingOccupied v) \<longleftrightarrow> binding_occupied_ok v"
| "server_value_ok (ServerValue.ConversationOrderExhausted v) \<longleftrightarrow> order_exhausted_ok v"
| "server_value_ok (ServerValue.ParticipantUnknown v) \<longleftrightarrow> participant_reference_ok (pu_request v)"
| "server_value_ok (ServerValue.NoBinding v) \<longleftrightarrow> binding_required_ok (nb_request v)"
| "server_value_ok (ServerValue.StaleAuthority v) \<longleftrightarrow> stale_authority_ok v"
| "server_value_ok (ServerValue.Retired v) \<longleftrightarrow> retired_ok v"
| "server_value_ok (ServerValue.MarkerClosureCapacityExceeded v) \<longleftrightarrow> closure_exceeded_ok v"
| "server_value_ok (ServerValue.EnrollBound v) \<longleftrightarrow> enroll_bound_ok v"
| "server_value_ok (ServerValue.EnrollmentKnown v) \<longleftrightarrow>
    length (ek_token v) = TOKEN_LEN \<and> generation_ok (ek_current_generation v)"
| "server_value_ok (ServerValue.ReceiptExpired v) \<longleftrightarrow> receipt_expired_ok v"
| "server_value_ok (ServerValue.ReceiptCapacityExceeded v) \<longleftrightarrow> receipt_capacity_ok v"
| "server_value_ok (ServerValue.IdentityCapacityExceeded v) \<longleftrightarrow> identity_capacity_ok v"
| "server_value_ok (ServerValue.ObserverBackpressure v) \<longleftrightarrow> backpressure_ok v"
| "server_value_ok (ServerValue.ConversationSequenceExhausted v) \<longleftrightarrow> sequence_allocating_ok (cse_request v)"
| "server_value_ok (ServerValue.AttachBound v) \<longleftrightarrow> attach_bound_ok v"
| "server_value_ok (ServerValue.StaleOrUnknownReceipt v) \<longleftrightarrow> length (sur_token v) = TOKEN_LEN
    \<and> generation_ok (sur_presented_generation v) \<and> generation_ok (sur_current_generation v)"
| "server_value_ok (ServerValue.MarkerNotDelivered v) \<longleftrightarrow> marker_proof_ok (mnd_request v)"
| "server_value_ok (ServerValue.MarkerMismatch v) \<longleftrightarrow> mismatch_ok v"
| "server_value_ok (ServerValue.Bound v) \<longleftrightarrow> receipt_replay_ok v"
| "server_value_ok (ServerValue.UnboundReceipt v) \<longleftrightarrow> receipt_replay_ok v"
| "server_value_ok (ServerValue.DetachCommitted v) \<longleftrightarrow> detach_committed_ok v"
| "server_value_ok (ServerValue.DetachInProgress v) \<longleftrightarrow> length (dip_presented_token v) = TOKEN_LEN
    \<and> generation_ok (dip_presented_generation v) \<and> epoch_ok (dip_committed_binding_epoch v)"
| "server_value_ok (ServerValue.AckCommitted v) \<longleftrightarrow> participant_ack_ok (ac_request v)"
| "server_value_ok (ServerValue.AckNoOp v) \<longleftrightarrow> ack_no_op_ok v"
| "server_value_ok (ServerValue.AckGap v) \<longleftrightarrow> participant_ack_ok (ag_request v)
    \<and> pae_through_seq (ag_request v) > ag_current_cursor v"
| "server_value_ok (ServerValue.AckRegression v) \<longleftrightarrow> participant_ack_ok (ar_request v)
    \<and> pae_through_seq (ar_request v) < ar_current_cursor v"
| "server_value_ok (ServerValue.LeaveCommitted v) \<longleftrightarrow> leave_committed_ok v"
| "server_value_ok (ServerValue.MarkerAckCommitted v) \<longleftrightarrow> marker_ack_ok (mac_request v)"
| "server_value_ok (ServerValue.RecordCommitted v) \<longleftrightarrow> record_admission_ok (rc_request v)"
| "server_value_ok (ServerValue.RecordTooLarge v) \<longleftrightarrow> record_admission_ok (rtl_request v)"
| "server_value_ok (ServerValue.ObserverRecoveryAccepted v) \<longleftrightarrow> length (ora_statuses v) \<le> USIZE_MAX"
| "server_value_ok (ServerValue.InvalidObserverEpoch v) \<longleftrightarrow> True"
| "server_value_ok (ServerValue.InvalidObserverEpochList v) \<longleftrightarrow> True"
| "server_value_ok (ServerValue.MarkerSettlementBackpressure v) \<longleftrightarrow> True"
| "server_value_ok (ServerValue.EnrollmentSettlementBackpressure v) \<longleftrightarrow> True"

definition suffix_bytes :: "ServerValue \<Rightarrow> u8 list" where
  "suffix_bytes v = projr (encode_server_suffix v [])"

lemma fold_recovery_status:
  "fold put_recovery_status xs e = e @ concat (map (\<lambda>s. bytes_of (put_recovery_status s)) xs)"
  by (induction xs arbitrary: e) (simp_all add: recovery_status_field.put_appends)

lemmas put_eqs = put_transport_reason_eq put_invalid_epoch_eq put_invalid_epoch_list_eq fold_recovery_status

lemma encode_server_suffix_eq: "server_value_ok v \<Longrightarrow> encode_server_suffix v e = Ok (e @ suffix_bytes v)"
  by (cases v) (simp_all add: suffix_bytes_def Let_def put_simps put_eqs u64_from_len_def
    split: ConnectionConversationCapacityExceeded.split AckNoOp.split MarkerSettlementBackpressure.split)

lemma routed_origins:
  "originating_request (ServerValue.AttemptTokenBodyConflict v1) = Some (attempt_conflict_origin v1)"
  "originating_request (ServerValue.ConnectionConversationBindingOccupied v2) = Some (binding_occupied_origin v2)"
  "originating_request (ServerValue.ConversationOrderExhausted v3) = Some (order_allocating_origin (coe_request v3))"
  "originating_request (ServerValue.Retired v4) = Some (retired_origin v4)"
  "originating_request (ServerValue.MarkerClosureCapacityExceeded v5) = Some (closure_checked_origin (mcc_request v5))"
  "originating_request (ServerValue.ReceiptExpired v6) = Some (receipt_expired_origin v6)"
  "originating_request (ServerValue.ReceiptCapacityExceeded v7) = Some (receipt_capacity_origin v7)"
  "originating_request (ServerValue.ObserverBackpressure v8) = Some (backpressure_origin v8)"
  "originating_request (ServerValue.ConversationSequenceExhausted v9) = Some (sequence_allocating_origin (cse_request v9))"
  "originating_request (ServerValue.Bound v10) = Some (receipt_replay_origin v10)"
  "originating_request (ServerValue.UnboundReceipt v10) = Some (receipt_replay_origin v10)"
  "originating_request (ServerValue.AckNoOp v11) = Some (ack_no_op_origin v11)"
             apply (cases v1; simp)
            apply (cases v2; simp)
           apply (cases "coe_request v3"; simp)
          apply (cases v4; simp)
         apply (cases "mcc_request v5"; simp)
        apply (cases v6; simp)
       apply (cases v7; simp)
      apply (cases v8; simp)
     apply (cases "cse_request v9"; simp)
    apply (cases v10; simp)
   apply (cases v10; simp)
  apply (cases v11; simp)
  done

lemma routed_suffixes:
  "suffix_bytes (ServerValue.ParticipantTransportRejected w1) = transport_body (ptr_reason w1)"
  "suffix_bytes (ServerValue.AttemptTokenBodyConflict v1) = bytes_of (put_attempt_conflict v1)"
  "suffix_bytes (ServerValue.ConnectionConversationBindingOccupied v2) = bytes_of (put_binding_occupied v2)"
  "suffix_bytes (ServerValue.ConversationOrderExhausted v3) = bytes_of (put_order_exhausted v3)"
  "suffix_bytes (ServerValue.ParticipantUnknown w2) = bytes_of (put_participant_reference (pu_request w2))"
  "suffix_bytes (ServerValue.NoBinding w3) = bytes_of (put_binding_required (nb_request w3))"
  "suffix_bytes (ServerValue.StaleAuthority w4) = bytes_of (put_stale_authority w4)"
  "suffix_bytes (ServerValue.Retired v4) = bytes_of (put_retired v4)"
  "suffix_bytes (ServerValue.MarkerClosureCapacityExceeded v5) = bytes_of (put_closure_capacity_exceeded v5)"
  "suffix_bytes (ServerValue.EnrollBound w5) = bytes_of (put_enroll_bound w5)"
  "suffix_bytes (ServerValue.ReceiptExpired v6) = bytes_of (put_receipt_expired v6)"
  "suffix_bytes (ServerValue.ReceiptCapacityExceeded v7) = bytes_of (put_receipt_capacity v7)"
  "suffix_bytes (ServerValue.IdentityCapacityExceeded w6) =
    bytes_of (\<lambda>e. projr (encode_server_suffix (ServerValue.IdentityCapacityExceeded w6) e))"
  "suffix_bytes (ServerValue.ObserverBackpressure v8) = bytes_of (put_observer_backpressure v8)"
  "suffix_bytes (ServerValue.AttachBound w7) = bytes_of (put_attach_bound w7)"
  "suffix_bytes (ServerValue.MarkerMismatch w8) = bytes_of (put_marker_mismatch w8)"
  "suffix_bytes (ServerValue.Bound v10) = bytes_of (put_receipt_replay v10)"
  "suffix_bytes (ServerValue.UnboundReceipt v10) = bytes_of (put_receipt_replay v10)"
  "suffix_bytes (ServerValue.DetachCommitted w9) =
    bytes_of (\<lambda>e. projr (encode_server_suffix (ServerValue.DetachCommitted w9) e))"
  "suffix_bytes (ServerValue.LeaveCommitted w10) = bytes_of (put_leave_committed w10)"
  by (simp_all add: suffix_bytes_def bytes_of_def transport_body_def)

lemma ack_no_op_suffix: "suffix_bytes (ServerValue.AckNoOp v) = bytes_of (put_ack_no_op v)"
  by (cases v) (simp_all add: suffix_bytes_def bytes_of_def)

lemma inline_suffixes:
  "suffix_bytes (ServerValue.ConnectionConversationCapacityExceeded
      (ConnectionConversationCapacityExceeded.SemanticRequest r l)) =
    bytes_of (put_response_envelope r) @ bytes_of (put_u64 l)"
  "suffix_bytes (ServerValue.ConnectionConversationCapacityExceeded
      (ConnectionConversationCapacityExceeded.ObserverRecovery c l)) =
    bytes_of (put_u64 0) @ bytes_of (put_u64 c) @ bytes_of (put_u64 l)"
  "suffix_bytes (ServerValue.EnrollmentKnown v1) = bytes_of (put_u64 (ek_conversation_id v1))
    @ bytes_of (put_fixed (ek_token v1)) @ bytes_of (put_u64 (ek_participant_id v1))
    @ bytes_of (put_generation (ek_current_generation v1))"
  "suffix_bytes (ServerValue.ConversationSequenceExhausted v2) =
    bytes_of (put_sequence_allocating (cse_request v2)) @ bytes_of (put_sequence_budget (cse_sequence_budget v2))"
  "suffix_bytes (ServerValue.StaleOrUnknownReceipt v3) = bytes_of (put_u64 (sur_conversation_id v3))
    @ bytes_of (put_fixed (sur_token v3)) @ bytes_of (put_u64 (sur_participant_id v3))
    @ bytes_of (put_generation (sur_presented_generation v3))
    @ bytes_of (put_option_u64 (sur_presented_marker_delivery_seq v3))
    @ bytes_of (put_generation (sur_current_generation v3))"
  "suffix_bytes (ServerValue.MarkerNotDelivered v4) = bytes_of (put_marker_proof (mnd_request v4))
    @ bytes_of (put_u16 (MarkerNotDeliveredReason_wire_value (mnd_reason v4)))
    @ bytes_of (put_u64 (mnd_expected_marker_delivery_seq v4))"
  "suffix_bytes (ServerValue.DetachInProgress v5) = bytes_of (put_u64 (dip_conversation_id v5))
    @ bytes_of (put_u64 (dip_participant_id v5)) @ bytes_of (put_fixed (dip_presented_token v5))
    @ bytes_of (put_generation (dip_presented_generation v5))
    @ bytes_of (put_binding_epoch (dip_committed_binding_epoch v5))"
  "suffix_bytes (ServerValue.AckCommitted v6) = bytes_of (put_participant_ack (ac_request v6))
    @ bytes_of (put_u64 (pae_through_seq (ac_request v6)))"
  "suffix_bytes (ServerValue.AckGap v7) = bytes_of (put_participant_ack (ag_request v7))
    @ bytes_of (put_u64 (ag_current_cursor v7)) @ bytes_of (put_u16 1)"
  "suffix_bytes (ServerValue.AckRegression v8) = bytes_of (put_participant_ack (ar_request v8))
    @ bytes_of (put_u64 (ar_current_cursor v8)) @ bytes_of (put_u16 1)"
  "suffix_bytes (ServerValue.MarkerAckCommitted v9) = bytes_of (put_marker_ack (mac_request v9))
    @ bytes_of (put_u64 (mae_marker_delivery_seq (mac_request v9)))"
  "suffix_bytes (ServerValue.RecordCommitted v10) = bytes_of (put_record_admission (rc_request v10))
    @ bytes_of (put_u64 (rae_participant_id (rc_request v10))) @ bytes_of (put_u64 (rc_delivery_seq v10))"
  "suffix_bytes (ServerValue.RecordTooLarge v11) = bytes_of (put_record_admission (rtl_request v11))
    @ bytes_of (put_u16 (ResourceDimensionTag_wire_value (ResourceDimensionTag_from (rtl_dimension v11))))
    @ bytes_of (put_resource_vector (rtl_encoded_record_charge v11))
    @ bytes_of (put_resource_vector (rtl_max_ordinary_record_charge v11))"
  "length (ora_statuses v12) \<le> U64_MAX \<Longrightarrow> suffix_bytes (ServerValue.ObserverRecoveryAccepted v12) =
    bytes_of (put_u64 (of_nat (length (ora_statuses v12))))
    @ concat (map (\<lambda>s. bytes_of (put_recovery_status s)) (ora_statuses v12))"
  "suffix_bytes (ServerValue.InvalidObserverEpoch v13) = bytes_of (put_u64 0) @ invalid_epoch_body v13"
  "suffix_bytes (ServerValue.InvalidObserverEpochList v14) = bytes_of (put_u64 0) @ invalid_epoch_list_body v14"
  "suffix_bytes (ServerValue.MarkerSettlementBackpressure (MarkerSettlementBackpressure.CredentialAttach c l)) =
    bytes_of (put_u64 c) @ bytes_of (put_u64 l)"
  "suffix_bytes (ServerValue.MarkerSettlementBackpressure (MarkerSettlementBackpressure.Detach c l)) =
    bytes_of (put_u64 c) @ bytes_of (put_u64 l)"
  "suffix_bytes (ServerValue.EnrollmentSettlementBackpressure v15) = bytes_of (put_u64 (esb_conversation_id v15))"
  by (simp_all add: suffix_bytes_def Let_def put_simps put_eqs u64_from_len_def)

definition origin_matches :: "ServerDiscriminant \<Rightarrow> ClientDiscriminant option \<Rightarrow> bool" where
  "origin_matches D origin \<longleftrightarrow>
    (if carries_origin D then (case origin of None \<Rightarrow> False | Some r \<Rightarrow> origin_is_valid D r) else origin = None)"

end
