(* ===== verification/Server_Roundtrip.thy ===== *)
theory Server_Roundtrip
  imports Server_Fields
begin

text \<open>
  The whole-body theorem of the server-value codec: every arm of \<open>decode_server_suffix\<close> recognises exactly
  the bytes its arm of \<open>encode_server_suffix\<close> writes (\<open>parses_suffix\<close>), the route of a value is always
  admitted by \<open>origin_is_valid\<close> (\<open>originating_request_matches\<close>), and therefore the two entry points are
  inverse to each other.
\<close>

section \<open>Arms of the suffix decoder\<close>

lemma single_reasons:
  "AckGapReason_wire_value a = 1" "AckRegressionReason_wire_value b = 1"
  by (cases a; simp) (cases b; simp)

lemma dimension_tag_iff: "ResourceDimension_from t = d \<longleftrightarrow> t = ResourceDimensionTag_from d"
  using resource_dimension_from_iff [of d t] by auto

lemma AckGap_new_Some_iff:
  "AckGap_new r c = Some v \<longleftrightarrow> pae_through_seq r > c \<and> v = \<lparr>ag_request = r, ag_current_cursor = c\<rparr>"
  by (auto simp: AckGap_new_def)

lemma AckRegression_new_Some_iff:
  "AckRegression_new r c = Some v \<longleftrightarrow> pae_through_seq r < c \<and> v = \<lparr>ar_request = r, ar_current_cursor = c\<rparr>"
  by (auto simp: AckRegression_new_def)

lemma parses_required_origin [parse_intros]:
  "parses (required_origin origin) (\<lambda>x bs. origin = Some x \<and> bs = [])"
  unfolding required_origin_def by (rule parse_intros)

lemma record_eqs:
  "v0 = \<lparr>ptr_reason = a0\<rparr> \<longleftrightarrow>
    a0 = ptr_reason v0"
  "v1 = \<lparr>pu_request = a1\<rparr> \<longleftrightarrow>
    a1 = pu_request v1"
  "v2 = \<lparr>nb_request = a2\<rparr> \<longleftrightarrow>
    a2 = nb_request v2"
  "v3 = \<lparr>ek_conversation_id = a3, ek_token = b3, ek_participant_id = c3, ek_current_generation = d3\<rparr> \<longleftrightarrow>
    a3 = ek_conversation_id v3 \<and> b3 = ek_token v3 \<and> c3 = ek_participant_id v3 \<and> d3 = ek_current_generation v3"
  "v4 = \<lparr>cse_request = a4, cse_sequence_budget = b4\<rparr> \<longleftrightarrow>
    a4 = cse_request v4 \<and> b4 = cse_sequence_budget v4"
  "v5 = \<lparr>sur_conversation_id = a5, sur_token = b5, sur_participant_id = c5, sur_presented_generation = d5, sur_presented_marker_delivery_seq = e5, sur_current_generation = f5\<rparr> \<longleftrightarrow>
    a5 = sur_conversation_id v5 \<and> b5 = sur_token v5 \<and> c5 = sur_participant_id v5 \<and> d5 = sur_presented_generation v5 \<and> e5 = sur_presented_marker_delivery_seq v5 \<and> f5 = sur_current_generation v5"
  "v6 = \<lparr>mnd_request = a6, mnd_reason = b6, mnd_expected_marker_delivery_seq = c6\<rparr> \<longleftrightarrow>
    a6 = mnd_request v6 \<and> b6 = mnd_reason v6 \<and> c6 = mnd_expected_marker_delivery_seq v6"
  "v7 = \<lparr>dip_conversation_id = a7, dip_participant_id = b7, dip_presented_token = c7, dip_presented_generation = d7, dip_committed_binding_epoch = e7\<rparr> \<longleftrightarrow>
    a7 = dip_conversation_id v7 \<and> b7 = dip_participant_id v7 \<and> c7 = dip_presented_token v7 \<and> d7 = dip_presented_generation v7 \<and> e7 = dip_committed_binding_epoch v7"
  "v8 = \<lparr>ac_request = a8\<rparr> \<longleftrightarrow>
    a8 = ac_request v8"
  "v9 = \<lparr>ag_request = a9, ag_current_cursor = b9\<rparr> \<longleftrightarrow>
    a9 = ag_request v9 \<and> b9 = ag_current_cursor v9"
  "v10 = \<lparr>ar_request = a10, ar_current_cursor = b10\<rparr> \<longleftrightarrow>
    a10 = ar_request v10 \<and> b10 = ar_current_cursor v10"
  "v11 = \<lparr>mac_request = a11\<rparr> \<longleftrightarrow>
    a11 = mac_request v11"
  "v12 = \<lparr>rc_request = a12, rc_delivery_seq = b12\<rparr> \<longleftrightarrow>
    a12 = rc_request v12 \<and> b12 = rc_delivery_seq v12"
  "v13 = \<lparr>rtl_request = a13, rtl_dimension = b13, rtl_encoded_record_charge = c13, rtl_max_ordinary_record_charge = d13\<rparr> \<longleftrightarrow>
    a13 = rtl_request v13 \<and> b13 = rtl_dimension v13 \<and> c13 = rtl_encoded_record_charge v13 \<and> d13 = rtl_max_ordinary_record_charge v13"
  "v14 = \<lparr>esb_conversation_id = a14\<rparr> \<longleftrightarrow>
    a14 = esb_conversation_id v14"
  subgoal by (cases v0) auto
  subgoal by (cases v1) auto
  subgoal by (cases v2) auto
  subgoal by (cases v3) auto
  subgoal by (cases v4) auto
  subgoal by (cases v5) auto
  subgoal by (cases v6) auto
  subgoal by (cases v7) auto
  subgoal by (cases v8) auto
  subgoal by (cases v9) auto
  subgoal by (cases v10) auto
  subgoal by (cases v11) auto
  subgoal by (cases v12) auto
  subgoal by (cases v13) auto
  subgoal by (cases v14) auto
  done

declare originating_request.simps(5,7,8,12,13,18-21,26,27,33) [simp del] routed_origins [simp]

lemma parses_case_origin [parse_intros]:
  assumes "v = ClientDiscriminant.EnrollmentRequest \<Longrightarrow> parses t0 R0"
    and "v = ClientDiscriminant.CredentialAttachRequest \<Longrightarrow> parses t1 R1"
    and "v = ClientDiscriminant.DetachRequest \<Longrightarrow> parses t2 R2"
    and "v = ClientDiscriminant.ParticipantAck \<Longrightarrow> parses t3 R3"
    and "v = ClientDiscriminant.LeaveRequest \<Longrightarrow> parses t4 R4"
    and "v = ClientDiscriminant.MarkerAck \<Longrightarrow> parses t5 R5"
    and "v = ClientDiscriminant.RecordAdmission \<Longrightarrow> parses t6 R6"
    and "v = ClientDiscriminant.ObserverRecoveryHandshake \<Longrightarrow> parses t7 R7"
  shows "parses (case v of ClientDiscriminant.EnrollmentRequest \<Rightarrow> t0
      | ClientDiscriminant.CredentialAttachRequest \<Rightarrow> t1
      | ClientDiscriminant.DetachRequest \<Rightarrow> t2
      | ClientDiscriminant.ParticipantAck \<Rightarrow> t3
      | ClientDiscriminant.LeaveRequest \<Rightarrow> t4
      | ClientDiscriminant.MarkerAck \<Rightarrow> t5
      | ClientDiscriminant.RecordAdmission \<Rightarrow> t6
      | ClientDiscriminant.ObserverRecoveryHandshake \<Rightarrow> t7)
    (\<lambda>x bs. case v of ClientDiscriminant.EnrollmentRequest \<Rightarrow> R0 x bs
      | ClientDiscriminant.CredentialAttachRequest \<Rightarrow> R1 x bs
      | ClientDiscriminant.DetachRequest \<Rightarrow> R2 x bs
      | ClientDiscriminant.ParticipantAck \<Rightarrow> R3 x bs
      | ClientDiscriminant.LeaveRequest \<Rightarrow> R4 x bs
      | ClientDiscriminant.MarkerAck \<Rightarrow> R5 x bs
      | ClientDiscriminant.RecordAdmission \<Rightarrow> R6 x bs
      | ClientDiscriminant.ObserverRecoveryHandshake \<Rightarrow> R7 x bs)"
  using assms by (cases v) simp_all

lemma parses_suffix:
  assumes "origin_matches D origin"
  shows "parses (decode_server_suffix D origin) (\<lambda>v bs. bs = suffix_bytes v \<and> server_value_ok v \<and>
    ServerValue_discriminant v = D \<and> originating_request v = origin)"
  by (insert assms, cases D; simp only: decode_server_suffix.simps, rule parses_cong, (rule parse_intros)+, case_tac x,
    auto simp: origin_matches_def carries_origin_def routed_suffixes inline_suffixes record_eqs ack_no_op_suffix
      single_reasons AckGap_new_Some_iff AckRegression_new_Some_iff dimension_tag_iff split: option.splits
      ConnectionConversationCapacityExceeded.splits MarkerSettlementBackpressure.splits ClientDiscriminant.splits)

section \<open>Whole bodies\<close>

lemma parses_thenTake_range:
  assumes t: "parses t R" and range: "\<And>d x d'. t d = Ok (x, d') \<Longrightarrow> P x" and f: "\<And>x. P x \<Longrightarrow> parses (f x) (S x)"
  shows "parses (thenTake t f) (\<lambda>y bs. \<exists>x bs1 bs2. bs = bs1 @ bs2 \<and> R x bs1 \<and> P x \<and> S x y bs2)"
proof -
  have "thenTake t f = thenTake t (\<lambda>x. if P x then f x else raise InvalidValue)"
    using range by (auto simp: thenTake_def andThen_def fun_eq_iff split: sum.split)
  moreover have "parses (thenTake t (\<lambda>x. if P x then f x else raise InvalidValue))
    (\<lambda>y bs. \<exists>x bs1 bs2. bs = bs1 @ bs2 \<and> R x bs1 \<and> P x \<and> S x y bs2)"
    by (rule parses_cong, rule parses_thenTake, rule t, rule parses_if, erule f, rule parses_raise) auto
  ultimately show ?thesis by simp
qed

lemma Decoder_new_at: "Decoder_new body = dec_at [] body False"
  by (simp add: Decoder_new_def dec_at_def)

lemma Decoder_finish_at: "Decoder_finish (dec_at pre rest flag) = Ok () \<longleftrightarrow> rest = [] \<and> \<not> flag"
  by (simp add: Decoder_finish_def dec_at_def d_remaining_def)

lemma parses_whole:
  assumes "parses t R" and "length body \<le> USIZE_MAX"
  shows "(\<exists>d. t (Decoder_new body) = Ok (x, d) \<and> Decoder_finish d = Ok ()) \<longleftrightarrow> R x body"
proof
  assume "\<exists>d. t (Decoder_new body) = Ok (x, d) \<and> Decoder_finish d = Ok ()"
  then obtain d where "t (dec_at [] body False) = Ok (x, d)" and fin: "Decoder_finish d = Ok ()"
    by (auto simp: Decoder_new_at)
  from parses_soundE [OF assms(1) this(1)] obtain bs rest flag where
    "body = bs @ rest" "d = dec_at ([] @ bs) rest flag" "flag \<or> R x bs" by blast
  with fin show "R x body" by (simp add: Decoder_finish_at)
next
  assume "R x body"
  from parses_complete [OF assms(1) this, of "[]" "[]"] assms(2)
  show "\<exists>d. t (Decoder_new body) = Ok (x, d) \<and> Decoder_finish d = Ok ()"
    by (auto simp: Decoder_new_at Decoder_finish_at)
qed

definition origin_bytes :: "ClientDiscriminant option \<Rightarrow> u8 list" where
  "origin_bytes origin =
    (case origin of None \<Rightarrow> [] | Some r \<Rightarrow> bytes_of (put_u16 (ClientDiscriminant_wire_value r)))"

lemma parses_origin: "parses (take_origin D) (\<lambda>origin bs. bs = origin_bytes origin \<and> origin_matches D origin)"
  unfolding take_origin_def
  by (rule parses_cong, (rule parse_intros)+, case_tac x) (auto simp: origin_bytes_def origin_matches_def)

lemma take_origin_matches: "take_origin D d = Ok (origin, d') \<Longrightarrow> origin_matches D origin"
  by (auto simp: take_origin_def origin_matches_def thenTake_def result_simps give_def raise_def split: if_splits)

lemma origin_ranges:
  "ResponseEnvelope_originating_request e \<noteq> ClientDiscriminant.ObserverRecoveryHandshake"
  "participant_reference_origin p \<notin> {ClientDiscriminant.EnrollmentRequest, ClientDiscriminant.ObserverRecoveryHandshake}"
  "binding_required_origin b \<notin> {ClientDiscriminant.EnrollmentRequest, ClientDiscriminant.CredentialAttachRequest,
    ClientDiscriminant.ObserverRecoveryHandshake}"
  "stale_authority_origin s \<notin> {ClientDiscriminant.EnrollmentRequest, ClientDiscriminant.ObserverRecoveryHandshake}"
  "marker_proof_origin m \<in> {ClientDiscriminant.CredentialAttachRequest, ClientDiscriminant.MarkerAck}"
  subgoal by (cases e) simp_all
  subgoal by (cases p) simp_all
  subgoal by (cases b) simp_all
  subgoal by (cases s) (simp_all split: CommonStaleAuthorityEnvelope.split)
  subgoal by (cases m) simp_all
  done

lemma originating_request_matches: "origin_matches (ServerValue_discriminant v) (originating_request v)"
  using origin_ranges
  by (cases v) (simp_all add: origin_matches_def carries_origin_def originating_request.simps del: routed_origins
    split: AttemptTokenBodyConflict.split ConnectionConversationCapacityExceeded.split
      ConnectionConversationBindingOccupied.split OrderAllocatingEnvelope.split Retired.split
      ClosureCheckedEnvelope.split ReceiptExpired.split ReceiptCapacityExceeded.split ObserverBackpressure.split
      SequenceAllocatingEnvelope.split ReceiptReplay.split AckNoOp.split MarkerSettlementBackpressure.split)

definition server_body :: "ServerValue \<Rightarrow> u8 list" where
  "server_body v = origin_bytes (originating_request v) @ suffix_bytes v"

lemma parses_server_body:
  "parses (thenTake (take_origin D) (decode_server_suffix D))
    (\<lambda>v bs. bs = server_body v \<and> server_value_ok v \<and> ServerValue_discriminant v = D)"
  by (rule parses_cong, rule parses_thenTake_range [where P = "origin_matches D"], rule parses_origin,
    erule take_origin_matches, erule parses_suffix)
    (use originating_request_matches in \<open>auto simp: server_body_def\<close>)

lemma encode_server_value_body_eq:
  assumes "server_value_ok v"
  shows "encode_server_value_body v version =
    (if version = V1 then Ok (ServerValue_discriminant v, server_body v)
     else Err (UnsupportedVersionError version V1))"
  using originating_request_matches [of v] encode_server_suffix_eq [OF assms]
  by (auto simp: encode_server_value_body_def require_v1_def origin_matches_def server_body_def origin_bytes_def
    u16_field.put_appends split: if_splits option.splits)

lemma decode_server_value_body_iff:
  assumes "length body \<le> USIZE_MAX"
  shows "decode_server_value_body D version body = Ok (v, version') \<longleftrightarrow>
    version = V1 \<and> version' = V1 \<and> server_value_ok v \<and> ServerValue_discriminant v = D \<and> body = server_body v"
proof (cases "version = V1")
  case True
  then have "decode_server_value_body D version body = Ok (v, version') \<longleftrightarrow>
    version' = V1 \<and> (\<exists>d. thenTake (take_origin D) (decode_server_suffix D) (Decoder_new body) = Ok (v, d)
      \<and> Decoder_finish d = Ok ())"
    by (auto simp: decode_server_value_body_def require_v1_def thenTake_def result_simps)
  then show ?thesis using True parses_whole [OF parses_server_body assms] by auto
qed (simp add: decode_server_value_body_def require_v1_def)

section \<open>Properties\<close>

text \<open>C11: the body decoder accepts a byte string exactly when it is the encoding of a well-formed server
  value under the same discriminant and under protocol version 1: \<open>decode_server_value_body\<close> and
  \<open>encode_server_value_body\<close> are inverse to each other and every accepted body is canonical.\<close>

theorem server_body_exact:
  assumes "length body \<le> USIZE_MAX"
  shows "decode_server_value_body D version body = Ok (v, version') \<longleftrightarrow>
    version = V1 \<and> version' = V1 \<and> server_value_ok v \<and> encode_server_value_body v V1 = Ok (D, body)"
  using encode_server_value_body_eq [of v V1]
  by (cases "server_value_ok v") (auto simp: decode_server_value_body_iff [OF assms])

theorem server_body_exact_witness:
  "let v = ServerValue.AckGap \<lparr>ag_request = \<lparr>pae_conversation_id = 1, pae_participant_id = 2,
       pae_capability_generation = Generation 3, pae_through_seq = 9\<rparr>, ag_current_cursor = 4\<rparr>;
     body = [0, 4] @ be_bytes 8 1 @ be_bytes 8 2 @ be_bytes 8 3 @ be_bytes 8 9 @ be_bytes 8 4 @ [0, 1] in
   length body = 44 \<and> decode_server_value_body ServerDiscriminant.AckGap V1 body = Ok (v, V1)"
  unfolding Let_def
  by (subst server_body_exact)
    (simp_all add: encode_server_value_body_def require_v1_def carries_origin_def put_u16_def put_u64_def
      put_generation_def put_participant_ack_def participant_ack_ok_def generation_ok_def be_bytes_numeral)

end
