(* ===== verification/Participant_Codec.thy ===== *)
theory Participant_Codec
  imports Server_Roundtrip
begin

text \<open>
  The complete-frame codec of the participant protocol, \<open>liminal-protocol/src/wire/codec.rs\<close>: the two
  sinks a frame is written to (a length counter and a bounded output buffer), the encoders of client
  requests and server pushes over an arbitrary sink, the frame header, \<open>encode\<close>, \<open>decode\<close>, and the
  inbound gate that applies the size limit, authentication and capability checks. The \<open>Reader\<close> of this
  file and the \<open>Decoder\<close> of \<open>server_codec.rs\<close> have the same fields and the same primitive takers, so the
  takers of \<open>Wire_Decoder\<close> serve both; \<open>take_bytes\<close>, \<open>require_fixed_list\<close> and \<open>Reader_finish\<close> are the
  \<open>Reader\<close>'s own.
\<close>

section \<open>Constants and contexts\<close>

definition PARTICIPANT_FRAME_TYPE :: u8 where "PARTICIPANT_FRAME_TYPE = 0x1A"

definition GENERIC_HEADER_LEN :: nat where "GENERIC_HEADER_LEN = 10"

definition PARTICIPANT_PREFIX_LEN :: nat where "PARTICIPANT_PREFIX_LEN = 6"

definition FRAME_MAX :: u64 where "FRAME_MAX = 4294967305"

definition PRECAP_PARTICIPANT_FRAME_MAX :: u64 where "PRECAP_PARTICIPANT_FRAME_MAX = 1048576"

definition MIN_PARTICIPANT_FRAME_MAX :: u64 where "MIN_PARTICIPANT_FRAME_MAX = 16"

datatype (plugins only: code size) ReceiverDirection = Server | Client

datatype (plugins only: code size) ValidatedFrameLimit = ValidatedFrameLimit (limit_get: u64)

definition ValidatedFrameLimit_new :: "u64 \<Rightarrow> (CodecError, ValidatedFrameLimit) result" where
  "ValidatedFrameLimit_new max_frame_bytes =
    (if max_frame_bytes < MIN_PARTICIPANT_FRAME_MAX \<or> max_frame_bytes > FRAME_MAX
     then Err (InvalidFrameLimit max_frame_bytes)
     else Ok (ValidatedFrameLimit max_frame_bytes))"

datatype (plugins only: code size) AuthenticationState = Unauthenticated | Authenticated

record NegotiatedParticipantCapability =
  npc_protocol_version :: ProtocolVersion
  npc_max_frame_bytes :: ValidatedFrameLimit

definition capability_v1 :: "ValidatedFrameLimit \<Rightarrow> NegotiatedParticipantCapability" where
  "capability_v1 max_frame_bytes = \<lparr>npc_protocol_version = V1, npc_max_frame_bytes = max_frame_bytes\<rparr>"

datatype (plugins only: code size) ParticipantCapabilityState = Missing | Negotiated NegotiatedParticipantCapability

record InboundGateContext =
  igc_receiver :: ReceiverDirection
  igc_authentication :: AuthenticationState
  igc_participant_capability :: ParticipantCapabilityState

datatype (plugins only: code size) ParticipantFrame =
    ClientRequestFrame ClientRequest
  | ServerValueFrame ServerValue
  | ServerPushFrame ServerPush

datatype (plugins only: code size) InboundGateError =
    GateNotParticipantFrame u8
  | ParticipantRejected ParticipantTransportRejected

section \<open>Sinks\<close>

text \<open>A sink is its \<open>put\<close> method; the other methods of the trait are written over it.\<close>

type_synonym 's put = "u8 list \<Rightarrow> 's \<Rightarrow> (CodecError, 's) result"

definition sink_u8 :: "'s put \<Rightarrow> u8 \<Rightarrow> 's \<Rightarrow> (CodecError, 's) result" where
  "sink_u8 put value = put [value]"

definition sink_u16 :: "'s put \<Rightarrow> u16 \<Rightarrow> 's \<Rightarrow> (CodecError, 's) result" where
  "sink_u16 put value = put (be_bytes 2 (unat value))"

definition sink_u32 :: "'s put \<Rightarrow> u32 \<Rightarrow> 's \<Rightarrow> (CodecError, 's) result" where
  "sink_u32 put value = put (be_bytes 4 (unat value))"

definition sink_u64 :: "'s put \<Rightarrow> u64 \<Rightarrow> 's \<Rightarrow> (CodecError, 's) result" where
  "sink_u64 put value = put (be_bytes 8 (unat value))"

definition sink_fixed :: "'s put \<Rightarrow> u8 list \<Rightarrow> 's \<Rightarrow> (CodecError, 's) result" where
  "sink_fixed put value = put value"

definition sink_bytes :: "'s put \<Rightarrow> u8 list \<Rightarrow> 's \<Rightarrow> (CodecError, 's) result" where
  "sink_bytes put value s =
    andThen (u32_from_len (length value)) (\<lambda>len.
    andThen (sink_u32 put len s) (\<lambda>s.
    put value s))"

text \<open>\<open>SizeSink\<close>: its state is the length counted so far.\<close>

definition SizeSink_put :: "nat put" where
  "SizeSink_put bytes len = ok_or (checked_add_usize len (length bytes)) LengthOverflow"

record Writer =
  w_output :: "u8 list"
  w_position :: nat

definition Writer_new :: "u8 list \<Rightarrow> Writer" where
  "Writer_new output = \<lparr>w_output = output, w_position = 0\<rparr>"

definition Writer_put :: "Writer put" where
  "Writer_put bytes w =
    andThen (ok_or (checked_add_usize (w_position w) (length bytes)) LengthOverflow) (\<lambda>end_position.
    if end_position \<le> length (w_output w)
    then Ok \<lparr>w_output = take (w_position w) (w_output w) @ bytes @ drop end_position (w_output w),
             w_position = end_position\<rparr>
    else Err (OutputTooSmall end_position (length (w_output w))))"

section \<open>Encoding\<close>

definition sink_generation :: "'s put \<Rightarrow> Generation \<Rightarrow> 's \<Rightarrow> (CodecError, 's) result" where
  "sink_generation put generation = sink_u64 put (generation_get generation)"

definition sink_connection_incarnation :: "'s put \<Rightarrow> ConnectionIncarnation \<Rightarrow> 's \<Rightarrow> (CodecError, 's) result" where
  "sink_connection_incarnation put value s =
    andThen (sink_u64 put (ci_server_incarnation value) s) (\<lambda>s.
    sink_u64 put (ci_connection_ordinal value) s)"

definition sink_binding_epoch :: "'s put \<Rightarrow> BindingEpoch \<Rightarrow> 's \<Rightarrow> (CodecError, 's) result" where
  "sink_binding_epoch put value s =
    andThen (sink_connection_incarnation put (be_connection_incarnation value) s) (\<lambda>s.
    sink_generation put (be_capability_generation value) s)"

definition sink_option_u64 :: "'s put \<Rightarrow> u64 option \<Rightarrow> 's \<Rightarrow> (CodecError, 's) result" where
  "sink_option_u64 put value s =
    (case value of
       None \<Rightarrow> sink_u8 put 0 s
     | Some value \<Rightarrow> andThen (sink_u8 put 1 s) (\<lambda>s. sink_u64 put value s))"

definition sink_option_binding_epoch :: "'s put \<Rightarrow> BindingEpoch option \<Rightarrow> 's \<Rightarrow> (CodecError, 's) result" where
  "sink_option_binding_epoch put value s =
    (case value of
       None \<Rightarrow> sink_u8 put 0 s
     | Some value \<Rightarrow> andThen (sink_u8 put 1 s) (\<lambda>s. sink_binding_epoch put value s))"

fun sink_refusals :: "'s put \<Rightarrow> ObserverRefusal list \<Rightarrow> 's \<Rightarrow> (CodecError, 's) result" where
  "sink_refusals put [] s = Ok s"
| "sink_refusals put (refusal # refusals) s =
    andThen (sink_u64 put (or_conversation_id refusal) s) (\<lambda>s.
    andThen (sink_u64 put (or_refused_epoch refusal) s) (\<lambda>s.
    sink_refusals put refusals s))"

fun encode_client_request :: "'s put \<Rightarrow> ClientRequest \<Rightarrow> 's \<Rightarrow> (CodecError, 's) result" where
  "encode_client_request put (ClientRequest.Enrollment value) s =
    andThen (sink_u64 put (er_conversation_id value) s) (\<lambda>s.
    sink_fixed put (er_enrollment_token value) s)"
| "encode_client_request put (ClientRequest.CredentialAttach value) s =
    andThen (sink_u64 put (car_conversation_id value) s) (\<lambda>s.
    andThen (sink_u64 put (car_participant_id value) s) (\<lambda>s.
    andThen (sink_generation put (car_capability_generation value) s) (\<lambda>s.
    andThen (sink_fixed put (car_attach_secret value) s) (\<lambda>s.
    andThen (sink_fixed put (car_attach_attempt_token value) s) (\<lambda>s.
    sink_option_u64 put (car_accept_marker_delivery_seq value) s)))))"
| "encode_client_request put (ClientRequest.Detach value) s =
    andThen (sink_u64 put (dr_conversation_id value) s) (\<lambda>s.
    andThen (sink_u64 put (dr_participant_id value) s) (\<lambda>s.
    andThen (sink_generation put (dr_capability_generation value) s) (\<lambda>s.
    sink_fixed put (dr_detach_attempt_token value) s)))"
| "encode_client_request put (ClientRequest.ParticipantAck value) s =
    andThen (sink_u64 put (pa_conversation_id value) s) (\<lambda>s.
    andThen (sink_u64 put (pa_participant_id value) s) (\<lambda>s.
    andThen (sink_generation put (pa_capability_generation value) s) (\<lambda>s.
    sink_u64 put (pa_through_seq value) s)))"
| "encode_client_request put (ClientRequest.Leave value) s =
    andThen (sink_u64 put (lr_conversation_id value) s) (\<lambda>s.
    andThen (sink_u64 put (lr_participant_id value) s) (\<lambda>s.
    andThen (sink_generation put (lr_capability_generation value) s) (\<lambda>s.
    andThen (sink_fixed put (lr_attach_secret value) s) (\<lambda>s.
    sink_fixed put (lr_leave_attempt_token value) s))))"
| "encode_client_request put (ClientRequest.MarkerAck value) s =
    andThen (sink_u64 put (ma_conversation_id value) s) (\<lambda>s.
    andThen (sink_u64 put (ma_participant_id value) s) (\<lambda>s.
    andThen (sink_generation put (ma_capability_generation value) s) (\<lambda>s.
    sink_u64 put (ma_marker_delivery_seq value) s)))"
| "encode_client_request put (ClientRequest.RecordAdmission value) s =
    andThen (sink_u64 put (ra_conversation_id value) s) (\<lambda>s.
    andThen (sink_u64 put (ra_participant_id value) s) (\<lambda>s.
    andThen (sink_generation put (ra_capability_generation value) s) (\<lambda>s.
    andThen (sink_fixed put (ra_record_admission_attempt_token value) s) (\<lambda>s.
    sink_bytes put (ra_payload value) s))))"
| "encode_client_request put (ClientRequest.ObserverRecovery value) s =
    andThen (u64_from_len (length (orh_observer_refusals value))) (\<lambda>count.
    andThen (sink_u64 put count s) (\<lambda>s.
    sink_refusals put (orh_observer_refusals value) s))"

definition encode_participant_delivery :: "'s put \<Rightarrow> ParticipantDelivery \<Rightarrow> 's \<Rightarrow> (CodecError, 's) result" where
  "encode_participant_delivery put value s =
    andThen (sink_u64 put (pd_conversation_id value) s) (\<lambda>s.
    andThen (sink_u64 put (pd_delivery_seq value) s) (\<lambda>s.
    andThen (sink_u16 put (RecordKind_wire_value (record_kind (pd_record value))) s) (\<lambda>s.
    case pd_record value of
      ParticipantRecord.OrdinaryRecord sender_participant_id payload \<Rightarrow>
        andThen (sink_u64 put sender_participant_id s) (\<lambda>s.
        sink_bytes put payload s)
    | ParticipantRecord.Attached affected_participant_id binding_epoch \<Rightarrow>
        andThen (sink_u64 put affected_participant_id s) (\<lambda>s.
        sink_binding_epoch put binding_epoch s)
    | ParticipantRecord.Detached affected_participant_id binding_epoch cause \<Rightarrow>
        andThen (sink_u64 put affected_participant_id s) (\<lambda>s.
        andThen (sink_binding_epoch put binding_epoch s) (\<lambda>s.
        sink_u16 put (CloseCauseTag_wire_value (CloseCause_tag (DetachedCause_close_cause cause))) s))
    | ParticipantRecord.Died affected_participant_id binding_epoch cause \<Rightarrow>
        andThen (sink_u64 put affected_participant_id s) (\<lambda>s.
        andThen (sink_binding_epoch put binding_epoch s) (\<lambda>s.
        andThen (sink_u16 put (CloseCauseTag_wire_value (CloseCause_tag (DiedCause_close_cause cause))) s) (\<lambda>s.
        case cause of
          DiedCause.UncleanServerRestart prior_server_incarnation \<Rightarrow> sink_u64 put prior_server_incarnation s
        | _ \<Rightarrow> Ok s)))
    | ParticipantRecord.Left affected_participant_id ended_binding_epoch \<Rightarrow>
        andThen (sink_u64 put affected_participant_id s) (\<lambda>s.
        sink_option_binding_epoch put ended_binding_epoch s)
    | ParticipantRecord.HistoryCompacted affected_participant_id abandoned_after abandoned_through
          physical_floor_at_decision \<Rightarrow>
        andThen (sink_u64 put affected_participant_id s) (\<lambda>s.
        andThen (sink_u64 put abandoned_after s) (\<lambda>s.
        andThen (sink_u64 put abandoned_through s) (\<lambda>s.
        sink_u64 put physical_floor_at_decision s))))))"

fun encode_server_push :: "'s put \<Rightarrow> ServerPush \<Rightarrow> 's \<Rightarrow> (CodecError, 's) result" where
  "encode_server_push put (ServerPush.ObserverProgressed conversation_id refused_epoch observer_progress) s =
    andThen (sink_u64 put conversation_id s) (\<lambda>s.
    andThen (sink_u64 put refused_epoch s) (\<lambda>s.
    sink_u64 put observer_progress s))"
| "encode_server_push put (ServerPush.ParticipantDelivery value) s = encode_participant_delivery put value s"
| "encode_server_push put (ServerPush.MarkerSettled conversation_id refused_epoch) s =
    andThen (sink_u64 put conversation_id s) (\<lambda>s.
    sink_u64 put refused_epoch s)"

fun encode_body :: "'s put \<Rightarrow> ParticipantFrame \<Rightarrow> 's \<Rightarrow> (CodecError, 's) result" where
  "encode_body put (ClientRequestFrame value) s = encode_client_request put value s"
| "encode_body put (ServerPushFrame value) s = encode_server_push put value s"
| "encode_body put (ServerValueFrame value) s =
    andThen (encode_server_value_body value V1) (\<lambda>(_, body). put body s)"

fun frame_discriminant :: "ParticipantFrame \<Rightarrow> u16" where
  "frame_discriminant (ClientRequestFrame value) = ClientDiscriminant_wire_value (ClientRequest_discriminant value)"
| "frame_discriminant (ServerValueFrame value) = ServerDiscriminant_wire_value (ServerValue_discriminant value)"
| "frame_discriminant (ServerPushFrame value) = PushDiscriminant_wire_value (ServerPush_discriminant value)"

definition encoded_len :: "ParticipantFrame \<Rightarrow> (CodecError, nat) result" where
  "encoded_len frame =
    andThen (encode_body SizeSink_put frame 0) (\<lambda>len.
    andThen (ok_or (checked_add_usize PARTICIPANT_PREFIX_LEN len) LengthOverflow) (\<lambda>payload.
    andThen (u32_from_len payload) (\<lambda>_.
    ok_or (checked_add_usize GENERIC_HEADER_LEN payload) LengthOverflow)))"

definition encode :: "ParticipantFrame \<Rightarrow> u8 list \<Rightarrow> (CodecError, nat \<times> u8 list) result" where
  "encode frame output =
    andThen (encoded_len frame) (\<lambda>required.
    if length output < required then Err (OutputTooSmall required (length output))
    else
      andThen (if GENERIC_HEADER_LEN \<le> required then Ok (required - GENERIC_HEADER_LEN) else Err LengthOverflow)
        (\<lambda>payload_len.
      andThen (u32_from_len payload_len) (\<lambda>payload_len.
      let discriminant = frame_discriminant frame; writer = Writer_new output in
      andThen (sink_u8 Writer_put PARTICIPANT_FRAME_TYPE writer) (\<lambda>writer.
      andThen (sink_u8 Writer_put 0 writer) (\<lambda>writer.
      andThen (sink_u32 Writer_put 0 writer) (\<lambda>writer.
      andThen (sink_u32 Writer_put payload_len writer) (\<lambda>writer.
      andThen (sink_u16 Writer_put (pv_major V1) writer) (\<lambda>writer.
      andThen (sink_u16 Writer_put (pv_minor V1) writer) (\<lambda>writer.
      andThen (sink_u16 Writer_put discriminant writer) (\<lambda>writer.
      andThen (encode_body Writer_put frame writer) (\<lambda>writer.
      Ok (required, w_output writer))))))))))))"

section \<open>Decoding\<close>

definition Reader_finish :: "Decoder \<Rightarrow> (CodecError, unit) result" where
  "Reader_finish d =
    (if d_position d \<noteq> length (d_input d) then Err (decode_error DecodeClass.CanonicalEncoding)
     else if d_invalid_field d then Err (decode_error DecodeClass.InvalidField)
     else Ok ())"

definition take_bytes :: "u8 list taker" where
  "take_bytes = thenTake take_u32 (\<lambda>len. take_slice (unat len))"

text \<open>\<open>require_fixed_list\<close> multiplies in \<open>u128\<close>, which cannot overflow for a \<open>u64\<close> count and a width of
  sixteen.\<close>

definition require_fixed_list :: "u64 \<Rightarrow> nat \<Rightarrow> unit taker" where
  "require_fixed_list count width d =
    (if unat count * width > d_remaining d then Err (decode_error DecodeClass.MissingRequiredField)
     else Ok ((), d))"

definition take_refusal :: "ObserverRefusal taker" where
  "take_refusal =
    thenTake take_u64 (\<lambda>conversation_id.
    thenTake take_u64 (\<lambda>refused_epoch.
    give \<lparr>or_conversation_id = conversation_id, or_refused_epoch = refused_epoch\<rparr>))"

fun take_client_request :: "ClientDiscriminant \<Rightarrow> ClientRequest taker" where
  "take_client_request ClientDiscriminant.EnrollmentRequest =
    thenTake take_u64 (\<lambda>conversation_id.
    thenTake (take_fixed TOKEN_LEN) (\<lambda>enrollment_token.
    give (ClientRequest.Enrollment
      \<lparr>er_conversation_id = conversation_id, er_enrollment_token = enrollment_token\<rparr>)))"
| "take_client_request ClientDiscriminant.CredentialAttachRequest =
    thenTake take_u64 (\<lambda>conversation_id.
    thenTake take_u64 (\<lambda>participant_id.
    thenTake take_generation (\<lambda>capability_generation.
    thenTake (take_fixed SECRET_LEN) (\<lambda>attach_secret.
    thenTake (take_fixed TOKEN_LEN) (\<lambda>attach_attempt_token.
    thenTake take_option_u64 (\<lambda>accept_marker_delivery_seq.
    give (ClientRequest.CredentialAttach \<lparr>car_conversation_id = conversation_id,
      car_participant_id = participant_id, car_capability_generation = capability_generation,
      car_attach_secret = attach_secret, car_attach_attempt_token = attach_attempt_token,
      car_accept_marker_delivery_seq = accept_marker_delivery_seq\<rparr>)))))))"
| "take_client_request ClientDiscriminant.DetachRequest =
    thenTake take_u64 (\<lambda>conversation_id.
    thenTake take_u64 (\<lambda>participant_id.
    thenTake take_generation (\<lambda>capability_generation.
    thenTake (take_fixed TOKEN_LEN) (\<lambda>detach_attempt_token.
    give (ClientRequest.Detach \<lparr>dr_conversation_id = conversation_id, dr_participant_id = participant_id,
      dr_capability_generation = capability_generation, dr_detach_attempt_token = detach_attempt_token\<rparr>)))))"
| "take_client_request ClientDiscriminant.ParticipantAck =
    thenTake take_u64 (\<lambda>conversation_id.
    thenTake take_u64 (\<lambda>participant_id.
    thenTake take_generation (\<lambda>capability_generation.
    thenTake take_u64 (\<lambda>through_seq.
    give (ClientRequest.ParticipantAck \<lparr>pa_conversation_id = conversation_id,
      pa_participant_id = participant_id, pa_capability_generation = capability_generation,
      pa_through_seq = through_seq\<rparr>)))))"
| "take_client_request ClientDiscriminant.LeaveRequest =
    thenTake take_u64 (\<lambda>conversation_id.
    thenTake take_u64 (\<lambda>participant_id.
    thenTake take_generation (\<lambda>capability_generation.
    thenTake (take_fixed SECRET_LEN) (\<lambda>attach_secret.
    thenTake (take_fixed TOKEN_LEN) (\<lambda>leave_attempt_token.
    give (ClientRequest.Leave \<lparr>lr_conversation_id = conversation_id, lr_participant_id = participant_id,
      lr_capability_generation = capability_generation, lr_attach_secret = attach_secret,
      lr_leave_attempt_token = leave_attempt_token\<rparr>))))))"
| "take_client_request ClientDiscriminant.MarkerAck =
    thenTake take_u64 (\<lambda>conversation_id.
    thenTake take_u64 (\<lambda>participant_id.
    thenTake take_generation (\<lambda>capability_generation.
    thenTake take_u64 (\<lambda>marker_delivery_seq.
    give (ClientRequest.MarkerAck \<lparr>ma_conversation_id = conversation_id, ma_participant_id = participant_id,
      ma_capability_generation = capability_generation, ma_marker_delivery_seq = marker_delivery_seq\<rparr>)))))"
| "take_client_request ClientDiscriminant.RecordAdmission =
    thenTake take_u64 (\<lambda>conversation_id.
    thenTake take_u64 (\<lambda>participant_id.
    thenTake take_generation (\<lambda>capability_generation.
    thenTake (take_fixed TOKEN_LEN) (\<lambda>record_admission_attempt_token.
    thenTake take_bytes (\<lambda>payload.
    give (ClientRequest.RecordAdmission \<lparr>ra_conversation_id = conversation_id,
      ra_participant_id = participant_id, ra_capability_generation = capability_generation,
      ra_record_admission_attempt_token = record_admission_attempt_token, ra_payload = payload\<rparr>))))))"
| "take_client_request ClientDiscriminant.ObserverRecoveryHandshake =
    thenTake take_u64 (\<lambda>count.
    thenTake (require_fixed_list count 16) (\<lambda>_.
    thenTake (take_times (unat count) take_refusal) (\<lambda>observer_refusals.
    give (ClientRequest.ObserverRecovery \<lparr>orh_observer_refusals = observer_refusals\<rparr>))))"

definition decode_client_request :: "ClientDiscriminant \<Rightarrow> u8 list \<Rightarrow> (CodecError, ClientRequest) result" where
  "decode_client_request tag body =
    andThen (take_client_request tag (Decoder_new body)) (\<lambda>(value, reader).
    andThen (Reader_finish reader) (\<lambda>_.
    Ok value))"

definition decode_participant_record :: "RecordKind \<Rightarrow> ParticipantRecord taker" where
  "decode_participant_record kind =
    (case kind of
       RecordKind.OrdinaryRecord \<Rightarrow>
         thenTake take_u64 (\<lambda>sender_participant_id.
         thenTake take_bytes (\<lambda>payload.
         give (ParticipantRecord.OrdinaryRecord sender_participant_id payload)))
     | RecordKind.Attached \<Rightarrow>
         thenTake take_u64 (\<lambda>affected_participant_id.
         thenTake take_binding_epoch (\<lambda>binding_epoch.
         give (ParticipantRecord.Attached affected_participant_id binding_epoch)))
     | RecordKind.Detached \<Rightarrow>
         thenTake take_u64 (\<lambda>affected_participant_id.
         thenTake take_binding_epoch (\<lambda>binding_epoch.
         thenTake (take_tag CloseCauseTag_try_from) (\<lambda>tag.
         thenTake (case tag of
             CloseCauseTag.CleanDeregister \<Rightarrow> give DetachedCause.CleanDeregister
           | CloseCauseTag.Superseded \<Rightarrow> give DetachedCause.Superseded
           | CloseCauseTag.ServerShutdown \<Rightarrow> give DetachedCause.ServerShutdown
           | _ \<Rightarrow> invalid_field) (\<lambda>cause.
         give (ParticipantRecord.Detached affected_participant_id binding_epoch cause)))))
     | RecordKind.Died \<Rightarrow>
         thenTake take_u64 (\<lambda>affected_participant_id.
         thenTake take_binding_epoch (\<lambda>binding_epoch.
         thenTake (take_tag CloseCauseTag_try_from) (\<lambda>tag.
         thenTake (case tag of
             CloseCauseTag.ConnectionLost \<Rightarrow> give DiedCause.ConnectionLost
           | CloseCauseTag.ProcessKilled \<Rightarrow> give DiedCause.ProcessKilled
           | CloseCauseTag.ProtocolError \<Rightarrow> give DiedCause.ProtocolError
           | CloseCauseTag.UncleanServerRestart \<Rightarrow> take_map DiedCause.UncleanServerRestart take_u64
           | _ \<Rightarrow> invalid_field) (\<lambda>cause.
         give (ParticipantRecord.Died affected_participant_id binding_epoch cause)))))
     | RecordKind.Left \<Rightarrow>
         thenTake take_u64 (\<lambda>affected_participant_id.
         thenTake take_option_binding_epoch (\<lambda>ended_binding_epoch.
         give (ParticipantRecord.Left affected_participant_id ended_binding_epoch)))
     | RecordKind.HistoryCompacted \<Rightarrow>
         thenTake take_u64 (\<lambda>affected_participant_id.
         thenTake take_u64 (\<lambda>abandoned_after.
         thenTake take_u64 (\<lambda>abandoned_through.
         thenTake take_u64 (\<lambda>physical_floor_at_decision.
         give (ParticipantRecord.HistoryCompacted affected_participant_id abandoned_after abandoned_through
           physical_floor_at_decision))))))"

fun take_server_push :: "PushDiscriminant \<Rightarrow> ServerPush taker" where
  "take_server_push PushDiscriminant.ObserverProgressed =
    thenTake take_u64 (\<lambda>conversation_id.
    thenTake take_u64 (\<lambda>refused_epoch.
    thenTake take_u64 (\<lambda>observer_progress.
    give (ServerPush.ObserverProgressed conversation_id refused_epoch observer_progress))))"
| "take_server_push PushDiscriminant.ParticipantDelivery =
    thenTake take_u64 (\<lambda>conversation_id.
    thenTake take_u64 (\<lambda>delivery_seq.
    thenTake (take_tag RecordKind_try_from) (\<lambda>kind.
    thenTake (decode_participant_record kind) (\<lambda>record.
    give (ServerPush.ParticipantDelivery \<lparr>pd_conversation_id = conversation_id,
      pd_delivery_seq = delivery_seq, pd_record = record\<rparr>)))))"
| "take_server_push PushDiscriminant.MarkerSettled =
    thenTake take_u64 (\<lambda>conversation_id.
    thenTake take_u64 (\<lambda>refused_epoch.
    give (ServerPush.MarkerSettled conversation_id refused_epoch)))"

definition decode_server_push :: "PushDiscriminant \<Rightarrow> u8 list \<Rightarrow> (CodecError, ServerPush) result" where
  "decode_server_push tag body =
    andThen (take_server_push tag (Decoder_new body)) (\<lambda>(value, reader).
    andThen (Reader_finish reader) (\<lambda>_.
    Ok value))"

definition complete_frame_bytes :: "u32 \<Rightarrow> u64" where
  "complete_frame_bytes payload_length = 10 + ucast payload_length"

definition decode_payload :: "u8 list \<Rightarrow> ReceiverDirection \<Rightarrow> (CodecError, ParticipantFrame) result" where
  "decode_payload payload receiver =
    andThen (take_u16 (Decoder_new payload)) (\<lambda>(major, prefix).
    andThen (take_u16 prefix) (\<lambda>(minor, prefix).
    let version = \<lparr>pv_major = major, pv_minor = minor\<rparr> in
    if version \<noteq> V1 then Err (UnsupportedVersionError version V1)
    else
      andThen (take_u16 prefix) (\<lambda>(discriminant, prefix).
      let body = drop (d_position prefix) (d_input prefix) in
      case receiver of
        ReceiverDirection.Server \<Rightarrow>
          andThen (ok_or (ClientDiscriminant_try_from discriminant)
            (decode_error DecodeClass.UnknownDiscriminant)) (\<lambda>tag.
          andThen (decode_client_request tag body) (\<lambda>value. Ok (ClientRequestFrame value)))
      | ReceiverDirection.Client \<Rightarrow>
          (case PushDiscriminant_try_from discriminant of
             Some tag \<Rightarrow> andThen (decode_server_push tag body) (\<lambda>value. Ok (ServerPushFrame value))
           | None \<Rightarrow>
               (case ServerDiscriminant_try_from discriminant of
                  Some tag \<Rightarrow>
                    andThen (decode_server_value_body tag version body) (\<lambda>(value, _). Ok (ServerValueFrame value))
                | None \<Rightarrow> Err (decode_error DecodeClass.UnknownDiscriminant))))))"

definition decode :: "u8 list \<Rightarrow> ReceiverDirection \<Rightarrow> (CodecError, ParticipantFrame) result" where
  "decode input receiver =
    (if input \<noteq> [] \<and> hd input \<noteq> PARTICIPANT_FRAME_TYPE then Err (NotParticipantFrame (hd input))
     else if length input < GENERIC_HEADER_LEN then Err (decode_error DecodeClass.Framing)
     else
       andThen (take_u8 (Decoder_new input)) (\<lambda>(_, header).
       andThen (take_u8 header) (\<lambda>(flags, header).
       andThen (take_u32 header) (\<lambda>(stream_id, header).
       andThen (take_u32 header) (\<lambda>(payload_len, header).
       if flags \<noteq> 0 \<or> stream_id \<noteq> 0 \<or> payload_len < 6 then Err (decode_error DecodeClass.Framing)
       else
         let complete = unat (complete_frame_bytes payload_len) in
         if length input < complete then Err (decode_error DecodeClass.MissingRequiredField)
         else if length input > complete then Err (decode_error DecodeClass.CanonicalEncoding)
         else decode_payload (take (complete - GENERIC_HEADER_LEN) (drop GENERIC_HEADER_LEN input)) receiver)))))"

section \<open>The inbound gate\<close>

definition declared_complete_frame_bytes :: "u8 list \<Rightarrow> u64 option" where
  "declared_complete_frame_bytes input =
    (if length input < GENERIC_HEADER_LEN then None
     else Some (complete_frame_bytes (of_nat (be_value (take 4 (drop 6 input))))))"

definition gate_rejection :: "TransportRejectionReason \<Rightarrow> InboundGateError" where
  "gate_rejection reason = ParticipantRejected \<lparr>ptr_reason = reason\<rparr>"

fun codec_gate_error :: "CodecError \<Rightarrow> InboundGateError" where
  "codec_gate_error (NotParticipantFrame frame_type) = GateNotParticipantFrame frame_type"
| "codec_gate_error (Decode class) = gate_rejection (TransportRejectionReason.DecodeFailed class)"
| "codec_gate_error (UnsupportedVersionError presented supported) =
    gate_rejection (TransportRejectionReason.UnsupportedVersion presented supported)"
| "codec_gate_error (OutputTooSmall _ _) = gate_rejection (TransportRejectionReason.DecodeFailed DecodeClass.InvalidField)"
| "codec_gate_error LengthOverflow = gate_rejection (TransportRejectionReason.DecodeFailed DecodeClass.InvalidField)"
| "codec_gate_error InvalidValue = gate_rejection (TransportRejectionReason.DecodeFailed DecodeClass.InvalidField)"
| "codec_gate_error (InvalidFrameLimit _) = gate_rejection (TransportRejectionReason.DecodeFailed DecodeClass.InvalidField)"

definition map_err :: "('e \<Rightarrow> 'f) \<Rightarrow> ('e, 'a) result \<Rightarrow> ('f, 'a) result" where
  "map_err f r = (case r of Inl e \<Rightarrow> Inl (f e) | Inr x \<Rightarrow> Inr x)"

definition gate_limit :: "ParticipantCapabilityState \<Rightarrow> u64" where
  "gate_limit capability =
    (case capability of
       Missing \<Rightarrow> PRECAP_PARTICIPANT_FRAME_MAX
     | Negotiated capability \<Rightarrow> limit_get (npc_max_frame_bytes capability))"

definition gate_inbound :: "u8 list \<Rightarrow> InboundGateContext \<Rightarrow> (InboundGateError, ParticipantFrame) result" where
  "gate_inbound input context =
    (if input \<noteq> [] \<and> hd input \<noteq> PARTICIPANT_FRAME_TYPE then Err (GateNotParticipantFrame (hd input))
     else
       let max_frame_bytes = gate_limit (igc_participant_capability context) in
       andThen (case declared_complete_frame_bytes input of
           Some complete_bytes \<Rightarrow>
             if complete_bytes > max_frame_bytes
             then Err (gate_rejection (TransportRejectionReason.FrameTooLarge complete_bytes max_frame_bytes))
             else Ok ()
         | None \<Rightarrow> Ok ()) (\<lambda>_.
       andThen (map_err codec_gate_error (decode input (igc_receiver context))) (\<lambda>frame.
       if (case (frame, igc_receiver context) of
             (ServerValueFrame (ServerValue.ParticipantTransportRejected _), ReceiverDirection.Client) \<Rightarrow> True
           | _ \<Rightarrow> False)
       then Ok frame
       else if igc_authentication context = Unauthenticated
       then Err (gate_rejection TransportRejectionReason.AuthenticationFailed)
       else if igc_participant_capability context = Missing
       then Err (gate_rejection TransportRejectionReason.ParticipantCapabilityRequired)
       else Ok frame)))"

end
