(* ===== verification/Participant_Roundtrip.thy ===== *)
theory Participant_Roundtrip
  imports Participant_Codec
begin

text \<open>
  Correctness of the participant frame codec. The locale \<open>sink\<close> states what an encoder relies on in a
  \<open>Sink\<close>: writing two pieces is writing their concatenation; both sinks of the source are
  interpretations, so the counted length and the written bytes come from one lemma about
  \<open>encode_body\<close>. On the decoding side the request and push takers recognise exactly those bytes.
\<close>

section \<open>Reference encodings\<close>

definition len_bytes :: "u8 list \<Rightarrow> u8 list" where
  "len_bytes bs = bytes_of (put_u32 (of_nat (length bs))) @ bs"

definition refusal_bytes :: "ObserverRefusal \<Rightarrow> u8 list" where
  "refusal_bytes r = bytes_of (put_u64 (or_conversation_id r)) @ bytes_of (put_u64 (or_refused_epoch r))"

fun request_bytes :: "ClientRequest \<Rightarrow> u8 list" where
  "request_bytes (ClientRequest.Enrollment v) =
    bytes_of (put_u64 (er_conversation_id v)) @ er_enrollment_token v"
| "request_bytes (ClientRequest.CredentialAttach v) =
    bytes_of (put_u64 (car_conversation_id v)) @ bytes_of (put_u64 (car_participant_id v))
    @ bytes_of (put_generation (car_capability_generation v)) @ car_attach_secret v @ car_attach_attempt_token v
    @ bytes_of (put_option_u64 (car_accept_marker_delivery_seq v))"
| "request_bytes (ClientRequest.Detach v) =
    bytes_of (put_u64 (dr_conversation_id v)) @ bytes_of (put_u64 (dr_participant_id v))
    @ bytes_of (put_generation (dr_capability_generation v)) @ dr_detach_attempt_token v"
| "request_bytes (ClientRequest.ParticipantAck v) =
    bytes_of (put_u64 (pa_conversation_id v)) @ bytes_of (put_u64 (pa_participant_id v))
    @ bytes_of (put_generation (pa_capability_generation v)) @ bytes_of (put_u64 (pa_through_seq v))"
| "request_bytes (ClientRequest.Leave v) =
    bytes_of (put_u64 (lr_conversation_id v)) @ bytes_of (put_u64 (lr_participant_id v))
    @ bytes_of (put_generation (lr_capability_generation v)) @ lr_attach_secret v @ lr_leave_attempt_token v"
| "request_bytes (ClientRequest.MarkerAck v) =
    bytes_of (put_u64 (ma_conversation_id v)) @ bytes_of (put_u64 (ma_participant_id v))
    @ bytes_of (put_generation (ma_capability_generation v)) @ bytes_of (put_u64 (ma_marker_delivery_seq v))"
| "request_bytes (ClientRequest.RecordAdmission v) =
    bytes_of (put_u64 (ra_conversation_id v)) @ bytes_of (put_u64 (ra_participant_id v))
    @ bytes_of (put_generation (ra_capability_generation v)) @ ra_record_admission_attempt_token v
    @ len_bytes (ra_payload v)"
| "request_bytes (ClientRequest.ObserverRecovery v) =
    bytes_of (put_u64 (of_nat (length (orh_observer_refusals v))))
    @ concat (map refusal_bytes (orh_observer_refusals v))"

fun record_bytes :: "ParticipantRecord \<Rightarrow> u8 list" where
  "record_bytes (ParticipantRecord.OrdinaryRecord p bs) = bytes_of (put_u64 p) @ len_bytes bs"
| "record_bytes (ParticipantRecord.Attached p e) = bytes_of (put_u64 p) @ bytes_of (put_binding_epoch e)"
| "record_bytes (ParticipantRecord.Detached p e c) = bytes_of (put_u64 p) @ bytes_of (put_binding_epoch e)
    @ bytes_of (put_u16 (CloseCauseTag_wire_value (CloseCause_tag (DetachedCause_close_cause c))))"
| "record_bytes (ParticipantRecord.Died p e c) = bytes_of (put_u64 p) @ bytes_of (put_binding_epoch e)
    @ bytes_of (put_u16 (CloseCauseTag_wire_value (CloseCause_tag (DiedCause_close_cause c))))
    @ (case c of DiedCause.UncleanServerRestart i \<Rightarrow> bytes_of (put_u64 i) | _ \<Rightarrow> [])"
| "record_bytes (ParticipantRecord.Left p e) = bytes_of (put_u64 p) @ bytes_of (put_option_binding_epoch e)"
| "record_bytes (ParticipantRecord.HistoryCompacted p a b c) =
    bytes_of (put_u64 p) @ bytes_of (put_u64 a) @ bytes_of (put_u64 b) @ bytes_of (put_u64 c)"

fun push_bytes :: "ServerPush \<Rightarrow> u8 list" where
  "push_bytes (ServerPush.ObserverProgressed c r p) = bytes_of (put_u64 c) @ bytes_of (put_u64 r) @ bytes_of (put_u64 p)"
| "push_bytes (ServerPush.ParticipantDelivery v) = bytes_of (put_u64 (pd_conversation_id v))
    @ bytes_of (put_u64 (pd_delivery_seq v)) @ bytes_of (put_u16 (RecordKind_wire_value (record_kind (pd_record v))))
    @ record_bytes (pd_record v)"
| "push_bytes (ServerPush.MarkerSettled c r) = bytes_of (put_u64 c) @ bytes_of (put_u64 r)"

fun frame_body :: "ParticipantFrame \<Rightarrow> u8 list" where
  "frame_body (ClientRequestFrame v) = request_bytes v"
| "frame_body (ServerValueFrame v) = server_body v"
| "frame_body (ServerPushFrame v) = push_bytes v"

definition frame_bytes :: "ParticipantFrame \<Rightarrow> u8 list" where
  "frame_bytes f = [PARTICIPANT_FRAME_TYPE, 0] @ be_bytes 4 0 @ be_bytes 4 (6 + length (frame_body f))
    @ be_bytes 2 1 @ be_bytes 2 0 @ be_bytes 2 (unat (frame_discriminant f)) @ frame_body f"

text \<open>What the Rust types guarantee of a request, a record and a frame.\<close>

fun request_ok :: "ClientRequest \<Rightarrow> bool" where
  "request_ok (ClientRequest.Enrollment v) \<longleftrightarrow> length (er_enrollment_token v) = TOKEN_LEN"
| "request_ok (ClientRequest.CredentialAttach v) \<longleftrightarrow> generation_ok (car_capability_generation v)
    \<and> length (car_attach_secret v) = SECRET_LEN \<and> length (car_attach_attempt_token v) = TOKEN_LEN"
| "request_ok (ClientRequest.Detach v) \<longleftrightarrow> generation_ok (dr_capability_generation v)
    \<and> length (dr_detach_attempt_token v) = TOKEN_LEN"
| "request_ok (ClientRequest.ParticipantAck v) \<longleftrightarrow> generation_ok (pa_capability_generation v)"
| "request_ok (ClientRequest.Leave v) \<longleftrightarrow> generation_ok (lr_capability_generation v)
    \<and> length (lr_attach_secret v) = SECRET_LEN \<and> length (lr_leave_attempt_token v) = TOKEN_LEN"
| "request_ok (ClientRequest.MarkerAck v) \<longleftrightarrow> generation_ok (ma_capability_generation v)"
| "request_ok (ClientRequest.RecordAdmission v) \<longleftrightarrow> generation_ok (ra_capability_generation v)
    \<and> length (ra_record_admission_attempt_token v) = TOKEN_LEN"
| "request_ok (ClientRequest.ObserverRecovery v) \<longleftrightarrow> True"

fun record_ok :: "ParticipantRecord \<Rightarrow> bool" where
  "record_ok (ParticipantRecord.OrdinaryRecord _ _) \<longleftrightarrow> True"
| "record_ok (ParticipantRecord.Attached _ e) \<longleftrightarrow> epoch_ok e"
| "record_ok (ParticipantRecord.Detached _ e _) \<longleftrightarrow> epoch_ok e"
| "record_ok (ParticipantRecord.Died _ e _) \<longleftrightarrow> epoch_ok e"
| "record_ok (ParticipantRecord.Left _ e) \<longleftrightarrow> pred_option epoch_ok e"
| "record_ok (ParticipantRecord.HistoryCompacted _ _ _ _) \<longleftrightarrow> True"

fun push_ok :: "ServerPush \<Rightarrow> bool" where
  "push_ok (ServerPush.ParticipantDelivery v) \<longleftrightarrow> record_ok (pd_record v)"
| "push_ok _ \<longleftrightarrow> True"

fun frame_ok :: "ParticipantFrame \<Rightarrow> bool" where
  "frame_ok (ClientRequestFrame v) \<longleftrightarrow> request_ok v"
| "frame_ok (ServerValueFrame v) \<longleftrightarrow> server_value_ok v"
| "frame_ok (ServerPushFrame v) \<longleftrightarrow> push_ok v"

definition frame_fits :: "ParticipantFrame \<Rightarrow> bool" where
  "frame_fits f \<longleftrightarrow> 6 + length (frame_body f) \<le> U32_MAX"

section \<open>Sinks\<close>

text \<open>\<open>emits put valid c f bs\<close>: from a valid state, \<open>f\<close> succeeds exactly when \<open>c\<close> holds and \<open>bs\<close> can be
  put, with the same resulting state.\<close>

definition emits :: "'s put \<Rightarrow> ('s \<Rightarrow> bool) \<Rightarrow> bool \<Rightarrow> ('s \<Rightarrow> (CodecError, 's) result) \<Rightarrow> u8 list \<Rightarrow> bool" where
  "emits put valid c f bs \<longleftrightarrow> (\<forall>s s'. valid s \<longrightarrow> f s = Ok s' \<longleftrightarrow> c \<and> put bs s = Ok s')"

lemma word_bytes:
  "bytes_of (put_u8 a) = [a]" "bytes_of (put_u16 b) = be_bytes 2 (unat b)" "bytes_of (put_u32 c) = be_bytes 4 (unat c)"
  "bytes_of (put_u64 d) = be_bytes 8 (unat d)" "bytes_of (put_generation g) = be_bytes 8 (unat (generation_get g))"
  by (simp_all add: bytes_of_def put_u8_def put_u16_def put_u32_def put_u64_def put_generation_def)

lemma epoch_bytes:
  "bytes_of (put_binding_epoch e) = bytes_of (put_u64 (ci_server_incarnation (be_connection_incarnation e)))
    @ bytes_of (put_u64 (ci_connection_ordinal (be_connection_incarnation e)))
    @ bytes_of (put_generation (be_capability_generation e))"
  by (simp add: bytes_of_def [of "put_binding_epoch e"] put_binding_epoch_def Let_def put_simps)

lemma option_bytes:
  "bytes_of (put_option_u64 None) = [0]" "bytes_of (put_option_u64 (Some v)) = 1 # bytes_of (put_u64 v)"
  "bytes_of (put_option_binding_epoch None) = [0]"
  "bytes_of (put_option_binding_epoch (Some e)) = 1 # bytes_of (put_binding_epoch e)"
  unfolding put_option_u64_def put_option_binding_epoch_def
  by (simp_all add: u64_field.bytes_of_put_option epoch_field.bytes_of_put_option)

text \<open>The length conversions of the encoders succeed.\<close>

fun request_lens :: "ClientRequest \<Rightarrow> bool" where
  "request_lens (ClientRequest.RecordAdmission v) \<longleftrightarrow> length (ra_payload v) \<le> U32_MAX"
| "request_lens (ClientRequest.ObserverRecovery v) \<longleftrightarrow> length (orh_observer_refusals v) \<le> U64_MAX"
| "request_lens _ \<longleftrightarrow> True"

fun push_lens :: "ServerPush \<Rightarrow> bool" where
  "push_lens (ServerPush.ParticipantDelivery v) \<longleftrightarrow>
    (case pd_record v of ParticipantRecord.OrdinaryRecord _ bs \<Rightarrow> length bs \<le> U32_MAX | _ \<Rightarrow> True)"
| "push_lens _ \<longleftrightarrow> True"

fun frame_lens :: "ParticipantFrame \<Rightarrow> bool" where
  "frame_lens (ClientRequestFrame v) \<longleftrightarrow> request_lens v"
| "frame_lens (ServerValueFrame _) \<longleftrightarrow> True"
| "frame_lens (ServerPushFrame v) \<longleftrightarrow> push_lens v"

locale sink =
  fixes put :: "'s put" and valid :: "'s \<Rightarrow> bool"
  assumes put_Nil: "valid s \<Longrightarrow> put [] s = Ok s"
    and put_append: "valid s \<Longrightarrow> andThen (put a s) (put b) = Ok s' \<longleftrightarrow> put (a @ b) s = Ok s'"
    and put_valid: "valid s \<Longrightarrow> put a s = Ok s' \<Longrightarrow> valid s'"
begin

lemma emits_put: "emits put valid True (put bs) bs"
  by (simp add: emits_def)

lemma emits_return: "emits put valid True Ok []"
  by (auto simp: emits_def put_Nil)

lemma emits_then:
  assumes "emits put valid c f a" and "emits put valid d g b"
  shows "emits put valid (c \<and> d) (\<lambda>s. andThen (f s) g) (a @ b)"
  unfolding emits_def
proof (intro allI impI)
  fix s s' assume s: "valid s"
  have "andThen (f s) g = Ok s' \<longleftrightarrow> (\<exists>m. c \<and> put a s = Ok m \<and> d \<and> put b m = Ok s')"
    using assms s put_valid [OF s] by (auto simp: emits_def result_simps)
  also have "\<dots> \<longleftrightarrow> (c \<and> d) \<and> andThen (put a s) (put b) = Ok s'"
    by (auto simp: result_simps)
  finally show "andThen (f s) g = Ok s' \<longleftrightarrow> (c \<and> d) \<and> put (a @ b) s = Ok s'"
    by (simp add: put_append [OF s])
qed

lemma emits_cong: "emits put valid c f a \<Longrightarrow> c = d \<Longrightarrow> a = b \<Longrightarrow> emits put valid d f b"
  by simp

lemma emits_words:
  "emits put valid True (sink_u8 put a) [a]"
  "emits put valid True (sink_u16 put b) (bytes_of (put_u16 b))"
  "emits put valid True (sink_u32 put c) (bytes_of (put_u32 c))"
  "emits put valid True (sink_u64 put d) (bytes_of (put_u64 d))"
  "emits put valid True (sink_generation put g) (bytes_of (put_generation g))"
  "emits put valid True (sink_fixed put bs) bs"
  unfolding sink_u8_def sink_u16_def sink_u32_def sink_u64_def sink_fixed_def sink_generation_def word_bytes
  by (rule emits_put)+

lemma emits_bytes: "emits put valid (length bs \<le> U32_MAX) (sink_bytes put bs) (len_bytes bs)"
proof (cases "length bs \<le> U32_MAX")
  case True
  have "emits put valid (True \<and> True) (\<lambda>s. andThen (sink_u32 put (of_nat (length bs)) s) (put bs)) (len_bytes bs)"
    unfolding len_bytes_def by (rule emits_then emits_words emits_put)+
  with True show ?thesis
    by (simp add: sink_bytes_def u32_from_len_def emits_def)
qed (simp add: sink_bytes_def u32_from_len_def emits_def)

lemma emits_epoch: "emits put valid True (sink_binding_epoch put e) (bytes_of (put_binding_epoch e))"
  unfolding epoch_bytes sink_binding_epoch_def [abs_def] sink_connection_incarnation_def [abs_def]
  by (rule emits_cong, (rule emits_then emits_words)+) simp_all

lemma emits_option_u64: "emits put valid True (sink_option_u64 put v) (bytes_of (put_option_u64 v))"
proof (cases v)
  case (Some x)
  have "emits put valid True (\<lambda>s. andThen (sink_u8 put 1 s) (sink_u64 put x)) (1 # bytes_of (put_u64 x))"
    by (rule emits_cong, (rule emits_then emits_words)+) simp_all
  with Some show ?thesis by (simp add: sink_option_u64_def [abs_def] option_bytes)
qed (simp add: sink_option_u64_def [abs_def] option_bytes emits_words(1))

lemma emits_option_epoch:
  "emits put valid True (sink_option_binding_epoch put v) (bytes_of (put_option_binding_epoch v))"
proof (cases v)
  case (Some x)
  have "emits put valid True (\<lambda>s. andThen (sink_u8 put 1 s) (sink_binding_epoch put x)) (1 # bytes_of (put_binding_epoch x))"
    by (rule emits_cong, (rule emits_then emits_words emits_epoch)+) simp_all
  with Some show ?thesis by (simp add: sink_option_binding_epoch_def [abs_def] option_bytes)
qed (simp add: sink_option_binding_epoch_def [abs_def] option_bytes emits_words(1))

lemma emits_refusals: "emits put valid True (sink_refusals put rs) (concat (map refusal_bytes rs))"
proof (induction rs)
  case Nil
  then show ?case using emits_return by (simp add: emits_def)
next
  case (Cons r rs)
  have "emits put valid True (\<lambda>s. andThen (sink_u64 put (or_conversation_id r) s) (\<lambda>s.
      andThen (sink_u64 put (or_refused_epoch r) s) (sink_refusals put rs)))
    (refusal_bytes r @ concat (map refusal_bytes rs))"
    by (rule emits_cong, (rule emits_then emits_words Cons.IH)+) (simp_all add: refusal_bytes_def [of r])
  then show ?case by (simp add: emits_def)
qed

lemmas emits_rules = emits_then emits_words emits_bytes emits_epoch emits_option_u64 emits_option_epoch emits_refusals

lemma emits_request: "emits put valid (request_lens v) (encode_client_request put v) (request_bytes v)"
proof (cases v)
  case (ObserverRecovery w)
  show ?thesis
  proof (cases "request_lens v")
    case True
    have "emits put valid True (\<lambda>s. andThen (sink_u64 put (of_nat (length (orh_observer_refusals w))) s)
        (sink_refusals put (orh_observer_refusals w))) (request_bytes v)"
      unfolding ObserverRecovery by (rule emits_cong, (rule emits_rules)+) simp_all
    with True ObserverRecovery show ?thesis by (simp add: u64_from_len_def emits_def)
  qed (simp add: ObserverRecovery u64_from_len_def emits_def)
qed (simp_all only: encode_client_request.simps [abs_def], (rule emits_cong, (rule emits_rules)+, simp, simp)+)

lemma emits_record:
  "emits put valid (case r of ParticipantRecord.OrdinaryRecord _ bs \<Rightarrow> length bs \<le> U32_MAX | _ \<Rightarrow> True)
    (\<lambda>s. case r of
      ParticipantRecord.OrdinaryRecord p bs \<Rightarrow> andThen (sink_u64 put p s) (\<lambda>s. sink_bytes put bs s)
    | ParticipantRecord.Attached p e \<Rightarrow> andThen (sink_u64 put p s) (\<lambda>s. sink_binding_epoch put e s)
    | ParticipantRecord.Detached p e c \<Rightarrow>
        andThen (sink_u64 put p s) (\<lambda>s. andThen (sink_binding_epoch put e s) (\<lambda>s.
        sink_u16 put (CloseCauseTag_wire_value (CloseCause_tag (DetachedCause_close_cause c))) s))
    | ParticipantRecord.Died p e c \<Rightarrow>
        andThen (sink_u64 put p s) (\<lambda>s. andThen (sink_binding_epoch put e s) (\<lambda>s.
        andThen (sink_u16 put (CloseCauseTag_wire_value (CloseCause_tag (DiedCause_close_cause c))) s) (\<lambda>s.
        case c of DiedCause.UncleanServerRestart i \<Rightarrow> sink_u64 put i s | _ \<Rightarrow> Ok s)))
    | ParticipantRecord.Left p e \<Rightarrow> andThen (sink_u64 put p s) (\<lambda>s. sink_option_binding_epoch put e s)
    | ParticipantRecord.HistoryCompacted p a b c \<Rightarrow>
        andThen (sink_u64 put p s) (\<lambda>s. andThen (sink_u64 put a s) (\<lambda>s.
        andThen (sink_u64 put b s) (\<lambda>s. sink_u64 put c s))))
    (record_bytes r)"
proof (cases r)
  case (Died p e c)
  have "emits put valid True (\<lambda>s. case c of DiedCause.UncleanServerRestart i \<Rightarrow> sink_u64 put i s | _ \<Rightarrow> Ok s)
      (case c of DiedCause.UncleanServerRestart i \<Rightarrow> bytes_of (put_u64 i) | _ \<Rightarrow> [])"
    by (cases c) (simp_all add: emits_words emits_return)
  then show ?thesis
    unfolding Died ParticipantRecord.case
    by - (rule emits_cong, (rule emits_rules | assumption)+, simp_all)
qed (simp_all only: ParticipantRecord.case, (rule emits_cong, (rule emits_rules)+, simp, simp)+)

lemma emits_push: "emits put valid (push_lens v) (encode_server_push put v) (push_bytes v)"
proof (cases v)
  case (ParticipantDelivery w)
  show ?thesis
    unfolding ParticipantDelivery encode_server_push.simps [abs_def] encode_participant_delivery_def [abs_def]
    by (rule emits_cong, (rule emits_rules emits_record)+) simp_all
qed (simp_all only: encode_server_push.simps [abs_def], (rule emits_cong, (rule emits_rules)+, simp, simp)+)

lemma emits_body: "frame_ok f \<Longrightarrow> emits put valid (frame_lens f) (encode_body put f) (frame_body f)"
proof (cases f)
  case (ClientRequestFrame v)
  then show ?thesis using emits_request [of v] by (simp add: emits_def)
next
  case (ServerPushFrame v)
  then show ?thesis using emits_push [of v] by (simp add: emits_def)
next
  case (ServerValueFrame v)
  moreover assume "frame_ok f"
  ultimately show ?thesis by (simp add: emits_def encode_server_value_body_eq)
qed

end

interpretation size_sink: sink SizeSink_put "\<lambda>len. len \<le> USIZE_MAX"
  by unfold_locales (auto simp: SizeSink_put_def checked_add_usize_def result_simps split: if_splits)

lemma Writer_put_Ok_iff:
  "w_position w \<le> length (w_output w) \<Longrightarrow> length (w_output w) \<le> USIZE_MAX \<Longrightarrow>
    Writer_put bs w = Ok w' \<longleftrightarrow> w_position w + length bs \<le> length (w_output w) \<and>
      w' = \<lparr>w_output = take (w_position w) (w_output w) @ bs @ drop (w_position w + length bs) (w_output w),
            w_position = w_position w + length bs\<rparr>"
  by (auto simp: Writer_put_def checked_add_usize_def result_simps split: if_splits)

interpretation writer_sink: sink Writer_put "\<lambda>w. w_position w \<le> length (w_output w) \<and> length (w_output w) \<le> USIZE_MAX"
proof
  fix s :: Writer and a b s'
  assume s: "w_position s \<le> length (w_output s) \<and> length (w_output s) \<le> USIZE_MAX"
  then show "Writer_put [] s = Ok s" by (simp add: Writer_put_Ok_iff)
  show "w_position s' \<le> length (w_output s') \<and> length (w_output s') \<le> USIZE_MAX" if "Writer_put a s = Ok s'"
    using s that by (auto simp: Writer_put_Ok_iff)
  show "andThen (Writer_put a s) (Writer_put b) = Ok s' \<longleftrightarrow> Writer_put (a @ b) s = Ok s'"
  proof (cases "w_position s + length a \<le> length (w_output s)")
    case True
    let ?m = "\<lparr>w_output = take (w_position s) (w_output s) @ a @ drop (w_position s + length a) (w_output s),
      w_position = w_position s + length a\<rparr>"
    have m: "Writer_put a s = Ok ?m" using s True by (simp add: Writer_put_Ok_iff)
    have len: "length (w_output ?m) = length (w_output s)" using s True by auto
    show ?thesis using s True len
      by (simp add: m Writer_put_Ok_iff) (auto simp: ac_simps)
  next
    case False
    then show ?thesis using s by (auto simp: Writer_put_Ok_iff result_simps)
  qed
qed

section \<open>Requests and pushes\<close>

lemma parses_take_bytes [parse_intros]: "parses take_bytes (\<lambda>x bs. bs = len_bytes x \<and> length x \<le> U32_MAX)"
  unfolding take_bytes_def
  by (rule parses_cong, rule parse_intros, rule u32_field.take_parses, rule parses_take_slice)
    (auto simp: len_bytes_def length_eq_unat_u32_iff unat_of_nat)

lemma parses_take_refusal: "parses take_refusal (\<lambda>x bs. bs = refusal_bytes x \<and> True)"
  unfolding take_refusal_def
  by (rule parses_cong, (rule parse_intros)+, case_tac x) (auto simp: refusal_bytes_def)

lemma length_refusals: "length (concat (map refusal_bytes rs)) = length rs * 16"
  by (induction rs) (simp_all add: refusal_bytes_def length_u64_bytes)

lemma parses_refusals:
  "parses (thenTake (require_fixed_list count 16) (\<lambda>_.
      thenTake (take_times (unat count) take_refusal) (\<lambda>rs.
      give (ClientRequest.ObserverRecovery \<lparr>orh_observer_refusals = rs\<rparr>))))
    (\<lambda>x bs. \<exists>w. x = ClientRequest.ObserverRecovery w \<and>
      bs = concat (map refusal_bytes (orh_observer_refusals w)) \<and> length (orh_observer_refusals w) = unat count)"
  unfolding require_fixed_list_def [abs_def]
  by (rule parses_guard, rule parses_cong, (rule parses_thenTake parses_take_times parses_take_refusal parses_give)+)
    (auto simp: length_refusals list_all_iff intro: ObserverRecoveryHandshake.equality)

lemma bytes_of_put_fixed: "bytes_of (put_fixed bs) = bs"
  by (simp add: bytes_of_def put_fixed_def)

lemma frame_record_eqs:
  "v0 = \<lparr>er_conversation_id = a0, er_enrollment_token = b0\<rparr> \<longleftrightarrow>
    a0 = er_conversation_id v0 \<and> b0 = er_enrollment_token v0"
  "v1 = \<lparr>car_conversation_id = a1, car_participant_id = b1, car_capability_generation = c1, car_attach_secret = d1, car_attach_attempt_token = e1, car_accept_marker_delivery_seq = f1\<rparr> \<longleftrightarrow>
    a1 = car_conversation_id v1 \<and> b1 = car_participant_id v1 \<and> c1 = car_capability_generation v1 \<and> d1 = car_attach_secret v1 \<and> e1 = car_attach_attempt_token v1 \<and> f1 = car_accept_marker_delivery_seq v1"
  "v2 = \<lparr>dr_conversation_id = a2, dr_participant_id = b2, dr_capability_generation = c2, dr_detach_attempt_token = d2\<rparr> \<longleftrightarrow>
    a2 = dr_conversation_id v2 \<and> b2 = dr_participant_id v2 \<and> c2 = dr_capability_generation v2 \<and> d2 = dr_detach_attempt_token v2"
  "v3 = \<lparr>pa_conversation_id = a3, pa_participant_id = b3, pa_capability_generation = c3, pa_through_seq = d3\<rparr> \<longleftrightarrow>
    a3 = pa_conversation_id v3 \<and> b3 = pa_participant_id v3 \<and> c3 = pa_capability_generation v3 \<and> d3 = pa_through_seq v3"
  "v4 = \<lparr>lr_conversation_id = a4, lr_participant_id = b4, lr_capability_generation = c4, lr_attach_secret = d4, lr_leave_attempt_token = e4\<rparr> \<longleftrightarrow>
    a4 = lr_conversation_id v4 \<and> b4 = lr_participant_id v4 \<and> c4 = lr_capability_generation v4 \<and> d4 = lr_attach_secret v4 \<and> e4 = lr_leave_attempt_token v4"
  "v5 = \<lparr>ma_conversation_id = a5, ma_participant_id = b5, ma_capability_generation = c5, ma_marker_delivery_seq = d5\<rparr> \<longleftrightarrow>
    a5 = ma_conversation_id v5 \<and> b5 = ma_participant_id v5 \<and> c5 = ma_capability_generation v5 \<and> d5 = ma_marker_delivery_seq v5"
  "v6 = \<lparr>ra_conversation_id = a6, ra_participant_id = b6, ra_capability_generation = c6, ra_record_admission_attempt_token = d6, ra_payload = e6\<rparr> \<longleftrightarrow>
    a6 = ra_conversation_id v6 \<and> b6 = ra_participant_id v6 \<and> c6 = ra_capability_generation v6 \<and> d6 = ra_record_admission_attempt_token v6 \<and> e6 = ra_payload v6"
  "v7 = \<lparr>pd_conversation_id = a7, pd_delivery_seq = b7, pd_record = c7\<rparr> \<longleftrightarrow>
    a7 = pd_conversation_id v7 \<and> b7 = pd_delivery_seq v7 \<and> c7 = pd_record v7"
  subgoal by (cases v0) auto
  subgoal by (cases v1) auto
  subgoal by (cases v2) auto
  subgoal by (cases v3) auto
  subgoal by (cases v4) auto
  subgoal by (cases v5) auto
  subgoal by (cases v6) auto
  subgoal by (cases v7) auto
  done

lemma parses_request:
  "parses (take_client_request tag) (\<lambda>x bs. bs = request_bytes x \<and> request_ok x \<and> request_lens x
    \<and> ClientRequest_discriminant x = tag)"
proof (cases "tag = ClientDiscriminant.ObserverRecoveryHandshake")
  case True
  show ?thesis
    unfolding True take_client_request.simps
    by (rule parses_cong, rule parses_thenTake, rule u64_field.take_parses, rule parses_refusals, case_tac x)
      (auto simp: length_eq_unat_u64_iff)
next
  case False
  then show ?thesis
    by - (cases tag; simp only: take_client_request.simps, rule parses_cong, (rule parse_intros)+, case_tac x,
      auto simp: bytes_of_put_fixed frame_record_eqs)
qed

lemma parses_case_RecordKind [parse_intros]:
  assumes "k = RecordKind.OrdinaryRecord \<Longrightarrow> parses t0 R0" and "k = RecordKind.Attached \<Longrightarrow> parses t1 R1"
    and "k = RecordKind.Detached \<Longrightarrow> parses t2 R2" and "k = RecordKind.Died \<Longrightarrow> parses t3 R3"
    and "k = RecordKind.Left \<Longrightarrow> parses t4 R4" and "k = RecordKind.HistoryCompacted \<Longrightarrow> parses t5 R5"
  shows "parses (case k of RecordKind.OrdinaryRecord \<Rightarrow> t0 | RecordKind.Attached \<Rightarrow> t1 | RecordKind.Detached \<Rightarrow> t2
      | RecordKind.Died \<Rightarrow> t3 | RecordKind.Left \<Rightarrow> t4 | RecordKind.HistoryCompacted \<Rightarrow> t5)
    (\<lambda>x bs. case k of RecordKind.OrdinaryRecord \<Rightarrow> R0 x bs | RecordKind.Attached \<Rightarrow> R1 x bs
      | RecordKind.Detached \<Rightarrow> R2 x bs | RecordKind.Died \<Rightarrow> R3 x bs | RecordKind.Left \<Rightarrow> R4 x bs
      | RecordKind.HistoryCompacted \<Rightarrow> R5 x bs)"
  using assms by (cases k) simp_all

lemma parses_detached_cause [parse_intros]:
  "parses (case tag of CloseCauseTag.CleanDeregister \<Rightarrow> give DetachedCause.CleanDeregister
      | CloseCauseTag.Superseded \<Rightarrow> give DetachedCause.Superseded
      | CloseCauseTag.ServerShutdown \<Rightarrow> give DetachedCause.ServerShutdown
      | _ \<Rightarrow> invalid_field)
    (\<lambda>c bs. tag = CloseCause_tag (DetachedCause_close_cause c) \<and> bs = [])"
  by (cases tag; simp, rule parses_cong, rule parse_intros, case_tac x) simp_all

lemma parses_died_cause [parse_intros]:
  "parses (case tag of CloseCauseTag.ConnectionLost \<Rightarrow> give DiedCause.ConnectionLost
      | CloseCauseTag.ProcessKilled \<Rightarrow> give DiedCause.ProcessKilled
      | CloseCauseTag.ProtocolError \<Rightarrow> give DiedCause.ProtocolError
      | CloseCauseTag.UncleanServerRestart \<Rightarrow> take_map DiedCause.UncleanServerRestart take_u64
      | _ \<Rightarrow> invalid_field)
    (\<lambda>c bs. tag = CloseCause_tag (DiedCause_close_cause c) \<and>
      bs = (case c of DiedCause.UncleanServerRestart i \<Rightarrow> bytes_of (put_u64 i) | _ \<Rightarrow> []))"
  by (cases tag; simp, rule parses_cong, (rule parse_intros)+, case_tac x) auto

lemma parses_record [parse_intros]:
  "parses (decode_participant_record k) (\<lambda>x bs. bs = record_bytes x \<and> record_ok x \<and> record_kind x = k \<and>
    (case x of ParticipantRecord.OrdinaryRecord _ bs \<Rightarrow> length bs \<le> U32_MAX | _ \<Rightarrow> True))"
  unfolding decode_participant_record_def
  by (cases k; simp, rule parses_cong, (rule parse_intros)+, case_tac x) auto

lemma parses_push:
  "parses (take_server_push tag) (\<lambda>x bs. bs = push_bytes x \<and> push_ok x \<and> push_lens x
    \<and> ServerPush_discriminant x = tag)"
  by (cases tag; simp only: take_server_push.simps, rule parses_cong, (rule parse_intros)+, case_tac x)
    (auto simp: frame_record_eqs)

section \<open>Whole frames\<close>

fun receives :: "ReceiverDirection \<Rightarrow> ParticipantFrame \<Rightarrow> bool" where
  "receives ReceiverDirection.Server f \<longleftrightarrow> (\<exists>v. f = ClientRequestFrame v)"
| "receives ReceiverDirection.Client f \<longleftrightarrow> (\<nexists>v. f = ClientRequestFrame v)"

lemma take_slice_at_iff:
  assumes "length pre + length suf \<le> USIZE_MAX"
  shows "take_slice n (dec_at pre suf flag) = Ok (x, d) \<longleftrightarrow>
    (\<exists>rest. suf = x @ rest \<and> length x = n \<and> d = dec_at (pre @ x) rest flag)"
proof
  assume "take_slice n (dec_at pre suf flag) = Ok (x, d)"
  then have "n \<le> length suf" "x = take n suf" "d = dec_at (pre @ take n suf) (drop n suf) flag"
    by (auto simp: take_slice_def dec_at_def checked_add_usize_def result_simps split: if_splits)
  then show "\<exists>rest. suf = x @ rest \<and> length x = n \<and> d = dec_at (pre @ x) rest flag"
    by (intro exI [of _ "drop n suf"]) simp
qed (use assms in \<open>auto simp: take_slice_def dec_at_def checked_add_usize_def\<close>)

lemma take_word_at_iff:
  assumes "LENGTH('a::len) = 8 * n" and "length pre + length suf \<le> USIZE_MAX"
  shows "take_map (\<lambda>bs. of_nat (be_value bs) :: 'a word) (take_slice n) (dec_at pre suf flag) = Ok (x, d) \<longleftrightarrow>
    (\<exists>rest. suf = be_bytes n (unat x) @ rest \<and> d = dec_at (pre @ be_bytes n (unat x)) rest flag)"
proof -
  have "take_map (\<lambda>bs. of_nat (be_value bs) :: 'a word) (take_slice n) (dec_at pre suf flag) = Ok (x, d) \<longleftrightarrow>
    (\<exists>bs rest. (\<exists>bs'. bs = bs' \<and> length bs' = n \<and> x = (of_nat (be_value bs') :: 'a word)) \<and> suf = bs @ rest
      \<and> d = dec_at (pre @ bs) rest flag)"
    using assms(2) by (auto simp: take_map_def thenTake_def give_def result_simps take_slice_at_iff)
  then show ?thesis unfolding be_value_word_iff [OF assms(1)] by simp
qed

lemma take_words_at_iff:
  assumes "length pre + length suf \<le> USIZE_MAX"
  shows "take_u8 (dec_at pre suf flag) = Ok (b, d) \<longleftrightarrow> (\<exists>rest. suf = [b] @ rest \<and> d = dec_at (pre @ [b]) rest flag)"
    and "take_u16 (dec_at pre suf flag) = Ok (x, d) \<longleftrightarrow>
      (\<exists>rest. suf = be_bytes 2 (unat x) @ rest \<and> d = dec_at (pre @ be_bytes 2 (unat x)) rest flag)"
    and "take_u32 (dec_at pre suf flag) = Ok (y, d) \<longleftrightarrow>
      (\<exists>rest. suf = be_bytes 4 (unat y) @ rest \<and> d = dec_at (pre @ be_bytes 4 (unat y)) rest flag)"
  unfolding take_u8_def take_u16_def take_u32_def be_bytes_u8 [symmetric]
  by (rule take_word_at_iff [OF _ assms]; simp)+

lemma reader_whole:
  assumes "parses t R" and "length body \<le> USIZE_MAX"
  shows "andThen (t (Decoder_new body)) (\<lambda>(x, d). andThen (Reader_finish d) (\<lambda>_. Ok x)) = Ok v \<longleftrightarrow> R v body"
proof -
  have "andThen (t (Decoder_new body)) (\<lambda>(x, d). andThen (Reader_finish d) (\<lambda>_. Ok x)) = Ok v \<longleftrightarrow>
    (\<exists>d. t (Decoder_new body) = Ok (v, d) \<and> Decoder_finish d = Ok ())"
  proof (cases "t (Decoder_new body)")
    case (Inr r)
    obtain x d where r: "r = (x, d)" by fastforce
    with Inr have "t (dec_at [] body False) = Ok (x, d)" by (simp add: Decoder_new_at)
    from parses_soundE [OF assms(1) this] obtain bs rest flag where "body = bs @ rest"
      "d = dec_at ([] @ bs) rest flag" "False \<longrightarrow> flag" "flag \<or> R x bs" .
    from this(2) have "Reader_finish d = Decoder_finish d"
      by (simp add: Reader_finish_def Decoder_finish_def dec_at_def d_remaining_def)
    then show ?thesis by (cases "Decoder_finish d") (auto simp: Inr r andThen_def)
  qed (simp add: andThen_def)
  then show ?thesis by (simp only: parses_whole [OF assms])
qed

lemma decode_client_request_iff:
  "length body \<le> USIZE_MAX \<Longrightarrow> decode_client_request tag body = Ok v \<longleftrightarrow>
    body = request_bytes v \<and> request_ok v \<and> request_lens v \<and> ClientRequest_discriminant v = tag"
  unfolding decode_client_request_def by (rule reader_whole [OF parses_request])

lemma decode_server_push_iff:
  "length body \<le> USIZE_MAX \<Longrightarrow> decode_server_push tag body = Ok v \<longleftrightarrow>
    body = push_bytes v \<and> push_ok v \<and> push_lens v \<and> ServerPush_discriminant v = tag"
  unfolding decode_server_push_def by (rule reader_whole [OF parses_push])

lemma push_not_server: "PushDiscriminant_wire_value p \<noteq> ServerDiscriminant_wire_value d"
  by (cases p; cases d) simp_all

lemma push_try_from_server: "PushDiscriminant_try_from (ServerDiscriminant_wire_value d) = None"
  using push_not_server [of _ d] by (cases "PushDiscriminant_try_from (ServerDiscriminant_wire_value d)")
    (auto simp: PushDiscriminant_reg.try_from_Some_iff dest: sym)

text \<open>The dispatch of \<open>decode_payload\<close> on the receiver and the discriminant.\<close>

definition decode_dispatch :: "ReceiverDirection \<Rightarrow> ProtocolVersion \<Rightarrow> u16 \<Rightarrow> u8 list \<Rightarrow> (CodecError, ParticipantFrame) result" where
  "decode_dispatch receiver version discriminant body =
    (case receiver of
        ReceiverDirection.Server \<Rightarrow>
          andThen (ok_or (ClientDiscriminant_try_from discriminant)
            (decode_error DecodeClass.UnknownDiscriminant)) (\<lambda>tag.
          andThen (decode_client_request tag body) (\<lambda>value. Ok (ClientRequestFrame value)))
      | ReceiverDirection.Client \<Rightarrow>
          (case PushDiscriminant_try_from discriminant of
             Some tag \<Rightarrow> andThen (decode_server_push tag body) (\<lambda>value. Ok (ServerPushFrame value))
           | None \<Rightarrow>
               (case ServerDiscriminant_try_from discriminant of
                  Some tag \<Rightarrow>
                    andThen (decode_server_value_body tag version body) (\<lambda>(value, _). Ok (ServerValueFrame value))
                | None \<Rightarrow> Err (decode_error DecodeClass.UnknownDiscriminant))))"

lemma decode_dispatch_iff:
  assumes "length body \<le> USIZE_MAX" and "version = V1"
  shows "decode_dispatch receiver version w body = Ok f \<longleftrightarrow>
    w = frame_discriminant f \<and> body = frame_body f \<and> frame_ok f \<and> frame_lens f \<and> receives receiver f"
proof (cases f)
  case (ClientRequestFrame v)
  then show ?thesis using assms
    by (cases receiver) (auto simp: decode_dispatch_def result_simps ClientDiscriminant_reg.try_from_Some_iff decode_client_request_iff
      split: option.split)
next
  case (ServerValueFrame v)
  then show ?thesis using assms
    by (cases receiver) (auto simp: decode_dispatch_def result_simps ServerDiscriminant_reg.try_from_Some_iff push_try_from_server
      ServerDiscriminant_reg.try_from_wire_value ServerDiscriminant_reg.wire_value_eq_iff decode_server_value_body_iff split: option.split)
next
  case (ServerPushFrame v)
  then show ?thesis using assms
    by (cases receiver) (auto simp: decode_dispatch_def result_simps PushDiscriminant_reg.try_from_Some_iff decode_server_push_iff
      PushDiscriminant_reg.try_from_wire_value PushDiscriminant_reg.wire_value_eq_iff split: option.split)
qed

lemma andThen_take_words:
  assumes "length pre + length suf \<le> USIZE_MAX"
  shows "andThen (take_u8 (dec_at pre suf flag)) k1 = Ok v \<longleftrightarrow> (\<exists>b rest. suf = [b] @ rest
      \<and> length (pre @ [b]) + length rest \<le> USIZE_MAX \<and> k1 (b, dec_at (pre @ [b]) rest flag) = Ok v)"
    and "andThen (take_u16 (dec_at pre suf flag)) k2 = Ok v \<longleftrightarrow> (\<exists>x rest. suf = be_bytes 2 (unat x) @ rest
      \<and> length (pre @ be_bytes 2 (unat x)) + length rest \<le> USIZE_MAX
      \<and> k2 (x, dec_at (pre @ be_bytes 2 (unat x)) rest flag) = Ok v)"
    and "andThen (take_u32 (dec_at pre suf flag)) k3 = Ok v \<longleftrightarrow> (\<exists>y rest. suf = be_bytes 4 (unat y) @ rest
      \<and> length (pre @ be_bytes 4 (unat y)) + length rest \<le> USIZE_MAX
      \<and> k3 (y, dec_at (pre @ be_bytes 4 (unat y)) rest flag) = Ok v)"
  using assms by (auto simp: andThen_Ok_iff take_words_at_iff)

lemma dec_at_rest: "drop (d_position (dec_at pre suf flag)) (d_input (dec_at pre suf flag)) = suf"
  by (simp add: dec_at_def)

lemma version_V1_iff: "\<lparr>pv_major = a, pv_minor = b\<rparr> = V1 \<longleftrightarrow> a = 1 \<and> b = 0"
  by (simp add: V1_def)

lemma decode_payload_iff:
  assumes "length payload \<le> USIZE_MAX"
  shows "decode_payload payload receiver = Ok f \<longleftrightarrow>
    payload = be_bytes 2 1 @ be_bytes 2 0 @ be_bytes 2 (unat (frame_discriminant f)) @ frame_body f
    \<and> frame_ok f \<and> frame_lens f \<and> receives receiver f"
  using assms unfolding decode_payload_def Let_def decode_dispatch_def [symmetric]
  by (simp add: Decoder_new_at andThen_take_words dec_at_rest decode_dispatch_iff version_V1_iff cong: conj_cong) auto

lemma unat_complete_frame_bytes: "unat (complete_frame_bytes len) = 10 + unat len"
proof -
  have len: "unat len < 2 ^ 32" using unat_bound [of len] by simp
  then have "unat (ucast len :: u64) = unat len" by (simp add: unsigned_ucast_eq take_bit_nat_eq_self_iff)
  with len show ?thesis unfolding complete_frame_bytes_def by (subst unat_add_exact) simp_all
qed

lemma be_bytes_4_eq_iff:
  "be_bytes 4 (unat a) = be_bytes 4 (unat b) \<longleftrightarrow> a = b" "be_bytes 4 0 = be_bytes 4 (unat b) \<longleftrightarrow> b = 0" for a b :: u32
proof -
  have "unat x = be_value (be_bytes 4 (unat x))" for x :: u32
    using unat_bound [of x] by (simp add: be_value_be_bytes)
  then show eq: "be_bytes 4 (unat a) = be_bytes 4 (unat b) \<longleftrightarrow> a = b" for a b :: u32
    by (metis word_unat_eq_iff)
  from eq [of 0 b] show "be_bytes 4 0 = be_bytes 4 (unat b) \<longleftrightarrow> b = 0" by auto
qed

lemma decode_header_iff:
  assumes "length input \<le> USIZE_MAX"
  shows "decode input receiver = Ok f \<longleftrightarrow>
    (\<exists>(len :: u32) payload. input = [PARTICIPANT_FRAME_TYPE, 0] @ be_bytes 4 0 @ be_bytes 4 (unat len) @ payload
      \<and> 6 \<le> len \<and> length payload = unat len \<and> decode_payload payload receiver = Ok f)"
  using assms unfolding decode_def Let_def
  by (simp add: Decoder_new_at andThen_take_words unat_complete_frame_bytes GENERIC_HEADER_LEN_def cong: conj_cong)
    (auto simp: not_less be_bytes_4_eq_iff, metis)

lemma length_frame_bytes: "length (frame_bytes f) = 16 + length (frame_body f)"
  by (simp add: frame_bytes_def)

lemma frame_fits_lens: "frame_fits f \<Longrightarrow> frame_lens f"
proof (cases f)
  case (ClientRequestFrame v)
  moreover assume "frame_fits f"
  ultimately show ?thesis
    by (cases v) (auto simp: frame_fits_def len_bytes_def length_refusals)
next
  case (ServerPushFrame v)
  moreover assume "frame_fits f"
  ultimately show ?thesis
    by (cases v) (auto simp: frame_fits_def len_bytes_def split: ParticipantRecord.split)
qed simp

lemma unat_frame_len: "frame_fits f \<Longrightarrow> unat (of_nat (6 + length (frame_body f)) :: u32) = 6 + length (frame_body f)"
  by (simp add: frame_fits_def unat_of_nat del: of_nat_add)

lemma decode_iff:
  assumes "length input \<le> USIZE_MAX"
  shows "decode input receiver = Ok f \<longleftrightarrow> input = frame_bytes f \<and> frame_ok f \<and> frame_fits f \<and> receives receiver f"
proof
  assume "decode input receiver = Ok f"
  then obtain len :: u32 and payload where input: "input = [PARTICIPANT_FRAME_TYPE, 0] @ be_bytes 4 0 @ be_bytes 4 (unat len) @ payload"
    and len: "length payload = unat len" and payload: "decode_payload payload receiver = Ok f"
    unfolding decode_header_iff [OF assms] by blast
  have "length payload \<le> USIZE_MAX" using assms input by simp
  from payload [unfolded decode_payload_iff [OF this]]
  have p: "payload = be_bytes 2 1 @ be_bytes 2 0 @ be_bytes 2 (unat (frame_discriminant f)) @ frame_body f"
    and ok: "frame_ok f \<and> frame_lens f \<and> receives receiver f" by auto
  have body: "unat len = 6 + length (frame_body f)" using len unfolding p by simp
  then have "frame_fits f" using unat_u32_le [of len] by (simp add: frame_fits_def)
  with ok show "input = frame_bytes f \<and> frame_ok f \<and> frame_fits f \<and> receives receiver f"
    unfolding input p body by (simp add: frame_bytes_def)
next
  assume r: "input = frame_bytes f \<and> frame_ok f \<and> frame_fits f \<and> receives receiver f"
  let ?len = "of_nat (6 + length (frame_body f)) :: u32"
  let ?payload = "be_bytes 2 1 @ be_bytes 2 0 @ be_bytes 2 (unat (frame_discriminant f)) @ frame_body f"
  have len: "unat ?len = 6 + length (frame_body f)"
    using r by (simp add: unat_frame_len del: of_nat_add)
  have "decode_payload ?payload receiver = Ok f"
    using r frame_fits_lens by (subst decode_payload_iff) (auto simp: frame_fits_def)
  moreover have "6 \<le> ?len" by (simp add: word_le_nat_alt len del: of_nat_add)
  ultimately show "decode input receiver = Ok f"
    unfolding decode_header_iff [OF assms] using r len
    by (intro exI [of _ ?len] exI [of _ ?payload]) (simp add: frame_bytes_def)
qed

lemma encoded_len_iff:
  assumes "frame_ok f"
  shows "encoded_len f = Ok n \<longleftrightarrow> frame_fits f \<and> n = length (frame_bytes f)"
proof -
  have "encode_body SizeSink_put f 0 = Ok len \<longleftrightarrow> frame_lens f \<and> len = length (frame_body f) \<and> len \<le> USIZE_MAX" for len
    using size_sink.emits_body [OF assms] unfolding emits_def
    by (auto simp: SizeSink_put_def checked_add_usize_def result_simps split: if_splits)
  then show ?thesis
    using frame_fits_lens [of f]
    by (auto simp: encoded_len_def result_simps checked_add_usize_def u32_from_len_def PARTICIPANT_PREFIX_LEN_def
      GENERIC_HEADER_LEN_def frame_fits_def length_frame_bytes split: if_splits)
qed

lemma encode_writes:
  assumes "frame_ok f" and "frame_fits f" and "length (frame_bytes f) \<le> length output" and "length output \<le> USIZE_MAX"
  shows "encode f output = Ok (length (frame_bytes f), frame_bytes f @ drop (length (frame_bytes f)) output)"
proof -
  let ?len = "of_nat (6 + length (frame_body f)) :: u32"
  let ?emit = "\<lambda>w. andThen (sink_u8 Writer_put PARTICIPANT_FRAME_TYPE w) (\<lambda>writer.
      andThen (sink_u8 Writer_put 0 writer) (\<lambda>writer.
      andThen (sink_u32 Writer_put 0 writer) (\<lambda>writer.
      andThen (sink_u32 Writer_put ?len writer) (\<lambda>writer.
      andThen (sink_u16 Writer_put (pv_major V1) writer) (\<lambda>writer.
      andThen (sink_u16 Writer_put (pv_minor V1) writer) (\<lambda>writer.
      andThen (sink_u16 Writer_put (frame_discriminant f) writer) (encode_body Writer_put f)))))))"
  have len: "unat ?len = 6 + length (frame_body f)"
    by (rule unat_frame_len [OF assms(2)])
  have "emits Writer_put (\<lambda>w. w_position w \<le> length (w_output w) \<and> length (w_output w) \<le> USIZE_MAX) True ?emit (frame_bytes f)"
    by (rule writer_sink.emits_cong, (rule writer_sink.emits_then writer_sink.emits_words
      writer_sink.emits_body [OF assms(1)])+)
      (use frame_fits_lens [OF assms(2)] len in \<open>simp_all add: frame_bytes_def word_bytes V1_def\<close>)
  then have "?emit (Writer_new output) = Ok w \<longleftrightarrow> Writer_put (frame_bytes f) (Writer_new output) = Ok w" for w
    using assms(4) by (simp add: emits_def Writer_new_def)
  then have w: "?emit (Writer_new output) = Ok \<lparr>w_output = frame_bytes f @ drop (length (frame_bytes f)) output,
      w_position = length (frame_bytes f)\<rparr>"
    using assms(3,4) by (simp add: Writer_put_Ok_iff Writer_new_def)
  have "encode f output = andThen (?emit (Writer_new output)) (\<lambda>w. Ok (length (frame_bytes f), w_output w))"
    using assms encoded_len_iff [OF assms(1), of "length (frame_bytes f)"] len
    by (simp add: encode_def Let_def u32_from_len_def length_frame_bytes GENERIC_HEADER_LEN_def frame_fits_def andThen_assoc
      del: of_nat_add)
  then show ?thesis unfolding w by simp
qed

lemma participant_encode_Ok_iff:
  assumes "frame_ok f" and "length output \<le> USIZE_MAX"
  shows "encode f output = Ok (n, output') \<longleftrightarrow> frame_fits f \<and> n = length (frame_bytes f) \<and> n \<le> length output
    \<and> output' = frame_bytes f @ drop n output"
proof (cases "frame_fits f \<and> length (frame_bytes f) \<le> length output")
  case True
  with encode_writes [OF assms(1)] assms(2) show ?thesis by auto
next
  case False
  then show ?thesis by (auto simp: encode_def andThen_Ok_iff [of "encoded_len f"] encoded_len_iff [OF assms(1)])
qed

lemma encode_too_small:
  "frame_ok f \<Longrightarrow> frame_fits f \<Longrightarrow> length output < length (frame_bytes f) \<Longrightarrow>
    encode f output = Err (OutputTooSmall (length (frame_bytes f)) (length output))"
  using encoded_len_iff [of f "length (frame_bytes f)"] by (simp add: encode_def)

section \<open>The inbound gate\<close>

lemma declared_frame_bytes:
  assumes "frame_fits f"
  shows "declared_complete_frame_bytes (frame_bytes f) = Some (of_nat (length (frame_bytes f)))"
proof -
  let ?pre = "[PARTICIPANT_FRAME_TYPE, 0] @ be_bytes 4 0"
  let ?post = "be_bytes 2 1 @ be_bytes 2 0 @ be_bytes 2 (unat (frame_discriminant f)) @ frame_body f"
  have pre: "frame_bytes f = ?pre @ be_bytes 4 (6 + length (frame_body f)) @ ?post" "length ?pre = 6"
    by (simp_all only: frame_bytes_def append.assoc) simp
  have "be_value (be_bytes 4 (6 + length (frame_body f))) = 6 + length (frame_body f)"
    using assms by (simp add: be_value_be_bytes frame_fits_def)
  then have "declared_complete_frame_bytes (frame_bytes f) =
      Some (complete_frame_bytes (of_nat (6 + length (frame_body f))))"
    unfolding declared_complete_frame_bytes_def GENERIC_HEADER_LEN_def length_frame_bytes
    by (simp only: pre(1) drop_append take_append pre(2)) (simp del: of_nat_add)
  moreover have "complete_frame_bytes (of_nat (6 + length (frame_body f))) = of_nat (length (frame_bytes f))"
    using assms by (simp only: word_unat_eq_iff unat_complete_frame_bytes unat_frame_len length_frame_bytes)
      (simp add: frame_fits_def unat_of_nat del: of_nat_add)
  ultimately show ?thesis by simp
qed

fun is_transport_rejection :: "ParticipantFrame \<Rightarrow> bool" where
  "is_transport_rejection (ServerValueFrame (ServerValue.ParticipantTransportRejected _)) \<longleftrightarrow> True"
| "is_transport_rejection _ \<longleftrightarrow> False"



lemma gate_limit_check:
  fixes limit :: u64
  assumes "frame_fits f"
  shows "of_nat (length (frame_bytes f)) \<le> limit \<longleftrightarrow> length (frame_bytes f) \<le> unat limit"
  using assms by (simp add: word_le_nat_alt frame_fits_def length_frame_bytes unat_of_nat del: of_nat_add)

section \<open>Properties\<close>

text \<open>C37: encoding a participant frame into a buffer succeeds exactly when the declared payload length fits
  the 32-bit length field and the buffer holds the frame; it then reports the frame's length, writes the
  canonical frame at the front of the buffer and leaves the rest of the buffer alone, and a buffer that is
  too small is refused with the required and the available size.\<close>

theorem participant_encode_exact:
  assumes "frame_ok f" and "length output \<le> USIZE_MAX"
  shows "(encode f output = Ok (n, output') \<longleftrightarrow> frame_fits f \<and> n = length (frame_bytes f) \<and> n \<le> length output
      \<and> output' = frame_bytes f @ drop n output) \<and>
    (frame_fits f \<and> length output < length (frame_bytes f) \<longrightarrow>
      encode f output = Err (OutputTooSmall (length (frame_bytes f)) (length output)))"
  using participant_encode_Ok_iff [OF assms, of n output'] encode_too_small [OF assms(1)] by simp

theorem participant_encode_exact_witness:
  "let f = ServerPushFrame (ServerPush.MarkerSettled 3 7);
     header = [0x1A, 0] @ be_bytes 4 0 @ be_bytes 4 22 @ [0, 1, 0, 0, 2, 2] in
   frame_ok f \<and> length (replicate 40 9 :: u8 list) = 40 \<and>
   encode f (replicate 40 9) = Ok (32, header @ be_bytes 8 3 @ be_bytes 8 7 @ replicate 8 9)"
proof -
  let ?f = "ServerPushFrame (ServerPush.MarkerSettled 3 7)"
  have bytes: "frame_bytes ?f = [0x1A, 0] @ be_bytes 4 0 @ be_bytes 4 22 @ [0, 1, 0, 0, 2, 2] @ be_bytes 8 3 @ be_bytes 8 7"
    by (simp add: frame_bytes_def word_bytes PARTICIPANT_FRAME_TYPE_def be_bytes_numeral)
  show ?thesis
    using participant_encode_exact [of ?f "replicate 40 9" 32 "frame_bytes ?f @ drop 32 (replicate 40 9)"] bytes
    by (simp add: frame_fits_def word_bytes)
qed

text \<open>C1: the complete-frame decoder accepts a byte string for a receiver exactly when it is the encoding of a
  well-formed frame addressed to that receiver: \<open>decode\<close> inverts \<open>encode\<close>, and every accepted frame is in
  canonical form, with no trailing bytes, flags, stream number or foreign version.\<close>

theorem participant_decode_exact:
  assumes "length input \<le> USIZE_MAX"
  shows "decode input receiver = Ok f \<longleftrightarrow>
    frame_ok f \<and> receives receiver f \<and> encode f (replicate (length input) 0) = Ok (length input, input)"
proof (cases "frame_ok f")
  case True
  have "encode f (replicate (length input) 0) = Ok (length input, input) \<longleftrightarrow> frame_fits f \<and> input = frame_bytes f"
    using participant_encode_Ok_iff [OF True, of "replicate (length input) 0" "length input" input] assms by auto
  then show ?thesis using True by (auto simp: decode_iff [OF assms])
qed (simp add: decode_iff [OF assms])

theorem participant_decode_exact_witness:
  "let f = ServerPushFrame (ServerPush.MarkerSettled 3 7);
     input = [0x1A, 0] @ be_bytes 4 0 @ be_bytes 4 22 @ [0, 1, 0, 0, 2, 2] @ be_bytes 8 3 @ be_bytes 8 7 in
   length input = 32 \<and> decode input ReceiverDirection.Client = Ok f \<and> decode input ReceiverDirection.Server \<noteq> Ok f"
proof -
  let ?f = "ServerPushFrame (ServerPush.MarkerSettled 3 7)"
  let ?input = "[0x1A, 0] @ be_bytes 4 0 @ be_bytes 4 22 @ [0, 1, 0, 0, 2, 2] @ be_bytes 8 3 @ be_bytes 8 7"
  have "frame_bytes ?f = ?input"
    by (simp add: frame_bytes_def word_bytes PARTICIPANT_FRAME_TYPE_def be_bytes_numeral)
  then have "encode ?f (replicate (length ?input) 0) = Ok (length ?input, ?input)"
    by (subst participant_encode_Ok_iff) (simp_all add: frame_fits_def word_bytes)
  then show ?thesis
    using participant_decode_exact [of ?input _ ?f] by (simp add: Let_def)
qed

text \<open>C10: the inbound gate admits a frame exactly when the bytes decode to it, the complete frame is no longer
  than the limit in force (the negotiated one, or the pre-capability limit), and the connection is
  authenticated with the participant capability negotiated; only a transport rejection that arrives at a
  client passes without them.\<close>

theorem gate_inbound_exact:
  assumes "length input \<le> USIZE_MAX"
  shows "gate_inbound input ctx = Ok f \<longleftrightarrow>
    decode input (igc_receiver ctx) = Ok f \<and> length input \<le> unat (gate_limit (igc_participant_capability ctx)) \<and>
    (is_transport_rejection f \<and> igc_receiver ctx = ReceiverDirection.Client \<or>
     igc_authentication ctx = Authenticated \<and> igc_participant_capability ctx \<noteq> Missing)"
proof -
  let ?limit = "gate_limit (igc_participant_capability ctx)"
  let ?exempt = "is_transport_rejection f \<and> igc_receiver ctx = ReceiverDirection.Client"
  have exempt: "(case (f, igc_receiver ctx) of
      (ServerValueFrame (ServerValue.ParticipantTransportRejected _), ReceiverDirection.Client) \<Rightarrow> True
    | _ \<Rightarrow> False) \<longleftrightarrow> ?exempt"
    by (cases f rule: is_transport_rejection.cases; cases "igc_receiver ctx") simp_all
  show ?thesis
  proof (cases "decode input (igc_receiver ctx) = Ok f")
    case True
    then have f: "input = frame_bytes f" "frame_fits f" using decode_iff [OF assms] by auto
    then have "input \<noteq> [] \<and> hd input = PARTICIPANT_FRAME_TYPE" by (simp add: frame_bytes_def)
    then have "gate_inbound input ctx = (if of_nat (length input) > ?limit
        then Err (gate_rejection (TransportRejectionReason.FrameTooLarge (of_nat (length input)) ?limit))
        else if ?exempt then Ok f
        else if igc_authentication ctx = Unauthenticated then Err (gate_rejection TransportRejectionReason.AuthenticationFailed)
        else if igc_participant_capability ctx = Missing
        then Err (gate_rejection TransportRejectionReason.ParticipantCapabilityRequired) else Ok f)"
      using True f declared_frame_bytes [OF f(2)] exempt by (simp add: gate_inbound_def map_err_def)
    then show ?thesis using True f gate_limit_check [OF f(2)]
      by (cases "igc_authentication ctx") (auto simp: not_less)
  next
    case False
    then show ?thesis by (auto simp: gate_inbound_def Let_def result_simps map_err_def split: if_splits sum.splits)
  qed
qed

theorem gate_inbound_exact_witness:
  "let f = ServerPushFrame (ServerPush.MarkerSettled 3 7);
     input = [0x1A, 0] @ be_bytes 4 0 @ be_bytes 4 22 @ [0, 1, 0, 0, 2, 2] @ be_bytes 8 3 @ be_bytes 8 7;
     ctx = (\<lambda>limit. \<lparr>igc_receiver = ReceiverDirection.Client, igc_authentication = Authenticated,
       igc_participant_capability = Negotiated (capability_v1 (ValidatedFrameLimit limit))\<rparr>) in
   length input = 32 \<and> gate_inbound input (ctx 32) = Ok f \<and> gate_inbound input (ctx 31) \<noteq> Ok f"
proof -
  let ?f = "ServerPushFrame (ServerPush.MarkerSettled 3 7)"
  let ?input = "[0x1A, 0] @ be_bytes 4 0 @ be_bytes 4 22 @ [0, 1, 0, 0, 2, 2] @ be_bytes 8 3 @ be_bytes 8 7"
  have "frame_bytes ?f = ?input"
    by (simp add: frame_bytes_def word_bytes PARTICIPANT_FRAME_TYPE_def be_bytes_numeral)
  then have "decode ?input ReceiverDirection.Client = Ok ?f"
    by (subst decode_iff) (simp_all add: frame_fits_def word_bytes)
  then show ?thesis
    using gate_inbound_exact [of ?input _ ?f] by (simp add: Let_def gate_limit_def capability_v1_def)
qed

end
