(* ===== verification/Durable_State.thy ===== *)
theory Durable_State
  imports Main
begin

text \<open>
  The contract between a stateful component and its durable form: a state that is saved and later
  loaded comes back as its \<open>survivor\<close>, what a crash leaves of it. Loading accepts exactly what was
  saved from a valid state, so histories of saves and crashes stay among valid states and a second
  crash loses nothing more. The participant resume record and the incarnation allocator header are
  instances.
\<close>

locale durable_state =
  fixes valid :: "'s \<Rightarrow> bool" and survivor :: "'s \<Rightarrow> 's"
    and save :: "'s \<Rightarrow> 'b option" and load :: "'b \<Rightarrow> 's option"
  assumes load_save: "valid s \<Longrightarrow> save s = Some b \<Longrightarrow> load b = Some (survivor s)"
    and load_saved: "load b = Some t \<Longrightarrow> \<exists>s. valid s \<and> save s = Some b \<and> t = survivor s"
    and survivor_valid: "valid s \<Longrightarrow> valid (survivor s)"
    and survivor_idem: "valid s \<Longrightarrow> survivor (survivor s) = survivor s"
begin

lemma load_iff: "load b = Some t \<longleftrightarrow> (\<exists>s. valid s \<and> save s = Some b \<and> t = survivor s)"
  using load_save load_saved by blast

lemma load_valid: "load b = Some t \<Longrightarrow> valid t"
  using load_saved survivor_valid by blast

text \<open>Saving a loaded state and loading it again changes nothing.\<close>

lemma reload: "load b = Some t \<Longrightarrow> save t = Some c \<Longrightarrow> load c = Some t"
  using load_save load_saved load_valid survivor_idem by metis

text \<open>Two valid states with the same saved form are indistinguishable after a crash.\<close>

lemma save_survivor: "valid s \<Longrightarrow> valid t \<Longrightarrow> save s = Some b \<Longrightarrow> save t = Some b \<Longrightarrow> survivor s = survivor t"
  using load_save by (metis option.inject)

end

end
