(* ===== verification/Incarnation.thy ===== *)
theory Incarnation
  imports Wire_Types Durable_State
begin

text \<open>
  Connection-incarnation allocation (\<open>liminal-protocol/src/lifecycle/incarnation.rs\<close>): the durable
  allocator header and its validation, the checked startup increment, the bounded reference
  collection, and the collision-skipping allocation loop. The lemmas describe the loop exactly, and a
  run of restarts, startups and allocations publishes strictly increasing pairs.
\<close>

section \<open>Durable header\<close>

record ConnectionIncarnationAllocatorRestore =
  ciar_server_incarnation :: u64
  ciar_last_examined_connection_ordinal :: "u64 option"
  ciar_connection_ordinal_exhausted :: bool

datatype (plugins only: code size) ConnectionIncarnationAllocatorRestoreError =
  OrdinalExhaustionMismatch "u64 option" bool

record ConnectionIncarnationAllocator =
  cia_server_incarnation :: u64
  cia_last_examined_connection_ordinal :: "u64 option"
  cia_connection_ordinal_exhausted :: bool

datatype (plugins only: code size) ConnectionIncarnationExhausted =
    ServerIncarnation
  | ConnectionOrdinal u64

definition allocator_try_restore ::
  "ConnectionIncarnationAllocatorRestore \<Rightarrow>
    (ConnectionIncarnationAllocatorRestoreError, ConnectionIncarnationAllocator) result" where
  "allocator_try_restore restored =
    (let examined_max = (ciar_last_examined_connection_ordinal restored = Some (- 1)) in
     if examined_max \<noteq> ciar_connection_ordinal_exhausted restored
     then Err (OrdinalExhaustionMismatch (ciar_last_examined_connection_ordinal restored)
       (ciar_connection_ordinal_exhausted restored))
     else Ok \<lparr>cia_server_incarnation = ciar_server_incarnation restored,
       cia_last_examined_connection_ordinal = ciar_last_examined_connection_ordinal restored,
       cia_connection_ordinal_exhausted = ciar_connection_ordinal_exhausted restored\<rparr>)"

definition as_restore :: "ConnectionIncarnationAllocator \<Rightarrow> ConnectionIncarnationAllocatorRestore" where
  "as_restore a =
    \<lparr>ciar_server_incarnation = cia_server_incarnation a,
     ciar_last_examined_connection_ordinal = cia_last_examined_connection_ordinal a,
     ciar_connection_ordinal_exhausted = cia_connection_ordinal_exhausted a\<rparr>"

section \<open>Startup\<close>

record ServerIncarnationFsyncIntent =
  sfi_prior_server_incarnation :: u64
  sfi_resulting :: ConnectionIncarnationAllocator

record ServerIncarnationExhaustion =
  sie_unchanged :: ConnectionIncarnationAllocator

datatype (plugins only: code size) ServerIncarnationStartupDecision =
    Fsync ServerIncarnationFsyncIntent
  | StartupExhausted ServerIncarnationExhaustion

definition prepare_server_incarnation_startup ::
  "ConnectionIncarnationAllocator \<Rightarrow> ServerIncarnationStartupDecision" where
  "prepare_server_incarnation_startup persisted =
    (case checked_add (cia_server_incarnation persisted) 1 of
       None \<Rightarrow> StartupExhausted \<lparr>sie_unchanged = persisted\<rparr>
     | Some server_incarnation \<Rightarrow>
         Fsync \<lparr>sfi_prior_server_incarnation = cia_server_incarnation persisted,
           sfi_resulting =
             \<lparr>cia_server_incarnation = server_incarnation,
              cia_last_examined_connection_ordinal = None,
              cia_connection_ordinal_exhausted = False\<rparr>\<rparr>)"

definition complete_after_fsync :: "ServerIncarnationFsyncIntent \<Rightarrow> ConnectionIncarnationAllocator" where
  "complete_after_fsync intent = sfi_resulting intent"

definition header_to_fsync :: "ServerIncarnationFsyncIntent \<Rightarrow> ConnectionIncarnationAllocatorRestore" where
  "header_to_fsync intent = as_restore (sfi_resulting intent)"

section \<open>Durable references\<close>

datatype (plugins only: code size) DurableIncarnationReferencesError =
  ReferenceCountExceedsBound nat nat

record DurableIncarnationReferences =
  dir_values :: "ConnectionIncarnation list"

definition references_try_new ::
  "ConnectionIncarnation list \<Rightarrow> nat \<Rightarrow>
    (DurableIncarnationReferencesError, DurableIncarnationReferences) result" where
  "references_try_new values maximum =
    (if length values > maximum then Err (ReferenceCountExceedsBound (length values) maximum)
     else Ok \<lparr>dir_values = values\<rparr>)"

fun collides_scan :: "ConnectionIncarnation list \<Rightarrow> ConnectionIncarnation \<Rightarrow> bool" where
  "collides_scan [] candidate = False"
| "collides_scan (reference # values) candidate =
    (if ci_server_incarnation reference = ci_server_incarnation candidate
        \<and> ci_connection_ordinal reference = ci_connection_ordinal candidate
     then True else collides_scan values candidate)"

definition collides :: "DurableIncarnationReferences \<Rightarrow> ConnectionIncarnation \<Rightarrow> bool" where
  "collides references candidate = collides_scan (dir_values references) candidate"

section \<open>Allocation\<close>

record ConnectionIncarnationAllocation =
  alc_connection_incarnation :: ConnectionIncarnation
  alc_skipped_collisions :: nat
  alc_resulting :: ConnectionIncarnationAllocator

record ConnectionOrdinalExhaustionCommit =
  oec_skipped_collisions :: nat
  oec_resulting :: ConnectionIncarnationAllocator

datatype (plugins only: code size) ConnectionOrdinalExhaustion =
    MarkExhausted ConnectionOrdinalExhaustionCommit
  | AlreadyExhausted ConnectionIncarnationAllocator

datatype (plugins only: code size) ConnectionIncarnationAllocationDecision =
    Allocated ConnectionIncarnationAllocation
  | Exhausted ConnectionOrdinalExhaustion

fun ordinal_exhaustion_outcome :: "ConnectionOrdinalExhaustion \<Rightarrow> ConnectionIncarnationExhausted" where
  "ordinal_exhaustion_outcome (MarkExhausted commit) =
    ConnectionOrdinal (cia_server_incarnation (oec_resulting commit))"
| "ordinal_exhaustion_outcome (AlreadyExhausted unchanged) =
    ConnectionOrdinal (cia_server_incarnation unchanged)"

fun ordinal_exhaustion_resulting :: "ConnectionOrdinalExhaustion \<Rightarrow> ConnectionIncarnationAllocator" where
  "ordinal_exhaustion_resulting (MarkExhausted commit) = oec_resulting commit"
| "ordinal_exhaustion_resulting (AlreadyExhausted unchanged) = unchanged"

text \<open>The \<open>loop\<close> of \<open>allocate_connection_incarnation\<close>, from one candidate ordinal on.\<close>

function allocate_from :: "ConnectionIncarnationAllocator \<Rightarrow> DurableIncarnationReferences \<Rightarrow> u64 \<Rightarrow> nat
    \<Rightarrow> ConnectionIncarnationAllocationDecision" where
  "allocate_from allocator references candidate_ordinal skipped_collisions =
    (let candidate = \<lparr>ci_server_incarnation = cia_server_incarnation allocator,
                      ci_connection_ordinal = candidate_ordinal\<rparr> in
     if \<not> collides references candidate
     then Allocated \<lparr>alc_connection_incarnation = candidate,
       alc_skipped_collisions = skipped_collisions,
       alc_resulting =
         \<lparr>cia_server_incarnation = cia_server_incarnation allocator,
          cia_last_examined_connection_ordinal = Some candidate_ordinal,
          cia_connection_ordinal_exhausted = (candidate_ordinal = - 1)\<rparr>\<rparr>
     else if candidate_ordinal = - 1
     then Exhausted (MarkExhausted \<lparr>oec_skipped_collisions = skipped_collisions + 1,
       oec_resulting =
         \<lparr>cia_server_incarnation = cia_server_incarnation allocator,
          cia_last_examined_connection_ordinal = Some (- 1),
          cia_connection_ordinal_exhausted = True\<rparr>\<rparr>)
     else allocate_from allocator references (candidate_ordinal + 1) (skipped_collisions + 1))"
  by pat_completeness auto

text \<open>\<open>candidate_ordinal += 1\<close> is guarded by the \<open>u64::MAX\<close> test, so the distance to the top shrinks.\<close>

lemma unat_max_ordinal: "c = (- 1 :: u64) \<longleftrightarrow> unat c = U64_MAX"
  by (simp add: word_unat_eq_iff unsigned_minus_1_eq_mask mask_eq_exp_minus_1)

lemma unat_succ_ordinal: "c \<noteq> - 1 \<Longrightarrow> unat (c + 1 :: u64) = unat c + 1"
  using unat_max_ordinal [of c] unat_u64_less [of c] unat_add_lem [of c 1] by simp

lemma ordinal_distance: "c \<noteq> - 1 \<Longrightarrow> U64_MAX - unat (c + 1 :: u64) < U64_MAX - unat c"
  using unat_succ_ordinal [of c] unat_max_ordinal [of c] unat_u64_less [of c] by simp

termination allocate_from
  by (relation "measure (\<lambda>(_, _, c, _). U64_MAX - unat c)") (use ordinal_distance in auto)

declare allocate_from.simps [simp del]

definition allocate_connection_incarnation ::
  "ConnectionIncarnationAllocator \<Rightarrow> DurableIncarnationReferences
    \<Rightarrow> ConnectionIncarnationAllocationDecision" where
  "allocate_connection_incarnation allocator references =
    (if cia_connection_ordinal_exhausted allocator then Exhausted (AlreadyExhausted allocator)
     else
       let next_candidate = (case cia_last_examined_connection_ordinal allocator of
           None \<Rightarrow> Some 0
         | Some last_examined \<Rightarrow> checked_add last_examined 1) in
       case next_candidate of
         None \<Rightarrow> Exhausted (AlreadyExhausted allocator)
       | Some candidate_ordinal \<Rightarrow> allocate_from allocator references candidate_ordinal 0)"

section \<open>Restarts and allocations\<close>

text \<open>The life of one durable header: a (re)start restores it, increments the server incarnation and
  fsyncs the result; an allocation persists its resulting header with the publication of the pair. A
  crash is a restart taken from any state, which keeps only the header.\<close>

inductive incarnation_run ::
  "ConnectionIncarnationAllocatorRestore \<Rightarrow> ConnectionIncarnationAllocatorRestore
    \<Rightarrow> ConnectionIncarnationAllocator option \<Rightarrow> ConnectionIncarnation list \<Rightarrow> bool" for initial where
  run_initial: "allocator_try_restore initial = Ok a \<Longrightarrow> incarnation_run initial initial None []"
| run_start: "incarnation_run initial header running published \<Longrightarrow>
    allocator_try_restore header = Ok a \<Longrightarrow> prepare_server_incarnation_startup a = Fsync intent \<Longrightarrow>
    incarnation_run initial (header_to_fsync intent) (Some (complete_after_fsync intent)) published"
| run_allocate: "incarnation_run initial header (Some a) published \<Longrightarrow>
    allocate_connection_incarnation a references = Allocated d \<Longrightarrow>
    incarnation_run initial (as_restore (alc_resulting d)) (Some (alc_resulting d))
      (published @ [alc_connection_incarnation d])"
| run_exhausted: "incarnation_run initial header (Some a) published \<Longrightarrow>
    allocate_connection_incarnation a references = Exhausted e \<Longrightarrow>
    incarnation_run initial (as_restore (ordinal_exhaustion_resulting e))
      (Some (ordinal_exhaustion_resulting e)) published"

section \<open>Lemmas\<close>

definition allocator_ok :: "ConnectionIncarnationAllocator \<Rightarrow> bool" where
  "allocator_ok a \<longleftrightarrow>
    (cia_last_examined_connection_ordinal a = Some (- 1) \<longleftrightarrow> cia_connection_ordinal_exhausted a)"

definition incarnation_at :: "ConnectionIncarnationAllocator \<Rightarrow> u64 \<Rightarrow> ConnectionIncarnation" where
  "incarnation_at a i = \<lparr>ci_server_incarnation = cia_server_incarnation a, ci_connection_ordinal = i\<rparr>"

definition examined_up_to :: "ConnectionIncarnationAllocator \<Rightarrow> u64 \<Rightarrow> ConnectionIncarnationAllocator" where
  "examined_up_to a i =
    \<lparr>cia_server_incarnation = cia_server_incarnation a,
     cia_last_examined_connection_ordinal = Some i,
     cia_connection_ordinal_exhausted = (i = - 1)\<rparr>"

text \<open>The number of ordinals already behind the allocator, and the ordinals still ahead of it.\<close>

definition examined :: "ConnectionIncarnationAllocator \<Rightarrow> nat" where
  "examined a = (case cia_last_examined_connection_ordinal a of None \<Rightarrow> 0 | Some l \<Rightarrow> unat l + 1)"

definition least_free :: "ConnectionIncarnationAllocator \<Rightarrow> DurableIncarnationReferences \<Rightarrow> u64 \<Rightarrow> bool" where
  "least_free a references i \<longleftrightarrow> examined a \<le> unat i \<and> \<not> collides references (incarnation_at a i)
    \<and> (\<forall>j. examined a \<le> unat j \<and> j < i \<longrightarrow> collides references (incarnation_at a j))"

lemma collides_iff: "collides references x \<longleftrightarrow> x \<in> set (dir_values references)"
proof -
  have "collides_scan values x \<longleftrightarrow> x \<in> set values" for "values"
    by (induction "values") (auto intro: ConnectionIncarnation.equality)
  then show ?thesis by (simp add: collides_def)
qed

lemma le_succ_ordinal: "c \<noteq> - 1 \<Longrightarrow> (c + 1 \<le> (j :: u64)) \<longleftrightarrow> c \<le> j \<and> j \<noteq> c"
  by (auto simp: word_le_nat_alt unat_succ_ordinal le_neq_implies_less intro: unat_eqI)

lemma allocate_from_Allocated:
  "allocate_from a references c k = Allocated d \<Longrightarrow>
    \<exists>i. c \<le> i \<and> \<not> collides references (incarnation_at a i)
      \<and> (\<forall>j. c \<le> j \<and> j < i \<longrightarrow> collides references (incarnation_at a j))
      \<and> d = \<lparr>alc_connection_incarnation = incarnation_at a i,
             alc_skipped_collisions = k + (unat i - unat c), alc_resulting = examined_up_to a i\<rparr>"
proof (induction a references c k rule: allocate_from.induct)
  case (1 a references c k)
  show ?case
  proof (cases "collides references (incarnation_at a c)")
    case False
    then show ?thesis using "1.prems"
      by (intro exI [of _ c])
        (auto simp: allocate_from.simps [of _ _ c] Let_def incarnation_at_def examined_up_to_def)
  next
    case True
    then have top: "c \<noteq> - 1"
      and rec: "allocate_from a references (c + 1) (k + 1) = Allocated d"
      using "1.prems" by (auto simp: allocate_from.simps [of _ _ c] Let_def incarnation_at_def split: if_splits)
    obtain i where i: "c + 1 \<le> i" "\<not> collides references (incarnation_at a i)"
      "\<forall>j. c + 1 \<le> j \<and> j < i \<longrightarrow> collides references (incarnation_at a j)"
      "d = \<lparr>alc_connection_incarnation = incarnation_at a i,
             alc_skipped_collisions = k + 1 + (unat i - unat (c + 1)), alc_resulting = examined_up_to a i\<rparr>"
      using "1.IH" [OF refl _ top rec] True by (auto simp: incarnation_at_def)
    have "k + 1 + (unat i - unat (c + 1)) = k + (unat i - unat c)"
      using i(1) top by (simp add: word_le_nat_alt unat_succ_ordinal)
    then show ?thesis using i True top by (intro exI [of _ i]) (auto simp: le_succ_ordinal)
  qed
qed

lemma allocate_from_Exhausted:
  "allocate_from a references c k = Exhausted e \<Longrightarrow>
    (\<forall>j. c \<le> j \<longrightarrow> collides references (incarnation_at a j))
    \<and> ordinal_exhaustion_resulting e = examined_up_to a (- 1)"
proof (induction a references c k rule: allocate_from.induct)
  case (1 a references c k)
  have hit: "collides references (incarnation_at a c)"
    using "1.prems" by (auto simp: allocate_from.simps [of _ _ c] Let_def incarnation_at_def split: if_splits)
  show ?case
  proof (cases "c = - 1")
    case True
    then show ?thesis using "1.prems" hit
      by (auto simp: allocate_from.simps [of _ _ "- 1"] Let_def incarnation_at_def examined_up_to_def
          word_order.extremum_unique)
  next
    case False
    then have rec: "allocate_from a references (c + 1) (k + 1) = Exhausted e"
      using "1.prems" hit by (auto simp: allocate_from.simps [of _ _ c] Let_def incarnation_at_def)
    show ?thesis using "1.IH" [OF refl _ False rec] hit False
      by (auto simp: incarnation_at_def le_succ_ordinal)
  qed
qed

lemma allocate_from_total:
  "(\<exists>d. allocate_from a references c k = Allocated d) \<or> (\<exists>e. allocate_from a references c k = Exhausted e)"
  by (cases "allocate_from a references c k") auto

text \<open>A valid allocator either is exhausted or continues the loop one past its last ordinal.\<close>

lemma allocate_open:
  assumes "allocator_ok a" "\<not> cia_connection_ordinal_exhausted a"
  shows "\<exists>c. unat c = examined a \<and> allocate_connection_incarnation a references = allocate_from a references c 0"
proof (cases "cia_last_examined_connection_ordinal a")
  case None
  then show ?thesis using assms by (auto simp: allocate_connection_incarnation_def examined_def intro!: exI [of _ 0])
next
  case (Some l)
  then have "l \<noteq> - 1" using assms by (auto simp: allocator_ok_def)
  moreover have "checked_add l 1 = Some (l + 1)"
    using unat_max_ordinal [of l] \<open>l \<noteq> - 1\<close> unat_u64_less [of l] by (simp add: checked_add_def)
  ultimately show ?thesis using assms Some
    by (auto simp: allocate_connection_incarnation_def examined_def unat_succ_ordinal intro!: exI [of _ "l + 1"])
qed

lemma examined_exhausted:
  "allocator_ok a \<Longrightarrow> cia_connection_ordinal_exhausted a \<Longrightarrow> examined a = U64_MAX + 1"
  using unat_max_ordinal [of "- 1"] by (simp add: allocator_ok_def examined_def)

lemma least_free_unique: "least_free a references i \<Longrightarrow> least_free a references j \<Longrightarrow> i = j"
  by (metis least_free_def linorder_cases)

lemma allocate_cases:
  assumes ok: "allocator_ok a"
  shows "(\<exists>i. least_free a references i \<and> allocate_connection_incarnation a references =
        Allocated \<lparr>alc_connection_incarnation = incarnation_at a i,
          alc_skipped_collisions = unat i - examined a, alc_resulting = examined_up_to a i\<rparr>)
    \<or> (\<forall>i. examined a \<le> unat i \<longrightarrow> collides references (incarnation_at a i))
      \<and> (\<exists>e. allocate_connection_incarnation a references = Exhausted e
          \<and> ordinal_exhaustion_resulting e =
              (if cia_connection_ordinal_exhausted a then a else examined_up_to a (- 1)))"
proof (cases "cia_connection_ordinal_exhausted a")
  case True
  have "\<not> examined a \<le> unat i" for i :: u64
    using examined_exhausted [OF ok True] unat_u64_less [of i] by simp
  then show ?thesis using True by (auto simp: allocate_connection_incarnation_def)
next
  case False
  obtain c where c: "unat c = examined a"
    "allocate_connection_incarnation a references = allocate_from a references c 0"
    using allocate_open [OF ok False] by auto
  have ahead: "examined a \<le> unat i \<longleftrightarrow> c \<le> i" for i :: u64
    using c(1) by (simp add: word_le_nat_alt)
  show ?thesis
  proof (cases "allocate_from a references c 0")
    case (Allocated d)
    then show ?thesis using allocate_from_Allocated [OF Allocated] c
      by (auto simp: least_free_def ahead)
  next
    case (Exhausted e)
    then show ?thesis using allocate_from_Exhausted [OF Exhausted] c False by (auto simp: ahead)
  qed
qed

lemma least_free_skipped:
  assumes "least_free a references i"
  shows "unat i - examined a \<le> length (dir_values references)"
proof -
  let ?passed = "incarnation_at a ` of_nat ` {examined a..<unat i}"
  have small: "n < unat i \<Longrightarrow> unat (of_nat n :: u64) = n" for n
    using unat_u64_less [of i] by (simp add: unat_of_nat take_bit_nat_eq_self)
  have "?passed \<subseteq> set (dir_values references)"
    using assms small by (auto simp: least_free_def collides_iff word_less_nat_alt)
  moreover have "inj_on (incarnation_at a \<circ> of_nat) {examined a..<unat i}"
    by (rule inj_onI) (metis small atLeastLessThan_iff comp_apply incarnation_at_def
        ConnectionIncarnation.ext_inject)
  then have "card ?passed = unat i - examined a"
    using card_image [of "incarnation_at a \<circ> of_nat" "{examined a..<unat i}"] by (simp add: image_comp)
  ultimately show ?thesis
    by (metis List.finite_set card_length card_mono le_trans)
qed

lemma restore_ok_iff: "allocator_try_restore (as_restore a) = Ok b \<longleftrightarrow> allocator_ok a \<and> b = a"
  by (auto simp: allocator_try_restore_def as_restore_def allocator_ok_def Let_def)

lemma try_restore_Ok: "allocator_try_restore h = Ok a \<Longrightarrow> allocator_ok a \<and> h = as_restore a"
  by (auto simp: allocator_try_restore_def as_restore_def allocator_ok_def Let_def split: if_splits)

text \<open>The header is a durable state that survives whole.\<close>

definition restore_header :: "ConnectionIncarnationAllocatorRestore \<Rightarrow> ConnectionIncarnationAllocator option" where
  "restore_header h = (case allocator_try_restore h of Inr a \<Rightarrow> Some a | Inl _ \<Rightarrow> None)"

interpretation header: durable_state allocator_ok "\<lambda>a. a" "\<lambda>a. Some (as_restore a)" restore_header
proof
  show "allocator_ok a \<Longrightarrow> Some (as_restore a) = Some h \<Longrightarrow> restore_header h = Some a" for a h
    using restore_ok_iff [of a a] by (auto simp: restore_header_def)
  show "restore_header h = Some a \<Longrightarrow> \<exists>s. allocator_ok s \<and> Some (as_restore s) = Some h \<and> a = s" for h a
    using try_restore_Ok [of h a] by (auto simp: restore_header_def split: sum.splits)
qed simp_all

lemma examined_up_to_ok [simp]: "allocator_ok (examined_up_to a i)"
  by (auto simp: allocator_ok_def examined_up_to_def)

definition earlier :: "ConnectionIncarnation \<Rightarrow> ConnectionIncarnation \<Rightarrow> bool" where
  "earlier x y \<longleftrightarrow> ci_server_incarnation x < ci_server_incarnation y
    \<or> ci_server_incarnation x = ci_server_incarnation y \<and> ci_connection_ordinal x < ci_connection_ordinal y"

text \<open>What the durable header knows about a published pair: it lies behind the header.\<close>

definition behind :: "ConnectionIncarnationAllocatorRestore \<Rightarrow> ConnectionIncarnation \<Rightarrow> bool" where
  "behind h x \<longleftrightarrow> ci_server_incarnation x < ciar_server_incarnation h
    \<or> ci_server_incarnation x = ciar_server_incarnation h
      \<and> (\<exists>l. ciar_last_examined_connection_ordinal h = Some l \<and> ci_connection_ordinal x \<le> l)"

definition run_invariant ::
  "ConnectionIncarnationAllocatorRestore \<Rightarrow> ConnectionIncarnationAllocatorRestore
    \<Rightarrow> ConnectionIncarnationAllocator option \<Rightarrow> ConnectionIncarnation list \<Rightarrow> bool" where
  "run_invariant initial h running published \<longleftrightarrow>
    (\<exists>a. allocator_ok a \<and> h = as_restore a \<and> (running = None \<or> running = Some a))
    \<and> ciar_server_incarnation initial \<le> ciar_server_incarnation h
    \<and> (published = [] \<and> running = None \<or> ciar_server_incarnation initial < ciar_server_incarnation h)
    \<and> sorted_wrt earlier published \<and> (\<forall>x\<in>set published. behind h x)
    \<and> (\<forall>x\<in>set published. ciar_server_incarnation initial < ci_server_incarnation x)"

lemma start_server:
  assumes "prepare_server_incarnation_startup a = Fsync intent"
  shows "cia_server_incarnation a < cia_server_incarnation (sfi_resulting intent)
    \<and> allocator_ok (sfi_resulting intent)"
  using assms checked_add_unat [of "cia_server_incarnation a" 1]
  by (auto simp: prepare_server_incarnation_startup_def allocator_ok_def word_less_nat_alt
      split: option.splits)

lemma behind_start:
  "behind (as_restore a) x \<Longrightarrow> prepare_server_incarnation_startup a = Fsync intent \<Longrightarrow>
    behind (header_to_fsync intent) x"
  using start_server [of a intent]
  by (auto simp: behind_def header_to_fsync_def as_restore_def)

lemma examined_less: "examined a \<le> unat i \<Longrightarrow> cia_last_examined_connection_ordinal a = Some l \<Longrightarrow> l < i"
  by (simp add: examined_def word_less_nat_alt)

lemma behind_advance:
  assumes "examined a \<le> unat i" "behind (as_restore a) x"
  shows "behind (as_restore (examined_up_to a i)) x" "earlier x (incarnation_at a i)"
  using assms examined_less [OF assms(1)]
  by (auto simp: behind_def earlier_def as_restore_def examined_up_to_def incarnation_at_def)

lemma header_fields [simp]:
  "ciar_server_incarnation (as_restore a) = cia_server_incarnation a"
  "cia_server_incarnation (examined_up_to a i) = cia_server_incarnation a"
  "ci_server_incarnation (incarnation_at a i) = cia_server_incarnation a"
  "behind (as_restore (examined_up_to a i)) (incarnation_at a i)"
  by (simp_all add: as_restore_def examined_up_to_def incarnation_at_def behind_def)

lemma run_invariant_holds:
  "incarnation_run initial h running published \<Longrightarrow> run_invariant initial h running published"
proof (induction rule: incarnation_run.induct)
  case (run_initial a)
  then show ?case using try_restore_Ok by (auto simp: run_invariant_def)
next
  case (run_start header running published a intent)
  have header: "header = as_restore a"
    using run_start.hyps(2) header.load_saved [of header a] by (simp add: restore_header_def)
  have "ciar_server_incarnation initial < ciar_server_incarnation (header_to_fsync intent)"
    using run_start.IH start_server [OF run_start.hyps(3)] header
    by (auto simp: run_invariant_def header_to_fsync_def as_restore_def)
  then show ?case
    using run_start.IH start_server [OF run_start.hyps(3)] behind_start [OF _ run_start.hyps(3)] header
    by (auto simp: run_invariant_def header_to_fsync_def complete_after_fsync_def)
next
  case (run_allocate header a published references d)
  then have inv: "allocator_ok a" "header = as_restore a" by (auto simp: run_invariant_def)
  obtain i where i: "least_free a references i" "d = \<lparr>alc_connection_incarnation = incarnation_at a i,
      alc_skipped_collisions = unat i - examined a, alc_resulting = examined_up_to a i\<rparr>"
    using allocate_cases [OF inv(1), of references] run_allocate.hyps(2) by auto
  then show ?case using run_allocate.IH inv behind_advance [of a i]
    by (auto simp: run_invariant_def least_free_def sorted_wrt_append)
next
  case (run_exhausted header a published references e)
  then have inv: "allocator_ok a" "header = as_restore a" by (auto simp: run_invariant_def)
  have same: "cia_connection_ordinal_exhausted a \<Longrightarrow> ordinal_exhaustion_resulting e = a"
    and top: "\<not> cia_connection_ordinal_exhausted a \<Longrightarrow> ordinal_exhaustion_resulting e = examined_up_to a (- 1)"
    using allocate_cases [OF inv(1), of references] run_exhausted.hyps(2) by auto
  show ?case
  proof (cases "cia_connection_ordinal_exhausted a")
    case True
    then show ?thesis using run_exhausted.IH inv same by (auto simp: run_invariant_def)
  next
    case False
    have "behind header x \<Longrightarrow> behind (as_restore (examined_up_to a (- 1))) x" for x
      using inv by (auto simp: behind_def as_restore_def examined_up_to_def)
    then show ?thesis using run_exhausted.IH top [OF False] inv
      by (auto simp: run_invariant_def)
  qed
qed

section \<open>Properties\<close>

text \<open>C38: For a valid header, allocation returns exactly the least ordinal of the current server
  incarnation that is past every examined one and named by no live or durable reference, with the
  number of collisions it skipped (never more than the references supplied) and the header advanced
  to that ordinal; it reports exhaustion if and only if every remaining ordinal is referenced.\<close>

theorem allocate_least_free:
  assumes "allocator_ok a"
  shows "(allocate_connection_incarnation a references = Allocated d \<longleftrightarrow>
        (\<exists>i. least_free a references i
          \<and> d = \<lparr>alc_connection_incarnation = incarnation_at a i,
                 alc_skipped_collisions = unat i - examined a, alc_resulting = examined_up_to a i\<rparr>
          \<and> alc_skipped_collisions d \<le> length (dir_values references)))
    \<and> ((\<exists>e. allocate_connection_incarnation a references = Exhausted e) \<longleftrightarrow>
        (\<forall>i. examined a \<le> unat i \<longrightarrow> incarnation_at a i \<in> set (dir_values references)))"
proof -
  have none: "\<not> least_free a references i" if "\<forall>i. examined a \<le> unat i \<longrightarrow> collides references (incarnation_at a i)" for i
    using that by (auto simp: least_free_def)
  have some: "\<not> (\<forall>i. examined a \<le> unat i \<longrightarrow> collides references (incarnation_at a i))" if "least_free a references i" for i
    using that by (auto simp: least_free_def)
  show ?thesis
    using allocate_cases [OF assms, of references] none some least_free_skipped [of a references]
    by (auto simp: collides_iff [symmetric] dest: least_free_unique)
qed

theorem allocate_least_free_witness:
  "allocate_connection_incarnation
      \<lparr>cia_server_incarnation = 7, cia_last_examined_connection_ordinal = Some 2,
       cia_connection_ordinal_exhausted = False\<rparr>
      \<lparr>dir_values = [\<lparr>ci_server_incarnation = 7, ci_connection_ordinal = 3\<rparr>,
         \<lparr>ci_server_incarnation = 6, ci_connection_ordinal = 4\<rparr>]\<rparr>
    = Allocated \<lparr>alc_connection_incarnation = \<lparr>ci_server_incarnation = 7, ci_connection_ordinal = 4\<rparr>,
        alc_skipped_collisions = 1,
        alc_resulting = \<lparr>cia_server_incarnation = 7, cia_last_examined_connection_ordinal = Some 4,
          cia_connection_ordinal_exhausted = False\<rparr>\<rparr>"
proof -
  let ?a = "\<lparr>cia_server_incarnation = 7, cia_last_examined_connection_ordinal = Some 2,
       cia_connection_ordinal_exhausted = False\<rparr> :: ConnectionIncarnationAllocator"
  let ?r = "\<lparr>dir_values = [\<lparr>ci_server_incarnation = 7, ci_connection_ordinal = 3\<rparr>,
         \<lparr>ci_server_incarnation = 6, ci_connection_ordinal = 4\<rparr>]\<rparr> :: DurableIncarnationReferences"
  have ok: "allocator_ok ?a" by (simp add: allocator_ok_def)
  have free: "least_free ?a ?r 4"
  proof -
    have "j = 3" if "3 \<le> unat j" "j < 4" for j :: u64
      using that by (intro unat_eqI) (simp add: word_less_nat_alt)
    then show ?thesis by (auto simp: least_free_def collides_iff examined_def incarnation_at_def)
  qed
  show ?thesis using allocate_least_free [OF ok, of ?r] free
    by (auto simp: incarnation_at_def examined_def examined_up_to_def)
qed

text \<open>C5: However restarts, crashes, startups and allocations interleave, every header they leave
  behind is one a restart accepts, the published pairs strictly increase (server incarnation first,
  then ordinal) and therefore never repeat, and none of them reuses a server incarnation at or below
  the header the history began with.\<close>

theorem incarnation_never_reused:
  assumes "incarnation_run initial h running published"
  shows "is_ok (allocator_try_restore h) \<and> sorted_wrt earlier published \<and> distinct published
    \<and> (\<forall>x\<in>set published. ciar_server_incarnation initial < ci_server_incarnation x)"
proof -
  have inv: "run_invariant initial h running published" by (rule run_invariant_holds [OF assms])
  have "sorted_wrt earlier xs \<Longrightarrow> distinct xs" for xs
    by (induction xs) (auto simp: earlier_def)
  then show ?thesis using inv by (auto simp: run_invariant_def is_ok_iff restore_ok_iff)
qed

theorem incarnation_never_reused_witness:
  "\<exists>h r. incarnation_run \<lparr>ciar_server_incarnation = 6, ciar_last_examined_connection_ordinal = None,
        ciar_connection_ordinal_exhausted = False\<rparr> h r
        [\<lparr>ci_server_incarnation = 7, ci_connection_ordinal = 0\<rparr>]
    \<and> is_ok (allocator_try_restore h)"
proof -
  let ?h = "\<lparr>ciar_server_incarnation = 6, ciar_last_examined_connection_ordinal = None,
        ciar_connection_ordinal_exhausted = False\<rparr> :: ConnectionIncarnationAllocatorRestore"
  let ?a = "\<lparr>cia_server_incarnation = 7, cia_last_examined_connection_ordinal = None,
        cia_connection_ordinal_exhausted = False\<rparr> :: ConnectionIncarnationAllocator"
  have "incarnation_run ?h ?h None []"
    by (rule run_initial) (simp add: allocator_try_restore_def)
  then have started: "incarnation_run ?h (as_restore ?a) (Some ?a) []"
    using run_start [where intent = "\<lparr>sfi_prior_server_incarnation = 6, sfi_resulting = ?a\<rparr>"
        and a = "\<lparr>cia_server_incarnation = 6, cia_last_examined_connection_ordinal = None,
          cia_connection_ordinal_exhausted = False\<rparr>"]
    by (auto simp: allocator_try_restore_def prepare_server_incarnation_startup_def checked_add_def
        header_to_fsync_def complete_after_fsync_def)
  have "\<exists>h r. incarnation_run ?h h r [\<lparr>ci_server_incarnation = 7, ci_connection_ordinal = 0\<rparr>]"
    using run_allocate [OF started, of "\<lparr>dir_values = []\<rparr>"]
    by (auto simp: allocate_connection_incarnation_def allocate_from.simps collides_def Let_def)
  then show ?thesis using incarnation_never_reused by blast
qed

end
