(* ===== verification/Client_Correlation.thy ===== *)
theory Client_Correlation
  imports Wire_Values
begin

text \<open>
  Request/response correlation of the client participant (\<open>liminal-protocol/src/client/correlation.rs\<close>):
  the key of an outbound request, the key a server value carries on the wire, and the two exceptions,
  settlement refusals (correlated by family and conversation) and observer recovery (correlated by the
  echoed list). The helper functions carry the source's names with the suffix \<open>_key\<close>. The lemmas show
  which values can answer a detach, and that a keyed answer determines the request class.
\<close>

section \<open>Request keys\<close>

datatype (plugins only: code size) RequestKey =
    Unsolicited
  | ObserverRecovery u64
  | Enrollment u64 EnrollmentToken
  | Attach u64 u64 Generation AttachAttemptToken "u64 option"
  | Detach u64 u64 Generation DetachAttemptToken
  | Ack u64 u64 Generation u64
  | Leave u64 u64 Generation LeaveAttemptToken
  | MarkerAck u64 u64 Generation u64
  | Record u64 u64 Generation RecordAdmissionAttemptToken

fun from_request :: "ClientRequest \<Rightarrow> u64 \<Rightarrow> RequestKey" where
  "from_request (ClientRequest.Enrollment v) authorization =
    RequestKey.Enrollment (er_conversation_id v) (er_enrollment_token v)"
| "from_request (ClientRequest.CredentialAttach v) authorization =
    RequestKey.Attach (car_conversation_id v) (car_participant_id v) (car_capability_generation v)
      (car_attach_attempt_token v) (car_accept_marker_delivery_seq v)"
| "from_request (ClientRequest.Detach v) authorization =
    RequestKey.Detach (dr_conversation_id v) (dr_participant_id v) (dr_capability_generation v)
      (dr_detach_attempt_token v)"
| "from_request (ClientRequest.ParticipantAck v) authorization =
    RequestKey.Ack (pa_conversation_id v) (pa_participant_id v) (pa_capability_generation v)
      (pa_through_seq v)"
| "from_request (ClientRequest.Leave v) authorization =
    RequestKey.Leave (lr_conversation_id v) (lr_participant_id v) (lr_capability_generation v)
      (lr_leave_attempt_token v)"
| "from_request (ClientRequest.MarkerAck v) authorization =
    RequestKey.MarkerAck (ma_conversation_id v) (ma_participant_id v) (ma_capability_generation v)
      (ma_marker_delivery_seq v)"
| "from_request (ClientRequest.RecordAdmission v) authorization =
    RequestKey.Record (ra_conversation_id v) (ra_participant_id v) (ra_capability_generation v)
      (ra_record_admission_attempt_token v)"
| "from_request (ClientRequest.ObserverRecovery _) authorization =
    RequestKey.ObserverRecovery authorization"

fun key_same_identity :: "RequestKey \<Rightarrow> RequestKey \<Rightarrow> bool" where
  "key_same_identity (RequestKey.Enrollment left _) (RequestKey.Enrollment right _) \<longleftrightarrow> left = right"
| "key_same_identity (RequestKey.Attach lc lp _ _ _) (RequestKey.Attach rc rp _ _ _) \<longleftrightarrow> lc = rc \<and> lp = rp"
| "key_same_identity (RequestKey.Detach lc lp _ _) (RequestKey.Detach rc rp _ _) \<longleftrightarrow> lc = rc \<and> lp = rp"
| "key_same_identity (RequestKey.Ack lc lp _ _) (RequestKey.Ack rc rp _ _) \<longleftrightarrow> lc = rc \<and> lp = rp"
| "key_same_identity (RequestKey.Leave lc lp _ _) (RequestKey.Leave rc rp _ _) \<longleftrightarrow> lc = rc \<and> lp = rp"
| "key_same_identity (RequestKey.MarkerAck lc lp _ _) (RequestKey.MarkerAck rc rp _ _) \<longleftrightarrow> lc = rc \<and> lp = rp"
| "key_same_identity (RequestKey.Record lc lp _ _) (RequestKey.Record rc rp _ _) \<longleftrightarrow> lc = rc \<and> lp = rp"
| "key_same_identity (RequestKey.ObserverRecovery _) (RequestKey.ObserverRecovery _) \<longleftrightarrow> True"
| "key_same_identity _ _ \<longleftrightarrow> False"

section \<open>Keys of envelopes\<close>

definition enrollment_key :: "EnrollmentEnvelope \<Rightarrow> RequestKey" where
  "enrollment_key v = RequestKey.Enrollment (ee_conversation_id v) (ee_enrollment_token v)"

definition attach_key :: "AttachEnvelope \<Rightarrow> RequestKey" where
  "attach_key v = RequestKey.Attach (ae_conversation_id v) (ae_participant_id v)
    (ae_capability_generation v) (ae_attach_attempt_token v) (ae_accept_marker_delivery_seq v)"

definition detach_key :: "DetachEnvelope \<Rightarrow> RequestKey" where
  "detach_key v = RequestKey.Detach (de_conversation_id v) (de_participant_id v)
    (de_capability_generation v) (de_detach_attempt_token v)"

definition participant_ack_key :: "ParticipantAckEnvelope \<Rightarrow> RequestKey" where
  "participant_ack_key v = RequestKey.Ack (pae_conversation_id v) (pae_participant_id v)
    (pae_capability_generation v) (pae_through_seq v)"

definition leave_key :: "LeaveEnvelope \<Rightarrow> RequestKey" where
  "leave_key v = RequestKey.Leave (le_conversation_id v) (le_participant_id v)
    (le_capability_generation v) (le_leave_attempt_token v)"

definition marker_ack_key :: "MarkerAckEnvelope \<Rightarrow> RequestKey" where
  "marker_ack_key v = RequestKey.MarkerAck (mae_conversation_id v) (mae_participant_id v)
    (mae_capability_generation v) (mae_marker_delivery_seq v)"

definition record_key :: "RecordAdmissionEnvelope \<Rightarrow> RequestKey" where
  "record_key v = RequestKey.Record (rae_conversation_id v) (rae_participant_id v)
    (rae_capability_generation v) (rae_record_admission_attempt_token v)"

fun attempt_conflict_key :: "AttemptTokenBodyConflict \<Rightarrow> RequestKey" where
  "attempt_conflict_key (AttemptTokenBodyConflict.CredentialAttach token conversation_id
      presented_participant_id presented_generation presented_marker_delivery_seq _) =
    RequestKey.Attach conversation_id presented_participant_id presented_generation token
      presented_marker_delivery_seq"
| "attempt_conflict_key (AttemptTokenBodyConflict.Leave token conversation_id
      presented_participant_id presented_generation) =
    RequestKey.Leave conversation_id presented_participant_id presented_generation token"
| "attempt_conflict_key (AttemptTokenBodyConflict.RecordAdmission token conversation_id
      presented_participant_id presented_generation) =
    RequestKey.Record conversation_id presented_participant_id presented_generation token"

fun response_envelope_key :: "ResponseEnvelope \<Rightarrow> RequestKey" where
  "response_envelope_key (ResponseEnvelope.Enrollment v) = enrollment_key v"
| "response_envelope_key (ResponseEnvelope.CredentialAttach v) = attach_key v"
| "response_envelope_key (ResponseEnvelope.Detach v) = detach_key v"
| "response_envelope_key (ResponseEnvelope.ParticipantAck v) = participant_ack_key v"
| "response_envelope_key (ResponseEnvelope.Leave v) = leave_key v"
| "response_envelope_key (ResponseEnvelope.MarkerAck v) = marker_ack_key v"
| "response_envelope_key (ResponseEnvelope.RecordAdmission v) = record_key v"

fun connection_capacity_key :: "ConnectionConversationCapacityExceeded \<Rightarrow> RequestKey" where
  "connection_capacity_key (ConnectionConversationCapacityExceeded.SemanticRequest request _) =
    response_envelope_key request"
| "connection_capacity_key (ConnectionConversationCapacityExceeded.ObserverRecovery _ _) =
    RequestKey.ObserverRecovery 0"

fun binding_occupied_key :: "ConnectionConversationBindingOccupied \<Rightarrow> RequestKey" where
  "binding_occupied_key (OccupiedEnrollment conversation_id enrollment_token) =
    RequestKey.Enrollment conversation_id enrollment_token"
| "binding_occupied_key (OccupiedCredentialAttach conversation_id participant_id
      capability_generation attach_attempt_token accept_marker_delivery_seq) =
    RequestKey.Attach conversation_id participant_id capability_generation attach_attempt_token
      accept_marker_delivery_seq"

fun participant_reference_key :: "ParticipantReferenceEnvelope \<Rightarrow> RequestKey" where
  "participant_reference_key (ParticipantReferenceEnvelope.CredentialAttach v) = attach_key v"
| "participant_reference_key (ParticipantReferenceEnvelope.Detach v) = detach_key v"
| "participant_reference_key (ParticipantReferenceEnvelope.ParticipantAck v) = participant_ack_key v"
| "participant_reference_key (ParticipantReferenceEnvelope.Leave v) = leave_key v"
| "participant_reference_key (ParticipantReferenceEnvelope.MarkerAck v) = marker_ack_key v"
| "participant_reference_key (ParticipantReferenceEnvelope.RecordAdmission v) = record_key v"

fun binding_required_key :: "BindingRequiredEnvelope \<Rightarrow> RequestKey" where
  "binding_required_key (BindingRequiredEnvelope.Detach v) = detach_key v"
| "binding_required_key (BindingRequiredEnvelope.ParticipantAck v) = participant_ack_key v"
| "binding_required_key (BindingRequiredEnvelope.Leave v) = leave_key v"
| "binding_required_key (BindingRequiredEnvelope.MarkerAck v) = marker_ack_key v"
| "binding_required_key (BindingRequiredEnvelope.RecordAdmission v) = record_key v"

fun stale_authority_key :: "StaleAuthority \<Rightarrow> RequestKey" where
  "stale_authority_key (StaleAuthority.Live request _) =
    (case request of
       CommonStaleAuthorityEnvelope.CredentialAttach v \<Rightarrow> attach_key v
     | CommonStaleAuthorityEnvelope.ParticipantAck v \<Rightarrow> participant_ack_key v
     | CommonStaleAuthorityEnvelope.MarkerAck v \<Rightarrow> marker_ack_key v
     | CommonStaleAuthorityEnvelope.RecordAdmission v \<Rightarrow> record_key v)"
| "stale_authority_key (StaleAuthority.Detach value) =
    (case value of
       DetachStaleAuthority.Live conversation_id participant_id capability_generation
           detach_attempt_token _ \<Rightarrow>
         RequestKey.Detach conversation_id participant_id capability_generation detach_attempt_token
     | DetachStaleAuthority.TerminalizedDetachCell v \<Rightarrow>
         RequestKey.Detach (tdc_conversation_id v) (tdc_participant_id v)
           (tdc_capability_generation v) (tdc_detach_attempt_token v))"
| "stale_authority_key (StaleAuthority.Leave value) =
    (case value of
       LeaveStaleAuthority.Live conversation_id participant_id presented_generation
           leave_attempt_token _ \<Rightarrow>
         RequestKey.Leave conversation_id participant_id presented_generation leave_attempt_token
     | LeaveStaleAuthority.CommittedLeaveTombstone conversation_id participant_id
           presented_generation leave_attempt_token _ \<Rightarrow>
         RequestKey.Leave conversation_id participant_id presented_generation leave_attempt_token)"

fun closure_envelope_key :: "ClosureCheckedEnvelope \<Rightarrow> RequestKey" where
  "closure_envelope_key (ClosureCheckedEnvelope.Enrollment v) = enrollment_key v"
| "closure_envelope_key (ClosureCheckedEnvelope.CredentialAttach v) = attach_key v"
| "closure_envelope_key (ClosureCheckedEnvelope.Leave v) = leave_key v"
| "closure_envelope_key (ClosureCheckedEnvelope.RecordAdmission v) = record_key v"

fun order_envelope_key :: "OrderAllocatingEnvelope \<Rightarrow> RequestKey" where
  "order_envelope_key (OrderEnrollment v) = enrollment_key v"
| "order_envelope_key (OrderCredentialAttach v) = attach_key v"
| "order_envelope_key (OrderRecordAdmission v) = record_key v"

fun sequence_envelope_key :: "SequenceAllocatingEnvelope \<Rightarrow> RequestKey" where
  "sequence_envelope_key (SequenceEnrollment v) = enrollment_key v"
| "sequence_envelope_key (SequenceCredentialAttach v) = attach_key v"
| "sequence_envelope_key (SequenceRecordAdmission v) = record_key v"

definition enroll_bound_key :: "EnrollBound \<Rightarrow> RequestKey" where
  "enroll_bound_key v = RequestKey.Enrollment (eb_conversation_id v) (eb_token v)"

definition attach_bound_key :: "AttachBound \<Rightarrow> RequestKey" where
  "attach_bound_key v = RequestKey.Attach (ab_conversation_id v) (ab_participant_id v)
    (ab_request_generation v) (ab_token v) (ab_accepted_marker_delivery_seq v)"

fun receipt_expired_key :: "ReceiptExpired \<Rightarrow> RequestKey" where
  "receipt_expired_key (ReceiptExpired.Enrollment conversation_id token _ _ _ _) =
    RequestKey.Enrollment conversation_id token"
| "receipt_expired_key (ReceiptExpired.CredentialAttach conversation_id token participant_id
      presented_generation presented_marker_delivery_seq _ _ _) =
    RequestKey.Attach conversation_id participant_id presented_generation token
      presented_marker_delivery_seq"

fun observer_backpressure_key :: "ObserverBackpressure \<Rightarrow> RequestKey" where
  "observer_backpressure_key (BackpressureEnrollment request _) = enrollment_key request"
| "observer_backpressure_key (BackpressureCredentialAttach request _) = attach_key request"
| "observer_backpressure_key (BackpressureDetach request _ _) = detach_key request"
| "observer_backpressure_key (BackpressureLeave request _ _) = leave_key request"
| "observer_backpressure_key (BackpressureRecordAdmission request _) = record_key request"

fun marker_proof_key :: "MarkerProofRequest \<Rightarrow> RequestKey" where
  "marker_proof_key (MarkerProofRequest.CredentialAttach v) =
    RequestKey.Attach (amp_conversation_id v) (amp_participant_id v) (amp_capability_generation v)
      (amp_token v) (Some (amp_requested_marker_delivery_seq v))"
| "marker_proof_key (MarkerProofRequest.MarkerAck v) =
    RequestKey.MarkerAck (map_conversation_id v) (map_participant_id v)
      (map_capability_generation v) (map_requested_marker_delivery_seq v)"

section \<open>Keys of server values\<close>

fun value_key :: "ServerValue \<Rightarrow> RequestKey" where
  "value_key (ServerValue.ParticipantTransportRejected _) = RequestKey.Unsolicited"
| "value_key (ServerValue.MarkerSettlementBackpressure _) = RequestKey.Unsolicited"
| "value_key (ServerValue.EnrollmentSettlementBackpressure _) = RequestKey.Unsolicited"
| "value_key (ServerValue.AttemptTokenBodyConflict v) = attempt_conflict_key v"
| "value_key (ServerValue.ConnectionConversationCapacityExceeded v) = connection_capacity_key v"
| "value_key (ServerValue.ConnectionConversationBindingOccupied v) = binding_occupied_key v"
| "value_key (ServerValue.ConversationOrderExhausted v) = order_envelope_key (coe_request v)"
| "value_key (ServerValue.ParticipantUnknown v) = participant_reference_key (pu_request v)"
| "value_key (ServerValue.NoBinding v) = binding_required_key (nb_request v)"
| "value_key (ServerValue.StaleAuthority v) = stale_authority_key v"
| "value_key (ServerValue.Retired v) =
    (case v of
       Retired.Enrollment request _ _ \<Rightarrow> enrollment_key request
     | Retired.Participant request _ \<Rightarrow> participant_reference_key request)"
| "value_key (ServerValue.MarkerClosureCapacityExceeded v) = closure_envelope_key (mcc_request v)"
| "value_key (ServerValue.EnrollBound v) = enroll_bound_key v"
| "value_key (ServerValue.Bound v) =
    (case v of
       ReceiptReplay.Enrollment e \<Rightarrow> enroll_bound_key e
     | ReceiptReplay.CredentialAttach a \<Rightarrow> attach_bound_key a)"
| "value_key (ServerValue.UnboundReceipt v) =
    (case v of
       ReceiptReplay.Enrollment e \<Rightarrow> enroll_bound_key e
     | ReceiptReplay.CredentialAttach a \<Rightarrow> attach_bound_key a)"
| "value_key (ServerValue.EnrollmentKnown v) =
    RequestKey.Enrollment (ek_conversation_id v) (ek_token v)"
| "value_key (ServerValue.ReceiptExpired v) = receipt_expired_key v"
| "value_key (ServerValue.ReceiptCapacityExceeded v) =
    (case v of
       ReceiptCapacityExceeded.Enrollment request _ _ _ \<Rightarrow> enrollment_key request
     | ReceiptCapacityExceeded.CredentialAttach request _ _ _ \<Rightarrow> attach_key request)"
| "value_key (ServerValue.IdentityCapacityExceeded v) = enrollment_key (ice_request v)"
| "value_key (ServerValue.ObserverBackpressure v) = observer_backpressure_key v"
| "value_key (ServerValue.ConversationSequenceExhausted v) = sequence_envelope_key (cse_request v)"
| "value_key (ServerValue.AttachBound v) = attach_bound_key v"
| "value_key (ServerValue.StaleOrUnknownReceipt v) =
    RequestKey.Attach (sur_conversation_id v) (sur_participant_id v) (sur_presented_generation v)
      (sur_token v) (sur_presented_marker_delivery_seq v)"
| "value_key (ServerValue.MarkerNotDelivered v) = marker_proof_key (mnd_request v)"
| "value_key (ServerValue.MarkerMismatch v) = marker_proof_key (mm_request v)"
| "value_key (ServerValue.DetachCommitted v) =
    RequestKey.Detach (dc_conversation_id v) (dc_participant_id v)
      (be_capability_generation (dc_committed_binding_epoch v)) (dc_detach_attempt_token v)"
| "value_key (ServerValue.DetachInProgress v) =
    RequestKey.Detach (dip_conversation_id v) (dip_participant_id v) (dip_presented_generation v)
      (dip_presented_token v)"
| "value_key (ServerValue.AckCommitted v) = participant_ack_key (ac_request v)"
| "value_key (ServerValue.AckNoOp v) =
    (case v of
       AckNoOp.ParticipantAck request \<Rightarrow> participant_ack_key request
     | AckNoOp.MarkerAck request \<Rightarrow> marker_ack_key request)"
| "value_key (ServerValue.AckGap v) = participant_ack_key (ag_request v)"
| "value_key (ServerValue.AckRegression v) = participant_ack_key (ar_request v)"
| "value_key (ServerValue.LeaveCommitted v) =
    RequestKey.Leave (lc_conversation_id v) (lc_participant_id v) (lc_retired_generation v)
      (lc_leave_attempt_token v)"
| "value_key (ServerValue.MarkerAckCommitted v) = marker_ack_key (mac_request v)"
| "value_key (ServerValue.RecordCommitted v) = record_key (rc_request v)"
| "value_key (ServerValue.RecordTooLarge v) = record_key (rtl_request v)"
| "value_key (ServerValue.ObserverRecoveryAccepted _) = RequestKey.ObserverRecovery 0"
| "value_key (ServerValue.InvalidObserverEpoch _) = RequestKey.ObserverRecovery 0"
| "value_key (ServerValue.InvalidObserverEpochList _) = RequestKey.ObserverRecovery 0"

definition response_key :: "ServerValue \<Rightarrow> u64 \<Rightarrow> RequestKey" where
  "response_key value ambiguous_authorization =
    (case value_key value of
       RequestKey.ObserverRecovery _ \<Rightarrow> RequestKey.ObserverRecovery ambiguous_authorization
     | other \<Rightarrow> other)"

section \<open>Matching\<close>

fun settlement_matches_request :: "ServerValue \<Rightarrow> ClientRequest \<Rightarrow> bool option" where
  "settlement_matches_request (ServerValue.MarkerSettlementBackpressure refusal) request =
    Some (case (refusal, request) of
       (MarkerSettlementBackpressure.CredentialAttach conversation_id _,
           ClientRequest.CredentialAttach pending) \<Rightarrow> conversation_id = car_conversation_id pending
     | (MarkerSettlementBackpressure.Detach conversation_id _, ClientRequest.Detach pending) \<Rightarrow>
         conversation_id = dr_conversation_id pending
     | _ \<Rightarrow> False)"
| "settlement_matches_request (ServerValue.EnrollmentSettlementBackpressure refusal) request =
    Some (case request of
       ClientRequest.Enrollment pending \<Rightarrow> esb_conversation_id refusal = er_conversation_id pending
     | _ \<Rightarrow> False)"
| "settlement_matches_request _ request = None"

definition observer_response_matches :: "ServerValue \<Rightarrow> ObserverRecoveryHandshake \<Rightarrow> bool" where
  "observer_response_matches value expected =
    (case value of
       ServerValue.ObserverRecoveryAccepted response \<Rightarrow>
         length (ora_statuses response) = length (orh_observer_refusals expected)
         \<and> list_all (\<lambda>(actual, expected).
             ops_conversation_id actual = or_conversation_id expected
             \<and> ops_refused_epoch actual = or_refused_epoch expected)
           (zip (ora_statuses response) (orh_observer_refusals expected))
     | ServerValue.InvalidObserverEpoch response \<Rightarrow>
         (case orh_observer_refusals expected of
            [expected] \<Rightarrow>
              (case response of
                 InvalidObserverEpoch.ConversationUnknown conversation_id presented_epoch \<Rightarrow>
                   conversation_id = or_conversation_id expected
                   \<and> presented_epoch = or_refused_epoch expected
               | InvalidObserverEpoch.EpochAhead conversation_id presented_epoch _ \<Rightarrow>
                   conversation_id = or_conversation_id expected
                   \<and> presented_epoch = or_refused_epoch expected)
          | _ \<Rightarrow> False)
     | _ \<Rightarrow> False)"

definition matches_request :: "ServerValue \<Rightarrow> ClientRequest \<Rightarrow> bool" where
  "matches_request value request =
    (case request of
       ClientRequest.ObserverRecovery expected \<Rightarrow> observer_response_matches value expected
     | _ \<Rightarrow>
         (case settlement_matches_request value request of
            Some matched \<Rightarrow> matched
          | None \<Rightarrow> response_key value 0 = from_request request 0))"

definition same_identity :: "ServerValue \<Rightarrow> ClientRequest \<Rightarrow> bool" where
  "same_identity value request = key_same_identity (response_key value 0) (from_request request 0)"

fun participant_ack_request :: "ServerValue \<Rightarrow> ParticipantAckEnvelope option" where
  "participant_ack_request (ServerValue.AckCommitted v) = Some (ac_request v)"
| "participant_ack_request (ServerValue.AckNoOp (AckNoOp.ParticipantAck v)) = Some v"
| "participant_ack_request (ServerValue.AckGap v) = Some (ag_request v)"
| "participant_ack_request (ServerValue.AckRegression v) = Some (ar_request v)"
| "participant_ack_request _ = None"

section \<open>Lemmas\<close>

lemmas key_defs = enrollment_key_def attach_key_def detach_key_def participant_ack_key_def
  leave_key_def marker_ack_key_def record_key_def enroll_bound_key_def attach_bound_key_def

lemma response_key_Detach:
  "response_key x a = RequestKey.Detach c p g t \<longleftrightarrow> value_key x = RequestKey.Detach c p g t"
  by (simp add: response_key_def split: RequestKey.split)

lemma matches_request_Detach:
  "matches_request x (ClientRequest.Detach v) \<longleftrightarrow>
    (case x of
       ServerValue.MarkerSettlementBackpressure (MarkerSettlementBackpressure.Detach conversation_id _) \<Rightarrow>
         conversation_id = dr_conversation_id v
     | _ \<Rightarrow> value_key x = from_request (ClientRequest.Detach v) 0)"
  by (cases x) (auto simp: matches_request_def response_key_Detach
      split: MarkerSettlementBackpressure.splits)

end
