(* ===== verification/Client_Aggregate.thy ===== *)
theory Client_Aggregate
  imports Client_Correlation
begin

text \<open>
  The state of the client participant (\<open>liminal-protocol/src/client.rs\<close>) and the two sub-aggregates it
  owns: the detach replay (\<open>client/replay.rs\<close>, data and \<open>impl SdkDetachReplayAggregate\<close>) and the
  reconnect machine (\<open>client/reconnect.rs\<close>, data). A method taking \<open>&mut self\<close> and returning a \<open>bool\<close>
  is a function to the pair of the new state and the result.
\<close>

section \<open>Binding state (client.rs)\<close>

datatype (plugins only: code size) ClientBindingStatus = Unbound | Bound | Detached | Left

datatype (plugins only: code size) ClientBindingState =
    Unbound
  | Bound u64 u64 Generation AttachSecret BindingEpoch
  | Detached u64 u64 Generation AttachSecret
  | Left u64 u64 Generation

fun binding_state_status :: "ClientBindingState \<Rightarrow> ClientBindingStatus" where
  "binding_state_status ClientBindingState.Unbound = ClientBindingStatus.Unbound"
| "binding_state_status (ClientBindingState.Bound _ _ _ _ _) = ClientBindingStatus.Bound"
| "binding_state_status (ClientBindingState.Detached _ _ _ _) = ClientBindingStatus.Detached"
| "binding_state_status (ClientBindingState.Left _ _ _) = ClientBindingStatus.Left"

fun is_left :: "ClientBindingState \<Rightarrow> bool" where
  "is_left (ClientBindingState.Left _ _ _) = True"
| "is_left _ = False"

fun matches_ack :: "ClientBindingState \<Rightarrow> ParticipantAckEnvelope \<Rightarrow> bool" where
  "matches_ack (ClientBindingState.Bound conversation_id participant_id generation _ _) request \<longleftrightarrow>
    conversation_id = pae_conversation_id request \<and> participant_id = pae_participant_id request
    \<and> generation = pae_capability_generation request"
| "matches_ack _ request \<longleftrightarrow> False"

fun matches_identity :: "ClientBindingState \<Rightarrow> u64 \<Rightarrow> u64 \<Rightarrow> Generation \<Rightarrow> bool \<Rightarrow> bool" where
  "matches_identity (ClientBindingState.Bound conversation_id participant_id generation _ _)
      conversation participant generation_value allow_detached \<longleftrightarrow>
    (conversation_id, participant_id, generation) = (conversation, participant, generation_value)"
| "matches_identity (ClientBindingState.Detached conversation_id participant_id generation _)
      conversation participant generation_value allow_detached \<longleftrightarrow>
    allow_detached
    \<and> (conversation_id, participant_id, generation) = (conversation, participant, generation_value)"
| "matches_identity _ conversation participant generation_value allow_detached \<longleftrightarrow> False"

fun matches_credential ::
  "ClientBindingState \<Rightarrow> u64 \<Rightarrow> u64 \<Rightarrow> Generation \<Rightarrow> AttachSecret \<Rightarrow> bool \<Rightarrow> bool" where
  "matches_credential (ClientBindingState.Bound c p g attach_secret e)
      conversation participant generation_value presented_secret allow_detached \<longleftrightarrow>
    attach_secret = presented_secret
    \<and> matches_identity (ClientBindingState.Bound c p g attach_secret e)
        conversation participant generation_value allow_detached"
| "matches_credential (ClientBindingState.Detached c p g attach_secret)
      conversation participant generation_value presented_secret allow_detached \<longleftrightarrow>
    allow_detached \<and> attach_secret = presented_secret
    \<and> matches_identity (ClientBindingState.Detached c p g attach_secret)
        conversation participant generation_value True"
| "matches_credential _ conversation participant generation_value presented_secret allow_detached \<longleftrightarrow> False"

definition accepts_request :: "ClientBindingState \<Rightarrow> ClientRequest \<Rightarrow> bool" where
  "accepts_request binding request =
    (if is_left binding then False
     else case request of
       ClientRequest.Enrollment _ \<Rightarrow> binding = ClientBindingState.Unbound
     | ClientRequest.CredentialAttach v \<Rightarrow>
         binding = ClientBindingState.Unbound
         \<or> matches_credential binding (car_conversation_id v) (car_participant_id v)
             (car_capability_generation v) (car_attach_secret v) True
     | ClientRequest.Detach v \<Rightarrow>
         matches_identity binding (dr_conversation_id v) (dr_participant_id v)
           (dr_capability_generation v) False
     | ClientRequest.ParticipantAck v \<Rightarrow>
         matches_identity binding (pa_conversation_id v) (pa_participant_id v)
           (pa_capability_generation v) False
     | ClientRequest.Leave v \<Rightarrow>
         matches_credential binding (lr_conversation_id v) (lr_participant_id v)
           (lr_capability_generation v) (lr_attach_secret v) True
     | ClientRequest.MarkerAck v \<Rightarrow>
         matches_identity binding (ma_conversation_id v) (ma_participant_id v)
           (ma_capability_generation v) False
     | ClientRequest.RecordAdmission v \<Rightarrow>
         matches_identity binding (ra_conversation_id v) (ra_participant_id v)
           (ra_capability_generation v) False
     | ClientRequest.ObserverRecovery _ \<Rightarrow> True)"

section \<open>Lost-authority testimony and the expected operation (client.rs)\<close>

datatype (plugins only: code size) LostAuthorityKind =
    IssuedOperationCorrelation
  | DetachTransportAttempt
  | ReconnectPermit
  | ReconnectAttempt

record LostAuthorityTestimony =
  lat_kind :: LostAuthorityKind

definition mint :: "LostAuthorityKind \<Rightarrow> LostAuthorityTestimony" where
  "mint kind = \<lparr>lat_kind = kind\<rparr>"

record ExpectedOperationState =
  eo_request :: ClientRequest
  eo_issued :: bool
  eo_authorization :: u64
  eo_lost :: "LostAuthorityTestimony option"

datatype (plugins only: code size) RestoredExpectedOperationAbandonmentReason = TokenlessAfterCrash

record RestoredExpectedOperationAbandonment =
  roa_request :: ClientRequest
  roa_reason :: RestoredExpectedOperationAbandonmentReason
  roa_was_issued :: bool

section \<open>Detach replay (replay.rs)\<close>

record DetachAuthorityRefused =
  dar_value :: ServerValue

datatype (plugins only: code size) DetachReplayTerminal =
    DetachCommitted DetachCommitted
  | DetachInProgress DetachInProgress
  | TerminalizedDetachCell TerminalizedDetachCell
  | AuthorityRefused DetachAuthorityRefused

datatype (plugins only: code size) DetachReplayStatus =
    Parked
  | InFlight
  | Superseded
  | LeaveSuperseded
  | Terminal DetachReplayTerminal

datatype (plugins only: code size) DetachReplayState =
    Empty
  | Recorded DetachEnvelope DetachReplayStatus

record SdkDetachReplayAggregate =
  sdr_state :: DetachReplayState

definition SdkDetachReplayAggregate_new :: SdkDetachReplayAggregate where
  "SdkDetachReplayAggregate_new = \<lparr>sdr_state = Empty\<rparr>"

definition replay_request :: "SdkDetachReplayAggregate \<Rightarrow> DetachEnvelope option" where
  "replay_request r = (case sdr_state r of Empty \<Rightarrow> None | Recorded request _ \<Rightarrow> Some request)"

definition replay_status :: "SdkDetachReplayAggregate \<Rightarrow> DetachReplayStatus option" where
  "replay_status r = (case sdr_state r of Empty \<Rightarrow> None | Recorded _ status \<Rightarrow> Some status)"

definition mark_initial_attempt_started :: "SdkDetachReplayAggregate \<Rightarrow> SdkDetachReplayAggregate" where
  "mark_initial_attempt_started r =
    (case sdr_state r of
       Recorded request status \<Rightarrow>
         (if status = DetachReplayStatus.Parked
          then r\<lparr>sdr_state := Recorded request DetachReplayStatus.InFlight\<rparr> else r)
     | Empty \<Rightarrow> r)"

fun replaceable_status :: "DetachReplayStatus \<Rightarrow> bool" where
  "replaceable_status DetachReplayStatus.Superseded = True"
| "replaceable_status (DetachReplayStatus.Terminal _) = True"
| "replaceable_status _ = False"

definition can_replace_with :: "SdkDetachReplayAggregate \<Rightarrow> DetachEnvelope \<Rightarrow> bool" where
  "can_replace_with r request =
    (case sdr_state r of
       Recorded retained status \<Rightarrow>
         de_conversation_id retained = de_conversation_id request
         \<and> de_participant_id retained = de_participant_id request
         \<and> generation_get (de_capability_generation request)
             > generation_get (de_capability_generation retained)
         \<and> replaceable_status status
     | Empty \<Rightarrow> False)"

definition replay_apply_attach ::
  "SdkDetachReplayAggregate \<Rightarrow> AttachBound \<Rightarrow> SdkDetachReplayAggregate \<times> bool" where
  "replay_apply_attach r attach =
    (case sdr_state r of
       Empty \<Rightarrow> (r, False)
     | Recorded request status \<Rightarrow>
         (if ab_conversation_id attach = de_conversation_id request
             \<and> ab_participant_id attach = de_participant_id request
             \<and> generation_get (be_capability_generation (ab_origin_binding_epoch attach))
                 > generation_get (de_capability_generation request)
          then (r\<lparr>sdr_state := Recorded request DetachReplayStatus.Superseded\<rparr>, True)
          else (r, False)))"

definition replay_apply_leave ::
  "SdkDetachReplayAggregate \<Rightarrow> LeaveCommitted \<Rightarrow> SdkDetachReplayAggregate \<times> bool" where
  "replay_apply_leave r leave =
    (case sdr_state r of
       Empty \<Rightarrow> (r, False)
     | Recorded request status \<Rightarrow>
         (if lc_conversation_id leave = de_conversation_id request
             \<and> lc_participant_id leave = de_participant_id request
             \<and> lc_retired_generation leave = de_capability_generation request
          then (r\<lparr>sdr_state := Recorded request DetachReplayStatus.LeaveSuperseded\<rparr>, True)
          else (r, False)))"

definition replay_apply_retired ::
  "SdkDetachReplayAggregate \<Rightarrow> u64 \<Rightarrow> u64 \<Rightarrow> Generation \<Rightarrow> SdkDetachReplayAggregate \<times> bool" where
  "replay_apply_retired r conversation_id participant_id retired_generation =
    (case sdr_state r of
       Empty \<Rightarrow> (r, False)
     | Recorded request status \<Rightarrow>
         (if de_conversation_id request = conversation_id
             \<and> de_participant_id request = participant_id
             \<and> generation_get retired_generation \<ge> generation_get (de_capability_generation request)
          then (r\<lparr>sdr_state := Recorded request DetachReplayStatus.LeaveSuperseded\<rparr>, True)
          else (r, False)))"

fun active_status :: "DetachReplayStatus \<Rightarrow> bool" where
  "active_status DetachReplayStatus.Parked = True"
| "active_status DetachReplayStatus.InFlight = True"
| "active_status _ = False"

definition settle_refused_authority ::
  "SdkDetachReplayAggregate \<Rightarrow> DetachEnvelope \<Rightarrow> ServerValue \<Rightarrow> SdkDetachReplayAggregate \<times> bool" where
  "settle_refused_authority r expected value =
    (case sdr_state r of
       Empty \<Rightarrow> (r, False)
     | Recorded request status \<Rightarrow>
         (if \<not> active_status status then (r, False)
          else if de_conversation_id request \<noteq> de_conversation_id expected
             \<or> de_participant_id request \<noteq> de_participant_id expected
             \<or> de_capability_generation request \<noteq> de_capability_generation expected
             \<or> de_detach_attempt_token request \<noteq> de_detach_attempt_token expected
          then (r, False)
          else (r\<lparr>sdr_state := Recorded request
              (DetachReplayStatus.Terminal
                (DetachReplayTerminal.AuthorityRefused \<lparr>dar_value = value\<rparr>))\<rparr>, True)))"

definition replay_is_active :: "SdkDetachReplayAggregate \<Rightarrow> bool" where
  "replay_is_active r = (case sdr_state r of Recorded _ status \<Rightarrow> active_status status | Empty \<Rightarrow> False)"

definition detach_committed_matches :: "DetachEnvelope \<Rightarrow> DetachCommitted \<Rightarrow> bool" where
  "detach_committed_matches request value \<longleftrightarrow>
    dc_conversation_id value = de_conversation_id request
    \<and> dc_participant_id value = de_participant_id request
    \<and> be_capability_generation (dc_committed_binding_epoch value) = de_capability_generation request
    \<and> dc_detach_attempt_token value = de_detach_attempt_token request"

definition detach_in_progress_matches :: "DetachEnvelope \<Rightarrow> DetachInProgress \<Rightarrow> bool" where
  "detach_in_progress_matches request value \<longleftrightarrow>
    dip_conversation_id value = de_conversation_id request
    \<and> dip_participant_id value = de_participant_id request
    \<and> dip_presented_generation value = de_capability_generation request
    \<and> dip_presented_token value = de_detach_attempt_token request"

definition terminalized_matches :: "DetachEnvelope \<Rightarrow> TerminalizedDetachCell \<Rightarrow> bool" where
  "terminalized_matches request value \<longleftrightarrow>
    tdc_conversation_id value = de_conversation_id request
    \<and> tdc_participant_id value = de_participant_id request
    \<and> tdc_capability_generation value = de_capability_generation request
    \<and> tdc_detach_attempt_token value = de_detach_attempt_token request"

definition apply_detach_committed ::
  "SdkDetachReplayAggregate \<Rightarrow> DetachCommitted \<Rightarrow> SdkDetachReplayAggregate \<times> bool" where
  "apply_detach_committed r value =
    (case sdr_state r of
       Empty \<Rightarrow> (r, False)
     | Recorded request status \<Rightarrow>
         (if detach_committed_matches request value
          then (r\<lparr>sdr_state := Recorded request
            (DetachReplayStatus.Terminal (DetachReplayTerminal.DetachCommitted value))\<rparr>, True)
          else (r, False)))"

definition apply_detach_in_progress ::
  "SdkDetachReplayAggregate \<Rightarrow> DetachInProgress \<Rightarrow> SdkDetachReplayAggregate \<times> bool" where
  "apply_detach_in_progress r value =
    (case sdr_state r of
       Empty \<Rightarrow> (r, False)
     | Recorded request status \<Rightarrow>
         (if detach_in_progress_matches request value
          then (r\<lparr>sdr_state := Recorded request
            (DetachReplayStatus.Terminal (DetachReplayTerminal.DetachInProgress value))\<rparr>, True)
          else (r, False)))"

definition apply_terminalized_detach_cell ::
  "SdkDetachReplayAggregate \<Rightarrow> TerminalizedDetachCell \<Rightarrow> SdkDetachReplayAggregate \<times> bool" where
  "apply_terminalized_detach_cell r value =
    (case sdr_state r of
       Empty \<Rightarrow> (r, False)
     | Recorded request status \<Rightarrow>
         (if terminalized_matches request value
          then (r\<lparr>sdr_state := Recorded request
            (DetachReplayStatus.Terminal (DetachReplayTerminal.TerminalizedDetachCell value))\<rparr>, True)
          else (r, False)))"

section \<open>Reconnect machine data (reconnect.rs)\<close>

datatype (plugins only: code size) EstablishedConnectionTransportFate = Lost

datatype (plugins only: code size) ProvedOnlineTransition = ProvedOnline

datatype (plugins only: code size) ExplicitReconnectAction = ReconnectNow

datatype (plugins only: code size) ReconnectFreshEvent =
    TransportFate EstablishedConnectionTransportFate
  | OnlineTransition ProvedOnlineTransition
  | ExplicitCallerAction ExplicitReconnectAction

datatype (plugins only: code size) ReconnectMachineState =
    Parked
  | Permit u64 ReconnectFreshEvent bool
  | Attempt u64 ReconnectFreshEvent
  | Online

record ReconnectAggregate =
  rg_state :: ReconnectMachineState
  rg_next_authorization :: u64
  rg_lost :: "LostAuthorityTestimony option"

definition ReconnectAggregate_new :: ReconnectAggregate where
  "ReconnectAggregate_new =
    \<lparr>rg_state = ReconnectMachineState.Parked, rg_next_authorization = 0, rg_lost = None\<rparr>"

section \<open>The aggregate (client.rs)\<close>

record ClientParticipantAggregate =
  cpa_binding :: ClientBindingState
  cpa_expected :: "ExpectedOperationState option"
  cpa_next_operation_authorization :: u64
  cpa_detach_replay :: SdkDetachReplayAggregate
  cpa_reconnect :: ReconnectAggregate
  cpa_restored_abandonment :: "RestoredExpectedOperationAbandonment option"

definition ClientParticipantAggregate_new :: ClientParticipantAggregate where
  "ClientParticipantAggregate_new =
    \<lparr>cpa_binding = ClientBindingState.Unbound, cpa_expected = None,
     cpa_next_operation_authorization = 0, cpa_detach_replay = SdkDetachReplayAggregate_new,
     cpa_reconnect = ReconnectAggregate_new, cpa_restored_abandonment = None\<rparr>"

definition take_restored_operation_abandonment ::
  "ClientParticipantAggregate \<Rightarrow>
    ClientParticipantAggregate \<times> RestoredExpectedOperationAbandonment option" where
  "take_restored_operation_abandonment a =
    (a\<lparr>cpa_restored_abandonment := None\<rparr>, cpa_restored_abandonment a)"

definition lost_operation_testimony ::
  "ClientParticipantAggregate \<Rightarrow> LostAuthorityTestimony option" where
  "lost_operation_testimony a =
    (case cpa_expected a of Some expected \<Rightarrow> eo_lost expected | None \<Rightarrow> None)"

definition lost_reconnect_testimony ::
  "ClientParticipantAggregate \<Rightarrow> LostAuthorityTestimony option" where
  "lost_reconnect_testimony a = rg_lost (cpa_reconnect a)"

definition lost_credential_attach :: "ClientParticipantAggregate \<Rightarrow> CredentialAttachRequest option" where
  "lost_credential_attach a =
    (case cpa_expected a of
       Some expected \<Rightarrow>
         (case eo_request expected of
            ClientRequest.CredentialAttach request \<Rightarrow>
              (if eo_issued expected \<and> eo_lost expected \<noteq> None then Some request else None)
          | _ \<Rightarrow> None)
     | None \<Rightarrow> None)"

definition operation_loss_pending :: "ClientParticipantAggregate \<Rightarrow> bool" where
  "operation_loss_pending a \<longleftrightarrow> lost_operation_testimony a \<noteq> None"

text \<open>The source writes the conversion of a detach request into its replay envelope, and the
  field-by-field comparison of the two, at each use.\<close>

definition detach_envelope :: "DetachRequest \<Rightarrow> DetachEnvelope" where
  "detach_envelope v =
    \<lparr>de_conversation_id = dr_conversation_id v, de_participant_id = dr_participant_id v,
     de_capability_generation = dr_capability_generation v,
     de_detach_attempt_token = dr_detach_attempt_token v\<rparr>"

definition detach_request_matches :: "DetachRequest \<Rightarrow> DetachEnvelope \<Rightarrow> bool" where
  "detach_request_matches value request \<longleftrightarrow>
    dr_conversation_id value = de_conversation_id request
    \<and> dr_participant_id value = de_participant_id request
    \<and> dr_capability_generation value = de_capability_generation request
    \<and> dr_detach_attempt_token value = de_detach_attempt_token request"

end
