(* ===== verification/Client_Barrier.thy ===== *)
theory Client_Barrier
  imports Client_Aggregate
begin

text \<open>
  The write-ahead operation barrier (\<open>liminal-protocol/src/client/barrier.rs\<close>) and the public detach
  replay transitions (\<open>client/replay.rs\<close>). One-use handles are values: a transition that consumes a
  handle takes it as an argument and does not return it, a refusal returns it unchanged.
\<close>

section \<open>Handles (barrier.rs, replay.rs)\<close>

record ExpectedParticipantOperation =
  epo_request :: ClientRequest
  epo_authorization :: u64

record ClientResponseCorrelation =
  crc_authorization :: u64

definition operation_into_request ::
  "ExpectedParticipantOperation \<Rightarrow> ClientRequest \<times> ClientResponseCorrelation" where
  "operation_into_request operation =
    (epo_request operation, \<lparr>crc_authorization = epo_authorization operation\<rparr>)"

record DetachTransportAttempt =
  dta_request :: DetachEnvelope
  dta_authorization :: u64

definition attempt_into_request ::
  "DetachTransportAttempt \<Rightarrow> DetachEnvelope \<times> ClientResponseCorrelation" where
  "attempt_into_request attempt =
    (dta_request attempt, \<lparr>crc_authorization = dta_authorization attempt\<rparr>)"

section \<open>Recording an operation (barrier.rs)\<close>

datatype (plugins only: code size) ClientOperationRecordRefusalReason =
    OutstandingOperation
  | DetachReplayOutstanding
  | DetachReplayIncompatible
  | AbandonmentPending
  | BindingMismatch
  | AlreadyDead
  | AmbiguousCorrelation
  | AuthorizationExhausted

record ClientOperationRecordRefusal =
  orr_aggregate :: ClientParticipantAggregate
  orr_request :: ClientRequest
  orr_reason :: ClientOperationRecordRefusalReason

record ClientContinuousOperation =
  cco_aggregate :: ClientParticipantAggregate
  cco_operation :: ExpectedParticipantOperation

record ClientPendingOperationRecord =
  por_successor :: ClientParticipantAggregate
  por_operation :: ExpectedParticipantOperation
  por_prior_replay :: "DetachReplayState option"

record ClientOperationCommit =
  coc_aggregate :: ClientParticipantAggregate
  coc_operation :: ExpectedParticipantOperation

datatype (plugins only: code size) ClientOperationRecordDecision =
    Pending ClientPendingOperationRecord
  | Continuous ClientContinuousOperation
  | Refused ClientOperationRecordRefusal

definition pending_commit :: "ClientPendingOperationRecord \<Rightarrow> ClientOperationCommit" where
  "pending_commit pending =
    \<lparr>coc_aggregate = por_successor pending, coc_operation = por_operation pending\<rparr>"

definition pending_abort ::
  "ClientPendingOperationRecord \<Rightarrow> ClientParticipantAggregate \<times> ClientRequest" where
  "pending_abort pending =
    (let successor = (por_successor pending)
         \<lparr>cpa_expected := None,
          cpa_next_operation_authorization := saturating_sub (epo_authorization (por_operation pending)) 1\<rparr>;
       successor = (case por_prior_replay pending of
           Some prior_replay \<Rightarrow>
             successor\<lparr>cpa_detach_replay := (cpa_detach_replay successor)\<lparr>sdr_state := prior_replay\<rparr>\<rparr>
         | None \<Rightarrow> successor)
     in (successor, epo_request (por_operation pending)))"

fun is_detach :: "ClientRequest \<Rightarrow> bool" where
  "is_detach (ClientRequest.Detach _) = True"
| "is_detach _ = False"

fun is_observer_recovery :: "ClientRequest \<Rightarrow> bool" where
  "is_observer_recovery (ClientRequest.ObserverRecovery _) = True"
| "is_observer_recovery _ = False"

fun is_participant_ack :: "ClientRequest \<Rightarrow> bool" where
  "is_participant_ack (ClientRequest.ParticipantAck _) = True"
| "is_participant_ack _ = False"

definition mark_issued :: "ClientParticipantAggregate \<Rightarrow> ClientParticipantAggregate" where
  "mark_issued a = a\<lparr>cpa_expected := map_option (\<lambda>expected. expected\<lparr>eo_issued := True\<rparr>) (cpa_expected a)\<rparr>"

definition commit_into_parts ::
  "ClientOperationCommit \<Rightarrow> ClientParticipantAggregate \<times> ExpectedParticipantOperation" where
  "commit_into_parts commit =
    (let aggregate = mark_issued (coc_aggregate commit);
         aggregate = (if is_detach (epo_request (coc_operation commit))
           then aggregate\<lparr>cpa_detach_replay := mark_initial_attempt_started (cpa_detach_replay aggregate)\<rparr>
           else aggregate)
     in (aggregate, coc_operation commit))"

definition admit_detach_replay ::
  "ClientParticipantAggregate \<Rightarrow> ClientRequest
    \<Rightarrow> (ClientOperationRecordRefusalReason, ClientParticipantAggregate \<times> DetachReplayState option) result" where
  "admit_detach_replay aggregate request =
    (case request of
       ClientRequest.Detach v \<Rightarrow>
         (let envelope = detach_envelope v;
              prior = sdr_state (cpa_detach_replay aggregate);
              recorded = aggregate\<lparr>cpa_detach_replay :=
                (cpa_detach_replay aggregate)\<lparr>sdr_state := Recorded envelope DetachReplayStatus.Parked\<rparr>\<rparr> in
          case prior of
            Empty \<Rightarrow> Ok (recorded, Some prior)
          | Recorded retained status \<Rightarrow>
              (if retained = envelope
               then (if status = DetachReplayStatus.Parked then Ok (aggregate, Some prior)
                     else Err DetachReplayIncompatible)
               else if can_replace_with (cpa_detach_replay aggregate) envelope
               then Ok (recorded, Some prior)
               else Err DetachReplayOutstanding))
     | _ \<Rightarrow> Ok (aggregate, None))"

definition record_operation ::
  "ClientParticipantAggregate \<Rightarrow> ClientRequest \<Rightarrow> ClientOperationRecordDecision" where
  "record_operation aggregate request =
    (let refused = (\<lambda>reason. ClientOperationRecordDecision.Refused
         \<lparr>orr_aggregate = aggregate, orr_request = request, orr_reason = reason\<rparr>) in
     if \<not> accepts_request (cpa_binding aggregate) request
     then refused (if is_left (cpa_binding aggregate)
            then ClientOperationRecordRefusalReason.AlreadyDead
            else ClientOperationRecordRefusalReason.BindingMismatch)
     else if is_participant_ack request
     then Continuous \<lparr>cco_aggregate = aggregate,
       cco_operation = \<lparr>epo_request = request, epo_authorization = 0\<rparr>\<rparr>
     else if cpa_expected aggregate \<noteq> None then refused OutstandingOperation
     else if cpa_restored_abandonment aggregate \<noteq> None \<and> is_observer_recovery request
     then refused AbandonmentPending
     else case checked_add (cpa_next_operation_authorization aggregate) 1 of
       None \<Rightarrow> refused ClientOperationRecordRefusalReason.AuthorizationExhausted
     | Some authorization \<Rightarrow>
         (case admit_detach_replay aggregate request of
            Inl reason \<Rightarrow> refused reason
          | Inr (aggregate, prior_replay) \<Rightarrow>
              Pending
                \<lparr>por_successor = aggregate
                   \<lparr>cpa_next_operation_authorization := authorization,
                    cpa_expected := Some
                      \<lparr>eo_request = request, eo_issued = False, eo_authorization = authorization,
                       eo_lost = None\<rparr>\<rparr>,
                 por_operation = \<lparr>epo_request = request, epo_authorization = authorization\<rparr>,
                 por_prior_replay = prior_replay\<rparr>))"

section \<open>Recovery and loss of an operation (barrier.rs)\<close>

datatype (plugins only: code size) RecoveredExpectedOperationDecision =
    Recovered ClientParticipantAggregate ExpectedParticipantOperation
  | NotAvailable ClientParticipantAggregate bool

definition recover_expected_operation ::
  "ClientParticipantAggregate \<Rightarrow> RecoveredExpectedOperationDecision" where
  "recover_expected_operation aggregate =
    (case cpa_expected aggregate of
       None \<Rightarrow> RecoveredExpectedOperationDecision.NotAvailable aggregate False
     | Some expected \<Rightarrow>
         (if eo_issued expected then RecoveredExpectedOperationDecision.NotAvailable aggregate True
          else
            let aggregate = aggregate\<lparr>cpa_expected := Some (expected\<lparr>eo_issued := True\<rparr>)\<rparr>;
                aggregate = (if is_detach (eo_request expected)
                  then aggregate\<lparr>cpa_detach_replay :=
                    mark_initial_attempt_started (cpa_detach_replay aggregate)\<rparr>
                  else aggregate)
            in RecoveredExpectedOperationDecision.Recovered aggregate
                 \<lparr>epo_request = eo_request expected, epo_authorization = eo_authorization expected\<rparr>))"

datatype (plugins only: code size) LostAuthorityResolutionRefusalReason = NoPendingTestimony

datatype (plugins only: code size) LostOperationAuthorityDecision =
    Recorded ClientParticipantAggregate ClientRequest LostAuthorityTestimony
  | DetachParked ClientParticipantAggregate ClientRequest LostAuthorityTestimony
  | Refused ClientParticipantAggregate LostAuthorityResolutionRefusalReason

text \<open>\<open>*status = DetachReplayStatus::Parked\<close> and the like, under \<open>if let Recorded\<close>.\<close>

definition set_replay_status ::
  "SdkDetachReplayAggregate \<Rightarrow> DetachReplayStatus \<Rightarrow> SdkDetachReplayAggregate" where
  "set_replay_status r status =
    (case sdr_state r of
       Empty \<Rightarrow> r
     | DetachReplayState.Recorded request _ \<Rightarrow>
         r\<lparr>sdr_state := DetachReplayState.Recorded request status\<rparr>)"

definition resolve_lost_operation_authority ::
  "ClientParticipantAggregate \<Rightarrow> LostOperationAuthorityDecision" where
  "resolve_lost_operation_authority aggregate =
    (case cpa_expected aggregate of
       None \<Rightarrow> LostOperationAuthorityDecision.Refused aggregate NoPendingTestimony
     | Some expected \<Rightarrow>
         (case eo_lost expected of
            None \<Rightarrow> LostOperationAuthorityDecision.Refused aggregate NoPendingTestimony
          | Some testimony \<Rightarrow>
              (if is_detach (eo_request expected)
               then LostOperationAuthorityDecision.DetachParked
                 (aggregate
                   \<lparr>cpa_expected := Some (expected\<lparr>eo_lost := None, eo_issued := False\<rparr>),
                    cpa_detach_replay :=
                      set_replay_status (cpa_detach_replay aggregate) DetachReplayStatus.Parked\<rparr>)
                 (eo_request expected) testimony
               else LostOperationAuthorityDecision.Recorded (aggregate\<lparr>cpa_expected := None\<rparr>)
                 (eo_request expected) testimony)))"

datatype (plugins only: code size) ExpectedOperationTransportFate = ResponseUnavailable

datatype (plugins only: code size) ExpectedOperationFateRefusalReason =
    NoIssuedOperation
  | StaleCorrelation
  | DetachUsesReplayFate
  | LostAuthorityPending

datatype (plugins only: code size) ExpectedOperationFateDecision =
    Recorded ClientParticipantAggregate ClientRequest ExpectedOperationTransportFate
  | Refused ClientParticipantAggregate ClientResponseCorrelation ExpectedOperationTransportFate
      ExpectedOperationFateRefusalReason

definition record_expected_operation_fate ::
  "ClientParticipantAggregate \<Rightarrow> ClientResponseCorrelation \<Rightarrow> ExpectedOperationTransportFate
    \<Rightarrow> ExpectedOperationFateDecision" where
  "record_expected_operation_fate aggregate correlation fate =
    (let refused = ExpectedOperationFateDecision.Refused aggregate correlation fate in
     case cpa_expected aggregate of
       None \<Rightarrow> refused NoIssuedOperation
     | Some expected \<Rightarrow>
         (if \<not> eo_issued expected then refused NoIssuedOperation
          else if eo_lost expected \<noteq> None
          then refused ExpectedOperationFateRefusalReason.LostAuthorityPending
          else if eo_authorization expected \<noteq> crc_authorization correlation
          then refused StaleCorrelation
          else if is_detach (eo_request expected) then refused DetachUsesReplayFate
          else ExpectedOperationFateDecision.Recorded (aggregate\<lparr>cpa_expected := None\<rparr>)
            (eo_request expected) fate))"

section \<open>Detach replay transitions (replay.rs)\<close>

datatype (plugins only: code size) DetachReplayRefusalReason =
    AlreadyRecorded
  | InvalidStatus
  | ForeignInput
  | LostAuthorityPending

record 'i DetachReplayRefusal =
  drf_aggregate :: ClientParticipantAggregate
  drf_input :: 'i
  drf_reason :: DetachReplayRefusalReason

datatype (plugins only: code size) DetachTransportAttemptDecision =
    Started ClientParticipantAggregate DetachTransportAttempt
  | Refused "unit DetachReplayRefusal"

definition transport_attempt_started ::
  "ClientParticipantAggregate \<Rightarrow> DetachTransportAttemptDecision" where
  "transport_attempt_started aggregate =
    (let refused = DetachTransportAttemptDecision.Refused
         \<lparr>drf_aggregate = aggregate, drf_input = (), drf_reason = InvalidStatus\<rparr> in
     case sdr_state (cpa_detach_replay aggregate) of
       DetachReplayState.Recorded request DetachReplayStatus.Parked \<Rightarrow>
         (let expected_matches = (case cpa_expected aggregate of
              None \<Rightarrow> False
            | Some expected \<Rightarrow> eo_authorization expected \<noteq> 0
                \<and> (case eo_request expected of
                     ClientRequest.Detach v \<Rightarrow> detach_request_matches v request
                   | _ \<Rightarrow> False)) in
          if \<not> expected_matches then refused
          else
            let authorization = (case cpa_expected aggregate of None \<Rightarrow> 0 | Some e \<Rightarrow> eo_authorization e);
                aggregate = mark_issued aggregate;
                aggregate = aggregate\<lparr>cpa_detach_replay :=
                  set_replay_status (cpa_detach_replay aggregate) DetachReplayStatus.InFlight\<rparr>
            in Started aggregate \<lparr>dta_request = request, dta_authorization = authorization\<rparr>)
     | _ \<Rightarrow> refused)"

definition detach_authority_matches ::
  "ClientParticipantAggregate \<Rightarrow> ClientResponseCorrelation \<Rightarrow> bool" where
  "detach_authority_matches aggregate correlation =
    (case cpa_expected aggregate of
       None \<Rightarrow> False
     | Some expected \<Rightarrow>
         (if \<not> eo_issued expected \<or> eo_authorization expected \<noteq> crc_authorization correlation then False
          else case sdr_state (cpa_detach_replay aggregate) of
            DetachReplayState.Recorded request DetachReplayStatus.InFlight \<Rightarrow>
              (case eo_request expected of
                 ClientRequest.Detach v \<Rightarrow> detach_request_matches v request
               | _ \<Rightarrow> False)
          | _ \<Rightarrow> False))"

datatype (plugins only: code size) DetachTransportFate = ResponseUnavailable

datatype (plugins only: code size) DetachTransportFateDecision =
    Parked ClientParticipantAggregate
  | Refused "(ClientResponseCorrelation \<times> DetachTransportFate) DetachReplayRefusal"

definition transport_fate ::
  "ClientParticipantAggregate \<Rightarrow> ClientResponseCorrelation \<Rightarrow> DetachTransportFate
    \<Rightarrow> DetachTransportFateDecision" where
  "transport_fate aggregate correlation fate =
    (let refused = (\<lambda>reason. DetachTransportFateDecision.Refused
         \<lparr>drf_aggregate = aggregate, drf_input = (correlation, fate), drf_reason = reason\<rparr>) in
     if operation_loss_pending aggregate then refused DetachReplayRefusalReason.LostAuthorityPending
     else if detach_authority_matches aggregate correlation
     then DetachTransportFateDecision.Parked
       (aggregate
         \<lparr>cpa_detach_replay := set_replay_status (cpa_detach_replay aggregate) DetachReplayStatus.Parked,
          cpa_expected := map_option (\<lambda>e. e\<lparr>eo_issued := False\<rparr>) (cpa_expected aggregate)\<rparr>)
     else refused InvalidStatus)"

datatype (plugins only: code size) ApplyAttachDecision =
    Superseded ClientParticipantAggregate
  | Refused "(AttachBound \<times> ClientResponseCorrelation) DetachReplayRefusal"

definition apply_attach ::
  "ClientParticipantAggregate \<Rightarrow> AttachBound \<Rightarrow> ClientResponseCorrelation \<Rightarrow> ApplyAttachDecision" where
  "apply_attach aggregate attach correlation =
    (let refused = (\<lambda>reason. ApplyAttachDecision.Refused
         \<lparr>drf_aggregate = aggregate, drf_input = (attach, correlation), drf_reason = reason\<rparr>) in
     if operation_loss_pending aggregate then refused DetachReplayRefusalReason.LostAuthorityPending
     else
       let (replay, applied) = replay_apply_attach (cpa_detach_replay aggregate) attach in
       if detach_authority_matches aggregate correlation \<and> applied
       then ApplyAttachDecision.Superseded
         (aggregate\<lparr>cpa_detach_replay := replay, cpa_expected := None\<rparr>)
       else refused ForeignInput)"

datatype (plugins only: code size) ApplyLeaveDecision =
    Superseded ClientParticipantAggregate
  | Refused "(LeaveCommitted \<times> ClientResponseCorrelation) DetachReplayRefusal"

definition apply_leave_durable ::
  "ClientParticipantAggregate \<Rightarrow> LeaveCommitted \<Rightarrow> ClientResponseCorrelation \<Rightarrow> ApplyLeaveDecision" where
  "apply_leave_durable aggregate leave correlation =
    (let refused = (\<lambda>reason. ApplyLeaveDecision.Refused
         \<lparr>drf_aggregate = aggregate, drf_input = (leave, correlation), drf_reason = reason\<rparr>) in
     if operation_loss_pending aggregate then refused DetachReplayRefusalReason.LostAuthorityPending
     else
       let (replay, applied) = replay_apply_leave (cpa_detach_replay aggregate) leave in
       if detach_authority_matches aggregate correlation \<and> applied
       then ApplyLeaveDecision.Superseded
         (aggregate\<lparr>cpa_detach_replay := replay, cpa_expected := None\<rparr>)
       else refused ForeignInput)"

datatype (plugins only: code size) DetachReplayOutcome =
    DetachCommitted DetachCommitted
  | DetachInProgress DetachInProgress
  | TerminalizedDetachCell TerminalizedDetachCell

datatype (plugins only: code size) ApplyDetachOutcomeDecision =
    Terminal ClientParticipantAggregate
  | Refused "(DetachReplayOutcome \<times> ClientResponseCorrelation) DetachReplayRefusal"

definition apply_detach_outcome ::
  "ClientParticipantAggregate \<Rightarrow> DetachReplayOutcome \<Rightarrow> ClientResponseCorrelation
    \<Rightarrow> ApplyDetachOutcomeDecision" where
  "apply_detach_outcome aggregate outcome correlation =
    (let refused = (\<lambda>reason. ApplyDetachOutcomeDecision.Refused
         \<lparr>drf_aggregate = aggregate, drf_input = (outcome, correlation), drf_reason = reason\<rparr>) in
     if operation_loss_pending aggregate then refused DetachReplayRefusalReason.LostAuthorityPending
     else if \<not> detach_authority_matches aggregate correlation then refused InvalidStatus
     else
       let (replay, applied) = (case outcome of
           DetachReplayOutcome.DetachCommitted v \<Rightarrow>
             apply_detach_committed (cpa_detach_replay aggregate) v
         | DetachReplayOutcome.DetachInProgress v \<Rightarrow>
             apply_detach_in_progress (cpa_detach_replay aggregate) v
         | DetachReplayOutcome.TerminalizedDetachCell v \<Rightarrow>
             apply_terminalized_detach_cell (cpa_detach_replay aggregate) v) in
       if applied
       then ApplyDetachOutcomeDecision.Terminal
         (aggregate\<lparr>cpa_detach_replay := replay, cpa_expected := None\<rparr>)
       else refused ForeignInput)"

end
