(* ===== verification/Client_Inbound.thy ===== *)
theory Client_Inbound
  imports Client_Barrier
begin

text \<open>
  Inbound correlation and application (\<open>liminal-protocol/src/client/inbound.rs\<close>): the refusal
  ladder of \<open>decide_inbound_inner\<close>, retirement of the expected operation together with its detach
  replay, and the binding transitions of each applied server value.
\<close>

datatype (plugins only: code size) ClientInboundRefusalReason =
    AlreadyDead
  | ForeignResponse
  | DelayedResponse
  | AmbiguousResponse
  | MissingResponseAuthority
  | LostAuthorityPending

record ClientInboundApplied =
  cia_aggregate :: ClientParticipantAggregate
  cia_value :: ServerValue

record ClientInboundRefusal =
  cir_aggregate :: ClientParticipantAggregate
  cir_value :: ServerValue
  cir_reason :: ClientInboundRefusalReason

datatype (plugins only: code size) ClientInboundDecision =
    Applied ClientInboundApplied
  | Refused ClientInboundRefusal

record ClientCorrelatedInboundRefusal =
  ccr_aggregate :: ClientParticipantAggregate
  ccr_value :: ServerValue
  ccr_correlation :: ClientResponseCorrelation
  ccr_reason :: ClientInboundRefusalReason

datatype (plugins only: code size) ClientCorrelatedInboundDecision =
    Applied ClientInboundApplied
  | Refused ClientCorrelatedInboundRefusal

section \<open>Binding transitions\<close>

definition apply_enroll_bound :: "ClientParticipantAggregate \<Rightarrow> EnrollBound \<Rightarrow> ClientParticipantAggregate" where
  "apply_enroll_bound aggregate v =
    aggregate\<lparr>cpa_binding := ClientBindingState.Bound (eb_conversation_id v) (eb_participant_id v)
      (be_capability_generation (eb_origin_binding_epoch v)) (eb_attach_secret v)
      (eb_origin_binding_epoch v)\<rparr>"

definition apply_unbound_attach_receipt ::
  "ClientParticipantAggregate \<Rightarrow> AttachBound \<Rightarrow> ClientParticipantAggregate" where
  "apply_unbound_attach_receipt aggregate v =
    aggregate\<lparr>cpa_binding := ClientBindingState.Detached (ab_conversation_id v) (ab_participant_id v)
      (be_capability_generation (ab_origin_binding_epoch v)) (ab_attach_secret v)\<rparr>"

definition apply_attach_bound :: "ClientParticipantAggregate \<Rightarrow> AttachBound \<Rightarrow> ClientParticipantAggregate" where
  "apply_attach_bound aggregate v =
    aggregate\<lparr>cpa_binding := ClientBindingState.Bound (ab_conversation_id v) (ab_participant_id v)
      (be_capability_generation (ab_origin_binding_epoch v)) (ab_attach_secret v)
      (ab_origin_binding_epoch v)\<rparr>"

fun participant_reference_identity :: "ParticipantReferenceEnvelope \<Rightarrow> u64 \<times> u64" where
  "participant_reference_identity (ParticipantReferenceEnvelope.CredentialAttach v) =
    (ae_conversation_id v, ae_participant_id v)"
| "participant_reference_identity (ParticipantReferenceEnvelope.Detach v) =
    (de_conversation_id v, de_participant_id v)"
| "participant_reference_identity (ParticipantReferenceEnvelope.ParticipantAck v) =
    (pae_conversation_id v, pae_participant_id v)"
| "participant_reference_identity (ParticipantReferenceEnvelope.Leave v) =
    (le_conversation_id v, le_participant_id v)"
| "participant_reference_identity (ParticipantReferenceEnvelope.MarkerAck v) =
    (mae_conversation_id v, mae_participant_id v)"
| "participant_reference_identity (ParticipantReferenceEnvelope.RecordAdmission v) =
    (rae_conversation_id v, rae_participant_id v)"

definition apply_retired :: "ClientParticipantAggregate \<Rightarrow> Retired \<Rightarrow> ClientParticipantAggregate" where
  "apply_retired aggregate v =
    (let (conversation_id, participant_id, generation) = (case v of
         Retired.Enrollment request participant_id retired_generation \<Rightarrow>
           (ee_conversation_id request, participant_id, retired_generation)
       | Retired.Participant request retired_generation \<Rightarrow>
           (let (conversation_id, participant_id) = participant_reference_identity request
            in (conversation_id, participant_id, retired_generation)))
     in aggregate
       \<lparr>cpa_binding := ClientBindingState.Left conversation_id participant_id generation,
        cpa_detach_replay :=
          fst (replay_apply_retired (cpa_detach_replay aggregate) conversation_id participant_id generation)\<rparr>)"

definition with_replay ::
  "ClientParticipantAggregate \<Rightarrow> (SdkDetachReplayAggregate \<Rightarrow> SdkDetachReplayAggregate \<times> bool)
    \<Rightarrow> ClientParticipantAggregate" where
  "with_replay aggregate f = aggregate\<lparr>cpa_detach_replay := fst (f (cpa_detach_replay aggregate))\<rparr>"

definition apply_correlated_value ::
  "ClientParticipantAggregate \<Rightarrow> ServerValue \<Rightarrow> ClientParticipantAggregate" where
  "apply_correlated_value aggregate x =
    (case x of
       ServerValue.EnrollBound v \<Rightarrow> apply_enroll_bound aggregate v
     | ServerValue.Bound (ReceiptReplay.Enrollment v) \<Rightarrow> apply_enroll_bound aggregate v
     | ServerValue.AttachBound v \<Rightarrow>
         with_replay (apply_attach_bound aggregate v) (\<lambda>r. replay_apply_attach r v)
     | ServerValue.Bound (ReceiptReplay.CredentialAttach v) \<Rightarrow>
         with_replay (apply_attach_bound aggregate v) (\<lambda>r. replay_apply_attach r v)
     | ServerValue.UnboundReceipt (ReceiptReplay.CredentialAttach v) \<Rightarrow>
         with_replay (apply_unbound_attach_receipt aggregate v) (\<lambda>r. replay_apply_attach r v)
     | ServerValue.DetachCommitted v \<Rightarrow>
         (let detached = (\<lambda>attach_secret. with_replay
              (aggregate\<lparr>cpa_binding := ClientBindingState.Detached (dc_conversation_id v)
                (dc_participant_id v) (be_capability_generation (dc_committed_binding_epoch v))
                attach_secret\<rparr>) (\<lambda>r. apply_detach_committed r v)) in
          case cpa_binding aggregate of
            ClientBindingState.Bound _ _ _ attach_secret _ \<Rightarrow> detached attach_secret
          | ClientBindingState.Detached _ _ _ attach_secret \<Rightarrow> detached attach_secret
          | ClientBindingState.Unbound \<Rightarrow> aggregate
          | ClientBindingState.Left _ _ _ \<Rightarrow> aggregate)
     | ServerValue.DetachInProgress v \<Rightarrow> with_replay aggregate (\<lambda>r. apply_detach_in_progress r v)
     | ServerValue.StaleAuthority (StaleAuthority.Detach
         (DetachStaleAuthority.TerminalizedDetachCell v)) \<Rightarrow>
         with_replay aggregate (\<lambda>r. apply_terminalized_detach_cell r v)
     | ServerValue.LeaveCommitted v \<Rightarrow>
         with_replay
           (aggregate\<lparr>cpa_binding := ClientBindingState.Left (lc_conversation_id v)
             (lc_participant_id v) (lc_retired_generation v)\<rparr>)
           (\<lambda>r. replay_apply_leave r v)
     | ServerValue.Retired v \<Rightarrow> apply_retired aggregate v
     | _ \<Rightarrow> aggregate)"

definition expected_detach_envelope :: "ClientParticipantAggregate \<Rightarrow> DetachEnvelope option" where
  "expected_detach_envelope aggregate =
    (case cpa_expected aggregate of
       Some expected \<Rightarrow>
         (case eo_request expected of
            ClientRequest.Detach request \<Rightarrow> Some (detach_envelope request)
          | _ \<Rightarrow> None)
     | None \<Rightarrow> None)"

definition retire_expected_operation ::
  "ClientParticipantAggregate \<Rightarrow> ServerValue \<Rightarrow> ClientParticipantAggregate" where
  "retire_expected_operation aggregate x =
    (let expected_detach = expected_detach_envelope aggregate;
         aggregate = apply_correlated_value (aggregate\<lparr>cpa_expected := None\<rparr>) x
     in case expected_detach of
          Some envelope \<Rightarrow> with_replay aggregate (\<lambda>r. settle_refused_authority r envelope x)
        | None \<Rightarrow> aggregate)"

section \<open>Decisions\<close>

fun is_transport_rejected :: "ServerValue \<Rightarrow> bool" where
  "is_transport_rejected (ServerValue.ParticipantTransportRejected _) = True"
| "is_transport_rejected _ = False"

fun is_observer_answer :: "ServerValue \<Rightarrow> bool" where
  "is_observer_answer (ServerValue.ObserverRecoveryAccepted _) = True"
| "is_observer_answer (ServerValue.InvalidObserverEpoch _) = True"
| "is_observer_answer (ServerValue.InvalidObserverEpochList _) = True"
| "is_observer_answer _ = False"

fun is_record_admission :: "ClientRequest \<Rightarrow> bool" where
  "is_record_admission (ClientRequest.RecordAdmission _) = True"
| "is_record_admission _ = False"

definition decide_inbound_inner ::
  "ClientParticipantAggregate \<Rightarrow> ServerValue \<Rightarrow> bool \<Rightarrow> ClientInboundDecision" where
  "decide_inbound_inner aggregate x has_response_authority =
    (let refusal = (\<lambda>reason. ClientInboundDecision.Refused
           \<lparr>cir_aggregate = aggregate, cir_value = x, cir_reason = reason\<rparr>);
         unchanged = ClientInboundDecision.Applied \<lparr>cia_aggregate = aggregate, cia_value = x\<rparr> in
     if is_left (cpa_binding aggregate) then refusal ClientInboundRefusalReason.AlreadyDead
     else case participant_ack_request x of
       Some request \<Rightarrow>
         (if matches_ack (cpa_binding aggregate) request then unchanged
          else refusal ForeignResponse)
     | None \<Rightarrow>
         (if is_transport_rejected x then unchanged
          else case cpa_expected aggregate of
            None \<Rightarrow> refusal DelayedResponse
          | Some expected \<Rightarrow>
              (if eo_lost expected \<noteq> None
               then refusal ClientInboundRefusalReason.LostAuthorityPending
               else if \<not> has_response_authority then refusal MissingResponseAuthority
               else if \<not> accepts_request (cpa_binding aggregate) (eo_request expected)
               then refusal ForeignResponse
               else if \<not> matches_request x (eo_request expected)
               then
                 (let same_request_class =
                        (originating_request x = Some (ClientRequest_discriminant (eo_request expected))
                         \<or> is_observer_answer x \<and> is_observer_recovery (eo_request expected));
                      identity = same_identity x (eo_request expected) in
                  refusal
                    (if same_request_class \<and> identity
                     then (if is_record_admission (eo_request expected) then AmbiguousResponse
                           else DelayedResponse)
                     else ForeignResponse))
               else ClientInboundDecision.Applied
                 \<lparr>cia_aggregate = retire_expected_operation aggregate x, cia_value = x\<rparr>)))"

definition decide_inbound :: "ClientParticipantAggregate \<Rightarrow> ServerValue \<Rightarrow> ClientInboundDecision" where
  "decide_inbound aggregate x = decide_inbound_inner aggregate x False"

definition decide_correlated_inbound ::
  "ClientParticipantAggregate \<Rightarrow> ServerValue \<Rightarrow> ClientResponseCorrelation
    \<Rightarrow> ClientCorrelatedInboundDecision" where
  "decide_correlated_inbound aggregate x correlation =
    (let current_authority = (case cpa_expected aggregate of
         None \<Rightarrow> False
       | Some expected \<Rightarrow>
           eo_issued expected \<and> eo_authorization expected = crc_authorization correlation) in
     if \<not> current_authority
     then ClientCorrelatedInboundDecision.Refused
       \<lparr>ccr_aggregate = aggregate, ccr_value = x, ccr_correlation = correlation,
        ccr_reason = DelayedResponse\<rparr>
     else case decide_inbound_inner aggregate x True of
       ClientInboundDecision.Applied applied \<Rightarrow> ClientCorrelatedInboundDecision.Applied applied
     | ClientInboundDecision.Refused refusal \<Rightarrow>
         ClientCorrelatedInboundDecision.Refused
           \<lparr>ccr_aggregate = cir_aggregate refusal, ccr_value = cir_value refusal,
            ccr_correlation = correlation, ccr_reason = cir_reason refusal\<rparr>)"

end
