(* ===== verification/Client_Reconnect.thy ===== *)
theory Client_Reconnect
  imports Client_Barrier
begin

text \<open>
  Event-driven reconnect authority (\<open>liminal-protocol/src/client/reconnect.rs\<close>): fresh events mint a
  permit, a permit is redeemed for one attempt, an attempt's fate returns the machine to parked or
  online, and a restored loss is resolved by its testimony.
\<close>

datatype (plugins only: code size) ReconnectState = Parked | PermitOutstanding | AttemptInProgress | Online

datatype (plugins only: code size) ReconnectRequiredEvent = TransportFate | OnlineTransition | ExplicitCallerAction

datatype (plugins only: code size) ReconnectDelayResult =
    ReconnectArmed ReconnectRequiredEvent
  | ReconnectNotArmed ReconnectState ReconnectRequiredEvent

fun required_event :: "ReconnectFreshEvent \<Rightarrow> ReconnectRequiredEvent" where
  "required_event (ReconnectFreshEvent.TransportFate _) = ReconnectRequiredEvent.TransportFate"
| "required_event (ReconnectFreshEvent.OnlineTransition _) = ReconnectRequiredEvent.OnlineTransition"
| "required_event (ReconnectFreshEvent.ExplicitCallerAction _) = ReconnectRequiredEvent.ExplicitCallerAction"

definition reconnect_state :: "ReconnectAggregate \<Rightarrow> ReconnectState" where
  "reconnect_state r =
    (case rg_state r of
       ReconnectMachineState.Parked \<Rightarrow> ReconnectState.Parked
     | ReconnectMachineState.Permit _ _ _ \<Rightarrow> ReconnectState.PermitOutstanding
     | ReconnectMachineState.Attempt _ _ \<Rightarrow> ReconnectState.AttemptInProgress
     | ReconnectMachineState.Online \<Rightarrow> ReconnectState.Online)"

record ReconnectAttemptPermit =
  rap_authorization :: u64
  rap_event :: ReconnectFreshEvent

datatype (plugins only: code size) ReconnectPermitRefusalReason = AuthorizationOutstanding | AuthorizationExhausted

record ReconnectPermitRefusal =
  rpr_aggregate :: ClientParticipantAggregate
  rpr_event :: ReconnectFreshEvent
  rpr_reason :: ReconnectPermitRefusalReason
  rpr_result :: ReconnectDelayResult

datatype (plugins only: code size) ReconnectPermitDecision =
    Permitted ClientParticipantAggregate ReconnectAttemptPermit ReconnectDelayResult
  | Refused ReconnectPermitRefusal

definition set_reconnect ::
  "ClientParticipantAggregate \<Rightarrow> ReconnectMachineState \<Rightarrow> ClientParticipantAggregate" where
  "set_reconnect aggregate state =
    aggregate\<lparr>cpa_reconnect := (cpa_reconnect aggregate)\<lparr>rg_state := state\<rparr>\<rparr>"

definition record_fresh_event ::
  "ClientParticipantAggregate \<Rightarrow> ReconnectFreshEvent \<Rightarrow> ReconnectPermitDecision" where
  "record_fresh_event aggregate event =
    (let refused = (\<lambda>reason. ReconnectPermitDecision.Refused
         \<lparr>rpr_aggregate = aggregate, rpr_event = event, rpr_reason = reason,
          rpr_result = ReconnectNotArmed (reconnect_state (cpa_reconnect aggregate)) (required_event event)\<rparr>) in
     if rg_state (cpa_reconnect aggregate) \<noteq> ReconnectMachineState.Parked
        \<and> rg_state (cpa_reconnect aggregate) \<noteq> ReconnectMachineState.Online
     then refused AuthorizationOutstanding
     else case checked_add (rg_next_authorization (cpa_reconnect aggregate)) 1 of
       None \<Rightarrow> refused ReconnectPermitRefusalReason.AuthorizationExhausted
     | Some authorization \<Rightarrow>
         Permitted
           (aggregate\<lparr>cpa_reconnect := (cpa_reconnect aggregate)
             \<lparr>rg_next_authorization := authorization,
              rg_state := ReconnectMachineState.Permit authorization event True\<rparr>\<rparr>)
           \<lparr>rap_authorization = authorization, rap_event = event\<rparr>
           (ReconnectArmed (required_event event)))"

definition record_transport_fate ::
  "ClientParticipantAggregate \<Rightarrow> EstablishedConnectionTransportFate \<Rightarrow> ReconnectPermitDecision" where
  "record_transport_fate aggregate fate =
    record_fresh_event aggregate (ReconnectFreshEvent.TransportFate fate)"

definition record_online_transition ::
  "ClientParticipantAggregate \<Rightarrow> ProvedOnlineTransition \<Rightarrow> ReconnectPermitDecision" where
  "record_online_transition aggregate transition =
    record_fresh_event aggregate (ReconnectFreshEvent.OnlineTransition transition)"

definition record_explicit_reconnect ::
  "ClientParticipantAggregate \<Rightarrow> ExplicitReconnectAction \<Rightarrow> ReconnectPermitDecision" where
  "record_explicit_reconnect aggregate action =
    record_fresh_event aggregate (ReconnectFreshEvent.ExplicitCallerAction action)"

datatype (plugins only: code size) RecoveredReconnectPermitDecision =
    Recovered ClientParticipantAggregate ReconnectAttemptPermit
  | NotAvailable ClientParticipantAggregate ReconnectState

definition recover_reconnect_permit ::
  "ClientParticipantAggregate \<Rightarrow> RecoveredReconnectPermitDecision" where
  "recover_reconnect_permit aggregate =
    (case rg_state (cpa_reconnect aggregate) of
       ReconnectMachineState.Permit authorization event False \<Rightarrow>
         RecoveredReconnectPermitDecision.Recovered
           (set_reconnect aggregate (ReconnectMachineState.Permit authorization event True))
           \<lparr>rap_authorization = authorization, rap_event = event\<rparr>
     | _ \<Rightarrow> RecoveredReconnectPermitDecision.NotAvailable aggregate
         (reconnect_state (cpa_reconnect aggregate)))"

datatype (plugins only: code size) LostReconnectAuthorityDecision =
    Recorded ClientParticipantAggregate LostAuthorityTestimony
  | Refused ClientParticipantAggregate LostAuthorityResolutionRefusalReason

definition resolve_lost_reconnect_authority ::
  "ClientParticipantAggregate \<Rightarrow> LostReconnectAuthorityDecision" where
  "resolve_lost_reconnect_authority aggregate =
    (case rg_lost (cpa_reconnect aggregate) of
       Some testimony \<Rightarrow>
         LostReconnectAuthorityDecision.Recorded
           (aggregate\<lparr>cpa_reconnect := (cpa_reconnect aggregate)
             \<lparr>rg_lost := None, rg_state := ReconnectMachineState.Parked\<rparr>\<rparr>) testimony
     | None \<Rightarrow> LostReconnectAuthorityDecision.Refused aggregate NoPendingTestimony)"

record ReconnectInProgressAttempt =
  ria_authorization :: u64
  ria_event :: ReconnectFreshEvent

datatype (plugins only: code size) ReconnectAttemptRefusalReason = NoPermit | StalePermit | LostAuthorityPending

datatype (plugins only: code size) ReconnectAttemptDecision =
    Started ClientParticipantAggregate ReconnectInProgressAttempt
  | Refused ClientParticipantAggregate ReconnectAttemptPermit ReconnectAttemptRefusalReason

definition redeem_attempt ::
  "ClientParticipantAggregate \<Rightarrow> ReconnectAttemptPermit \<Rightarrow> ReconnectAttemptDecision" where
  "redeem_attempt aggregate permit =
    (if rg_lost (cpa_reconnect aggregate) \<noteq> None
     then ReconnectAttemptDecision.Refused aggregate permit
       ReconnectAttemptRefusalReason.LostAuthorityPending
     else case rg_state (cpa_reconnect aggregate) of
       ReconnectMachineState.Permit authorization event _ \<Rightarrow>
         (if authorization = rap_authorization permit \<and> event = rap_event permit
          then ReconnectAttemptDecision.Started
            (set_reconnect aggregate (ReconnectMachineState.Attempt authorization event))
            \<lparr>ria_authorization = authorization, ria_event = event\<rparr>
          else ReconnectAttemptDecision.Refused aggregate permit StalePermit)
     | _ \<Rightarrow> ReconnectAttemptDecision.Refused aggregate permit NoPermit)"

datatype (plugins only: code size) ReconnectAttemptFate = Connected | Failed

datatype (plugins only: code size) ReconnectAttemptFateRefusalReason = NoAttempt | StaleAttempt | LostAuthorityPending

datatype (plugins only: code size) ReconnectAttemptFateDecision =
    Recorded ClientParticipantAggregate
  | Refused ClientParticipantAggregate ReconnectInProgressAttempt ReconnectAttemptFate
      ReconnectAttemptFateRefusalReason

definition record_attempt_fate ::
  "ClientParticipantAggregate \<Rightarrow> ReconnectInProgressAttempt \<Rightarrow> ReconnectAttemptFate
    \<Rightarrow> ReconnectAttemptFateDecision" where
  "record_attempt_fate aggregate attempt fate =
    (if rg_lost (cpa_reconnect aggregate) \<noteq> None
     then ReconnectAttemptFateDecision.Refused aggregate attempt fate
       ReconnectAttemptFateRefusalReason.LostAuthorityPending
     else case rg_state (cpa_reconnect aggregate) of
       ReconnectMachineState.Attempt authorization event \<Rightarrow>
         (if authorization = ria_authorization attempt \<and> event = ria_event attempt
          then ReconnectAttemptFateDecision.Recorded
            (set_reconnect aggregate (case fate of
               Connected \<Rightarrow> ReconnectMachineState.Online
             | Failed \<Rightarrow> ReconnectMachineState.Parked))
          else ReconnectAttemptFateDecision.Refused aggregate attempt fate StaleAttempt)
     | _ \<Rightarrow> ReconnectAttemptFateDecision.Refused aggregate attempt fate NoAttempt)"

end
