(* ===== verification/Client_Resume.thy ===== *)
theory Client_Resume
  imports Client_Inbound Client_Reconnect Participant_Codec
begin

text \<open>
  The durable client resume record (\<open>liminal-protocol/src/client/resume.rs\<close>, \<open>resume_encode.rs\<close>,
  \<open>resume_decode.rs\<close>): the canonical LPCR bytes of an aggregate, their decoder over the borrowing
  \<open>Reader\<close>, the validation of decoded facts, and \<open>restore\<close>, which turns a record back into an
  aggregate and mints the testimony of the authority the crash destroyed.
\<close>

section \<open>Errors and sections (resume.rs)\<close>

definition MAGIC :: "u8 list" where
  "MAGIC = [0x4C, 0x50, 0x43, 0x52]"

definition VERSION :: u16 where
  "VERSION = 1"

datatype (plugins only: code size) ClientResumeRecordSection = Binding | ExpectedOperation | DetachReplay | Reconnect | Abandonment

datatype (plugins only: code size) ClientResumeRecordEncodeError =
    NestedCodec ClientResumeRecordSection CodecError
  | LengthOverflow
  | DecoupledDetachReplay

datatype (plugins only: code size) ClientResumeRecordDecodeError =
    Truncated nat nat
  | InvalidMagic "u8 list"
  | UnsupportedVersion u16
  | LengthMismatch u64 nat
  | InvalidTag ClientResumeRecordSection u8
  | NestedCodec ClientResumeRecordSection "CodecError option"
  | InvalidAbandonmentRequest ClientDiscriminant
  | TrailingBytes nat

datatype (plugins only: code size) ClientResumeRestoreError =
    BindingGenerationMismatch
  | ContinuousAckOutstanding
  | ReplayTerminalMismatch
  | InvalidOperationAuthorization
  | ExpectedBindingMismatch
  | ActiveReplayExpectedDetachMismatch
  | ExpectedDetachActiveReplayMismatch
  | InvalidReconnectAuthorization
  | LostAuthorityTestimonyMismatch
  | PendingAbandonmentConflict
  | CorruptRecord ClientResumeRecordDecodeError

record ClientResumeRecord =
  crr_canonical :: "u8 list"

record DecodedFacts =
  df_binding :: ClientBindingState
  df_next_operation_authorization :: u64
  df_expected :: "ExpectedOperationState option"
  df_replay :: DetachReplayState
  df_reconnect_state :: ReconnectMachineState
  df_next_authorization :: u64
  df_reconnect_lost :: "LostAuthorityTestimony option"
  df_abandonment :: "RestoredExpectedOperationAbandonment option"

section \<open>Encoding (resume_encode.rs)\<close>

text \<open>\<open>Vec\<close> buffers are byte lists; \<open>lpcr_u16\<close> and \<open>lpcr_u64\<close> are \<open>put_u16\<close> and \<open>put_u64\<close> of this module.\<close>

definition lpcr_u16 :: "u8 list \<Rightarrow> u16 \<Rightarrow> u8 list" where
  "lpcr_u16 output w = output @ be_bytes 2 (unat w)"

definition lpcr_u64 :: "u8 list \<Rightarrow> u64 \<Rightarrow> u8 list" where
  "lpcr_u64 output w = output @ be_bytes 8 (unat w)"

definition flag_byte :: "bool \<Rightarrow> u8" where
  "flag_byte b = (if b then 1 else 0)"

definition encode_epoch :: "BindingEpoch \<Rightarrow> u8 list \<Rightarrow> u8 list" where
  "encode_epoch epoch output =
    lpcr_u64 (lpcr_u64 (lpcr_u64 output
      (ci_server_incarnation (be_connection_incarnation epoch)))
      (ci_connection_ordinal (be_connection_incarnation epoch)))
      (generation_get (be_capability_generation epoch))"

definition encode_terminal_binding :: "u8 \<Rightarrow> u64 \<Rightarrow> u64 \<Rightarrow> Generation \<Rightarrow> u8 list \<Rightarrow> u8 list" where
  "encode_terminal_binding tag conversation_id participant_id generation output =
    lpcr_u64 (lpcr_u64 (lpcr_u64 (output @ [tag]) conversation_id) participant_id) (generation_get generation)"

fun encode_binding :: "ClientBindingState \<Rightarrow> u8 list \<Rightarrow> u8 list" where
  "encode_binding ClientBindingState.Unbound output = output @ [0]"
| "encode_binding (ClientBindingState.Bound conversation_id participant_id generation attach_secret
      binding_epoch) output =
    encode_epoch binding_epoch
      (lpcr_u64 (lpcr_u64 (lpcr_u64 (output @ [1]) conversation_id) participant_id)
        (generation_get generation) @ attach_secret)"
| "encode_binding (ClientBindingState.Detached conversation_id participant_id generation attach_secret) output =
    encode_terminal_binding 2 conversation_id participant_id generation output @ attach_secret"
| "encode_binding (ClientBindingState.Left conversation_id participant_id generation) output =
    encode_terminal_binding 3 conversation_id participant_id generation output"

text \<open>\<open>alloc::vec![0; length]\<close>, the encode into it, and \<open>truncate\<close> to the written length.\<close>

definition encode_frame ::
  "ParticipantFrame \<Rightarrow> ClientResumeRecordSection \<Rightarrow> (ClientResumeRecordEncodeError, u8 list) result" where
  "encode_frame frame section =
    (case encoded_len frame of
       Inl source \<Rightarrow> Err (ClientResumeRecordEncodeError.NestedCodec section source)
     | Inr len \<Rightarrow>
         (case encode frame (replicate len 0) of
            Inl source \<Rightarrow> Err (ClientResumeRecordEncodeError.NestedCodec section source)
          | Inr (written, bytes) \<Rightarrow> Ok (take written bytes)))"

definition put_blob :: "u8 list \<Rightarrow> u8 list \<Rightarrow> (ClientResumeRecordEncodeError, u8 list) result" where
  "put_blob output bytes =
    (if length bytes \<le> U64_MAX then Ok (lpcr_u64 output (of_nat (length bytes)) @ bytes)
     else Err ClientResumeRecordEncodeError.LengthOverflow)"

fun kind_tag :: "LostAuthorityKind \<Rightarrow> u8" where
  "kind_tag IssuedOperationCorrelation = 1"
| "kind_tag LostAuthorityKind.DetachTransportAttempt = 2"
| "kind_tag ReconnectPermit = 3"
| "kind_tag ReconnectAttempt = 4"

definition encode_testimony :: "LostAuthorityTestimony option \<Rightarrow> u8 list \<Rightarrow> u8 list" where
  "encode_testimony testimony output =
    output @ [case testimony of None \<Rightarrow> 0 | Some t \<Rightarrow> kind_tag (lat_kind t)]"

definition encode_expected ::
  "ExpectedOperationState option \<Rightarrow> u8 list \<Rightarrow> (ClientResumeRecordEncodeError, u8 list) result" where
  "encode_expected expected output =
    (case expected of
       None \<Rightarrow> Ok (output @ [0])
     | Some request \<Rightarrow>
         let output = encode_testimony (eo_lost request)
           (lpcr_u64 (output @ [1] @ [flag_byte (eo_issued request)]) (eo_authorization request)) in
         andThen (encode_frame (ClientRequestFrame (eo_request request)) ExpectedOperation) (\<lambda>frame.
         put_blob output frame))"

definition encode_abandonment ::
  "RestoredExpectedOperationAbandonment option \<Rightarrow> u8 list \<Rightarrow> (ClientResumeRecordEncodeError, u8 list) result" where
  "encode_abandonment abandonment output =
    (case abandonment of
       None \<Rightarrow> Ok (output @ [0])
     | Some abandonment \<Rightarrow>
         let output = output @ [1] @ [case roa_reason abandonment of TokenlessAfterCrash \<Rightarrow> 0]
           @ [flag_byte (roa_was_issued abandonment)] in
         andThen (encode_frame (ClientRequestFrame (roa_request abandonment)) Abandonment) (\<lambda>frame.
         put_blob output frame))"

fun encode_status :: "DetachReplayStatus \<Rightarrow> u8 \<times> ServerValue option" where
  "encode_status DetachReplayStatus.Parked = (1, None)"
| "encode_status DetachReplayStatus.InFlight = (2, None)"
| "encode_status DetachReplayStatus.Superseded = (3, None)"
| "encode_status DetachReplayStatus.LeaveSuperseded = (4, None)"
| "encode_status (DetachReplayStatus.Terminal (DetachReplayTerminal.DetachCommitted v)) =
    (5, Some (ServerValue.DetachCommitted v))"
| "encode_status (DetachReplayStatus.Terminal (DetachReplayTerminal.DetachInProgress v)) =
    (6, Some (ServerValue.DetachInProgress v))"
| "encode_status (DetachReplayStatus.Terminal (DetachReplayTerminal.TerminalizedDetachCell v)) =
    (7, Some (ServerValue.StaleAuthority (StaleAuthority.Detach (DetachStaleAuthority.TerminalizedDetachCell v))))"
| "encode_status (DetachReplayStatus.Terminal (DetachReplayTerminal.AuthorityRefused v)) =
    (8, Some (dar_value v))"

definition encode_replay ::
  "DetachReplayState \<Rightarrow> u8 list \<Rightarrow> (ClientResumeRecordEncodeError, u8 list) result" where
  "encode_replay replay output =
    (case replay of
       Empty \<Rightarrow> Ok (output @ [0])
     | DetachReplayState.Recorded request status \<Rightarrow>
         let (tag, terminal) = encode_status status;
             output = lpcr_u64 (lpcr_u64 (lpcr_u64 (output @ [tag]) (de_conversation_id request))
               (de_participant_id request)) (generation_get (de_capability_generation request))
               @ de_detach_attempt_token request in
         case terminal of
           Some v \<Rightarrow>
             andThen (encode_frame (ServerValueFrame v) DetachReplay) (\<lambda>frame. put_blob output frame)
         | None \<Rightarrow> Ok output)"

fun event_tag :: "ReconnectFreshEvent \<Rightarrow> u8" where
  "event_tag (ReconnectFreshEvent.TransportFate _) = 0"
| "event_tag (ReconnectFreshEvent.OnlineTransition _) = 1"
| "event_tag (ReconnectFreshEvent.ExplicitCallerAction _) = 2"

definition encode_event :: "ReconnectFreshEvent \<Rightarrow> u8 list \<Rightarrow> u8 list" where
  "encode_event event output = output @ [event_tag event]"

definition encode_reconnect :: "ReconnectAggregate \<Rightarrow> u8 list \<Rightarrow> u8 list" where
  "encode_reconnect reconnect output =
    (let output = lpcr_u64 output (rg_next_authorization reconnect);
         output = (case rg_state reconnect of
             ReconnectMachineState.Parked \<Rightarrow> output @ [0]
           | ReconnectMachineState.Permit authorization event issued \<Rightarrow>
               encode_event event (lpcr_u64 (output @ [1]) authorization) @ [flag_byte issued]
           | ReconnectMachineState.Attempt authorization event \<Rightarrow>
               encode_event event (lpcr_u64 (output @ [2]) authorization)
           | ReconnectMachineState.Online \<Rightarrow> output @ [3])
     in encode_testimony (rg_lost reconnect) output)"

definition encode_aggregate ::
  "ClientParticipantAggregate \<Rightarrow> (ClientResumeRecordEncodeError, u8 list) result" where
  "encode_aggregate aggregate =
    (let payload = lpcr_u64 (encode_binding (cpa_binding aggregate) [])
       (cpa_next_operation_authorization aggregate) in
     andThen (encode_expected (cpa_expected aggregate) payload) (\<lambda>payload.
     andThen (encode_replay (sdr_state (cpa_detach_replay aggregate)) payload) (\<lambda>payload.
     let payload = encode_reconnect (cpa_reconnect aggregate) payload in
     andThen (encode_abandonment (cpa_restored_abandonment aggregate) payload) (\<lambda>payload.
     if length payload \<le> U64_MAX
     then Ok (lpcr_u64 (lpcr_u16 MAGIC VERSION) (of_nat (length payload)) @ payload)
     else Err ClientResumeRecordEncodeError.LengthOverflow))))"

section \<open>Decoding (resume_decode.rs)\<close>

record Reader =
  rd_input :: "u8 list"
  rd_offset :: nat

type_synonym 'a reader = "Reader \<Rightarrow> (ClientResumeRecordDecodeError, 'a \<times> Reader) result"

definition Reader_new :: "u8 list \<Rightarrow> Reader" where
  "Reader_new input = \<lparr>rd_input = input, rd_offset = 0\<rparr>"

definition reader_remaining :: "Reader \<Rightarrow> nat" where
  "reader_remaining r = length (rd_input r) - rd_offset r"

text \<open>Sequencing of \<open>reader.read()?\<close>.\<close>

definition thenRead :: "'a reader \<Rightarrow> ('a \<Rightarrow> 'b reader) \<Rightarrow> 'b reader" where
  "thenRead t f r = andThen (t r) (\<lambda>(x, r). f x r)"

definition readOk :: "'a \<Rightarrow> 'a reader" where
  "readOk x r = Ok (x, r)"

definition readErr :: "ClientResumeRecordDecodeError \<Rightarrow> 'a reader" where
  "readErr e r = Err e"

definition reader_take :: "nat \<Rightarrow> u8 list reader" where
  "reader_take len r =
    (if reader_remaining r < len then Err (Truncated len (reader_remaining r))
     else Ok (take len (drop (rd_offset r) (rd_input r)), r\<lparr>rd_offset := rd_offset r + len\<rparr>))"

definition reader_u8 :: "u8 reader" where
  "reader_u8 = thenRead (reader_take 1) (\<lambda>bs. readOk (bs ! 0))"

definition reader_u16 :: "u16 reader" where
  "reader_u16 = thenRead (reader_take 2) (\<lambda>bs. readOk (of_nat (be_value bs)))"

definition reader_u64 :: "u64 reader" where
  "reader_u64 = thenRead (reader_take 8) (\<lambda>bs. readOk (of_nat (be_value bs)))"

definition reader_blob :: "u8 list reader" where
  "reader_blob = thenRead reader_u64 (\<lambda>len. reader_take (unat len))"

definition lpcr_generation :: "ClientResumeRecordSection \<Rightarrow> Generation reader" where
  "lpcr_generation section = thenRead reader_u64 (\<lambda>w.
    case Generation_new w of
      Some g \<Rightarrow> readOk g
    | None \<Rightarrow> readErr (ClientResumeRecordDecodeError.NestedCodec section None))"

definition lpcr_epoch :: "BindingEpoch reader" where
  "lpcr_epoch =
    thenRead reader_u64 (\<lambda>server_incarnation.
    thenRead reader_u64 (\<lambda>connection_ordinal.
    thenRead (lpcr_generation Binding) (\<lambda>capability_generation.
    readOk \<lparr>be_connection_incarnation =
        \<lparr>ci_server_incarnation = server_incarnation, ci_connection_ordinal = connection_ordinal\<rparr>,
      be_capability_generation = capability_generation\<rparr>)))"

definition lpcr_bool :: "ClientResumeRecordSection \<Rightarrow> bool reader" where
  "lpcr_bool section = thenRead reader_u8 (\<lambda>tag.
    if tag = 0 then readOk False else if tag = 1 then readOk True
    else readErr (InvalidTag section tag))"

definition decode_binding :: "ClientBindingState reader" where
  "decode_binding = thenRead reader_u8 (\<lambda>tag.
    if tag = 0 then readOk ClientBindingState.Unbound
    else if tag = 1 then
      thenRead reader_u64 (\<lambda>conversation_id.
      thenRead reader_u64 (\<lambda>participant_id.
      thenRead (lpcr_generation Binding) (\<lambda>generation.
      thenRead (reader_take 32) (\<lambda>attach_secret.
      thenRead lpcr_epoch (\<lambda>binding_epoch.
      readOk (ClientBindingState.Bound conversation_id participant_id generation attach_secret
        binding_epoch))))))
    else if tag = 2 \<or> tag = 3 then
      thenRead reader_u64 (\<lambda>conversation_id.
      thenRead reader_u64 (\<lambda>participant_id.
      thenRead (lpcr_generation Binding) (\<lambda>generation.
      if tag = 2
      then thenRead (reader_take 32) (\<lambda>attach_secret.
        readOk (ClientBindingState.Detached conversation_id participant_id generation attach_secret))
      else readOk (ClientBindingState.Left conversation_id participant_id generation))))
    else readErr (InvalidTag Binding tag))"

definition decode_testimony :: "ClientResumeRecordSection \<Rightarrow> LostAuthorityTestimony option reader" where
  "decode_testimony section = thenRead reader_u8 (\<lambda>tag.
    if tag = 0 then readOk None
    else if tag = 1 then readOk (Some (mint IssuedOperationCorrelation))
    else if tag = 2 then readOk (Some (mint LostAuthorityKind.DetachTransportAttempt))
    else if tag = 3 then readOk (Some (mint ReconnectPermit))
    else if tag = 4 then readOk (Some (mint ReconnectAttempt))
    else readErr (InvalidTag section tag))"

text \<open>The nested request frame of the expected operation and of the abandonment.\<close>

definition nested_request :: "ClientResumeRecordSection \<Rightarrow> u8 list \<Rightarrow> (ClientRequest \<Rightarrow> 'a reader) \<Rightarrow> 'a reader" where
  "nested_request section bytes f =
    (case decode bytes ReceiverDirection.Server of
       Inr (ClientRequestFrame request) \<Rightarrow> f request
     | Inr _ \<Rightarrow> readErr (ClientResumeRecordDecodeError.NestedCodec section None)
     | Inl source \<Rightarrow> readErr (ClientResumeRecordDecodeError.NestedCodec section (Some source)))"

definition decode_expected :: "ExpectedOperationState option reader" where
  "decode_expected = thenRead reader_u8 (\<lambda>tag.
    if tag = 0 then readOk None
    else if tag = 1 then
      thenRead (lpcr_bool ExpectedOperation) (\<lambda>issued.
      thenRead reader_u64 (\<lambda>authorization.
      thenRead (decode_testimony ExpectedOperation) (\<lambda>lost.
      thenRead reader_blob (\<lambda>bytes.
      nested_request ExpectedOperation bytes (\<lambda>request.
      readOk (Some \<lparr>eo_request = request, eo_issued = issued, eo_authorization = authorization,
        eo_lost = lost\<rparr>))))))
    else readErr (InvalidTag ExpectedOperation tag))"

definition terminal_of :: "u8 \<Rightarrow> ServerValue \<Rightarrow> DetachReplayTerminal option" where
  "terminal_of tag x =
    (if tag = 5 then (case x of
         ServerValue.DetachCommitted v \<Rightarrow> Some (DetachReplayTerminal.DetachCommitted v)
       | _ \<Rightarrow> None)
     else if tag = 6 then (case x of
         ServerValue.DetachInProgress v \<Rightarrow> Some (DetachReplayTerminal.DetachInProgress v)
       | _ \<Rightarrow> None)
     else if tag = 7 then (case x of
         ServerValue.StaleAuthority (StaleAuthority.Detach
           (DetachStaleAuthority.TerminalizedDetachCell v)) \<Rightarrow>
           Some (DetachReplayTerminal.TerminalizedDetachCell v)
       | _ \<Rightarrow> None)
     else if tag = 8 then (case x of
         ServerValue.DetachCommitted _ \<Rightarrow> None
       | ServerValue.DetachInProgress _ \<Rightarrow> None
       | ServerValue.StaleAuthority (StaleAuthority.Detach
           (DetachStaleAuthority.TerminalizedDetachCell _)) \<Rightarrow> None
       | _ \<Rightarrow> Some (DetachReplayTerminal.AuthorityRefused \<lparr>dar_value = x\<rparr>))
     else None)"

definition decode_terminal :: "u8 \<Rightarrow> DetachReplayStatus reader" where
  "decode_terminal tag = thenRead reader_blob (\<lambda>bytes.
    case decode bytes ReceiverDirection.Client of
      Inr (ServerValueFrame x) \<Rightarrow>
        (case terminal_of tag x of
           Some terminal \<Rightarrow> readOk (DetachReplayStatus.Terminal terminal)
         | None \<Rightarrow> readErr (ClientResumeRecordDecodeError.NestedCodec DetachReplay None))
    | Inr _ \<Rightarrow> readErr (ClientResumeRecordDecodeError.NestedCodec DetachReplay None)
    | Inl source \<Rightarrow> readErr (ClientResumeRecordDecodeError.NestedCodec DetachReplay (Some source)))"

definition decode_replay :: "DetachReplayState reader" where
  "decode_replay = thenRead reader_u8 (\<lambda>tag.
    if tag = 0 then readOk Empty
    else if \<not> (1 \<le> tag \<and> tag \<le> 8) then readErr (InvalidTag DetachReplay tag)
    else
      thenRead reader_u64 (\<lambda>conversation_id.
      thenRead reader_u64 (\<lambda>participant_id.
      thenRead (lpcr_generation DetachReplay) (\<lambda>capability_generation.
      thenRead (reader_take 16) (\<lambda>detach_attempt_token.
      thenRead
        (if tag = 1 then readOk DetachReplayStatus.Parked
         else if tag = 2 then readOk DetachReplayStatus.InFlight
         else if tag = 3 then readOk DetachReplayStatus.Superseded
         else if tag = 4 then readOk DetachReplayStatus.LeaveSuperseded
         else decode_terminal tag) (\<lambda>status.
      readOk (DetachReplayState.Recorded
        \<lparr>de_conversation_id = conversation_id, de_participant_id = participant_id,
         de_capability_generation = capability_generation,
         de_detach_attempt_token = detach_attempt_token\<rparr> status)))))))"

definition decode_event :: "ReconnectFreshEvent reader" where
  "decode_event = thenRead reader_u8 (\<lambda>tag.
    if tag = 0 then readOk (ReconnectFreshEvent.TransportFate Lost)
    else if tag = 1 then readOk (ReconnectFreshEvent.OnlineTransition ProvedOnline)
    else if tag = 2 then readOk (ReconnectFreshEvent.ExplicitCallerAction ReconnectNow)
    else readErr (InvalidTag Reconnect tag))"

definition decode_reconnect ::
  "(ReconnectMachineState \<times> u64 \<times> LostAuthorityTestimony option) reader" where
  "decode_reconnect =
    thenRead reader_u64 (\<lambda>next_authorization.
    thenRead (thenRead reader_u8 (\<lambda>tag.
        if tag = 0 then readOk ReconnectMachineState.Parked
        else if tag = 1 then
          thenRead reader_u64 (\<lambda>authorization.
          thenRead decode_event (\<lambda>event.
          thenRead (lpcr_bool Reconnect) (\<lambda>issued.
          readOk (ReconnectMachineState.Permit authorization event issued))))
        else if tag = 2 then
          thenRead reader_u64 (\<lambda>authorization.
          thenRead decode_event (\<lambda>event.
          readOk (ReconnectMachineState.Attempt authorization event)))
        else if tag = 3 then readOk ReconnectMachineState.Online
        else readErr (InvalidTag Reconnect tag))) (\<lambda>state.
    thenRead (decode_testimony Reconnect) (\<lambda>lost.
    readOk (state, next_authorization, lost))))"

definition decode_abandonment :: "RestoredExpectedOperationAbandonment option reader" where
  "decode_abandonment = thenRead reader_u8 (\<lambda>tag.
    if tag = 0 then readOk None
    else if tag = 1 then
      thenRead (thenRead reader_u8 (\<lambda>tag.
        if tag = 0 then readOk TokenlessAfterCrash else readErr (InvalidTag Abandonment tag))) (\<lambda>reason.
      thenRead (lpcr_bool Abandonment) (\<lambda>was_issued.
      thenRead reader_blob (\<lambda>bytes.
      nested_request Abandonment bytes (\<lambda>request.
      if is_observer_recovery request
      then readOk (Some \<lparr>roa_request = request, roa_reason = reason, roa_was_issued = was_issued\<rparr>)
      else readErr (InvalidAbandonmentRequest (ClientRequest_discriminant request))))))
    else readErr (InvalidTag Abandonment tag))"

definition decode_payload_facts :: "DecodedFacts reader" where
  "decode_payload_facts =
    thenRead decode_binding (\<lambda>binding.
    thenRead reader_u64 (\<lambda>next_operation_authorization.
    thenRead decode_expected (\<lambda>expected.
    thenRead decode_replay (\<lambda>replay.
    thenRead decode_reconnect (\<lambda>(reconnect_state, next_authorization, reconnect_lost).
    thenRead decode_abandonment (\<lambda>abandonment.
    readOk \<lparr>df_binding = binding, df_next_operation_authorization = next_operation_authorization,
      df_expected = expected, df_replay = replay, df_reconnect_state = reconnect_state,
      df_next_authorization = next_authorization, df_reconnect_lost = reconnect_lost,
      df_abandonment = abandonment\<rparr>))))))"

definition decode_facts :: "u8 list \<Rightarrow> (ClientResumeRecordDecodeError, DecodedFacts) result" where
  "decode_facts input =
    andThen (reader_take 4 (Reader_new input)) (\<lambda>(presented, reader).
    if presented \<noteq> MAGIC then Err (InvalidMagic presented)
    else andThen (reader_u16 reader) (\<lambda>(version, reader).
    if version \<noteq> VERSION then Err (UnsupportedVersion version)
    else andThen (reader_u64 reader) (\<lambda>(declared, reader).
    if unat declared \<noteq> reader_remaining reader
    then Err (LengthMismatch declared (reader_remaining reader))
    else andThen (decode_payload_facts reader) (\<lambda>(facts, reader).
    if reader_remaining reader \<noteq> 0 then Err (TrailingBytes (reader_remaining reader))
    else Ok facts))))"

section \<open>Validation and restore (resume.rs)\<close>

definition terminal_matches :: "DetachEnvelope \<Rightarrow> DetachReplayTerminal \<Rightarrow> bool" where
  "terminal_matches request terminal =
    (case terminal of
       DetachReplayTerminal.DetachCommitted v \<Rightarrow>
         dc_conversation_id v = de_conversation_id request
         \<and> dc_participant_id v = de_participant_id request
         \<and> be_capability_generation (dc_committed_binding_epoch v) = de_capability_generation request
         \<and> dc_detach_attempt_token v = de_detach_attempt_token request
     | DetachReplayTerminal.DetachInProgress v \<Rightarrow>
         dip_conversation_id v = de_conversation_id request
         \<and> dip_participant_id v = de_participant_id request
         \<and> dip_presented_generation v = de_capability_generation request
         \<and> dip_presented_token v = de_detach_attempt_token request
     | DetachReplayTerminal.TerminalizedDetachCell v \<Rightarrow>
         tdc_conversation_id v = de_conversation_id request
         \<and> tdc_participant_id v = de_participant_id request
         \<and> tdc_capability_generation v = de_capability_generation request
         \<and> tdc_detach_attempt_token v = de_detach_attempt_token request
     | DetachReplayTerminal.AuthorityRefused v \<Rightarrow>
         matches_request (dar_value v) (ClientRequest.Detach
           \<lparr>dr_conversation_id = de_conversation_id request, dr_participant_id = de_participant_id request,
            dr_capability_generation = de_capability_generation request,
            dr_detach_attempt_token = de_detach_attempt_token request\<rparr>))"

definition active_replay :: "DetachReplayState \<Rightarrow> (DetachEnvelope \<times> DetachReplayStatus) option" where
  "active_replay replay =
    (case replay of
       DetachReplayState.Recorded request status \<Rightarrow>
         (if active_status status then Some (request, status) else None)
     | Empty \<Rightarrow> None)"

definition expected_detach :: "ExpectedOperationState option \<Rightarrow> (DetachRequest \<times> bool) option" where
  "expected_detach expected =
    (case expected of
       Some expected \<Rightarrow>
         (case eo_request expected of
            ClientRequest.Detach v \<Rightarrow> Some (v, eo_issued expected)
          | _ \<Rightarrow> None)
     | None \<Rightarrow> None)"

definition state_kind :: "ReconnectMachineState \<Rightarrow> LostAuthorityKind option" where
  "state_kind state =
    (case state of
       ReconnectMachineState.Permit _ _ issued \<Rightarrow> (if issued then Some ReconnectPermit else None)
     | ReconnectMachineState.Attempt _ _ \<Rightarrow> Some ReconnectAttempt
     | ReconnectMachineState.Parked \<Rightarrow> None
     | ReconnectMachineState.Online \<Rightarrow> None)"

definition expected_kind :: "ClientRequest \<Rightarrow> LostAuthorityKind" where
  "expected_kind request =
    (if is_detach request then LostAuthorityKind.DetachTransportAttempt else IssuedOperationCorrelation)"

definition validate_testimony_coupling :: "DecodedFacts \<Rightarrow> (ClientResumeRestoreError, unit) result" where
  "validate_testimony_coupling facts =
    (if (case df_expected facts of
           Some expected \<Rightarrow>
             (case eo_lost expected of
                Some testimony \<Rightarrow> \<not> eo_issued expected \<or> is_observer_recovery (eo_request expected)
                  \<or> lat_kind testimony \<noteq> expected_kind (eo_request expected)
              | None \<Rightarrow> False)
         | None \<Rightarrow> False)
     then Err LostAuthorityTestimonyMismatch
     else if (case df_reconnect_lost facts of
           Some testimony \<Rightarrow> state_kind (df_reconnect_state facts) \<noteq> Some (lat_kind testimony)
         | None \<Rightarrow> False)
     then Err LostAuthorityTestimonyMismatch
     else if df_abandonment facts \<noteq> None
       \<and> (case df_expected facts of
           Some expected \<Rightarrow> is_observer_recovery (eo_request expected)
         | None \<Rightarrow> False)
     then Err PendingAbandonmentConflict
     else Ok ())"

definition reconnect_authorization :: "ReconnectMachineState \<Rightarrow> u64 option" where
  "reconnect_authorization state =
    (case state of
       ReconnectMachineState.Permit authorization _ _ \<Rightarrow> Some authorization
     | ReconnectMachineState.Attempt authorization _ \<Rightarrow> Some authorization
     | ReconnectMachineState.Parked \<Rightarrow> None
     | ReconnectMachineState.Online \<Rightarrow> None)"

definition validate_replay_coupling :: "DecodedFacts \<Rightarrow> (ClientResumeRestoreError, unit) result" where
  "validate_replay_coupling facts =
    (case (active_replay (df_replay facts), expected_detach (df_expected facts)) of
       (Some (request, status), Some (v, issued)) \<Rightarrow>
         (if detach_request_matches v request
             \<and> (status = DetachReplayStatus.Parked \<and> \<not> issued
                 \<or> status = DetachReplayStatus.InFlight \<and> issued)
          then Ok () else Err ActiveReplayExpectedDetachMismatch)
     | (Some _, None) \<Rightarrow> Err ActiveReplayExpectedDetachMismatch
     | (None, Some _) \<Rightarrow> Err ExpectedDetachActiveReplayMismatch
     | (None, None) \<Rightarrow> Ok ())"

definition validate_facts :: "DecodedFacts \<Rightarrow> (ClientResumeRestoreError, unit) result" where
  "validate_facts facts =
    (if (case df_binding facts of
           ClientBindingState.Bound _ _ generation _ binding_epoch \<Rightarrow>
             generation \<noteq> be_capability_generation binding_epoch
         | _ \<Rightarrow> False)
     then Err BindingGenerationMismatch
     else if (case df_expected facts of
           Some expected \<Rightarrow> is_participant_ack (eo_request expected)
         | None \<Rightarrow> False)
     then Err ContinuousAckOutstanding
     else if (case df_expected facts of
           Some expected \<Rightarrow> eo_authorization expected = 0
             \<or> eo_authorization expected > df_next_operation_authorization facts
         | None \<Rightarrow> False)
     then Err InvalidOperationAuthorization
     else if (case df_expected facts of
           Some expected \<Rightarrow> \<not> accepts_request (df_binding facts) (eo_request expected)
         | None \<Rightarrow> False)
     then Err ExpectedBindingMismatch
     else andThen (validate_replay_coupling facts) (\<lambda>_.
     if (case df_replay facts of
           DetachReplayState.Recorded request (DetachReplayStatus.Terminal terminal) \<Rightarrow>
             \<not> terminal_matches request terminal
         | _ \<Rightarrow> False)
     then Err ReplayTerminalMismatch
     else if (case reconnect_authorization (df_reconnect_state facts) of
           Some v \<Rightarrow> v = 0 \<or> v > df_next_authorization facts
         | None \<Rightarrow> False)
     then Err InvalidReconnectAuthorization
     else validate_testimony_coupling facts))"

definition restore_facts :: "DecodedFacts \<Rightarrow> ClientParticipantAggregate" where
  "restore_facts facts =
    (let tokenless = (case df_expected facts of
           Some expected \<Rightarrow> is_observer_recovery (eo_request expected)
         | None \<Rightarrow> False);
         restored_abandonment = (if tokenless
           then map_option (\<lambda>expected. \<lparr>roa_request = eo_request expected,
             roa_reason = TokenlessAfterCrash, roa_was_issued = eo_issued expected\<rparr>) (df_expected facts)
           else df_abandonment facts);
         expected = (if tokenless then None else df_expected facts);
         expected = map_option (\<lambda>expected.
           if eo_issued expected \<and> eo_lost expected = None
           then expected\<lparr>eo_lost := Some (mint (expected_kind (eo_request expected)))\<rparr>
           else expected) expected;
         reconnect_lost = (case df_reconnect_lost facts of
             Some testimony \<Rightarrow> Some testimony
           | None \<Rightarrow> map_option mint (state_kind (df_reconnect_state facts)))
     in \<lparr>cpa_binding = df_binding facts, cpa_expected = expected,
         cpa_next_operation_authorization = df_next_operation_authorization facts,
         cpa_detach_replay = \<lparr>sdr_state = df_replay facts\<rparr>,
         cpa_reconnect = \<lparr>rg_state = df_reconnect_state facts,
           rg_next_authorization = df_next_authorization facts, rg_lost = reconnect_lost\<rparr>,
         cpa_restored_abandonment = restored_abandonment\<rparr>)"

definition record_restore ::
  "ClientResumeRecord \<Rightarrow> (ClientResumeRestoreError, ClientParticipantAggregate) result" where
  "record_restore r =
    (case decode_facts (crr_canonical r) of
       Inl e \<Rightarrow> Err (CorruptRecord e)
     | Inr facts \<Rightarrow> andThen (validate_facts facts) (\<lambda>_. Ok (restore_facts facts)))"

definition decode_canonical :: "u8 list \<Rightarrow> (ClientResumeRecordDecodeError, ClientResumeRecord) result" where
  "decode_canonical input = andThen (decode_facts input) (\<lambda>_. Ok \<lparr>crr_canonical = input\<rparr>)"

definition validate_live_replay_coupling ::
  "ExpectedOperationState option \<Rightarrow> DetachReplayState \<Rightarrow> (ClientResumeRecordEncodeError, unit) result" where
  "validate_live_replay_coupling expected replay =
    (case (active_replay replay, expected_detach expected) of
       (Some (request, _), Some (v, _)) \<Rightarrow>
         (if detach_request_matches v request then Ok () else Err DecoupledDetachReplay)
     | (None, None) \<Rightarrow> Ok ()
     | _ \<Rightarrow> Err DecoupledDetachReplay)"

definition resume_record ::
  "ClientParticipantAggregate \<Rightarrow> (ClientResumeRecordEncodeError, ClientResumeRecord) result" where
  "resume_record aggregate =
    andThen (validate_live_replay_coupling (cpa_expected aggregate) (sdr_state (cpa_detach_replay aggregate))) (\<lambda>_.
    andThen (encode_aggregate aggregate) (\<lambda>canonical. Ok \<lparr>crr_canonical = canonical\<rparr>))"

definition commit_resume_record ::
  "ClientOperationCommit \<Rightarrow> (ClientResumeRecordEncodeError, ClientResumeRecord) result" where
  "commit_resume_record commit =
    andThen (validate_live_replay_coupling (cpa_expected (coc_aggregate commit))
      (sdr_state (cpa_detach_replay (coc_aggregate commit)))) (\<lambda>_.
    andThen (encode_aggregate (coc_aggregate commit)) (\<lambda>canonical. Ok \<lparr>crr_canonical = canonical\<rparr>))"

end
