(* ===== verification/Client_Invariant.thy ===== *)
theory Client_Invariant
  imports Client_Resume Participant_Roundtrip
begin

text \<open>
  The invariant of the client participant and its preservation by every operation of
  \<open>liminal-protocol/src/client\<close>. \<open>aggregate_ok\<close> collects what \<open>validate_facts\<close> demands of a decoded
  record and what the Rust types guarantee of the stored wire data; \<open>permits_issued\<close> is the further
  fact, which no validation checks, that no transition leaves a permit unissued. Each operation has
  one preservation lemma.
\<close>

section \<open>The invariant\<close>

fun binding_ok :: "ClientBindingState \<Rightarrow> bool" where
  "binding_ok ClientBindingState.Unbound \<longleftrightarrow> True"
| "binding_ok (ClientBindingState.Bound _ _ generation attach_secret epoch) \<longleftrightarrow>
    generation = be_capability_generation epoch \<and> epoch_ok epoch \<and> length attach_secret = SECRET_LEN"
| "binding_ok (ClientBindingState.Detached _ _ generation attach_secret) \<longleftrightarrow>
    generation_ok generation \<and> length attach_secret = SECRET_LEN"
| "binding_ok (ClientBindingState.Left _ _ generation) \<longleftrightarrow> generation_ok generation"

definition operation_ok :: "ClientBindingState \<Rightarrow> u64 \<Rightarrow> ExpectedOperationState \<Rightarrow> bool" where
  "operation_ok binding counter e \<longleftrightarrow>
    request_ok (eo_request e) \<and> \<not> is_participant_ack (eo_request e)
    \<and> eo_authorization e \<noteq> 0 \<and> eo_authorization e \<le> counter
    \<and> accepts_request binding (eo_request e)
    \<and> (\<forall>t. eo_lost e = Some t \<longrightarrow>
        eo_issued e \<and> \<not> is_observer_recovery (eo_request e) \<and> lat_kind t = expected_kind (eo_request e))"

definition envelope_ok :: "DetachEnvelope \<Rightarrow> bool" where
  "envelope_ok v \<longleftrightarrow> generation_ok (de_capability_generation v) \<and> length (de_detach_attempt_token v) = TOKEN_LEN"

text \<open>The wire value a terminal retains, and the three values that have their own record tags.\<close>

fun terminal_value :: "DetachReplayTerminal \<Rightarrow> ServerValue" where
  "terminal_value (DetachReplayTerminal.DetachCommitted v) = ServerValue.DetachCommitted v"
| "terminal_value (DetachReplayTerminal.DetachInProgress v) = ServerValue.DetachInProgress v"
| "terminal_value (DetachReplayTerminal.TerminalizedDetachCell v) =
    ServerValue.StaleAuthority (StaleAuthority.Detach (DetachStaleAuthority.TerminalizedDetachCell v))"
| "terminal_value (DetachReplayTerminal.AuthorityRefused v) = dar_value v"

definition answers_detach :: "ServerValue \<Rightarrow> bool" where
  "answers_detach x \<longleftrightarrow> (\<exists>v. x = ServerValue.DetachCommitted v) \<or> (\<exists>v. x = ServerValue.DetachInProgress v)
    \<or> (\<exists>v. x = ServerValue.StaleAuthority (StaleAuthority.Detach (DetachStaleAuthority.TerminalizedDetachCell v)))"

definition terminal_ok :: "DetachEnvelope \<Rightarrow> DetachReplayTerminal \<Rightarrow> bool" where
  "terminal_ok request t \<longleftrightarrow> terminal_matches request t \<and> server_value_ok (terminal_value t)
    \<and> (\<forall>v. t = DetachReplayTerminal.AuthorityRefused v \<longrightarrow> \<not> answers_detach (dar_value v))"

fun replay_ok :: "ExpectedOperationState option \<Rightarrow> DetachReplayState \<Rightarrow> bool" where
  "replay_ok expected Empty \<longleftrightarrow> expected_detach expected = None"
| "replay_ok expected (DetachReplayState.Recorded request status) \<longleftrightarrow> envelope_ok request
    \<and> (if active_status status
       then (\<exists>v. expected_detach expected = Some (v, status = DetachReplayStatus.InFlight)
              \<and> request = detach_envelope v)
       else expected_detach expected = None
         \<and> (\<forall>t. status = DetachReplayStatus.Terminal t \<longrightarrow> terminal_ok request t))"

definition reconnect_ok :: "ReconnectAggregate \<Rightarrow> bool" where
  "reconnect_ok r \<longleftrightarrow>
    (\<forall>n. reconnect_authorization (rg_state r) = Some n \<longrightarrow> n \<noteq> 0 \<and> n \<le> rg_next_authorization r)
    \<and> (\<forall>t. rg_lost r = Some t \<longrightarrow> state_kind (rg_state r) = Some (lat_kind t))"

definition permits_issued :: "ClientParticipantAggregate \<Rightarrow> bool" where
  "permits_issued a \<longleftrightarrow> (\<forall>n e. rg_state (cpa_reconnect a) \<noteq> ReconnectMachineState.Permit n e False)"

definition abandonment_ok ::
  "ExpectedOperationState option \<Rightarrow> RestoredExpectedOperationAbandonment option \<Rightarrow> bool" where
  "abandonment_ok expected abandonment \<longleftrightarrow>
    (\<forall>x. abandonment = Some x \<longrightarrow> request_ok (roa_request x) \<and> is_observer_recovery (roa_request x)
      \<and> (\<forall>e. expected = Some e \<longrightarrow> \<not> is_observer_recovery (eo_request e)))"

definition aggregate_ok :: "ClientParticipantAggregate \<Rightarrow> bool" where
  "aggregate_ok a \<longleftrightarrow> binding_ok (cpa_binding a)
    \<and> (\<forall>e. cpa_expected a = Some e \<longrightarrow>
        operation_ok (cpa_binding a) (cpa_next_operation_authorization a) e)
    \<and> replay_ok (cpa_expected a) (sdr_state (cpa_detach_replay a))
    \<and> reconnect_ok (cpa_reconnect a)
    \<and> abandonment_ok (cpa_expected a) (cpa_restored_abandonment a)"

section \<open>Shared facts\<close>

lemma expected_detach_None [simp]: "expected_detach None = None"
  by (simp add: expected_detach_def)

lemma expected_detach_Some:
  "expected_detach (Some e) =
    (case eo_request e of ClientRequest.Detach v \<Rightarrow> Some (v, eo_issued e) | _ \<Rightarrow> None)"
  by (simp add: expected_detach_def)

lemma expected_detach_not: "\<not> is_detach (eo_request e) \<Longrightarrow> expected_detach (Some e) = None"
  by (cases "eo_request e") (simp_all add: expected_detach_Some)

lemma is_detach_iff: "is_detach request \<longleftrightarrow> (\<exists>v. request = ClientRequest.Detach v)"
  by (cases request) simp_all

lemma detach_request_matches_iff: "detach_request_matches v request \<longleftrightarrow> request = detach_envelope v"
  by (cases request) (auto simp: detach_request_matches_def detach_envelope_def)

lemma detach_request_eta [simp]:
  "\<lparr>dr_conversation_id = dr_conversation_id v, dr_participant_id = dr_participant_id v,
    dr_capability_generation = dr_capability_generation v,
    dr_detach_attempt_token = dr_detach_attempt_token v\<rparr> = v"
  by (cases v) simp

lemma detach_matches_reflexive [simp]: "detach_request_matches v (detach_envelope v)"
  by (simp add: detach_request_matches_iff)

lemma sdr_state_update [simp]: "r\<lparr>sdr_state := state\<rparr> = \<lparr>sdr_state = state\<rparr>" for r :: SdkDetachReplayAggregate
  by (cases r) simp

lemma sdr_state_same [simp]: "\<lparr>sdr_state = sdr_state r\<rparr> = r" for r :: SdkDetachReplayAggregate
  by (cases r) simp

lemma set_replay_status_Recorded [simp]:
  "sdr_state (set_replay_status r status) =
    (case sdr_state r of Empty \<Rightarrow> Empty | DetachReplayState.Recorded q _ \<Rightarrow> DetachReplayState.Recorded q status)"
  by (simp add: set_replay_status_def split: DetachReplayState.split)

lemma aggregate_new_ok: "aggregate_ok ClientParticipantAggregate_new"
  by (simp add: aggregate_ok_def ClientParticipantAggregate_new_def SdkDetachReplayAggregate_new_def
      ReconnectAggregate_new_def reconnect_ok_def reconnect_authorization_def abandonment_ok_def)

lemma take_abandonment_ok: "aggregate_ok a \<Longrightarrow> aggregate_ok (fst (take_restored_operation_abandonment a))"
  by (simp add: aggregate_ok_def take_restored_operation_abandonment_def abandonment_ok_def)

section \<open>The barrier\<close>

lemma detach_envelope_ok: "request_ok (ClientRequest.Detach v) \<Longrightarrow> envelope_ok (detach_envelope v)"
  by (simp add: envelope_ok_def detach_envelope_def)

text \<open>Admission keeps the replay coupled to the operation it is admitted for.\<close>

lemma admit_detach_replay_ok:
  assumes "admit_detach_replay a request = Ok (b, prior)" and "cpa_expected a = None"
    and "replay_ok None (sdr_state (cpa_detach_replay a))" and "request_ok request"
  shows "replay_ok (Some \<lparr>eo_request = request, eo_issued = False, eo_authorization = n, eo_lost = None\<rparr>)
      (sdr_state (cpa_detach_replay b))
    \<and> (\<exists>state. b = a\<lparr>cpa_detach_replay := \<lparr>sdr_state = state\<rparr>\<rparr>)
    \<and> (case prior of None \<Rightarrow> b = a | Some state \<Rightarrow> state = sdr_state (cpa_detach_replay a))"
proof (cases request)
  case (Detach v)
  then show ?thesis using assms
    by (auto simp: admit_detach_replay_def Let_def expected_detach_Some detach_envelope_ok
        split: DetachReplayState.splits if_splits)
qed (use assms in \<open>auto simp: admit_detach_replay_def expected_detach_Some
      intro!: exI [of _ "sdr_state (cpa_detach_replay a)"] elim!: replay_ok.elims split: if_splits\<close>)

text \<open>A pending record is the recorded aggregate with its unissued operation, and aborting it gives
  back the aggregate it was recorded over.\<close>

lemma record_operation_pending:
  assumes "record_operation a request = Pending p" and ok: "aggregate_ok a" and "request_ok request"
  shows "aggregate_ok (por_successor p) \<and> pending_abort p = (a, request)
    \<and> por_operation p = \<lparr>epo_request = request,
        epo_authorization = cpa_next_operation_authorization (por_successor p)\<rparr>
    \<and> cpa_expected (por_successor p) = Some \<lparr>eo_request = request, eo_issued = False,
        eo_authorization = cpa_next_operation_authorization (por_successor p), eo_lost = None\<rparr>
    \<and> cpa_expected a = None \<and> cpa_reconnect (por_successor p) = cpa_reconnect a"
proof -
  obtain n b prior where steps: "accepts_request (cpa_binding a) request" "\<not> is_participant_ack request"
    "cpa_expected a = None" "cpa_restored_abandonment a \<noteq> None \<longrightarrow> \<not> is_observer_recovery request"
    "checked_add (cpa_next_operation_authorization a) 1 = Some n"
    and admit: "admit_detach_replay a request = Ok (b, prior)"
    and p: "p = \<lparr>por_successor = b\<lparr>cpa_next_operation_authorization := n,
        cpa_expected := Some \<lparr>eo_request = request, eo_issued = False, eo_authorization = n, eo_lost = None\<rparr>\<rparr>,
      por_operation = \<lparr>epo_request = request, epo_authorization = n\<rparr>, por_prior_replay = prior\<rparr>"
    using assms(1)
    by (auto simp: record_operation_def Let_def split: if_splits option.splits sum.splits)
  have n: "n = cpa_next_operation_authorization a + 1" "unat n = unat (cpa_next_operation_authorization a) + 1"
    using steps(5) checked_add_unat [OF steps(5)] by (auto simp: checked_add_def split: if_splits)
  have "n \<noteq> 0" using n(2) by auto
  have undo: "saturating_sub n 1 = cpa_next_operation_authorization a"
    using n \<open>n \<noteq> 0\<close> by (simp add: saturating_sub_def word_le_nat_alt)
  have replay: "replay_ok None (sdr_state (cpa_detach_replay a))"
    using ok steps(3) by (simp add: aggregate_ok_def)
  note admitted = admit_detach_replay_ok [OF admit steps(3) replay assms(3), of n]
  obtain state where b: "b = a\<lparr>cpa_detach_replay := \<lparr>sdr_state = state\<rparr>\<rparr>" using admitted by auto
  have good: "aggregate_ok (por_successor p)"
    using ok admitted b steps p \<open>n \<noteq> 0\<close> assms(3)
    by (auto simp: aggregate_ok_def operation_ok_def abandonment_ok_def)
  have abort: "pending_abort p = (a, request)"
    using admitted undo p b steps(3)
    by (cases prior) (auto simp: pending_abort_def Let_def)
  show ?thesis using good abort p b steps(3) by simp
qed

text \<open>Releasing an unissued operation: the two writes of \<open>into_parts\<close> and of
  \<open>recover_expected_operation\<close>.\<close>

definition issue :: "ClientParticipantAggregate \<Rightarrow> ClientParticipantAggregate" where
  "issue a =
    (let b = mark_issued a in
     case cpa_expected a of
       Some e \<Rightarrow> (if is_detach (eo_request e)
         then b\<lparr>cpa_detach_replay := mark_initial_attempt_started (cpa_detach_replay b)\<rparr> else b)
     | None \<Rightarrow> b)"

lemma issue_ok:
  assumes "aggregate_ok a" "cpa_expected a = Some e" "\<not> eo_issued e"
  shows "aggregate_ok (issue a)" "cpa_expected (issue a) = Some (e\<lparr>eo_issued := True\<rparr>)" "eo_lost e = None"
proof -
  show lost: "eo_lost e = None" using assms by (cases "eo_lost e") (auto simp: aggregate_ok_def operation_ok_def)
  show "cpa_expected (issue a) = Some (e\<lparr>eo_issued := True\<rparr>)"
    using assms(2) by (simp add: issue_def mark_issued_def Let_def)
  have other: "aggregate_ok (issue a)" if "\<not> is_detach (eo_request e)"
    using assms that lost expected_detach_not [of e] expected_detach_not [of "e\<lparr>eo_issued := True\<rparr>"]
    by (cases "sdr_state (cpa_detach_replay a)")
      (auto simp: aggregate_ok_def issue_def mark_issued_def Let_def operation_ok_def abandonment_ok_def
        split: if_splits)
  have detach: "aggregate_ok (issue a)" if "eo_request e = ClientRequest.Detach v" for v
    using assms that lost
    by (cases "sdr_state (cpa_detach_replay a)")
      (auto simp: aggregate_ok_def issue_def mark_issued_def Let_def operation_ok_def abandonment_ok_def
        mark_initial_attempt_started_def expected_detach_Some split: if_splits elim: active_status.elims)
  show "aggregate_ok (issue a)" using other detach by (cases "eo_request e") auto
qed

lemma commit_into_parts_issue:
  assumes "cpa_expected (coc_aggregate c) = Some e" "epo_request (coc_operation c) = eo_request e"
  shows "commit_into_parts c = (issue (coc_aggregate c), coc_operation c)"
  using assms by (simp add: commit_into_parts_def issue_def Let_def)

lemma recover_expected_operation_cases:
  "recover_expected_operation a =
    (case cpa_expected a of
       None \<Rightarrow> RecoveredExpectedOperationDecision.NotAvailable a False
     | Some e \<Rightarrow> (if eo_issued e then RecoveredExpectedOperationDecision.NotAvailable a True
         else RecoveredExpectedOperationDecision.Recovered (issue a)
           \<lparr>epo_request = eo_request e, epo_authorization = eo_authorization e\<rparr>))"
  by (simp add: recover_expected_operation_def issue_def mark_issued_def Let_def split: option.split)

text \<open>Retiring a non-detach operation empties the slot and nothing else.\<close>

lemma retire_plain_ok:
  assumes "aggregate_ok a" "cpa_expected a = Some e" "\<not> is_detach (eo_request e)"
  shows "aggregate_ok (a\<lparr>cpa_expected := None\<rparr>)"
  using assms expected_detach_not [of e]
  by (cases "sdr_state (cpa_detach_replay a)") (auto simp: aggregate_ok_def abandonment_ok_def split: if_splits)

text \<open>An issued detach, its replay in flight, and the state the two return to.\<close>

lemma issued_detach:
  assumes "aggregate_ok a" "cpa_expected a = Some e" "eo_request e = ClientRequest.Detach v" "eo_issued e"
  shows "sdr_state (cpa_detach_replay a) = DetachReplayState.Recorded (detach_envelope v) DetachReplayStatus.InFlight"
  using assms by (cases "sdr_state (cpa_detach_replay a)")
    (auto simp: aggregate_ok_def expected_detach_Some split: if_splits elim: active_status.elims)

lemma park_ok:
  assumes "aggregate_ok a" "cpa_expected a = Some e" "eo_request e = ClientRequest.Detach v" "eo_issued e"
  shows "aggregate_ok (a\<lparr>cpa_expected := Some (e\<lparr>eo_lost := None, eo_issued := False\<rparr>),
    cpa_detach_replay := set_replay_status (cpa_detach_replay a) DetachReplayStatus.Parked\<rparr>)"
  using assms issued_detach [OF assms]
  by (auto simp: aggregate_ok_def operation_ok_def abandonment_ok_def expected_detach_Some)

lemma resolve_lost_operation_authority_ok:
  assumes "aggregate_ok a"
  shows "case resolve_lost_operation_authority a of
      LostOperationAuthorityDecision.Recorded b _ _ \<Rightarrow> aggregate_ok b
    | LostOperationAuthorityDecision.DetachParked b _ _ \<Rightarrow> aggregate_ok b
    | LostOperationAuthorityDecision.Refused b _ \<Rightarrow> b = a"
proof (cases "cpa_expected a")
  case (Some e)
  show ?thesis
  proof (cases "eo_lost e")
    case (Some t)
    then have "eo_issued e" using assms \<open>cpa_expected a = Some e\<close> by (auto simp: aggregate_ok_def operation_ok_def)
    then show ?thesis
      using Some \<open>cpa_expected a = Some e\<close> park_ok [OF assms \<open>cpa_expected a = Some e\<close>]
        retire_plain_ok [OF assms \<open>cpa_expected a = Some e\<close>]
      by (cases "eo_request e") (auto simp: resolve_lost_operation_authority_def)
  qed (simp add: resolve_lost_operation_authority_def Some)
qed (simp add: resolve_lost_operation_authority_def)

lemma record_expected_operation_fate_ok:
  assumes "aggregate_ok a" "record_expected_operation_fate a correlation fate = ExpectedOperationFateDecision.Recorded b r f"
  shows "aggregate_ok b \<and> b = a\<lparr>cpa_expected := None\<rparr>"
  using assms retire_plain_ok [OF assms(1)]
  by (auto simp: record_expected_operation_fate_def Let_def split: option.splits if_splits)

section \<open>Detach replay\<close>

lemma parked_detach:
  assumes "aggregate_ok a" "sdr_state (cpa_detach_replay a) = DetachReplayState.Recorded request DetachReplayStatus.Parked"
  shows "\<exists>e v. cpa_expected a = Some e \<and> eo_request e = ClientRequest.Detach v \<and> \<not> eo_issued e
    \<and> request = detach_envelope v \<and> eo_authorization e \<noteq> 0"
  using assms by (cases "cpa_expected a")
    (auto simp: aggregate_ok_def operation_ok_def expected_detach_Some split: ClientRequest.splits)

lemma transport_attempt_started_cases:
  assumes "aggregate_ok a"
  shows "(\<exists>e v. cpa_expected a = Some e \<and> eo_request e = ClientRequest.Detach v \<and> \<not> eo_issued e
      \<and> transport_attempt_started a = DetachTransportAttemptDecision.Started (issue a)
          \<lparr>dta_request = detach_envelope v, dta_authorization = eo_authorization e\<rparr>)
    \<or> transport_attempt_started a = DetachTransportAttemptDecision.Refused
        \<lparr>drf_aggregate = a, drf_input = (), drf_reason = InvalidStatus\<rparr>"
proof (cases "\<exists>request. sdr_state (cpa_detach_replay a) = DetachReplayState.Recorded request DetachReplayStatus.Parked")
  case True
  then obtain request where r: "sdr_state (cpa_detach_replay a) = DetachReplayState.Recorded request DetachReplayStatus.Parked"
    by blast
  obtain e v where ev: "cpa_expected a = Some e" "eo_request e = ClientRequest.Detach v" "\<not> eo_issued e"
    "request = detach_envelope v" "eo_authorization e \<noteq> 0"
    using parked_detach [OF assms r] by blast
  have "set_replay_status (cpa_detach_replay a) DetachReplayStatus.InFlight =
      mark_initial_attempt_started (cpa_detach_replay a)"
    using r by (simp add: set_replay_status_def mark_initial_attempt_started_def)
  then show ?thesis using r ev
    by (auto simp: transport_attempt_started_def issue_def mark_issued_def Let_def)
next
  case False
  then show ?thesis
    by (auto simp: transport_attempt_started_def Let_def split: DetachReplayState.split DetachReplayStatus.split)
qed

lemma detach_authority_matches_iff:
  assumes "aggregate_ok a"
  shows "detach_authority_matches a correlation \<longleftrightarrow>
    (\<exists>e. cpa_expected a = Some e \<and> is_detach (eo_request e) \<and> eo_issued e
      \<and> eo_authorization e = crc_authorization correlation)"
proof (cases "cpa_expected a")
  case (Some e)
  then show ?thesis using issued_detach [OF assms Some]
    by (cases "eo_request e")
      (auto simp: detach_authority_matches_def split: DetachReplayState.split DetachReplayStatus.split)
qed (simp add: detach_authority_matches_def)

lemma transport_fate_ok:
  assumes "aggregate_ok a" "transport_fate a correlation fate = DetachTransportFateDecision.Parked b"
  shows "aggregate_ok b \<and> (\<exists>e. cpa_expected a = Some e \<and> eo_authorization e = crc_authorization correlation
    \<and> cpa_expected b = Some (e\<lparr>eo_issued := False\<rparr>) \<and> cpa_reconnect b = cpa_reconnect a)"
proof -
  obtain e v where e: "cpa_expected a = Some e" "eo_request e = ClientRequest.Detach v" "eo_issued e"
    "eo_authorization e = crc_authorization correlation" "eo_lost e = None"
    using assms by (auto simp: transport_fate_def Let_def detach_authority_matches_iff is_detach_iff
        operation_loss_pending_def lost_operation_testimony_def split: if_splits)
  have b: "cpa_binding b = cpa_binding a" "cpa_expected b = Some (e\<lparr>eo_issued := False\<rparr>)"
    "cpa_next_operation_authorization b = cpa_next_operation_authorization a"
    "cpa_detach_replay b = set_replay_status (cpa_detach_replay a) DetachReplayStatus.Parked"
    "cpa_reconnect b = cpa_reconnect a" "cpa_restored_abandonment b = cpa_restored_abandonment a"
    using assms(2) e by (auto simp: transport_fate_def Let_def split: if_splits)
  then show ?thesis using park_ok [OF assms(1) e(1,2,3)] e
    by (simp add: aggregate_ok_def operation_ok_def abandonment_ok_def expected_detach_Some issued_detach [OF assms(1) e(1,2,3)])
qed

text \<open>A replay whose slot is retired: still holding the retired detach, or already settled.\<close>

definition settling :: "DetachEnvelope \<Rightarrow> DetachReplayState \<Rightarrow> bool" where
  "settling request state \<longleftrightarrow> envelope_ok request
    \<and> (\<exists>status. active_status status \<and> state = DetachReplayState.Recorded request status) \<or> replay_ok None state"

lemma replay_steps_inactive:
  assumes "replay_ok None (sdr_state r)"
  shows "replay_ok None (sdr_state (fst (replay_apply_attach r attach)))"
    "replay_ok None (sdr_state (fst (replay_apply_leave r leave)))"
    "replay_ok None (sdr_state (fst (replay_apply_retired r c p g)))"
    "server_value_ok (ServerValue.DetachCommitted dc) \<Longrightarrow> replay_ok None (sdr_state (fst (apply_detach_committed r dc)))"
    "server_value_ok (ServerValue.DetachInProgress dp) \<Longrightarrow> replay_ok None (sdr_state (fst (apply_detach_in_progress r dp)))"
    "server_value_ok (ServerValue.StaleAuthority (StaleAuthority.Detach (DetachStaleAuthority.TerminalizedDetachCell tc)))
      \<Longrightarrow> replay_ok None (sdr_state (fst (apply_terminalized_detach_cell r tc)))"
  using assms
  by (auto simp: replay_apply_attach_def replay_apply_leave_def replay_apply_retired_def apply_detach_committed_def
      apply_detach_in_progress_def apply_terminalized_detach_cell_def terminal_ok_def terminal_matches_def
      detach_committed_matches_def detach_in_progress_matches_def terminalized_matches_def
      split: DetachReplayState.splits if_splits)

lemma apply_attach_ok:
  assumes "aggregate_ok a" "apply_attach a attach correlation = ApplyAttachDecision.Superseded b"
  shows "aggregate_ok b \<and> cpa_expected b = None \<and> detach_authority_matches a correlation
    \<and> cpa_reconnect b = cpa_reconnect a"
  using assms
  by (auto simp: apply_attach_def Let_def replay_apply_attach_def aggregate_ok_def abandonment_ok_def
      split: if_splits prod.splits DetachReplayState.splits)

lemma apply_leave_durable_ok:
  assumes "aggregate_ok a" "apply_leave_durable a leave correlation = ApplyLeaveDecision.Superseded b"
  shows "aggregate_ok b \<and> cpa_expected b = None \<and> detach_authority_matches a correlation
    \<and> cpa_reconnect b = cpa_reconnect a"
  using assms
  by (auto simp: apply_leave_durable_def Let_def replay_apply_leave_def aggregate_ok_def abandonment_ok_def
      split: if_splits prod.splits DetachReplayState.splits)

fun outcome_value :: "DetachReplayOutcome \<Rightarrow> ServerValue" where
  "outcome_value (DetachReplayOutcome.DetachCommitted v) = ServerValue.DetachCommitted v"
| "outcome_value (DetachReplayOutcome.DetachInProgress v) = ServerValue.DetachInProgress v"
| "outcome_value (DetachReplayOutcome.TerminalizedDetachCell v) =
    ServerValue.StaleAuthority (StaleAuthority.Detach (DetachStaleAuthority.TerminalizedDetachCell v))"

lemma apply_detach_outcome_ok:
  assumes "aggregate_ok a" "apply_detach_outcome a outcome correlation = ApplyDetachOutcomeDecision.Terminal b"
    and "server_value_ok (outcome_value outcome)"
  shows "aggregate_ok b \<and> cpa_expected b = None \<and> detach_authority_matches a correlation
    \<and> cpa_reconnect b = cpa_reconnect a"
  using assms
  by (cases outcome)
    (auto simp: apply_detach_outcome_def Let_def apply_detach_committed_def apply_detach_in_progress_def
      apply_terminalized_detach_cell_def aggregate_ok_def abandonment_ok_def terminal_ok_def terminal_matches_def
      detach_committed_matches_def detach_in_progress_matches_def terminalized_matches_def
      split: if_splits prod.splits DetachReplayState.splits)

section \<open>Inbound values\<close>

lemma with_replay_fields [simp]:
  "cpa_binding (with_replay a f) = cpa_binding a" "cpa_expected (with_replay a f) = cpa_expected a"
  "cpa_next_operation_authorization (with_replay a f) = cpa_next_operation_authorization a"
  "cpa_detach_replay (with_replay a f) = fst (f (cpa_detach_replay a))"
  "cpa_reconnect (with_replay a f) = cpa_reconnect a"
  "cpa_restored_abandonment (with_replay a f) = cpa_restored_abandonment a"
  by (simp_all add: with_replay_def)

lemma apply_correlated_value_fields [simp]:
  "cpa_expected (apply_correlated_value a x) = cpa_expected a"
  "cpa_next_operation_authorization (apply_correlated_value a x) = cpa_next_operation_authorization a"
  "cpa_reconnect (apply_correlated_value a x) = cpa_reconnect a"
  "cpa_restored_abandonment (apply_correlated_value a x) = cpa_restored_abandonment a"
  by (simp_all add: apply_correlated_value_def apply_enroll_bound_def apply_attach_bound_def
      apply_unbound_attach_receipt_def apply_retired_def Let_def case_prod_beta
      split: ServerValue.split ReceiptReplay.split StaleAuthority.split DetachStaleAuthority.split
        ClientBindingState.split)

lemma generation_one_ok: "generation_get g = 1 \<Longrightarrow> generation_ok g"
  by (simp add: generation_ok_def)

lemma apply_correlated_binding_ok:
  assumes "binding_ok (cpa_binding a)" "server_value_ok x"
  shows "binding_ok (cpa_binding (apply_correlated_value a x))"
  using assms
  by (auto simp: apply_correlated_value_def apply_enroll_bound_def apply_attach_bound_def
      apply_unbound_attach_receipt_def apply_retired_def Let_def case_prod_beta enroll_bound_ok_def
      attach_bound_ok_def leave_committed_ok_def detach_committed_ok_def epoch_ok_def
      dest: successor_generation_ok intro: generation_one_ok
      split: ServerValue.split ReceiptReplay.split StaleAuthority.split DetachStaleAuthority.split
        ClientBindingState.split Retired.split)

text \<open>On a settled replay every value leaves it settled; on the retired detach's replay a value leaves it
  either settled or untouched.\<close>

lemma apply_correlated_inactive:
  assumes "replay_ok None (sdr_state (cpa_detach_replay a))" "server_value_ok x"
  shows "replay_ok None (sdr_state (cpa_detach_replay (apply_correlated_value a x)))"
  using assms replay_steps_inactive [OF assms(1)]
  by (auto simp: apply_correlated_value_def apply_enroll_bound_def apply_attach_bound_def
      apply_unbound_attach_receipt_def apply_retired_def Let_def case_prod_beta
      split: ServerValue.split ReceiptReplay.split StaleAuthority.split DetachStaleAuthority.split
        ClientBindingState.split)

lemma apply_correlated_settling:
  assumes state: "sdr_state (cpa_detach_replay a) = DetachReplayState.Recorded request status"
    and "active_status status" "envelope_ok request" "server_value_ok x"
  shows "settling request (sdr_state (cpa_detach_replay (apply_correlated_value a x)))"
  using assms
  by (auto simp: apply_correlated_value_def apply_enroll_bound_def apply_attach_bound_def settling_def
      apply_unbound_attach_receipt_def apply_retired_def Let_def case_prod_beta
      replay_apply_attach_def replay_apply_leave_def replay_apply_retired_def apply_detach_committed_def
      apply_detach_in_progress_def apply_terminalized_detach_cell_def terminal_ok_def terminal_matches_def
      detach_committed_matches_def detach_in_progress_matches_def terminalized_matches_def
      split: ServerValue.split ReceiptReplay.split StaleAuthority.split DetachStaleAuthority.split
        ClientBindingState.split)

lemma answering_value_settles:
  assumes state: "sdr_state (cpa_detach_replay a) = DetachReplayState.Recorded (detach_envelope v) status"
    and "envelope_ok (detach_envelope v)" "server_value_ok x" "answers_detach x"
    and "matches_request x (ClientRequest.Detach v)" "accepts_request (cpa_binding a) (ClientRequest.Detach v)"
  shows "replay_ok None (sdr_state (cpa_detach_replay (apply_correlated_value a x)))"
  using assms
  by (cases "cpa_binding a")
    (auto simp: answers_detach_def apply_correlated_value_def Let_def accepts_request_def matches_request_Detach
      apply_detach_committed_def apply_detach_in_progress_def apply_terminalized_detach_cell_def
      terminal_ok_def terminal_matches_def detach_envelope_def
      detach_committed_matches_def detach_in_progress_matches_def terminalized_matches_def)

lemma settle_refused_authority_ok:
  assumes "settling (detach_envelope v) (sdr_state r)" "matches_request x (ClientRequest.Detach v)"
    and "server_value_ok x" "answers_detach x \<Longrightarrow> replay_ok None (sdr_state r)"
  shows "replay_ok None (sdr_state (fst (settle_refused_authority r (detach_envelope v) x)))"
proof (cases "replay_ok None (sdr_state r)")
  case True
  then show ?thesis by (cases "sdr_state r") (auto simp: settle_refused_authority_def split: if_splits)
next
  case False
  then show ?thesis using assms
    by (auto simp: settling_def settle_refused_authority_def terminal_ok_def terminal_matches_def detach_envelope_def)
qed

lemma retire_expected_operation_ok:
  assumes ok: "aggregate_ok a" and e: "cpa_expected a = Some e" and "server_value_ok x"
    and "matches_request x (eo_request e)"
  shows "aggregate_ok (retire_expected_operation a x) \<and> cpa_expected (retire_expected_operation a x) = None
    \<and> cpa_reconnect (retire_expected_operation a x) = cpa_reconnect a"
proof -
  let ?a = "a\<lparr>cpa_expected := None\<rparr>"
  have rest: "binding_ok (cpa_binding (apply_correlated_value ?a x))" "reconnect_ok (cpa_reconnect a)"
    "abandonment_ok None (cpa_restored_abandonment a)"
    using apply_correlated_binding_ok [of ?a x] ok assms(3) by (auto simp: aggregate_ok_def abandonment_ok_def)
  show ?thesis
  proof (cases "is_detach (eo_request e)")
    case False
    then have "replay_ok None (sdr_state (cpa_detach_replay a))"
      using retire_plain_ok [OF ok e] by (simp add: aggregate_ok_def)
    then show ?thesis using False rest e assms(3) apply_correlated_inactive [of ?a x]
      by (auto simp: retire_expected_operation_def expected_detach_envelope_def Let_def aggregate_ok_def
          split: ClientRequest.splits)
  next
    case True
    then obtain v where v: "eo_request e = ClientRequest.Detach v" by (auto simp: is_detach_iff)
    obtain status where st: "sdr_state (cpa_detach_replay ?a) = DetachReplayState.Recorded (detach_envelope v) status"
      "active_status status" "envelope_ok (detach_envelope v)"
      using ok e v by (cases "sdr_state (cpa_detach_replay a)")
        (auto simp: aggregate_ok_def expected_detach_Some split: if_splits)
    have "accepts_request (cpa_binding ?a) (ClientRequest.Detach v)"
      using ok e v by (auto simp: aggregate_ok_def operation_ok_def)
    note settle = settle_refused_authority_ok [OF apply_correlated_settling [OF st assms(3)], of x]
      answering_value_settles [OF st(1,3) assms(3) _ _ this]
    show ?thesis using rest e v settle assms(3,4)
      by (auto simp: retire_expected_operation_def expected_detach_envelope_def Let_def aggregate_ok_def)
  qed
qed

text \<open>An applied value either leaves the aggregate alone (an acknowledgement or a transport rejection) or
  retires the expected operation.\<close>

lemma decide_inbound_inner_applied:
  assumes "decide_inbound_inner a x authority = ClientInboundDecision.Applied d"
  shows "cia_value d = x \<and> (cia_aggregate d = a \<or> authority
    \<and> (\<exists>e. cpa_expected a = Some e \<and> eo_lost e = None \<and> matches_request x (eo_request e)
        \<and> cia_aggregate d = retire_expected_operation a x))"
  using assms by (auto simp: decide_inbound_inner_def Let_def split: if_splits option.splits)

lemma decide_inbound_applied:
  "decide_inbound a x = ClientInboundDecision.Applied d \<Longrightarrow> cia_aggregate d = a \<and> cia_value d = x"
  using decide_inbound_inner_applied [of a x False d] by (auto simp: decide_inbound_def)

lemma decide_correlated_inbound_applied:
  assumes "decide_correlated_inbound a x correlation = ClientCorrelatedInboundDecision.Applied d"
  shows "cia_value d = x \<and> (\<exists>e. cpa_expected a = Some e \<and> eo_issued e
    \<and> eo_authorization e = crc_authorization correlation
    \<and> (cia_aggregate d = a \<or> eo_lost e = None \<and> matches_request x (eo_request e)
        \<and> cia_aggregate d = retire_expected_operation a x))"
  using assms decide_inbound_inner_applied [of a x True d]
  by (auto simp: decide_correlated_inbound_def Let_def split: option.splits if_splits ClientInboundDecision.splits)

section \<open>Reconnect\<close>

lemma record_fresh_event_ok:
  assumes "aggregate_ok a" "record_fresh_event a event = Permitted b permit result"
  shows "aggregate_ok b \<and> cpa_expected b = cpa_expected a
    \<and> reconnect_authorization (rg_state (cpa_reconnect a)) = None
    \<and> rg_state (cpa_reconnect b) = ReconnectMachineState.Permit (rap_authorization permit) (rap_event permit) True
    \<and> rg_lost (cpa_reconnect b) = None"
proof -
  obtain n where n: "checked_add (rg_next_authorization (cpa_reconnect a)) 1 = Some n"
    and idle: "rg_state (cpa_reconnect a) = ReconnectMachineState.Parked \<or> rg_state (cpa_reconnect a) = ReconnectMachineState.Online"
    and b: "b = a\<lparr>cpa_reconnect := (cpa_reconnect a)\<lparr>rg_next_authorization := n,
      rg_state := ReconnectMachineState.Permit n event True\<rparr>\<rparr>" "permit = \<lparr>rap_authorization = n, rap_event = event\<rparr>"
    using assms(2) by (auto simp: record_fresh_event_def Let_def split: if_splits option.splits)
  have "n \<noteq> 0" using checked_add_unat [OF n] by auto
  moreover have "rg_lost (cpa_reconnect a) = None"
    using assms(1) idle by (auto simp: aggregate_ok_def reconnect_ok_def state_kind_def split: option.splits)
  ultimately show ?thesis using assms(1) b idle
    by (auto simp: aggregate_ok_def reconnect_ok_def reconnect_authorization_def state_kind_def)
qed

lemma recover_reconnect_permit_never:
  assumes "permits_issued a"
  shows "recover_reconnect_permit a = RecoveredReconnectPermitDecision.NotAvailable a (reconnect_state (cpa_reconnect a))"
  using assms
  by (auto simp: recover_reconnect_permit_def permits_issued_def split: ReconnectMachineState.split bool.split)

lemma resolve_lost_reconnect_authority_ok:
  assumes "aggregate_ok a" "resolve_lost_reconnect_authority a = LostReconnectAuthorityDecision.Recorded b t"
  shows "aggregate_ok b \<and> cpa_expected b = cpa_expected a \<and> rg_lost (cpa_reconnect a) = Some t
    \<and> rg_state (cpa_reconnect b) = ReconnectMachineState.Parked \<and> rg_lost (cpa_reconnect b) = None"
  using assms
  by (auto simp: resolve_lost_reconnect_authority_def aggregate_ok_def reconnect_ok_def reconnect_authorization_def
      split: option.splits)

lemma redeem_attempt_ok:
  assumes "aggregate_ok a" "redeem_attempt a permit = ReconnectAttemptDecision.Started b attempt"
  shows "aggregate_ok b \<and> cpa_expected b = cpa_expected a \<and> rg_lost (cpa_reconnect b) = None
    \<and> attempt = \<lparr>ria_authorization = rap_authorization permit, ria_event = rap_event permit\<rparr>
    \<and> rg_state (cpa_reconnect b) = ReconnectMachineState.Attempt (rap_authorization permit) (rap_event permit)"
  using assms
  by (auto simp: redeem_attempt_def set_reconnect_def aggregate_ok_def reconnect_ok_def reconnect_authorization_def
      state_kind_def split: if_splits ReconnectMachineState.splits)

lemma record_attempt_fate_ok:
  assumes "aggregate_ok a" "record_attempt_fate a attempt fate = ReconnectAttemptFateDecision.Recorded b"
  shows "aggregate_ok b \<and> cpa_expected b = cpa_expected a \<and> rg_lost (cpa_reconnect b) = None
    \<and> reconnect_authorization (rg_state (cpa_reconnect b)) = None"
  using assms
  by (auto simp: record_attempt_fate_def set_reconnect_def aggregate_ok_def reconnect_ok_def reconnect_authorization_def
      state_kind_def split: if_splits ReconnectMachineState.splits ReconnectAttemptFate.splits)

end
