(* ===== verification/Client_Resume_Codec.thy ===== *)
theory Client_Resume_Codec
  imports Client_Invariant Durable_State
begin

text \<open>
  Exactness of the LPCR record codec. \<open>reads t R\<close> says that a reader accepts precisely the prefixes
  \<open>R\<close> relates to its result and advances past them; the combinators compose it, so each section's
  decoder is described by the bytes its encoder writes. The result is that \<open>decode_facts\<close> accepts
  exactly the canonical encodings, and that \<open>restore\<close> inverts \<open>resume_record\<close> up to the testimony a
  crash mints.
\<close>

section \<open>Readers\<close>

definition rd_at :: "u8 list \<Rightarrow> u8 list \<Rightarrow> Reader" where
  "rd_at pre suf = \<lparr>rd_input = pre @ suf, rd_offset = length pre\<rparr>"

definition reads :: "'a reader \<Rightarrow> ('a \<Rightarrow> u8 list \<Rightarrow> bool) \<Rightarrow> bool" where
  "reads t R \<longleftrightarrow> (\<forall>pre suf x r. t (rd_at pre suf) = Ok (x, r) \<longleftrightarrow>
    (\<exists>bs rest. suf = bs @ rest \<and> R x bs \<and> r = rd_at (pre @ bs) rest))"

named_theorems read_intros \<open>readers and their composition\<close>

lemma reads_cong:
  assumes "reads t R" "\<And>x bs. R x bs \<longleftrightarrow> S x bs"
  shows "reads t S"
  using assms by (simp add: reads_def)

lemma reads_iff:
  "reads t R \<Longrightarrow> t (rd_at pre suf) = Ok (x, r) \<longleftrightarrow>
    (\<exists>bs rest. suf = bs @ rest \<and> R x bs \<and> r = rd_at (pre @ bs) rest)"
  by (simp add: reads_def)

lemma reads_at: "reads t R \<Longrightarrow> R x bs \<Longrightarrow> t (rd_at pre (bs @ rest)) = Ok (x, rd_at (pre @ bs) rest)"
  by (auto simp: reads_def)

lemma reads_ok [read_intros]: "reads (readOk y) (\<lambda>x bs. x = y \<and> bs = [])"
  by (auto simp: reads_def readOk_def)

lemma reads_err [read_intros]: "reads (readErr e) (\<lambda>x bs. False)"
  by (simp add: reads_def readErr_def)

lemma reads_then [read_intros]:
  assumes t: "reads t R" and f: "\<And>x. reads (f x) (S x)"
  shows "reads (thenRead t f) (\<lambda>y bs. \<exists>x bs1 bs2. bs = bs1 @ bs2 \<and> R x bs1 \<and> S x y bs2)"
  unfolding reads_def
proof (intro allI)
  fix pre suf y r
  have "thenRead t f (rd_at pre suf) = Ok (y, r) \<longleftrightarrow>
      (\<exists>x r1. t (rd_at pre suf) = Ok (x, r1) \<and> f x r1 = Ok (y, r))"
    by (auto simp: thenRead_def andThen_def split: sum.splits)
  also have "\<dots> \<longleftrightarrow> (\<exists>x bs1 rest1. suf = bs1 @ rest1 \<and> R x bs1 \<and> f x (rd_at (pre @ bs1) rest1) = Ok (y, r))"
    unfolding reads_iff [OF t] by auto
  also have "\<dots> \<longleftrightarrow> (\<exists>x bs1 rest1 bs2 rest. suf = bs1 @ rest1 \<and> R x bs1 \<and> rest1 = bs2 @ rest \<and> S x y bs2
      \<and> r = rd_at ((pre @ bs1) @ bs2) rest)"
    unfolding reads_iff [OF f] by auto
  also have "\<dots> \<longleftrightarrow> (\<exists>bs rest. suf = bs @ rest \<and> (\<exists>x bs1 bs2. bs = bs1 @ bs2 \<and> R x bs1 \<and> S x y bs2)
      \<and> r = rd_at (pre @ bs) rest)"
    by (metis append.assoc)
  finally show "thenRead t f (rd_at pre suf) = Ok (y, r) \<longleftrightarrow>
    (\<exists>bs rest. suf = bs @ rest \<and> (\<exists>x bs1 bs2. bs = bs1 @ bs2 \<and> R x bs1 \<and> S x y bs2)
      \<and> r = rd_at (pre @ bs) rest)" .
qed

lemma reads_if [read_intros]:
  assumes "c \<Longrightarrow> reads t R" "\<not> c \<Longrightarrow> reads u S"
  shows "reads (if c then t else u) (\<lambda>x bs. if c then R x bs else S x bs)"
  using assms by (cases c) simp_all

lemma reads_take [read_intros]: "reads (reader_take n) (\<lambda>x bs. bs = x \<and> length x = n)"
  unfolding reads_def
proof (intro allI)
  fix pre suf x r
  show "reader_take n (rd_at pre suf) = Ok (x, r) \<longleftrightarrow>
    (\<exists>bs rest. suf = bs @ rest \<and> (bs = x \<and> length x = n) \<and> r = rd_at (pre @ bs) rest)"
    by (auto simp: reader_take_def rd_at_def reader_remaining_def intro!: exI [of _ "drop n suf"])
qed

lemma reads_u8 [read_intros]: "reads reader_u8 (\<lambda>x bs. bs = [x])"
  unfolding reader_u8_def by (rule reads_cong, (rule read_intros)+) (auto simp: length_Suc_conv)

text \<open>Dispatch on a leading tag byte.\<close>

lemma reads_tag [read_intros]:
  assumes "\<And>tag. reads (f tag) (S tag)"
  shows "reads (thenRead reader_u8 f) (\<lambda>y bs. case bs of [] \<Rightarrow> False | tag # rest \<Rightarrow> S tag y rest)"
  by (rule reads_cong [OF reads_then [OF reads_u8 assms]]) (auto split: list.split)

lemma word_of_bytes:
  "length bs = n \<and> w = of_nat (be_value bs) \<longleftrightarrow> bs = be_bytes n (unat w)" if "LENGTH('a) = 8 * n" for w :: "'a::len word"
proof
  assume a: "length bs = n \<and> w = of_nat (be_value bs)"
  have "be_value bs < 2 ^ LENGTH('a)"
    using be_value_bound [of bs] a that by (simp add: power_mult)
  then have "unat w = be_value bs" using a by (simp add: unat_of_nat take_bit_nat_eq_self)
  then show "bs = be_bytes n (unat w)" using be_bytes_be_value [of bs] a by simp
next
  assume b: "bs = be_bytes n (unat w)"
  have "unat w < 256 ^ n" using unat_bound [of w] that by (simp add: power_mult)
  then show "length bs = n \<and> w = of_nat (be_value bs)" using b by (simp add: be_value_be_bytes)
qed

lemma reads_u16 [read_intros]: "reads reader_u16 (\<lambda>x bs. bs = be_bytes 2 (unat x))"
  unfolding reader_u16_def
  by (rule reads_cong, (rule read_intros)+) (use word_of_bytes [where ?'a = 16 and n = 2] in auto)

lemma reads_u64 [read_intros]: "reads reader_u64 (\<lambda>x bs. bs = be_bytes 8 (unat x))"
  unfolding reader_u64_def
  by (rule reads_cong, (rule read_intros)+) (use word_of_bytes [where ?'a = 64 and n = 8] in auto)

definition blob_bytes :: "u8 list \<Rightarrow> u8 list" where
  "blob_bytes bs = be_bytes 8 (length bs) @ bs"

lemma reads_blob [read_intros]: "reads reader_blob (\<lambda>x bs. length x \<le> U64_MAX \<and> bs = blob_bytes x)"
  unfolding reader_blob_def
proof (rule reads_cong, (rule read_intros)+)
  fix x bs
  show "(\<exists>len bs1 bs2. bs = bs1 @ bs2 \<and> bs1 = be_bytes 8 (unat (len :: u64)) \<and> bs2 = x \<and> length x = unat len)
    \<longleftrightarrow> length x \<le> U64_MAX \<and> bs = blob_bytes x"
  proof
    assume "length x \<le> U64_MAX \<and> bs = blob_bytes x"
    moreover from this have "unat (of_nat (length x) :: u64) = length x" by (simp add: unat_of_nat take_bit_nat_eq_self)
    ultimately show "\<exists>len bs1 bs2. bs = bs1 @ bs2 \<and> bs1 = be_bytes 8 (unat (len :: u64)) \<and> bs2 = x \<and> length x = unat len"
      by (auto simp: blob_bytes_def intro!: exI [of _ "of_nat (length x)"])
  qed (auto simp: blob_bytes_def)
qed

lemma reads_generation [read_intros]:
  "reads (lpcr_generation section) (\<lambda>g bs. generation_ok g \<and> bs = be_bytes 8 (unat (generation_get g)))"
  unfolding lpcr_generation_def
proof (rule reads_cong, rule reads_then, rule reads_u64)
  show "reads (case Generation_new w of Some g \<Rightarrow> readOk g | None \<Rightarrow> readErr e)
      (\<lambda>g bs. Generation_new w = Some g \<and> bs = [])" for w e
    by (cases "Generation_new w") (auto intro: reads_cong [OF reads_ok] reads_cong [OF reads_err])
  show "(\<exists>w bs1 bs2. bs = bs1 @ bs2 \<and> bs1 = be_bytes 8 (unat w) \<and> Generation_new w = Some g \<and> bs2 = [])
    \<longleftrightarrow> generation_ok g \<and> bs = be_bytes 8 (unat (generation_get g))" for g bs
    by (cases g) (auto simp: Generation_new_def generation_ok_def)
qed

section \<open>Sections\<close>

lemma incarnation_eta [simp]:
  "\<lparr>ci_server_incarnation = ci_server_incarnation i, ci_connection_ordinal = ci_connection_ordinal i\<rparr> = i"
  by (cases i) simp

definition epoch_bytes :: "BindingEpoch \<Rightarrow> u8 list" where
  "epoch_bytes e = encode_epoch e []"

lemma epoch_bytes_eq:
  "epoch_bytes e = be_bytes 8 (unat (ci_server_incarnation (be_connection_incarnation e)))
    @ be_bytes 8 (unat (ci_connection_ordinal (be_connection_incarnation e)))
    @ be_bytes 8 (unat (generation_get (be_capability_generation e)))"
  "encode_epoch e output = output @ epoch_bytes e"
  by (simp_all add: epoch_bytes_def encode_epoch_def lpcr_u64_def)

lemma reads_epoch [read_intros]: "reads lpcr_epoch (\<lambda>e bs. epoch_ok e \<and> bs = epoch_bytes e)"
  unfolding lpcr_epoch_def
proof (rule reads_cong, (rule read_intros)+)
  fix e bs
  show "(\<exists>server bs1 bs2. bs = bs1 @ bs2 \<and> bs1 = be_bytes 8 (unat server) \<and>
      (\<exists>ordinal bs1 bs2a. bs2 = bs1 @ bs2a \<and> bs1 = be_bytes 8 (unat ordinal) \<and>
        (\<exists>g bs1 bs2. bs2a = bs1 @ bs2 \<and> (generation_ok g \<and> bs1 = be_bytes 8 (unat (generation_get g))) \<and>
          e = \<lparr>be_connection_incarnation =
                \<lparr>ci_server_incarnation = server, ci_connection_ordinal = ordinal\<rparr>,
               be_capability_generation = g\<rparr> \<and> bs2 = [])))
    \<longleftrightarrow> epoch_ok e \<and> bs = epoch_bytes e"
    by (cases e; cases "be_connection_incarnation e") (auto simp: epoch_ok_def epoch_bytes_eq)
qed

lemma reads_bool [read_intros]: "reads (lpcr_bool section) (\<lambda>b bs. bs = [flag_byte b])"
  unfolding lpcr_bool_def
  by (rule reads_cong, (rule read_intros)+) (auto simp: flag_byte_def split: if_splits list.split)

fun binding_data_ok :: "ClientBindingState \<Rightarrow> bool" where
  "binding_data_ok ClientBindingState.Unbound \<longleftrightarrow> True"
| "binding_data_ok (ClientBindingState.Bound _ _ generation attach_secret epoch) \<longleftrightarrow>
    generation_ok generation \<and> epoch_ok epoch \<and> length attach_secret = SECRET_LEN"
| "binding_data_ok (ClientBindingState.Detached _ _ generation attach_secret) \<longleftrightarrow>
    generation_ok generation \<and> length attach_secret = SECRET_LEN"
| "binding_data_ok (ClientBindingState.Left _ _ generation) \<longleftrightarrow> generation_ok generation"

definition binding_bytes :: "ClientBindingState \<Rightarrow> u8 list" where
  "binding_bytes b = encode_binding b []"

lemma binding_bytes_eq: "encode_binding b output = output @ binding_bytes b"
  by (cases b) (simp_all add: binding_bytes_def encode_terminal_binding_def lpcr_u64_def epoch_bytes_eq)

lemma reads_binding [read_intros]: "reads decode_binding (\<lambda>b bs. binding_data_ok b \<and> bs = binding_bytes b)"
  unfolding decode_binding_def
  apply (rule reads_cong, (rule read_intros)+)
  apply (case_tac bs; case_tac x)
  apply (auto simp: binding_bytes_def encode_terminal_binding_def lpcr_u64_def epoch_bytes_eq(2) SECRET_LEN_def
      split: if_splits)
  done

definition testimony_byte :: "LostAuthorityTestimony option \<Rightarrow> u8" where
  "testimony_byte t = (case t of None \<Rightarrow> 0 | Some t \<Rightarrow> kind_tag (lat_kind t))"

lemma kind_tag_iff:
  "kind_tag k = 1 \<longleftrightarrow> k = IssuedOperationCorrelation" "kind_tag k = 2 \<longleftrightarrow> k = LostAuthorityKind.DetachTransportAttempt"
  "kind_tag k = 3 \<longleftrightarrow> k = ReconnectPermit" "kind_tag k = 4 \<longleftrightarrow> k = ReconnectAttempt" "kind_tag k \<noteq> 0"
  "k \<noteq> IssuedOperationCorrelation \<Longrightarrow> k \<noteq> LostAuthorityKind.DetachTransportAttempt \<Longrightarrow> k \<noteq> ReconnectPermit
    \<Longrightarrow> k = ReconnectAttempt"
  by (cases k; simp)+

lemma mint_eq_iff: "t = mint kind \<longleftrightarrow> lat_kind t = kind"
  by (cases t) (simp add: mint_def)

lemma reads_testimony [read_intros]: "reads (decode_testimony section) (\<lambda>t bs. bs = [testimony_byte t])"
  unfolding decode_testimony_def
  apply (rule reads_cong, (rule read_intros)+)
  apply (case_tac bs; case_tac x)
  apply (auto simp: testimony_byte_def mint_eq_iff kind_tag_iff split: if_splits)
  done

text \<open>A nested frame is decoded exactly when the blob is the canonical encoding of one.\<close>

definition nested_bytes :: "ParticipantFrame \<Rightarrow> u8 list" where
  "nested_bytes f = blob_bytes (frame_bytes f)"

lemma frame_bytes_bound: "frame_fits f \<Longrightarrow> length (frame_bytes f) \<le> U64_MAX"
  by (simp add: frame_fits_def frame_bytes_def)

lemma decode_request_blob:
  "length bytes \<le> U64_MAX \<and> decode bytes ReceiverDirection.Server = Ok (ClientRequestFrame request) \<longleftrightarrow>
    bytes = frame_bytes (ClientRequestFrame request) \<and> request_ok request \<and> frame_fits (ClientRequestFrame request)"
  using decode_iff [of bytes ReceiverDirection.Server "ClientRequestFrame request"] frame_bytes_bound by auto

lemma decode_value_blob:
  "length bytes \<le> U64_MAX \<and> decode bytes ReceiverDirection.Client = Ok (ServerValueFrame x) \<longleftrightarrow>
    bytes = frame_bytes (ServerValueFrame x) \<and> server_value_ok x \<and> frame_fits (ServerValueFrame x)"
  using decode_iff [of bytes ReceiverDirection.Client "ServerValueFrame x"] frame_bytes_bound by auto

lemma reads_nested:
  assumes f: "\<And>bytes. reads (f bytes) (\<lambda>y bs. \<exists>v. D bytes v \<and> S v y bs)"
    and D: "\<And>bytes v. length bytes \<le> U64_MAX \<and> D bytes v \<longleftrightarrow> bytes = frame_bytes (frame v) \<and> ok v"
  shows "reads (thenRead reader_blob f) (\<lambda>y bs. \<exists>v bs2. bs = nested_bytes (frame v) @ bs2 \<and> ok v \<and> S v y bs2)"
proof (rule reads_cong [OF reads_then [OF reads_blob f]])
  fix y bs
  show "(\<exists>x bs1 bs2. bs = bs1 @ bs2 \<and> (length x \<le> U64_MAX \<and> bs1 = blob_bytes x) \<and> (\<exists>v. D x v \<and> S v y bs2))
    \<longleftrightarrow> (\<exists>v bs2. bs = nested_bytes (frame v) @ bs2 \<and> ok v \<and> S v y bs2)"
    unfolding nested_bytes_def by (metis D)
qed

lemma reads_nested_request:
  assumes f: "\<And>request. reads (f request) (S request)"
  shows "reads (thenRead reader_blob (\<lambda>bytes. nested_request section bytes f))
    (\<lambda>y bs. \<exists>request bs2. bs = nested_bytes (ClientRequestFrame request) @ bs2
      \<and> (request_ok request \<and> frame_fits (ClientRequestFrame request)) \<and> S request y bs2)"
proof (rule reads_nested [OF _ decode_request_blob])
  show "reads (nested_request section bytes f)
      (\<lambda>y bs. \<exists>request. decode bytes ReceiverDirection.Server = Ok (ClientRequestFrame request) \<and> S request y bs)" for bytes
    using f
    by (auto simp: nested_request_def reads_def readErr_def split: sum.split ParticipantFrame.split)
qed

definition expected_data_ok :: "ExpectedOperationState option \<Rightarrow> bool" where
  "expected_data_ok expected \<longleftrightarrow> (\<forall>e. expected = Some e \<longrightarrow>
    request_ok (eo_request e) \<and> frame_fits (ClientRequestFrame (eo_request e)))"

definition expected_bytes :: "ExpectedOperationState option \<Rightarrow> u8 list" where
  "expected_bytes expected =
    (case expected of
       None \<Rightarrow> [0]
     | Some e \<Rightarrow> [1, flag_byte (eo_issued e)] @ be_bytes 8 (unat (eo_authorization e)) @ [testimony_byte (eo_lost e)]
         @ nested_bytes (ClientRequestFrame (eo_request e)))"

lemma expected_eq_iff:
  "e = \<lparr>eo_request = r, eo_issued = i, eo_authorization = n, eo_lost = l\<rparr> \<longleftrightarrow>
    r = eo_request e \<and> i = eo_issued e \<and> n = eo_authorization e \<and> l = eo_lost e"
  by (cases e) auto

lemma reads_expected [read_intros]: "reads decode_expected (\<lambda>e bs. expected_data_ok e \<and> bs = expected_bytes e)"
  unfolding decode_expected_def
  apply (rule reads_cong, (rule reads_nested_request read_intros)+)
  apply (case_tac bs; case_tac x)
  apply (auto simp: expected_data_ok_def expected_bytes_def expected_eq_iff split: if_splits)
  done

definition abandonment_data_ok :: "RestoredExpectedOperationAbandonment option \<Rightarrow> bool" where
  "abandonment_data_ok abandonment \<longleftrightarrow> (\<forall>e. abandonment = Some e \<longrightarrow> request_ok (roa_request e)
    \<and> is_observer_recovery (roa_request e) \<and> frame_fits (ClientRequestFrame (roa_request e)))"

definition abandonment_bytes :: "RestoredExpectedOperationAbandonment option \<Rightarrow> u8 list" where
  "abandonment_bytes abandonment =
    (case abandonment of
       None \<Rightarrow> [0]
     | Some e \<Rightarrow> [1, 0, flag_byte (roa_was_issued e)] @ nested_bytes (ClientRequestFrame (roa_request e)))"

lemma abandonment_eq_iff:
  "e = \<lparr>roa_request = r, roa_reason = TokenlessAfterCrash, roa_was_issued = i\<rparr> \<longleftrightarrow>
    r = roa_request e \<and> i = roa_was_issued e"
  by (cases e) (auto intro: RestoredExpectedOperationAbandonmentReason.exhaust)

lemma reads_abandonment [read_intros]:
  "reads decode_abandonment (\<lambda>e bs. abandonment_data_ok e \<and> bs = abandonment_bytes e)"
  unfolding decode_abandonment_def
  apply (rule reads_cong, (rule reads_nested_request read_intros)+)
  apply (case_tac bs; case_tac x)
  apply (auto simp: abandonment_data_ok_def abandonment_bytes_def abandonment_eq_iff split: if_splits list.splits)
  done

text \<open>The four terminal tags and the values they retain.\<close>

definition canonical_terminal :: "DetachReplayTerminal \<Rightarrow> bool" where
  "canonical_terminal t \<longleftrightarrow> (\<forall>v. t = DetachReplayTerminal.AuthorityRefused v \<longrightarrow> \<not> answers_detach (dar_value v))"

lemma terminal_of_iff:
  "terminal_of tag x = Some t \<longleftrightarrow>
    encode_status (DetachReplayStatus.Terminal t) = (tag, Some x) \<and> canonical_terminal t"
proof -
  have refused: "(v = \<lparr>dar_value = x\<rparr>) \<longleftrightarrow> dar_value v = x" for v :: DetachAuthorityRefused by (cases v) simp
  show ?thesis
    by (cases t)
      (auto simp: terminal_of_def canonical_terminal_def answers_detach_def refused
        split: ServerValue.splits StaleAuthority.splits DetachStaleAuthority.splits if_splits)
qed

definition status_data_ok :: "DetachReplayStatus \<Rightarrow> bool" where
  "status_data_ok status \<longleftrightarrow> (\<forall>t. status = DetachReplayStatus.Terminal t \<longrightarrow> canonical_terminal t
    \<and> server_value_ok (terminal_value t) \<and> frame_fits (ServerValueFrame (terminal_value t)))"

definition status_bytes :: "DetachReplayStatus \<Rightarrow> u8 list" where
  "status_bytes status =
    (case snd (encode_status status) of None \<Rightarrow> [] | Some x \<Rightarrow> nested_bytes (ServerValueFrame x))"

lemma encode_status_terminal: "snd (encode_status (DetachReplayStatus.Terminal t)) = Some (terminal_value t)"
  by (cases t) simp_all

lemma reads_terminal:
  "reads (decode_terminal tag)
    (\<lambda>status bs. \<exists>t. status = DetachReplayStatus.Terminal t \<and> fst (encode_status status) = tag
      \<and> status_data_ok status \<and> bs = status_bytes status)"
proof -
  have inner: "reads (case decode bytes ReceiverDirection.Client of
        Inr (ServerValueFrame x) \<Rightarrow>
          (case terminal_of tag x of
             Some terminal \<Rightarrow> readOk (DetachReplayStatus.Terminal terminal)
           | None \<Rightarrow> readErr (ClientResumeRecordDecodeError.NestedCodec DetachReplay None))
      | Inr _ \<Rightarrow> readErr (ClientResumeRecordDecodeError.NestedCodec DetachReplay None)
      | Inl source \<Rightarrow> readErr (ClientResumeRecordDecodeError.NestedCodec DetachReplay (Some source)))
    (\<lambda>status bs. \<exists>x. decode bytes ReceiverDirection.Client = Ok (ServerValueFrame x)
      \<and> (\<exists>t. terminal_of tag x = Some t \<and> status = DetachReplayStatus.Terminal t \<and> bs = []))" for bytes
    by (auto simp: reads_def readErr_def readOk_def split: sum.split ParticipantFrame.split option.split)
  show ?thesis
    unfolding decode_terminal_def
  proof (rule reads_cong [OF reads_nested [OF inner decode_value_blob]])
    fix status bs
    show "(\<exists>x bs2. bs = nested_bytes (ServerValueFrame x) @ bs2 \<and> (server_value_ok x \<and> frame_fits (ServerValueFrame x))
        \<and> (\<exists>t. terminal_of tag x = Some t \<and> status = DetachReplayStatus.Terminal t \<and> bs2 = []))
      \<longleftrightarrow> (\<exists>t. status = DetachReplayStatus.Terminal t \<and> fst (encode_status status) = tag
        \<and> status_data_ok status \<and> bs = status_bytes status)"
    proof (cases status)
      case (Terminal t)
      have "encode_status (DetachReplayStatus.Terminal t) = (tag, Some x) \<longleftrightarrow>
          fst (encode_status (DetachReplayStatus.Terminal t)) = tag \<and> x = terminal_value t" for x
        using encode_status_terminal [of t] by (auto simp: prod_eq_iff)
      then show ?thesis using Terminal
        by (auto simp: terminal_of_iff status_data_ok_def status_bytes_def encode_status_terminal)
    qed auto
  qed
qed

fun replay_data_ok :: "DetachReplayState \<Rightarrow> bool" where
  "replay_data_ok Empty \<longleftrightarrow> True"
| "replay_data_ok (DetachReplayState.Recorded request status) \<longleftrightarrow> envelope_ok request \<and> status_data_ok status"

fun replay_bytes :: "DetachReplayState \<Rightarrow> u8 list" where
  "replay_bytes Empty = [0]"
| "replay_bytes (DetachReplayState.Recorded request status) =
    [fst (encode_status status)] @ be_bytes 8 (unat (de_conversation_id request))
    @ be_bytes 8 (unat (de_participant_id request))
    @ be_bytes 8 (unat (generation_get (de_capability_generation request)))
    @ de_detach_attempt_token request @ status_bytes status"

lemma terminal_tag [simp]:
  "fst (encode_status (DetachReplayStatus.Terminal t)) \<noteq> 1" "fst (encode_status (DetachReplayStatus.Terminal t)) \<noteq> 2"
  "fst (encode_status (DetachReplayStatus.Terminal t)) \<noteq> 3" "fst (encode_status (DetachReplayStatus.Terminal t)) \<noteq> 4"
  by (cases t; simp)+

lemma status_tag_range [simp]:
  "fst (encode_status status) \<noteq> 0" "1 \<le> fst (encode_status status)" "fst (encode_status status) \<le> 8"
  by (cases status rule: encode_status.cases; simp)+

lemma reads_status:
  assumes "1 \<le> tag" "tag \<le> 8"
  shows "reads (if tag = 1 then readOk DetachReplayStatus.Parked
      else if tag = 2 then readOk DetachReplayStatus.InFlight
      else if tag = 3 then readOk DetachReplayStatus.Superseded
      else if tag = 4 then readOk DetachReplayStatus.LeaveSuperseded
      else decode_terminal tag)
    (\<lambda>status bs. fst (encode_status status) = tag \<and> status_data_ok status \<and> bs = status_bytes status)"
proof (rule reads_cong, (rule reads_terminal read_intros)+)
  show "(if tag = 1 then status = DetachReplayStatus.Parked \<and> bs = []
     else if tag = 2 then status = DetachReplayStatus.InFlight \<and> bs = []
     else if tag = 3 then status = DetachReplayStatus.Superseded \<and> bs = []
     else if tag = 4 then status = DetachReplayStatus.LeaveSuperseded \<and> bs = []
     else \<exists>t. status = DetachReplayStatus.Terminal t \<and> fst (encode_status status) = tag
       \<and> status_data_ok status \<and> bs = status_bytes status)
    \<longleftrightarrow> fst (encode_status status) = tag \<and> status_data_ok status \<and> bs = status_bytes status" for status bs
    by (cases status) (auto simp: status_data_ok_def status_bytes_def)
qed

lemma envelope_eq_iff:
  "v = \<lparr>de_conversation_id = c, de_participant_id = p, de_capability_generation = g, de_detach_attempt_token = t\<rparr> \<longleftrightarrow>
    c = de_conversation_id v \<and> p = de_participant_id v \<and> g = de_capability_generation v \<and> t = de_detach_attempt_token v"
  by (cases v) auto

lemma reads_replay [read_intros]: "reads decode_replay (\<lambda>r bs. replay_data_ok r \<and> bs = replay_bytes r)"
  unfolding decode_replay_def
  apply (rule reads_cong, (rule reads_status read_intros | (simp only: not_not; fail) | (simp; fail))+)
  subgoal for x bs
    by (cases bs; cases x)
      (auto simp: envelope_eq_iff envelope_ok_def TOKEN_LEN_def split: if_splits)
  done

lemma reads_event [read_intros]: "reads decode_event (\<lambda>e bs. bs = [event_tag e])"
  unfolding decode_event_def
  apply (rule reads_cong, (rule read_intros)+)
  subgoal for x bs
    by (cases bs; cases x)
      (auto split: if_splits intro: EstablishedConnectionTransportFate.exhaust ProvedOnlineTransition.exhaust
        ExplicitReconnectAction.exhaust)
  done

definition machine_bytes :: "ReconnectMachineState \<Rightarrow> u8 list" where
  "machine_bytes state =
    (case state of
       ReconnectMachineState.Parked \<Rightarrow> [0]
     | ReconnectMachineState.Permit authorization event issued \<Rightarrow>
         [1] @ be_bytes 8 (unat authorization) @ [event_tag event, flag_byte issued]
     | ReconnectMachineState.Attempt authorization event \<Rightarrow>
         [2] @ be_bytes 8 (unat authorization) @ [event_tag event]
     | ReconnectMachineState.Online \<Rightarrow> [3])"

definition reconnect_bytes :: "ReconnectMachineState \<times> u64 \<times> LostAuthorityTestimony option \<Rightarrow> u8 list" where
  "reconnect_bytes r = be_bytes 8 (unat (fst (snd r))) @ machine_bytes (fst r) @ [testimony_byte (snd (snd r))]"

lemma reads_machine:
  "reads (thenRead reader_u8 (\<lambda>tag.
        if tag = 0 then readOk ReconnectMachineState.Parked
        else if tag = 1 then
          thenRead reader_u64 (\<lambda>authorization.
          thenRead decode_event (\<lambda>event.
          thenRead (lpcr_bool Reconnect) (\<lambda>issued.
          readOk (ReconnectMachineState.Permit authorization event issued))))
        else if tag = 2 then
          thenRead reader_u64 (\<lambda>authorization.
          thenRead decode_event (\<lambda>event.
          readOk (ReconnectMachineState.Attempt authorization event)))
        else if tag = 3 then readOk ReconnectMachineState.Online
        else readErr (InvalidTag Reconnect tag)))
    (\<lambda>state bs. bs = machine_bytes state)"
  apply (rule reads_cong, (rule read_intros)+)
  subgoal for x bs
    by (cases bs; cases x) (auto simp: machine_bytes_def split: if_splits)
  done

lemma reads_reconnect [read_intros]: "reads decode_reconnect (\<lambda>r bs. bs = reconnect_bytes r)"
  unfolding decode_reconnect_def
  by (rule reads_cong, (rule reads_machine read_intros)+) (auto simp: reconnect_bytes_def)

definition facts_payload :: "DecodedFacts \<Rightarrow> u8 list" where
  "facts_payload facts =
    binding_bytes (df_binding facts) @ be_bytes 8 (unat (df_next_operation_authorization facts))
    @ expected_bytes (df_expected facts) @ replay_bytes (df_replay facts)
    @ reconnect_bytes (df_reconnect_state facts, df_next_authorization facts, df_reconnect_lost facts)
    @ abandonment_bytes (df_abandonment facts)"

definition facts_data_ok :: "DecodedFacts \<Rightarrow> bool" where
  "facts_data_ok facts \<longleftrightarrow> binding_data_ok (df_binding facts) \<and> expected_data_ok (df_expected facts)
    \<and> replay_data_ok (df_replay facts) \<and> abandonment_data_ok (df_abandonment facts)"

definition facts_bytes :: "DecodedFacts \<Rightarrow> u8 list" where
  "facts_bytes facts = MAGIC @ be_bytes 2 (unat VERSION) @ be_bytes 8 (length (facts_payload facts)) @ facts_payload facts"

lemma facts_eq_iff:
  "f = \<lparr>df_binding = b, df_next_operation_authorization = n, df_expected = e, df_replay = r,
      df_reconnect_state = s, df_next_authorization = m, df_reconnect_lost = l, df_abandonment = x\<rparr> \<longleftrightarrow>
    b = df_binding f \<and> n = df_next_operation_authorization f \<and> e = df_expected f \<and> r = df_replay f
    \<and> s = df_reconnect_state f \<and> m = df_next_authorization f \<and> l = df_reconnect_lost f \<and> x = df_abandonment f"
  by (cases f) auto

lemma reads_triple:
  assumes "\<And>a b c. reads (f a b c) (S a b c)"
  shows "reads ((\<lambda>(a, b, c). f a b c) x) (S (fst x) (fst (snd x)) (snd (snd x)))"
  using assms by (cases x) simp

lemma reads_payload: "reads decode_payload_facts (\<lambda>facts bs. facts_data_ok facts \<and> bs = facts_payload facts)"
  unfolding decode_payload_facts_def
  apply (rule reads_cong, (rule reads_triple read_intros)+)
  subgoal for x bs
    by (auto simp: facts_eq_iff facts_data_ok_def facts_payload_def)
  done

text \<open>Every canonical payload is far below the 64-bit length the header declares.\<close>

lemma nested_bound: "frame_fits f \<Longrightarrow> length (nested_bytes f) \<le> U32_MAX + 18"
  by (simp add: nested_bytes_def blob_bytes_def frame_fits_def frame_bytes_def)

lemma facts_payload_bound: "facts_data_ok facts \<Longrightarrow> length (facts_payload facts) \<le> U64_MAX"
proof -
  assume ok: "facts_data_ok facts"
  have b: "length (binding_bytes (df_binding facts)) \<le> 81"
    using ok by (cases "df_binding facts")
      (simp_all add: facts_data_ok_def binding_bytes_def encode_terminal_binding_def lpcr_u64_def encode_epoch_def SECRET_LEN_def)
  have e: "length (expected_bytes (df_expected facts)) \<le> U32_MAX + 29"
    using ok nested_bound by (cases "df_expected facts")
      (fastforce simp: facts_data_ok_def expected_data_ok_def expected_bytes_def)+
  have r: "length (replay_bytes (df_replay facts)) \<le> U32_MAX + 59"
  proof (cases "df_replay facts")
    case (Recorded request status)
    have "length (status_bytes status) \<le> U32_MAX + 18"
      using ok Recorded nested_bound
      by (cases status) (auto simp: facts_data_ok_def status_data_ok_def status_bytes_def encode_status_terminal)
    then show ?thesis using ok Recorded by (simp add: facts_data_ok_def envelope_ok_def TOKEN_LEN_def)
  qed simp
  have m: "length (reconnect_bytes t) \<le> 20" for t
    by (cases "fst t") (simp_all add: reconnect_bytes_def machine_bytes_def)
  have x: "length (abandonment_bytes (df_abandonment facts)) \<le> U32_MAX + 21"
    using ok nested_bound by (cases "df_abandonment facts")
      (fastforce simp: facts_data_ok_def abandonment_data_ok_def abandonment_bytes_def)+
  show ?thesis
    using b e r x m [of "(df_reconnect_state facts, df_next_authorization facts, df_reconnect_lost facts)"]
    by (simp add: facts_payload_def)
qed

section \<open>The record\<close>

lemma remaining_at [simp]: "reader_remaining (rd_at pre suf) = length suf"
  by (simp add: reader_remaining_def rd_at_def)

lemma Reader_new_at: "Reader_new input = rd_at [] input"
  by (simp add: Reader_new_def rd_at_def)

lemma decode_facts_chain:
  "decode_facts input = Ok facts \<longleftrightarrow>
    (\<exists>r1 r2 d r3 r4. reader_take 4 (rd_at [] input) = Ok (MAGIC, r1) \<and> reader_u16 r1 = Ok (VERSION, r2)
      \<and> reader_u64 r2 = Ok (d, r3) \<and> unat d = reader_remaining r3
      \<and> decode_payload_facts r3 = Ok (facts, r4) \<and> reader_remaining r4 = 0)"
  by (auto simp: decode_facts_def Reader_new_at andThen_Ok_iff if_Err_Ok_iff split: if_splits)

lemma decode_facts_iff: "decode_facts input = Ok facts \<longleftrightarrow> facts_data_ok facts \<and> input = facts_bytes facts"
proof
  assume "decode_facts input = Ok facts"
  then obtain r1 r2 d r3 r4 where c: "reader_take 4 (rd_at [] input) = Ok (MAGIC, r1)" "reader_u16 r1 = Ok (VERSION, r2)"
    "reader_u64 r2 = Ok (d, r3)" "unat d = reader_remaining r3" "decode_payload_facts r3 = Ok (facts, r4)"
    "reader_remaining r4 = 0"
    unfolding decode_facts_chain by (elim exE conjE)
  obtain s1 where s1: "input = MAGIC @ s1" "r1 = rd_at MAGIC s1"
    using c(1) unfolding reads_iff [OF reads_take] by auto
  obtain s2 where s2: "s1 = be_bytes 2 (unat VERSION) @ s2" "r2 = rd_at (MAGIC @ be_bytes 2 (unat VERSION)) s2"
    using c(2) unfolding s1(2) reads_iff [OF reads_u16] by auto
  obtain s3 where s3: "s2 = be_bytes 8 (unat d) @ s3" "r3 = rd_at (MAGIC @ be_bytes 2 (unat VERSION) @ be_bytes 8 (unat d)) s3"
    using c(3) unfolding s2(2) reads_iff [OF reads_u64] by auto
  have p: "facts_data_ok facts" "s3 = facts_payload facts"
    using c(5,6) unfolding s3(2) reads_iff [OF reads_payload] by auto
  have "unat d = length (facts_payload facts)" using c(4) unfolding s3(2) p(2) remaining_at .
  then have "input = facts_bytes facts"
    unfolding s1(1) s2(1) s3(1) p(2) facts_bytes_def by (simp only:)
  then show "facts_data_ok facts \<and> input = facts_bytes facts" using p(1) by blast
next
  assume ok: "facts_data_ok facts \<and> input = facts_bytes facts"
  define d :: u64 where "d = of_nat (length (facts_payload facts))"
  have d: "unat d = length (facts_payload facts)"
    using facts_payload_bound [of facts] ok by (simp add: d_def unat_of_nat take_bit_nat_eq_self)
  let ?p = "facts_payload facts"
  have input: "input = MAGIC @ be_bytes 2 (unat VERSION) @ be_bytes 8 (unat d) @ ?p"
    using ok d by (simp only: facts_bytes_def)
  have magic: "length MAGIC = 4" by (simp add: MAGIC_def)
  have c1: "reader_take 4 (rd_at [] input) = Ok (MAGIC, rd_at ([] @ MAGIC) (be_bytes 2 (unat VERSION) @ be_bytes 8 (unat d) @ ?p))"
    unfolding input by (rule reads_at [OF reads_take]) (simp only: magic simp_thms)
  have c2: "reader_u16 (rd_at pre (be_bytes 2 (unat VERSION) @ rest)) = Ok (VERSION, rd_at (pre @ be_bytes 2 (unat VERSION)) rest)"
    for pre rest by (rule reads_at [OF reads_u16 refl])
  have c3: "reader_u64 (rd_at pre (be_bytes 8 (unat d) @ rest)) = Ok (d, rd_at (pre @ be_bytes 8 (unat d)) rest)"
    for pre rest by (rule reads_at [OF reads_u64 refl])
  have c4: "decode_payload_facts (rd_at pre (?p @ [])) = Ok (facts, rd_at (pre @ ?p) [])" for pre
    by (rule reads_at [OF reads_payload]) (simp only: ok simp_thms)
  show "decode_facts input = Ok facts"
    unfolding decode_facts_chain
    by (intro exI conjI, rule c1, rule c2, rule c3, simp only: remaining_at d,
        rule c4 [unfolded append_Nil2]) (simp only: remaining_at list.size)
qed

definition facts_of :: "ClientParticipantAggregate \<Rightarrow> DecodedFacts" where
  "facts_of a =
    \<lparr>df_binding = cpa_binding a, df_next_operation_authorization = cpa_next_operation_authorization a,
     df_expected = cpa_expected a, df_replay = sdr_state (cpa_detach_replay a),
     df_reconnect_state = rg_state (cpa_reconnect a),
     df_next_authorization = rg_next_authorization (cpa_reconnect a),
     df_reconnect_lost = rg_lost (cpa_reconnect a), df_abandonment = cpa_restored_abandonment a\<rparr>"

text \<open>The nested frames of an aggregate all fit a participant frame: the only way encoding can fail.\<close>

definition frames_fit :: "ClientParticipantAggregate \<Rightarrow> bool" where
  "frames_fit a \<longleftrightarrow>
    (\<forall>e. cpa_expected a = Some e \<longrightarrow> frame_fits (ClientRequestFrame (eo_request e)))
    \<and> (\<forall>request t. sdr_state (cpa_detach_replay a) = DetachReplayState.Recorded request (DetachReplayStatus.Terminal t)
        \<longrightarrow> frame_fits (ServerValueFrame (terminal_value t)))
    \<and> (\<forall>x. cpa_restored_abandonment a = Some x \<longrightarrow> frame_fits (ClientRequestFrame (roa_request x)))"

lemma encode_frame_iff:
  assumes "frame_ok f"
  shows "encode_frame f section = Ok bs \<longleftrightarrow> frame_fits f \<and> bs = frame_bytes f"
proof (cases "frame_fits f")
  case True
  let ?n = "length (frame_bytes f)"
  have "?n \<le> U64_MAX" by (rule frame_bytes_bound [OF True])
  then have "encode f (replicate ?n 0) = Ok (?n, frame_bytes f)"
    using participant_encode_Ok_iff [OF assms, of "replicate ?n 0" ?n "frame_bytes f"] True by simp
  moreover have "encoded_len f = Ok ?n" using encoded_len_iff [OF assms, of ?n] True by simp
  ultimately show ?thesis using True by (auto simp: encode_frame_def)
next
  case False
  then have "encoded_len f \<noteq> Ok n" for n using encoded_len_iff [OF assms, of n] by simp
  then show ?thesis using False by (cases "encoded_len f") (auto simp: encode_frame_def)
qed

lemma put_blob_frame: "frame_fits f \<Longrightarrow> put_blob output (frame_bytes f) = Ok (output @ nested_bytes f)"
  using frame_bytes_bound [of f]
  by (simp add: put_blob_def lpcr_u64_def nested_bytes_def blob_bytes_def unat_of_nat take_bit_nat_eq_self)

lemma nested_section_iff:
  assumes "frame_ok f"
  shows "andThen (encode_frame f section) (\<lambda>frame. put_blob output frame) = Ok bs \<longleftrightarrow>
    frame_fits f \<and> bs = output @ nested_bytes f"
  using put_blob_frame [of f] by (auto simp: andThen_Ok_iff encode_frame_iff [OF assms])

lemma encode_expected_iff:
  assumes "\<And>e. expected = Some e \<Longrightarrow> request_ok (eo_request e)"
  shows "encode_expected expected output = Ok bs \<longleftrightarrow>
    (\<forall>e. expected = Some e \<longrightarrow> frame_fits (ClientRequestFrame (eo_request e))) \<and> bs = output @ expected_bytes expected"
  using assms
  by (cases expected)
    (auto simp: encode_expected_def Let_def nested_section_iff expected_bytes_def encode_testimony_def lpcr_u64_def
      testimony_byte_def split: option.split)

lemma encode_abandonment_iff:
  assumes "\<And>e. abandonment = Some e \<Longrightarrow> request_ok (roa_request e)"
  shows "encode_abandonment abandonment output = Ok bs \<longleftrightarrow>
    (\<forall>e. abandonment = Some e \<longrightarrow> frame_fits (ClientRequestFrame (roa_request e))) \<and> bs = output @ abandonment_bytes abandonment"
  using assms
  by (cases abandonment)
    (auto simp: encode_abandonment_def Let_def nested_section_iff abandonment_bytes_def
      split: RestoredExpectedOperationAbandonmentReason.splits)

lemma encode_replay_iff:
  assumes "\<And>request t. replay = DetachReplayState.Recorded request (DetachReplayStatus.Terminal t) \<Longrightarrow>
    server_value_ok (terminal_value t)"
  shows "encode_replay replay output = Ok bs \<longleftrightarrow>
    (\<forall>request t. replay = DetachReplayState.Recorded request (DetachReplayStatus.Terminal t)
        \<longrightarrow> frame_fits (ServerValueFrame (terminal_value t)))
    \<and> bs = output @ replay_bytes replay"
proof (cases replay)
  case (Recorded request status)
  show ?thesis
  proof (cases status)
    case (Terminal t)
    have "server_value_ok (terminal_value t)" using assms Recorded Terminal by blast
    then show ?thesis using Recorded Terminal encode_status_terminal [of t]
      by (auto simp: encode_replay_def Let_def nested_section_iff lpcr_u64_def status_bytes_def case_prod_beta)
  qed (auto simp: encode_replay_def Let_def lpcr_u64_def status_bytes_def Recorded)
qed (auto simp: encode_replay_def)

lemma encode_reconnect_eq:
  "encode_reconnect r output = output @ reconnect_bytes (rg_state r, rg_next_authorization r, rg_lost r)"
  by (cases "rg_state r")
    (simp_all add: encode_reconnect_def Let_def reconnect_bytes_def machine_bytes_def encode_testimony_def
      testimony_byte_def lpcr_u64_def encode_event_def split: option.split)

lemma facts_data_ok_aggregate: "aggregate_ok a \<Longrightarrow> frames_fit a \<Longrightarrow> facts_data_ok (facts_of a)"
  by (cases "cpa_binding a"; cases "sdr_state (cpa_detach_replay a)")
    (auto simp: aggregate_ok_def frames_fit_def facts_data_ok_def facts_of_def expected_data_ok_def operation_ok_def
      abandonment_ok_def abandonment_data_ok_def status_data_ok_def terminal_ok_def canonical_terminal_def epoch_ok_def
      split: if_splits)

lemma encode_aggregate_iff:
  assumes "aggregate_ok a"
  shows "encode_aggregate a = Ok bs \<longleftrightarrow> frames_fit a \<and> bs = facts_bytes (facts_of a)"
proof -
  have e: "\<And>e. cpa_expected a = Some e \<Longrightarrow> request_ok (eo_request e)"
    and x: "\<And>e. cpa_restored_abandonment a = Some e \<Longrightarrow> request_ok (roa_request e)"
    and r: "\<And>request t. sdr_state (cpa_detach_replay a) = DetachReplayState.Recorded request (DetachReplayStatus.Terminal t) \<Longrightarrow>
      server_value_ok (terminal_value t)"
    using assms by (auto simp: aggregate_ok_def operation_ok_def abandonment_ok_def terminal_ok_def)
  have bound: "frames_fit a \<Longrightarrow> length (facts_payload (facts_of a)) \<le> U64_MAX"
    using facts_payload_bound facts_data_ok_aggregate [OF assms] by blast
  have payload: "facts_payload (facts_of a) = (((binding_bytes (cpa_binding a)
      @ be_bytes 8 (unat (cpa_next_operation_authorization a))) @ expected_bytes (cpa_expected a))
      @ replay_bytes (sdr_state (cpa_detach_replay a)))
      @ reconnect_bytes (rg_state (cpa_reconnect a), rg_next_authorization (cpa_reconnect a), rg_lost (cpa_reconnect a))
      @ abandonment_bytes (cpa_restored_abandonment a)"
    by (simp add: facts_payload_def facts_of_def)
  have unat_len: "frames_fit a \<Longrightarrow> unat (of_nat (length (facts_payload (facts_of a))) :: u64) = length (facts_payload (facts_of a))"
    using bound by (simp add: unat_of_nat take_bit_nat_eq_self)
  have e': "encode_expected (cpa_expected a) out = Ok bs \<longleftrightarrow>
      (\<forall>e. cpa_expected a = Some e \<longrightarrow> frame_fits (ClientRequestFrame (eo_request e))) \<and> bs = out @ expected_bytes (cpa_expected a)"
    for out bs by (rule encode_expected_iff [OF e])
  have r': "encode_replay (sdr_state (cpa_detach_replay a)) out = Ok bs \<longleftrightarrow>
      (\<forall>request t. sdr_state (cpa_detach_replay a) = DetachReplayState.Recorded request (DetachReplayStatus.Terminal t)
        \<longrightarrow> frame_fits (ServerValueFrame (terminal_value t))) \<and> bs = out @ replay_bytes (sdr_state (cpa_detach_replay a))"
    for out bs by (rule encode_replay_iff [OF r])
  have x': "encode_abandonment (cpa_restored_abandonment a) out = Ok bs \<longleftrightarrow>
      (\<forall>e. cpa_restored_abandonment a = Some e \<longrightarrow> frame_fits (ClientRequestFrame (roa_request e)))
      \<and> bs = out @ abandonment_bytes (cpa_restored_abandonment a)"
    for out bs by (rule encode_abandonment_iff [OF x])
  have "encode_aggregate a = Ok bs \<longleftrightarrow> frames_fit a \<and> length (facts_payload (facts_of a)) \<le> U64_MAX
      \<and> bs = lpcr_u64 (lpcr_u16 MAGIC VERSION) (of_nat (length (facts_payload (facts_of a)))) @ facts_payload (facts_of a)"
    by (simp only: encode_aggregate_def Let_def andThen_Ok_iff e' r' x' encode_reconnect_eq binding_bytes_eq frames_fit_def
        payload append.assoc append_Nil ex_simps simp_thms if_Err_Ok_iff lpcr_u64_def conj_assoc sum.inject eq_commute [of bs])
  moreover have "lpcr_u64 (lpcr_u16 MAGIC VERSION) (of_nat (length (facts_payload (facts_of a)))) @ facts_payload (facts_of a)
      = facts_bytes (facts_of a)" if "frames_fit a"
    using unat_len [OF that] by (simp only: facts_bytes_def lpcr_u64_def lpcr_u16_def append.assoc)
  ultimately show ?thesis using bound by argo
qed

section \<open>Validation and restore\<close>

text \<open>The aggregate whose record carries given facts, before the crash is accounted for, and the aggregate
  a crash leaves behind.\<close>

definition aggregate_of :: "DecodedFacts \<Rightarrow> ClientParticipantAggregate" where
  "aggregate_of f =
    \<lparr>cpa_binding = df_binding f, cpa_expected = df_expected f,
     cpa_next_operation_authorization = df_next_operation_authorization f,
     cpa_detach_replay = \<lparr>sdr_state = df_replay f\<rparr>,
     cpa_reconnect = \<lparr>rg_state = df_reconnect_state f, rg_next_authorization = df_next_authorization f,
       rg_lost = df_reconnect_lost f\<rparr>,
     cpa_restored_abandonment = df_abandonment f\<rparr>"

definition crash :: "ClientParticipantAggregate \<Rightarrow> ClientParticipantAggregate" where
  "crash a = restore_facts (facts_of a)"

lemma facts_of_aggregate_of [simp]: "facts_of (aggregate_of f) = f"
  by (cases f) (simp add: facts_of_def aggregate_of_def)

lemma aggregate_of_facts_of [simp]: "aggregate_of (facts_of a) = a"
  by (cases a) (simp add: facts_of_def aggregate_of_def)

lemma validate_testimony_iff:
  "validate_testimony_coupling f = Ok () \<longleftrightarrow>
    (\<forall>e t. df_expected f = Some e \<and> eo_lost e = Some t \<longrightarrow>
      eo_issued e \<and> \<not> is_observer_recovery (eo_request e) \<and> lat_kind t = expected_kind (eo_request e))
    \<and> (\<forall>t. df_reconnect_lost f = Some t \<longrightarrow> state_kind (df_reconnect_state f) = Some (lat_kind t))
    \<and> (\<forall>e. df_abandonment f \<noteq> None \<and> df_expected f = Some e \<longrightarrow> \<not> is_observer_recovery (eo_request e))"
  by (auto simp: validate_testimony_coupling_def split: option.splits if_splits)

lemma active_status_cases: "active_status s \<longleftrightarrow> s = DetachReplayStatus.Parked \<or> s = DetachReplayStatus.InFlight"
  by (cases s) simp_all

lemma validate_replay_iff:
  "validate_replay_coupling f = Ok () \<longleftrightarrow>
    (case df_replay f of
       Empty \<Rightarrow> expected_detach (df_expected f) = None
     | DetachReplayState.Recorded request status \<Rightarrow>
         (if active_status status
          then (\<exists>v. expected_detach (df_expected f) = Some (v, status = DetachReplayStatus.InFlight)
                  \<and> request = detach_envelope v)
          else expected_detach (df_expected f) = None))"
  by (cases "df_replay f"; cases "expected_detach (df_expected f)")
    (auto simp: validate_replay_coupling_def active_replay_def detach_request_matches_iff active_status_cases
      split: if_splits)

lemma validate_facts_iff:
  assumes "facts_data_ok f"
  shows "validate_facts f = Ok () \<longleftrightarrow> aggregate_ok (aggregate_of f)"
proof -
  let ?binding = "\<not> (case df_binding f of
           ClientBindingState.Bound _ _ generation _ binding_epoch \<Rightarrow>
             generation \<noteq> be_capability_generation binding_epoch
         | _ \<Rightarrow> False)"
  let ?ack = "\<forall>e. df_expected f = Some e \<longrightarrow> \<not> is_participant_ack (eo_request e)"
  let ?auth = "\<forall>e. df_expected f = Some e \<longrightarrow>
    eo_authorization e \<noteq> 0 \<and> eo_authorization e \<le> df_next_operation_authorization f"
  let ?accepts = "\<forall>e. df_expected f = Some e \<longrightarrow> accepts_request (df_binding f) (eo_request e)"
  let ?terminal = "\<forall>request t. df_replay f = DetachReplayState.Recorded request (DetachReplayStatus.Terminal t)
    \<longrightarrow> terminal_matches request t"
  let ?reconnect = "\<forall>n. reconnect_authorization (df_reconnect_state f) = Some n \<longrightarrow>
    n \<noteq> 0 \<and> n \<le> df_next_authorization f"
  have "validate_facts f = Ok () \<longleftrightarrow> ?binding \<and> ?ack \<and> ?auth \<and> ?accepts
      \<and> validate_replay_coupling f = Ok () \<and> ?terminal \<and> ?reconnect \<and> validate_testimony_coupling f = Ok ()"
    by (auto simp: validate_facts_def andThen_Ok_iff
        split: if_splits option.splits DetachReplayState.splits DetachReplayStatus.splits)
  also have "\<dots> \<longleftrightarrow> aggregate_ok (aggregate_of f)"
    unfolding validate_replay_iff validate_testimony_iff
    using assms
    by (cases "df_binding f"; cases "df_replay f")
      (auto simp: facts_data_ok_def aggregate_ok_def aggregate_of_def operation_ok_def reconnect_ok_def
        abandonment_ok_def expected_data_ok_def abandonment_data_ok_def epoch_ok_def status_data_ok_def terminal_ok_def
        canonical_terminal_def split: if_splits)
  finally show ?thesis .
qed

lemma facts_data_fit: "facts_data_ok f \<Longrightarrow> frames_fit (aggregate_of f)"
  by (auto simp: facts_data_ok_def frames_fit_def aggregate_of_def expected_data_ok_def abandonment_data_ok_def
      status_data_ok_def)

lemma record_restore_iff:
  "record_restore \<lparr>crr_canonical = input\<rparr> = Ok b \<longleftrightarrow>
    (\<exists>a. aggregate_ok a \<and> frames_fit a \<and> input = facts_bytes (facts_of a) \<and> b = crash a)"
proof
  assume "record_restore \<lparr>crr_canonical = input\<rparr> = Ok b"
  then obtain f where f: "decode_facts input = Ok f" "validate_facts f = Ok ()" "b = restore_facts f"
    by (auto simp: record_restore_def andThen_Ok_iff split: sum.splits)
  then have d: "facts_data_ok f" "input = facts_bytes f" by (simp_all add: decode_facts_iff)
  then show "\<exists>a. aggregate_ok a \<and> frames_fit a \<and> input = facts_bytes (facts_of a) \<and> b = crash a"
    using f validate_facts_iff [OF d(1)] facts_data_fit [OF d(1)]
    by (intro exI [of _ "aggregate_of f"]) (simp add: crash_def)
next
  assume "\<exists>a. aggregate_ok a \<and> frames_fit a \<and> input = facts_bytes (facts_of a) \<and> b = crash a"
  then obtain a where a: "aggregate_ok a" "frames_fit a" "input = facts_bytes (facts_of a)" "b = crash a" by blast
  have d: "facts_data_ok (facts_of a)" by (rule facts_data_ok_aggregate [OF a(1,2)])
  then have "decode_facts input = Ok (facts_of a)" using a(3) by (simp add: decode_facts_iff)
  then show "record_restore \<lparr>crr_canonical = input\<rparr> = Ok b"
    using validate_facts_iff [OF d] a by (simp add: record_restore_def crash_def)
qed

lemma live_coupling_ok:
  assumes "aggregate_ok a"
  shows "validate_live_replay_coupling (cpa_expected a) (sdr_state (cpa_detach_replay a)) = Ok ()"
  using assms
  by (cases "sdr_state (cpa_detach_replay a)")
    (auto simp: aggregate_ok_def validate_live_replay_coupling_def active_replay_def split: if_splits)

lemma resume_record_iff:
  assumes "aggregate_ok a"
  shows "resume_record a = Ok r \<longleftrightarrow> frames_fit a \<and> r = \<lparr>crr_canonical = facts_bytes (facts_of a)\<rparr>"
  by (auto simp: resume_record_def live_coupling_ok [OF assms] andThen_Ok_iff encode_aggregate_iff [OF assms])

lemma crash_ok:
  assumes "aggregate_ok a"
  shows "aggregate_ok (crash a)"
proof (cases "cpa_expected a")
  case (Some e)
  show ?thesis
    using assms Some
    by (cases "sdr_state (cpa_detach_replay a)"; cases "eo_request e"; cases "rg_lost (cpa_reconnect a)")
      (auto simp: crash_def restore_facts_def facts_of_def Let_def aggregate_ok_def operation_ok_def abandonment_ok_def
        reconnect_ok_def expected_detach_Some mint_def expected_kind_def split: if_splits)
next
  case None
  then show ?thesis
    using assms
    by (cases "rg_lost (cpa_reconnect a)")
      (auto simp: crash_def restore_facts_def facts_of_def Let_def aggregate_ok_def abandonment_ok_def
        reconnect_ok_def mint_def)
qed

lemma crash_frames_fit: "frames_fit a \<Longrightarrow> frames_fit (crash a)"
  by (cases "cpa_expected a")
    (auto simp: crash_def restore_facts_def facts_of_def Let_def frames_fit_def split: if_splits)

lemma crash_crash: "aggregate_ok a \<Longrightarrow> crash (crash a) = crash a"
  by (cases "cpa_expected a"; cases "rg_lost (cpa_reconnect a)")
    (auto simp: crash_def restore_facts_def facts_of_def Let_def aggregate_ok_def abandonment_ok_def state_kind_def
      split: if_splits ReconnectMachineState.split)

text \<open>The resume record as a durable state: what survives of an aggregate is its crash image.\<close>

definition save_record :: "ClientParticipantAggregate \<Rightarrow> ClientResumeRecord option" where
  "save_record a = (case resume_record a of Inr r \<Rightarrow> Some r | Inl _ \<Rightarrow> None)"

definition load_record :: "ClientResumeRecord \<Rightarrow> ClientParticipantAggregate option" where
  "load_record r = (case record_restore r of Inr a \<Rightarrow> Some a | Inl _ \<Rightarrow> None)"

lemma save_record_iff: "save_record a = Some r \<longleftrightarrow> resume_record a = Ok r"
  by (auto simp: save_record_def split: sum.splits)

lemma load_record_iff: "load_record r = Some a \<longleftrightarrow> record_restore r = Ok a"
  by (auto simp: load_record_def split: sum.splits)

interpretation lpcr: durable_state aggregate_ok crash save_record load_record
proof
  fix a b r
  show "aggregate_ok a \<Longrightarrow> save_record a = Some r \<Longrightarrow> load_record r = Some (crash a)"
    using record_restore_iff [of "crr_canonical r"] by (auto simp: save_record_iff load_record_iff resume_record_iff)
  show "\<exists>a. aggregate_ok a \<and> save_record a = Some r \<and> b = crash a" if "load_record r = Some b"
  proof -
    obtain bytes where r: "r = \<lparr>crr_canonical = bytes\<rparr>" by (cases r)
    with that obtain a where "aggregate_ok a" "frames_fit a" "bytes = facts_bytes (facts_of a)" "b = crash a"
      using record_restore_iff [of bytes b] by (auto simp only: load_record_iff)
    with r show ?thesis by (auto simp: save_record_iff resume_record_iff intro!: exI [of _ a])
  qed
qed (simp_all add: crash_ok crash_crash)

end
