(* ===== verification/Client_System.thy ===== *)
theory Client_System
  imports Client_Resume_Codec "HOL-Library.Multiset"
begin

text \<open>
  The client participant as a system: the aggregate, the one-use handles its transitions have released
  and the last stored resume record. A step is one public call of \<open>liminal-protocol/src/client\<close> with the
  handle it consumes, a store of a record, a dropped handle, or a crash followed by a restore; a call
  that is refused returns its arguments and is no step. Reachability carries the invariant of the
  aggregate to every history, and the accounting of handles: at most one live response authority and at
  most one live reconnect authority, each backed by the aggregate.
\<close>

section \<open>States and steps\<close>

datatype (plugins only: code size) client_phase =
    Running ClientParticipantAggregate
  | Deciding ClientPendingOperationRecord
  | Sealed ClientOperationCommit

datatype (plugins only: code size) client_handle =
    OperationHandle ExpectedParticipantOperation
  | CorrelationHandle ClientResponseCorrelation
  | AttemptHandle DetachTransportAttempt

record client_system =
  sys_phase :: client_phase
  sys_handles :: "client_handle multiset"
  sys_permits :: "ReconnectAttemptPermit multiset"
  sys_attempts :: "ReconnectInProgressAttempt multiset"
  sys_stored :: "ClientResumeRecord option"

definition system_new :: client_system where
  "system_new = \<lparr>sys_phase = Running ClientParticipantAggregate_new, sys_handles = {#}, sys_permits = {#},
    sys_attempts = {#}, sys_stored = None\<rparr>"

text \<open>The aggregate a phase carries: \<open>ClientPendingOperationRecord\<close> and \<open>ClientOperationCommit\<close> own it.\<close>

fun phase_aggregate :: "client_phase \<Rightarrow> ClientParticipantAggregate" where
  "phase_aggregate (Running a) = a"
| "phase_aggregate (Deciding p) = por_successor p"
| "phase_aggregate (Sealed c) = coc_aggregate c"

inductive client_call :: "client_system \<Rightarrow> client_system \<Rightarrow> bool" where
  recorded: "\<lbrakk>sys_phase s = Running a; request_ok request; record_operation a request = Pending p\<rbrakk>
    \<Longrightarrow> client_call s (s\<lparr>sys_phase := Deciding p\<rparr>)"
| continuous: "\<lbrakk>sys_phase s = Running a; record_operation a request = Continuous c\<rbrakk>
    \<Longrightarrow> client_call s (s\<lparr>sys_phase := Running (cco_aggregate c),
      sys_handles := add_mset (OperationHandle (cco_operation c)) (sys_handles s)\<rparr>)"
| abort: "sys_phase s = Deciding p \<Longrightarrow> client_call s (s\<lparr>sys_phase := Running (fst (pending_abort p))\<rparr>)"
| commit: "sys_phase s = Deciding p \<Longrightarrow> client_call s (s\<lparr>sys_phase := Sealed (pending_commit p)\<rparr>)"
| release: "\<lbrakk>sys_phase s = Sealed c; commit_into_parts c = (a, operation)\<rbrakk>
    \<Longrightarrow> client_call s (s\<lparr>sys_phase := Running a,
      sys_handles := add_mset (OperationHandle operation) (sys_handles s)\<rparr>)"
| store: "\<lbrakk>sys_phase s = Running a; resume_record a = Ok r\<rbrakk> \<Longrightarrow> client_call s (s\<lparr>sys_stored := Some r\<rparr>)"
| store_commit: "\<lbrakk>sys_phase s = Sealed c; commit_resume_record c = Ok r\<rbrakk>
    \<Longrightarrow> client_call s (s\<lparr>sys_stored := Some r\<rparr>)"
| send_operation: "\<lbrakk>sys_handles s = add_mset (OperationHandle operation) hs;
      operation_into_request operation = (request, correlation)\<rbrakk>
    \<Longrightarrow> client_call s (s\<lparr>sys_handles := add_mset (CorrelationHandle correlation) hs\<rparr>)"
| send_attempt: "\<lbrakk>sys_handles s = add_mset (AttemptHandle attempt) hs;
      attempt_into_request attempt = (envelope, correlation)\<rbrakk>
    \<Longrightarrow> client_call s (s\<lparr>sys_handles := add_mset (CorrelationHandle correlation) hs\<rparr>)"
| recover: "\<lbrakk>sys_phase s = Running a;
      recover_expected_operation a = RecoveredExpectedOperationDecision.Recovered b operation\<rbrakk>
    \<Longrightarrow> client_call s (s\<lparr>sys_phase := Running b,
      sys_handles := add_mset (OperationHandle operation) (sys_handles s)\<rparr>)"
| resolve_lost: "\<lbrakk>sys_phase s = Running a;
      resolve_lost_operation_authority a = LostOperationAuthorityDecision.Recorded b request testimony
      \<or> resolve_lost_operation_authority a = LostOperationAuthorityDecision.DetachParked b request testimony\<rbrakk>
    \<Longrightarrow> client_call s (s\<lparr>sys_phase := Running b\<rparr>)"
| fate: "\<lbrakk>sys_phase s = Running a; sys_handles s = add_mset (CorrelationHandle correlation) hs;
      record_expected_operation_fate a correlation f = ExpectedOperationFateDecision.Recorded b request g\<rbrakk>
    \<Longrightarrow> client_call s (s\<lparr>sys_phase := Running b, sys_handles := hs\<rparr>)"
| replay_start: "\<lbrakk>sys_phase s = Running a;
      transport_attempt_started a = DetachTransportAttemptDecision.Started b attempt\<rbrakk>
    \<Longrightarrow> client_call s (s\<lparr>sys_phase := Running b,
      sys_handles := add_mset (AttemptHandle attempt) (sys_handles s)\<rparr>)"
| replay_fate: "\<lbrakk>sys_phase s = Running a; sys_handles s = add_mset (CorrelationHandle correlation) hs;
      transport_fate a correlation f' = DetachTransportFateDecision.Parked b\<rbrakk>
    \<Longrightarrow> client_call s (s\<lparr>sys_phase := Running b, sys_handles := hs\<rparr>)"
| attach: "\<lbrakk>sys_phase s = Running a; sys_handles s = add_mset (CorrelationHandle correlation) hs;
      apply_attach a attach correlation = ApplyAttachDecision.Superseded b\<rbrakk>
    \<Longrightarrow> client_call s (s\<lparr>sys_phase := Running b, sys_handles := hs\<rparr>)"
| leave: "\<lbrakk>sys_phase s = Running a; sys_handles s = add_mset (CorrelationHandle correlation) hs;
      apply_leave_durable a leave correlation = ApplyLeaveDecision.Superseded b\<rbrakk>
    \<Longrightarrow> client_call s (s\<lparr>sys_phase := Running b, sys_handles := hs\<rparr>)"
| outcome: "\<lbrakk>sys_phase s = Running a; sys_handles s = add_mset (CorrelationHandle correlation) hs;
      server_value_ok (outcome_value outcome);
      apply_detach_outcome a outcome correlation = ApplyDetachOutcomeDecision.Terminal b\<rbrakk>
    \<Longrightarrow> client_call s (s\<lparr>sys_phase := Running b, sys_handles := hs\<rparr>)"
| inbound: "\<lbrakk>sys_phase s = Running a; server_value_ok x;
      decide_inbound a x = ClientInboundDecision.Applied d\<rbrakk>
    \<Longrightarrow> client_call s (s\<lparr>sys_phase := Running (cia_aggregate d)\<rparr>)"
| correlated: "\<lbrakk>sys_phase s = Running a; sys_handles s = add_mset (CorrelationHandle correlation) hs;
      server_value_ok x; decide_correlated_inbound a x correlation = ClientCorrelatedInboundDecision.Applied d\<rbrakk>
    \<Longrightarrow> client_call s (s\<lparr>sys_phase := Running (cia_aggregate d), sys_handles := hs\<rparr>)"
| take_abandonment: "sys_phase s = Running a
    \<Longrightarrow> client_call s (s\<lparr>sys_phase := Running (fst (take_restored_operation_abandonment a))\<rparr>)"
| fresh_event: "\<lbrakk>sys_phase s = Running a; record_fresh_event a event = Permitted b permit result\<rbrakk>
    \<Longrightarrow> client_call s (s\<lparr>sys_phase := Running b, sys_permits := add_mset permit (sys_permits s)\<rparr>)"
| recover_permit: "\<lbrakk>sys_phase s = Running a;
      recover_reconnect_permit a = RecoveredReconnectPermitDecision.Recovered b permit\<rbrakk>
    \<Longrightarrow> client_call s (s\<lparr>sys_phase := Running b, sys_permits := add_mset permit (sys_permits s)\<rparr>)"
| resolve_reconnect: "\<lbrakk>sys_phase s = Running a;
      resolve_lost_reconnect_authority a = LostReconnectAuthorityDecision.Recorded b testimony\<rbrakk>
    \<Longrightarrow> client_call s (s\<lparr>sys_phase := Running b\<rparr>)"
| redeem: "\<lbrakk>sys_phase s = Running a; sys_permits s = add_mset permit ps;
      redeem_attempt a permit = ReconnectAttemptDecision.Started b started\<rbrakk>
    \<Longrightarrow> client_call s (s\<lparr>sys_phase := Running b, sys_permits := ps, sys_attempts := add_mset started (sys_attempts s)\<rparr>)"
| attempt_fate: "\<lbrakk>sys_phase s = Running a; sys_attempts s = add_mset started ts;
      record_attempt_fate a started fate' = ReconnectAttemptFateDecision.Recorded b\<rbrakk>
    \<Longrightarrow> client_call s (s\<lparr>sys_phase := Running b, sys_attempts := ts\<rparr>)"
| drop_handle: "sys_handles s = add_mset h hs \<Longrightarrow> client_call s (s\<lparr>sys_handles := hs\<rparr>)"
| drop_permit: "sys_permits s = add_mset permit ps \<Longrightarrow> client_call s (s\<lparr>sys_permits := ps\<rparr>)"
| drop_attempt: "sys_attempts s = add_mset started ts \<Longrightarrow> client_call s (s\<lparr>sys_attempts := ts\<rparr>)"

text \<open>A crash loses every handle and the aggregate; a restart reads the stored record.\<close>

inductive client_step :: "client_system \<Rightarrow> client_system \<Rightarrow> bool" where
  call: "client_call s t \<Longrightarrow> client_step s t"
| restart: "\<lbrakk>sys_stored s = Some r; record_restore r = Ok a\<rbrakk>
    \<Longrightarrow> client_step s \<lparr>sys_phase = Running a, sys_handles = {#}, sys_permits = {#}, sys_attempts = {#},
      sys_stored = Some r\<rparr>"

inductive client_reachable :: "client_system \<Rightarrow> bool" where
  start: "client_reachable system_new"
| step: "\<lbrakk>client_reachable s; client_step s t\<rbrakk> \<Longrightarrow> client_reachable t"

section \<open>The invariant\<close>

fun handle_authorization :: "client_handle \<Rightarrow> u64" where
  "handle_authorization (OperationHandle h) = epo_authorization h"
| "handle_authorization (CorrelationHandle h) = crc_authorization h"
| "handle_authorization (AttemptHandle h) = dta_authorization h"

text \<open>Acknowledgement handles carry authorization zero, and only they.\<close>

definition live_handles :: "client_handle multiset \<Rightarrow> client_handle multiset" where
  "live_handles hs = filter_mset (\<lambda>h. handle_authorization h \<noteq> 0) hs"

text \<open>The operation handle carries the recorded request, the attempt handle its envelope.\<close>

fun handle_request :: "client_handle \<Rightarrow> ClientRequest \<Rightarrow> bool" where
  "handle_request (OperationHandle h) request \<longleftrightarrow> epo_request h = request"
| "handle_request (CorrelationHandle h) request \<longleftrightarrow> True"
| "handle_request (AttemptHandle h) request \<longleftrightarrow> (\<exists>v. request = ClientRequest.Detach v \<and> dta_request h = detach_envelope v)"

definition backs :: "ClientParticipantAggregate \<Rightarrow> client_handle \<Rightarrow> bool" where
  "backs a h \<longleftrightarrow> (\<exists>e. cpa_expected a = Some e \<and> eo_issued e \<and> eo_lost e = None
    \<and> eo_authorization e = handle_authorization h \<and> handle_request h (eo_request e))"

definition handles_ok :: "ClientParticipantAggregate \<Rightarrow> client_handle multiset \<Rightarrow> bool" where
  "handles_ok a hs \<longleftrightarrow> size (live_handles hs) \<le> 1 \<and> (\<forall>h \<in># live_handles hs. backs a h)"

definition reconnects_ok ::
  "ClientParticipantAggregate \<Rightarrow> ReconnectAttemptPermit multiset \<Rightarrow> ReconnectInProgressAttempt multiset \<Rightarrow> bool" where
  "reconnects_ok a ps ts \<longleftrightarrow> size ps + size ts \<le> 1
    \<and> (\<forall>p \<in># ps. rg_lost (cpa_reconnect a) = None
        \<and> rg_state (cpa_reconnect a) = ReconnectMachineState.Permit (rap_authorization p) (rap_event p) True)
    \<and> (\<forall>t \<in># ts. rg_lost (cpa_reconnect a) = None
        \<and> rg_state (cpa_reconnect a) = ReconnectMachineState.Attempt (ria_authorization t) (ria_event t))"

fun phase_ok :: "client_phase \<Rightarrow> bool" where
  "phase_ok (Running a) \<longleftrightarrow> True"
| "phase_ok (Deciding p) \<longleftrightarrow> (\<exists>a request. aggregate_ok a \<and> permits_issued a \<and> request_ok request
    \<and> record_operation a request = Pending p)"
| "phase_ok (Sealed c) \<longleftrightarrow> (\<exists>e. cpa_expected (coc_aggregate c) = Some e \<and> \<not> eo_issued e
    \<and> coc_operation c = \<lparr>epo_request = eo_request e, epo_authorization = eo_authorization e\<rparr>)"

definition stored_ok :: "ClientResumeRecord option \<Rightarrow> bool" where
  "stored_ok stored \<longleftrightarrow> (\<forall>r. stored = Some r \<longrightarrow>
    (\<exists>a. aggregate_ok a \<and> permits_issued a \<and> resume_record a = Ok r))"

definition running_ok :: "ClientParticipantAggregate \<Rightarrow> client_handle multiset
    \<Rightarrow> ReconnectAttemptPermit multiset \<Rightarrow> ReconnectInProgressAttempt multiset \<Rightarrow> bool" where
  "running_ok a hs ps ts \<longleftrightarrow> aggregate_ok a \<and> permits_issued a \<and> handles_ok a hs \<and> reconnects_ok a ps ts"

definition system_ok :: "client_system \<Rightarrow> bool" where
  "system_ok s \<longleftrightarrow>
    running_ok (phase_aggregate (sys_phase s)) (sys_handles s) (sys_permits s) (sys_attempts s)
    \<and> phase_ok (sys_phase s) \<and> stored_ok (sys_stored s)"

section \<open>Accounting of handles\<close>

lemma live_handles_simps [simp]:
  "live_handles {#} = {#}"
  "live_handles (add_mset h hs) = (if handle_authorization h \<noteq> 0 then add_mset h (live_handles hs) else live_handles hs)"
  by (simp_all add: live_handles_def)

lemma live_handles_live: "h \<in># live_handles hs \<Longrightarrow> handle_authorization h \<noteq> 0"
  by (simp add: live_handles_def)

text \<open>A handle whose authorization the issued operation carries is the only live one.\<close>

lemma handles_ok_alone:
  assumes "handles_ok a (add_mset h hs)" "handle_authorization h \<noteq> 0"
  shows "live_handles hs = {#}"
  using assms by (simp add: handles_ok_def)

lemma handles_ok_none:
  assumes "handles_ok a hs" "\<And>e. cpa_expected a = Some e \<Longrightarrow> \<not> eo_issued e \<or> eo_lost e \<noteq> None"
  shows "live_handles hs = {#}"
proof (rule ccontr)
  assume "live_handles hs \<noteq> {#}"
  then obtain h where "h \<in># live_handles hs" by (meson multiset_nonemptyE)
  then show False using assms by (auto simp: handles_ok_def backs_def)
qed

lemma handles_ok_empty: "live_handles hs = {#} \<Longrightarrow> handles_ok a hs"
  by (simp add: handles_ok_def)

lemma handles_ok_same: "cpa_expected b = cpa_expected a \<Longrightarrow> handles_ok b hs = handles_ok a hs"
  by (simp add: handles_ok_def backs_def)

lemma handles_ok_drop: "handles_ok a (add_mset h hs) \<Longrightarrow> handles_ok a hs"
  by (auto simp: handles_ok_def split: if_splits)

text \<open>Issuing to a system without a live handle, and handing a live authority on.\<close>

lemma handles_ok_issue:
  assumes "live_handles hs = {#}" "cpa_expected a = Some e" "eo_issued e" "eo_lost e = None"
    and "handle_authorization h = eo_authorization e" "handle_request h (eo_request e)"
  shows "handles_ok a (add_mset h hs)"
  using assms by (auto simp: handles_ok_def backs_def)

lemma handles_ok_convert:
  assumes "handles_ok a (add_mset h hs)" "handle_authorization c = handle_authorization h"
    and "\<And>request. handle_request h request \<Longrightarrow> handle_request c request"
  shows "handles_ok a (add_mset c hs)"
  using assms by (auto simp: handles_ok_def backs_def split: if_splits)

lemma reconnects_ok_same: "cpa_reconnect b = cpa_reconnect a \<Longrightarrow> reconnects_ok b ps ts = reconnects_ok a ps ts"
  by (simp add: reconnects_ok_def)

lemma permits_issued_same: "cpa_reconnect b = cpa_reconnect a \<Longrightarrow> permits_issued b = permits_issued a"
  by (simp add: permits_issued_def)

lemma reconnects_ok_idle:
  assumes "reconnects_ok a ps ts" "\<And>n e. rg_state (cpa_reconnect a) \<noteq> ReconnectMachineState.Permit n e True \<or> rg_lost (cpa_reconnect a) \<noteq> None"
    and "\<And>n e. rg_state (cpa_reconnect a) \<noteq> ReconnectMachineState.Attempt n e \<or> rg_lost (cpa_reconnect a) \<noteq> None"
  shows "ps = {#} \<and> ts = {#}"
proof -
  have "p \<notin># ps" for p using assms(1,2) by (auto simp: reconnects_ok_def)
  moreover have "t \<notin># ts" for t using assms(1,3) by (auto simp: reconnects_ok_def)
  ultimately show ?thesis by (meson multiset_nonemptyE)
qed

section \<open>Preservation\<close>

text \<open>Most steps leave the reconnect machine alone: only the operation and its handles move.\<close>

lemma running_ok_operation:
  assumes "running_ok a hs ps ts" "aggregate_ok b" "cpa_reconnect b = cpa_reconnect a" "handles_ok b ks"
  shows "running_ok b ks ps ts"
  using assms reconnects_ok_same [OF assms(3)] permits_issued_same [OF assms(3)] by (simp add: running_ok_def)

text \<open>A correlation that retires the operation was the only live handle.\<close>

lemma running_ok_retire:
  assumes "running_ok a (add_mset (CorrelationHandle c) hs) ps ts" "crc_authorization c \<noteq> 0"
    and "aggregate_ok b" "cpa_reconnect b = cpa_reconnect a"
  shows "running_ok b hs ps ts"
proof (rule running_ok_operation [OF assms(1,3,4)])
  show "handles_ok b hs"
    using assms(1,2) handles_ok_alone [of a "CorrelationHandle c" hs] by (simp add: running_ok_def handles_ok_empty)
qed

lemma issued_authorization:
  "aggregate_ok a \<Longrightarrow> cpa_expected a = Some e \<Longrightarrow> eo_authorization e \<noteq> 0"
  by (auto simp: aggregate_ok_def operation_ok_def)

lemma running_ok_issue:
  assumes "running_ok a hs ps ts" "cpa_expected a = Some e" "\<not> eo_issued e"
    and "handle_authorization h = eo_authorization e" "handle_request h (eo_request e)"
  shows "running_ok (issue a) (add_mset h hs) ps ts"
proof -
  have ok: "aggregate_ok a" "handles_ok a hs" using assms(1) by (simp_all add: running_ok_def)
  note issued = issue_ok [OF ok(1) assms(2,3)]
  have "live_handles hs = {#}" using handles_ok_none [OF ok(2)] assms(2,3) by auto
  then have "handles_ok (issue a) (add_mset h hs)"
    using issued assms(4,5) by (intro handles_ok_issue [of _ _ "e\<lparr>eo_issued := True\<rparr>"]) auto
  moreover have "cpa_reconnect (issue a) = cpa_reconnect a"
    using assms(2) by (simp add: issue_def mark_issued_def Let_def)
  ultimately show ?thesis using running_ok_operation [OF assms(1) issued(1)] by blast
qed

text \<open>The reconnect transitions leave the operation alone.\<close>

lemma running_ok_reconnect:
  assumes "running_ok a hs ps ts" "aggregate_ok b" "permits_issued b" "cpa_expected b = cpa_expected a"
    and "reconnects_ok b qs us"
  shows "running_ok b hs qs us"
  using assms handles_ok_same [OF assms(4)] by (simp add: running_ok_def)

lemma permits_issued_crash: "permits_issued a \<Longrightarrow> permits_issued (crash a)"
  by (simp add: permits_issued_def crash_def restore_facts_def facts_of_def Let_def split: option.split)

lemma stored_restart:
  assumes "stored_ok (Some r)" "record_restore r = Ok a"
  shows "running_ok a {#} {#} {#}"
proof -
  obtain b where b: "aggregate_ok b" "permits_issued b" "resume_record b = Ok r"
    using assms(1) by (auto simp: stored_ok_def)
  then have "a = crash b" using lpcr.load_save [of b r] assms(2) by (simp add: save_record_iff load_record_iff)
  then show ?thesis using b crash_ok permits_issued_crash
    by (simp add: running_ok_def handles_ok_def reconnects_ok_def)
qed

lemma running_correlation:
  assumes "running_ok a (add_mset (CorrelationHandle c) hs) ps ts" "cpa_expected a = Some e"
    "eo_authorization e = crc_authorization c"
  shows "aggregate_ok a" "crc_authorization c \<noteq> 0"
  using assms issued_authorization by (auto simp: running_ok_def)

lemma running_fate:
  assumes "running_ok a (add_mset (CorrelationHandle c) hs) ps ts"
    and "record_expected_operation_fate a c f = ExpectedOperationFateDecision.Recorded b request g"
  shows "running_ok b hs ps ts"
proof -
  have a: "aggregate_ok a" using assms(1) by (simp add: running_ok_def)
  obtain e where "cpa_expected a = Some e" "eo_authorization e = crc_authorization c"
    using assms(2) by (auto simp: record_expected_operation_fate_def Let_def split: option.splits if_splits)
  moreover have "aggregate_ok b" "cpa_reconnect b = cpa_reconnect a"
    using record_expected_operation_fate_ok [OF a assms(2)] by auto
  ultimately show ?thesis using running_ok_retire [OF assms(1)] running_correlation [OF assms(1)] by blast
qed

lemma running_replay_fate:
  assumes "running_ok a (add_mset (CorrelationHandle c) hs) ps ts"
    and "transport_fate a c f = DetachTransportFateDecision.Parked b"
  shows "running_ok b hs ps ts"
proof -
  have a: "aggregate_ok a" using assms(1) by (simp add: running_ok_def)
  then show ?thesis
    using running_ok_retire [OF assms(1)] running_correlation [OF assms(1)] transport_fate_ok [OF a assms(2)] by auto
qed

text \<open>The three supersession inputs and the detach outcomes, by the authority they present.\<close>

lemma running_detach_authority:
  assumes "running_ok a (add_mset (CorrelationHandle c) hs) ps ts"
    and "aggregate_ok b \<and> cpa_expected b = None \<and> detach_authority_matches a c \<and> cpa_reconnect b = cpa_reconnect a"
  shows "running_ok b hs ps ts"
proof -
  have a: "aggregate_ok a" using assms(1) by (simp add: running_ok_def)
  then show ?thesis using assms(2) detach_authority_matches_iff [OF a]
      running_ok_retire [OF assms(1)] running_correlation [OF assms(1)] by auto
qed

lemma running_correlated:
  assumes run: "running_ok a (add_mset (CorrelationHandle c) hs) ps ts" and "server_value_ok x"
    and applied: "decide_correlated_inbound a x c = ClientCorrelatedInboundDecision.Applied d"
  shows "running_ok (cia_aggregate d) hs ps ts"
proof -
  have a: "aggregate_ok a" using run by (simp add: running_ok_def)
  obtain e where e: "cpa_expected a = Some e" "eo_authorization e = crc_authorization c"
    and cases: "cia_aggregate d = a \<or> matches_request x (eo_request e) \<and> cia_aggregate d = retire_expected_operation a x"
    using decide_correlated_inbound_applied [OF applied] by auto
  show ?thesis
    using cases running_ok_retire [OF run running_correlation(2) [OF run e]] a
      retire_expected_operation_ok [OF a e(1) assms(2)] by auto
qed

lemma running_recorded:
  assumes "running_ok a hs ps ts" "record_operation a request = Pending p" "request_ok request"
  shows "running_ok (por_successor p) hs ps ts"
proof -
  have a: "aggregate_ok a" "handles_ok a hs" using assms(1) by (simp_all add: running_ok_def)
  note pending = record_operation_pending [OF assms(2) a(1) assms(3)]
  then have "live_handles hs = {#}" using handles_ok_none [OF a(2)] by auto
  then show ?thesis using pending running_ok_operation [OF assms(1), of "por_successor p" hs] handles_ok_empty by blast
qed

lemma running_abort:
  assumes "running_ok (por_successor p) hs ps ts" "phase_ok (Deciding p)"
  shows "running_ok (fst (pending_abort p)) hs ps ts"
proof -
  obtain a request where a: "aggregate_ok a" "request_ok request" "record_operation a request = Pending p"
    using assms(2) by auto
  note pending = record_operation_pending [OF a(3,1,2)]
  then have "live_handles hs = {#}" using handles_ok_none [of "por_successor p" hs] assms(1) by (auto simp: running_ok_def)
  then show ?thesis using pending a(1) running_ok_operation [OF assms(1), of a hs] handles_ok_empty by auto
qed

lemma running_resolve:
  assumes "running_ok a hs ps ts"
    and "resolve_lost_operation_authority a = LostOperationAuthorityDecision.Recorded b request testimony
      \<or> resolve_lost_operation_authority a = LostOperationAuthorityDecision.DetachParked b request testimony"
  shows "running_ok b hs ps ts"
proof -
  have a: "aggregate_ok a" "handles_ok a hs" using assms(1) by (simp_all add: running_ok_def)
  obtain e t where "cpa_expected a = Some e" "eo_lost e = Some t" and b: "cpa_reconnect b = cpa_reconnect a"
    using assms(2) by (auto simp: resolve_lost_operation_authority_def split: option.splits if_splits)
  then have "live_handles hs = {#}" using handles_ok_none [OF a(2)] by auto
  moreover have "aggregate_ok b"
    using resolve_lost_operation_authority_ok [OF a(1)] assms(2) by (auto split: LostOperationAuthorityDecision.splits)
  ultimately show ?thesis using b running_ok_operation [OF assms(1)] handles_ok_empty by blast
qed

text \<open>Reconnect: a fresh event finds no authority outstanding, a redemption turns the permit into the
  attempt, the attempt's fate ends it.\<close>

lemma running_fresh_event:
  assumes "running_ok a hs ps ts" "record_fresh_event a event = Permitted b permit result"
  shows "running_ok b hs (add_mset permit ps) ts"
proof -
  have a: "aggregate_ok a" "reconnects_ok a ps ts" using assms(1) by (simp_all add: running_ok_def)
  note fresh = record_fresh_event_ok [OF a(1) assms(2)]
  then have "ps = {#} \<and> ts = {#}"
    by (intro reconnects_ok_idle [OF a(2)]) (auto simp: reconnect_authorization_def)
  then show ?thesis using fresh
    by (intro running_ok_reconnect [OF assms(1)]) (auto simp: permits_issued_def reconnects_ok_def)
qed

lemma running_resolve_reconnect:
  assumes "running_ok a hs ps ts" "resolve_lost_reconnect_authority a = LostReconnectAuthorityDecision.Recorded b t"
  shows "running_ok b hs ps ts"
proof -
  have a: "aggregate_ok a" "reconnects_ok a ps ts" using assms(1) by (simp_all add: running_ok_def)
  note parked = resolve_lost_reconnect_authority_ok [OF a(1) assms(2)]
  then have "ps = {#} \<and> ts = {#}" by (intro reconnects_ok_idle [OF a(2)]) auto
  then show ?thesis using parked
    by (intro running_ok_reconnect [OF assms(1)]) (auto simp: permits_issued_def reconnects_ok_def)
qed

lemma running_redeem:
  assumes "running_ok a hs (add_mset permit ps) ts" "redeem_attempt a permit = ReconnectAttemptDecision.Started b started"
  shows "running_ok b hs ps (add_mset started ts)"
proof -
  have a: "aggregate_ok a" "reconnects_ok a (add_mset permit ps) ts" using assms(1) by (simp_all add: running_ok_def)
  then have "ps = {#} \<and> ts = {#}" by (simp add: reconnects_ok_def)
  then show ?thesis using redeem_attempt_ok [OF a(1) assms(2)]
    by (intro running_ok_reconnect [OF assms(1)]) (auto simp: permits_issued_def reconnects_ok_def)
qed

lemma running_attempt_fate:
  assumes "running_ok a hs ps (add_mset started ts)"
    and "record_attempt_fate a started fate' = ReconnectAttemptFateDecision.Recorded b"
  shows "running_ok b hs ps ts"
proof -
  have a: "aggregate_ok a" "reconnects_ok a ps (add_mset started ts)" using assms(1) by (simp_all add: running_ok_def)
  then have "ps = {#} \<and> ts = {#}" by (simp add: reconnects_ok_def)
  then show ?thesis using record_attempt_fate_ok [OF a(1) assms(2)]
    by (intro running_ok_reconnect [OF assms(1)])
      (auto simp: permits_issued_def reconnects_ok_def reconnect_authorization_def)
qed

lemma running_drop:
  "running_ok a (add_mset h hs) ps ts \<Longrightarrow> running_ok a hs ps ts"
  "running_ok a hs (add_mset p ps) ts \<Longrightarrow> running_ok a hs ps ts"
  "running_ok a hs ps (add_mset t ts) \<Longrightarrow> running_ok a hs ps ts"
  by (auto simp: running_ok_def reconnects_ok_def intro: handles_ok_drop)

lemma running_acknowledgement:
  assumes "running_ok a hs ps ts" "handle_authorization h = 0"
  shows "running_ok a (add_mset h hs) ps ts"
  using assms by (simp add: running_ok_def handles_ok_def)

lemma running_convert:
  assumes "running_ok a (add_mset h hs) ps ts" "handle_authorization c = handle_authorization h"
    "\<And>request. handle_request h request \<Longrightarrow> handle_request c request"
  shows "running_ok a (add_mset c hs) ps ts"
  using assms handles_ok_convert [of a h hs c] by (simp add: running_ok_def)

lemma commit_resume_record_eq: "commit_resume_record c = resume_record (coc_aggregate c)"
  by (simp add: commit_resume_record_def resume_record_def)

text \<open>Every step keeps the invariant.\<close>

lemma client_call_ok:
  assumes "client_call s t" "system_ok s"
  shows "system_ok t"
  using assms
proof (induction rule: client_call.induct)
  case (recorded s a request p)
  then show ?case using running_recorded by (auto simp: system_ok_def running_ok_def)
next
  case (continuous s a request c)
  then have "cco_aggregate c = a" "epo_authorization (cco_operation c) = 0"
    by (auto simp: record_operation_def Let_def split: if_splits option.splits sum.splits)
  then show ?case using continuous by (simp add: system_ok_def running_acknowledgement)
next
  case (abort s p)
  then show ?case using running_abort by (auto simp: system_ok_def simp del: phase_ok.simps(2))
next
  case (commit s p)
  then obtain a request where "aggregate_ok a" "request_ok request" "record_operation a request = Pending p"
    by (auto simp: system_ok_def)
  then show ?case using commit record_operation_pending [of a request p] by (auto simp: system_ok_def pending_commit_def)
next
  case (release s c a operation)
  then obtain e where e: "cpa_expected (coc_aggregate c) = Some e" "\<not> eo_issued e"
    "epo_request (coc_operation c) = eo_request e" "epo_authorization (coc_operation c) = eo_authorization e"
    by (auto simp: system_ok_def)
  then show ?case using release commit_into_parts_issue [OF e(1)]
      running_ok_issue [OF _ e(1,2), of "sys_handles s" "sys_permits s" "sys_attempts s" "OperationHandle operation"]
    by (auto simp: system_ok_def)
next
  case (store s a r)
  then show ?case by (auto simp: system_ok_def stored_ok_def running_ok_def)
next
  case (store_commit s c r)
  then show ?case by (auto simp: system_ok_def stored_ok_def running_ok_def commit_resume_record_eq)
next
  case (send_operation s operation hs request correlation)
  then show ?case by (auto simp: system_ok_def operation_into_request_def intro: running_convert)
next
  case (send_attempt s attempt hs envelope correlation)
  then show ?case by (auto simp: system_ok_def attempt_into_request_def intro: running_convert)
next
  case (recover s a b operation)
  then show ?case using running_ok_issue [of a "sys_handles s" "sys_permits s" "sys_attempts s" _ "OperationHandle operation"]
    by (auto simp: system_ok_def recover_expected_operation_cases split: option.splits if_splits)
next
  case (resolve_lost s a b request testimony)
  then show ?case using running_resolve by (auto simp: system_ok_def)
next
  case (fate s a correlation hs f b request g)
  then show ?case using running_fate by (auto simp: system_ok_def)
next
  case (replay_start s a b attempt)
  then have "aggregate_ok a" by (simp add: system_ok_def running_ok_def)
  then show ?case using replay_start transport_attempt_started_cases [of a]
      running_ok_issue [of a "sys_handles s" "sys_permits s" "sys_attempts s" _ "AttemptHandle attempt"]
    by (auto simp: system_ok_def)
next
  case (replay_fate s a correlation hs f' b)
  then show ?case using running_replay_fate by (auto simp: system_ok_def)
next
  case (attach s a correlation hs attach b)
  then show ?case using apply_attach_ok running_detach_authority [of a correlation hs]
    by (auto simp: system_ok_def running_ok_def)
next
  case (leave s a correlation hs leave b)
  then show ?case using apply_leave_durable_ok running_detach_authority [of a correlation hs]
    by (auto simp: system_ok_def running_ok_def)
next
  case (outcome s a correlation hs outcome b)
  then show ?case using apply_detach_outcome_ok running_detach_authority [of a correlation hs]
    by (auto simp: system_ok_def running_ok_def)
next
  case (inbound s a x d)
  then show ?case using decide_inbound_applied [of a x d] by (simp add: system_ok_def)
next
  case (correlated s a correlation hs x d)
  then show ?case using running_correlated by (auto simp: system_ok_def)
next
  case (take_abandonment s a)
  then show ?case using take_abandonment_ok [of a]
      running_ok_operation [of a "sys_handles s" "sys_permits s" "sys_attempts s" "fst (take_restored_operation_abandonment a)"]
      handles_ok_same [of "fst (take_restored_operation_abandonment a)" a]
    by (auto simp: system_ok_def running_ok_def take_restored_operation_abandonment_def)
next
  case (fresh_event s a event b permit result)
  then show ?case using running_fresh_event by (auto simp: system_ok_def)
next
  case (recover_permit s a b permit)
  then show ?case using recover_reconnect_permit_never [of a] by (auto simp: system_ok_def running_ok_def)
next
  case (resolve_reconnect s a b testimony)
  then show ?case using running_resolve_reconnect by (auto simp: system_ok_def)
next
  case (redeem s a permit ps b started)
  then show ?case using running_redeem by (auto simp: system_ok_def)
next
  case (attempt_fate s a started ts fate' b)
  then show ?case using running_attempt_fate by (auto simp: system_ok_def)
qed (auto simp: system_ok_def dest: running_drop)

lemma client_step_ok: "client_step s t \<Longrightarrow> system_ok s \<Longrightarrow> system_ok t"
proof (induction rule: client_step.induct)
  case (call s t)
  then show ?case by (rule client_call_ok)
next
  case (restart s r a)
  then show ?case using stored_restart [of r a] by (simp add: system_ok_def)
qed

lemma system_new_ok: "system_ok system_new"
proof -
  have "permits_issued ClientParticipantAggregate_new"
    by (simp add: permits_issued_def ClientParticipantAggregate_new_def ReconnectAggregate_new_def)
  then show ?thesis
    by (simp add: system_ok_def system_new_def running_ok_def aggregate_new_ok handles_ok_def reconnects_ok_def
        stored_ok_def)
qed

lemma reachable_ok: "client_reachable s \<Longrightarrow> system_ok s"
  by (induction rule: client_reachable.induct) (auto intro: system_new_ok client_step_ok)

section \<open>What every history keeps\<close>

text \<open>With no operation outstanding the retained detach is settled, so a detach is admitted exactly over an
  empty replay or in place of an older settled one.\<close>

lemma admit_replay_iff:
  assumes "aggregate_ok a" "cpa_expected a = None"
  shows "(\<exists>b prior. admit_detach_replay a (ClientRequest.Detach v) = Ok (b, prior)) \<longleftrightarrow>
    sdr_state (cpa_detach_replay a) = Empty \<or> can_replace_with (cpa_detach_replay a) (detach_envelope v)"
proof (cases "sdr_state (cpa_detach_replay a)")
  case (Recorded retained status)
  then have "\<not> active_status status" using assms by (auto simp: aggregate_ok_def split: if_splits)
  then show ?thesis using Recorded
    by (auto simp: admit_detach_replay_def can_replace_with_def Let_def split: if_splits)
qed (simp add: admit_detach_replay_def)

lemma encode_section_coupled:
  "encode_frame frame part \<noteq> Err DecoupledDetachReplay" "put_blob output bytes \<noteq> Err DecoupledDetachReplay"
  by (simp_all add: encode_frame_def put_blob_def split: sum.split prod.split)

lemma encode_aggregate_coupled: "encode_aggregate a \<noteq> Err DecoupledDetachReplay"
  by (auto simp: encode_aggregate_def encode_expected_def encode_replay_def encode_abandonment_def Let_def
      andThen_Err_iff encode_section_coupled split: option.splits DetachReplayState.splits prod.splits)

lemma resume_record_coupled:
  assumes "aggregate_ok a"
  shows "resume_record a \<noteq> Err DecoupledDetachReplay"
  using live_coupling_ok [OF assms] encode_aggregate_coupled
  by (auto simp: resume_record_def andThen_Err_iff)

lemma held_permit_redeemable:
  assumes "reconnects_ok a ps ts" "p \<in># ps"
  shows "\<exists>b t. redeem_attempt a p = ReconnectAttemptDecision.Started b t"
  using assms by (auto simp: reconnects_ok_def redeem_attempt_def)

lemma held_attempt_recordable:
  assumes "reconnects_ok a ps ts" "t \<in># ts"
  shows "\<exists>b. record_attempt_fate a t f = ReconnectAttemptFateDecision.Recorded b"
  using assms by (auto simp: reconnects_ok_def record_attempt_fate_def)

text \<open>A live correlation is never stale: its operation's fate is recorded, or parks the detach.\<close>

lemma held_correlation_spendable:
  assumes "aggregate_ok a" "backs a (CorrelationHandle c)"
  shows "(\<exists>b request. record_expected_operation_fate a c f = ExpectedOperationFateDecision.Recorded b request f)
    \<or> (\<exists>b. transport_fate a c g = DetachTransportFateDecision.Parked b)"
proof -
  obtain e where e: "cpa_expected a = Some e" "eo_issued e" "eo_lost e = None" "eo_authorization e = crc_authorization c"
    using assms(2) by (auto simp: backs_def)
  show ?thesis
  proof (cases "is_detach (eo_request e)")
    case True
    then show ?thesis using e detach_authority_matches_iff [OF assms(1)]
      by (simp add: transport_fate_def operation_loss_pending_def lost_operation_testimony_def)
  qed (simp add: record_expected_operation_fate_def e)
qed




section \<open>A stranded operation\<close>

text \<open>An operation that is issued while no handle is live. Calls leave it so: the barrier refuses every new
  record, recovery and testimony have nothing to give, and no value is applied without its handle.\<close>

definition stranded :: "ExpectedOperationState \<Rightarrow> client_system \<Rightarrow> bool" where
  "stranded e s \<longleftrightarrow> (\<exists>a. sys_phase s = Running a \<and> cpa_expected a = Some e)
    \<and> eo_issued e \<and> eo_lost e = None \<and> live_handles (sys_handles s) = {#}"

lemma stranded_call:
  assumes "client_call s t" "system_ok s" "stranded e s"
  shows "stranded e t"
proof -
  have authorized: False
    if "sys_handles s = add_mset (CorrelationHandle c) hs" "sys_phase s = Running a" "cpa_expected a = Some e'"
      "eo_authorization e' = crc_authorization c" for c hs a e'
    using that assms(2,3) issued_authorization [of a e']
    by (auto simp: stranded_def system_ok_def running_ok_def)
  have detach: False
    if "sys_handles s = add_mset (CorrelationHandle c) hs" "sys_phase s = Running a" "detach_authority_matches a c" for c hs a
    using that authorized [OF that(1,2)] assms(2) detach_authority_matches_iff [of a c]
    by (auto simp: system_ok_def running_ok_def)
  have ok: "aggregate_ok a" if "sys_phase s = Running a" for a using assms(2) that by (simp add: system_ok_def running_ok_def)
  from assms(1,3) show ?thesis
  proof (cases rule: client_call.cases)
    case (continuous a request c)
    then show ?thesis using assms(3)
      by (auto simp: stranded_def record_operation_def Let_def split: if_splits option.splits sum.splits)
  next
    case (fate a correlation hs f b request g)
    then show ?thesis using authorized
      by (auto simp: record_expected_operation_fate_def Let_def split: option.splits if_splits)
  next
    case (replay_start a b attempt)
    then show ?thesis using assms(3) ok transport_attempt_started_cases [of a] by (auto simp: stranded_def)
  next
    case (replay_fate a correlation hs f' b)
    then show ?thesis using authorized ok transport_fate_ok [of a correlation f' b] by auto
  next
    case (attach a correlation hs attach b)
    then show ?thesis using detach ok apply_attach_ok [of a attach correlation b] by auto
  next
    case (leave a correlation hs leave b)
    then show ?thesis using detach ok apply_leave_durable_ok [of a leave correlation b] by auto
  next
    case (outcome a correlation hs outcome b)
    then show ?thesis using detach ok apply_detach_outcome_ok [of a outcome correlation b] by auto
  next
    case (correlated a correlation hs x d)
    then show ?thesis using authorized decide_correlated_inbound_applied [of a x correlation d] by auto
  next
    case (inbound a x d)
    then show ?thesis using assms(3) decide_inbound_applied [of a x d] by (auto simp: stranded_def)
  next
    case (fresh_event a event b permit result)
    then show ?thesis using assms(3) ok record_fresh_event_ok [of a event b permit result] by (auto simp: stranded_def)
  next
    case (recover_permit a b permit)
    then show ?thesis using assms(2) recover_reconnect_permit_never [of a] by (auto simp: system_ok_def running_ok_def)
  next
    case (resolve_reconnect a b testimony)
    then show ?thesis using assms(3) ok resolve_lost_reconnect_authority_ok [of a b testimony] by (auto simp: stranded_def)
  next
    case (redeem a permit ps b started)
    then show ?thesis using assms(3) ok redeem_attempt_ok [of a permit b started] by (auto simp: stranded_def)
  next
    case (attempt_fate a started ts fate' b)
    then show ?thesis using assms(3) ok record_attempt_fate_ok [of a started fate' b] by (auto simp: stranded_def)
  qed (auto simp: stranded_def record_operation_def recover_expected_operation_def resolve_lost_operation_authority_def
      take_restored_operation_abandonment_def operation_into_request_def attempt_into_request_def Let_def
      split: if_splits option.splits sum.splits)
qed

lemma stranded_calls:
  assumes "client_call\<^sup>*\<^sup>* s t" "system_ok s" "stranded e s"
  shows "stranded e t \<and> system_ok t"
  using assms(1) by (induction rule: rtranclp_induct) (auto intro: assms(2,3) stranded_call client_call_ok)


section \<open>A concrete history\<close>

text \<open>Recording, committing, releasing and sending one operation.\<close>

lemma reachable_send:
  assumes "client_reachable s" "sys_phase s = Running a" "record_operation a request = Pending p" "request_ok request"
    and "commit_into_parts (pending_commit p) = (b, operation)"
  shows "client_reachable (s\<lparr>sys_phase := Running b, sys_handles :=
    add_mset (CorrelationHandle \<lparr>crc_authorization = epo_authorization operation\<rparr>) (sys_handles s)\<rparr>)"
proof -
  have 1: "client_reachable (s\<lparr>sys_phase := Deciding p\<rparr>)"
    using assms(1-4) by (blast intro: client_reachable.step client_step.call client_call.recorded)
  have 2: "client_reachable (s\<lparr>sys_phase := Sealed (pending_commit p)\<rparr>)"
    using client_reachable.step [OF 1 client_step.call [OF client_call.commit]] by simp
  have 3: "client_reachable (s\<lparr>sys_phase := Running b, sys_handles := add_mset (OperationHandle operation) (sys_handles s)\<rparr>)"
    using client_reachable.step [OF 2 client_step.call [OF client_call.release [OF _ assms(5)]]] by simp
  show ?thesis
    using client_reachable.step [OF 3 client_step.call [OF client_call.send_operation]]
    by (simp add: operation_into_request_def)
qed

definition sample_secret :: "u8 list" where
  "sample_secret = replicate 32 7"

definition sample_token :: "u8 list" where
  "sample_token = replicate 16 3"

definition sample_epoch :: BindingEpoch where
  "sample_epoch = \<lparr>be_connection_incarnation = \<lparr>ci_server_incarnation = 1, ci_connection_ordinal = 0\<rparr>,
    be_capability_generation = Generation 1\<rparr>"

definition sample_enrollment :: ClientRequest where
  "sample_enrollment = ClientRequest.Enrollment \<lparr>er_conversation_id = 7, er_enrollment_token = sample_token\<rparr>"

definition sample_bound :: ServerValue where
  "sample_bound = ServerValue.EnrollBound \<lparr>eb_conversation_id = 7, eb_token = sample_token, eb_participant_id = 9,
    eb_attach_secret = sample_secret, eb_origin_binding_epoch = sample_epoch, eb_receipt_expires_at = 100,
    eb_provenance_expires_at = 200\<rparr>"

definition sample_record :: ClientRequest where
  "sample_record = ClientRequest.RecordAdmission \<lparr>ra_conversation_id = 7, ra_participant_id = 9,
    ra_capability_generation = Generation 1, ra_record_admission_attempt_token = sample_token, ra_payload = []\<rparr>"

definition sample_ack :: ParticipantAckEnvelope where
  "sample_ack = \<lparr>pae_conversation_id = 7, pae_participant_id = 9, pae_capability_generation = Generation 1,
    pae_through_seq = 4\<rparr>"

text \<open>The aggregate enrolled at authorization \<open>n\<close>, and one with \<open>request\<close> in flight.\<close>

definition sample_aggregate ::
  "ClientBindingState \<Rightarrow> u64 \<Rightarrow> ClientRequest option \<Rightarrow> bool \<Rightarrow> ClientParticipantAggregate" where
  "sample_aggregate binding n request issued =
    \<lparr>cpa_binding = binding,
     cpa_expected = map_option (\<lambda>r. \<lparr>eo_request = r, eo_issued = issued, eo_authorization = n, eo_lost = None\<rparr>) request,
     cpa_next_operation_authorization = n, cpa_detach_replay = \<lparr>sdr_state = Empty\<rparr>,
     cpa_reconnect = ReconnectAggregate_new, cpa_restored_abandonment = None\<rparr>"

definition sample_binding :: ClientBindingState where
  "sample_binding = ClientBindingState.Bound 7 9 (Generation 1) sample_secret sample_epoch"

lemma sample_new: "ClientParticipantAggregate_new = sample_aggregate ClientBindingState.Unbound 0 None False"
  by (simp add: ClientParticipantAggregate_new_def sample_aggregate_def SdkDetachReplayAggregate_new_def)

lemma sample_record_operation:
  assumes "accepts_request binding request" "\<not> is_participant_ack request" "\<not> is_detach request"
    and "checked_add n 1 = Some m"
  shows "record_operation (sample_aggregate binding n None False) request =
    Pending \<lparr>por_successor = sample_aggregate binding m (Some request) False,
      por_operation = \<lparr>epo_request = request, epo_authorization = m\<rparr>, por_prior_replay = None\<rparr>"
  using assms by (cases request) (simp_all add: record_operation_def sample_aggregate_def admit_detach_replay_def)

lemma sample_release:
  assumes "\<not> is_detach request"
  shows "commit_into_parts (pending_commit \<lparr>por_successor = sample_aggregate binding n (Some request) False,
      por_operation = \<lparr>epo_request = request, epo_authorization = n\<rparr>, por_prior_replay = None\<rparr>) =
    (sample_aggregate binding n (Some request) True, \<lparr>epo_request = request, epo_authorization = n\<rparr>)"
  using assms by (simp add: commit_into_parts_def pending_commit_def mark_issued_def sample_aggregate_def)

definition sample_system :: "ClientParticipantAggregate \<Rightarrow> client_handle multiset \<Rightarrow> client_system" where
  "sample_system a hs = \<lparr>sys_phase = Running a, sys_handles = hs, sys_permits = {#}, sys_attempts = {#}, sys_stored = None\<rparr>"

lemma sample_send:
  assumes "client_reachable (sample_system (sample_aggregate binding n None False) {#})" "request_ok request"
    and "accepts_request binding request" "\<not> is_participant_ack request" "\<not> is_detach request"
    and "checked_add n 1 = Some m"
  shows "client_reachable (sample_system (sample_aggregate binding m (Some request) True)
    {#CorrelationHandle \<lparr>crc_authorization = m\<rparr>#})"
  using reachable_send [OF assms(1) _ sample_record_operation [OF assms(3-6)] assms(2) sample_release [OF assms(5)]]
  by (simp add: sample_system_def)

lemma sample_enrolling: "client_reachable (sample_system (sample_aggregate ClientBindingState.Unbound 1 (Some sample_enrollment) True)
    {#CorrelationHandle \<lparr>crc_authorization = 1\<rparr>#})"
proof (rule sample_send)
  show "client_reachable (sample_system (sample_aggregate ClientBindingState.Unbound 0 None False) {#})"
    using client_reachable.start by (simp add: system_new_def sample_system_def sample_new)
qed (simp_all add: sample_enrollment_def sample_token_def TOKEN_LEN_def accepts_request_def checked_add_def)

lemma sample_bound_ok: "server_value_ok sample_bound"
  by (simp add: sample_bound_def enroll_bound_ok_def sample_token_def sample_secret_def sample_epoch_def
      TOKEN_LEN_def SECRET_LEN_def)

lemma sample_enrolled: "client_reachable (sample_system (sample_aggregate sample_binding 1 None False) {#})"
proof -
  let ?a = "sample_aggregate ClientBindingState.Unbound 1 (Some sample_enrollment) True"
  have "decide_correlated_inbound ?a sample_bound \<lparr>crc_authorization = 1\<rparr> = ClientCorrelatedInboundDecision.Applied
      \<lparr>cia_aggregate = sample_aggregate sample_binding 1 None False, cia_value = sample_bound\<rparr>"
    by (simp add: decide_correlated_inbound_def decide_inbound_inner_def sample_aggregate_def sample_bound_def
        sample_enrollment_def accepts_request_def matches_request_def response_key_def
        enroll_bound_key_def enrollment_key_def retire_expected_operation_def expected_detach_envelope_def
        apply_correlated_value_def apply_enroll_bound_def sample_binding_def sample_epoch_def Let_def)
  then have "client_call (sample_system ?a {#CorrelationHandle \<lparr>crc_authorization = 1\<rparr>#})
      (sample_system (sample_aggregate sample_binding 1 None False) {#})"
    using client_call.correlated [of "sample_system ?a {#CorrelationHandle \<lparr>crc_authorization = 1\<rparr>#}" ?a
        "\<lparr>crc_authorization = 1\<rparr>" "{#}" sample_bound, OF _ _ sample_bound_ok] by (simp add: sample_system_def)
  with sample_enrolling show ?thesis by (blast intro: client_reachable.step client_step.call)
qed

lemma sample_recording: "client_reachable (sample_system (sample_aggregate sample_binding 2 (Some sample_record) True)
    {#CorrelationHandle \<lparr>crc_authorization = 2\<rparr>#})"
  by (rule sample_send [OF sample_enrolled])
    (simp_all add: sample_record_def sample_token_def TOKEN_LEN_def accepts_request_def sample_binding_def
      checked_add_def generation_ok_def)

lemma sample_recording_ok: "aggregate_ok (sample_aggregate sample_binding 2 (Some sample_record) True)"
  using reachable_ok [OF sample_recording] by (simp add: system_ok_def running_ok_def sample_system_def)

lemma sample_frames_fit: "frames_fit (sample_aggregate sample_binding 2 (Some sample_record) True)"
  by (simp add: frames_fit_def frame_fits_def sample_aggregate_def sample_record_def sample_token_def len_bytes_def
      word_bytes)

section \<open>Claims\<close>

text \<open>C15: The write-ahead barrier admits an operation exactly when the binding accepts it, it is no
  acknowledgement, no operation is outstanding, no tokenless abandonment awaits a new observer recovery, an
  authorization is left, and, for a detach, no earlier detach is retained or its settled one is older. The
  pending record carries the next authorization, unissued, and aborting it gives back the aggregate and the
  request unchanged.\<close>

theorem record_operation_exact:
  assumes "aggregate_ok a" "request_ok request"
  shows "((\<exists>p. record_operation a request = Pending p) \<longleftrightarrow>
      accepts_request (cpa_binding a) request \<and> \<not> is_participant_ack request \<and> cpa_expected a = None
      \<and> (cpa_restored_abandonment a = None \<or> \<not> is_observer_recovery request)
      \<and> unat (cpa_next_operation_authorization a) < U64_MAX
      \<and> (\<forall>v. request = ClientRequest.Detach v \<longrightarrow> sdr_state (cpa_detach_replay a) = Empty
          \<or> can_replace_with (cpa_detach_replay a) (detach_envelope v)))
    \<and> (\<forall>p. record_operation a request = Pending p \<longrightarrow> pending_abort p = (a, request)
        \<and> unat (epo_authorization (por_operation p)) = unat (cpa_next_operation_authorization a) + 1
        \<and> cpa_expected (por_successor p) = Some \<lparr>eo_request = request, eo_issued = False,
            eo_authorization = epo_authorization (por_operation p), eo_lost = None\<rparr>)"
proof -
  have admits: "(\<exists>b prior. admit_detach_replay a request = Ok (b, prior)) \<longleftrightarrow>
      (\<forall>v. request = ClientRequest.Detach v \<longrightarrow> sdr_state (cpa_detach_replay a) = Empty
        \<or> can_replace_with (cpa_detach_replay a) (detach_envelope v))" if "cpa_expected a = None"
    using admit_replay_iff [OF assms(1) that] by (cases request) (auto simp: admit_detach_replay_def)
  have room: "(\<exists>n. checked_add (cpa_next_operation_authorization a) 1 = Some n) \<longleftrightarrow>
      unat (cpa_next_operation_authorization a) < U64_MAX" by (auto simp: checked_add_def)
  have pending: "(\<exists>p. record_operation a request = Pending p) \<longleftrightarrow>
      accepts_request (cpa_binding a) request \<and> \<not> is_participant_ack request \<and> cpa_expected a = None
      \<and> (cpa_restored_abandonment a = None \<or> \<not> is_observer_recovery request)
      \<and> (\<exists>n. checked_add (cpa_next_operation_authorization a) 1 = Some n)
      \<and> (\<exists>b prior. admit_detach_replay a request = Ok (b, prior))"
    by (auto simp: record_operation_def Let_def split: option.split sum.split)
  have successor: "unat (epo_authorization (por_operation p)) = unat (cpa_next_operation_authorization a) + 1"
    if "record_operation a request = Pending p" for p
    using that checked_add_unat [of "cpa_next_operation_authorization a" 1]
    by (auto simp: record_operation_def Let_def split: option.splits sum.splits if_splits)
  show ?thesis
    using pending admits room successor record_operation_pending [OF _ assms] by auto
qed

theorem record_operation_exact_witness:
  "\<exists>p. record_operation (sample_aggregate sample_binding 1 None False) sample_record = Pending p
    \<and> pending_abort p = (sample_aggregate sample_binding 1 None False, sample_record)"
proof -
  let ?a = "sample_aggregate sample_binding 1 None False"
  have a: "aggregate_ok ?a"
    using reachable_ok [OF sample_enrolled] by (simp add: system_ok_def running_ok_def sample_system_def)
  have r: "request_ok sample_record"
    by (simp add: sample_record_def sample_token_def TOKEN_LEN_def generation_ok_def)
  have "\<exists>p. record_operation ?a sample_record = Pending p"
    using record_operation_exact [OF a r]
    by (simp add: sample_aggregate_def sample_binding_def sample_record_def accepts_request_def)
  then show ?thesis using record_operation_exact [OF a r] by blast
qed

text \<open>C16: In every reachable state of the client participant the aggregate is well formed, its resume record
  is never refused as decoupled, any record that is written restores to the crash image of the aggregate, and
  the last stored record always restores to a well-formed aggregate.\<close>

theorem client_reachable_well_formed:
  assumes "client_reachable s"
  shows "aggregate_ok (phase_aggregate (sys_phase s))
    \<and> resume_record (phase_aggregate (sys_phase s)) \<noteq> Err DecoupledDetachReplay
    \<and> (\<forall>r. resume_record (phase_aggregate (sys_phase s)) = Ok r \<longrightarrow>
        record_restore r = Ok (crash (phase_aggregate (sys_phase s))))
    \<and> (\<forall>r. sys_stored s = Some r \<longrightarrow> (\<exists>a. record_restore r = Ok a \<and> aggregate_ok a))"
proof -
  have ok: "system_ok s" by (rule reachable_ok [OF assms])
  then have a: "aggregate_ok (phase_aggregate (sys_phase s))" by (simp add: system_ok_def running_ok_def)
  have restores: "record_restore r = Ok (crash b)" if "aggregate_ok b" "resume_record b = Ok r" for b r
    using that lpcr.load_save [of b r] by (simp add: save_record_iff load_record_iff)
  have "\<exists>b. record_restore r = Ok b \<and> aggregate_ok b" if "sys_stored s = Some r" for r
    using ok that restores crash_ok by (fastforce simp: system_ok_def stored_ok_def)
  then show ?thesis using a resume_record_coupled [OF a] restores by blast
qed

theorem client_reachable_well_formed_witness:
  "client_reachable (sample_system (sample_aggregate sample_binding 2 (Some sample_record) True)
      {#CorrelationHandle \<lparr>crc_authorization = 2\<rparr>#})
    \<and> aggregate_ok (sample_aggregate sample_binding 2 (Some sample_record) True)"
  using client_reachable_well_formed [OF sample_recording] sample_recording by (simp add: sample_system_def)

text \<open>C4: One-use authorities are conserved. In every reachable running state at most one response handle
  and at most one reconnect handle are live, and each one that is held can still be spent: a permit is
  redeemed, an attempt's fate is recorded, and a correlation either records its operation's fate or parks its
  detach.\<close>

theorem client_authority_conserved:
  assumes "client_reachable s" "sys_phase s = Running a"
  shows "size (live_handles (sys_handles s)) \<le> 1 \<and> size (sys_permits s) + size (sys_attempts s) \<le> 1
    \<and> (\<forall>p \<in># sys_permits s. \<exists>b t. redeem_attempt a p = ReconnectAttemptDecision.Started b t)
    \<and> (\<forall>t \<in># sys_attempts s. \<forall>f. \<exists>b. record_attempt_fate a t f = ReconnectAttemptFateDecision.Recorded b)
    \<and> (\<forall>c. CorrelationHandle c \<in># live_handles (sys_handles s) \<longrightarrow>
        (\<exists>b request. record_expected_operation_fate a c f = ExpectedOperationFateDecision.Recorded b request f)
        \<or> (\<exists>b. transport_fate a c g = DetachTransportFateDecision.Parked b))"
proof -
  have ok: "running_ok a (sys_handles s) (sys_permits s) (sys_attempts s)"
    using reachable_ok [OF assms(1)] assms(2) by (simp add: system_ok_def)
  then have "backs a h" if "h \<in># live_handles (sys_handles s)" for h
    using that by (simp add: running_ok_def handles_ok_def)
  then have spend: "(\<exists>b request. record_expected_operation_fate a c f = ExpectedOperationFateDecision.Recorded b request f)
      \<or> (\<exists>b. transport_fate a c g = DetachTransportFateDecision.Parked b)"
    if "CorrelationHandle c \<in># live_handles (sys_handles s)" for c
    using that ok held_correlation_spendable unfolding running_ok_def by blast
  have re: "reconnects_ok a (sys_permits s) (sys_attempts s)" and "size (live_handles (sys_handles s)) \<le> 1"
    using ok by (simp_all add: running_ok_def handles_ok_def)
  moreover have "size (sys_permits s) + size (sys_attempts s) \<le> 1" using re by (simp add: reconnects_ok_def)
  ultimately show ?thesis
    using spend held_permit_redeemable [OF re] held_attempt_recordable [OF re] by blast
qed

theorem client_authority_conserved_witness:
  "\<exists>b request. record_expected_operation_fate (sample_aggregate sample_binding 2 (Some sample_record) True)
    \<lparr>crc_authorization = 2\<rparr> ExpectedOperationTransportFate.ResponseUnavailable = ExpectedOperationFateDecision.Recorded b request
      ExpectedOperationTransportFate.ResponseUnavailable"
proof -
  let ?a = "sample_aggregate sample_binding 2 (Some sample_record) True"
  have "transport_fate ?a \<lparr>crc_authorization = 2\<rparr> DetachTransportFate.ResponseUnavailable \<noteq> DetachTransportFateDecision.Parked b" for b
    by (simp add: transport_fate_def detach_authority_matches_def sample_aggregate_def sample_record_def)
  then show ?thesis
    using client_authority_conserved [OF sample_recording, of ?a "ExpectedOperationTransportFate.ResponseUnavailable"
        DetachTransportFate.ResponseUnavailable] by (auto simp: sample_system_def)
qed

text \<open>C9: Restoring accepts exactly the records of well-formed aggregates and yields what the crash leaves of
  them; a restored aggregate that is recorded again restores to itself.\<close>

theorem client_restore_exact:
  "(record_restore r = Ok b \<longleftrightarrow> (\<exists>a. aggregate_ok a \<and> resume_record a = Ok r \<and> b = crash a))
    \<and> (record_restore r = Ok b \<and> resume_record b = Ok q \<longrightarrow> record_restore q = Ok b)"
  using lpcr.load_iff [of r b] lpcr.reload [of r b q] by (simp add: save_record_iff load_record_iff)

theorem client_restore_exact_witness:
  "\<exists>r q. record_restore r = Ok (crash (sample_aggregate sample_binding 2 (Some sample_record) True))
    \<and> resume_record (crash (sample_aggregate sample_binding 2 (Some sample_record) True)) = Ok q
    \<and> record_restore q = Ok (crash (sample_aggregate sample_binding 2 (Some sample_record) True))"
proof -
  let ?a = "sample_aggregate sample_binding 2 (Some sample_record) True"
  obtain r q where r: "resume_record ?a = Ok r" and q: "resume_record (crash ?a) = Ok q"
    using resume_record_iff [OF sample_recording_ok] resume_record_iff [OF crash_ok [OF sample_recording_ok]]
      sample_frames_fit crash_frames_fit by blast
  then have "record_restore r = Ok (crash ?a)" using client_restore_exact [of r "crash ?a" q] sample_recording_ok by blast
  then show ?thesis using client_restore_exact [of r "crash ?a" q] q by blast
qed

text \<open>C39: An acknowledgement answer or a transport rejection that arrives while another operation is in
  flight is applied with that operation's response correlation. The decision is \<open>Applied\<close> with the aggregate
  unchanged, so the one-use correlation is gone and the operation is still the expected one, issued. With the
  correlation its true answer would have been applied and would have retired the operation; now it is refused for
  missing response authority, like every other settling value. The operation is neither
  recoverable nor resolvable as lost, no other operation can be recorded, and no sequence of further calls short of a
  restart changes this.\<close>

theorem acknowledgement_strands_operation:
  assumes "client_reachable s" "sys_phase s = Running a" "sys_handles s = add_mset (CorrelationHandle c) hs"
    and "crc_authorization c \<noteq> 0" "\<not> is_left (cpa_binding a)"
    and "participant_ack_request x = Some ack \<and> matches_ack (cpa_binding a) ack \<or> is_transport_rejected x"
  shows "decide_correlated_inbound a x c = ClientCorrelatedInboundDecision.Applied \<lparr>cia_aggregate = a, cia_value = x\<rparr>
    \<and> (\<exists>e. cpa_expected a = Some e \<and> eo_issued e \<and> eo_authorization e = crc_authorization c
        \<and> (\<forall>y. participant_ack_request y = None \<and> \<not> is_transport_rejected y \<and> matches_request y (eo_request e) \<longrightarrow>
            decide_correlated_inbound a y c = ClientCorrelatedInboundDecision.Applied
              \<lparr>cia_aggregate = retire_expected_operation a y, cia_value = y\<rparr>)
        \<and> (\<forall>y. participant_ack_request y = None \<and> \<not> is_transport_rejected y \<longrightarrow>
            decide_inbound a y = ClientInboundDecision.Refused
              \<lparr>cir_aggregate = a, cir_value = y, cir_reason = MissingResponseAuthority\<rparr>)
        \<and> recover_expected_operation a = RecoveredExpectedOperationDecision.NotAvailable a True
        \<and> resolve_lost_operation_authority a = LostOperationAuthorityDecision.Refused a NoPendingTestimony
        \<and> (\<forall>request p. record_operation a request \<noteq> Pending p)
        \<and> (\<forall>t. client_call\<^sup>*\<^sup>* (s\<lparr>sys_handles := hs\<rparr>) t \<longrightarrow> stranded e t))"
proof -
  have ok: "system_ok s" by (rule reachable_ok [OF assms(1)])
  then have run: "handles_ok a (add_mset (CorrelationHandle c) hs)"
    using assms(2,3) by (simp add: system_ok_def running_ok_def)
  then obtain e where e: "cpa_expected a = Some e" "eo_issued e" "eo_lost e = None"
    "eo_authorization e = crc_authorization c"
    using assms(4) by (auto simp: handles_ok_def backs_def)
  have ack: "participant_ack_request x = None" if "is_transport_rejected x"
    using that by (cases x) simp_all
  have "decide_inbound_inner a x True = ClientInboundDecision.Applied \<lparr>cia_aggregate = a, cia_value = x\<rparr>"
    using assms(5,6) ack by (auto simp: decide_inbound_inner_def Let_def)
  then have applied: "decide_correlated_inbound a x c =
      ClientCorrelatedInboundDecision.Applied \<lparr>cia_aggregate = a, cia_value = x\<rparr>"
    using e by (simp add: decide_correlated_inbound_def Let_def)
  have "aggregate_ok a" using ok assms(2) by (simp add: system_ok_def running_ok_def)
  then have "accepts_request (cpa_binding a) (eo_request e)" using e(1) by (simp add: aggregate_ok_def operation_ok_def)
  then have answered: "decide_correlated_inbound a y c = ClientCorrelatedInboundDecision.Applied
      \<lparr>cia_aggregate = retire_expected_operation a y, cia_value = y\<rparr>"
    if "participant_ack_request y = None \<and> \<not> is_transport_rejected y \<and> matches_request y (eo_request e)" for y
    using that e assms(5) by (simp add: decide_correlated_inbound_def decide_inbound_inner_def Let_def)
  have refused: "decide_inbound a y = ClientInboundDecision.Refused
      \<lparr>cir_aggregate = a, cir_value = y, cir_reason = MissingResponseAuthority\<rparr>"
    if "participant_ack_request y = None \<and> \<not> is_transport_rejected y" for y
    using that e assms(5) by (simp add: decide_inbound_def decide_inbound_inner_def Let_def)
  have stuck: "recover_expected_operation a = RecoveredExpectedOperationDecision.NotAvailable a True"
    "resolve_lost_operation_authority a = LostOperationAuthorityDecision.Refused a NoPendingTestimony"
    "record_operation a request \<noteq> Pending p" for request p
    using e by (simp_all add: recover_expected_operation_cases resolve_lost_operation_authority_def record_operation_def Let_def)
  have "client_call s (s\<lparr>sys_handles := hs\<rparr>)" by (rule client_call.drop_handle [OF assms(3)])
  then have "system_ok (s\<lparr>sys_handles := hs\<rparr>)" using client_call_ok ok by blast
  moreover have "stranded e (s\<lparr>sys_handles := hs\<rparr>)"
    using assms(2,4) e handles_ok_alone [OF run] by (simp add: stranded_def)
  ultimately have "stranded e t" if "client_call\<^sup>*\<^sup>* (s\<lparr>sys_handles := hs\<rparr>) t" for t
    using stranded_calls that by blast
  with applied answered refused stuck e show ?thesis by blast
qed

text \<open>A record admission is in flight when the acknowledgement of a delivery is answered; the commit of the
  record comes next.\<close>

definition sample_committed :: ServerValue where
  "sample_committed = ServerValue.RecordCommitted \<lparr>rc_request = \<lparr>rae_conversation_id = 7, rae_participant_id = 9,
    rae_capability_generation = Generation 1, rae_record_admission_attempt_token = sample_token\<rparr>, rc_delivery_seq = 12\<rparr>"

theorem acknowledgement_strands_operation_witness:
  "let a = sample_aggregate sample_binding 2 (Some sample_record) True;
       ack = ServerValue.AckCommitted \<lparr>ac_request = sample_ack\<rparr>
   in decide_correlated_inbound a sample_committed \<lparr>crc_authorization = 2\<rparr> = ClientCorrelatedInboundDecision.Applied
        \<lparr>cia_aggregate = retire_expected_operation a sample_committed, cia_value = sample_committed\<rparr>
      \<and> decide_correlated_inbound a ack \<lparr>crc_authorization = 2\<rparr> =
        ClientCorrelatedInboundDecision.Applied \<lparr>cia_aggregate = a, cia_value = ack\<rparr>
      \<and> decide_inbound a sample_committed = ClientInboundDecision.Refused
        \<lparr>cir_aggregate = a, cir_value = sample_committed, cir_reason = MissingResponseAuthority\<rparr>"
proof -
  let ?a = "sample_aggregate sample_binding 2 (Some sample_record) True"
  let ?ack = "ServerValue.AckCommitted \<lparr>ac_request = sample_ack\<rparr>"
  have "matches_request sample_committed sample_record"
    by (simp add: sample_committed_def sample_record_def matches_request_def response_key_def record_key_def)
  moreover have "participant_ack_request sample_committed = None" "\<not> is_transport_rejected sample_committed"
    by (simp_all add: sample_committed_def)
  moreover have "\<not> is_left (cpa_binding ?a)" "matches_ack (cpa_binding ?a) sample_ack"
    by (simp_all add: sample_aggregate_def sample_binding_def sample_ack_def)
  moreover have "eo_request e = sample_record" if "cpa_expected ?a = Some e" for e
    using that by (auto simp: sample_aggregate_def)
  ultimately show ?thesis
    using acknowledgement_strands_operation [OF sample_recording, of ?a "\<lparr>crc_authorization = 2\<rparr>" "{#}" ?ack sample_ack]
    by (fastforce simp: sample_system_def Let_def)
qed

end
