(* ===== verification/Sdk_Participant.thy ===== *)
theory Sdk_Participant
  imports Client_System
begin

text \<open>
  The remote participant handle of the SDK (\<open>liminal-sdk/src/remote/participant.rs\<close>,
  \<open>participant/recovery.rs\<close>, \<open>participant/replay_apply.rs\<close>): every method of
  \<open>RemoteParticipantHandle\<close> over the client transitions. The durable store and the transport are caller
  code and sockets: they are arguments, a function per trait method over their own state. A method runs
  under the handle's mutex, so it is a function of the handle; \<open>reconnect\<close> releases the lock around
  the connection attempt and is split there.
\<close>

section \<open>Errors, outcomes and state (participant.rs, error.rs)\<close>

datatype (plugins only: code size) SdkError =
    Connection string
  | Protocol string
  | Serialization string
  | TypeValidation string
  | Backpressure string
  | Conversation string string
  | Store string

record ParticipantResponseProvenance =
  prp_connection_id :: u64
  prp_attempt_id :: u64

datatype (plugins only: code size) RemoteParticipantError =
    StateUnavailable "SdkError option"
  | ResumeEncode ClientResumeRecordEncodeError
  | ResumeDecode ClientResumeRecordDecodeError
  | ResumeRestore ClientResumeRestoreError
  | Storage SdkError
  | Transport SdkError
  | InvalidInboundDirection
  | ResponseAuthorityUnavailable

datatype (plugins only: code size) OperationDurability = WriteAhead | Continuous

record RemoteParticipantOperation =
  rpo_operation :: ExpectedParticipantOperation
  rpo_durability :: OperationDurability

datatype (plugins only: code size) RemoteOperationRecordOutcome =
    Recorded RemoteParticipantOperation
  | Continuous RemoteParticipantOperation
  | Refused ClientRequest ClientOperationRecordRefusalReason

datatype (plugins only: code size) RemoteOperationTransportFate =
    Recorded ClientRequest
  | DetachParked
  | Refused ExpectedOperationFateRefusalReason
  | NotOutstanding

record RemoteReconnectPermit =
  rrp_permit :: ReconnectAttemptPermit

datatype (plugins only: code size) RemoteReconnectPermitOutcome =
    Permitted RemoteReconnectPermit ReconnectDelayResult
  | Refused ReconnectPermitRefusalReason ReconnectDelayResult

datatype (plugins only: code size) RemoteParticipantSendOutcome =
    Sent ParticipantResponseProvenance
  | TransportLost SdkError RemoteOperationTransportFate RemoteReconnectPermitOutcome

datatype (plugins only: code size) RemoteParticipantInbound =
    Applied ServerValue ParticipantResponseProvenance
  | Refused ServerValue ClientInboundRefusalReason ParticipantResponseProvenance
  | Push ServerPush ParticipantResponseProvenance

fun committed_delivery_seq :: "RemoteParticipantInbound \<Rightarrow> DeliverySeq option" where
  "committed_delivery_seq (RemoteParticipantInbound.Applied (ServerValue.RecordCommitted committed) _) =
    Some (rc_delivery_seq committed)"
| "committed_delivery_seq _ = None"

text \<open>The handle is its state extended by the transport's state.\<close>

record 's RemoteParticipantState =
  rps_aggregate :: "ClientParticipantAggregate option"
  rps_correlation :: "ClientResponseCorrelation option"
  rps_reconnect_attempt :: "ReconnectInProgressAttempt option"
  rps_store :: 's
  rps_unavailable :: "SdkError option"

record ('s, 't) RemoteParticipantHandle = "'s RemoteParticipantState" +
  rph_transport :: 't

text \<open>\<open>ParticipantResumeStore::persist\<close>, and the methods of \<open>ParticipantRemoteTransport\<close>.\<close>

type_synonym 's resume_store = "'s \<Rightarrow> u8 list \<Rightarrow> (SdkError, unit) result \<times> 's"

record ParticipantTransportFrame =
  ptf_frame :: ParticipantFrame
  ptf_provenance :: ParticipantResponseProvenance

record 't ParticipantRemoteTransport =
  send_participant :: "'t \<Rightarrow> ClientRequest \<Rightarrow> (SdkError, ParticipantResponseProvenance) result \<times> 't"
  receive_participant :: "'t \<Rightarrow> (SdkError, ParticipantTransportFrame) result \<times> 't"
  receive_participant_within :: "'t \<Rightarrow> nat \<Rightarrow> (SdkError, ParticipantTransportFrame option) result \<times> 't"
  reconnect_participant :: "'t \<Rightarrow> (SdkError, ParticipantResponseProvenance) result \<times> 't"

section \<open>Methods as state transformers\<close>

type_synonym ('w, 'a) sdk = "'w \<Rightarrow> (RemoteParticipantError, 'a) result \<times> 'w"

definition sdkReturn :: "'a \<Rightarrow> ('w, 'a) sdk" where
  "sdkReturn x w = (Ok x, w)"

definition sdkFail :: "RemoteParticipantError \<Rightarrow> ('w, 'a) sdk" where
  "sdkFail e w = (Err e, w)"

text \<open>The \<open>?\<close> operator: an error leaves the state as it is at that point.\<close>

definition sdkThen :: "('w, 'a) sdk \<Rightarrow> ('a \<Rightarrow> ('w, 'b) sdk) \<Rightarrow> ('w, 'b) sdk" where
  "sdkThen m f w = (case m w of (Inl e, w') \<Rightarrow> (Err e, w') | (Inr x, w') \<Rightarrow> f x w')"

definition modify :: "('w \<Rightarrow> 'w) \<Rightarrow> ('w, unit) sdk" where
  "modify f w = (Ok (), f w)"

definition brick :: "SdkError \<Rightarrow> ('s, 'z) RemoteParticipantState_scheme
    \<Rightarrow> RemoteParticipantError \<times> ('s, 'z) RemoteParticipantState_scheme" where
  "brick error state = (Storage error, state\<lparr>rps_unavailable := Some error\<rparr>)"

definition take_aggregate :: "(('s, 'z) RemoteParticipantState_scheme, ClientParticipantAggregate) sdk" where
  "take_aggregate state =
    (case rps_aggregate state of
       Some aggregate \<Rightarrow> (Ok aggregate, state\<lparr>rps_aggregate := None\<rparr>)
     | None \<Rightarrow> (Err (StateUnavailable (rps_unavailable state)), state))"

text \<open>\<open>state.aggregate = Some(aggregate)\<close>.\<close>

definition seat :: "ClientParticipantAggregate \<Rightarrow> (('s, 'z) RemoteParticipantState_scheme, unit) sdk" where
  "seat aggregate = modify (\<lambda>state. state\<lparr>rps_aggregate := Some aggregate\<rparr>)"

text \<open>\<open>state.store.persist(bytes)\<close> with the failure bricking the handle.\<close>

definition persist_bytes ::
  "'s resume_store \<Rightarrow> u8 list \<Rightarrow> (('s, 'z) RemoteParticipantState_scheme, unit) sdk" where
  "persist_bytes store bytes state =
    (let (result, s) = store (rps_store state) bytes; state = state\<lparr>rps_store := s\<rparr> in
     case result of
       Inr _ \<Rightarrow> (Ok (), state)
     | Inl error \<Rightarrow> (let (e, state) = brick error state in (Err e, state)))"

definition persist :: "'s resume_store \<Rightarrow> 's \<Rightarrow> ClientParticipantAggregate \<Rightarrow> (RemoteParticipantError, unit) result \<times> 's" where
  "persist store s aggregate =
    (case resume_record aggregate of
       Inl e \<Rightarrow> (Err (ResumeEncode e), s)
     | Inr record \<Rightarrow>
         (case store s (crr_canonical record) of
            (Inr _, s) \<Rightarrow> (Ok (), s)
          | (Inl e, s) \<Rightarrow> (Err (Storage e), s)))"

definition persist_retaining ::
  "'s resume_store \<Rightarrow> ClientParticipantAggregate
    \<Rightarrow> (('s, 'z) RemoteParticipantState_scheme, ClientParticipantAggregate) sdk" where
  "persist_retaining store aggregate =
    (case resume_record aggregate of
       Inr record \<Rightarrow>
         sdkThen (persist_bytes store (crr_canonical record)) (\<lambda>_. sdkReturn aggregate)
     | Inl error \<Rightarrow> sdkThen (seat aggregate) (\<lambda>_. sdkFail (ResumeEncode error)))"

text \<open>\<open>persist_retaining\<close> followed by the re-seat, the tail of most methods.\<close>

definition persist_and_seat ::
  "'s resume_store \<Rightarrow> ClientParticipantAggregate \<Rightarrow> (('s, 'z) RemoteParticipantState_scheme, unit) sdk" where
  "persist_and_seat store aggregate = sdkThen (persist_retaining store aggregate) seat"

definition checkpoint_state :: "'s resume_store \<Rightarrow> (('s, 'z) RemoteParticipantState_scheme, unit) sdk" where
  "checkpoint_state store = sdkThen take_aggregate (persist_and_seat store)"

section \<open>Construction (participant.rs)\<close>

definition from_aggregate ::
  "'t \<Rightarrow> 's resume_store \<Rightarrow> 's \<Rightarrow> ClientParticipantAggregate
    \<Rightarrow> (RemoteParticipantError, ('s, 't) RemoteParticipantHandle) result \<times> 's" where
  "from_aggregate transport store s aggregate =
    (case persist store s aggregate of
       (Inl e, s) \<Rightarrow> (Err e, s)
     | (Inr _, s) \<Rightarrow>
         (Ok \<lparr>rps_aggregate = Some aggregate, rps_correlation = None, rps_reconnect_attempt = None,
              rps_store = s, rps_unavailable = None, rph_transport = transport\<rparr>, s))"

definition handle_new ::
  "'t \<Rightarrow> 's resume_store \<Rightarrow> 's \<Rightarrow> (RemoteParticipantError, ('s, 't) RemoteParticipantHandle) result \<times> 's" where
  "handle_new transport store s = from_aggregate transport store s ClientParticipantAggregate_new"

definition handle_restore ::
  "'t \<Rightarrow> 's resume_store \<Rightarrow> 's \<Rightarrow> u8 list
    \<Rightarrow> (RemoteParticipantError, ('s, 't) RemoteParticipantHandle) result \<times> 's" where
  "handle_restore transport store s canonical_lpcr =
    (case decode_canonical canonical_lpcr of
       Inl e \<Rightarrow> (Err (ResumeDecode e), s)
     | Inr record \<Rightarrow>
         (case record_restore record of
            Inl e \<Rightarrow> (Err (ResumeRestore e), s)
          | Inr aggregate \<Rightarrow> from_aggregate transport store s aggregate))"

section \<open>Recording and sending (participant.rs)\<close>

definition handle_record_operation ::
  "'s resume_store \<Rightarrow> ClientRequest \<Rightarrow> (('s, 'z) RemoteParticipantState_scheme, RemoteOperationRecordOutcome) sdk" where
  "handle_record_operation store request =
    sdkThen take_aggregate (\<lambda>aggregate.
    case record_operation aggregate request of
      ClientOperationRecordDecision.Pending pending \<Rightarrow>
        (let commit = pending_commit pending in
         case commit_resume_record commit of
           Inl e \<Rightarrow> sdkFail (ResumeEncode e)
         | Inr record \<Rightarrow>
             sdkThen (persist_bytes store (crr_canonical record)) (\<lambda>_.
             let (aggregate, operation) = commit_into_parts commit in
             sdkThen (seat aggregate) (\<lambda>_.
             sdkReturn (RemoteOperationRecordOutcome.Recorded
               \<lparr>rpo_operation = operation, rpo_durability = OperationDurability.WriteAhead\<rparr>))))
    | ClientOperationRecordDecision.Continuous continuous \<Rightarrow>
        sdkThen (seat (cco_aggregate continuous)) (\<lambda>_.
        sdkReturn (RemoteOperationRecordOutcome.Continuous
          \<lparr>rpo_operation = cco_operation continuous, rpo_durability = OperationDurability.Continuous\<rparr>))
    | ClientOperationRecordDecision.Refused refusal \<Rightarrow>
        sdkThen (seat (orr_aggregate refusal)) (\<lambda>_.
        sdkReturn (RemoteOperationRecordOutcome.Refused (orr_request refusal) (orr_reason refusal))))"

text \<open>\<open>record_operation_transport_fate\<close> returns no \<open>Result\<close>: it always seats an aggregate.\<close>

definition record_operation_transport_fate ::
  "ClientParticipantAggregate \<Rightarrow> ClientResponseCorrelation \<Rightarrow> ('s, 'z) RemoteParticipantState_scheme
    \<Rightarrow> RemoteOperationTransportFate \<times> ('s, 'z) RemoteParticipantState_scheme" where
  "record_operation_transport_fate aggregate correlation state =
    (case record_expected_operation_fate aggregate correlation ExpectedOperationTransportFate.ResponseUnavailable of
       ExpectedOperationFateDecision.Recorded aggregate request _ \<Rightarrow>
         (RemoteOperationTransportFate.Recorded request, state\<lparr>rps_aggregate := Some aggregate\<rparr>)
     | ExpectedOperationFateDecision.Refused aggregate correlation _ reason \<Rightarrow>
         (if reason = DetachUsesReplayFate
          then case transport_fate aggregate correlation DetachTransportFate.ResponseUnavailable of
              DetachTransportFateDecision.Parked aggregate \<Rightarrow>
                (RemoteOperationTransportFate.DetachParked, state\<lparr>rps_aggregate := Some aggregate\<rparr>)
            | DetachTransportFateDecision.Refused refusal \<Rightarrow>
                (RemoteOperationTransportFate.Refused DetachUsesReplayFate,
                 state\<lparr>rps_aggregate := Some (drf_aggregate refusal),
                   rps_correlation := Some (fst (drf_input refusal))\<rparr>)
          else
            (RemoteOperationTransportFate.Refused reason,
             state\<lparr>rps_aggregate := Some aggregate, rps_correlation := Some correlation\<rparr>)))"

definition permit_outcome ::
  "ReconnectPermitDecision \<Rightarrow> ClientParticipantAggregate \<times> RemoteReconnectPermitOutcome" where
  "permit_outcome decision =
    (case decision of
       ReconnectPermitDecision.Permitted aggregate permit result \<Rightarrow>
         (aggregate, RemoteReconnectPermitOutcome.Permitted \<lparr>rrp_permit = permit\<rparr> result)
     | ReconnectPermitDecision.Refused refusal \<Rightarrow>
         (rpr_aggregate refusal, RemoteReconnectPermitOutcome.Refused (rpr_reason refusal) (rpr_result refusal)))"

definition record_connection_fate ::
  "'s resume_store \<Rightarrow> (('s, 'z) RemoteParticipantState_scheme, RemoteReconnectPermitOutcome) sdk" where
  "record_connection_fate store =
    sdkThen take_aggregate (\<lambda>aggregate.
    let (aggregate, outcome) = permit_outcome (record_transport_fate aggregate EstablishedConnectionTransportFate.Lost) in
    sdkThen (persist_and_seat store aggregate) (\<lambda>_.
    sdkReturn outcome))"

text \<open>\<open>self.transport.send_participant\<close> on the handle.\<close>

definition transport_send ::
  "'t ParticipantRemoteTransport \<Rightarrow> ClientRequest
    \<Rightarrow> (('s, 't) RemoteParticipantHandle, (SdkError, ParticipantResponseProvenance) result) sdk" where
  "transport_send transport request h =
    (let (result, t) = send_participant transport (rph_transport h) request
     in (Ok result, h\<lparr>rph_transport := t\<rparr>))"

definition handle_send_operation ::
  "'s resume_store \<Rightarrow> 't ParticipantRemoteTransport \<Rightarrow> RemoteParticipantOperation
    \<Rightarrow> (('s, 't) RemoteParticipantHandle, RemoteParticipantSendOutcome) sdk" where
  "handle_send_operation store transport operation =
    sdkThen take_aggregate (\<lambda>aggregate.
    let write_ahead = (rpo_durability operation = OperationDurability.WriteAhead) in
    sdkThen (if write_ahead then persist_retaining store aggregate else sdkReturn aggregate) (\<lambda>aggregate.
    let (request, correlation) = operation_into_request (rpo_operation operation) in
    sdkThen (transport_send transport request) (\<lambda>result.
    case result of
      Inr provenance \<Rightarrow>
        sdkThen (modify (\<lambda>h. if write_ahead then h\<lparr>rps_correlation := Some correlation\<rparr> else h)) (\<lambda>_.
        sdkThen (seat aggregate) (\<lambda>_.
        sdkReturn (RemoteParticipantSendOutcome.Sent provenance)))
    | Inl error \<Rightarrow>
        (\<lambda>h. let (operation_fate, h) =
               (if write_ahead then record_operation_transport_fate aggregate correlation h
                else (RemoteOperationTransportFate.NotOutstanding, h\<lparr>rps_aggregate := Some aggregate\<rparr>)) in
         sdkThen (record_connection_fate store) (\<lambda>reconnect.
         sdkReturn (RemoteParticipantSendOutcome.TransportLost error operation_fate reconnect)) h))))"

section \<open>Receiving (participant.rs)\<close>

definition apply_inbound ::
  "'s resume_store \<Rightarrow> ServerValue \<Rightarrow> ParticipantResponseProvenance
    \<Rightarrow> (('s, 'z) RemoteParticipantState_scheme, RemoteParticipantInbound) sdk" where
  "apply_inbound store x provenance =
    sdkThen take_aggregate (\<lambda>aggregate state.
    case rps_correlation state of
      Some correlation \<Rightarrow>
        (let state = state\<lparr>rps_correlation := None\<rparr> in
         case decide_correlated_inbound aggregate x correlation of
           ClientCorrelatedInboundDecision.Applied applied \<Rightarrow>
             sdkThen (persist_and_seat store (cia_aggregate applied)) (\<lambda>_.
             sdkReturn (RemoteParticipantInbound.Applied (cia_value applied) provenance)) state
         | ClientCorrelatedInboundDecision.Refused refusal \<Rightarrow>
             (Ok (RemoteParticipantInbound.Refused (ccr_value refusal) (ccr_reason refusal) provenance),
              state\<lparr>rps_aggregate := Some (ccr_aggregate refusal),
                rps_correlation := Some (ccr_correlation refusal)\<rparr>))
    | None \<Rightarrow>
        (case decide_inbound aggregate x of
           ClientInboundDecision.Applied applied \<Rightarrow>
             sdkThen (persist_and_seat store (cia_aggregate applied)) (\<lambda>_.
             sdkReturn (RemoteParticipantInbound.Applied (cia_value applied) provenance)) state
         | ClientInboundDecision.Refused refusal \<Rightarrow>
             (Ok (RemoteParticipantInbound.Refused (cir_value refusal) (cir_reason refusal) provenance),
              state\<lparr>rps_aggregate := Some (cir_aggregate refusal)\<rparr>)))"

definition classify_inbound ::
  "'s resume_store \<Rightarrow> ParticipantTransportFrame
    \<Rightarrow> (('s, 'z) RemoteParticipantState_scheme, RemoteParticipantInbound) sdk" where
  "classify_inbound store frame =
    (case ptf_frame frame of
       ServerPushFrame x \<Rightarrow> sdkReturn (RemoteParticipantInbound.Push x (ptf_provenance frame))
     | ClientRequestFrame _ \<Rightarrow> sdkFail InvalidInboundDirection
     | ServerValueFrame x \<Rightarrow> apply_inbound store x (ptf_provenance frame))"

definition handle_receive ::
  "'s resume_store \<Rightarrow> 't ParticipantRemoteTransport
    \<Rightarrow> (('s, 't) RemoteParticipantHandle, RemoteParticipantInbound) sdk" where
  "handle_receive store transport h =
    (let (result, t) = receive_participant transport (rph_transport h); h = h\<lparr>rph_transport := t\<rparr> in
     case result of
       Inl e \<Rightarrow> (Err (Transport e), h)
     | Inr frame \<Rightarrow> classify_inbound store frame h)"

definition handle_receive_within ::
  "'s resume_store \<Rightarrow> 't ParticipantRemoteTransport \<Rightarrow> nat
    \<Rightarrow> (('s, 't) RemoteParticipantHandle, RemoteParticipantInbound option) sdk" where
  "handle_receive_within store transport budget h =
    (let (result, t) = receive_participant_within transport (rph_transport h) budget;
         h = h\<lparr>rph_transport := t\<rparr> in
     case result of
       Inl e \<Rightarrow> (Err (Transport e), h)
     | Inr None \<Rightarrow> (Ok None, h)
     | Inr (Some frame) \<Rightarrow> sdkThen (classify_inbound store frame) (\<lambda>x. sdkReturn (Some x)) h)"

text \<open>\<open>PARTICIPANT_PUMP_WINDOW\<close> is the five-second read window, here in nanoseconds.\<close>

definition PARTICIPANT_PUMP_WINDOW :: nat where
  "PARTICIPANT_PUMP_WINDOW = 5000000000"

definition handle_try_receive ::
  "'s resume_store \<Rightarrow> 't ParticipantRemoteTransport
    \<Rightarrow> (('s, 't) RemoteParticipantHandle, RemoteParticipantInbound option) sdk" where
  "handle_try_receive store transport = handle_receive_within store transport PARTICIPANT_PUMP_WINDOW"

section \<open>Recovery outcomes (recovery.rs)\<close>

datatype (plugins only: code size) RemoteExpectedOperationRecovery =
    Recovered RemoteParticipantOperation
  | NotAvailable bool

datatype (plugins only: code size) RemoteLostOperationResolution =
    Recorded ClientRequest LostAuthorityKind
  | DetachParked ClientRequest LostAuthorityKind
  | Refused LostAuthorityResolutionRefusalReason

datatype (plugins only: code size) RemoteLostReconnectResolution =
    Recorded LostAuthorityKind
  | Refused LostAuthorityResolutionRefusalReason

datatype (plugins only: code size) RemoteReconnectPermitRecovery =
    Recovered RemoteReconnectPermit
  | NotAvailable ReconnectState

datatype (plugins only: code size) RemoteReconnectAttemptOutcome =
    Connected ParticipantResponseProvenance
  | Failed SdkError
  | Refused RemoteReconnectPermit ReconnectAttemptRefusalReason
  | FateRefused ReconnectAttemptFateRefusalReason "SdkError option" "ParticipantResponseProvenance option"

datatype (plugins only: code size) RemoteDetachReplayOutcome =
    Send RemoteParticipantSendOutcome
  | Refused DetachReplayRefusalReason

datatype (plugins only: code size) 'i RemoteReplayApplyOutcome =
    Applied
  | Refused 'i DetachReplayRefusalReason

datatype (plugins only: code size) LostCredentialAttachRefusalReason = NoPendingTestimony | NotAnIssuedCredentialAttach

datatype (plugins only: code size) CredentialAttachReissueReason =
    ReceiptExpired ReceiptExpiryReason
  | StaleOrUnknownReceipt

datatype (plugins only: code size) RemoteCredentialAttachRecovery =
    HealedFromReceipt ServerValue ParticipantResponseProvenance
  | CommittedFresh ServerValue ParticipantResponseProvenance
  | ReissueRequired "Generation option" Generation CredentialAttachReissueReason ServerValue
      ParticipantResponseProvenance
  | Answered ServerValue ParticipantResponseProvenance
  | AnswerRefused ServerValue ClientInboundRefusalReason ParticipantResponseProvenance
  | PushedBeforeAnswer ServerPush ParticipantResponseProvenance
  | NotPending LostCredentialAttachRefusalReason
  | RerecordRefused ClientRequest ClientOperationRecordRefusalReason
  | TransportLost SdkError RemoteOperationTransportFate RemoteReconnectPermitOutcome

record RemoteTransportLossOutcome =
  tlo_operation_fate :: RemoteOperationTransportFate
  tlo_reconnect :: RemoteReconnectPermitOutcome

datatype (plugins only: code size) PendingTestimonyVerdict = Nothing | IssuedCredentialAttach | OtherOperation

section \<open>Recovery methods (recovery.rs)\<close>

definition handle_recover_expected_operation ::
  "(('s, 'z) RemoteParticipantState_scheme, RemoteExpectedOperationRecovery) sdk" where
  "handle_recover_expected_operation =
    sdkThen take_aggregate (\<lambda>aggregate.
    case recover_expected_operation aggregate of
      RecoveredExpectedOperationDecision.Recovered aggregate operation \<Rightarrow>
        sdkThen (seat aggregate) (\<lambda>_.
        sdkReturn (RemoteExpectedOperationRecovery.Recovered
          \<lparr>rpo_operation = operation, rpo_durability = OperationDurability.WriteAhead\<rparr>))
    | RecoveredExpectedOperationDecision.NotAvailable aggregate already_issued \<Rightarrow>
        sdkThen (seat aggregate) (\<lambda>_.
        sdkReturn (RemoteExpectedOperationRecovery.NotAvailable already_issued)))"

definition handle_resolve_lost_operation_authority ::
  "'s resume_store \<Rightarrow> (('s, 'z) RemoteParticipantState_scheme, RemoteLostOperationResolution) sdk" where
  "handle_resolve_lost_operation_authority store =
    sdkThen take_aggregate (\<lambda>aggregate.
    let (aggregate, outcome) = (case resolve_lost_operation_authority aggregate of
        LostOperationAuthorityDecision.Recorded aggregate request testimony \<Rightarrow>
          (aggregate, RemoteLostOperationResolution.Recorded request (lat_kind testimony))
      | LostOperationAuthorityDecision.DetachParked aggregate request testimony \<Rightarrow>
          (aggregate, RemoteLostOperationResolution.DetachParked request (lat_kind testimony))
      | LostOperationAuthorityDecision.Refused aggregate reason \<Rightarrow>
          (aggregate, RemoteLostOperationResolution.Refused reason)) in
    sdkThen (seat aggregate) (\<lambda>_.
    sdkThen (checkpoint_state store) (\<lambda>_.
    sdkReturn outcome)))"

definition peek_lost_credential_attach ::
  "(('s, 'z) RemoteParticipantState_scheme, CredentialAttachRequest option) sdk" where
  "peek_lost_credential_attach =
    sdkThen take_aggregate (\<lambda>aggregate.
    let retained = lost_credential_attach aggregate in
    sdkThen (seat aggregate) (\<lambda>_.
    sdkReturn retained))"

definition lost_credential_attach_pending ::
  "(('s, 'z) RemoteParticipantState_scheme, PendingTestimonyVerdict) sdk" where
  "lost_credential_attach_pending =
    sdkThen take_aggregate (\<lambda>aggregate.
    let verdict =
      (if lost_credential_attach aggregate \<noteq> None then IssuedCredentialAttach
       else if lost_operation_testimony aggregate \<noteq> None then OtherOperation
       else Nothing) in
    sdkThen (seat aggregate) (\<lambda>_.
    sdkReturn verdict))"

definition classify_recovery_answer :: "RemoteParticipantInbound \<Rightarrow> RemoteCredentialAttachRecovery" where
  "classify_recovery_answer inbound =
    (case inbound of
       RemoteParticipantInbound.Refused x reason provenance \<Rightarrow> AnswerRefused x reason provenance
     | RemoteParticipantInbound.Push x provenance \<Rightarrow> PushedBeforeAnswer x provenance
     | RemoteParticipantInbound.Applied x provenance \<Rightarrow>
         (case x of
            ServerValue.Bound (ReceiptReplay.CredentialAttach _) \<Rightarrow> HealedFromReceipt x provenance
          | ServerValue.UnboundReceipt (ReceiptReplay.CredentialAttach _) \<Rightarrow> HealedFromReceipt x provenance
          | ServerValue.AttachBound _ \<Rightarrow> CommittedFresh x provenance
          | ServerValue.ReceiptExpired (ReceiptExpired.CredentialAttach _ _ _ _ _ result_generation current_generation reason) \<Rightarrow>
              ReissueRequired (Some result_generation) current_generation
                (CredentialAttachReissueReason.ReceiptExpired reason) x provenance
          | ServerValue.StaleOrUnknownReceipt stale \<Rightarrow>
              ReissueRequired None (sur_current_generation stale)
                CredentialAttachReissueReason.StaleOrUnknownReceipt x provenance
          | _ \<Rightarrow> Answered x provenance))"

definition recover_lost_credential_attach ::
  "'s resume_store \<Rightarrow> 't ParticipantRemoteTransport
    \<Rightarrow> (('s, 't) RemoteParticipantHandle, RemoteCredentialAttachRecovery) sdk" where
  "recover_lost_credential_attach store transport =
    sdkThen lost_credential_attach_pending (\<lambda>verdict.
    case verdict of
      Nothing \<Rightarrow> sdkReturn (NotPending LostCredentialAttachRefusalReason.NoPendingTestimony)
    | OtherOperation \<Rightarrow> sdkReturn (NotPending NotAnIssuedCredentialAttach)
    | IssuedCredentialAttach \<Rightarrow>
        sdkThen (handle_resolve_lost_operation_authority store) (\<lambda>resolution.
        case resolution of
          RemoteLostOperationResolution.DetachParked _ _ \<Rightarrow> sdkReturn (NotPending NotAnIssuedCredentialAttach)
        | RemoteLostOperationResolution.Refused _ \<Rightarrow> sdkReturn (NotPending NotAnIssuedCredentialAttach)
        | RemoteLostOperationResolution.Recorded request _ \<Rightarrow>
            sdkThen (handle_record_operation store request) (\<lambda>recorded.
            let probe = (\<lambda>operation.
              sdkThen (handle_send_operation store transport operation) (\<lambda>outcome.
              case outcome of
                RemoteParticipantSendOutcome.TransportLost error operation_fate reconnect \<Rightarrow>
                  sdkReturn (RemoteCredentialAttachRecovery.TransportLost error operation_fate reconnect)
              | RemoteParticipantSendOutcome.Sent _ \<Rightarrow>
                  sdkThen (handle_receive store transport) (\<lambda>inbound.
                  sdkReturn (classify_recovery_answer inbound)))) in
            case recorded of
              RemoteOperationRecordOutcome.Recorded operation \<Rightarrow> probe operation
            | RemoteOperationRecordOutcome.Continuous operation \<Rightarrow> probe operation
            | RemoteOperationRecordOutcome.Refused request reason \<Rightarrow> sdkReturn (RerecordRefused request reason))))"

definition handle_take_restored_operation_abandonment ::
  "'s resume_store
    \<Rightarrow> (('s, 'z) RemoteParticipantState_scheme, RestoredExpectedOperationAbandonment option) sdk" where
  "handle_take_restored_operation_abandonment store =
    sdkThen take_aggregate (\<lambda>aggregate.
    let (aggregate, abandonment) = take_restored_operation_abandonment aggregate in
    sdkThen (if abandonment \<noteq> None then persist_retaining store aggregate else sdkReturn aggregate) (\<lambda>aggregate.
    sdkThen (seat aggregate) (\<lambda>_.
    sdkReturn abandonment)))"

definition handle_record_transport_fate ::
  "'s resume_store \<Rightarrow> (('s, 'z) RemoteParticipantState_scheme, RemoteReconnectPermitOutcome) sdk" where
  "handle_record_transport_fate store = record_connection_fate store"

definition record_fresh_reconnect ::
  "'s resume_store \<Rightarrow> (ClientParticipantAggregate \<Rightarrow> ReconnectPermitDecision)
    \<Rightarrow> (('s, 'z) RemoteParticipantState_scheme, RemoteReconnectPermitOutcome) sdk" where
  "record_fresh_reconnect store decide =
    sdkThen take_aggregate (\<lambda>aggregate.
    let (aggregate, outcome) = permit_outcome (decide aggregate) in
    sdkThen (seat aggregate) (\<lambda>_.
    sdkThen (checkpoint_state store) (\<lambda>_.
    sdkReturn outcome)))"

definition handle_record_online_transition ::
  "'s resume_store \<Rightarrow> (('s, 'z) RemoteParticipantState_scheme, RemoteReconnectPermitOutcome) sdk" where
  "handle_record_online_transition store =
    record_fresh_reconnect store (\<lambda>aggregate. record_online_transition aggregate ProvedOnline)"

definition handle_record_explicit_reconnect ::
  "'s resume_store \<Rightarrow> (('s, 'z) RemoteParticipantState_scheme, RemoteReconnectPermitOutcome) sdk" where
  "handle_record_explicit_reconnect store =
    record_fresh_reconnect store (\<lambda>aggregate. record_explicit_reconnect aggregate ReconnectNow)"

definition handle_recover_reconnect_permit ::
  "(('s, 'z) RemoteParticipantState_scheme, RemoteReconnectPermitRecovery) sdk" where
  "handle_recover_reconnect_permit =
    sdkThen take_aggregate (\<lambda>aggregate.
    case recover_reconnect_permit aggregate of
      RecoveredReconnectPermitDecision.Recovered aggregate permit \<Rightarrow>
        sdkThen (seat aggregate) (\<lambda>_.
        sdkReturn (RemoteReconnectPermitRecovery.Recovered \<lparr>rrp_permit = permit\<rparr>))
    | RecoveredReconnectPermitDecision.NotAvailable aggregate state \<Rightarrow>
        sdkThen (seat aggregate) (\<lambda>_.
        sdkReturn (RemoteReconnectPermitRecovery.NotAvailable state)))"

definition handle_resolve_lost_reconnect_authority ::
  "'s resume_store \<Rightarrow> (('s, 'z) RemoteParticipantState_scheme, RemoteLostReconnectResolution) sdk" where
  "handle_resolve_lost_reconnect_authority store =
    sdkThen take_aggregate (\<lambda>aggregate.
    let (aggregate, outcome) = (case resolve_lost_reconnect_authority aggregate of
        LostReconnectAuthorityDecision.Recorded aggregate testimony \<Rightarrow>
          (aggregate, RemoteLostReconnectResolution.Recorded (lat_kind testimony))
      | LostReconnectAuthorityDecision.Refused aggregate reason \<Rightarrow>
          (aggregate, RemoteLostReconnectResolution.Refused reason)) in
    sdkThen (seat aggregate) (\<lambda>_.
    sdkThen (checkpoint_state store) (\<lambda>_.
    sdkReturn outcome)))"

text \<open>\<open>reconnect\<close> before, and after, the connection attempt it makes without the lock.\<close>

definition reconnect_redeem ::
  "'s resume_store \<Rightarrow> RemoteReconnectPermit
    \<Rightarrow> (('s, 'z) RemoteParticipantState_scheme, RemoteReconnectAttemptOutcome + ReconnectInProgressAttempt) sdk" where
  "reconnect_redeem store permit =
    sdkThen take_aggregate (\<lambda>aggregate.
    case redeem_attempt aggregate (rrp_permit permit) of
      ReconnectAttemptDecision.Started aggregate attempt \<Rightarrow>
        sdkThen (persist_and_seat store aggregate) (\<lambda>_.
        sdkReturn (Inr attempt))
    | ReconnectAttemptDecision.Refused aggregate permit reason \<Rightarrow>
        sdkThen (seat aggregate) (\<lambda>_.
        sdkReturn (Inl (RemoteReconnectAttemptOutcome.Refused \<lparr>rrp_permit = permit\<rparr> reason))))"

definition reconnect_settle ::
  "'s resume_store \<Rightarrow> ReconnectInProgressAttempt \<Rightarrow> (SdkError, ParticipantResponseProvenance) result
    \<Rightarrow> (('s, 'z) RemoteParticipantState_scheme, RemoteReconnectAttemptOutcome) sdk" where
  "reconnect_settle store attempt transport_result =
    (let fate = (if is_ok transport_result then ReconnectAttemptFate.Connected else ReconnectAttemptFate.Failed) in
     sdkThen take_aggregate (\<lambda>aggregate.
     case record_attempt_fate aggregate attempt fate of
       ReconnectAttemptFateDecision.Recorded aggregate \<Rightarrow>
         sdkThen (persist_and_seat store aggregate) (\<lambda>_.
         sdkReturn (case transport_result of
             Inr provenance \<Rightarrow> RemoteReconnectAttemptOutcome.Connected provenance
           | Inl error \<Rightarrow> RemoteReconnectAttemptOutcome.Failed error))
     | ReconnectAttemptFateDecision.Refused aggregate attempt _ reason \<Rightarrow>
         sdkThen (seat aggregate) (\<lambda>_.
         sdkThen (modify (\<lambda>state. state\<lparr>rps_reconnect_attempt := Some attempt\<rparr>)) (\<lambda>_.
         sdkReturn (FateRefused reason
           (case transport_result of Inl error \<Rightarrow> Some error | Inr _ \<Rightarrow> None)
           (case transport_result of Inl _ \<Rightarrow> None | Inr provenance \<Rightarrow> Some provenance))))))"

definition handle_reconnect ::
  "'s resume_store \<Rightarrow> 't ParticipantRemoteTransport \<Rightarrow> RemoteReconnectPermit
    \<Rightarrow> (('s, 't) RemoteParticipantHandle, RemoteReconnectAttemptOutcome) sdk" where
  "handle_reconnect store transport permit =
    sdkThen (reconnect_redeem store permit) (\<lambda>redeemed.
    case redeemed of
      Inl outcome \<Rightarrow> sdkReturn outcome
    | Inr attempt \<Rightarrow>
        (\<lambda>h. let (result, t) = reconnect_participant transport (rph_transport h)
             in reconnect_settle store attempt result (h\<lparr>rph_transport := t\<rparr>)))"

definition record_established_transport_loss ::
  "'s resume_store \<Rightarrow> (('s, 'z) RemoteParticipantState_scheme, RemoteTransportLossOutcome) sdk" where
  "record_established_transport_loss store state =
    (let operation = (case rps_correlation state of
         Some correlation \<Rightarrow>
           sdkThen take_aggregate (\<lambda>aggregate state.
             let (fate, state) = record_operation_transport_fate aggregate correlation state in (Ok fate, state))
             (state\<lparr>rps_correlation := None\<rparr>)
       | None \<Rightarrow> (Ok RemoteOperationTransportFate.NotOutstanding, state)) in
     sdkThen (\<lambda>_. operation) (\<lambda>operation_fate.
     sdkThen (record_connection_fate store) (\<lambda>reconnect.
     sdkReturn \<lparr>tlo_operation_fate = operation_fate, tlo_reconnect = reconnect\<rparr>)) state)"

text \<open>The replayed request, rebuilt from its envelope.\<close>

definition replayed_request :: "DetachEnvelope \<Rightarrow> ClientRequest" where
  "replayed_request request = ClientRequest.Detach
    \<lparr>dr_conversation_id = de_conversation_id request, dr_participant_id = de_participant_id request,
     dr_capability_generation = de_capability_generation request,
     dr_detach_attempt_token = de_detach_attempt_token request\<rparr>"

definition replay_detach ::
  "'s resume_store \<Rightarrow> 't ParticipantRemoteTransport
    \<Rightarrow> (('s, 't) RemoteParticipantHandle, RemoteDetachReplayOutcome) sdk" where
  "replay_detach store transport =
    sdkThen take_aggregate (\<lambda>aggregate.
    case transport_attempt_started aggregate of
      DetachTransportAttemptDecision.Refused refusal \<Rightarrow>
        sdkThen (seat (drf_aggregate refusal)) (\<lambda>_.
        sdkReturn (RemoteDetachReplayOutcome.Refused (drf_reason refusal)))
    | DetachTransportAttemptDecision.Started aggregate attempt \<Rightarrow>
        sdkThen (persist_retaining store aggregate) (\<lambda>aggregate.
        let (request, correlation) = attempt_into_request attempt in
        sdkThen (transport_send transport (replayed_request request)) (\<lambda>result.
        case result of
          Inr provenance \<Rightarrow>
            sdkThen (seat aggregate) (\<lambda>_.
            sdkThen (modify (\<lambda>h. h\<lparr>rps_correlation := Some correlation\<rparr>)) (\<lambda>_.
            sdkReturn (Send (RemoteParticipantSendOutcome.Sent provenance))))
        | Inl error \<Rightarrow>
            (\<lambda>h. let (operation_fate, h) =
                 (case transport_fate aggregate correlation DetachTransportFate.ResponseUnavailable of
                    DetachTransportFateDecision.Parked aggregate \<Rightarrow>
                      (RemoteOperationTransportFate.DetachParked, h\<lparr>rps_aggregate := Some aggregate\<rparr>)
                  | DetachTransportFateDecision.Refused refusal \<Rightarrow>
                      (RemoteOperationTransportFate.Refused DetachUsesReplayFate,
                       h\<lparr>rps_aggregate := Some (drf_aggregate refusal),
                         rps_correlation := Some (fst (drf_input refusal))\<rparr>)) in
             sdkThen (record_connection_fate store) (\<lambda>reconnect.
             sdkReturn (Send (RemoteParticipantSendOutcome.TransportLost error operation_fate reconnect))) h))))"

section \<open>Explicit replay inputs (replay\_apply.rs)\<close>

definition apply_replay_input ::
  "'s resume_store \<Rightarrow> 'i \<Rightarrow> (ClientParticipantAggregate \<Rightarrow> 'i \<Rightarrow> ClientResponseCorrelation
      \<Rightarrow> ClientParticipantAggregate \<times> ('i \<times> ClientResponseCorrelation \<times> DetachReplayRefusalReason) option)
    \<Rightarrow> (('s, 'z) RemoteParticipantState_scheme, 'i RemoteReplayApplyOutcome) sdk" where
  "apply_replay_input store input decide state =
    (case rps_correlation state of
       None \<Rightarrow> (Err ResponseAuthorityUnavailable, state)
     | Some correlation \<Rightarrow>
         sdkThen take_aggregate (\<lambda>aggregate state.
           case decide aggregate input correlation of
             (aggregate, Some (input, correlation, reason)) \<Rightarrow>
               (Ok (RemoteReplayApplyOutcome.Refused input reason),
                state\<lparr>rps_aggregate := Some aggregate, rps_correlation := Some correlation\<rparr>)
           | (aggregate, None) \<Rightarrow>
               (let (result, s) = persist store (rps_store state) aggregate; state = state\<lparr>rps_store := s\<rparr> in
                case result of
                  Inr _ \<Rightarrow> (Ok RemoteReplayApplyOutcome.Applied, state\<lparr>rps_aggregate := Some aggregate\<rparr>)
                | Inl (Storage error) \<Rightarrow> (let (e, state) = brick error state in (Err e, state))
                | Inl other \<Rightarrow> (Err other, state)))
           (state\<lparr>rps_correlation := None\<rparr>))"

definition handle_apply_attach ::
  "'s resume_store \<Rightarrow> AttachBound \<Rightarrow> (('s, 'z) RemoteParticipantState_scheme, AttachBound RemoteReplayApplyOutcome) sdk" where
  "handle_apply_attach store attach = apply_replay_input store attach (\<lambda>aggregate input correlation.
    case apply_attach aggregate input correlation of
      ApplyAttachDecision.Superseded aggregate \<Rightarrow> (aggregate, None)
    | ApplyAttachDecision.Refused refusal \<Rightarrow>
        (drf_aggregate refusal, Some (fst (drf_input refusal), snd (drf_input refusal), drf_reason refusal)))"

definition handle_apply_leave_durable ::
  "'s resume_store \<Rightarrow> LeaveCommitted
    \<Rightarrow> (('s, 'z) RemoteParticipantState_scheme, LeaveCommitted RemoteReplayApplyOutcome) sdk" where
  "handle_apply_leave_durable store leave = apply_replay_input store leave (\<lambda>aggregate input correlation.
    case apply_leave_durable aggregate input correlation of
      ApplyLeaveDecision.Superseded aggregate \<Rightarrow> (aggregate, None)
    | ApplyLeaveDecision.Refused refusal \<Rightarrow>
        (drf_aggregate refusal, Some (fst (drf_input refusal), snd (drf_input refusal), drf_reason refusal)))"

definition handle_apply_detach_outcome ::
  "'s resume_store \<Rightarrow> DetachReplayOutcome
    \<Rightarrow> (('s, 'z) RemoteParticipantState_scheme, DetachReplayOutcome RemoteReplayApplyOutcome) sdk" where
  "handle_apply_detach_outcome store outcome = apply_replay_input store outcome (\<lambda>aggregate input correlation.
    case apply_detach_outcome aggregate input correlation of
      ApplyDetachOutcomeDecision.Terminal aggregate \<Rightarrow> (aggregate, None)
    | ApplyDetachOutcomeDecision.Refused refusal \<Rightarrow>
        (drf_aggregate refusal, Some (fst (drf_input refusal), snd (drf_input refusal), drf_reason refusal)))"

end
