(* ===== verification/Sdk_History.thy ===== *)
theory Sdk_History
  imports Sdk_Participant
begin

text \<open>
  Histories of remote participant handles: the invariant of the handle, a triple for every method, and
  the step relation of a process that calls the methods in any order, keeps or drops what they return,
  crashes, and restores from its store. What the store promises is the hypothesis \<open>durable_store\<close>, what
  the decoder behind the transport promises is \<open>typed_transport\<close>.
\<close>

section \<open>What the parameters promise\<close>

text \<open>\<open>persist\<close> replaces the stored bytes before it returns success; after a failure either the old or the
  new bytes are there (\<open>content\<close> is what a later open would read).\<close>

definition durable_store :: "'s resume_store \<Rightarrow> ('s \<Rightarrow> u8 list option) \<Rightarrow> bool" where
  "durable_store store content \<longleftrightarrow> (\<forall>s bytes r s'. store s bytes = (r, s') \<longrightarrow>
    (is_ok r \<longrightarrow> content s' = Some bytes) \<and> (\<not> is_ok r \<longrightarrow> content s' = content s \<or> content s' = Some bytes))"

text \<open>Received frames are values of the wire types, as the participant decoder produces them.\<close>

definition typed_transport :: "'t ParticipantRemoteTransport \<Rightarrow> bool" where
  "typed_transport transport \<longleftrightarrow>
    (\<forall>t f t'. receive_participant transport t = (Inr f, t') \<longrightarrow> frame_ok (ptf_frame f))
    \<and> (\<forall>t n f t'. receive_participant_within transport t n = (Inr (Some f), t') \<longrightarrow> frame_ok (ptf_frame f))"

section \<open>Triples\<close>

text \<open>\<open>triple P m Q E\<close>: from \<open>P\<close>, a success of \<open>m\<close> establishes \<open>Q\<close> and an error leaves \<open>E\<close>.\<close>

definition triple :: "('w \<Rightarrow> bool) \<Rightarrow> ('w, 'a) sdk \<Rightarrow> ('a \<Rightarrow> 'w \<Rightarrow> bool) \<Rightarrow> ('w \<Rightarrow> bool) \<Rightarrow> bool" where
  "triple P m Q E \<longleftrightarrow> (\<forall>w. P w \<longrightarrow> (case m w of (Inl _, w') \<Rightarrow> E w' | (Inr x, w') \<Rightarrow> Q x w'))"

named_theorems triples \<open>one triple per state transformer\<close>

lemma tripleI: "(\<And>w. P w \<Longrightarrow> case m w of (Inl e, w') \<Rightarrow> E w' | (Inr x, w') \<Rightarrow> Q x w') \<Longrightarrow> triple P m Q E"
  by (simp add: triple_def)

lemma tripleD: "triple P m Q E \<Longrightarrow> P w \<Longrightarrow> case m w of (Inl e, w') \<Rightarrow> E w' | (Inr x, w') \<Rightarrow> Q x w'"
  by (simp add: triple_def)

lemma triple_then: "triple P m R E \<Longrightarrow> (\<And>x. triple (R x) (f x) Q E) \<Longrightarrow> triple P (sdkThen m f) Q E"
  by (fastforce simp: triple_def sdkThen_def split: prod.splits sum.splits)

lemma triple_return: "(\<And>w. P w \<Longrightarrow> Q x w) \<Longrightarrow> triple P (sdkReturn x) Q E"
  by (simp add: triple_def sdkReturn_def)

lemma triple_fail: "(\<And>w. P w \<Longrightarrow> E w) \<Longrightarrow> triple P (sdkFail e) Q E"
  by (simp add: triple_def sdkFail_def)

lemma triple_modify: "(\<And>w. P w \<Longrightarrow> Q () (f w)) \<Longrightarrow> triple P (modify f) Q E"
  by (simp add: triple_def modify_def)

lemma triple_weaken:
  "triple P' m Q' E' \<Longrightarrow> (\<And>w. P w \<Longrightarrow> P' w) \<Longrightarrow> (\<And>x w. Q' x w \<Longrightarrow> Q x w) \<Longrightarrow> (\<And>w. E' w \<Longrightarrow> E w)
    \<Longrightarrow> triple P m Q E"
  by (fastforce simp: triple_def split: prod.splits sum.splits)

lemma triple_assume: "(\<And>w. P w \<Longrightarrow> triple P m Q E) \<Longrightarrow> triple P m Q E"
  by (auto simp: triple_def)

section \<open>The invariant of a handle\<close>

definition slot_handles :: "ClientResponseCorrelation option \<Rightarrow> client_handle multiset" where
  "slot_handles slot = (case slot of None \<Rightarrow> {#} | Some c \<Rightarrow> {#CorrelationHandle c#})"

definition held ::
  "('s, 'z) RemoteParticipantState_scheme \<Rightarrow> RemoteParticipantOperation multiset \<Rightarrow> client_handle multiset" where
  "held w ops = image_mset (\<lambda>op. OperationHandle (rpo_operation op)) ops + slot_handles (rps_correlation w)"

definition operations_typed :: "RemoteParticipantOperation multiset \<Rightarrow> bool" where
  "operations_typed ops \<longleftrightarrow> (\<forall>op \<in># ops. rpo_durability op = OperationDurability.WriteAhead
    \<longleftrightarrow> epo_authorization (rpo_operation op) \<noteq> 0)"

text \<open>What holds whether or not the aggregate is seated.\<close>

definition backdrop ::
  "('s \<Rightarrow> u8 list option) \<Rightarrow> RemoteParticipantOperation multiset \<Rightarrow> ('s, 'z) RemoteParticipantState_scheme \<Rightarrow> bool" where
  "backdrop content ops w \<longleftrightarrow> operations_typed ops \<and> (\<forall>c. rps_correlation w = Some c \<longrightarrow> crc_authorization c \<noteq> 0)
    \<and> rps_reconnect_attempt w = None \<and> content (rps_store w) \<noteq> None
    \<and> stored_ok (map_option (\<lambda>bytes. \<lparr>crr_canonical = bytes\<rparr>) (content (rps_store w)))"

definition handle_inv ::
  "('s \<Rightarrow> u8 list option) \<Rightarrow> RemoteParticipantOperation multiset \<Rightarrow> RemoteReconnectPermit multiset
    \<Rightarrow> ReconnectInProgressAttempt multiset \<Rightarrow> ('s, 'z) RemoteParticipantState_scheme \<Rightarrow> bool" where
  "handle_inv content ops ps ts w \<longleftrightarrow> backdrop content ops w
    \<and> (\<forall>a. rps_aggregate w = Some a \<longrightarrow> running_ok a (held w ops) (image_mset rrp_permit ps) ts)"

text \<open>In the middle of a method: the aggregate taken out, and the handles \<open>hs\<close> in local variables.\<close>

definition opened ::
  "('s \<Rightarrow> u8 list option) \<Rightarrow> RemoteParticipantOperation multiset \<Rightarrow> RemoteReconnectPermit multiset
    \<Rightarrow> ReconnectInProgressAttempt multiset \<Rightarrow> client_handle multiset \<Rightarrow> ClientParticipantAggregate
    \<Rightarrow> ('s, 'z) RemoteParticipantState_scheme \<Rightarrow> bool" where
  "opened content ops ps ts hs a w \<longleftrightarrow> backdrop content ops w \<and> rps_aggregate w = None
    \<and> running_ok a (hs + held w ops) (image_mset rrp_permit ps) ts"

lemma running_drop_all:
  assumes "running_ok a (hs + ks) ps ts"
  shows "running_ok a ks ps ts"
  using assms by (induction hs) (auto dest: running_drop)

lemma opened_drop: "opened content ops ps ts hs a w \<Longrightarrow> opened content ops ps ts {#} a w"
  by (auto simp: opened_def dest: running_drop_all)

lemma opened_inv: "opened content ops ps ts hs a w \<Longrightarrow> handle_inv content ops ps ts w"
  by (simp add: opened_def handle_inv_def)

lemma take_aggregate_triple [triples]:
  "triple (handle_inv content ops ps ts) take_aggregate (opened content ops ps ts {#}) (handle_inv content ops ps ts)"
  by (rule tripleI)
    (auto simp: take_aggregate_def handle_inv_def opened_def backdrop_def held_def split: option.split)

lemma seat_triple [triples]:
  "triple (opened content ops ps ts hs a) (seat a) (\<lambda>_. handle_inv content ops ps ts) E"
  unfolding seat_def
  by (rule triple_modify)
    (auto simp: opened_def handle_inv_def backdrop_def held_def dest: running_drop_all)

lemma stored_ok_recorded:
  assumes "running_ok a hs ps ts" "resume_record a = Ok record"
  shows "stored_ok (Some record)"
  using assms by (auto simp: stored_ok_def running_ok_def)

lemma persist_bytes_triple:
  assumes "durable_store store content" "stored_ok (Some \<lparr>crr_canonical = bytes\<rparr>)"
  shows "triple (opened content ops ps ts hs a) (persist_bytes store bytes)
    (\<lambda>_ w. opened content ops ps ts hs a w \<and> content (rps_store w) = Some bytes) (handle_inv content ops ps ts)"
proof (rule tripleI)
  fix w assume w: "opened content ops ps ts hs a w"
  obtain r s where store: "store (rps_store w) bytes = (r, s)" by (cases "store (rps_store w) bytes")
  have s: "is_ok r \<Longrightarrow> content s = Some bytes"
    "\<not> is_ok r \<Longrightarrow> content s = content (rps_store w) \<or> content s = Some bytes"
    using assms(1) store unfolding durable_store_def by blast+
  show "case persist_bytes store bytes w of (Inl e, w') \<Rightarrow> handle_inv content ops ps ts w'
    | (Inr x, w') \<Rightarrow> opened content ops ps ts hs a w' \<and> content (rps_store w') = Some bytes"
    using w s assms(2) store
    by (cases r) (auto simp: persist_bytes_def brick_def opened_def handle_inv_def backdrop_def held_def is_ok_def)
qed

lemma persist_retaining_triple [triples]:
  assumes "durable_store store content"
  shows "triple (opened content ops ps ts hs a) (persist_retaining store a)
    (\<lambda>b w. b = a \<and> opened content ops ps ts hs a w
      \<and> (\<exists>record. resume_record a = Ok record \<and> content (rps_store w) = Some (crr_canonical record)))
    (handle_inv content ops ps ts)"
proof (cases "resume_record a")
  case (Inl error)
  have "triple (opened content ops ps ts hs a) (sdkThen (seat a) (\<lambda>_. sdkFail (ResumeEncode error)))
      Q (handle_inv content ops ps ts)" for Q :: "ClientParticipantAggregate \<Rightarrow> _"
    by (rule triple_then [OF seat_triple triple_fail])
  then show ?thesis by (simp add: persist_retaining_def Inl)
next
  case (Inr r)
  show ?thesis
  proof (rule triple_assume)
    fix w :: "('a, 'b) RemoteParticipantState_scheme"
    assume "opened content ops ps ts hs a w"
    then have "stored_ok (Some \<lparr>crr_canonical = crr_canonical r\<rparr>)"
      using stored_ok_recorded [OF _ Inr] by (cases r) (auto simp: opened_def)
    note stored = persist_bytes_triple [OF assms this]
    show ?thesis unfolding persist_retaining_def Inr sum.case
      by (rule triple_then [OF stored triple_return]) (use Inr in auto)
  qed
qed

lemma handle_inv_drop_permits: "handle_inv content ops (qs + ps) ts w \<Longrightarrow> handle_inv content ops ps ts w"
proof -
  have "running_ok a hs (qs + ps) ts \<Longrightarrow> running_ok a hs ps ts" for a hs qs ps
    by (induction qs) (auto dest: running_drop)
  then show "handle_inv content ops (qs + ps) ts w \<Longrightarrow> handle_inv content ops ps ts w"
    by (auto simp: handle_inv_def)
qed

lemma persist_and_seat_triple [triples]:
  assumes "durable_store store content"
  shows "triple (opened content ops ps ts hs a) (persist_and_seat store a)
    (\<lambda>_. handle_inv content ops ps ts) (handle_inv content ops ps ts)"
  unfolding persist_and_seat_def
  by (rule triple_then [OF persist_retaining_triple [OF assms]], rule triple_assume)
    (auto intro: triple_weaken [OF seat_triple])

lemma checkpoint_state_triple [triples]:
  assumes "durable_store store content"
  shows "triple (handle_inv content ops ps ts) (checkpoint_state store)
    (\<lambda>_. handle_inv content ops ps ts) (handle_inv content ops ps ts)"
  unfolding checkpoint_state_def by (rule triple_then [OF take_aggregate_triple persist_and_seat_triple [OF assms]])

section \<open>Reconnect events\<close>

fun outcome_permits :: "RemoteReconnectPermitOutcome \<Rightarrow> RemoteReconnectPermit multiset" where
  "outcome_permits (RemoteReconnectPermitOutcome.Permitted permit _) = {#permit#}"
| "outcome_permits (RemoteReconnectPermitOutcome.Refused _ _) = {#}"

text \<open>A refused event returns the aggregate; a permitted one adds its permit.\<close>

lemma permit_outcome_running:
  assumes "running_ok a hs (image_mset rrp_permit ps) ts" "permit_outcome (record_fresh_event a event) = (b, outcome)"
  shows "running_ok b hs (image_mset rrp_permit (outcome_permits outcome + ps)) ts"
proof (cases "record_fresh_event a event")
  case (Permitted c permit result)
  then show ?thesis using assms running_fresh_event [OF assms(1)] by (auto simp: permit_outcome_def)
next
  case (Refused refusal)
  then have "rpr_aggregate refusal = a"
    by (auto simp: record_fresh_event_def Let_def split: if_splits option.splits)
  then show ?thesis using assms Refused by (auto simp: permit_outcome_def)
qed

lemma fresh_event_opened:
  assumes "permit_outcome (record_fresh_event a event) = (b, outcome)" "opened content ops ps ts hs a w"
  shows "opened content ops (outcome_permits outcome + ps) ts hs b w"
  using assms permit_outcome_running by (auto simp: opened_def)

lemma record_connection_fate_triple [triples]:
  assumes "durable_store store content"
  shows "triple (handle_inv content ops ps ts) (record_connection_fate store)
    (\<lambda>outcome. handle_inv content ops (outcome_permits outcome + ps) ts) (handle_inv content ops ps ts)"
  unfolding record_connection_fate_def
proof (rule triple_then [OF take_aggregate_triple], goal_cases)
  case (1 a)
  obtain b outcome where out: "permit_outcome (record_transport_fate a EstablishedConnectionTransportFate.Lost) = (b, outcome)"
    by (cases "permit_outcome (record_transport_fate a EstablishedConnectionTransportFate.Lost)")
  have "triple (opened content ops ps ts {#} a) (persist_and_seat store b)
      (\<lambda>_. handle_inv content ops (outcome_permits outcome + ps) ts) (handle_inv content ops ps ts)"
    by (rule triple_weaken [OF persist_and_seat_triple [OF assms, of ops "outcome_permits outcome + ps" ts "{#}" b]])
      (auto intro: fresh_event_opened [OF out [unfolded record_transport_fate_def]] handle_inv_drop_permits)
  then show ?case unfolding out Let_def prod.case by (rule triple_then) (rule triple_return)
qed

lemma record_fresh_reconnect_triple:
  assumes "durable_store store content"
  shows "triple (handle_inv content ops ps ts) (record_fresh_reconnect store (\<lambda>a. record_fresh_event a event))
    (\<lambda>outcome. handle_inv content ops (outcome_permits outcome + ps) ts) (handle_inv content ops ps ts)"
  unfolding record_fresh_reconnect_def
proof (rule triple_then [OF take_aggregate_triple], goal_cases)
  case (1 a)
  obtain b outcome where out: "permit_outcome (record_fresh_event a event) = (b, outcome)"
    by (cases "permit_outcome (record_fresh_event a event)")
  let ?I = "handle_inv content ops (outcome_permits outcome + ps) ts"
  have "triple (opened content ops ps ts {#} a) (seat b) (\<lambda>_. ?I) (handle_inv content ops ps ts)"
    by (rule triple_weaken [OF seat_triple [of content ops "outcome_permits outcome + ps" ts "{#}" b
            "handle_inv content ops ps ts"]]) (auto intro: fresh_event_opened [OF out])
  moreover have "triple ?I (checkpoint_state store) (\<lambda>_. ?I) (handle_inv content ops ps ts)"
    by (rule triple_weaken [OF checkpoint_state_triple [OF assms, of ops "outcome_permits outcome + ps" ts]])
      (auto intro: handle_inv_drop_permits)
  ultimately show ?case
    unfolding out Let_def prod.case by (intro triple_then [OF _ triple_then [OF _ triple_return]]) auto
qed

section \<open>Operation fates\<close>

text \<open>A local correlation put back into its slot.\<close>

lemma opened_slot:
  assumes "opened content ops ps ts {#CorrelationHandle c#} a w" "crc_authorization c \<noteq> 0"
  shows "opened content ops ps ts {#} a (w\<lparr>rps_correlation := Some c\<rparr>)"
  using assms
  by (cases "rps_correlation w")
    (auto simp: opened_def backdrop_def held_def slot_handles_def add_mset_commute dest: running_drop(1))

lemma seated_slot_inv:
  assumes "opened content ops ps ts {#CorrelationHandle c#} a w" "crc_authorization c \<noteq> 0"
  shows "handle_inv content ops ps ts (w\<lparr>rps_aggregate := Some a, rps_correlation := Some c\<rparr>)"
  using opened_slot [OF assms] by (simp add: opened_def handle_inv_def backdrop_def held_def)

text \<open>With a local correlation the fate is recorded, parked, or the correlation goes back to its slot.\<close>

lemma operation_transport_fate_inv:
  assumes w: "opened content ops ps ts {#CorrelationHandle c#} a w" and c: "crc_authorization c \<noteq> 0"
    and fate: "record_operation_transport_fate a c w = (f, w')"
  shows "handle_inv content ops ps ts w'"
proof -
  have run: "running_ok a (add_mset (CorrelationHandle c) (held w ops)) (image_mset rrp_permit ps) ts"
    and rest: "backdrop content ops w" using w by (simp_all add: opened_def)
  note slot = seated_slot_inv [OF w c]
  show ?thesis
  proof (cases "record_expected_operation_fate a c ExpectedOperationTransportFate.ResponseUnavailable")
    case (Recorded b request g)
    then have "w' = w\<lparr>rps_aggregate := Some b\<rparr>" using fate by (simp add: record_operation_transport_fate_def)
    then show ?thesis using rest running_fate [OF run Recorded] by (simp add: handle_inv_def backdrop_def held_def)
  next
    case (Refused b d g reason)
    then have bd: "b = a" "d = c"
      by (auto simp: record_expected_operation_fate_def Let_def split: option.splits if_splits)
    show ?thesis
    proof (cases "transport_fate a c DetachTransportFate.ResponseUnavailable")
      case (Parked b)
      then show ?thesis using fate Refused bd slot rest running_replay_fate [OF run Parked]
        by (auto simp: record_operation_transport_fate_def handle_inv_def backdrop_def held_def split: if_splits)
    next
      case (Refused refusal)
      then have "drf_aggregate refusal = a" "drf_input refusal = (c, DetachTransportFate.ResponseUnavailable)"
        by (auto simp: transport_fate_def Let_def split: if_splits)
      then show ?thesis
        using fate Refused bd slot \<open>record_expected_operation_fate a c _ = _\<close>
        by (auto simp: record_operation_transport_fate_def split: if_splits)
    qed
  qed
qed

section \<open>Recording and sending\<close>

fun recorded_operations :: "RemoteOperationRecordOutcome \<Rightarrow> RemoteParticipantOperation multiset" where
  "recorded_operations (RemoteOperationRecordOutcome.Recorded operation) = {#operation#}"
| "recorded_operations (RemoteOperationRecordOutcome.Continuous operation) = {#operation#}"
| "recorded_operations (RemoteOperationRecordOutcome.Refused _ _) = {#}"

lemma held_add [simp]: "held w (add_mset op ops) = add_mset (OperationHandle (rpo_operation op)) (held w ops)"
  by (simp add: held_def)

lemma held_update [simp]:
  "held (w\<lparr>rps_aggregate := x\<rparr>) ops = held w ops" "held (w\<lparr>rps_store := s\<rparr>) ops = held w ops"
  "held (w\<lparr>rps_reconnect_attempt := t\<rparr>) ops = held w ops"
  by (simp_all add: held_def)

lemma operations_typed_add [simp]:
  "operations_typed (add_mset op ops) \<longleftrightarrow>
    (rpo_durability op = OperationDurability.WriteAhead \<longleftrightarrow> epo_authorization (rpo_operation op) \<noteq> 0) \<and> operations_typed ops"
  by (auto simp: operations_typed_def)

lemma opened_issue:
  assumes "opened content ops ps ts {#} a w" "cpa_expected a = Some e" "\<not> eo_issued e"
    and "rpo_operation op = \<lparr>epo_request = eo_request e, epo_authorization = eo_authorization e\<rparr>"
    and "rpo_durability op = OperationDurability.WriteAhead"
  shows "opened content (add_mset op ops) ps ts {#} (issue a) w"
proof -
  have "running_ok a (held w ops) (image_mset rrp_permit ps) ts" using assms(1) by (simp add: opened_def)
  from running_ok_issue [OF this assms(2,3), of "OperationHandle (rpo_operation op)"]
  show ?thesis using assms issued_authorization [of a e] by (auto simp: opened_def backdrop_def running_ok_def)
qed

lemma opened_acknowledgement:
  assumes "opened content ops ps ts {#} a w" "epo_authorization (rpo_operation op) = 0"
    and "rpo_durability op = OperationDurability.Continuous"
  shows "opened content (add_mset op ops) ps ts {#} a w"
  using assms running_acknowledgement by (auto simp: opened_def backdrop_def)

lemma opened_recorded:
  assumes "record_operation a request = ClientOperationRecordDecision.Pending p" "request_ok request"
    and "opened content ops ps ts {#} a w"
  shows "opened content ops ps ts {#} (por_successor p) w"
  using assms running_recorded by (auto simp: opened_def)

lemma seat_return_triple:
  assumes "\<And>w. P w \<Longrightarrow> opened content ops' ps ts hs b w" "\<And>w. handle_inv content ops' ps ts w \<Longrightarrow> Q x w"
  shows "triple P (sdkThen (seat b) (\<lambda>_. sdkReturn x)) Q E"
  by (rule triple_then [OF triple_weaken [OF seat_triple [of content ops' ps ts hs b E]] triple_return])
    (auto intro: assms)

lemma record_operation_refused_aggregate:
  "record_operation a request = ClientOperationRecordDecision.Refused refusal \<Longrightarrow> orr_aggregate refusal = a"
  by (auto simp: record_operation_def Let_def split: if_splits option.splits sum.splits)

lemma record_operation_continuous:
  "record_operation a request = ClientOperationRecordDecision.Continuous c
    \<Longrightarrow> cco_aggregate c = a \<and> epo_authorization (cco_operation c) = 0"
  by (auto simp: record_operation_def Let_def split: if_splits option.splits sum.splits)

lemma handle_record_operation_triple [triples]:
  assumes store: "durable_store store content" and ok: "request_ok request"
  shows "triple (handle_inv content ops ps ts) (handle_record_operation store request)
    (\<lambda>outcome. handle_inv content (recorded_operations outcome + ops) ps ts) (handle_inv content ops ps ts)"
  unfolding handle_record_operation_def
proof (rule triple_then [OF take_aggregate_triple], rule triple_assume, goal_cases)
  case (1 a w)
  then have a: "aggregate_ok a" by (simp add: opened_def running_ok_def)
  let ?Q = "\<lambda>outcome. handle_inv content (recorded_operations outcome + ops) ps ts"
  show ?case
  proof (cases "record_operation a request")
    case (Pending p)
    note pending = record_operation_pending [OF Pending a ok]
    let ?e = "\<lparr>eo_request = request, eo_issued = False,
      eo_authorization = cpa_next_operation_authorization (por_successor p), eo_lost = None\<rparr>"
    let ?op = "\<lparr>rpo_operation = por_operation p, rpo_durability = OperationDurability.WriteAhead\<rparr>"
    have parts: "commit_into_parts (pending_commit p) = (issue (por_successor p), por_operation p)"
      using commit_into_parts_issue [of "pending_commit p" ?e] pending by (simp add: pending_commit_def)
    have resume: "commit_resume_record (pending_commit p) = resume_record (por_successor p)"
      by (simp add: commit_resume_record_eq pending_commit_def)
    have release: "triple (opened content ops ps ts {#} (por_successor p))
        (sdkThen (seat (issue (por_successor p))) (\<lambda>_. sdkReturn (RemoteOperationRecordOutcome.Recorded ?op))) ?Q
        (handle_inv content ops ps ts)"
      by (rule seat_return_triple [where hs = "{#}" and content = content and ops' = "add_mset ?op ops" and ps = ps and ts = ts])
        (use pending in \<open>auto intro: opened_issue [where e = ?e]\<close>)
    show ?thesis
    proof (cases "resume_record (por_successor p)")
      case (Inl e)
      show ?thesis unfolding Pending ClientOperationRecordDecision.case Let_def resume Inl sum.case
        by (rule triple_fail) (rule opened_inv)
    next
      case (Inr r)
      have "stored_ok (Some \<lparr>crr_canonical = crr_canonical r\<rparr>)"
        using opened_recorded [OF Pending ok 1] stored_ok_recorded [OF _ Inr] by (cases r) (auto simp: opened_def)
      from persist_bytes_triple [OF store this, of ops ps ts "{#}" "por_successor p"]
      have "triple (opened content ops ps ts {#} a) (persist_bytes store (crr_canonical r)) (\<lambda>_. opened content ops ps ts {#} (por_successor p))
          (handle_inv content ops ps ts)"
        by (rule triple_weaken) (auto intro: opened_recorded [OF Pending ok])
      then show ?thesis
        unfolding Pending ClientOperationRecordDecision.case Let_def resume Inr sum.case parts prod.case
        by (rule triple_then) (rule release)
    qed
  next
    case (Continuous c)
    let ?op = "\<lparr>rpo_operation = cco_operation c, rpo_durability = OperationDurability.Continuous\<rparr>"
    show ?thesis unfolding Continuous ClientOperationRecordDecision.case
      by (rule seat_return_triple [where hs = "{#}" and content = content and ops' = "add_mset ?op ops" and ps = ps and ts = ts])
        (use record_operation_continuous [OF Continuous] in \<open>auto intro: opened_acknowledgement\<close>)
  next
    case (Refused refusal)
    show ?thesis unfolding Refused ClientOperationRecordDecision.case
      by (rule seat_return_triple [where hs = "{#}" and content = content and ops' = ops and ps = ps and ts = ts])
        (use record_operation_refused_aggregate [OF Refused] in auto)
  qed
qed

fun sent_permits :: "RemoteParticipantSendOutcome \<Rightarrow> RemoteReconnectPermit multiset" where
  "sent_permits (RemoteParticipantSendOutcome.Sent _) = {#}"
| "sent_permits (RemoteParticipantSendOutcome.TransportLost _ _ reconnect) = outcome_permits reconnect"

lemma handle_inv_drop_operation: "handle_inv content (add_mset op ops) ps ts w \<Longrightarrow> handle_inv content ops ps ts w"
  by (auto simp: handle_inv_def backdrop_def dest: running_drop)

text \<open>An operation moves from the caller into the method, and becomes its correlation.\<close>

lemma opened_send:
  assumes "opened content (add_mset op ops) ps ts {#} a w"
    and "operation_into_request (rpo_operation op) = (request, c)"
  shows "opened content ops ps ts {#CorrelationHandle c#} a w
    \<and> (rpo_durability op = OperationDurability.WriteAhead \<longleftrightarrow> crc_authorization c \<noteq> 0)"
proof -
  have "running_ok a (add_mset (OperationHandle (rpo_operation op)) (held w ops)) (image_mset rrp_permit ps) ts"
    using assms(1) by (simp add: opened_def)
  from running_convert [OF this, of "CorrelationHandle c"] assms show ?thesis
    by (auto simp: operation_into_request_def opened_def backdrop_def)
qed

lemma transport_send_triple:
  "triple (opened content ops ps ts hs a) (transport_send transport request) (\<lambda>_. opened content ops ps ts hs a) E"
  by (rule tripleI) (simp add: transport_send_def opened_def backdrop_def held_def case_prod_beta Let_def)

lemma fate_then_reconnect_triple:
  assumes "durable_store store content"
    and fate: "\<And>w f w'. P w \<Longrightarrow> decide w = (f, w') \<Longrightarrow> handle_inv content ops ps ts w'"
  shows "triple P (\<lambda>h. let (f, h) = decide h in
      sdkThen (record_connection_fate store) (\<lambda>reconnect. sdkReturn (g f reconnect)) h)
    (\<lambda>outcome w. \<exists>f reconnect. outcome = g f reconnect \<and> handle_inv content ops (outcome_permits reconnect + ps) ts w)
    (handle_inv content ops ps ts)"
proof (rule tripleI, goal_cases)
  case (1 w)
  obtain f w' where d: "decide w = (f, w')" by (cases "decide w")
  have "triple (handle_inv content ops ps ts) (sdkThen (record_connection_fate store) (\<lambda>reconnect. sdkReturn (g f reconnect)))
    (\<lambda>outcome w. \<exists>f reconnect. outcome = g f reconnect \<and> handle_inv content ops (outcome_permits reconnect + ps) ts w)
    (handle_inv content ops ps ts)"
    by (rule triple_then [OF record_connection_fate_triple [OF assms(1)] triple_return]) auto
  from tripleD [OF this fate [OF 1 d]] show ?case by (simp add: d)
qed

lemma handle_send_operation_triple [triples]:
  assumes store: "durable_store store content"
  shows "triple (handle_inv content (add_mset op ops) ps ts) (handle_send_operation store transport op)
    (\<lambda>outcome. handle_inv content ops (sent_permits outcome + ps) ts) (handle_inv content ops ps ts)"
proof -
  obtain request c where into: "operation_into_request (rpo_operation op) = (request, c)"
    by (cases "operation_into_request (rpo_operation op)")
  let ?I = "handle_inv content ops ps ts" and ?ahead = "rpo_durability op = OperationDurability.WriteAhead"
  let ?O = "\<lambda>a w. opened content ops ps ts {#CorrelationHandle c#} a w \<and> (?ahead \<longleftrightarrow> crc_authorization c \<noteq> 0)"
  have take: "triple (handle_inv content (add_mset op ops) ps ts) take_aggregate ?O ?I"
    by (rule triple_weaken [OF take_aggregate_triple [of content "add_mset op ops" ps ts]])
      (blast dest: opened_send [OF _ into] intro: handle_inv_drop_operation)+
  have keep: "triple (?O a) (if ?ahead then persist_retaining store a else sdkReturn a) (\<lambda>b w. b = a \<and> ?O a w) ?I" for a
    by (rule triple_assume) (auto intro!: triple_return
        intro: triple_weaken [OF persist_retaining_triple [OF store, of ops ps ts "{#CorrelationHandle c#}" a]])
  have sent: "triple (?O a) (sdkThen (modify (\<lambda>h. if ?ahead then h\<lparr>rps_correlation := Some c\<rparr> else h)) (\<lambda>_.
      sdkThen (seat a) (\<lambda>_. sdkReturn (RemoteParticipantSendOutcome.Sent p))))
      (\<lambda>outcome. handle_inv content ops (sent_permits outcome + ps) ts) ?I" for a p
    by (rule triple_then [OF triple_modify [where Q = "\<lambda>_. opened content ops ps ts {#} a"] seat_return_triple])
      (auto intro: opened_slot opened_drop)
  have fate: "handle_inv content ops ps ts w'"
    if "?O a w" "(if ?ahead then record_operation_transport_fate a c w
      else (RemoteOperationTransportFate.NotOutstanding, w\<lparr>rps_aggregate := Some a\<rparr>)) = (f, w')" for a w f w'
    using that opened_drop [of content ops ps ts "{#CorrelationHandle c#}" a w]
      operation_transport_fate_inv [of content ops ps ts c a w f w']
    by (cases ?ahead) (auto simp: opened_def handle_inv_def backdrop_def)
  have lost: "triple (?O a) (\<lambda>h. let (operation_fate, h) =
         (if ?ahead then record_operation_transport_fate a c h
          else (RemoteOperationTransportFate.NotOutstanding, h\<lparr>rps_aggregate := Some a\<rparr>)) in
       sdkThen (record_connection_fate store) (\<lambda>reconnect.
       sdkReturn (RemoteParticipantSendOutcome.TransportLost e operation_fate reconnect)) h)
      (\<lambda>outcome. handle_inv content ops (sent_permits outcome + ps) ts) ?I" for a e
    by (rule triple_weaken [OF fate_then_reconnect_triple [OF store, of "?O a"
            "\<lambda>h. if ?ahead then record_operation_transport_fate a c h
               else (RemoteOperationTransportFate.NotOutstanding, h\<lparr>rps_aggregate := Some a\<rparr>)"
            ops ps ts "RemoteParticipantSendOutcome.TransportLost e"]])
      (auto intro: fate)
  have outcome: "triple (?O a) (case result of
        Inr provenance \<Rightarrow> sdkThen (modify (\<lambda>h. if ?ahead then h\<lparr>rps_correlation := Some c\<rparr> else h)) (\<lambda>_.
          sdkThen (seat a) (\<lambda>_. sdkReturn (RemoteParticipantSendOutcome.Sent provenance)))
      | Inl error \<Rightarrow> (\<lambda>h. let (operation_fate, h) =
           (if ?ahead then record_operation_transport_fate a c h
            else (RemoteOperationTransportFate.NotOutstanding, h\<lparr>rps_aggregate := Some a\<rparr>)) in
         sdkThen (record_connection_fate store) (\<lambda>reconnect.
         sdkReturn (RemoteParticipantSendOutcome.TransportLost error operation_fate reconnect)) h))
      (\<lambda>outcome. handle_inv content ops (sent_permits outcome + ps) ts) ?I" for a result
    using sent lost by (cases result) auto
  have send: "triple (?O a) (transport_send transport request) (\<lambda>_. ?O a) ?I" for a
    by (rule triple_assume, rule triple_weaken [OF transport_send_triple [of content ops ps ts "{#CorrelationHandle c#}" a]]) auto
  have keep': "triple (?O a) (sdkThen (if ?ahead then persist_retaining store a else sdkReturn a) f)
      (\<lambda>outcome. handle_inv content ops (sent_permits outcome + ps) ts) ?I"
    if "triple (?O a) (f a) (\<lambda>outcome. handle_inv content ops (sent_permits outcome + ps) ts) ?I" for a f
    by (rule triple_then [OF keep], rule triple_assume) (use that in \<open>auto elim: triple_weaken\<close>)
  show ?thesis
    unfolding handle_send_operation_def Let_def into prod.case
    by (intro triple_then [OF take] keep' triple_then [OF send] outcome [unfolded Let_def])
qed

section \<open>Receiving\<close>

text \<open>The correlation taken out of its slot.\<close>

lemma opened_take_slot:
  assumes "opened content ops ps ts {#} a w" "rps_correlation w = Some c"
  shows "opened content ops ps ts {#CorrelationHandle c#} a (w\<lparr>rps_correlation := None\<rparr>)" "crc_authorization c \<noteq> 0"
  using assms by (auto simp: opened_def backdrop_def held_def slot_handles_def)

lemma seated_inv: "opened content ops ps ts hs a w \<Longrightarrow> handle_inv content ops ps ts (w\<lparr>rps_aggregate := Some a\<rparr>)"
  by (auto simp: opened_def handle_inv_def backdrop_def dest: running_drop_all)

lemma persist_return_triple:
  assumes "durable_store store content"
  shows "triple (opened content ops ps ts hs a) (sdkThen (persist_and_seat store a) (\<lambda>_. sdkReturn x))
    (\<lambda>_. handle_inv content ops ps ts) (handle_inv content ops ps ts)"
  by (rule triple_then [OF persist_and_seat_triple [OF assms] triple_return])

lemma apply_inbound_triple [triples]:
  assumes store: "durable_store store content" and x: "server_value_ok x"
  shows "triple (handle_inv content ops ps ts) (apply_inbound store x provenance)
    (\<lambda>_. handle_inv content ops ps ts) (handle_inv content ops ps ts)"
  unfolding apply_inbound_def
proof (rule triple_then [OF take_aggregate_triple], rule tripleI, goal_cases)
  case (1 a w)
  show ?case
  proof (cases "rps_correlation w")
    case None
    show ?thesis
    proof (cases "decide_inbound a x")
      case (Applied d)
      then have "cia_aggregate d = a" using decide_inbound_applied by blast
      then show ?thesis using tripleD [OF persist_return_triple [OF store] 1] by (simp add: None Applied)
    next
      case (Refused refusal)
      then have "cir_aggregate refusal = a"
        by (auto simp: decide_inbound_def decide_inbound_inner_def Let_def split: if_splits option.splits)
      then show ?thesis using seated_inv [OF 1] by (simp add: None Refused)
    qed
  next
    case (Some c)
    note local = opened_take_slot [OF 1 Some]
    show ?thesis
    proof (cases "decide_correlated_inbound a x c")
      case (Applied d)
      have "opened content ops ps ts {#} (cia_aggregate d) (w\<lparr>rps_correlation := None\<rparr>)"
        using local running_correlated [OF _ x Applied] by (auto simp: opened_def)
      from tripleD [OF persist_return_triple [OF store] this] show ?thesis by (simp add: Some Applied Let_def)
    next
      case (Refused refusal)
      then have "ccr_aggregate refusal = a" "ccr_correlation refusal = c"
        by (auto simp: decide_correlated_inbound_def decide_inbound_inner_def Let_def
            split: if_splits option.splits ClientInboundDecision.splits)
      then show ?thesis using seated_slot_inv [OF local] by (simp add: Some Refused Let_def)
    qed
  qed
qed

lemma classify_inbound_triple [triples]:
  assumes "durable_store store content" "frame_ok (ptf_frame frame)"
  shows "triple (handle_inv content ops ps ts) (classify_inbound store frame)
    (\<lambda>_. handle_inv content ops ps ts) (handle_inv content ops ps ts)"
  using assms
  by (cases "ptf_frame frame") (auto simp: classify_inbound_def intro: triple_return triple_fail apply_inbound_triple)

lemma handle_inv_transport [simp]:
  "handle_inv content ops ps ts (h\<lparr>rph_transport := t\<rparr>) \<longleftrightarrow> handle_inv content ops ps ts h"
  for h :: "('s, 't) RemoteParticipantHandle"
  by (simp add: handle_inv_def backdrop_def held_def)

lemma handle_receive_triple [triples]:
  assumes "durable_store store content" "typed_transport transport"
  shows "triple (handle_inv content ops ps ts) (handle_receive store transport)
    (\<lambda>_. handle_inv content ops ps ts) (handle_inv content ops ps ts)"
proof (rule tripleI, goal_cases)
  case (1 h)
  obtain r t where r: "receive_participant transport (rph_transport h) = (r, t)"
    by (cases "receive_participant transport (rph_transport h)")
  show ?case
  proof (cases r)
    case (Inr frame)
    then have "frame_ok (ptf_frame frame)" using assms(2) r unfolding typed_transport_def by blast
    from tripleD [OF classify_inbound_triple [OF assms(1) this], of ops ps ts "h\<lparr>rph_transport := t\<rparr>"] 1 show ?thesis
      by (simp add: handle_receive_def r Inr)
  qed (use 1 r in \<open>simp add: handle_receive_def\<close>)
qed

lemma handle_receive_within_triple [triples]:
  assumes "durable_store store content" "typed_transport transport"
  shows "triple (handle_inv content ops ps ts) (handle_receive_within store transport budget)
    (\<lambda>_. handle_inv content ops ps ts) (handle_inv content ops ps ts)"
proof (rule tripleI, goal_cases)
  case (1 h)
  obtain r t where r: "receive_participant_within transport (rph_transport h) budget = (r, t)"
    by (cases "receive_participant_within transport (rph_transport h) budget")
  consider "\<exists>e. r = Inl e" | "r = Inr None" | f where "r = Inr (Some f)" by (metis option.exhaust sum.exhaust)
  then show ?case
  proof cases
    case (3 frame)
    then have "frame_ok (ptf_frame frame)" using assms(2) r unfolding typed_transport_def by blast
    from tripleD [OF triple_then [OF classify_inbound_triple [OF assms(1) this] triple_return],
        of ops ps ts "\<lambda>_. handle_inv content ops ps ts" Some "h\<lparr>rph_transport := t\<rparr>"] 1 show ?thesis
      by (simp add: handle_receive_within_def r 3)
  qed (use 1 r in \<open>auto simp: handle_receive_within_def\<close>)
qed

section \<open>Recovery\<close>

fun recovered_operations :: "RemoteExpectedOperationRecovery \<Rightarrow> RemoteParticipantOperation multiset" where
  "recovered_operations (RemoteExpectedOperationRecovery.Recovered operation) = {#operation#}"
| "recovered_operations (RemoteExpectedOperationRecovery.NotAvailable _) = {#}"

lemma handle_recover_expected_operation_triple [triples]:
  "triple (handle_inv content ops ps ts) handle_recover_expected_operation
    (\<lambda>outcome. handle_inv content (recovered_operations outcome + ops) ps ts) (handle_inv content ops ps ts)"
  unfolding handle_recover_expected_operation_def
proof (rule triple_then [OF take_aggregate_triple], goal_cases)
  case (1 a)
  show ?case
  proof (cases "\<exists>e. cpa_expected a = Some e \<and> \<not> eo_issued e")
    case True
    then obtain e where e: "cpa_expected a = Some e" "\<not> eo_issued e" by blast
    let ?op = "\<lparr>rpo_operation = \<lparr>epo_request = eo_request e, epo_authorization = eo_authorization e\<rparr>,
      rpo_durability = OperationDurability.WriteAhead\<rparr>"
    show ?thesis
      by (simp add: recover_expected_operation_cases e,
          rule seat_return_triple [where hs = "{#}" and content = content and ops' = "add_mset ?op ops" and ps = ps and ts = ts])
        (auto intro: opened_issue [OF _ e])
  next
    case False
    then obtain issued where "recover_expected_operation a = RecoveredExpectedOperationDecision.NotAvailable a issued"
      by (cases "cpa_expected a") (auto simp: recover_expected_operation_cases)
    then show ?thesis
      by simp (rule seat_return_triple [where hs = "{#}" and content = content and ops' = ops and ps = ps and ts = ts], auto)
  qed
qed

text \<open>The two methods that consume testimony: a decision that keeps the invariant, seated and checkpointed.\<close>

lemma seat_checkpoint_triple:
  assumes "durable_store store content"
  shows "triple (opened content ops ps ts {#} b) (sdkThen (seat b) (\<lambda>_. sdkThen (checkpoint_state store) (\<lambda>_. sdkReturn x)))
    (\<lambda>y w. y = x \<and> handle_inv content ops ps ts w) (handle_inv content ops ps ts)"
  by (rule triple_then [OF seat_triple triple_then [OF checkpoint_state_triple [OF assms] triple_return]]) simp

lemma handle_resolve_lost_operation_authority_triple [triples]:
  assumes "durable_store store content"
  shows "triple (handle_inv content ops ps ts) (handle_resolve_lost_operation_authority store)
    (\<lambda>r w. handle_inv content ops ps ts w
      \<and> (\<forall>request kind. r = RemoteLostOperationResolution.Recorded request kind \<longrightarrow> request_ok request))
    (handle_inv content ops ps ts)"
  unfolding handle_resolve_lost_operation_authority_def
proof (rule triple_then [OF take_aggregate_triple], rule triple_assume, goal_cases)
  case (1 a w)
  then have "aggregate_ok a" by (simp add: opened_def running_ok_def)
  then have "resolve_lost_operation_authority a = LostOperationAuthorityDecision.Refused b reason \<Longrightarrow> b = a"
    "resolve_lost_operation_authority a = LostOperationAuthorityDecision.Recorded b request t \<Longrightarrow> request_ok request"
    for b reason request t
    by (auto simp: resolve_lost_operation_authority_def aggregate_ok_def operation_ok_def split: option.splits if_splits)
  then show ?case
    by (cases "resolve_lost_operation_authority a")
      (auto intro!: triple_weaken [OF seat_checkpoint_triple [OF assms]] simp: opened_def intro: running_resolve)
qed

lemma handle_resolve_lost_reconnect_authority_triple [triples]:
  assumes "durable_store store content"
  shows "triple (handle_inv content ops ps ts) (handle_resolve_lost_reconnect_authority store)
    (\<lambda>_. handle_inv content ops ps ts) (handle_inv content ops ps ts)"
  unfolding handle_resolve_lost_reconnect_authority_def
proof (rule triple_then [OF take_aggregate_triple], goal_cases)
  case (1 a)
  have "resolve_lost_reconnect_authority a = LostReconnectAuthorityDecision.Refused b reason \<Longrightarrow> b = a" for b reason
    by (auto simp: resolve_lost_reconnect_authority_def split: option.splits)
  then show ?case
    by (cases "resolve_lost_reconnect_authority a")
      (auto intro!: triple_weaken [OF seat_checkpoint_triple [OF assms]] simp: opened_def intro: running_resolve_reconnect)
qed

lemma peek_triples [triples]:
  "triple (handle_inv content ops ps ts) peek_lost_credential_attach
    (\<lambda>_. handle_inv content ops ps ts) (handle_inv content ops ps ts)"
  "triple (handle_inv content ops ps ts) lost_credential_attach_pending
    (\<lambda>_. handle_inv content ops ps ts) (handle_inv content ops ps ts)"
  unfolding peek_lost_credential_attach_def lost_credential_attach_pending_def Let_def
  by (rule triple_then [OF take_aggregate_triple seat_return_triple], assumption, assumption)+

lemma handle_take_restored_operation_abandonment_triple [triples]:
  assumes store: "durable_store store content"
  shows "triple (handle_inv content ops ps ts) (handle_take_restored_operation_abandonment store)
    (\<lambda>_. handle_inv content ops ps ts) (handle_inv content ops ps ts)"
  unfolding handle_take_restored_operation_abandonment_def
proof (rule triple_then [OF take_aggregate_triple], goal_cases)
  case (1 a)
  obtain b x where taken: "take_restored_operation_abandonment a = (b, x)"
    by (cases "take_restored_operation_abandonment a")
  then have "cpa_expected b = cpa_expected a" "cpa_reconnect b = cpa_reconnect a"
    by (auto simp: take_restored_operation_abandonment_def)
  moreover have "aggregate_ok a \<Longrightarrow> aggregate_ok b" using take_abandonment_ok [of a] by (simp add: taken)
  ultimately have run: "running_ok a hs qs us \<Longrightarrow> running_ok b hs qs us" for hs qs us
    using running_ok_operation [of a hs qs us b hs] handles_ok_same [of b a hs] by (auto simp: running_ok_def)
  let ?I = "handle_inv content ops ps ts"
  have "triple (opened content ops ps ts {#} a) (if x \<noteq> None then persist_retaining store b else sdkReturn b)
      (\<lambda>c w. c = b \<and> opened content ops ps ts {#} b w) ?I"
    using run by (auto simp: opened_def intro!: triple_return
        intro: triple_weaken [OF persist_retaining_triple [OF store, of ops ps ts "{#}" b]])
  moreover have "triple (\<lambda>w. c = b \<and> opened content ops ps ts {#} b w) (sdkThen (seat c) (\<lambda>_. sdkReturn x)) (\<lambda>_. ?I) ?I" for c
    by (rule seat_return_triple [where hs = "{#}" and content = content and ops' = ops and ps = ps and ts = ts]) auto
  ultimately show ?case unfolding taken Let_def prod.case by (rule triple_then)
qed

fun recovered_permits :: "RemoteReconnectPermitRecovery \<Rightarrow> RemoteReconnectPermit multiset" where
  "recovered_permits (RemoteReconnectPermitRecovery.Recovered permit) = {#permit#}"
| "recovered_permits (RemoteReconnectPermitRecovery.NotAvailable _) = {#}"

lemma handle_recover_reconnect_permit_triple [triples]:
  "triple (handle_inv content ops ps ts) handle_recover_reconnect_permit
    (\<lambda>outcome. handle_inv content ops (recovered_permits outcome + ps) ts) (handle_inv content ops ps ts)"
  unfolding handle_recover_reconnect_permit_def
proof (rule triple_then [OF take_aggregate_triple], rule triple_assume, goal_cases)
  case (1 a w)
  then have "recover_reconnect_permit a = RecoveredReconnectPermitDecision.NotAvailable a (reconnect_state (cpa_reconnect a))"
    by (intro recover_reconnect_permit_never) (simp add: opened_def running_ok_def)
  then show ?case
    by simp (rule seat_return_triple [where hs = "{#}" and content = content and ops' = ops and ps = ps and ts = ts], auto)
qed

text \<open>\<open>reconnect\<close>: the redeemed attempt is in the caller's hands while the lock is free, and its fate is
  always recorded.\<close>

fun redeemed_attempts ::
  "RemoteReconnectAttemptOutcome + ReconnectInProgressAttempt \<Rightarrow> ReconnectInProgressAttempt multiset" where
  "redeemed_attempts (Inl _) = {#}"
| "redeemed_attempts (Inr attempt) = {#attempt#}"

fun returned_permits ::
  "RemoteReconnectAttemptOutcome + ReconnectInProgressAttempt \<Rightarrow> RemoteReconnectPermit multiset" where
  "returned_permits (Inl (RemoteReconnectAttemptOutcome.Refused permit _)) = {#permit#}"
| "returned_permits _ = {#}"

lemma handle_inv_drop_permit: "handle_inv content ops (add_mset p ps) ts w \<Longrightarrow> handle_inv content ops ps ts w"
  by (auto simp: handle_inv_def dest: running_drop)

lemma handle_inv_drop_attempt: "handle_inv content ops ps (add_mset t ts) w \<Longrightarrow> handle_inv content ops ps ts w"
  by (auto simp: handle_inv_def dest: running_drop)

lemma reconnect_redeem_triple [triples]:
  assumes store: "durable_store store content"
  shows "triple (handle_inv content ops (add_mset permit ps) ts) (reconnect_redeem store permit)
    (\<lambda>r. handle_inv content ops (returned_permits r + ps) (redeemed_attempts r + ts)) (handle_inv content ops ps ts)"
  unfolding reconnect_redeem_def
proof (rule triple_then [OF triple_weaken [OF take_aggregate_triple [of content ops "add_mset permit ps" ts]]], assumption,
    assumption, erule handle_inv_drop_permit, rule triple_assume, goal_cases)
  case (1 a w)
  obtain b t where started: "redeem_attempt a (rrp_permit permit) = ReconnectAttemptDecision.Started b t"
    using 1 held_permit_redeemable [of a _ ts "rrp_permit permit"] by (fastforce simp: opened_def running_ok_def)
  have "triple (opened content ops (add_mset permit ps) ts {#} a) (persist_and_seat store b)
      (\<lambda>_. handle_inv content ops ps (add_mset t ts)) (handle_inv content ops ps ts)"
    by (rule triple_weaken [OF persist_and_seat_triple [OF store, of ops ps "add_mset t ts" "{#}" b]])
      (auto simp: opened_def intro: running_redeem [OF _ started] handle_inv_drop_attempt)
  then show ?case unfolding started ReconnectAttemptDecision.case by (rule triple_then) (auto intro: triple_return)
qed

lemma reconnect_settle_triple [triples]:
  assumes store: "durable_store store content"
  shows "triple (handle_inv content ops ps (add_mset t ts)) (reconnect_settle store t result)
    (\<lambda>outcome w. (\<forall>reason e p. outcome \<noteq> FateRefused reason e p) \<and> handle_inv content ops ps ts w)
    (handle_inv content ops ps ts)"
  unfolding reconnect_settle_def Let_def
proof (rule triple_then [OF triple_weaken [OF take_aggregate_triple [of content ops ps "add_mset t ts"]]], assumption,
    assumption, erule handle_inv_drop_attempt, rule triple_assume, goal_cases)
  case (1 a w)
  let ?fate = "if is_ok result then ReconnectAttemptFate.Connected else ReconnectAttemptFate.Failed"
  obtain b where recorded: "record_attempt_fate a t ?fate = ReconnectAttemptFateDecision.Recorded b"
    using 1 held_attempt_recordable [of a _ "add_mset t ts" t ?fate] by (fastforce simp: opened_def running_ok_def)
  have "triple (opened content ops ps (add_mset t ts) {#} a) (persist_and_seat store b)
      (\<lambda>_. handle_inv content ops ps ts) (handle_inv content ops ps ts)"
    by (rule triple_weaken [OF persist_and_seat_triple [OF store, of ops ps ts "{#}" b]])
      (auto simp: opened_def intro: running_attempt_fate [OF _ recorded])
  then show ?case unfolding recorded ReconnectAttemptFateDecision.case
    by (rule triple_then) (auto intro!: triple_return split: sum.split)
qed

section \<open>Transport loss and detach replay\<close>

lemma record_established_transport_loss_triple [triples]:
  assumes store: "durable_store store content"
  shows "triple (handle_inv content ops ps ts) (record_established_transport_loss store)
    (\<lambda>outcome. handle_inv content ops (outcome_permits (tlo_reconnect outcome) + ps) ts) (handle_inv content ops ps ts)"
proof (rule tripleI, goal_cases)
  case (1 w)
  have then_fate: "triple (handle_inv content ops ps ts)
      (sdkThen (record_connection_fate store) (\<lambda>reconnect. sdkReturn \<lparr>tlo_operation_fate = f, tlo_reconnect = reconnect\<rparr>))
      (\<lambda>outcome. handle_inv content ops (outcome_permits (tlo_reconnect outcome) + ps) ts) (handle_inv content ops ps ts)" for f
    by (rule triple_then [OF record_connection_fate_triple [OF store] triple_return]) simp
  show ?case
  proof (cases "rps_correlation w")
    case None
    from tripleD [OF then_fate 1] show ?thesis
      by (simp add: record_established_transport_loss_def None sdkThen_def)
  next
    case c: (Some c)
    show ?thesis
    proof (cases "rps_aggregate w")
      case None
      then show ?thesis using 1 c
        by (auto simp: record_established_transport_loss_def sdkThen_def take_aggregate_def handle_inv_def backdrop_def)
    next
      case (Some a)
      let ?w = "w\<lparr>rps_correlation := None, rps_aggregate := None\<rparr>"
      have open_w: "opened content ops ps ts {#CorrelationHandle c#} a ?w" "crc_authorization c \<noteq> 0"
        using 1 c Some by (auto simp: opened_def handle_inv_def backdrop_def held_def slot_handles_def)
      obtain f w' where f: "record_operation_transport_fate a c ?w = (f, w')"
        by (cases "record_operation_transport_fate a c ?w")
      from tripleD [OF then_fate operation_transport_fate_inv [OF open_w f]] show ?thesis
        by (simp add: record_established_transport_loss_def c Some sdkThen_def take_aggregate_def f)
    qed
  qed
qed

fun replayed_permits :: "RemoteDetachReplayOutcome \<Rightarrow> RemoteReconnectPermit multiset" where
  "replayed_permits (RemoteDetachReplayOutcome.Send outcome) = sent_permits outcome"
| "replayed_permits (RemoteDetachReplayOutcome.Refused _) = {#}"

lemma replay_fate_inv:
  assumes w: "opened content ops ps ts {#CorrelationHandle c#} a w" and c: "crc_authorization c \<noteq> 0"
    and fate: "(case transport_fate a c DetachTransportFate.ResponseUnavailable of
        DetachTransportFateDecision.Parked aggregate \<Rightarrow>
          (RemoteOperationTransportFate.DetachParked, w\<lparr>rps_aggregate := Some aggregate\<rparr>)
      | DetachTransportFateDecision.Refused refusal \<Rightarrow>
          (RemoteOperationTransportFate.Refused DetachUsesReplayFate,
           w\<lparr>rps_aggregate := Some (drf_aggregate refusal), rps_correlation := Some (fst (drf_input refusal))\<rparr>)) = (f, w')"
  shows "handle_inv content ops ps ts w'"
proof (cases "transport_fate a c DetachTransportFate.ResponseUnavailable")
  case (Parked b)
  then show ?thesis using w fate running_replay_fate [OF _ Parked, of "held w ops"]
    by (auto simp: opened_def handle_inv_def backdrop_def)
next
  case (Refused refusal)
  then have "drf_aggregate refusal = a" "drf_input refusal = (c, DetachTransportFate.ResponseUnavailable)"
    by (auto simp: transport_fate_def Let_def split: if_splits)
  then show ?thesis using fate Refused seated_slot_inv [OF w c] by auto
qed

lemma replay_detach_triple [triples]:
  assumes store: "durable_store store content"
  shows "triple (handle_inv content ops ps ts) (replay_detach store transport)
    (\<lambda>outcome. handle_inv content ops (replayed_permits outcome + ps) ts) (handle_inv content ops ps ts)"
  unfolding replay_detach_def
proof (rule triple_then [OF take_aggregate_triple], rule triple_assume, goal_cases)
  case (1 a w)
  then have a: "aggregate_ok a" by (simp add: opened_def running_ok_def)
  let ?I = "handle_inv content ops ps ts" and ?Q = "\<lambda>outcome. handle_inv content ops (replayed_permits outcome + ps) ts"
  from transport_attempt_started_cases [OF a] show ?case
  proof (elim disjE exE conjE)
    fix e v
    assume e: "cpa_expected a = Some e" "eo_request e = ClientRequest.Detach v" "\<not> eo_issued e"
      and started: "transport_attempt_started a = DetachTransportAttemptDecision.Started (issue a)
        \<lparr>dta_request = detach_envelope v, dta_authorization = eo_authorization e\<rparr>"
    let ?c = "\<lparr>crc_authorization = eo_authorization e\<rparr>"
    let ?O = "opened content ops ps ts {#CorrelationHandle ?c#} (issue a)"
    have c: "crc_authorization ?c \<noteq> 0" using issued_authorization [OF a e(1)] by simp
    have issued: "opened content ops ps ts {#} a w \<Longrightarrow> opened content ops ps ts {#CorrelationHandle ?c#} (issue a) w" for w
      using running_ok_issue [OF _ e(1,3), of "held w ops" "image_mset rrp_permit ps" ts "CorrelationHandle ?c"]
      by (auto simp: opened_def)
    have keep: "triple (opened content ops ps ts {#} a) (persist_retaining store (issue a)) (\<lambda>b w. b = issue a \<and> ?O w) ?I"
      by (rule triple_weaken [OF persist_retaining_triple [OF store, of ops ps ts "{#CorrelationHandle ?c#}" "issue a"]])
        (auto intro: issued)
    have sent: "triple ?O (sdkThen (seat (issue a)) (\<lambda>_. sdkThen (modify (\<lambda>h. h\<lparr>rps_correlation := Some ?c\<rparr>)) (\<lambda>_.
        sdkReturn (RemoteDetachReplayOutcome.Send (RemoteParticipantSendOutcome.Sent p))))) ?Q ?I" for p
      using c by (auto simp: triple_def sdkThen_def seat_def modify_def sdkReturn_def intro: seated_slot_inv)
    have lost: "triple ?O (\<lambda>h. let (operation_fate, h) =
           (case transport_fate (issue a) ?c DetachTransportFate.ResponseUnavailable of
              DetachTransportFateDecision.Parked aggregate \<Rightarrow>
                (RemoteOperationTransportFate.DetachParked, h\<lparr>rps_aggregate := Some aggregate\<rparr>)
            | DetachTransportFateDecision.Refused refusal \<Rightarrow>
                (RemoteOperationTransportFate.Refused DetachUsesReplayFate,
                 h\<lparr>rps_aggregate := Some (drf_aggregate refusal), rps_correlation := Some (fst (drf_input refusal))\<rparr>)) in
         sdkThen (record_connection_fate store) (\<lambda>reconnect.
         sdkReturn (RemoteDetachReplayOutcome.Send
           (RemoteParticipantSendOutcome.TransportLost error operation_fate reconnect))) h) ?Q ?I" for error
      by (rule triple_weaken [OF fate_then_reconnect_triple [OF store, where P = ?O and ops = ops and ps = ps and ts = ts
              and g = "\<lambda>f r. RemoteDetachReplayOutcome.Send (RemoteParticipantSendOutcome.TransportLost error f r)"]])
        (auto intro: replay_fate_inv [OF _ c])
    show ?thesis
      unfolding started DetachTransportAttemptDecision.case attempt_into_request_def Let_def prod.case
        DetachTransportAttempt.select_convs
      by (rule triple_then [OF keep], rule triple_assume,
          auto intro!: triple_then [OF transport_send_triple] lost [unfolded Let_def] sent split: sum.split)
  next
    assume "transport_attempt_started a = DetachTransportAttemptDecision.Refused
      \<lparr>drf_aggregate = a, drf_input = (), drf_reason = InvalidStatus\<rparr>"
    then show ?thesis
      by simp (rule seat_return_triple [where hs = "{#}" and content = content and ops' = ops and ps = ps and ts = ts], auto)
  qed
qed

section \<open>Explicit replay inputs\<close>

text \<open>A decision that retires the operation, or returns the aggregate and the correlation.\<close>

lemma apply_replay_input_triple:
  assumes store: "durable_store store content"
    and decide: "\<And>a c hs qs us b r. running_ok a (add_mset (CorrelationHandle c) hs) qs us \<Longrightarrow> decide a input c = (b, r)
      \<Longrightarrow> (case r of None \<Rightarrow> running_ok b hs qs us | Some (_, d, _) \<Rightarrow> b = a \<and> d = c)"
  shows "triple (handle_inv content ops ps ts) (apply_replay_input store input decide)
    (\<lambda>_. handle_inv content ops ps ts) (handle_inv content ops ps ts)"
proof (rule tripleI, goal_cases)
  case (1 w)
  show ?case
  proof (cases "rps_correlation w = None \<or> rps_aggregate w = None")
    case True
    then show ?thesis using 1
      by (auto simp: apply_replay_input_def sdkThen_def take_aggregate_def handle_inv_def backdrop_def split: option.split)
  next
    case False
    then obtain c a where c: "rps_correlation w = Some c" and a: "rps_aggregate w = Some a" by auto
    let ?w = "w\<lparr>rps_correlation := None, rps_aggregate := None\<rparr>"
    have open_w: "opened content ops ps ts {#CorrelationHandle c#} a ?w" "crc_authorization c \<noteq> 0"
      using 1 c a by (auto simp: opened_def handle_inv_def backdrop_def held_def slot_handles_def)
    then have run: "running_ok a (add_mset (CorrelationHandle c) (held ?w ops)) (image_mset rrp_permit ps) ts"
      by (simp add: opened_def)
    obtain b r where d: "decide a input c = (b, r)" by (cases "decide a input c")
    show ?thesis
    proof (cases r)
      case None
      then have open_b: "opened content ops ps ts {#} b ?w" using decide [OF run d] open_w by (simp add: opened_def)
      show ?thesis
      proof (cases "resume_record b")
        case (Inl e)
        then show ?thesis using opened_inv [OF open_b] c a
          by (simp add: apply_replay_input_def sdkThen_def take_aggregate_def d None persist_def)
      next
        case (Inr q)
        have "stored_ok (Some \<lparr>crr_canonical = crr_canonical q\<rparr>)"
          using open_b stored_ok_recorded [OF _ Inr] by (cases q) (auto simp: opened_def)
        from tripleD [OF persist_bytes_triple [OF store this] open_b] show ?thesis using c a
          by (auto simp: apply_replay_input_def sdkThen_def take_aggregate_def d None persist_def Inr persist_bytes_def
              brick_def case_prod_beta Let_def split: sum.splits dest: seated_inv)
      qed
    next
      case (Some x)
      then show ?thesis using decide [OF run d] seated_slot_inv [OF open_w] c a
        by (cases x) (auto simp: apply_replay_input_def sdkThen_def take_aggregate_def d)
    qed
  qed
qed

lemma handle_apply_attach_triple [triples]:
  assumes "durable_store store content"
  shows "triple (handle_inv content ops ps ts) (handle_apply_attach store attach)
    (\<lambda>_. handle_inv content ops ps ts) (handle_inv content ops ps ts)"
  unfolding handle_apply_attach_def
proof (rule apply_replay_input_triple [OF assms], goal_cases)
  case (1 a c hs qs us b r)
  then have a: "aggregate_ok a" by (simp add: running_ok_def)
  show ?case
  proof (cases "apply_attach a attach c")
    case (Superseded d)
    then show ?thesis using 1 running_detach_authority [OF 1(1) apply_attach_ok [OF a Superseded]] by simp
  next
    case (Refused refusal)
    then have "drf_aggregate refusal = a" "snd (drf_input refusal) = c"
      by (auto simp: apply_attach_def Let_def split: if_splits prod.splits)
    then show ?thesis using 1 Refused by auto
  qed
qed

lemma handle_apply_leave_durable_triple [triples]:
  assumes "durable_store store content"
  shows "triple (handle_inv content ops ps ts) (handle_apply_leave_durable store leave)
    (\<lambda>_. handle_inv content ops ps ts) (handle_inv content ops ps ts)"
  unfolding handle_apply_leave_durable_def
proof (rule apply_replay_input_triple [OF assms], goal_cases)
  case (1 a c hs qs us b r)
  then have a: "aggregate_ok a" by (simp add: running_ok_def)
  show ?case
  proof (cases "apply_leave_durable a leave c")
    case (Superseded d)
    then show ?thesis using 1 running_detach_authority [OF 1(1) apply_leave_durable_ok [OF a Superseded]] by simp
  next
    case (Refused refusal)
    then have "drf_aggregate refusal = a" "snd (drf_input refusal) = c"
      by (auto simp: apply_leave_durable_def Let_def split: if_splits prod.splits)
    then show ?thesis using 1 Refused by auto
  qed
qed

lemma handle_apply_detach_outcome_triple [triples]:
  assumes "durable_store store content" "server_value_ok (outcome_value outcome)"
  shows "triple (handle_inv content ops ps ts) (handle_apply_detach_outcome store outcome)
    (\<lambda>_. handle_inv content ops ps ts) (handle_inv content ops ps ts)"
  unfolding handle_apply_detach_outcome_def
proof (rule apply_replay_input_triple [OF assms(1)], goal_cases)
  case (1 a c hs qs us b r)
  then have a: "aggregate_ok a" by (simp add: running_ok_def)
  show ?case
  proof (cases "apply_detach_outcome a outcome c")
    case (Terminal d)
    then show ?thesis using 1 running_detach_authority [OF 1(1) apply_detach_outcome_ok [OF a Terminal assms(2)]] by simp
  next
    case (Refused refusal)
    then have "drf_aggregate refusal = a" "snd (drf_input refusal) = c"
      by (auto simp: apply_detach_outcome_def Let_def split: if_splits prod.splits)
    then show ?thesis using 1 Refused by auto
  qed
qed

section \<open>The credential-attach driver\<close>

fun recovery_permits :: "RemoteCredentialAttachRecovery \<Rightarrow> RemoteReconnectPermit multiset" where
  "recovery_permits (RemoteCredentialAttachRecovery.TransportLost _ _ reconnect) = outcome_permits reconnect"
| "recovery_permits _ = {#}"

lemma classified_permits [simp]: "recovery_permits (classify_recovery_answer inbound) = {#}"
  by (simp add: classify_recovery_answer_def
      split: RemoteParticipantInbound.split ServerValue.split ReceiptReplay.split ReceiptExpired.split)

lemma recover_lost_credential_attach_triple [triples]:
  assumes store: "durable_store store content" and typed: "typed_transport transport"
  shows "triple (handle_inv content ops ps ts) (recover_lost_credential_attach store transport)
    (\<lambda>outcome. handle_inv content ops (recovery_permits outcome + ps) ts) (handle_inv content ops ps ts)"
proof -
  let ?I = "handle_inv content ops ps ts" and ?Q = "\<lambda>outcome. handle_inv content ops (recovery_permits outcome + ps) ts"
  have answer: "triple ?I (sdkThen (handle_receive store transport) (\<lambda>inbound.
      sdkReturn (classify_recovery_answer inbound))) ?Q ?I"
    by (rule triple_then [OF handle_receive_triple [OF store typed] triple_return]) simp
  let ?probe = "\<lambda>op. sdkThen (handle_send_operation store transport op) (\<lambda>outcome.
      case outcome of
        RemoteParticipantSendOutcome.TransportLost error operation_fate reconnect \<Rightarrow>
          sdkReturn (RemoteCredentialAttachRecovery.TransportLost error operation_fate reconnect)
      | RemoteParticipantSendOutcome.Sent _ \<Rightarrow>
          sdkThen (handle_receive store transport) (\<lambda>inbound. sdkReturn (classify_recovery_answer inbound)))"
  have probe: "triple (handle_inv content (add_mset op ops) ps ts) (?probe op) ?Q ?I" for op
    by (rule triple_then [OF handle_send_operation_triple [OF store]])
      (auto intro: triple_return answer split: RemoteParticipantSendOutcome.split)
  have rerecord: "triple (\<lambda>w. ?I w \<and> request_ok request) (sdkThen (handle_record_operation store request) (\<lambda>recorded.
      case recorded of
        RemoteOperationRecordOutcome.Recorded operation \<Rightarrow> ?probe operation
      | RemoteOperationRecordOutcome.Continuous operation \<Rightarrow> ?probe operation
      | RemoteOperationRecordOutcome.Refused request reason \<Rightarrow> sdkReturn (RerecordRefused request reason))) ?Q ?I" for request
  proof (rule triple_assume, goal_cases)
    case (1 w)
    then have "triple (\<lambda>w. ?I w \<and> request_ok request) (handle_record_operation store request)
        (\<lambda>outcome. handle_inv content (recorded_operations outcome + ops) ps ts) ?I"
      by (auto intro: triple_weaken [OF handle_record_operation_triple [OF store, of request ops ps ts]])
    then show ?case
      by (rule triple_then) (auto intro: triple_return probe split: RemoteOperationRecordOutcome.split)
  qed
  show ?thesis
    unfolding recover_lost_credential_attach_def Let_def
    by (rule triple_then [OF peek_triples(2)], simp only: split: PendingTestimonyVerdict.split)
      (auto intro!: triple_return triple_then [OF handle_resolve_lost_operation_authority_triple [OF store]]
        intro: rerecord split: RemoteLostOperationResolution.split)
qed

end
