(* ===== verification/Sdk_Safety.thy ===== *)
theory Sdk_Safety
  imports Sdk_History
begin

text \<open>
  What a process that uses the remote participant handle can rely on: a step is one method call with the
  handles it consumes and returns, a dropped handle, or a crash followed by a restore of the stored bytes
  (which may itself fail and be retried). The properties are crash safety, the write-ahead discipline of
  sends, the behaviour after a storage failure, and the healing of a lost credential attach.
\<close>

section \<open>Histories\<close>

text \<open>The handle, the operations, permits and connection attempts the process holds.\<close>

type_synonym ('s, 't) participant_system =
  "('s, 't) RemoteParticipantHandle \<times> RemoteParticipantOperation multiset \<times> RemoteReconnectPermit multiset
    \<times> ReconnectInProgressAttempt multiset"

fun gained :: "('a \<Rightarrow> 'b multiset) \<Rightarrow> (RemoteParticipantError, 'a) result \<Rightarrow> 'b multiset" where
  "gained f (Inr x) = f x"
| "gained f (Inl _) = {#}"

text \<open>What a failed restore leaves: a store and no aggregate.\<close>

definition dead_handle :: "'s \<Rightarrow> 't \<Rightarrow> ('s, 't) RemoteParticipantHandle" where
  "dead_handle s t = \<lparr>rps_aggregate = None, rps_correlation = None, rps_reconnect_attempt = None, rps_store = s,
    rps_unavailable = None, rph_transport = t\<rparr>"

text \<open>The source takes the lock once per critical section. A receive reads the transport before it locks, and a
  reconnect and a recovery of a lost attach lock several times; so besides the whole methods there are steps for the
  parts: \<open>transport_changes\<close> and \<open>deliver\<close> for a receive, \<open>redeem\<close> and \<open>settle\<close> for a reconnect, and the resolve, record,
  send and receive steps for a recovery. Other calls may come between them.\<close>

inductive participant_step :: "'s resume_store \<Rightarrow> 't ParticipantRemoteTransport \<Rightarrow> ('s \<Rightarrow> u8 list option)
    \<Rightarrow> ('s, 't) participant_system \<Rightarrow> ('s, 't) participant_system \<Rightarrow> bool"
  for store transport content where
  record_operation: "\<lbrakk>request_ok request; handle_record_operation store request h = (r, h')\<rbrakk>
    \<Longrightarrow> participant_step store transport content (h, ops, ps, ts) (h', gained recorded_operations r + ops, ps, ts)"
| send_operation: "handle_send_operation store transport op h = (r, h')
    \<Longrightarrow> participant_step store transport content (h, add_mset op ops, ps, ts) (h', ops, gained sent_permits r + ps, ts)"
| receive: "handle_receive store transport h = (r, h')
    \<Longrightarrow> participant_step store transport content (h, ops, ps, ts) (h', ops, ps, ts)"
| receive_within: "handle_receive_within store transport budget h = (r', h')
    \<Longrightarrow> participant_step store transport content (h, ops, ps, ts) (h', ops, ps, ts)"
| deliver: "\<lbrakk>frame_ok (ptf_frame frame); classify_inbound store frame h = (r, h')\<rbrakk>
    \<Longrightarrow> participant_step store transport content (h, ops, ps, ts) (h', ops, ps, ts)"
| recover_expected: "handle_recover_expected_operation h = (r, h')
    \<Longrightarrow> participant_step store transport content (h, ops, ps, ts) (h', gained recovered_operations r + ops, ps, ts)"
| resolve_operation: "handle_resolve_lost_operation_authority store h = (r, h')
    \<Longrightarrow> participant_step store transport content (h, ops, ps, ts) (h', ops, ps, ts)"
| recover_attach: "recover_lost_credential_attach store transport h = (r, h')
    \<Longrightarrow> participant_step store transport content (h, ops, ps, ts) (h', ops, gained recovery_permits r + ps, ts)"
| peek_attach: "peek_lost_credential_attach h = (r, h')
    \<Longrightarrow> participant_step store transport content (h, ops, ps, ts) (h', ops, ps, ts)"
| take_abandonment: "handle_take_restored_operation_abandonment store h = (r, h')
    \<Longrightarrow> participant_step store transport content (h, ops, ps, ts) (h', ops, ps, ts)"
| transport_fate: "handle_record_transport_fate store h = (r, h')
    \<Longrightarrow> participant_step store transport content (h, ops, ps, ts) (h', ops, gained outcome_permits r + ps, ts)"
| online: "handle_record_online_transition store h = (r, h')
    \<Longrightarrow> participant_step store transport content (h, ops, ps, ts) (h', ops, gained outcome_permits r + ps, ts)"
| explicit: "handle_record_explicit_reconnect store h = (r, h')
    \<Longrightarrow> participant_step store transport content (h, ops, ps, ts) (h', ops, gained outcome_permits r + ps, ts)"
| recover_permit: "handle_recover_reconnect_permit h = (r, h')
    \<Longrightarrow> participant_step store transport content (h, ops, ps, ts) (h', ops, gained recovered_permits r + ps, ts)"
| resolve_reconnect: "handle_resolve_lost_reconnect_authority store h = (r, h')
    \<Longrightarrow> participant_step store transport content (h, ops, ps, ts) (h', ops, ps, ts)"
| redeem: "reconnect_redeem store permit h = (r, h')
    \<Longrightarrow> participant_step store transport content (h, ops, add_mset permit ps, ts)
      (h', ops, gained returned_permits r + ps, gained redeemed_attempts r + ts)"
| settle: "reconnect_settle store t result h = (r, h')
    \<Longrightarrow> participant_step store transport content (h, ops, ps, add_mset t ts) (h', ops, ps, ts)"
| transport_loss: "record_established_transport_loss store h = (r, h')
    \<Longrightarrow> participant_step store transport content (h, ops, ps, ts)
      (h', ops, gained (\<lambda>outcome. outcome_permits (tlo_reconnect outcome)) r + ps, ts)"
| replay: "replay_detach store transport h = (r, h')
    \<Longrightarrow> participant_step store transport content (h, ops, ps, ts) (h', ops, gained replayed_permits r + ps, ts)"
| apply_attach: "handle_apply_attach store attach h = (r, h')
    \<Longrightarrow> participant_step store transport content (h, ops, ps, ts) (h', ops, ps, ts)"
| apply_leave: "handle_apply_leave_durable store leave h = (r, h')
    \<Longrightarrow> participant_step store transport content (h, ops, ps, ts) (h', ops, ps, ts)"
| apply_outcome: "\<lbrakk>server_value_ok (outcome_value outcome); handle_apply_detach_outcome store outcome h = (r, h')\<rbrakk>
    \<Longrightarrow> participant_step store transport content (h, ops, ps, ts) (h', ops, ps, ts)"
| transport_changes: "participant_step store transport content (h, ops, ps, ts) (h\<lparr>rph_transport := t'\<rparr>, ops, ps, ts)"
| drop_operation: "participant_step store transport content (h, add_mset op ops, ps, ts) (h, ops, ps, ts)"
| drop_permit: "participant_step store transport content (h, ops, add_mset permit ps, ts) (h, ops, ps, ts)"
| drop_attempt: "participant_step store transport content (h, ops, ps, add_mset t ts) (h, ops, ps, ts)"
| restart: "\<lbrakk>content s = content (rps_store h); content s = Some bytes;
      handle_restore t' store s bytes = (Inr h', s')\<rbrakk>
    \<Longrightarrow> participant_step store transport content (h, ops, ps, ts) (h', {#}, {#}, {#})"
| restart_fails: "\<lbrakk>content s = content (rps_store h); content s = Some bytes;
      handle_restore t' store s bytes = (Inl e, s')\<rbrakk>
    \<Longrightarrow> participant_step store transport content (h, ops, ps, ts) (dead_handle s' t', {#}, {#}, {#})"

inductive participant_reachable :: "'s resume_store \<Rightarrow> 't ParticipantRemoteTransport \<Rightarrow> ('s \<Rightarrow> u8 list option)
    \<Rightarrow> ('s, 't) participant_system \<Rightarrow> bool"
  for store transport content where
  start: "handle_new t store s = (Inr h, s') \<Longrightarrow> participant_reachable store transport content (h, {#}, {#}, {#})"
| step: "\<lbrakk>participant_reachable store transport content s; participant_step store transport content s t\<rbrakk>
    \<Longrightarrow> participant_reachable store transport content t"

section \<open>The invariant over histories\<close>

fun participant_inv :: "('s \<Rightarrow> u8 list option) \<Rightarrow> ('s, 't) participant_system \<Rightarrow> bool" where
  "participant_inv content (h, ops, ps, ts) \<longleftrightarrow> handle_inv content ops ps ts h"

text \<open>A triple whose success adds what it returns and whose error adds nothing keeps the invariant.\<close>

lemma triple_gained:
  assumes "triple P m Q (handle_inv content ops ps ts)"
    and "\<And>x w. Q x w \<Longrightarrow> handle_inv content (f x + ops) (g x + ps) (k x + ts) w"
    and "P h" "m h = (r, h')"
  shows "handle_inv content (gained f r + ops) (gained g r + ps) (gained k r + ts) h'"
  using tripleD [OF assms(1,3)] assms(2,4) by (cases r) simp_all

lemma gained_none [simp]: "gained (\<lambda>_. {#}) r = {#}"
  by (cases r) simp_all

lemmas triple_keeps = triple_gained [where f = "\<lambda>_. {#}" and g = "\<lambda>_. {#}" and k = "\<lambda>_. {#}", simplified]
lemmas triple_operations = triple_gained [where g = "\<lambda>_. {#}" and k = "\<lambda>_. {#}", simplified]
lemmas triple_permits = triple_gained [where f = "\<lambda>_. {#}" and k = "\<lambda>_. {#}", simplified]
lemmas triple_reconnects = triple_gained [where f = "\<lambda>_. {#}", simplified]

lemma from_aggregate_inv:
  assumes store: "durable_store store content" and a: "aggregate_ok a" "permits_issued a"
    and made: "from_aggregate t store s a = (r, s')"
  shows "case r of Inr h \<Rightarrow> handle_inv content {#} {#} {#} h
    | Inl e \<Rightarrow> content s' = content s \<or> (\<exists>q. resume_record a = Ok q \<and> content s' = Some (crr_canonical q))"
proof (cases "resume_record a")
  case (Inl e)
  then show ?thesis using made by (auto simp: from_aggregate_def persist_def)
next
  case (Inr q)
  obtain p s'' where p: "store s (crr_canonical q) = (p, s'')" by (cases "store s (crr_canonical q)")
  then have s: "is_ok p \<Longrightarrow> content s'' = Some (crr_canonical q)"
    "\<not> is_ok p \<Longrightarrow> content s'' = content s \<or> content s'' = Some (crr_canonical q)"
    using store unfolding durable_store_def by blast+
  have "stored_ok (Some \<lparr>crr_canonical = crr_canonical q\<rparr>)" using a Inr by (cases q) (auto simp: stored_ok_def)
  then show ?thesis using made s Inr a p
    by (cases p) (auto simp: from_aggregate_def persist_def handle_inv_def backdrop_def operations_typed_def held_def
        slot_handles_def running_ok_def handles_ok_def reconnects_ok_def is_ok_def)
qed

lemma stored_restores:
  assumes "stored_ok (Some \<lparr>crr_canonical = bytes\<rparr>)"
  shows "\<exists>a. decode_canonical bytes = Ok \<lparr>crr_canonical = bytes\<rparr> \<and> record_restore \<lparr>crr_canonical = bytes\<rparr> = Ok a
    \<and> aggregate_ok a \<and> permits_issued a"
proof -
  obtain b where b: "aggregate_ok b" "permits_issued b" "resume_record b = Ok \<lparr>crr_canonical = bytes\<rparr>"
    using assms by (auto simp: stored_ok_def)
  then have "record_restore \<lparr>crr_canonical = bytes\<rparr> = Ok (crash b)"
    using lpcr.load_save [of b] by (simp add: save_record_iff load_record_iff)
  moreover from this have "decode_canonical bytes = Ok \<lparr>crr_canonical = bytes\<rparr>"
    by (auto simp: record_restore_def decode_canonical_def split: sum.splits)
  ultimately show ?thesis using b crash_ok permits_issued_crash by blast
qed

lemma participant_restart:
  assumes store: "durable_store store content" and inv: "handle_inv content ops ps ts h"
    and s: "content s = content (rps_store h)" "content s = Some bytes"
    and restored: "handle_restore t store s bytes = (r, s')"
  shows "case r of Inr h' \<Rightarrow> handle_inv content {#} {#} {#} h' | Inl e \<Rightarrow> handle_inv content {#} {#} {#} (dead_handle s' t)"
proof -
  have stored: "stored_ok (Some \<lparr>crr_canonical = bytes\<rparr>)"
    using inv s by (simp add: handle_inv_def backdrop_def) (metis option.simps(9))
  obtain a where a: "decode_canonical bytes = Ok \<lparr>crr_canonical = bytes\<rparr>"
    "record_restore \<lparr>crr_canonical = bytes\<rparr> = Ok a" "aggregate_ok a" "permits_issued a"
    using stored_restores [OF stored] by blast
  then have made: "from_aggregate t store s a = (r, s')" using restored by (simp add: handle_restore_def)
  have again: "stored_ok (Some \<lparr>crr_canonical = crr_canonical q\<rparr>)" if "resume_record a = Ok q" for q
    using that a by (cases q) (auto simp: stored_ok_def)
  show ?thesis
  proof (cases r)
    case (Inl e)
    from from_aggregate_inv [OF store a(3,4) made] have "stored_ok (map_option (\<lambda>bytes. \<lparr>crr_canonical = bytes\<rparr>) (content s'))
        \<and> content s' \<noteq> None"
      using stored s(2) again by (auto simp: Inl)
    then show ?thesis by (auto simp: Inl handle_inv_def backdrop_def dead_handle_def operations_typed_def)
  qed (use from_aggregate_inv [OF store a(3,4) made] in simp)
qed

lemma participant_step_inv:
  assumes step: "participant_step store transport content s t" and inv: "participant_inv content s"
    and store: "durable_store store content" and typed: "typed_transport transport"
  shows "participant_inv content t"
  using step inv
proof (induction rule: participant_step.induct)
  case (record_operation request h r h' ops ps ts)
  then show ?case using triple_operations [OF handle_record_operation_triple [OF store]] by auto
next
  case (send_operation op h r h' ops ps ts)
  then show ?case using triple_permits [OF handle_send_operation_triple [OF store]] by auto
next
  case (receive h r h' ops ps ts)
  then show ?case using triple_keeps [OF handle_receive_triple [OF store typed]] by auto
next
  case (receive_within budget h r' h' ops ps ts)
  then show ?case using triple_keeps [OF handle_receive_within_triple [OF store typed]] by auto
next
  case (deliver frame h r h' ops ps ts)
  then show ?case by (auto intro: triple_keeps [OF classify_inbound_triple [OF store]])
next
  case (recover_expected h r h' ops ps ts)
  then show ?case using triple_operations [OF handle_recover_expected_operation_triple] by auto
next
  case (resolve_operation h r h' ops ps ts)
  then show ?case by (auto intro: triple_keeps [OF handle_resolve_lost_operation_authority_triple [OF store]])
next
  case (recover_attach h r h' ops ps ts)
  then show ?case using triple_permits [OF recover_lost_credential_attach_triple [OF store typed]] by auto
next
  case (peek_attach h r h' ops ps ts)
  then show ?case using triple_keeps [OF peek_triples(1)] by auto
next
  case (take_abandonment h r h' ops ps ts)
  then show ?case using triple_keeps [OF handle_take_restored_operation_abandonment_triple [OF store]] by auto
next
  case (transport_fate h r h' ops ps ts)
  then show ?case using triple_permits [OF record_connection_fate_triple [OF store]]
    by (auto simp: handle_record_transport_fate_def)
next
  case (online h r h' ops ps ts)
  then show ?case using triple_permits [OF record_fresh_reconnect_triple [OF store]]
    by (auto simp: handle_record_online_transition_def record_online_transition_def)
next
  case (explicit h r h' ops ps ts)
  then show ?case using triple_permits [OF record_fresh_reconnect_triple [OF store]]
    by (auto simp: handle_record_explicit_reconnect_def record_explicit_reconnect_def)
next
  case (recover_permit h r h' ops ps ts)
  then show ?case using triple_permits [OF handle_recover_reconnect_permit_triple] by auto
next
  case (resolve_reconnect h r h' ops ps ts)
  then show ?case using triple_keeps [OF handle_resolve_lost_reconnect_authority_triple [OF store]] by auto
next
  case (redeem permit h r h' ops ps ts)
  then show ?case using triple_reconnects [OF reconnect_redeem_triple [OF store]] by auto
next
  case (settle t result h r h' ops ps ts)
  then show ?case by (auto intro: triple_keeps [OF reconnect_settle_triple [OF store]])
next
  case (transport_loss h r h' ops ps ts)
  then show ?case using triple_permits [OF record_established_transport_loss_triple [OF store]] by auto
next
  case (replay h r h' ops ps ts)
  then show ?case using triple_permits [OF replay_detach_triple [OF store]] by auto
next
  case (apply_attach attach h r h' ops ps ts)
  then show ?case using triple_keeps [OF handle_apply_attach_triple [OF store]] by auto
next
  case (apply_leave leave h r h' ops ps ts)
  then show ?case using triple_keeps [OF handle_apply_leave_durable_triple [OF store]] by auto
next
  case (apply_outcome outcome h r h' ops ps ts)
  then show ?case using triple_keeps [OF handle_apply_detach_outcome_triple [OF store]] by auto
next
  case (restart s h bytes t' h' s' ops ps ts)
  then show ?case using participant_restart [OF store, of ops ps ts h s bytes t' "Inr h'" s'] by simp
next
  case (restart_fails s h bytes t' e s' ops ps ts)
  then show ?case using participant_restart [OF store, of ops ps ts h s bytes t' "Inl e" s'] by simp
qed (auto intro: handle_inv_drop_operation handle_inv_drop_permit handle_inv_drop_attempt)

lemma participant_reachable_inv:
  assumes "participant_reachable store transport content s" "durable_store store content" "typed_transport transport"
  shows "participant_inv content s"
  using assms(1)
proof (induction rule: participant_reachable.induct)
  case (start t s h s')
  have "permits_issued ClientParticipantAggregate_new"
    by (simp add: permits_issued_def ClientParticipantAggregate_new_def ReconnectAggregate_new_def)
  from from_aggregate_inv [OF assms(2) aggregate_new_ok this start [unfolded handle_new_def]] show ?case by simp
next
  case (step s t)
  then show ?case using participant_step_inv assms(2,3) by blast
qed

section \<open>The write-ahead discipline\<close>

text \<open>What a restart remembers of a request that may have been sent.\<close>

definition remembers :: "ClientParticipantAggregate \<Rightarrow> ClientRequest \<Rightarrow> bool" where
  "remembers a request \<longleftrightarrow>
    (\<exists>e. cpa_expected a = Some e \<and> eo_request e = request \<and> eo_issued e \<and> eo_lost e \<noteq> None)
    \<or> (\<exists>x. cpa_restored_abandonment a = Some x \<and> roa_request x = request \<and> roa_was_issued x)"

lemma crash_remembers:
  assumes "cpa_expected a = Some e" "eo_issued e" "eo_lost e = None"
  shows "remembers (crash a) (eo_request e)"
  using assms by (simp add: remembers_def crash_def restore_facts_def facts_of_def Let_def)

lemma transport_kept:
  "triple (\<lambda>h. rph_transport h = t) (record_connection_fate store)
    (\<lambda>_ h. rph_transport h = t) (\<lambda>h. rph_transport h = t)" for t :: 't
  by (auto simp: triple_def record_connection_fate_def sdkThen_def take_aggregate_def persist_and_seat_def
      persist_retaining_def persist_bytes_def brick_def seat_def modify_def sdkReturn_def sdkFail_def case_prod_beta Let_def
      split: option.splits sum.splits)

lemma fate_transport_kept:
  "rph_transport (snd (record_operation_transport_fate a c h)) = rph_transport h"
  by (auto simp: record_operation_transport_fate_def split: ExpectedOperationFateDecision.split DetachTransportFateDecision.split)

text \<open>Sending hands the request to the transport once, after a successful persist, or not at all.\<close>

lemma send_after_persist:
  assumes h: "rps_aggregate h = Some a" and ahead: "rpo_durability op = OperationDurability.WriteAhead"
    and sent: "handle_send_operation store transport op h = (r, h')"
  shows "rph_transport h' = rph_transport h \<or> (\<exists>q s. resume_record a = Ok q \<and> store (rps_store h) (crr_canonical q) = (Inr (), s)
    \<and> rph_transport h' = snd (send_participant transport (rph_transport h) (epo_request (rpo_operation op))))"
proof (cases "resume_record a")
  case (Inl e)
  then show ?thesis using h ahead sent
    by (auto simp: handle_send_operation_def sdkThen_def take_aggregate_def persist_retaining_def seat_def modify_def sdkFail_def)
next
  case (Inr q)
  obtain p s where p: "store (rps_store h) (crr_canonical q) = (p, s)" by (cases "store (rps_store h) (crr_canonical q)")
  obtain v t where v: "send_participant transport (rph_transport h) (epo_request (rpo_operation op)) = (v, t)"
    by (cases "send_participant transport (rph_transport h) (epo_request (rpo_operation op))")
  let ?h = "h\<lparr>rps_aggregate := None, rps_store := s, rph_transport := t\<rparr>"
  let ?c = "\<lparr>crc_authorization = epo_authorization (rpo_operation op)\<rparr>"
  show ?thesis
  proof (cases p)
    case (Inl e)
    then show ?thesis using h ahead sent p Inr
      by (auto simp: handle_send_operation_def sdkThen_def take_aggregate_def persist_retaining_def persist_bytes_def brick_def)
  next
    case (Inr u)
    obtain f g where f: "record_operation_transport_fate a ?c ?h = (f, g)" by (cases "record_operation_transport_fate a ?c ?h")
    then have g: "rph_transport g = t" using fate_transport_kept [of a ?c ?h] by simp
    from tripleD [OF transport_kept [of t store], of g] g f sent h ahead p v Inr \<open>resume_record a = Ok q\<close>
    have "rph_transport h' = t"
      by (cases v) (auto simp: handle_send_operation_def sdkThen_def take_aggregate_def persist_retaining_def persist_bytes_def
          sdkReturn_def operation_into_request_def transport_send_def modify_def seat_def Let_def split: sum.splits prod.splits)
    then show ?thesis using p v Inr \<open>resume_record a = Ok q\<close> by (cases u) auto
  qed
qed

section \<open>Reopening the store\<close>

text \<open>A stored record restores, and the restored aggregate can be persisted again.\<close>

lemma stored_reopens:
  assumes "stored_ok (Some \<lparr>crr_canonical = bytes\<rparr>)"
  shows "\<exists>a. decode_canonical bytes = Ok \<lparr>crr_canonical = bytes\<rparr> \<and> record_restore \<lparr>crr_canonical = bytes\<rparr> = Ok a
    \<and> aggregate_ok a \<and> (\<exists>q. resume_record a = Ok q)"
proof -
  obtain b where b: "aggregate_ok b" "resume_record b = Ok \<lparr>crr_canonical = bytes\<rparr>"
    using assms by (auto simp: stored_ok_def)
  then have "record_restore \<lparr>crr_canonical = bytes\<rparr> = Ok (crash b)"
    using lpcr.load_save [of b] by (simp add: save_record_iff load_record_iff)
  moreover have "\<exists>q. resume_record (crash b) = Ok q"
    using b(2) resume_record_iff [OF b(1)] resume_record_iff [OF crash_ok [OF b(1)]] crash_frames_fit by blast
  ultimately show ?thesis using stored_restores [OF assms] by auto
qed

lemma restore_or_storage:
  assumes "decode_canonical bytes = Ok \<lparr>crr_canonical = bytes\<rparr>" "record_restore \<lparr>crr_canonical = bytes\<rparr> = Ok a"
    and "resume_record a = Ok q"
  shows "case handle_restore t store s bytes of
      (Inr h, _) \<Rightarrow> rps_aggregate h = Some a \<and> rps_correlation h = None \<and> rps_unavailable h = None
    | (Inl e, _) \<Rightarrow> (\<exists>error. e = Storage error)"
  using assms by (auto simp: handle_restore_def from_aggregate_def persist_def split: prod.split sum.split)

section \<open>A sample deployment\<close>

text \<open>A store that always succeeds and a transport that delivers one scripted answer and logs what it sends, and the states
  they drive the handle through.\<close>

definition sample_store :: "u8 list option resume_store" where
  "sample_store s bytes = (Inr (), Some bytes)"

definition sample_transport :: "ServerValue \<Rightarrow> ClientRequest list ParticipantRemoteTransport" where
  "sample_transport x =
    \<lparr>send_participant = (\<lambda>t request. (Inr \<lparr>prp_connection_id = 1, prp_attempt_id = 1\<rparr>, t @ [request])),
     receive_participant = (\<lambda>t. (Inr \<lparr>ptf_frame = ServerValueFrame x, ptf_provenance = \<lparr>prp_connection_id = 1, prp_attempt_id = 1\<rparr>\<rparr>, t)),
     receive_participant_within = (\<lambda>t budget. (Inr None, t)),
     reconnect_participant = (\<lambda>t. (Inr \<lparr>prp_connection_id = 2, prp_attempt_id = 2\<rparr>, t))\<rparr>"

lemma sample_durable: "durable_store sample_store id"
  by (simp add: durable_store_def sample_store_def is_ok_def)

lemma sample_typed: "server_value_ok x \<Longrightarrow> typed_transport (sample_transport x)"
  by (auto simp: typed_transport_def sample_transport_def)

definition sample_handle :: "ClientParticipantAggregate \<Rightarrow> u8 list option \<Rightarrow> (u8 list option, ClientRequest list) RemoteParticipantHandle" where
  "sample_handle a s = \<lparr>rps_aggregate = Some a, rps_correlation = None, rps_reconnect_attempt = None, rps_store = s,
    rps_unavailable = None, rph_transport = []\<rparr>"

lemma sample_opened:
  "\<exists>s. participant_reachable sample_store transport id (sample_handle ClientParticipantAggregate_new s, {#}, {#}, {#})"
proof -
  have "frames_fit ClientParticipantAggregate_new"
    by (simp add: frames_fit_def ClientParticipantAggregate_new_def SdkDetachReplayAggregate_new_def)
  then obtain q where "resume_record ClientParticipantAggregate_new = Ok q"
    using resume_record_iff [OF aggregate_new_ok] by blast
  then have "handle_new [] sample_store None =
      (Inr (sample_handle ClientParticipantAggregate_new (Some (crr_canonical q))), Some (crr_canonical q))"
    by (simp add: handle_new_def from_aggregate_def persist_def sample_store_def sample_handle_def)
  from participant_reachable.start [OF this] show ?thesis by blast
qed

definition sample_operation :: RemoteParticipantOperation where
  "sample_operation = \<lparr>rpo_operation = \<lparr>epo_request = sample_enrollment, epo_authorization = 1\<rparr>,
    rpo_durability = OperationDurability.WriteAhead\<rparr>"

lemma sample_enrolling_fits: "frames_fit (sample_aggregate ClientBindingState.Unbound 1 (Some sample_enrollment) issued)"
  by (simp add: frames_fit_def frame_fits_def sample_aggregate_def sample_enrollment_def sample_token_def len_bytes_def word_bytes)

lemma sample_enrolling_ok: "aggregate_ok (sample_aggregate ClientBindingState.Unbound 1 (Some sample_enrollment) True)"
  using reachable_ok [OF sample_enrolling] by (simp add: system_ok_def running_ok_def sample_system_def)

lemma sample_pending:
  "record_operation ClientParticipantAggregate_new sample_enrollment =
    Pending \<lparr>por_successor = sample_aggregate ClientBindingState.Unbound 1 (Some sample_enrollment) False,
      por_operation = \<lparr>epo_request = sample_enrollment, epo_authorization = 1\<rparr>, por_prior_replay = None\<rparr>"
  unfolding sample_new by (rule sample_record_operation) (simp_all add: sample_enrollment_def accepts_request_def checked_add_def)

lemma sample_enrollment_ok: "request_ok sample_enrollment"
  by (simp add: sample_enrollment_def sample_token_def TOKEN_LEN_def)

lemma sample_pending_record:
  "\<exists>q. resume_record (sample_aggregate ClientBindingState.Unbound 1 (Some sample_enrollment) False) = Ok q"
proof -
  have "aggregate_ok (sample_aggregate ClientBindingState.Unbound 1 (Some sample_enrollment) False)"
    using record_operation_pending [OF sample_pending aggregate_new_ok sample_enrollment_ok] by simp
  then show ?thesis using resume_record_iff sample_enrolling_fits by blast
qed

lemma sample_recorded:
  "\<exists>s. participant_reachable sample_store transport id
    (sample_handle (sample_aggregate ClientBindingState.Unbound 1 (Some sample_enrollment) True) s, {#sample_operation#}, {#}, {#})"
proof -
  let ?a = "sample_aggregate ClientBindingState.Unbound 1 (Some sample_enrollment)"
  obtain s where start: "participant_reachable sample_store transport id (sample_handle ClientParticipantAggregate_new s, {#}, {#}, {#})"
    using sample_opened by blast
  obtain q where q: "resume_record (?a False) = Ok q" using sample_pending_record by blast
  let ?h = "sample_handle (?a True) (Some (crr_canonical q))"
  have "handle_record_operation sample_store sample_enrollment (sample_handle ClientParticipantAggregate_new s) =
      (Inr (RemoteOperationRecordOutcome.Recorded sample_operation), ?h)"
    using sample_pending q
    by (simp add: handle_record_operation_def sdkThen_def take_aggregate_def sample_handle_def commit_resume_record_eq
        pending_commit_def persist_bytes_def sample_store_def seat_def modify_def sdkReturn_def commit_into_parts_def
        mark_issued_def sample_aggregate_def sample_operation_def Let_def) (simp add: sample_enrollment_def)
  from participant_reachable.step [OF start participant_step.record_operation [OF sample_enrollment_ok this]]
  show ?thesis by auto
qed

section \<open>Claims\<close>

text \<open>C2: Crash safety of the remote participant handle. Through every sequence of method calls, dropped
  handles, transport changes, storage failures, crashes and restores, the stored bytes exist, decode and restore to
  a well-formed aggregate, so that reopening them succeeds or reports the store's own error; and while the aggregate
  is seated it is well formed, with at most one live response authority and one reconnect authority.\<close>

theorem participant_crash_safe:
  assumes "durable_store store content" "typed_transport transport"
    and "participant_reachable store transport content (h, ops, ps, ts)"
  shows "(\<exists>bytes a. content (rps_store h) = Some bytes \<and> decode_canonical bytes = Ok \<lparr>crr_canonical = bytes\<rparr>
      \<and> record_restore \<lparr>crr_canonical = bytes\<rparr> = Ok a \<and> aggregate_ok a
      \<and> (\<forall>t s. case handle_restore t store s bytes of
          (Inr h', _) \<Rightarrow> rps_aggregate h' = Some a \<and> rps_correlation h' = None \<and> rps_unavailable h' = None
        | (Inl e, _) \<Rightarrow> (\<exists>error. e = Storage error)))
    \<and> (\<forall>a. rps_aggregate h = Some a \<longrightarrow>
        aggregate_ok a \<and> size (live_handles (held h ops)) \<le> 1 \<and> size ps + size ts \<le> 1)"
proof -
  have inv: "handle_inv content ops ps ts h" using participant_reachable_inv [OF assms(3,1,2)] by simp
  then obtain bytes where bytes: "content (rps_store h) = Some bytes" "stored_ok (Some \<lparr>crr_canonical = bytes\<rparr>)"
    by (auto simp: handle_inv_def backdrop_def)
  from stored_reopens [OF bytes(2)] obtain a q where a: "decode_canonical bytes = Ok \<lparr>crr_canonical = bytes\<rparr>"
    "record_restore \<lparr>crr_canonical = bytes\<rparr> = Ok a" "aggregate_ok a" "resume_record a = Ok q" by blast
  have "aggregate_ok b \<and> size (live_handles (held h ops)) \<le> 1 \<and> size ps + size ts \<le> 1" if "rps_aggregate h = Some b" for b
    using inv that by (auto simp: handle_inv_def running_ok_def handles_ok_def reconnects_ok_def)
  then show ?thesis by (intro conjI exI [of _ bytes] exI [of _ a] allI bytes(1) a(1-3) restore_or_storage [OF a(1,2,4)]) blast
qed

theorem participant_crash_safe_witness:
  "\<exists>s bytes a. participant_reachable sample_store (sample_transport sample_bound) id
      (sample_handle (sample_aggregate ClientBindingState.Unbound 1 (Some sample_enrollment) True) s, {#sample_operation#}, {#}, {#})
    \<and> s = Some bytes \<and> record_restore \<lparr>crr_canonical = bytes\<rparr> = Ok a \<and> aggregate_ok a"
proof -
  let ?h = "sample_handle (sample_aggregate ClientBindingState.Unbound 1 (Some sample_enrollment) True)"
  obtain s where s: "participant_reachable sample_store (sample_transport sample_bound) id (?h s, {#sample_operation#}, {#}, {#})"
    using sample_recorded by blast
  moreover have "\<exists>bytes a. s = Some bytes \<and> record_restore \<lparr>crr_canonical = bytes\<rparr> = Ok a \<and> aggregate_ok a"
    using participant_crash_safe [OF sample_durable sample_typed [OF sample_bound_ok] s] by (auto simp: sample_handle_def)
  ultimately show ?thesis by blast
qed

text \<open>C3: The write-ahead discipline. Sending a recorded operation leaves the transport untouched, or hands
  it exactly the operation's request after a persist that succeeded, whose bytes restore to an aggregate that
  remembers the request as possibly sent, whatever the outcome of the send and of the bookkeeping after it.\<close>

theorem send_is_write_ahead:
  assumes "durable_store store content" "typed_transport transport"
    and "participant_reachable store transport content (h, add_mset op ops, ps, ts)"
    and "rpo_durability op = OperationDurability.WriteAhead" "handle_send_operation store transport op h = (r, h')"
  shows "rph_transport h' = rph_transport h
    \<or> (\<exists>bytes s a. store (rps_store h) bytes = (Inr (), s) \<and> content s = Some bytes
        \<and> record_restore \<lparr>crr_canonical = bytes\<rparr> = Ok a \<and> remembers a (epo_request (rpo_operation op))
        \<and> rph_transport h' = snd (send_participant transport (rph_transport h) (epo_request (rpo_operation op))))"
proof (cases "rps_aggregate h")
  case None
  then show ?thesis using assms(5) by (simp add: handle_send_operation_def sdkThen_def take_aggregate_def)
next
  case (Some a)
  have inv: "handle_inv content (add_mset op ops) ps ts h" using participant_reachable_inv [OF assms(3,1,2)] by simp
  then have run: "aggregate_ok a" "handles_ok a (held h (add_mset op ops))" and typed: "operations_typed (add_mset op ops)"
    using Some by (auto simp: handle_inv_def backdrop_def running_ok_def)
  have live: "epo_authorization (rpo_operation op) \<noteq> 0" using typed assms(4) by (simp add: operations_typed_def)
  then obtain e where e: "cpa_expected a = Some e" "eo_issued e" "eo_lost e = None"
    "eo_request e = epo_request (rpo_operation op)"
    using run(2) by (auto simp: handles_ok_def held_def backs_def)
  have "record_restore \<lparr>crr_canonical = crr_canonical q\<rparr> = Ok (crash a)" if "resume_record a = Ok q" for q
    using that run(1) lpcr.load_save [of a q] by (cases q) (simp add: save_record_iff load_record_iff)
  moreover have "content s = Some bytes" if "store (rps_store h) bytes = (Inr (), s)" for s bytes
    using assms(1) that by (fastforce simp: durable_store_def is_ok_def)
  ultimately show ?thesis
    using send_after_persist [OF Some assms(4,5)] crash_remembers [OF e(1-3)] e(4) by metis
qed

theorem send_is_write_ahead_witness:
  "\<exists>s bytes a. fst (handle_send_operation sample_store (sample_transport sample_bound) sample_operation
        (sample_handle (sample_aggregate ClientBindingState.Unbound 1 (Some sample_enrollment) True) s))
      = Ok (RemoteParticipantSendOutcome.Sent \<lparr>prp_connection_id = 1, prp_attempt_id = 1\<rparr>)
    \<and> record_restore \<lparr>crr_canonical = bytes\<rparr> = Ok a \<and> remembers a sample_enrollment"
proof -
  let ?a = "sample_aggregate ClientBindingState.Unbound 1 (Some sample_enrollment) True"
  let ?h = "sample_handle ?a"
  obtain s where s: "participant_reachable sample_store (sample_transport sample_bound) id (?h s, {#sample_operation#}, {#}, {#})"
    using sample_recorded by blast
  obtain q where q: "resume_record ?a = Ok q"
    using resume_record_iff [OF sample_enrolling_ok] sample_enrolling_fits by blast
  obtain r h' where sent: "handle_send_operation sample_store (sample_transport sample_bound) sample_operation (?h s) = (r, h')"
    by (cases "handle_send_operation sample_store (sample_transport sample_bound) sample_operation (?h s)")
  then have r: "r = Ok (RemoteParticipantSendOutcome.Sent \<lparr>prp_connection_id = 1, prp_attempt_id = 1\<rparr>)"
    and t: "rph_transport h' = [sample_enrollment]"
    using q by (auto simp: handle_send_operation_def sdkThen_def take_aggregate_def sample_handle_def persist_retaining_def
        persist_bytes_def sample_store_def sdkReturn_def operation_into_request_def transport_send_def sample_transport_def
        sample_operation_def modify_def seat_def)
  have "rpo_durability sample_operation = OperationDurability.WriteAhead" by (simp add: sample_operation_def)
  from send_is_write_ahead [OF sample_durable sample_typed [OF sample_bound_ok] s this sent] t
  have "\<exists>bytes a. record_restore \<lparr>crr_canonical = bytes\<rparr> = Ok a \<and> remembers a sample_enrollment"
    by (auto simp: sample_handle_def sample_operation_def)
  then show ?thesis using sent r by (intro exI [of _ s]) auto
qed

section \<open>Storage failures\<close>

definition bricked :: "SdkError \<Rightarrow> ('s, 'z) RemoteParticipantState_scheme \<Rightarrow> bool" where
  "bricked error w \<longleftrightarrow> rps_aggregate w = None \<and> rps_unavailable w = Some error"

text \<open>\<open>attributes P m Q\<close>: from \<open>P\<close>, a storage error of \<open>m\<close> bricks the handle with its cause, and a success
  establishes \<open>Q\<close>.\<close>

definition attributes ::
  "(('s, 'z) RemoteParticipantState_scheme \<Rightarrow> bool) \<Rightarrow> (('s, 'z) RemoteParticipantState_scheme, 'a) sdk
    \<Rightarrow> ('a \<Rightarrow> ('s, 'z) RemoteParticipantState_scheme \<Rightarrow> bool) \<Rightarrow> bool" where
  "attributes P m Q \<longleftrightarrow> (\<forall>w. P w \<longrightarrow>
    (case m w of (Inl e, w') \<Rightarrow> (\<forall>error. e = Storage error \<longrightarrow> bricked error w') | (Inr x, w') \<Rightarrow> Q x w'))"

abbreviation taken :: "('s, 'z) RemoteParticipantState_scheme \<Rightarrow> bool" where
  "taken w \<equiv> rps_aggregate w = None"

abbreviation anything :: "('s, 'z) RemoteParticipantState_scheme \<Rightarrow> bool" where
  "anything w \<equiv> True"

named_theorems attribution \<open>how a state transformer attributes a storage failure\<close>

lemma attributes_then: "attributes P m R \<Longrightarrow> (\<And>x. attributes (R x) (f x) Q) \<Longrightarrow> attributes P (sdkThen m f) Q"
  by (fastforce simp: attributes_def sdkThen_def split: prod.splits sum.splits)

lemma attributes_weaken: "attributes P m Q \<Longrightarrow> (\<And>w. P' w \<Longrightarrow> P w) \<Longrightarrow> (\<And>x w. Q x w \<Longrightarrow> Q' x w) \<Longrightarrow> attributes P' m Q'"
  by (fastforce simp: attributes_def split: prod.splits sum.splits)

lemma attributes_return [attribution]: "attributes P (sdkReturn x) (\<lambda>_. P)"
  by (simp add: attributes_def sdkReturn_def)

lemma attributes_seat [attribution]: "attributes P (seat a) (\<lambda>_. anything)"
  by (simp add: attributes_def seat_def modify_def)

lemma attributes_take [attribution]: "attributes P take_aggregate (\<lambda>_. taken)"
  by (simp add: attributes_def take_aggregate_def split: option.split)

lemma attributes_persist_bytes [attribution]: "attributes taken (persist_bytes store bytes) (\<lambda>_. taken)"
  by (auto simp: attributes_def persist_bytes_def brick_def bricked_def Let_def split: prod.split sum.split)

lemma attributes_persist_retaining [attribution]: "attributes taken (persist_retaining store a) (\<lambda>_. taken)"
  by (cases "resume_record a")
    (auto simp: attributes_def persist_retaining_def sdkThen_def seat_def modify_def sdkFail_def sdkReturn_def persist_bytes_def
      brick_def bricked_def Let_def split: prod.split sum.split)

lemma attributes_persist_and_seat [attribution]: "attributes taken (persist_and_seat store a) (\<lambda>_. anything)"
  unfolding persist_and_seat_def by (rule attributes_then [OF attributes_persist_retaining attributes_seat])

lemma attributes_checkpoint [attribution]: "attributes P (checkpoint_state store) (\<lambda>_. anything)"
  unfolding checkpoint_state_def by (rule attributes_then [OF attributes_take attributes_persist_and_seat])

lemma attributes_connection_fate [attribution]: "attributes P (record_connection_fate store) (\<lambda>_. anything)"
  unfolding record_connection_fate_def
  by (auto simp: case_prod_beta Let_def intro!: attributes_then attribution)

lemma attributes_modify: "(\<And>w. P w \<Longrightarrow> Q () (f w)) \<Longrightarrow> attributes P (modify f) Q"
  by (simp add: attributes_def modify_def)

lemma attributes_fail: "(\<And>error. e \<noteq> Storage error) \<Longrightarrow> attributes P (sdkFail e) Q"
  by (simp add: attributes_def sdkFail_def)

lemma attributes_let:
  "(\<And>w. P w \<Longrightarrow> R (snd (f w))) \<Longrightarrow> (\<And>x. attributes R (m x) Q) \<Longrightarrow> attributes P (\<lambda>w. let (x, w) = f w in m x w) Q"
  by (auto simp: attributes_def case_prod_beta)

lemma attributes_record [attribution]: "attributes anything (handle_record_operation store request) (\<lambda>_. anything)"
  unfolding handle_record_operation_def
  by (rule attributes_then [OF attributes_take])
    (auto simp: case_prod_beta Let_def
      split: ClientOperationRecordDecision.split sum.split
      intro!: attributes_fail attributes_then [OF attributes_persist_bytes] attributes_then [OF attributes_seat] attributes_return)

lemma attributes_resolve [attribution]: "attributes anything (handle_resolve_lost_operation_authority store) (\<lambda>_. anything)"
  unfolding handle_resolve_lost_operation_authority_def
  by (rule attributes_then [OF attributes_take])
    (auto simp: case_prod_beta Let_def
      intro!: attributes_then [OF attributes_checkpoint] attributes_then [OF attributes_seat] attributes_return)

lemma attributes_resolve_reconnect [attribution]:
  "attributes anything (handle_resolve_lost_reconnect_authority store) (\<lambda>_. anything)"
  unfolding handle_resolve_lost_reconnect_authority_def
  by (rule attributes_then [OF attributes_take])
    (auto simp: case_prod_beta Let_def
      intro!: attributes_then [OF attributes_checkpoint] attributes_then [OF attributes_seat] attributes_return)

lemma attributes_fresh [attribution]: "attributes anything (record_fresh_reconnect store decide) (\<lambda>_. anything)"
  unfolding record_fresh_reconnect_def
  by (rule attributes_then [OF attributes_take])
    (auto simp: case_prod_beta Let_def
      intro!: attributes_then [OF attributes_checkpoint] attributes_then [OF attributes_seat] attributes_return)

lemma attributes_redeem [attribution]: "attributes anything (reconnect_redeem store permit) (\<lambda>_. anything)"
  unfolding reconnect_redeem_def
  by (rule attributes_then [OF attributes_take])
    (auto split: ReconnectAttemptDecision.split
      intro!: attributes_then [OF attributes_persist_and_seat] attributes_then [OF attributes_seat] attributes_return)

lemma attributes_transport_send: "attributes P (transport_send transport request) (\<lambda>_ w. \<exists>t u. P u \<and> w = u\<lparr>rph_transport := t\<rparr>)"
  by (auto simp: attributes_def transport_send_def case_prod_beta Let_def)

lemma attributes_connection_lost: "attributes P (\<lambda>h. let (operation_fate, h) = f h in
    sdkThen (record_connection_fate store) (\<lambda>reconnect. sdkReturn (g operation_fate reconnect)) h) (\<lambda>_. anything)"
  by (rule attributes_let [where R = anything, OF TrueI])
    (rule attributes_then [OF attributes_connection_fate attributes_return])

lemma attributes_send [attribution]: "attributes anything (handle_send_operation store transport op) (\<lambda>_. anything)"
proof -
  have ahead: "attributes taken (if b then persist_retaining store a else sdkReturn a) (\<lambda>_. taken)" for b a
    using attributes_persist_retaining attributes_return by auto
  show ?thesis
    unfolding handle_send_operation_def Let_def
    apply (rule attributes_then [OF attributes_take], rule attributes_then [OF ahead])
    apply (simp add: operation_into_request_def)
    apply (rule attributes_then [OF attributes_transport_send])
    apply (auto split: sum.split intro!: attributes_connection_lost [unfolded Let_def] attributes_then [OF attributes_modify]
        attributes_then [OF attributes_seat] attributes_return)
    done
qed

text \<open>Where only the attribution counts, and the method is a function of its state.\<close>

lemma attributes_any:
  "attributes P m (\<lambda>_. anything) \<longleftrightarrow> (\<forall>w e w'. P w \<longrightarrow> m w = (Err (Storage e), w') \<longrightarrow> bricked e w')"
  by (fastforce simp: attributes_def split: prod.splits sum.splits)

lemmas attributes_anyD = attributes_any [THEN iffD1, rule_format]

lemma attributes_settle [attribution]: "attributes anything (reconnect_settle store t result) (\<lambda>_. anything)"
  unfolding reconnect_settle_def Let_def
  by (rule attributes_then [OF attributes_take])
    (auto split: ReconnectAttemptFateDecision.split intro!: attributes_then [OF attributes_persist_and_seat]
      attributes_then [OF attributes_seat] attributes_then [OF attributes_modify] attributes_return)

lemma attributes_reconnect [attribution]: "attributes anything (handle_reconnect store transport permit) (\<lambda>_. anything)"
  unfolding handle_reconnect_def
  by (rule attributes_then [OF attributes_redeem])
    (auto simp: attributes_any sdkReturn_def split: sum.splits prod.splits intro: attributes_anyD [OF attributes_settle])

lemma attributes_loss [attribution]: "attributes anything (record_established_transport_loss store) (\<lambda>_. anything)"
proof -
  have lost: "attributes anything (sdkThen (\<lambda>_. operation) (\<lambda>operation_fate.
      sdkThen (record_connection_fate store) (\<lambda>reconnect.
      sdkReturn \<lparr>tlo_operation_fate = operation_fate, tlo_reconnect = reconnect\<rparr>))) (\<lambda>_. anything)"
    if "\<And>e w. operation \<noteq> (Err (Storage e), w)" for operation
    by (rule attributes_then [where R = "\<lambda>_. anything"], simp add: attributes_any that,
        rule attributes_then [OF attributes_connection_fate attributes_return])
  show ?thesis
    unfolding attributes_any record_established_transport_loss_def Let_def
    by (intro allI impI) (erule attributes_anyD [OF lost, rotated],
        auto simp: sdkThen_def take_aggregate_def case_prod_beta split: option.splits)
qed

lemma attributes_replay [attribution]: "attributes anything (replay_detach store transport) (\<lambda>_. anything)"
  unfolding replay_detach_def Let_def
  by (rule attributes_then [OF attributes_take])
    (auto simp: attempt_into_request_def split: DetachTransportAttemptDecision.split sum.split
      intro!: attributes_then [OF attributes_persist_retaining] attributes_then [OF attributes_transport_send]
        attributes_connection_lost [unfolded Let_def] attributes_then [OF attributes_seat] attributes_then [OF attributes_modify]
        attributes_return)

lemma attributes_inbound [attribution]: "attributes anything (classify_inbound store frame) (\<lambda>_. anything)"
proof -
  have tail: "attributes taken (sdkThen (persist_and_seat store a) (\<lambda>_. sdkReturn x)) (\<lambda>_. anything)"
    for a and x :: RemoteParticipantInbound
    by (rule attributes_then [OF attributes_persist_and_seat attributes_return])
  have "attributes anything (apply_inbound store x provenance) (\<lambda>_. anything)" for x provenance
    unfolding apply_inbound_def
    by (rule attributes_then [OF attributes_take])
      (auto simp: attributes_any Let_def split: option.splits ClientCorrelatedInboundDecision.splits ClientInboundDecision.splits
        intro: attributes_anyD [OF tail, rotated])
  then show ?thesis
    by (auto simp: classify_inbound_def split: ParticipantFrame.split intro!: attributes_return attributes_fail)
qed

lemma attributes_receive [attribution]: "attributes anything (handle_receive store transport) (\<lambda>_. anything)"
  by (auto simp: attributes_any handle_receive_def Let_def split: sum.splits prod.splits
      intro: attributes_anyD [OF attributes_inbound])

lemma attributes_take_abandonment [attribution]:
  "attributes anything (handle_take_restored_operation_abandonment store) (\<lambda>_. anything)"
  unfolding handle_take_restored_operation_abandonment_def Let_def
  by (rule attributes_then [OF attributes_take])
    (auto simp: case_prod_beta intro!: attributes_then [OF attributes_persist_retaining]
      attributes_then [OF attributes_return] attributes_then [OF attributes_seat] attributes_return)

lemma attributes_replay_input [attribution]: "attributes anything (apply_replay_input store input decide) (\<lambda>_. anything)"
  by (auto simp: attributes_def apply_replay_input_def sdkThen_def take_aggregate_def persist_def Let_def brick_def bricked_def
      case_prod_beta split: option.split prod.split sum.splits)

lemma attributes_wrappers [attribution]:
  "attributes anything (handle_record_transport_fate store) (\<lambda>_. anything)"
  "attributes anything (handle_record_online_transition store) (\<lambda>_. anything)"
  "attributes anything (handle_record_explicit_reconnect store) (\<lambda>_. anything)"
  "attributes anything (handle_apply_attach store attach) (\<lambda>_. anything)"
  "attributes anything (handle_apply_leave_durable store leave) (\<lambda>_. anything)"
  "attributes anything (handle_apply_detach_outcome store outcome) (\<lambda>_. anything)"
  by (simp_all add: handle_record_transport_fate_def handle_record_online_transition_def handle_record_explicit_reconnect_def
      handle_apply_attach_def handle_apply_leave_durable_def handle_apply_detach_outcome_def
      attributes_connection_fate attributes_fresh attributes_replay_input)

lemma attributes_receive_within [attribution]: "attributes anything (handle_receive_within store transport budget) (\<lambda>_. anything)"
  by (auto simp: attributes_any handle_receive_within_def Let_def sdkThen_def sdkReturn_def
      split: sum.splits prod.splits option.splits intro: attributes_anyD [OF attributes_inbound])

lemma attributes_try_receive [attribution]: "attributes anything (handle_try_receive store transport) (\<lambda>_. anything)"
  by (simp add: handle_try_receive_def attributes_receive_within)

text \<open>The methods that never write the store.\<close>

lemma attributes_readers [attribution]:
  "attributes anything handle_recover_expected_operation (\<lambda>_. anything)"
  "attributes anything handle_recover_reconnect_permit (\<lambda>_. anything)"
  "attributes anything peek_lost_credential_attach (\<lambda>_. anything)"
  "attributes anything lost_credential_attach_pending (\<lambda>_. anything)"
  unfolding handle_recover_expected_operation_def handle_recover_reconnect_permit_def peek_lost_credential_attach_def
    lost_credential_attach_pending_def Let_def
  by (auto split: RecoveredExpectedOperationDecision.split RecoveredReconnectPermitDecision.split
      intro!: attributes_then [OF attributes_take] attributes_then [OF attributes_seat] attributes_return)

lemma attributes_recover_attach [attribution]:
  "attributes anything (recover_lost_credential_attach store transport) (\<lambda>_. anything)"
  unfolding recover_lost_credential_attach_def Let_def
  by (rule attributes_then [OF attributes_readers(4)])
    (auto split: PendingTestimonyVerdict.split RemoteLostOperationResolution.split RemoteOperationRecordOutcome.split
        RemoteParticipantSendOutcome.split
      intro!: attributes_return attributes_then [OF attributes_resolve] attributes_then [OF attributes_record]
        attributes_then [OF attributes_send] attributes_then [OF attributes_receive])

lemma take_fails: "rps_aggregate h = None \<Longrightarrow> sdkThen take_aggregate f h = (Err (StateUnavailable (rps_unavailable h)), h)"
  by (simp add: sdkThen_def take_aggregate_def)

lemma methods_fail:
  assumes "rps_aggregate h = None"
  shows "handle_record_operation store request h = (Err (StateUnavailable (rps_unavailable h)), h)"
    and "handle_send_operation store transport op h = (Err (StateUnavailable (rps_unavailable h)), h)"
    and "handle_recover_expected_operation h = (Err (StateUnavailable (rps_unavailable h)), h)"
    and "handle_resolve_lost_operation_authority store h = (Err (StateUnavailable (rps_unavailable h)), h)"
    and "lost_credential_attach_pending h = (Err (StateUnavailable (rps_unavailable h)), h)"
    and "peek_lost_credential_attach h = (Err (StateUnavailable (rps_unavailable h)), h)"
    and "handle_resolve_lost_reconnect_authority store h = (Err (StateUnavailable (rps_unavailable h)), h)"
    and "handle_take_restored_operation_abandonment store h = (Err (StateUnavailable (rps_unavailable h)), h)"
    and "record_connection_fate store h = (Err (StateUnavailable (rps_unavailable h)), h)"
    and "record_fresh_reconnect store decide h = (Err (StateUnavailable (rps_unavailable h)), h)"
    and "handle_recover_reconnect_permit h = (Err (StateUnavailable (rps_unavailable h)), h)"
    and "reconnect_redeem store permit h = (Err (StateUnavailable (rps_unavailable h)), h)"
    and "replay_detach store transport h = (Err (StateUnavailable (rps_unavailable h)), h)"
  by (unfold handle_record_operation_def handle_send_operation_def handle_recover_expected_operation_def handle_resolve_lost_operation_authority_def lost_credential_attach_pending_def peek_lost_credential_attach_def handle_resolve_lost_reconnect_authority_def handle_take_restored_operation_abandonment_def record_connection_fate_def record_fresh_reconnect_def handle_recover_reconnect_permit_def reconnect_redeem_def replay_detach_def)
    (rule take_fails [OF assms])+

text \<open>What receiving answers without an aggregate: pushes and transport errors still come through, a server
  value is answered with the cause.\<close>

definition receive_bricked ::
  "SdkError \<Rightarrow> ParticipantTransportFrame \<Rightarrow> (RemoteParticipantError, RemoteParticipantInbound) result" where
  "receive_bricked e frame =
    (case ptf_frame frame of
       ServerPushFrame x \<Rightarrow> Ok (RemoteParticipantInbound.Push x (ptf_provenance frame))
     | ClientRequestFrame _ \<Rightarrow> Err InvalidInboundDirection
     | ServerValueFrame _ \<Rightarrow> Err (StateUnavailable (Some e)))"

lemma classify_bricked:
  "rps_aggregate h = None \<Longrightarrow> rps_unavailable h = Some e \<Longrightarrow> classify_inbound store frame h = (receive_bricked e frame, h)"
  by (simp add: classify_inbound_def receive_bricked_def apply_inbound_def take_fails sdkReturn_def sdkFail_def
      split: ParticipantFrame.split)

lemma apply_bricked:
  assumes "rps_aggregate h = None" "rps_unavailable h = Some e"
  shows "apply_replay_input store input decide h = (if rps_correlation h = None then (Err ResponseAuthorityUnavailable, h)
    else (Err (StateUnavailable (Some e)), h\<lparr>rps_correlation := None\<rparr>))"
  using assms by (auto simp: apply_replay_input_def take_fails split: option.split)

lemma loss_bricked:
  assumes "rps_aggregate h = None" "rps_unavailable h = Some e"
  shows "record_established_transport_loss store h = (Err (StateUnavailable (Some e)), h\<lparr>rps_correlation := None\<rparr>)"
proof -
  have same: "h\<lparr>rps_correlation := None\<rparr> = h" if "rps_correlation h = None" using that by (cases h) simp
  show ?thesis using assms same
    by (cases "rps_correlation h")
      (auto simp: record_established_transport_loss_def sdkThen_def take_aggregate_def record_connection_fate_def)
qed

text \<open>C13: A storage failure stops the handle and is never forgotten. Whichever method reports that the store
  failed, the aggregate is gone afterwards and the cause is kept. From then on no method writes the store or gets the
  aggregate back. Every method that works on the aggregate reports the cause, with two qualifications: the explicit replay
  inputs first demand a held response correlation, which they and the transport-loss record give up; and receiving still
  delivers pushes and transport errors, and reports the cause for every server value.\<close>

theorem storage_failure_bricks:
  "(handle_record_operation store request h = (Err (Storage e), h')
      \<or> handle_send_operation store transport op h = (Err (Storage e), h')
      \<or> handle_receive store transport h = (Err (Storage e), h')
      \<or> handle_receive_within store transport budget h = (Err (Storage e), h')
      \<or> handle_try_receive store transport h = (Err (Storage e), h')
      \<or> handle_recover_expected_operation h = (Err (Storage e), h')
      \<or> handle_resolve_lost_operation_authority store h = (Err (Storage e), h')
      \<or> recover_lost_credential_attach store transport h = (Err (Storage e), h')
      \<or> peek_lost_credential_attach h = (Err (Storage e), h')
      \<or> handle_take_restored_operation_abandonment store h = (Err (Storage e), h')
      \<or> handle_record_transport_fate store h = (Err (Storage e), h')
      \<or> handle_record_online_transition store h = (Err (Storage e), h')
      \<or> handle_record_explicit_reconnect store h = (Err (Storage e), h')
      \<or> handle_recover_reconnect_permit h = (Err (Storage e), h')
      \<or> handle_resolve_lost_reconnect_authority store h = (Err (Storage e), h')
      \<or> handle_reconnect store transport permit h = (Err (Storage e), h')
      \<or> record_established_transport_loss store h = (Err (Storage e), h')
      \<or> replay_detach store transport h = (Err (Storage e), h')
      \<or> handle_apply_attach store attach h = (Err (Storage e), h')
      \<or> handle_apply_leave_durable store leave h = (Err (Storage e), h')
      \<or> handle_apply_detach_outcome store outcome h = (Err (Storage e), h')
      \<longrightarrow> rps_aggregate h' = None \<and> rps_unavailable h' = Some e)
    \<and> (rps_aggregate h = None \<and> rps_unavailable h = Some e \<longrightarrow>
      handle_record_operation store request h = (Err (StateUnavailable (Some e)), h)
      \<and> handle_send_operation store transport op h = (Err (StateUnavailable (Some e)), h)
      \<and> handle_recover_expected_operation h = (Err (StateUnavailable (Some e)), h)
      \<and> handle_resolve_lost_operation_authority store h = (Err (StateUnavailable (Some e)), h)
      \<and> recover_lost_credential_attach store transport h = (Err (StateUnavailable (Some e)), h)
      \<and> peek_lost_credential_attach h = (Err (StateUnavailable (Some e)), h)
      \<and> handle_take_restored_operation_abandonment store h = (Err (StateUnavailable (Some e)), h)
      \<and> handle_record_transport_fate store h = (Err (StateUnavailable (Some e)), h)
      \<and> handle_record_online_transition store h = (Err (StateUnavailable (Some e)), h)
      \<and> handle_record_explicit_reconnect store h = (Err (StateUnavailable (Some e)), h)
      \<and> handle_recover_reconnect_permit h = (Err (StateUnavailable (Some e)), h)
      \<and> handle_resolve_lost_reconnect_authority store h = (Err (StateUnavailable (Some e)), h)
      \<and> handle_reconnect store transport permit h = (Err (StateUnavailable (Some e)), h)
      \<and> replay_detach store transport h = (Err (StateUnavailable (Some e)), h)
      \<and> record_established_transport_loss store h = (Err (StateUnavailable (Some e)), h\<lparr>rps_correlation := None\<rparr>)
      \<and> handle_apply_attach store attach h = (if rps_correlation h = None then (Err ResponseAuthorityUnavailable, h)
          else (Err (StateUnavailable (Some e)), h\<lparr>rps_correlation := None\<rparr>))
      \<and> handle_apply_leave_durable store leave h = (if rps_correlation h = None then (Err ResponseAuthorityUnavailable, h)
          else (Err (StateUnavailable (Some e)), h\<lparr>rps_correlation := None\<rparr>))
      \<and> handle_apply_detach_outcome store outcome h = (if rps_correlation h = None then (Err ResponseAuthorityUnavailable, h)
          else (Err (StateUnavailable (Some e)), h\<lparr>rps_correlation := None\<rparr>))
      \<and> handle_receive store transport h = (case receive_participant transport (rph_transport h) of
            (Inl error, t) \<Rightarrow> (Err (Transport error), h\<lparr>rph_transport := t\<rparr>)
          | (Inr frame, t) \<Rightarrow> (receive_bricked e frame, h\<lparr>rph_transport := t\<rparr>))
      \<and> handle_receive_within store transport budget h = (case receive_participant_within transport (rph_transport h) budget of
            (Inl error, t) \<Rightarrow> (Err (Transport error), h\<lparr>rph_transport := t\<rparr>)
          | (Inr None, t) \<Rightarrow> (Ok None, h\<lparr>rph_transport := t\<rparr>)
          | (Inr (Some frame), t) \<Rightarrow>
              (andThen (receive_bricked e frame) (\<lambda>x. Ok (Some x)), h\<lparr>rph_transport := t\<rparr>))
      \<and> handle_try_receive store transport h = handle_receive_within store transport PARTICIPANT_PUMP_WINDOW h)"
  unfolding bricked_def [symmetric]
proof (rule conjI, goal_cases)
  case 1
  show ?case by (intro impI, elim disjE; erule attributes_anyD [OF _ TrueI, rotated]; rule attribution)
next
  case 2
  have within: "handle_receive_within store transport budget h = (case receive_participant_within transport (rph_transport h) budget of
        (Inl error, t) \<Rightarrow> (Err (Transport error), h\<lparr>rph_transport := t\<rparr>)
      | (Inr None, t) \<Rightarrow> (Ok None, h\<lparr>rph_transport := t\<rparr>)
      | (Inr (Some frame), t) \<Rightarrow> (andThen (receive_bricked e frame) (\<lambda>x. Ok (Some x)), h\<lparr>rph_transport := t\<rparr>))" if "bricked e h"
    using that by (auto simp: bricked_def handle_receive_within_def classify_bricked sdkThen_def sdkReturn_def
        split: prod.split sum.split option.split)
  show ?case
    by (auto simp: bricked_def methods_fail recover_lost_credential_attach_def handle_record_transport_fate_def
        handle_record_online_transition_def handle_record_explicit_reconnect_def handle_reconnect_def sdkThen_def
        handle_apply_attach_def handle_apply_leave_durable_def handle_apply_detach_outcome_def apply_bricked loss_bricked
        handle_receive_def classify_bricked within [unfolded bricked_def] handle_try_receive_def Let_def
        split: prod.split sum.split)
qed

text \<open>A store whose disk is full, under an idle handle that is asked to enroll.\<close>

definition full_store :: "u8 list option resume_store" where
  "full_store s bytes = (Inl (SdkError.Store ''disk full''), s)"

theorem storage_failure_bricks_witness:
  "\<exists>h'. handle_record_operation full_store sample_enrollment (sample_handle ClientParticipantAggregate_new None)
      = (Err (Storage (SdkError.Store ''disk full'')), h')
    \<and> rps_aggregate h' = None \<and> rps_unavailable h' = Some (SdkError.Store ''disk full'')
    \<and> handle_recover_expected_operation h' = (Err (StateUnavailable (Some (SdkError.Store ''disk full''))), h')"
proof -
  let ?h = "sample_handle ClientParticipantAggregate_new None"
  let ?e = "SdkError.Store ''disk full''"
  obtain q where q: "resume_record (sample_aggregate ClientBindingState.Unbound 1 (Some sample_enrollment) False) = Ok q"
    using sample_pending_record by blast
  have failed: "handle_record_operation full_store sample_enrollment ?h = (Err (Storage ?e), ?h\<lparr>rps_aggregate := None, rps_unavailable := Some ?e\<rparr>)"
    using sample_pending q
    by (simp add: handle_record_operation_def sdkThen_def take_aggregate_def sample_handle_def commit_resume_record_eq
        pending_commit_def persist_bytes_def full_store_def brick_def Let_def)
  let ?b = "?h\<lparr>rps_aggregate := None, rps_unavailable := Some ?e\<rparr>"
  note claim = storage_failure_bricks [where store = full_store and request = sample_enrollment and e = ?e
      and transport = "sample_transport sample_bound"]
  have "rps_aggregate ?b = None \<and> rps_unavailable ?b = Some ?e"
    by (rule claim [where h = ?h and h' = ?b, THEN conjunct1, rule_format, OF disjI1 [OF failed]])
  from failed claim [where h = ?b, THEN conjunct2, rule_format, OF this] this show ?thesis by blast
qed

text \<open>C40: A request whose frame is too large for the resume record kills the handle: recording it writes
  nothing and releases nothing, yet the aggregate is dropped with no cause kept, and every later call fails, although
  aborting the pending record would have given back the aggregate unchanged.\<close>

theorem oversized_request_drops_handle:
  assumes "rps_aggregate h = Some a" "aggregate_ok a" "request_ok request" "record_operation a request = Pending p"
    and "\<not> frame_fits (ClientRequestFrame request)"
  shows "\<exists>e. handle_record_operation store request h = (Err (ResumeEncode e), h\<lparr>rps_aggregate := None\<rparr>)
    \<and> handle_record_operation store request' (h\<lparr>rps_aggregate := None\<rparr>) =
        (Err (StateUnavailable (rps_unavailable h)), h\<lparr>rps_aggregate := None\<rparr>)
    \<and> pending_abort p = (a, request)"
proof -
  note pending = record_operation_pending [OF assms(4,2,3)]
  then have "\<not> frames_fit (por_successor p)" using assms(5) by (simp add: frames_fit_def)
  then obtain e where "resume_record (por_successor p) = Err e"
    using resume_record_iff [of "por_successor p"] pending by (cases "resume_record (por_successor p)") auto
  then show ?thesis using assms(1,4) pending by (simp add: handle_record_operation_def sdkThen_def take_aggregate_def commit_resume_record_eq pending_commit_def sdkFail_def)
qed

definition sample_flood :: ClientRequest where
  "sample_flood = ClientRequest.RecordAdmission \<lparr>ra_conversation_id = 7, ra_participant_id = 9,
    ra_capability_generation = Generation 1, ra_record_admission_attempt_token = sample_token,
    ra_payload = replicate (2 ^ 32) 0\<rparr>"

theorem oversized_request_drops_handle_witness:
  "\<exists>e. handle_record_operation sample_store sample_flood (sample_handle (sample_aggregate sample_binding 1 None False) None) =
    (Err (ResumeEncode e), (sample_handle (sample_aggregate sample_binding 1 None False) None)\<lparr>rps_aggregate := None\<rparr>)"
proof -
  let ?a = "sample_aggregate sample_binding 1 None False"
  have a: "aggregate_ok ?a"
    using reachable_ok [OF sample_enrolled] by (simp add: system_ok_def running_ok_def sample_system_def)
  have r: "request_ok sample_flood"
    by (simp add: sample_flood_def sample_token_def TOKEN_LEN_def generation_ok_def)
  have big: "\<not> frame_fits (ClientRequestFrame sample_flood)"
    by (simp add: frame_fits_def sample_flood_def len_bytes_def word_bytes)
  obtain p where p: "record_operation ?a sample_flood = Pending p"
    using sample_record_operation [of sample_binding sample_flood 1 2]
    by (simp add: sample_flood_def accepts_request_def sample_binding_def checked_add_def)
  have "rps_aggregate (sample_handle ?a None) = Some ?a" by (simp add: sample_handle_def)
  from oversized_request_drops_handle [OF this a r p big, of sample_store sample_flood] show ?thesis by blast
qed

section \<open>Healing a lost credential attach\<close>

text \<open>Under a store that accepts every write, a recordable aggregate is persisted by one call.\<close>

lemma persist_bytes_saves:
  assumes "\<And>s bytes. fst (store s bytes) = Inr ()"
  shows "persist_bytes store bytes w = (Ok (), w\<lparr>rps_store := snd (store (rps_store w) bytes)\<rparr>)"
proof -
  obtain s where "store (rps_store w) bytes = (Inr (), s)" using assms by (metis prod.collapse)
  then show ?thesis by (simp add: persist_bytes_def)
qed

lemma persist_retaining_saves:
  assumes "\<And>s bytes. fst (store s bytes) = Inr ()" "resume_record a = Ok q"
  shows "persist_retaining store a w = (Ok a, w\<lparr>rps_store := snd (store (rps_store w) (crr_canonical q))\<rparr>)"
  using assms(2) by (simp add: persist_retaining_def sdkThen_def persist_bytes_saves [OF assms(1)] sdkReturn_def)

lemma persist_and_seat_saves:
  assumes "\<And>s bytes. fst (store s bytes) = Inr ()" "resume_record a = Ok q"
  shows "persist_and_seat store a w =
    (Ok (), w\<lparr>rps_store := snd (store (rps_store w) (crr_canonical q)), rps_aggregate := Some a\<rparr>)"
  by (simp add: persist_and_seat_def sdkThen_def persist_retaining_saves [OF assms] seat_def modify_def)

lemma resolve_saves:
  assumes store: "\<And>s bytes. fst (store s bytes) = Inr ()" and h: "rps_aggregate h = Some a"
    and e: "cpa_expected a = Some e" "eo_lost e = Some t" "\<not> is_detach (eo_request e)"
    and q: "resume_record (a\<lparr>cpa_expected := None\<rparr>) = Ok q"
  shows "\<exists>s. handle_resolve_lost_operation_authority store h = (Ok (RemoteLostOperationResolution.Recorded (eo_request e) (lat_kind t)),
    h\<lparr>rps_store := s, rps_aggregate := Some (a\<lparr>cpa_expected := None\<rparr>)\<rparr>)"
  using h e
  by (auto simp: handle_resolve_lost_operation_authority_def sdkThen_def take_aggregate_def resolve_lost_operation_authority_def
      seat_def modify_def checkpoint_state_def sdkReturn_def persist_and_seat_saves [OF store q])

lemma record_saves:
  assumes store: "\<And>s bytes. fst (store s bytes) = Inr ()" and h: "rps_aggregate h = Some a"
    and p: "record_operation a request = Pending p" and q: "resume_record (por_successor p) = Ok q"
  shows "\<exists>s. handle_record_operation store request h = (Ok (RemoteOperationRecordOutcome.Recorded
      \<lparr>rpo_operation = por_operation p, rpo_durability = OperationDurability.WriteAhead\<rparr>),
    h\<lparr>rps_store := s, rps_aggregate := Some (fst (commit_into_parts (pending_commit p)))\<rparr>)"
  using h p q
  by (auto simp: handle_record_operation_def sdkThen_def take_aggregate_def commit_resume_record_eq pending_commit_def
      persist_bytes_saves [OF store] seat_def modify_def sdkReturn_def commit_into_parts_def Let_def)

lemma send_saves:
  assumes store: "\<And>s bytes. fst (store s bytes) = Inr ()" and h: "rps_aggregate h = Some a"
    and q: "resume_record a = Ok q" and op: "rpo_durability op = OperationDurability.WriteAhead"
    and sent: "send_participant transport (rph_transport h) (epo_request (rpo_operation op)) = (Inr provenance, t)"
  shows "\<exists>s. handle_send_operation store transport op h = (Ok (RemoteParticipantSendOutcome.Sent provenance),
    h\<lparr>rps_store := s, rph_transport := t, rps_correlation := Some \<lparr>crc_authorization = epo_authorization (rpo_operation op)\<rparr>,
      rps_aggregate := Some a\<rparr>)"
  using h op sent
  by (auto simp: handle_send_operation_def sdkThen_def take_aggregate_def persist_retaining_saves [OF store q]
      operation_into_request_def transport_send_def modify_def seat_def sdkReturn_def)

lemma receive_saves:
  assumes store: "\<And>s bytes. fst (store s bytes) = Inr ()" and h: "rps_aggregate h = Some a" "rps_correlation h = Some c"
    and frame: "receive_participant transport (rph_transport h) = (Inr \<lparr>ptf_frame = ServerValueFrame x, ptf_provenance = provenance\<rparr>, t)"
    and applied: "decide_correlated_inbound a x c = ClientCorrelatedInboundDecision.Applied \<lparr>cia_aggregate = b, cia_value = x\<rparr>"
    and q: "resume_record b = Ok q"
  shows "\<exists>h'. handle_receive store transport h = (Ok (RemoteParticipantInbound.Applied x provenance), h')
    \<and> rps_aggregate h' = Some b \<and> rps_correlation h' = None"
  using h frame applied
  by (auto simp: handle_receive_def classify_inbound_def apply_inbound_def sdkThen_def take_aggregate_def
      persist_and_seat_saves [OF store q] sdkReturn_def)

text \<open>The protocol side: after the loss is resolved the same request is admitted again, and the receipt
  retires it and installs the rotated credential.\<close>

lemma lost_attach_expected:
  assumes "lost_credential_attach a = Some request"
  shows "\<exists>e t. cpa_expected a = Some e \<and> eo_request e = ClientRequest.CredentialAttach request \<and> eo_issued e \<and> eo_lost e = Some t"
  using assms by (auto simp: lost_credential_attach_def split: option.splits ClientRequest.splits if_splits)

text \<open>Resolved, the aggregate is recordable; it admits the request again, and so does each aggregate on the
  way to the issued operation.\<close>

lemma reattach_recorded:
  assumes ok: "aggregate_ok a" and lost: "lost_credential_attach a = Some request"
    and room: "unat (cpa_next_operation_authorization a) < U64_MAX"
  shows "\<exists>n. record_operation (a\<lparr>cpa_expected := None\<rparr>) (ClientRequest.CredentialAttach request) =
    Pending \<lparr>por_successor = a\<lparr>cpa_expected := Some \<lparr>eo_request = ClientRequest.CredentialAttach request, eo_issued = False,
        eo_authorization = n, eo_lost = None\<rparr>, cpa_next_operation_authorization := n\<rparr>,
      por_operation = \<lparr>epo_request = ClientRequest.CredentialAttach request, epo_authorization = n\<rparr>, por_prior_replay = None\<rparr>"
proof -
  obtain e t where e: "cpa_expected a = Some e" "eo_request e = ClientRequest.CredentialAttach request"
    using lost_attach_expected [OF lost] by blast
  then have "accepts_request (cpa_binding a) (ClientRequest.CredentialAttach request)"
    using ok by (auto simp: aggregate_ok_def operation_ok_def)
  moreover obtain n where "checked_add (cpa_next_operation_authorization a) 1 = Some n"
    using room by (auto simp: checked_add_def)
  ultimately show ?thesis by (auto simp: record_operation_def admit_detach_replay_def)
qed

lemma recordable: "aggregate_ok a \<Longrightarrow> frames_fit a \<Longrightarrow> \<exists>q. resume_record a = Ok q"
  using resume_record_iff by blast

lemma reattach_issued:
  assumes ok: "aggregate_ok a" "frames_fit a" and lost: "lost_credential_attach a = Some request"
    and room: "unat (cpa_next_operation_authorization a) < U64_MAX"
  shows "\<exists>p n b q1 q2. resume_record (a\<lparr>cpa_expected := None\<rparr>) = Ok q1
    \<and> record_operation (a\<lparr>cpa_expected := None\<rparr>) (ClientRequest.CredentialAttach request) = Pending p
    \<and> por_operation p = \<lparr>epo_request = ClientRequest.CredentialAttach request, epo_authorization = n\<rparr>
    \<and> resume_record (por_successor p) = Ok q2 \<and> fst (commit_into_parts (pending_commit p)) = b
    \<and> aggregate_ok b \<and> frames_fit b \<and> cpa_expected b = Some \<lparr>eo_request = ClientRequest.CredentialAttach request,
        eo_issued = True, eo_authorization = n, eo_lost = None\<rparr>"
proof -
  let ?r = "ClientRequest.CredentialAttach request"
  obtain e l where e: "cpa_expected a = Some e" "eo_request e = ?r" using lost_attach_expected [OF lost] by blast
  have fits: "frame_fits (ClientRequestFrame ?r)" "request_ok ?r"
    using ok e by (auto simp: frames_fit_def aggregate_ok_def operation_ok_def)
  have a1: "aggregate_ok (a\<lparr>cpa_expected := None\<rparr>)" "frames_fit (a\<lparr>cpa_expected := None\<rparr>)"
    using retire_plain_ok [OF ok(1) e(1)] e(2) ok(2) by (auto simp: frames_fit_def)
  obtain n p where p: "record_operation (a\<lparr>cpa_expected := None\<rparr>) ?r = Pending p" "por_prior_replay p = None"
    "por_successor p = a\<lparr>cpa_expected := Some \<lparr>eo_request = ?r, eo_issued = False,
      eo_authorization = n, eo_lost = None\<rparr>, cpa_next_operation_authorization := n\<rparr>"
    "por_operation p = \<lparr>epo_request = ?r, epo_authorization = n\<rparr>"
    using reattach_recorded [OF ok(1) lost room] by force
  have a2: "aggregate_ok (por_successor p)" "frames_fit (por_successor p)"
    using record_operation_pending [OF p(1) a1(1) fits(2)] ok(2) fits(1) p(3) by (auto simp: frames_fit_def)
  have issued: "fst (commit_into_parts (pending_commit p)) = issue (por_successor p)"
    using commit_into_parts_issue [of "pending_commit p" "\<lparr>eo_request = ?r, eo_issued = False, eo_authorization = n, eo_lost = None\<rparr>"] p(3,4) by (simp add: pending_commit_def)
  note b = issue_ok [OF a2(1), of "\<lparr>eo_request = ?r, eo_issued = False, eo_authorization = n, eo_lost = None\<rparr>"]
  have "frames_fit (issue (por_successor p))"
    using a2(2) p(3) by (auto simp: issue_def mark_issued_def frames_fit_def Let_def)
  then show ?thesis using p(1,3,4) issued b recordable [OF a1] recordable [OF a2] by auto
qed

text \<open>The three answers that carry the rotated credential, and the binding each installs: a receipt for a binding
  that has ended leaves the participant detached.\<close>

definition attach_answer :: "ServerValue \<Rightarrow> AttachBound \<Rightarrow> bool" where
  "attach_answer x v \<longleftrightarrow> x = ServerValue.AttachBound v \<or> x = ServerValue.Bound (ReceiptReplay.CredentialAttach v)
    \<or> x = ServerValue.UnboundReceipt (ReceiptReplay.CredentialAttach v)"

definition adopted_binding :: "ServerValue \<Rightarrow> AttachBound \<Rightarrow> ClientBindingState" where
  "adopted_binding x v =
    (if x = ServerValue.UnboundReceipt (ReceiptReplay.CredentialAttach v)
     then ClientBindingState.Detached (ab_conversation_id v) (ab_participant_id v)
       (be_capability_generation (ab_origin_binding_epoch v)) (ab_attach_secret v)
     else ClientBindingState.Bound (ab_conversation_id v) (ab_participant_id v)
       (be_capability_generation (ab_origin_binding_epoch v)) (ab_attach_secret v) (ab_origin_binding_epoch v))"

lemma attach_answer_applied:
  assumes ok: "aggregate_ok b" "frames_fit b" and e: "cpa_expected b = Some \<lparr>eo_request = ClientRequest.CredentialAttach request,
      eo_issued = True, eo_authorization = n, eo_lost = None\<rparr>"
    and x: "attach_answer x v" "server_value_ok x"
    and key: "attach_bound_key v = from_request (ClientRequest.CredentialAttach request) 0"
  shows "\<exists>c q. decide_correlated_inbound b x \<lparr>crc_authorization = n\<rparr> =
      ClientCorrelatedInboundDecision.Applied \<lparr>cia_aggregate = c, cia_value = x\<rparr>
    \<and> resume_record c = Ok q \<and> cpa_expected c = None \<and> cpa_binding c = adopted_binding x v"
proof -
  let ?c = "retire_expected_operation b x"
  have accepts: "accepts_request (cpa_binding b) (ClientRequest.CredentialAttach request)"
    using ok(1) e by (auto simp: aggregate_ok_def operation_ok_def)
  then have alive: "\<not> is_left (cpa_binding b)" by (auto simp: accepts_request_def)
  have matches: "matches_request x (ClientRequest.CredentialAttach request)"
    using x(1) key by (auto simp: attach_answer_def matches_request_def response_key_def)
  have c: "?c = with_replay (b\<lparr>cpa_expected := None, cpa_binding := adopted_binding x v\<rparr>) (\<lambda>r. replay_apply_attach r v)"
    using x(1) e by (auto simp: attach_answer_def retire_expected_operation_def expected_detach_envelope_def
        apply_correlated_value_def apply_attach_bound_def apply_unbound_attach_receipt_def adopted_binding_def Let_def)
  have "frames_fit ?c"
    using ok(2) unfolding c
    by (auto simp: frames_fit_def with_replay_def replay_apply_attach_def split: DetachReplayState.splits if_splits)
  moreover have "aggregate_ok ?c \<and> cpa_expected ?c = None"
    using retire_expected_operation_ok [OF ok(1) e x(2)] matches by simp
  ultimately obtain q where "resume_record ?c = Ok q" "cpa_expected ?c = None" using resume_record_iff by blast
  moreover have "decide_correlated_inbound b x \<lparr>crc_authorization = n\<rparr> =
      ClientCorrelatedInboundDecision.Applied \<lparr>cia_aggregate = ?c, cia_value = x\<rparr>"
    using x(1) e accepts alive matches
    by (auto simp: attach_answer_def decide_correlated_inbound_def decide_inbound_inner_def Let_def)
  moreover have "cpa_binding ?c = adopted_binding x v" unfolding c by (simp add: with_replay_def)
  ultimately show ?thesis by blast
qed

text \<open>C14: A participant killed between sending a credential attach and hearing the answer heals. As long as the
  store accepts its writes, an authorization is left, and the transport carries the request and then one of the three
  answers that carry the rotated credential (a fresh commit, a receipt of a live binding, a receipt of a binding that has
  ended), the recovery re-sends exactly the retained request, retires the lost operation, adopts the credential, bound at
  the answer's binding epoch or detached if that binding has ended, and reports whether the server replayed its receipt
  or committed anew.\<close>

theorem lost_attach_heals:
  assumes a: "rps_aggregate h = Some a" "aggregate_ok a" "frames_fit a" and lost: "lost_credential_attach a = Some request"
    and room: "unat (cpa_next_operation_authorization a) < U64_MAX"
    and store: "\<And>s bytes. fst (store s bytes) = Inr ()"
    and sent: "send_participant transport (rph_transport h) (ClientRequest.CredentialAttach request) = (Inr sent_on, t)"
    and answer: "receive_participant transport t = (Inr \<lparr>ptf_frame = ServerValueFrame x, ptf_provenance = provenance\<rparr>, t')"
    and x: "attach_answer x v" "server_value_ok x"
    and key: "attach_bound_key v = from_request (ClientRequest.CredentialAttach request) 0"
  shows "\<exists>h' b. recover_lost_credential_attach store transport h =
      (Ok (if x = ServerValue.AttachBound v then CommittedFresh x provenance else HealedFromReceipt x provenance), h')
    \<and> rps_aggregate h' = Some b \<and> rps_correlation h' = None \<and> cpa_expected b = None
    \<and> cpa_binding b = adopted_binding x v"
proof -
  let ?r = "ClientRequest.CredentialAttach request"
  let ?a = "a\<lparr>cpa_expected := None\<rparr>"
  obtain e l where e: "cpa_expected a = Some e" "eo_request e = ?r" "eo_lost e = Some l"
    using lost_attach_expected [OF lost] by blast
  have plain: "\<not> is_detach (eo_request e)" using e(2) by simp
  obtain p n b q1 q2 where q1: "resume_record ?a = Ok q1" and p: "record_operation ?a ?r = Pending p"
      "por_operation p = \<lparr>epo_request = ?r, epo_authorization = n\<rparr>" and q2: "resume_record (por_successor p) = Ok q2"
    and commit: "fst (commit_into_parts (pending_commit p)) = b"
    and b: "aggregate_ok b" "frames_fit b"
      "cpa_expected b = Some \<lparr>eo_request = ?r, eo_issued = True, eo_authorization = n, eo_lost = None\<rparr>"
    using reattach_issued [OF a(2,3) lost room] by blast
  obtain q3 where q3: "resume_record b = Ok q3" using recordable [OF b(1,2)] by blast
  obtain c q4 where c: "decide_correlated_inbound b x \<lparr>crc_authorization = n\<rparr> =
      ClientCorrelatedInboundDecision.Applied \<lparr>cia_aggregate = c, cia_value = x\<rparr>" "resume_record c = Ok q4" "cpa_expected c = None"
    "cpa_binding c = adopted_binding x v"
    using attach_answer_applied [OF b x key] by blast
  have pending: "lost_credential_attach_pending h = (Ok IssuedCredentialAttach, h)"
    using a(1) lost by (cases h) (simp add: lost_credential_attach_pending_def sdkThen_def take_aggregate_def seat_def modify_def sdkReturn_def)
  obtain s1 where h1: "handle_resolve_lost_operation_authority store h =
      (Ok (RemoteLostOperationResolution.Recorded ?r (lat_kind l)), h\<lparr>rps_store := s1, rps_aggregate := Some ?a\<rparr>)" (is "_ = (_, ?h1)")
    using resolve_saves [of store, OF store a(1) e(1,3) plain q1] e(2) by auto
  let ?op = "\<lparr>rpo_operation = \<lparr>epo_request = ?r, epo_authorization = n\<rparr>, rpo_durability = OperationDurability.WriteAhead\<rparr>"
  obtain s2 where h2: "handle_record_operation store ?r ?h1 = (Ok (RemoteOperationRecordOutcome.Recorded ?op),
      ?h1\<lparr>rps_store := s2, rps_aggregate := Some b\<rparr>)" (is "_ = (_, ?h2)")
    using record_saves [of store, OF store _ p(1) q2, of ?h1] p(2) commit by auto
  obtain s3 where h3: "handle_send_operation store transport ?op ?h2 = (Ok (RemoteParticipantSendOutcome.Sent sent_on),
      ?h2\<lparr>rps_store := s3, rph_transport := t, rps_correlation := Some \<lparr>crc_authorization = n\<rparr>, rps_aggregate := Some b\<rparr>)" (is "_ = (_, ?h3)")
    using send_saves [of store, OF store _ q3, of ?h2 ?op transport sent_on t] sent by auto
  obtain h' where h': "handle_receive store transport ?h3 = (Ok (RemoteParticipantInbound.Applied x provenance), h')"
    "rps_aggregate h' = Some c" "rps_correlation h' = None"
    using receive_saves [of store, OF store, of ?h3 b "\<lparr>crc_authorization = n\<rparr>" transport x provenance t' c q4] answer c(1,2) by auto
  have "recover_lost_credential_attach store transport h = (Ok (classify_recovery_answer (RemoteParticipantInbound.Applied x provenance)), h')"
    by (simp only: recover_lost_credential_attach_def sdkThen_def pending h1 h2 h3 h'(1) sdkReturn_def prod.case sum.case
        PendingTestimonyVerdict.case RemoteLostOperationResolution.case RemoteOperationRecordOutcome.case
        RemoteParticipantSendOutcome.case Let_def)
  moreover have "classify_recovery_answer (RemoteParticipantInbound.Applied x provenance) =
      (if x = ServerValue.AttachBound v then CommittedFresh x provenance else HealedFromReceipt x provenance)"
    using x(1) by (auto simp: attach_answer_def classify_recovery_answer_def)
  ultimately show ?thesis using h'(2,3) c(3,4) by auto
qed

text \<open>A participant bound at generation one that was killed while attaching again, and the receipt of that
  attach.\<close>

definition sample_attach :: CredentialAttachRequest where
  "sample_attach = \<lparr>car_conversation_id = 7, car_participant_id = 9, car_capability_generation = Generation 1,
    car_attach_secret = sample_secret, car_attach_attempt_token = sample_token, car_accept_marker_delivery_seq = None\<rparr>"

definition sample_receipt :: AttachBound where
  "sample_receipt = \<lparr>ab_conversation_id = 7, ab_token = sample_token, ab_participant_id = 9, ab_request_generation = Generation 1,
    ab_attach_secret = replicate 32 8,
    ab_origin_binding_epoch = \<lparr>be_connection_incarnation = \<lparr>ci_server_incarnation = 1, ci_connection_ordinal = 4\<rparr>,
      be_capability_generation = Generation 2\<rparr>,
    ab_persisted_cursor = 0, ab_accepted_marker_delivery_seq = None, ab_receipt_expires_at = 100, ab_provenance_expires_at = 200\<rparr>"

definition sample_killed :: ClientParticipantAggregate where
  "sample_killed = crash (sample_aggregate sample_binding 2 (Some (ClientRequest.CredentialAttach sample_attach)) True)"

lemma sample_killed_ok: "aggregate_ok sample_killed" "frames_fit sample_killed"
proof -
  let ?a = "sample_aggregate sample_binding 2 (Some (ClientRequest.CredentialAttach sample_attach)) True"
  have "client_reachable (sample_system ?a {#CorrelationHandle \<lparr>crc_authorization = 2\<rparr>#})"
    by (rule sample_send [OF sample_enrolled])
      (simp_all add: sample_attach_def sample_token_def sample_secret_def TOKEN_LEN_def SECRET_LEN_def accepts_request_def
        sample_binding_def checked_add_def generation_ok_def)
  then have "aggregate_ok ?a" using reachable_ok by (force simp: system_ok_def running_ok_def sample_system_def)
  moreover have "frames_fit ?a"
    by (simp add: frames_fit_def frame_fits_def sample_aggregate_def sample_attach_def sample_token_def sample_secret_def
        len_bytes_def word_bytes option_bytes)
  ultimately show "aggregate_ok sample_killed" "frames_fit sample_killed"
    by (simp_all add: sample_killed_def crash_ok crash_frames_fit)
qed

text \<open>The connection was torn, so the server replays the receipt of the ended binding.\<close>

theorem lost_attach_heals_witness:
  "\<exists>h' b. recover_lost_credential_attach sample_store
        (sample_transport (ServerValue.UnboundReceipt (ReceiptReplay.CredentialAttach sample_receipt))) (sample_handle sample_killed None) =
      (Ok (HealedFromReceipt (ServerValue.UnboundReceipt (ReceiptReplay.CredentialAttach sample_receipt))
        \<lparr>prp_connection_id = 1, prp_attempt_id = 1\<rparr>), h')
    \<and> rps_aggregate h' = Some b \<and> cpa_expected b = None
    \<and> cpa_binding b = ClientBindingState.Detached 7 9 (Generation 2) (replicate 32 8)"
proof -
  let ?x = "ServerValue.UnboundReceipt (ReceiptReplay.CredentialAttach sample_receipt)"
  have lost: "lost_credential_attach sample_killed = Some sample_attach"
    "unat (cpa_next_operation_authorization sample_killed) < U64_MAX"
    by (simp_all add: sample_killed_def crash_def restore_facts_def facts_of_def sample_aggregate_def lost_credential_attach_def Let_def)
  have x: "attach_answer ?x sample_receipt" "server_value_ok ?x"
    by (simp_all add: attach_answer_def sample_receipt_def sample_token_def TOKEN_LEN_def SECRET_LEN_def attach_bound_ok_def
        generation_ok_def is_successor_generation_def checked_add_def)
  have key: "attach_bound_key sample_receipt = from_request (ClientRequest.CredentialAttach sample_attach) 0"
    by (simp add: attach_bound_key_def sample_receipt_def sample_attach_def)
  have "rps_aggregate (sample_handle sample_killed None) = Some sample_killed" by (simp add: sample_handle_def)
  moreover have "fst (sample_store s bytes) = Inr ()" for s bytes by (simp add: sample_store_def)
  moreover have "send_participant (sample_transport ?x) (rph_transport (sample_handle sample_killed None))
      (ClientRequest.CredentialAttach sample_attach) =
      (Inr \<lparr>prp_connection_id = 1, prp_attempt_id = 1\<rparr>, [ClientRequest.CredentialAttach sample_attach])"
    by (simp add: sample_transport_def sample_handle_def)
  moreover have "receive_participant (sample_transport ?x) [ClientRequest.CredentialAttach sample_attach] =
      (Inr \<lparr>ptf_frame = ServerValueFrame ?x, ptf_provenance = \<lparr>prp_connection_id = 1, prp_attempt_id = 1\<rparr>\<rparr>,
       [ClientRequest.CredentialAttach sample_attach])"
    by (simp add: sample_transport_def)
  ultimately have "\<exists>h' b. recover_lost_credential_attach sample_store (sample_transport ?x) (sample_handle sample_killed None) =
      (Ok (if ?x = ServerValue.AttachBound sample_receipt then CommittedFresh ?x \<lparr>prp_connection_id = 1, prp_attempt_id = 1\<rparr>
        else HealedFromReceipt ?x \<lparr>prp_connection_id = 1, prp_attempt_id = 1\<rparr>), h')
    \<and> rps_aggregate h' = Some b \<and> rps_correlation h' = None \<and> cpa_expected b = None
    \<and> cpa_binding b = adopted_binding ?x sample_receipt"
    by (rule lost_attach_heals [OF _ sample_killed_ok lost _ _ _ x key])
  moreover have "adopted_binding ?x sample_receipt = ClientBindingState.Detached 7 9 (Generation 2) (replicate 32 8)"
    by (simp add: adopted_binding_def sample_receipt_def)
  ultimately show ?thesis by auto
qed

end
