(* ===== verification/Spec2Isabelle.thy ===== *)
theory Spec2Isabelle
  imports Algebra Sequence_Ledger Order_Ledger Capacity_Admission Frame_Roundtrip Backpressure Connection
    Causal_Orderer Pressure Routing Dispatch Participant_Roundtrip Incarnation Sdk_Safety
begin

text \<open>
  \<^bold>\<open>Liminal: a verification of the protocol core and the client participant\<close>

  Liminal is a message bus in Rust. A server and its clients speak a framed wire protocol
  (\<open>src/crates/liminal/src/protocol\<close>). Inside it travels the participant protocol
  (\<open>src/crates/liminal-protocol\<close>), by which a client enrolls in a conversation, attaches, sends records,
  acknowledges deliveries, detaches and leaves, across crashes of either side. The bus library
  (\<open>src/crates/liminal\<close>) orders, routes and throttles deliveries. The SDK (\<open>src/crates/liminal-sdk\<close>) drives the
  client side of the participant protocol over a transport and a durable store.

  Machine integers are words of their width; \<open>usize\<close> values are \<open>nat\<close> bounded by \<open>USIZE_MAX\<close> where the code can
  overflow. \<open>Result\<close> is the sum type with the error on the left and \<open>?\<close> is \<open>andThen\<close>; a panic or an early return
  is a branch. Methods on \<open>&mut self\<close> take and return their state. Loops are recursive functions that terminate;
  nothing is run on fuel, except the retry bound of the dispatcher, which the code has itself.

  \<^bold>\<open>Shared theories\<close>

  \<^item> \<^verbatim>\<open>Prelude\<close>: integers, \<open>Result\<close>, checked and saturating arithmetic, big-endian bytes.
  \<^item> \<^verbatim>\<open>Reserve_Ledger\<close>, \<^verbatim>\<open>Durable_State\<close>: contracts, as locales. The first is interpreted by both admission ledgers,
    the second by the incarnation header and by the client resume record.
  \<^item> \<^verbatim>\<open>BTree_Map\<close>, \<^verbatim>\<open>Floats\<close>: what the sources use of ordered maps and of \<open>f64\<close>.

  \<^bold>\<open>Admission (liminal-protocol)\<close>

  \<^item> \<^verbatim>\<open>Algebra\<close> models \<open>algebra/\<close>: resource vectors, mandatory capacity, recovery transfer and floors. Transfers conserve
    capacity.
  \<^item> \<^verbatim>\<open>Sequence_Ledger\<close> and \<^verbatim>\<open>Order_Ledger\<close> model \<open>lifecycle/admission/sequence.rs\<close> and \<open>order.rs\<close>. Admission is exact, every
    reachable ledger can pay its reserve, and fenced recovery always succeeds.
  \<^item> \<^verbatim>\<open>Capacity_Admission\<close> models \<open>capacity.rs\<close>, \<open>observer.rs\<close> and \<open>record.rs\<close>. Windows never exceed their limit.
  \<^item> \<^verbatim>\<open>Incarnation\<close> models \<open>lifecycle/incarnation.rs\<close>. Allocation finds the least free ordinal, and no incarnation is
    published twice however starts, crashes and allocations interleave.

  \<^bold>\<open>Wire protocols\<close>

  \<^item> \<^verbatim>\<open>Wire_Frames\<close>, \<^verbatim>\<open>Payload_Codec\<close>, \<^verbatim>\<open>Envelope_Codec\<close>, \<^verbatim>\<open>Frame_Codec\<close>, \<^verbatim>\<open>Frame_Roundtrip\<close> model \<open>protocol/frame.rs\<close>, \<open>codec.rs\<close> and
    its submodules. Encoding produces the frame's bytes; decoding inverts it and is sound for arbitrary input.
  \<^item> \<^verbatim>\<open>Wire_Types\<close>, \<^verbatim>\<open>Wire_Values\<close>, \<^verbatim>\<open>Wire_Tags\<close>, \<^verbatim>\<open>Wire_Decoder\<close>, \<^verbatim>\<open>Server_Codec\<close>, \<^verbatim>\<open>Participant_Codec\<close> model \<open>liminal-protocol/src/wire\<close>;
    \<^verbatim>\<open>Server_Fields\<close>, \<^verbatim>\<open>Server_Roundtrip\<close> and \<^verbatim>\<open>Participant_Roundtrip\<close> prove the codec exact: it accepts precisely the bytes of
    well-formed values, and the inbound gate admits only what the connection's state allows.
  \<^item> \<^verbatim>\<open>Connection\<close> and \<^verbatim>\<open>Backpressure\<close> model \<open>lifecycle.rs\<close>, \<open>version.rs\<close>, \<open>handshake.rs\<close>, \<open>schema.rs\<close>, \<open>multiplex.rs\<close> and
    \<open>backpressure.rs\<close>: the exact histories of a connection, of its streams and of their credit.

  \<^bold>\<open>Bus library (liminal)\<close>

  \<^item> \<^verbatim>\<open>Causal_Orderer\<close> models \<open>causal.rs\<close> and \<open>causal/orderer.rs\<close>: no message before its parent unless it has expired.
  \<^item> \<^verbatim>\<open>Pressure\<close> models \<open>pressure/\<close> (capacity, signals, policy); \<^verbatim>\<open>Routing\<close> and \<^verbatim>\<open>Dispatch\<close> model \<open>routing/\<close>: compiled plans
    decide as the predicates, the table agrees with its log, and dispatch ends.

  \<^bold>\<open>Client participant (liminal-protocol/src/client)\<close>

  \<^item> \<^verbatim>\<open>Client_Correlation\<close>, \<^verbatim>\<open>Client_Aggregate\<close>, \<^verbatim>\<open>Client_Barrier\<close>, \<^verbatim>\<open>Client_Inbound\<close>, \<^verbatim>\<open>Client_Reconnect\<close>, \<^verbatim>\<open>Client_Resume\<close> model
    \<open>correlation.rs\<close>, \<open>client.rs\<close> with \<open>replay.rs\<close>, \<open>barrier.rs\<close>, \<open>inbound.rs\<close>, \<open>reconnect.rs\<close> and the three resume files, one
    function per function.
  \<^item> \<^verbatim>\<open>Client_Invariant\<close>: well-formedness of the aggregate, kept by every operation. \<^verbatim>\<open>Client_Resume_Codec\<close>: the record codec
    is exact.
  \<^item> \<^verbatim>\<open>Client_System\<close>: the system of the aggregate, the one-use handles it has given out, and the stored record, with one
    step per public call, and restarts. Authorities are unique and can be spent, records restore, and the admission of
    an operation is exact. One theorem shows how an acknowledgement can strand an operation.

  \<^bold>\<open>Remote participant handle (liminal-sdk/src/remote/participant.rs and its submodules)\<close>

  \<^item> \<^verbatim>\<open>Sdk_Participant\<close>: every method as a state transformer. The resume store and the transport are behind traits in the
    source and are parameters here; \<open>durable_store\<close> and \<open>typed_transport\<close> name what their documentation promises: a
    successful persist replaces the stored bytes, a failed one leaves the old or the new bytes, and received frames
    have passed the participant decoder.
  \<^item> \<^verbatim>\<open>Sdk_History\<close>: a triple per method over the invariant of the handle. \<^verbatim>\<open>Sdk_Safety\<close>: processes that call methods in any
    order, lose handles, crash and restore, with separate steps for the parts of a method between which the source
    releases its lock. Stored bytes always restore, sends are write-ahead, storage failures stop
    the handle with their cause, a lost credential attach heals, and an oversized request kills the handle.

  \<^bold>\<open>Other parameters\<close>

  The allocator behind \<open>try_reserve\<close>, the iteration order of \<open>HashMap\<close>, the clock readings, the functions a router
  supervises and the participants of a dispatch are arguments of the definitions that use them.

  \<^bold>\<open>Not modelled\<close>

  \<^item> The server side of the participant protocol: the claim frontier, the edge, binding, attach, detach and membership
    records, the operations over them and their stored events (\<open>liminal-protocol/src/lifecycle\<close> outside the files named
    above), and the service built on them (\<open>liminal-server/src/server/participant\<close>). They are some forty thousand lines whose
    types refer to each other, so that no part of them can be translated faithfully without the rest.
  \<^item> Actors, supervisors, sockets, listeners, timers and processes: channels, conversations, the monitor and enforcement
    actors of pressure, the transports of the SDK, the server's connections, cluster and health endpoints. Their behaviour
    is that of the message runtime, of \<open>tokio\<close> and of the operating system.
  \<^item> The durable database, metrics, tracing, configuration files, examples, scripts and the bindings for other languages.
  \<^item> Planners compiled for tests only, assertions that only debug builds check, and \<open>Debug\<close> and \<open>Display\<close> text.
\<close>

end
